(* ===== verification/Prelude.thy ===== *)
theory Prelude
  imports Complex_Main "HOL-Library.Char_ord" "HOL-Library.List_Lexorder"
    "HOL-Library.Sublist"
begin

text \<open>
  Shared vocabulary of the development.

  \<^item> Text. A \<open>QString\<close> is a HOL \<open>string\<close>, one \<open>char\<close> per UTF-16 code unit, so the modelled
    alphabet is Latin-1. \<open>toLower\<close> and the case-insensitive comparisons are exact on it.
    \<open>tr(...)\<close> is the identity: the source text of a translatable message stands for itself.
  \<^item> Numbers in text. \<open>string_of_nat\<close> is what \<open>QString::arg(int)\<close> and \<open>QString::number\<close> print
    for a non-negative number; it is injective, which the generated client, confirmation and
    request identifiers rely on.
  \<^item> Lists searched by index, as the code's \<open>for (int i = 0; ...)\<close> loops do it: \<open>find_index\<close>.
  \<^item> Reachable states of a component and the locale that lifts an inductive invariant to them.
\<close>

named_theorems qd_defs \<open>definitions of the modelled operations\<close>
named_theorems qd_text \<open>facts on the text operations\<close>
named_theorems qd_inv \<open>preservation of a component's invariant by one operation\<close>

type_synonym qstring = string


section \<open>Text\<close>

definition toLower_char :: "char \<Rightarrow> char" where
  "toLower_char c =
     (let n = (of_char c :: nat)
      in if (65 \<le> n \<and> n \<le> 90) \<or> (192 \<le> n \<and> n \<le> 222 \<and> n \<noteq> 215)
         then char_of (n + 32) else c)"

definition toLower :: "qstring \<Rightarrow> qstring" where
  "toLower s = map toLower_char s"

definition startsWith :: "qstring \<Rightarrow> qstring \<Rightarrow> bool" where
  "startsWith s p \<longleftrightarrow> take (length p) s = p"

definition endsWith :: "qstring \<Rightarrow> qstring \<Rightarrow> bool" where
  "endsWith s p \<longleftrightarrow> length p \<le> length s \<and> drop (length s - length p) s = p"

fun contains_str :: "qstring \<Rightarrow> qstring \<Rightarrow> bool" where
  "contains_str [] p \<longleftrightarrow> p = []"
| "contains_str (c # cs) p \<longleftrightarrow> startsWith (c # cs) p \<or> contains_str cs p"

text \<open>The comparisons with a \<open>Qt::CaseSensitivity\<close> argument; \<open>True\<close> is case-insensitive.\<close>

definition fold_case :: "bool \<Rightarrow> qstring \<Rightarrow> qstring" where
  "fold_case ci s = (if ci then toLower s else s)"

definition contains_cs :: "bool \<Rightarrow> qstring \<Rightarrow> qstring \<Rightarrow> bool" where
  "contains_cs ci s p \<longleftrightarrow> contains_str (fold_case ci s) (fold_case ci p)"

definition equals_cs :: "bool \<Rightarrow> qstring \<Rightarrow> qstring \<Rightarrow> bool" where
  "equals_cs ci s p \<longleftrightarrow> fold_case ci s = fold_case ci p"

definition startsWith_cs :: "bool \<Rightarrow> qstring \<Rightarrow> qstring \<Rightarrow> bool" where
  "startsWith_cs ci s p \<longleftrightarrow> startsWith (fold_case ci s) (fold_case ci p)"

fun join :: "qstring list \<Rightarrow> qstring \<Rightarrow> qstring" where
  "join [] sep = []"
| "join [x] sep = x"
| "join (x # y # ys) sep = x @ sep @ join (y # ys) sep"

lemma startsWith_prefix [qd_text]: "startsWith s p \<longleftrightarrow> prefix p s"
  unfolding startsWith_def prefix_def by (metis append_eq_conv_conj)

lemma endsWith_suffix [qd_text]: "endsWith s p \<longleftrightarrow> suffix p s"
proof
  assume "endsWith s p"
  then have "s = take (length s - length p) s @ p"
    unfolding endsWith_def by (metis append_take_drop_id)
  then show "suffix p s" unfolding suffix_def by blast
next
  assume "suffix p s"
  then show "endsWith s p" by (auto simp: suffix_def endsWith_def)
qed

lemma contains_str_sublist [qd_text]: "contains_str s p \<longleftrightarrow> sublist p s"
proof (induction s)
  case Nil
  then show ?case by simp
next
  case (Cons c cs)
  then show ?case by (auto simp: startsWith_prefix sublist_Cons_right)
qed

lemma contains_str_Nil [simp]: "contains_str s []"
  by (simp add: contains_str_sublist)

lemma toLower_char_idem [simp]: "toLower_char (toLower_char c) = toLower_char c"
proof -
  have "of_char (char_of (n + 32) :: char) = n + 32" if "n \<le> 222" for n :: nat
    using that by simp
  then show ?thesis by (auto simp: toLower_char_def Let_def)
qed

lemma toLower_idem [simp]: "toLower (toLower s) = toLower s"
  by (simp add: toLower_def)

lemma length_toLower [simp]: "length (toLower s) = length s"
  by (simp add: toLower_def)

lemma length_fold_case [simp]: "length (fold_case ci s) = length s"
  by (simp add: fold_case_def)

lemma fold_case_eq_Nil [simp]: "fold_case ci s = [] \<longleftrightarrow> s = []"
  by (simp add: fold_case_def toLower_def)


section \<open>Decimal numbers\<close>

fun string_of_nat :: "nat \<Rightarrow> qstring" where
  "string_of_nat n =
     (if n < 10 then [char_of (48 + n)]
      else string_of_nat (n div 10) @ [char_of (48 + n mod 10)])"

declare string_of_nat.simps [simp del]

definition string_of_int :: "int \<Rightarrow> qstring" where
  "string_of_int i = (if i < 0 then ''-'' @ string_of_nat (nat (- i)) else string_of_nat (nat i))"

definition nat_of_string :: "qstring \<Rightarrow> nat" where
  "nat_of_string s = foldl (\<lambda>a c. 10 * a + (of_char c - 48)) 0 s"

lemma nat_of_string_snoc: "nat_of_string (s @ [c]) = 10 * nat_of_string s + (of_char c - 48)"
  by (simp add: nat_of_string_def)

lemma nat_of_string_of_nat: "nat_of_string (string_of_nat n) = n"
proof (induction n rule: string_of_nat.induct)
  case (1 n)
  show ?case
  proof (cases "n < 10")
    case True
    then show ?thesis
      by (simp add: string_of_nat.simps[of n] nat_of_string_def)
  next
    case False
    with 1 show ?thesis
      by (simp add: string_of_nat.simps[of n] nat_of_string_snoc)
  qed
qed

lemma string_of_nat_inject [simp]: "string_of_nat m = string_of_nat n \<longleftrightarrow> m = n"
  by (metis nat_of_string_of_nat)

lemma string_of_nat_nonempty [simp]: "string_of_nat n \<noteq> []"
  by (subst string_of_nat.simps) simp


definition digit_value :: "char \<Rightarrow> nat option" where
  "digit_value c = (let n = of_char c in if 48 \<le> n \<and> n \<le> 57 then Some (n - 48) else None)"

text \<open>\<open>QString::split\<close> with a character, and \<open>QString::toInt\<close>, which gives 0 for what is not a 32-bit number.\<close>

fun split_char :: "char \<Rightarrow> qstring \<Rightarrow> qstring list" where
  "split_char c [] = [[]]"
| "split_char c (x # xs) =
     (if x = c then [] # split_char c xs
      else case split_char c xs of [] \<Rightarrow> [[x]] | p # ps \<Rightarrow> (x # p) # ps)"

definition is_space :: "char \<Rightarrow> bool" where
  "is_space c \<longleftrightarrow> (let n = (of_char c :: nat) in n = 32 \<or> (9 \<le> n \<and> n \<le> 13) \<or> n = 0x85 \<or> n = 0xA0)"

definition trimmed :: "qstring \<Rightarrow> qstring" where
  "trimmed s = rev (dropWhile is_space (rev (dropWhile is_space s)))"

definition string_toInt :: "qstring \<Rightarrow> int" where
  "string_toInt s =
     (let t = trimmed s; neg = (t \<noteq> [] \<and> t ! 0 = CHR ''-'');
          ds = (if t \<noteq> [] \<and> (t ! 0 = CHR ''-'' \<or> t ! 0 = CHR ''+'') then drop 1 t else t);
          v = (if neg then - int (nat_of_string ds) else int (nat_of_string ds))
      in if ds \<noteq> [] \<and> list_all (\<lambda>c. digit_value c \<noteq> None) ds \<and> - (2 ^ 31) \<le> v \<and> v < 2 ^ 31 then v else 0)"

lemma digits_of_nat: "c \<in> set (string_of_nat n) \<Longrightarrow> digit_value c \<noteq> None"
proof (induction n rule: string_of_nat.induct)
  case (1 n)
  have d: "digit_value (char_of (48 + k)) \<noteq> None" if "k < 10" for k :: nat using that by (simp add: digit_value_def)
  show ?case
    using 1 d[of n] d[of "n mod 10"] by (cases "n < 10") (auto simp: string_of_nat.simps[of n])
qed

lemma digit_no_space: "digit_value c \<noteq> None \<Longrightarrow> \<not> is_space c \<and> c \<noteq> CHR ''-'' \<and> c \<noteq> CHR ''+''"
  by (auto simp: digit_value_def is_space_def Let_def split: if_splits)

lemma trimmed_id: "\<forall>c \<in> set s. \<not> is_space c \<Longrightarrow> trimmed s = s"
proof -
  assume a: "\<forall>c \<in> set s. \<not> is_space c"
  have "dropWhile is_space xs = xs" if "set xs \<subseteq> set s" for xs using that a by (cases xs) auto
  then show ?thesis by (simp add: trimmed_def)
qed

lemma trimmed_string_of_int: "trimmed (string_of_int i) = string_of_int i"
  by (rule trimmed_id) (auto simp: string_of_int_def is_space_def Let_def dest!: digits_of_nat digit_no_space split: if_splits)

lemma string_toInt_of_int:
  assumes "- (2 ^ 31) \<le> i" "i < 2 ^ 31"
  shows "string_toInt (string_of_int i) = i"
proof (cases "i < 0")
  case True
  then show ?thesis using assms digits_of_nat[of _ "nat (- i)"]
    by (auto simp: string_toInt_def trimmed_string_of_int) (auto simp: string_of_int_def nat_of_string_of_nat list_all_iff)
next
  case False
  have "string_of_nat (nat i) ! 0 \<in> set (string_of_nat (nat i))" by (rule nth_mem) simp
  then have "string_of_nat (nat i) ! 0 \<noteq> CHR ''-''" "string_of_nat (nat i) ! 0 \<noteq> CHR ''+''"
    using digits_of_nat digit_no_space by blast+
  then show ?thesis using assms False digits_of_nat[of _ "nat i"]
    by (auto simp: string_toInt_def trimmed_string_of_int) (auto simp: string_of_int_def nat_of_string_of_nat list_all_iff)
qed

text \<open>
  \<open>QString::arg(a)\<close>: every occurrence of the place marker (\<open>%1\<close> to \<open>%99\<close>, also \<open>%L1\<close>) with the lowest
  number is replaced. In a chain of calls the second call sees the text the first one inserted.
\<close>

fun marker_digits :: "qstring \<Rightarrow> (nat \<times> qstring) option" where
  "marker_digits [] = None"
| "marker_digits (c # cs) =
     (case digit_value c of
        None \<Rightarrow> None
      | Some a \<Rightarrow>
          (case cs of
             [] \<Rightarrow> Some (a, [])
           | d # ds \<Rightarrow> (case digit_value d of None \<Rightarrow> Some (a, cs) | Some b \<Rightarrow> Some (10 * a + b, ds))))"

definition marker_at :: "qstring \<Rightarrow> (nat \<times> qstring) option" where
  "marker_at s = (case s of CHR ''L'' # s' \<Rightarrow> marker_digits s' | _ \<Rightarrow> marker_digits s)"

lemma marker_digits_shorter: "marker_digits s = Some (n, rest) \<Longrightarrow> length rest < length s"
  by (cases s) (auto split: option.splits list.splits)

lemma marker_at_shorter: "marker_at s = Some (n, rest) \<Longrightarrow> length rest < length s"
proof (cases "\<exists>s'. s = CHR ''L'' # s'")
  case True
  moreover assume "marker_at s = Some (n, rest)"
  ultimately show ?thesis using marker_digits_shorter by (fastforce simp: marker_at_def)
next
  case False
  moreover assume "marker_at s = Some (n, rest)"
  ultimately have "marker_digits s = Some (n, rest)"
    unfolding marker_at_def by (auto split: list.splits char.splits bool.splits)
  then show ?thesis by (rule marker_digits_shorter)
qed

function markers :: "qstring \<Rightarrow> nat list" where
  "markers [] = []"
| "markers (c # cs) =
     (if c = CHR ''%'' then (case marker_at cs of Some (n, rest) \<Rightarrow> n # markers rest | None \<Rightarrow> markers cs)
      else markers cs)"
  by pat_completeness auto
termination by (relation "measure length") (auto dest: marker_at_shorter)

function replace_marker :: "nat \<Rightarrow> qstring \<Rightarrow> qstring \<Rightarrow> qstring" where
  "replace_marker m a [] = []"
| "replace_marker m a (c # cs) =
     (if c = CHR ''%''
      then (case marker_at cs of
              Some (n, rest) \<Rightarrow>
                (if n = m then a else c # take (length cs - length rest) cs) @ replace_marker m a rest
            | None \<Rightarrow> c # replace_marker m a cs)
      else c # replace_marker m a cs)"
  by pat_completeness auto
termination by (relation "measure (\<lambda>(m, a, s). length s)") (auto dest: marker_at_shorter)

definition qarg :: "qstring \<Rightarrow> qstring \<Rightarrow> qstring" where
  "qarg s a = (case markers s of [] \<Rightarrow> s | m # ms \<Rightarrow> replace_marker (foldl min m ms) a s)"


section \<open>Lists\<close>

text \<open>The first index at which a predicate holds, \<open>None\<close> where the code's search returns \<open>-1\<close>.\<close>

fun find_index :: "('a \<Rightarrow> bool) \<Rightarrow> 'a list \<Rightarrow> nat option" where
  "find_index P [] = None"
| "find_index P (x # xs) = (if P x then Some 0 else map_option Suc (find_index P xs))"

lemma find_index_None [simp]: "find_index P xs = None \<longleftrightarrow> (\<forall>x \<in> set xs. \<not> P x)"
  by (induction xs) auto

lemma find_index_SomeD:
  "find_index P xs = Some i \<Longrightarrow> i < length xs \<and> P (xs ! i) \<and> (\<forall>j < i. \<not> P (xs ! j))"
proof (induction xs arbitrary: i)
  case Nil
  then show ?case by simp
next
  case (Cons x xs)
  then show ?case
    by (auto split: if_splits simp: less_Suc_eq_0_disj)
qed

lemma find_index_append:
  "find_index P (xs @ ys) =
     (case find_index P xs of Some i \<Rightarrow> Some i
      | None \<Rightarrow> map_option (\<lambda>i. i + length xs) (find_index P ys))"
proof (induction xs)
  case Nil
  then show ?case by (simp add: option.map_ident)
next
  case (Cons x xs)
  then show ?case
    by (cases "find_index P xs") (auto simp del: find_index_None simp: option.map_comp comp_def)
qed

lemma find_index_lengthD: "find_index P xs = Some i \<Longrightarrow> i < length xs"
  by (simp add: find_index_SomeD)

lemma find_index_nthD: "find_index P xs = Some i \<Longrightarrow> P (xs ! i)"
  by (simp add: find_index_SomeD)

lemma length_filter_mono:
  "(\<And>x. P x \<Longrightarrow> Q x) \<Longrightarrow> length (filter P xs) \<le> length (filter Q xs)"
  by (induction xs) (auto simp: le_Suc_eq)

text \<open>Removing one position, as \<open>removeAt\<close> does.\<close>

definition remove_at :: "nat \<Rightarrow> 'a list \<Rightarrow> 'a list" where
  "remove_at i xs = take i xs @ drop (Suc i) xs"

lemma set_remove_at: "distinct xs \<Longrightarrow> i < length xs \<Longrightarrow> set (remove_at i xs) = set xs - {xs ! i}"
proof -
  assume d: "distinct xs" and i: "i < length xs"
  have split: "xs = take i xs @ xs ! i # drop (Suc i) xs"
    using i by (rule id_take_nth_drop)
  from d have "distinct (take i xs @ xs ! i # drop (Suc i) xs)"
    using split by metis
  then have "xs ! i \<notin> set (take i xs)" and "xs ! i \<notin> set (drop (Suc i) xs)" by auto
  moreover have "set xs = insert (xs ! i) (set (take i xs) \<union> set (drop (Suc i) xs))"
    using split by (metis Un_insert_right list.simps(15) set_append)
  ultimately show ?thesis by (auto simp: remove_at_def)
qed

lemma set_remove_at_subset: "set (remove_at i xs) \<subseteq> set xs"
  by (auto simp: remove_at_def dest: in_set_takeD in_set_dropD)

lemma length_remove_at: "i < length xs \<Longrightarrow> length (remove_at i xs) = length xs - 1"
  by (simp add: remove_at_def)

lemma distinct_remove_at: "distinct xs \<Longrightarrow> distinct (remove_at i xs)"
proof -
  assume d: "distinct xs"
  show ?thesis
  proof (cases "i < length xs")
    case True
    have "distinct (take i xs @ xs ! i # drop (Suc i) xs)"
      using d id_take_nth_drop[OF True] by metis
    then show ?thesis by (simp add: remove_at_def)
  next
    case False
    with d show ?thesis by (simp add: remove_at_def)
  qed
qed

lemma map_remove_at: "map f (remove_at i xs) = remove_at i (map f xs)"
  by (simp add: remove_at_def take_map drop_map)


section \<open>Associative containers\<close>

text \<open>
  \<open>QMap\<close> (and \<open>QHash\<close>, whose iteration order Qt leaves open) as an association list in key
  order: \<open>m[k] = v\<close> and \<open>insert\<close> are \<open>qm_insert\<close>, \<open>remove\<close> is \<open>qm_remove\<close>, \<open>keys()\<close> is
  \<open>map fst\<close>, \<open>value(k, d)\<close> is \<open>qm_value d m k\<close>. What a map holds is \<open>map_of m\<close>.
\<close>

type_synonym ('k, 'v) qmap = "('k \<times> 'v) list"

fun qm_insert :: "'k::linorder \<Rightarrow> 'v \<Rightarrow> ('k, 'v) qmap \<Rightarrow> ('k, 'v) qmap" where
  "qm_insert k v [] = [(k, v)]"
| "qm_insert k v ((k', v') # m) =
     (if k = k' then (k, v) # m
      else if k < k' then (k, v) # (k', v') # m
      else (k', v') # qm_insert k v m)"

definition qm_remove :: "'k \<Rightarrow> ('k, 'v) qmap \<Rightarrow> ('k, 'v) qmap" where
  "qm_remove k m = filter (\<lambda>kv. fst kv \<noteq> k) m"

definition qm_contains :: "('k, 'v) qmap \<Rightarrow> 'k \<Rightarrow> bool" where
  "qm_contains m k \<longleftrightarrow> map_of m k \<noteq> None"

definition qm_value :: "'v \<Rightarrow> ('k, 'v) qmap \<Rightarrow> 'k \<Rightarrow> 'v" where
  "qm_value d m k = (case map_of m k of None \<Rightarrow> d | Some v \<Rightarrow> v)"

abbreviation qm_keys :: "('k, 'v) qmap \<Rightarrow> 'k list" where
  "qm_keys m \<equiv> map fst m"

lemma map_of_qm_insert [simp]: "map_of (qm_insert k v m) = (map_of m)(k \<mapsto> v)"
  by (induction k v m rule: qm_insert.induct) auto

lemma map_of_qm_remove [simp]: "map_of (qm_remove k m) = (map_of m)(k := None)"
  by (induction m) (auto simp: qm_remove_def)

lemma qm_insert_keys [simp]: "fst ` set (qm_insert k v m) = insert k (fst ` set m)"
  by (induction k v m rule: qm_insert.induct) auto

lemma qm_remove_keys [simp]: "fst ` set (qm_remove k m) = fst ` set m - {k}"
  by (auto simp: qm_remove_def)

lemma qm_contains_insert [simp]: "qm_contains (qm_insert k v m) k' \<longleftrightarrow> k' = k \<or> qm_contains m k'"
  by (auto simp: qm_contains_def)

lemma qm_contains_remove [simp]: "qm_contains (qm_remove k m) k' \<longleftrightarrow> k' \<noteq> k \<and> qm_contains m k'"
  by (auto simp: qm_contains_def)

lemma qm_contains_Nil [simp]: "\<not> qm_contains [] k"
  by (simp add: qm_contains_def)

lemma qm_contains_keys: "qm_contains m k \<longleftrightarrow> k \<in> set (qm_keys m)"
  by (simp add: qm_contains_def map_of_eq_None_iff)

lemma qm_insert_sorted:
  "sorted_wrt (<) (qm_keys m) \<Longrightarrow> sorted_wrt (<) (qm_keys (qm_insert k v m))"
proof (induction k v m rule: qm_insert.induct)
  case (1 k v)
  then show ?case by simp
next
  case (2 k v k' v' m)
  show ?case
  proof (cases "k = k' \<or> k < k'")
    case True
    with 2 show ?thesis by auto
  next
    case False
    then have "k' < k" by auto
    with 2 have "\<forall>x \<in> fst ` set (qm_insert k v m). k' < x"
      unfolding qm_insert_keys by auto
    with 2 False show ?thesis by simp
  qed
qed

lemma qm_remove_sorted:
  "sorted_wrt (<) (qm_keys m) \<Longrightarrow> sorted_wrt (<) (qm_keys (qm_remove k m))"
  by (induction m) (auto simp: qm_remove_def)

lemma strict_sorted_distinct: "sorted_wrt (<) (xs :: 'a::linorder list) \<Longrightarrow> distinct xs"
  by (induction xs) auto

lemma qm_value_insert: "qm_value d (qm_insert k v m) k' = (if k' = k then v else qm_value d m k')"
  by (simp add: qm_value_def)

lemma qm_values:
  fixes m :: "('k::linorder, 'v) qmap"
  shows "sorted_wrt (<) (qm_keys m) \<Longrightarrow> snd ` set m = {v. \<exists>k. map_of m k = Some v}"
  using map_of_eq_Some_iff[OF strict_sorted_distinct, of m] by force


section \<open>Reachable states and invariants\<close>

inductive reachable :: "('s \<Rightarrow> bool) \<Rightarrow> ('s \<Rightarrow> 's \<Rightarrow> bool) \<Rightarrow> 's \<Rightarrow> bool"
  for initial :: "'s \<Rightarrow> bool" and step :: "'s \<Rightarrow> 's \<Rightarrow> bool" where
  reach_init: "initial s \<Longrightarrow> reachable initial step s"
| reach_step: "reachable initial step s \<Longrightarrow> step s t \<Longrightarrow> reachable initial step t"

text \<open>
  A component is a set of initial states and a step relation. An inductive invariant of it
  holds in every reachable state, and a fact that no step undoes holds from then on.
\<close>

locale invariant_system =
  fixes initial :: "'s \<Rightarrow> bool"
    and step :: "'s \<Rightarrow> 's \<Rightarrow> bool"
    and inv :: "'s \<Rightarrow> bool"
  assumes inv_initial: "initial s \<Longrightarrow> inv s"
    and inv_step: "inv s \<Longrightarrow> step s t \<Longrightarrow> inv t"
begin

lemma reachable_inv: "reachable initial step s \<Longrightarrow> inv s"
  by (induction rule: reachable.induct) (auto intro: inv_initial inv_step)

lemma steps_inv: "step\<^sup>*\<^sup>* s t \<Longrightarrow> inv s \<Longrightarrow> inv t"
  by (induction rule: rtranclp_induct) (auto intro: inv_step)

end

text \<open>A stable property: once it holds it is kept by every step.\<close>

lemma stable_steps:
  assumes "\<And>s t. P s \<Longrightarrow> step s t \<Longrightarrow> P t" and "step\<^sup>*\<^sup>* s t" and "P s"
  shows "P t"
  using assms(2,3) by (induction rule: rtranclp_induct) (auto intro: assms(1))

end
