(* ===== verification/Json.thy ===== *)
theory Json
  imports Prelude
begin

text \<open>
  The JSON values the components exchange: \<open>QJsonValue\<close>, \<open>QJsonArray\<close> and \<open>QJsonObject\<close>.

  An object is an association list kept in key order by \<open>oset\<close>, as \<open>QJsonObject\<close> keeps its
  entries, so that equal objects are equal lists. Reading a missing key gives the undefined
  value. The conversions (\<open>toString\<close>, \<open>toInt\<close>, ...) return their default argument for a value
  of another type, as Qt documents them. Numbers are exact reals in place of doubles.
  The JSON text format is Qt's and is a parameter of the components that read or write it.
\<close>

datatype json =
    JUndefined
  | JNull
  | JBool bool
  | JNum real
  | JStr qstring
  | JArr "json list"
  | JObj "(qstring \<times> json) list"

type_synonym jobject = "(qstring \<times> json) list"

abbreviation JInt :: "int \<Rightarrow> json" where
  "JInt i \<equiv> JNum (real_of_int i)"


section \<open>Conversions\<close>

fun toStringD :: "qstring \<Rightarrow> json \<Rightarrow> qstring" where
  "toStringD d (JStr s) = s"
| "toStringD d _ = d"

abbreviation toString :: "json \<Rightarrow> qstring" where
  "toString \<equiv> toStringD []"

fun toBoolD :: "bool \<Rightarrow> json \<Rightarrow> bool" where
  "toBoolD d (JBool b) = b"
| "toBoolD d _ = d"

abbreviation toBool :: "json \<Rightarrow> bool" where
  "toBool \<equiv> toBoolD False"

text \<open>\<open>toInt\<close>: the default unless the value is a whole number in the range of a 32-bit \<open>int\<close>.\<close>

fun toIntD :: "int \<Rightarrow> json \<Rightarrow> int" where
  "toIntD d (JNum r) =
     (if r = real_of_int \<lfloor>r\<rfloor> \<and> - (2 ^ 31) \<le> \<lfloor>r\<rfloor> \<and> \<lfloor>r\<rfloor> < 2 ^ 31 then \<lfloor>r\<rfloor> else d)"
| "toIntD d _ = d"

abbreviation toInt :: "json \<Rightarrow> int" where
  "toInt \<equiv> toIntD 0"

fun toDouble :: "json \<Rightarrow> real" where
  "toDouble (JNum r) = r"
| "toDouble _ = 0"

fun toArray :: "json \<Rightarrow> json list" where
  "toArray (JArr xs) = xs"
| "toArray _ = []"

fun toObject :: "json \<Rightarrow> jobject" where
  "toObject (JObj kvs) = kvs"
| "toObject _ = []"

lemma toIntD_range: "- (2 ^ 31) \<le> d \<Longrightarrow> d < 2 ^ 31 \<Longrightarrow> - (2 ^ 31) \<le> toIntD d v \<and> toIntD d v < 2 ^ 31"
  by (cases v) auto

lemma toIntD_JInt [simp]: "- (2 ^ 31) \<le> i \<Longrightarrow> i < 2 ^ 31 \<Longrightarrow> toIntD d (JInt i) = i"
  by simp


section \<open>Objects\<close>

definition oget :: "jobject \<Rightarrow> qstring \<Rightarrow> json" where
  "oget ob k = (case map_of ob k of None \<Rightarrow> JUndefined | Some v \<Rightarrow> v)"

definition ocontains :: "jobject \<Rightarrow> qstring \<Rightarrow> bool" where
  "ocontains ob k \<longleftrightarrow> map_of ob k \<noteq> None"

abbreviation oset :: "qstring \<Rightarrow> json \<Rightarrow> jobject \<Rightarrow> jobject" where
  "oset \<equiv> qm_insert"

text \<open>The initialiser list \<open>QJsonObject{{k, v}, ...}\<close>: the entries inserted in order.\<close>

definition mkobj :: "(qstring \<times> json) list \<Rightarrow> jobject" where
  "mkobj kvs = foldl (\<lambda>ob (k, v). oset k v ob) [] kvs"

lemma oget_oset: "oget (oset k v ob) k' = (if k' = k then v else oget ob k')"
  by (simp add: oget_def)

lemma ocontains_oset: "ocontains (oset k v ob) k' \<longleftrightarrow> k' = k \<or> ocontains ob k'"
  by (auto simp: ocontains_def)

lemma oget_Nil [simp]: "oget [] k = JUndefined"
  by (simp add: oget_def)

lemma ocontains_Nil [simp]: "\<not> ocontains [] k"
  by (simp add: ocontains_def)

lemma oget_absent: "\<not> ocontains ob k \<Longrightarrow> oget ob k = JUndefined"
  by (simp add: ocontains_def oget_def)

lemma mkobj_snoc: "mkobj (kvs @ [(k, v)]) = oset k v (mkobj kvs)"
  by (simp add: mkobj_def)

lemma mkobj_Nil [simp]: "mkobj [] = []"
  by (simp add: mkobj_def)

lemma map_of_mkobj: "map_of (mkobj kvs) = map_of (rev kvs)"
  by (induction kvs rule: rev_induct) (auto simp: mkobj_snoc)

lemma oget_mkobj: "oget (mkobj kvs) k = (case map_of (rev kvs) k of None \<Rightarrow> JUndefined | Some v \<Rightarrow> v)"
  by (simp add: oget_def map_of_mkobj)

lemma ocontains_mkobj: "ocontains (mkobj kvs) k \<longleftrightarrow> k \<in> fst ` set kvs"
  by (simp add: ocontains_def map_of_mkobj map_of_eq_None_iff)

lemma mkobj_sorted: "sorted_wrt (<) (map fst (mkobj kvs))"
proof (induction kvs rule: rev_induct)
  case Nil
  then show ?case by simp
next
  case (snoc kv kvs)
  obtain k v where "kv = (k, v)" by (cases kv)
  with snoc show ?case by (simp add: mkobj_snoc qm_insert_sorted)
qed

lemmas json_lookup = oget_mkobj ocontains_mkobj oget_oset ocontains_oset

end
