(* ===== verification/NativeMessaging.thy ===== *)
theory NativeMessaging
  imports Json "HOL-Library.Word"
begin

text \<open>
  \<open>QuickDesk/src/manager/NativeMessaging.cpp\<close>: the framed JSON channel between the GUI and the
  host and client processes (a 4-byte little-endian length, then the JSON text), over a child
  process's pipes or over two local sockets.

  The operating system's side is an argument: the state of the process or the sockets, the bytes
  that arrived, the number of bytes a write accepted. The JSON text codec is Qt's: \<open>toJson\<close> and
  \<open>fromJson\<close> are arguments. Signals are the returned event list. The length arithmetic is done
  in 32-bit words as in the code. The read loop need not end (see \<open>parseBuffer_diverges\<close>), so it
  is a partial function: \<open>None\<close> is a loop that never leaves \<open>parseBuffer\<close>.
\<close>

unbundle bit_operations_syntax

type_synonym byte = "8 word"


section \<open>State\<close>

datatype process_state = PNotRunning | PStarting | PRunning
datatype socket_state = SUnconnected | SConnecting | SConnected | SClosing

text \<open>The transports are pointers: \<open>None\<close> is the null pointer.\<close>

record native_messaging =
  nm_process :: "process_state option"
  nm_readSocket :: "socket_state option"
  nm_writeSocket :: "socket_state option"
  nm_buffer :: "byte list"

datatype nm_event =
    nm_messageReceived jobject
  | nm_errorOccurred qstring
  | nm_wrote "byte list" \<comment> \<open>bytes handed to the transport\<close>

text \<open>What \<open>QJsonDocument::fromJson\<close> reports: a parse error, an object, or another document.\<close>

datatype json_doc = ParseError qstring | ObjectDoc jobject | OtherDoc

definition NativeMessaging_process :: "process_state \<Rightarrow> native_messaging" where
  "NativeMessaging_process p =
     \<lparr>nm_process = Some p, nm_readSocket = None, nm_writeSocket = None, nm_buffer = []\<rparr>"

definition NativeMessaging_sockets :: "socket_state \<Rightarrow> socket_state \<Rightarrow> native_messaging" where
  "NativeMessaging_sockets r w =
     \<lparr>nm_process = None, nm_readSocket = Some r, nm_writeSocket = Some w, nm_buffer = []\<rparr>"


section \<open>Sending\<close>

definition encodeMessage :: "(jobject \<Rightarrow> byte list) \<Rightarrow> jobject \<Rightarrow> byte list" where
  "encodeMessage toJson message =
     (let json = toJson message;
          len = (of_nat (length json) :: 32 word)
      in [ucast (len AND 0xFF),
          ucast (drop_bit 8 len AND 0xFF),
          ucast (drop_bit 16 len AND 0xFF),
          ucast (drop_bit 24 len AND 0xFF)] @ json)"

text \<open>\<open>write\<close> is the result of \<open>QIODevice::write\<close>, the number of bytes accepted or \<open>-1\<close>.\<close>

definition sendMessage ::
    "(jobject \<Rightarrow> byte list) \<Rightarrow> (byte list \<Rightarrow> int) \<Rightarrow> jobject \<Rightarrow> native_messaging \<Rightarrow> nm_event list" where
  "sendMessage toJson write message nm =
     (let encoded = encodeMessage toJson message;
          written = write encoded;
          after = (if written \<noteq> int (length encoded)
                   then [nm_errorOccurred (''Failed to write message: wrote '' @ string_of_int written
                           @ '' of '' @ string_of_nat (length encoded) @ '' bytes'')]
                   else [])
      in case nm_process nm of
           Some p \<Rightarrow> if p \<noteq> PRunning then [nm_errorOccurred ''Process is not running'']
                     else nm_wrote encoded # after
         | None \<Rightarrow>
             (case nm_writeSocket nm of
                Some w \<Rightarrow> if w \<noteq> SConnected then [nm_errorOccurred ''Socket is not connected'']
                          else nm_wrote encoded # after
              | None \<Rightarrow> [nm_errorOccurred ''No transport configured (process or socket)'']))"

definition isReady :: "native_messaging \<Rightarrow> bool" where
  "isReady nm =
     (case nm_process nm of
        Some p \<Rightarrow> p = PRunning
      | None \<Rightarrow>
          (case (nm_readSocket nm, nm_writeSocket nm) of
             (Some r, Some w) \<Rightarrow> r = SConnected \<and> w = SConnected
           | _ \<Rightarrow> False))"


section \<open>Receiving\<close>

definition frame_length :: "byte list \<Rightarrow> 32 word" where
  "frame_length buf =
     ucast (buf ! 0) OR push_bit 8 (ucast (buf ! 1))
       OR push_bit 16 (ucast (buf ! 2)) OR push_bit 24 (ucast (buf ! 3))"

definition frame_event :: "(byte list \<Rightarrow> json_doc) \<Rightarrow> byte list \<Rightarrow> nm_event" where
  "frame_event fromJson jsonData =
     (case fromJson jsonData of
        ParseError e \<Rightarrow> nm_errorOccurred (''JSON parse error: '' @ e)
      | OtherDoc \<Rightarrow> nm_errorOccurred ''Received non-object JSON''
      | ObjectDoc ob \<Rightarrow> nm_messageReceived ob)"

partial_function (option) parseBuffer ::
    "(byte list \<Rightarrow> json_doc) \<Rightarrow> byte list \<Rightarrow> nm_event list \<Rightarrow> (byte list \<times> nm_event list) option" where
  "parseBuffer fromJson buf out =
     (if length buf < 4 then Some (buf, out)
      else
        let len = frame_length buf in
        if (of_nat (length buf) :: 32 word) < 4 + len then Some (buf, out)
        else parseBuffer fromJson (drop (unat (4 + len)) buf)
               (out @ [frame_event fromJson (take (unat len) (drop 4 buf))]))"

definition onReadyRead ::
    "(byte list \<Rightarrow> json_doc) \<Rightarrow> byte list \<Rightarrow> native_messaging \<Rightarrow> (native_messaging \<times> nm_event list) option" where
  "onReadyRead fromJson chunk nm =
     (let buf = (if nm_process nm \<noteq> None \<or> nm_readSocket nm \<noteq> None
                 then nm_buffer nm @ chunk else nm_buffer nm)
      in map_option (\<lambda>(rest, out). (nm\<lparr>nm_buffer := rest\<rparr>, out)) (parseBuffer fromJson buf []))"

datatype process_error = FailedToStart | Crashed | Timedout | WriteError | ReadError | UnknownError

definition nm_onProcessError :: "process_error \<Rightarrow> nm_event list" where
  "nm_onProcessError err =
     [nm_errorOccurred
        (case err of
           FailedToStart \<Rightarrow> ''Process failed to start''
         | Crashed \<Rightarrow> ''Process crashed''
         | Timedout \<Rightarrow> ''Process timed out''
         | WriteError \<Rightarrow> ''Process write error''
         | ReadError \<Rightarrow> ''Process read error''
         | UnknownError \<Rightarrow> ''Unknown process error'')]"

text \<open>The socket the signal came from is known or not; \<open>code\<close> is the enumerator's number.\<close>

definition onSocketError :: "qstring option \<Rightarrow> nat \<Rightarrow> nm_event list" where
  "onSocketError senderErrorString code =
     [nm_errorOccurred
        (case senderErrorString of
           Some s \<Rightarrow> s
         | None \<Rightarrow> ''Socket error '' @ string_of_nat code)]"

text \<open>A sequence of \<open>readyRead\<close> signals on one channel.\<close>

fun receive ::
    "(byte list \<Rightarrow> json_doc) \<Rightarrow> byte list list \<Rightarrow> native_messaging \<Rightarrow> (native_messaging \<times> nm_event list) option" where
  "receive fromJson [] nm = Some (nm, [])"
| "receive fromJson (c # cs) nm =
     (case onReadyRead fromJson c nm of
        None \<Rightarrow> None
      | Some (nm', out) \<Rightarrow>
          map_option (\<lambda>(nm'', out'). (nm'', out @ out')) (receive fromJson cs nm'))"

declare parseBuffer.simps [code]


section \<open>The length header\<close>

lemma bit_le32:
  fixes a b c d :: "8 word"
  assumes "n < 32"
  shows "bit (ucast a OR push_bit 8 (ucast b) OR push_bit 16 (ucast c) OR push_bit 24 (ucast d) :: 32 word) n =
     (if n < 8 then bit a n else if n < 16 then bit b (n - 8) else if n < 24 then bit c (n - 16) else bit d (n - 24))"
proof -
  have b8: "\<not> bit w k" if "8 \<le> k" for w :: "8 word" and k
    using that bit_imp_le_length[of w k] by auto
  have pb: "possible_bit TYPE(32 word) n" using assms by simp
  have u: "bit (ucast w :: 32 word) k = (k < 8 \<and> bit w k)" for w :: "8 word" and k
    using b8[of k w] by (cases "k < 8") (simp_all add: bit_ucast_iff)
  have split: "bit (ucast a OR push_bit 8 (ucast b) OR push_bit 16 (ucast c) OR push_bit 24 (ucast d) :: 32 word) n =
    ((n < 8 \<and> bit a n) \<or> (8 \<le> n \<and> n - 8 < 8 \<and> bit b (n - 8)) \<or> (16 \<le> n \<and> n - 16 < 8 \<and> bit c (n - 16))
      \<or> (24 \<le> n \<and> n - 24 < 8 \<and> bit d (n - 24)))"
    unfolding bit_or_iff bit_push_bit_iff u using pb by blast
  consider "n < 8" | "8 \<le> n" "n < 16" | "16 \<le> n" "n < 24" | "24 \<le> n" using assms by linarith
  then show ?thesis unfolding split by cases (use assms in \<open>simp_all add: less_diff_conv2\<close>)
qed
lemma bit_low_byte: "k < 8 \<Longrightarrow> bit (ucast (w AND 0xFF) :: 8 word) k = bit (w :: 32 word) k"
proof -
  have "(0xFF :: 32 word) = mask 8" by (simp add: mask_eq_exp_minus_1)
  then show "k < 8 \<Longrightarrow> ?thesis"
    by (simp only: bit_ucast_iff bit_and_iff bit_mask_iff) auto
qed

lemma frame_length_encode:
  "frame_length
     ([ucast (len AND 0xFF), ucast (drop_bit 8 len AND 0xFF),
       ucast (drop_bit 16 len AND 0xFF), ucast (drop_bit 24 len AND 0xFF)] @ rest) = len"
  (is "frame_length ([?a, ?b, ?c, ?d] @ rest) = len")
proof (rule bit_word_eqI)
  fix n
  assume "n < LENGTH(32)"
  then have n: "n < 32" by simp
  have "frame_length ([?a, ?b, ?c, ?d] @ rest) =
      ucast ?a OR push_bit 8 (ucast ?b) OR push_bit 16 (ucast ?c) OR push_bit 24 (ucast ?d)"
    by (simp only: frame_length_def append_Cons nth_Cons_0 nth_Cons_numeral nth_Cons'
        One_nat_def diff_Suc_1 if_False) simp
  then have "bit (frame_length ([?a, ?b, ?c, ?d] @ rest)) n =
      (if n < 8 then bit ?a n else if n < 16 then bit ?b (n - 8)
       else if n < 24 then bit ?c (n - 16) else bit ?d (n - 24))"
    by (simp only: bit_le32[OF n])
  also have "\<dots> = bit len n"
    using n by (simp only: bit_low_byte bit_drop_bit_eq comp_def) (simp add: bit_low_byte bit_drop_bit_eq less_diff_conv2)
  finally show "bit (frame_length ([?a, ?b, ?c, ?d] @ rest)) n = bit len n" .
qed

lemma frame_length_append: "4 \<le> length buf \<Longrightarrow> frame_length (buf @ rest) = frame_length buf"
  by (auto simp: frame_length_def nth_append)

lemma frame_length_take4: "4 \<le> length buf \<Longrightarrow> frame_length (take 4 buf) = frame_length buf"
  by (simp add: frame_length_def)

lemma length_encodeMessage [simp]: "length (encodeMessage toJson m) = 4 + length (toJson m)"
  by (simp add: encodeMessage_def Let_def)

lemma frame_length_encodeMessage:
  "frame_length (encodeMessage toJson m @ rest) = of_nat (length (toJson m))"
  unfolding encodeMessage_def Let_def append_assoc by (rule frame_length_encode)

lemma drop4_encodeMessage [simp]: "drop 4 (encodeMessage toJson m) = toJson m"
  by (simp add: encodeMessage_def Let_def)



section \<open>One turn of the read loop\<close>

definition frame_ok :: "(jobject \<Rightarrow> byte list) \<Rightarrow> jobject \<Rightarrow> bool" where
  "frame_ok toJson m \<longleftrightarrow> length (toJson m) + 4 < 2 ^ 30"

lemma len_word_plus4: "k + 4 < 2 ^ 32 \<Longrightarrow> unat (4 + of_nat k :: 32 word) = k + 4"
  by (simp add: unat_word_ariths unat_of_nat)

lemma parseBuffer_short: "length buf < 4 \<Longrightarrow> parseBuffer fromJson buf out = Some (buf, out)"
  by (subst parseBuffer.simps) simp

lemma parseBuffer_frame:
  assumes "frame_ok toJson m" and "length rest < 2 ^ 31"
  shows "parseBuffer fromJson (encodeMessage toJson m @ rest) out =
         parseBuffer fromJson rest (out @ [frame_event fromJson (toJson m)])"
proof -
  let ?k = "length (toJson m)" and ?buf = "encodeMessage toJson m @ rest"
  have k: "?k + 4 < 2 ^ 32" and total: "length ?buf < 2 ^ 32"
    using assms by (auto simp: frame_ok_def)
  have u: "unat (4 + of_nat ?k :: 32 word) = ?k + 4" using k by (rule len_word_plus4)
  have ul: "unat (of_nat ?k :: 32 word) = ?k" using k by (simp add: unat_of_nat)
  have "\<not> (of_nat (length ?buf) :: 32 word) < 4 + of_nat ?k"
    using u total unfolding word_less_nat_alt unat_of_nat by simp
  moreover have "drop (?k + 4) ?buf = rest" by simp
  moreover have "take ?k (drop 4 ?buf) = toJson m" by simp
  ultimately show ?thesis
    by (subst parseBuffer.simps) (simp add: frame_length_encodeMessage u ul)
qed

lemma parseBuffer_partial:
  assumes ok: "frame_ok toJson m" and enc: "encodeMessage toJson m = buf @ missing" and "missing \<noteq> []"
  shows "parseBuffer fromJson buf out = Some (buf, out)"
proof (cases "length buf < 4")
  case True
  then show ?thesis by (rule parseBuffer_short)
next
  case False
  let ?k = "length (toJson m)"
  have k: "?k + 4 < 2 ^ 32" using ok by (simp add: frame_ok_def)
  have lb: "length buf < ?k + 4"
    using arg_cong[OF enc, of length] \<open>missing \<noteq> []\<close> by (cases missing) auto
  have "frame_length buf = frame_length (encodeMessage toJson m)"
    using False frame_length_append[of buf missing] enc by simp
  also have "\<dots> = of_nat ?k" using frame_length_encodeMessage[of toJson m "[]"] by simp
  finally have fl: "frame_length buf = of_nat ?k" .
  have u: "unat (4 + of_nat ?k :: 32 word) = ?k + 4" using k by (rule len_word_plus4)
  have "(of_nat (length buf) :: 32 word) < 4 + of_nat ?k"
    using u lb k unfolding word_less_nat_alt unat_of_nat by simp
  then show ?thesis using False by (subst parseBuffer.simps) (simp add: fl)
qed


section \<open>Chunked delivery\<close>

definition encodes :: "(jobject \<Rightarrow> byte list) \<Rightarrow> jobject list \<Rightarrow> byte list" where
  "encodes toJson ms = concat (map (encodeMessage toJson) ms)"

text \<open>
  The buffer after some chunks of a stream of frames: the unread part of the stream, no
  longer than one frame.
\<close>

definition pending_of :: "(jobject \<Rightarrow> byte list) \<Rightarrow> jobject list \<Rightarrow> byte list \<Rightarrow> bool" where
  "pending_of toJson ms buf \<longleftrightarrow>
     (case ms of [] \<Rightarrow> buf = [] | m # _ \<Rightarrow> strict_prefix buf (encodeMessage toJson m))"

lemma parseBuffer_prefix:
  assumes "\<forall>m \<in> set ms. frame_ok toJson m" and "prefix p (encodes toJson ms)" and "length p < 2 ^ 31"
  shows "\<exists>ms1 ms2 rest. ms = ms1 @ ms2 \<and> p = encodes toJson ms1 @ rest \<and> pending_of toJson ms2 rest \<and>
           parseBuffer fromJson p out =
             Some (rest, out @ map (\<lambda>m. frame_event fromJson (toJson m)) ms1)"
  using assms
proof (induction ms arbitrary: p out)
  case Nil
  then show ?case
    by (intro exI[of _ "[]"]) (auto simp: encodes_def pending_of_def parseBuffer_short)
next
  case (Cons m ms)
  let ?e = "encodeMessage toJson m"
  have ok: "frame_ok toJson m" using Cons.prems by simp
  have pfx: "prefix p (?e @ encodes toJson ms)" using Cons.prems by (simp add: encodes_def)
  show ?case
  proof (cases "strict_prefix p ?e")
    case True
    then obtain missing where "?e = p @ missing" "missing \<noteq> []" by (auto simp: strict_prefix_def prefix_def)
    with ok have "parseBuffer fromJson p out = Some (p, out)" by (rule parseBuffer_partial)
    with True show ?thesis
      by (intro exI[of _ "[]"] exI[of _ "m # ms"] exI[of _ p]) (simp add: encodes_def pending_of_def)
  next
    case False
    then obtain q where q: "p = ?e @ q" and pq: "prefix q (encodes toJson ms)"
      using pfx by (auto simp: prefix_append strict_prefix_def)
    have lq: "length q < 2 ^ 31" using Cons.prems(3) q by simp
    from Cons.IH[OF _ pq lq, of "out @ [frame_event fromJson (toJson m)]"] Cons.prems(1)
    obtain ms1 ms2 rest where h: "ms = ms1 @ ms2" "q = encodes toJson ms1 @ rest"
      "pending_of toJson ms2 rest"
      "parseBuffer fromJson q (out @ [frame_event fromJson (toJson m)]) =
         Some (rest, (out @ [frame_event fromJson (toJson m)]) @ map (\<lambda>m. frame_event fromJson (toJson m)) ms1)"
      by auto
    have "parseBuffer fromJson p out = parseBuffer fromJson q (out @ [frame_event fromJson (toJson m)])"
      unfolding q using ok lq by (rule parseBuffer_frame)
    with h show ?thesis
      by (intro exI[of _ "m # ms1"] exI[of _ ms2] exI[of _ rest]) (simp add: q encodes_def)
  qed
qed


lemma pending_of_length:
  "pending_of toJson ms buf \<Longrightarrow> \<forall>m \<in> set ms. frame_ok toJson m \<Longrightarrow> length buf < 2 ^ 30"
  by (cases ms) (auto simp: pending_of_def frame_ok_def dest!: prefix_length_less)

lemma pending_of_done: "pending_of toJson ms (encodes toJson ms) \<Longrightarrow> ms = []"
  by (cases ms) (auto simp: pending_of_def encodes_def strict_prefix_def prefix_def)

lemma encodes_append: "encodes toJson (ms1 @ ms2) = encodes toJson ms1 @ encodes toJson ms2"
  by (simp add: encodes_def)

lemma receive_pending:
  assumes "\<forall>m \<in> set ms. frame_ok toJson m \<and> fromJson (toJson m) = ObjectDoc m"
    and "\<forall>c \<in> set chunks. length c < 2 ^ 30"
    and "nm_process nm \<noteq> None \<or> nm_readSocket nm \<noteq> None"
    and "pending_of toJson ms (nm_buffer nm)"
    and "nm_buffer nm @ concat chunks = encodes toJson ms"
  shows "receive fromJson chunks nm = Some (nm\<lparr>nm_buffer := []\<rparr>, map nm_messageReceived ms)"
  using assms
proof (induction chunks arbitrary: ms nm)
  case Nil
  then have "ms = []" by (auto dest: pending_of_done)
  with Nil show ?case by (simp add: pending_of_def)
next
  case (Cons c cs)
  let ?p = "nm_buffer nm @ c"
  have ok: "\<forall>m \<in> set ms. frame_ok toJson m" using Cons.prems(1) by blast
  have "length (nm_buffer nm) < 2 ^ 30"
    using Cons.prems(4) ok by (rule pending_of_length)
  then have lp: "length ?p < 2 ^ 31" using Cons.prems(2) by simp
  have pp: "prefix ?p (encodes toJson ms)"
    unfolding Cons.prems(5)[symmetric] by simp
  obtain ms1 ms2 rest where h: "ms = ms1 @ ms2" "?p = encodes toJson ms1 @ rest"
      "pending_of toJson ms2 rest"
      "parseBuffer fromJson ?p [] = Some (rest, map (\<lambda>m. frame_event fromJson (toJson m)) ms1)"
    using parseBuffer_prefix[OF ok pp lp, of fromJson "[]"] by auto
  have ev: "map (\<lambda>m. frame_event fromJson (toJson m)) ms1 = map nm_messageReceived ms1"
    using Cons.prems(1) h(1) by (simp add: frame_event_def)
  have "onReadyRead fromJson c nm = Some (nm\<lparr>nm_buffer := rest\<rparr>, map nm_messageReceived ms1)"
    using Cons.prems(3) h(4) ev by (auto simp: onReadyRead_def)
  moreover have "rest @ concat cs = encodes toJson ms2"
    using Cons.prems(5) h(1,2) by (metis append.assoc concat.simps(2) encodes_append same_append_eq)
  then have "receive fromJson cs (nm\<lparr>nm_buffer := rest\<rparr>) =
      Some (nm\<lparr>nm_buffer := []\<rparr>, map nm_messageReceived ms2)"
    using Cons.IH[of ms2 "nm\<lparr>nm_buffer := rest\<rparr>"] Cons.prems(1,2,3) h(1,3) by simp
  ultimately show ?case by (simp add: h(1))
qed


section \<open>When the read loop ends\<close>

text \<open>The header on which \<open>4 + length\<close> wraps to zero, so that nothing is removed from the buffer.\<close>

definition stuck_header :: "byte list" where
  "stuck_header = [0xFC, 0xFF, 0xFF, 0xFF]"


lemma frame_length_stuck: "take 4 buf = stuck_header \<Longrightarrow> 4 + frame_length buf = 0"
proof -
  assume t: "take 4 buf = stuck_header"
  have "length (take 4 buf) = 4" by (simp only: t) (simp add: stuck_header_def)
  then have "4 \<le> length buf" by simp
  then have "frame_length buf = frame_length stuck_header"
    using frame_length_take4 t by metis
  also have "\<dots> = 0xFFFFFFFC" by (simp add: frame_length_def stuck_header_def)
  finally show ?thesis by simp
qed



section \<open>Properties\<close>

text \<open>The bytes an operation hands to the transport.\<close>

definition wrote_bytes :: "nm_event list \<Rightarrow> byte list" where
  "wrote_bytes evs = concat (map (\<lambda>e. case e of nm_wrote bs \<Rightarrow> bs | _ \<Rightarrow> []) evs)"

text \<open>
  A message is handed to the transport exactly when the sending side of the channel is up, and
  then as one whole frame; a channel that is ready always sends.
\<close>

lemma sendMessage_writes:
  "(\<exists>bs. nm_wrote bs \<in> set (sendMessage toJson write m nm)) \<longleftrightarrow>
     (case nm_process nm of Some p \<Rightarrow> p = PRunning | None \<Rightarrow> nm_writeSocket nm = Some SConnected)"
  by (auto simp: sendMessage_def Let_def split: option.splits)

lemma sendMessage_ready:
  "isReady nm \<Longrightarrow> wrote_bytes (sendMessage toJson write m nm) = encodeMessage toJson m"
  by (auto simp: isReady_def sendMessage_def wrote_bytes_def Let_def split: option.splits)

text \<open>
  C1. End-to-end delivery under any chunking. If Qt's codec reads back every object it prints,
  and a ready channel sends some messages, then however the transport cuts the written bytes
  into chunks, the peer's successive \<open>readyRead\<close> signals deliver exactly those messages, in
  order, and leave nothing in the buffer. Frames and chunks are below 1 GiB.
\<close>

theorem receive_chunked_roundtrip:
  assumes "\<forall>m \<in> set ms. fromJson (toJson m) = ObjectDoc m"
    and "\<forall>m \<in> set ms. length (toJson m) + 4 < 2 ^ 30"
    and "\<forall>c \<in> set chunks. length c < 2 ^ 30"
    and "isReady snder"
    and "nm_process nm \<noteq> None \<or> nm_readSocket nm \<noteq> None"
    and "nm_buffer nm = []"
    and "concat chunks = concat (map (\<lambda>m. wrote_bytes (sendMessage toJson write m snder)) ms)"
  shows "receive fromJson chunks nm = Some (nm, map nm_messageReceived ms)"
proof -
  have "pending_of toJson ms (nm_buffer nm)"
    using assms(6) by (cases ms) (auto simp: pending_of_def encodeMessage_def Let_def)
  then have "receive fromJson chunks nm = Some (nm\<lparr>nm_buffer := []\<rparr>, map nm_messageReceived ms)"
    using assms by (intro receive_pending) (auto simp: frame_ok_def encodes_def sendMessage_ready)
  moreover have "nm\<lparr>nm_buffer := []\<rparr> = nm" using assms(6) by simp
  ultimately show ?thesis by simp
qed

text \<open>
  The witness sends the empty object twice over a process pipe, cut inside the second length
  header, with a codec that prints it as two bytes.
\<close>

lemma receive_chunked_roundtrip_witness:
  "receive (\<lambda>bs. if bs = [0x7B, 0x7D] then ObjectDoc [] else OtherDoc)
     [[2, 0, 0, 0, 0x7B, 0x7D, 2], [0, 0, 0, 0x7B], [0x7D]] (NativeMessaging_process PRunning) =
   Some (NativeMessaging_process PRunning, [nm_messageReceived [], nm_messageReceived []])"
proof -
  let ?ready = "NativeMessaging_process PRunning"
  have r: "isReady ?ready" by (simp add: isReady_def NativeMessaging_process_def)
  have e: "encodeMessage (\<lambda>_. [0x7B, 0x7D]) [] = [2, 0, 0, 0, 0x7B, 0x7D]"
    by (simp add: encodeMessage_def)
  show ?thesis
    using receive_chunked_roundtrip[of "[[], []]"
        "\<lambda>bs. if bs = [0x7B, 0x7D] then ObjectDoc [] else OtherDoc" "\<lambda>_. [0x7B, 0x7D]"
        "[[2, 0, 0, 0, 0x7B, 0x7D, 2], [0, 0, 0, 0x7B], [0x7D]]" ?ready ?ready "\<lambda>bs. int (length bs)"]
    by (simp add: sendMessage_ready[OF r] e r) (simp add: NativeMessaging_process_def)
qed

text \<open>
  The read loop hangs on a hostile header. \<open>4 + length\<close> is computed in 32 bits, so for the
  length 0xFFFFFFFC it is zero: the completeness test succeeds, nothing is removed from the
  buffer, and \<open>parseBuffer\<close> never returns.
\<close>

theorem parseBuffer_diverges:
  assumes "take 4 buf = [0xFC, 0xFF, 0xFF, 0xFF]"
  shows "parseBuffer fromJson buf out = None"
proof (rule ccontr)
  assume "parseBuffer fromJson buf out \<noteq> None"
  then obtain r where ret: "parseBuffer fromJson buf out = Some r" by blast
  have "take 4 buf \<noteq> stuck_header"
  proof (rule parseBuffer.raw_induct[where P = "\<lambda>fromJson buf out r. take 4 buf \<noteq> stuck_header", OF _ ret])
    fix f fromJson and buf out :: "_ list" and r
    assume IH: "\<And>fromJson buf out r. f fromJson buf out = Some r \<Longrightarrow> take 4 buf \<noteq> stuck_header"
      and eq: "(if length buf < 4 then Some (buf, out)
        else let len = frame_length buf in
          if (of_nat (length buf) :: 32 word) < 4 + len then Some (buf, out)
          else f fromJson (drop (unat (4 + len)) buf)
                 (out @ [frame_event fromJson (take (unat len) (drop 4 buf))])) = Some r"
    show "take 4 buf \<noteq> stuck_header"
    proof
      assume st: "take 4 buf = stuck_header"
      have "length (take 4 buf) = 4" by (simp only: st) (simp add: stuck_header_def)
      then have "\<not> length buf < 4" by simp
      with eq frame_length_stuck[OF st]
      have "f fromJson (drop 0 buf) (out @ [frame_event fromJson (take (unat (frame_length buf)) (drop 4 buf))]) = Some r"
        by simp
      from IH[OF this] st show False by simp
    qed
  qed
  with assms show False by (simp add: stuck_header_def)
qed

lemma parseBuffer_diverges_witness:
  "parseBuffer (\<lambda>_. OtherDoc) [0xFC, 0xFF, 0xFF, 0xFF] [] = None"
  using parseBuffer_diverges[of "[0xFC, 0xFF, 0xFF, 0xFF]" "\<lambda>_. OtherDoc" "[]"] by simp



end
