(* ===== verification/FileTransferQueue.thy ===== *)
theory FileTransferQueue
  imports Json
begin

text \<open>
  \<open>QuickDesk/src/manager/FileTransferQueue.cpp\<close>: the scheduler of uploads and downloads. It
  keeps a list of tasks, the active and the retired sessions, and tombstones of finished
  transfers, and turns native messages and user requests into state changes and commands.

  The file system is an argument (\<open>file_env\<close>, what \<open>QFileInfo\<close> and \<open>QDir\<close> answer at the time of
  the call), and so is the UUID a new task gets. Signals are the returned event list. A
  \<open>QTimer::singleShot\<close> adds to \<open>q_timers\<close>; the step relation \<open>ft_step\<close> lets any pending timer
  fire at any later moment, in any order, between any two calls.
\<close>


section \<open>Data\<close>

record task =
  t_id :: qstring
  t_connectionId :: qstring
  t_deviceId :: qstring
  t_transferId :: qstring
  t_filename :: qstring
  t_path :: qstring
  t_direction :: qstring
  t_status :: qstring
  t_error :: qstring
  t_savePath :: qstring
  t_saveRoot :: qstring
  t_progress :: real
  t_cancelSent :: bool
  t_cancelRequested :: bool

definition new_task :: task where
  "new_task = \<lparr>t_id = [], t_connectionId = [], t_deviceId = [], t_transferId = [], t_filename = [],
     t_path = [], t_direction = [], t_status = [], t_error = [], t_savePath = [], t_saveRoot = [],
     t_progress = 0, t_cancelSent = False, t_cancelRequested = False\<rparr>"

datatype ft_timer =
    T_pump qstring           \<comment> \<open>\<open>singleShot(0)\<close> of \<open>finish\<close>\<close>
  | T_clear                  \<comment> \<open>\<open>singleShot(0)\<close> of \<open>clearCompleted\<close>\<close>
  | T_cancelTimeout qstring  \<comment> \<open>\<open>singleShot(15000)\<close> of \<open>cancel\<close>\<close>

datatype ft_event =
    ft_changed
  | ft_commandRequested jobject
  | ft_notice qstring qstring

record ft_queue =
  q_tasks :: "task list"
  q_sessions :: "(qstring, qstring) qmap"
  q_downloadRoots :: "(qstring, qstring) qmap"
  q_retiredConnections :: "qstring set"
  q_retiredTransfers :: "qstring set"
  q_blockedUploads :: "qstring set"
  q_timers :: "ft_timer list"

definition FileTransferQueue_init :: ft_queue where
  "FileTransferQueue_init = \<lparr>q_tasks = [], q_sessions = [], q_downloadRoots = [],
     q_retiredConnections = {}, q_retiredTransfers = {}, q_blockedUploads = {}, q_timers = []\<rparr>"

record file_env =
  fe_exists :: "qstring \<Rightarrow> bool"
  fe_isFile :: "qstring \<Rightarrow> bool"
  fe_isDir :: "qstring \<Rightarrow> bool"
  fe_isReadable :: "qstring \<Rightarrow> bool"
  fe_canonicalFilePath :: "qstring \<Rightarrow> qstring"
  fe_fileName :: "qstring \<Rightarrow> qstring"
  fe_absolutePath :: "qstring \<Rightarrow> qstring"
  fe_relativeFilePath :: "qstring \<Rightarrow> qstring \<Rightarrow> qstring"
  fe_isAbsolutePath :: "qstring \<Rightarrow> bool"

record qurl =
  url_isLocalFile :: bool
  url_toLocalFile :: qstring

definition terminal :: "qstring \<Rightarrow> bool" where
  "terminal status \<longleftrightarrow> status = ''complete'' \<or> status = ''error'' \<or> status = ''cancelled''
     \<or> status = ''disconnected''"

definition wireKey :: "qstring \<Rightarrow> qstring \<Rightarrow> qstring \<Rightarrow> qstring" where
  "wireKey connectionId direction transferId =
     connectionId @ [CHR 0x00] @ direction @ [CHR 0x00] @ transferId"


section \<open>Sessions\<close>

definition beginSession :: "qstring \<Rightarrow> qstring \<Rightarrow> ft_queue \<Rightarrow> ft_queue" where
  "beginSession connectionId deviceId q =
     (if connectionId \<noteq> [] \<and> connectionId \<notin> q_retiredConnections q
      then q\<lparr>q_sessions := qm_insert connectionId deviceId (q_sessions q)\<rparr> else q)"

definition disconnect_task :: "qstring \<Rightarrow> task \<Rightarrow> task" where
  "disconnect_task connectionId t =
     (if t_connectionId t = connectionId \<and> \<not> terminal (t_status t)
      then t\<lparr>t_status := ''disconnected'',
             t_error := ''Connection closed. This transfer was not confirmed complete.''\<rparr>
      else t)"

definition endSession :: "qstring \<Rightarrow> ft_queue \<Rightarrow> ft_queue \<times> ft_event list" where
  "endSession connectionId q =
     (if connectionId = [] then (q, [])
      else
        (q\<lparr>q_sessions := qm_remove connectionId (q_sessions q),
           q_downloadRoots := qm_remove connectionId (q_downloadRoots q),
           q_retiredConnections := insert connectionId (q_retiredConnections q),
           q_blockedUploads := q_blockedUploads q - {connectionId},
           q_tasks := map (disconnect_task connectionId) (q_tasks q)\<rparr>,
         if \<exists>t \<in> set (q_tasks q). t_connectionId t = connectionId \<and> \<not> terminal (t_status t)
         then [ft_changed] else []))"

definition reconcileSession ::
    "qstring \<Rightarrow> qstring \<Rightarrow> bool \<Rightarrow> bool \<Rightarrow> ft_queue \<Rightarrow> ft_queue \<times> ft_event list" where
  "reconcileSession connectionId deviceId isConnected terminated q =
     (if terminated \<or> (\<not> isConnected \<and> qm_contains (q_sessions q) connectionId)
      then endSession connectionId q
      else if isConnected then (beginSession connectionId deviceId q, [])
      else (q, []))"

definition sessionActive :: "qstring \<Rightarrow> ft_queue \<Rightarrow> bool" where
  "sessionActive connectionId q = qm_contains (q_sessions q) connectionId"

definition clearCompleted :: "ft_queue \<Rightarrow> ft_queue" where
  "clearCompleted q = q\<lparr>q_timers := q_timers q @ [T_clear]\<rparr>"

text \<open>The deferred body of \<open>clearCompleted\<close>.\<close>

definition pruneCompleted :: "ft_queue \<Rightarrow> ft_queue \<times> ft_event list" where
  "pruneCompleted q =
     (let ts = filter (\<lambda>t. \<not> terminal (t_status t)) (q_tasks q)
      in (q\<lparr>q_tasks := ts\<rparr>, if length (q_tasks q) \<noteq> length ts then [ft_changed] else []))"

fun endSessions :: "qstring list \<Rightarrow> ft_queue \<Rightarrow> ft_queue \<times> ft_event list" where
  "endSessions [] q = (q, [])"
| "endSessions (c # ids) q =
     (let (q', ev) = endSession c q; (q'', ev') = endSessions ids q' in (q'', ev @ ev'))"

definition endAllSessions :: "ft_queue \<Rightarrow> ft_queue \<times> ft_event list" where
  "endAllSessions q = endSessions (qm_keys (q_sessions q)) q"


section \<open>Dispatching uploads\<close>

text \<open>The test both \<open>pump\<close> and \<open>handleMessage\<close> make: an upload that was sent and has not ended.\<close>

definition dispatched :: "qstring \<Rightarrow> task \<Rightarrow> bool" where
  "dispatched connectionId t \<longleftrightarrow> t_connectionId t = connectionId \<and> t_direction t = ''upload''
     \<and> t_status t \<noteq> ''queued'' \<and> \<not> terminal (t_status t)"

definition startCommand :: "qstring \<Rightarrow> task \<Rightarrow> jobject" where
  "startCommand connectionId t =
     mkobj [(''type'', JStr ''startFileUpload''), (''connectionId'', JStr connectionId),
            (''filePath'', JStr (t_path t))]"

definition file_available :: "file_env \<Rightarrow> qstring \<Rightarrow> bool" where
  "file_available fs path \<longleftrightarrow> fe_exists fs path \<and> fe_isFile fs path \<and> fe_isReadable fs path"

text \<open>The second loop of \<open>pump\<close>: fail queued tasks whose file is gone, dispatch the first other.\<close>

fun pump_scan :: "file_env \<Rightarrow> qstring \<Rightarrow> task list \<Rightarrow> task list \<times> ft_event list" where
  "pump_scan fs c [] = ([], [])"
| "pump_scan fs c (t # ts) =
     (if t_connectionId t \<noteq> c \<or> t_status t \<noteq> ''queued''
      then (let (ts', ev) = pump_scan fs c ts in (t # ts', ev))
      else if \<not> file_available fs (t_path t)
      then (let (ts', ev) = pump_scan fs c ts
            in (t\<lparr>t_status := ''error'', t_error := ''The local file is no longer available.''\<rparr> # ts',
                ft_changed # ev))
      else (t\<lparr>t_status := ''uploading''\<rparr> # ts,
            [ft_changed, ft_commandRequested (startCommand c t)]))"

definition pump :: "file_env \<Rightarrow> qstring \<Rightarrow> ft_queue \<Rightarrow> ft_queue \<times> ft_event list" where
  "pump fs connectionId q =
     (if \<not> qm_contains (q_sessions q) connectionId \<or> connectionId \<in> q_blockedUploads q then (q, [])
      else if \<exists>t \<in> set (q_tasks q). dispatched connectionId t then (q, [])
      else (let (ts, ev) = pump_scan fs connectionId (q_tasks q) in (q\<lparr>q_tasks := ts\<rparr>, ev)))"

text \<open>
  The loop of \<open>enqueueUpload\<close>: \<open>None\<close> is its early return (the file is already pending),
  otherwise the number of pending uploads of the connection.
\<close>

definition pending_upload :: "qstring \<Rightarrow> task \<Rightarrow> bool" where
  "pending_upload connectionId t \<longleftrightarrow> t_connectionId t = connectionId \<and> t_direction t = ''upload''
     \<and> \<not> terminal (t_status t)"

fun count_pending :: "qstring \<Rightarrow> qstring \<Rightarrow> task list \<Rightarrow> nat \<Rightarrow> nat option" where
  "count_pending c path [] n = Some n"
| "count_pending c path (t # ts) n =
     (if pending_upload c t
      then if t_path t = path then None else count_pending c path ts (Suc n)
      else count_pending c path ts n)"

definition enqueueUpload ::
    "file_env \<Rightarrow> qstring \<Rightarrow> qstring \<Rightarrow> qurl \<Rightarrow> ft_queue \<Rightarrow> ft_queue \<times> ft_event list \<times> bool" where
  "enqueueUpload fs uuid connectionId url q =
     (if \<not> qm_contains (q_sessions q) connectionId then (q, [], False)
      else
        let deviceId = qm_value [] (q_sessions q) connectionId;
            file = url_toLocalFile url
        in if \<not> url_isLocalFile url \<or> \<not> file_available fs file
           then (q, [ft_notice deviceId
                       (if fe_isDir fs file
                        then ''Folders are not supported. Select individual files to upload.''
                        else ''Select an existing, readable local file.'')], False)
           else
             let path = fe_canonicalFilePath fs file
             in case count_pending connectionId path (q_tasks q) 0 of
                  None \<Rightarrow> (q, [], True)
                | Some pending \<Rightarrow>
                    if pending \<ge> 256
                    then (q, [ft_notice deviceId
                                ''The upload queue is full. Wait for pending files to finish.''], False)
                    else
                      let t = new_task\<lparr>t_id := uuid, t_connectionId := connectionId,
                                t_deviceId := deviceId, t_filename := fe_fileName fs file,
                                t_path := path, t_direction := ''upload'', t_status := ''queued''\<rparr>;
                          (q', ev) = pump fs connectionId (q\<lparr>q_tasks := q_tasks q @ [t]\<rparr>)
                      in (q', ft_changed # ev, True))"

definition registerDownload :: "file_env \<Rightarrow> qstring \<Rightarrow> qstring \<Rightarrow> ft_queue \<Rightarrow> ft_queue" where
  "registerDownload fs connectionId saveDir q =
     (if qm_contains (q_sessions q) connectionId
      then q\<lparr>q_downloadRoots :=
               qm_insert connectionId (fe_absolutePath fs saveDir) (q_downloadRoots q)\<rparr>
      else q)"

definition taskIndex :: "qstring \<Rightarrow> ft_queue \<Rightarrow> nat option" where
  "taskIndex taskId q = find_index (\<lambda>t. t_id t = taskId) (q_tasks q)"


section \<open>Ending and cancelling transfers\<close>

definition finish :: "nat \<Rightarrow> qstring \<Rightarrow> qstring \<Rightarrow> ft_queue \<Rightarrow> ft_queue \<times> ft_event list" where
  "finish i status err q =
     (let t = q_tasks q ! i
      in if terminal (t_status t) then (q, [])
         else
           (q\<lparr>q_retiredTransfers :=
                (if t_transferId t \<noteq> []
                 then insert (wireKey (t_connectionId t) (t_direction t) (t_transferId t))
                        (q_retiredTransfers q)
                 else q_retiredTransfers q),
              q_tasks := (q_tasks q)[i := t\<lparr>t_status := status, t_error := err,
                t_progress := (if status = ''complete'' then 1 else t_progress t)\<rparr>],
              q_timers := q_timers q @ [T_pump (t_connectionId t)]\<rparr>,
            [ft_changed]))"

definition sendCancel :: "nat \<Rightarrow> ft_queue \<Rightarrow> ft_queue \<times> ft_event list" where
  "sendCancel i q =
     (let t = q_tasks q ! i
      in if t_transferId t = [] \<or> t_cancelSent t then (q, [])
         else (q\<lparr>q_tasks := (q_tasks q)[i := t\<lparr>t_cancelSent := True\<rparr>]\<rparr>,
               [ft_commandRequested (mkobj
                  [(''type'', JStr (if t_direction t = ''upload'' then ''cancelFileUpload''
                                    else ''cancelFileDownload'')),
                   (''connectionId'', JStr (t_connectionId t)),
                   (''transferId'', JStr (t_transferId t))])]))"

definition cancel :: "qstring \<Rightarrow> ft_queue \<Rightarrow> ft_queue \<times> ft_event list" where
  "cancel taskId q =
     (case taskIndex taskId q of
        None \<Rightarrow> (q, [])
      | Some i \<Rightarrow>
          let t = q_tasks q ! i
          in if terminal (t_status t) \<or> t_status t = ''cancelling'' \<or> t_status t = ''uncertain''
             then (q, [])
             else if t_status t = ''queued''
             then finish i ''cancelled'' ''Cancelled before upload started.'' q
             else
               let q1 = q\<lparr>q_tasks := (q_tasks q)[i := t\<lparr>t_cancelRequested := True,
                          t_status := ''cancelling'',
                          t_error := ''Cancellation requested. Waiting for the remote transfer result.''\<rparr>]\<rparr>;
                   (q2, ev) = sendCancel i q1
               in (q2\<lparr>q_timers := q_timers q2 @ [T_cancelTimeout taskId]\<rparr>, ft_changed # ev))"

definition cancellationTimedOut :: "qstring \<Rightarrow> ft_queue \<Rightarrow> ft_queue \<times> ft_event list" where
  "cancellationTimedOut taskId q =
     (case taskIndex taskId q of
        None \<Rightarrow> (q, [])
      | Some i \<Rightarrow>
          if t_status (q_tasks q ! i) \<noteq> ''cancelling'' then (q, [])
          else (q\<lparr>q_tasks := (q_tasks q)[i := (q_tasks q ! i)\<lparr>t_status := ''uncertain'',
                   t_error := ''Cancellation was not confirmed. Reconnect to reset this session's '' @
                     ''queue; the remote file may be incomplete.''\<rparr>]\<rparr>, [ft_changed]))"


section \<open>Native messages\<close>

definition transfer_types :: "qstring list" where
  "transfer_types = [''fileDownloadStarted'', ''fileDownloadProgress'', ''fileDownloadComplete'',
     ''fileDownloadError'', ''fileTransferProgress'', ''fileTransferComplete'', ''fileTransferError'']"

text \<open>A terminal upload event without an identifier: the dispatched upload becomes uncertain.\<close>

definition markUncertain :: "qstring \<Rightarrow> ft_queue \<Rightarrow> ft_queue \<times> ft_event list" where
  "markUncertain connectionId q =
     (case find_index (dispatched connectionId) (q_tasks q) of
        None \<Rightarrow> (q, [])
      | Some i \<Rightarrow>
          (q\<lparr>q_tasks := (q_tasks q)[i := (q_tasks q ! i)\<lparr>t_status := ''uncertain'',
                t_error := ''A transfer result arrived without an identifier. '' @
                  ''Reconnect to reset this session's queue.''\<rparr>],
             q_blockedUploads := insert connectionId (q_blockedUploads q)\<rparr>, [ft_changed]))"

text \<open>The task a message with an identifier is about, and the upload that may acquire one.\<close>

definition matches_transfer :: "qstring \<Rightarrow> qstring \<Rightarrow> qstring \<Rightarrow> task \<Rightarrow> bool" where
  "matches_transfer connectionId direction transferId t \<longleftrightarrow>
     t_connectionId t = connectionId \<and> t_direction t = direction \<and> \<not> terminal (t_status t)
     \<and> t_status t \<noteq> ''queued'' \<and> transferId \<noteq> [] \<and> t_transferId t = transferId"

definition unbound_upload :: "qstring \<Rightarrow> task \<Rightarrow> bool" where
  "unbound_upload connectionId t \<longleftrightarrow> dispatched connectionId t \<and> t_transferId t = []"

definition startDownload ::
    "qstring \<Rightarrow> qstring \<Rightarrow> qstring \<Rightarrow> qstring \<Rightarrow> ft_queue \<Rightarrow> ft_queue \<times> ft_event list" where
  "startDownload uuid connectionId transferId filename q =
     (q\<lparr>q_tasks := q_tasks q @ [new_task\<lparr>t_id := uuid, t_connectionId := connectionId,
          t_deviceId := qm_value [] (q_sessions q) connectionId, t_transferId := transferId,
          t_filename := filename, t_direction := ''download'', t_status := ''downloading'',
          t_saveRoot := qm_value [] (q_downloadRoots q) connectionId\<rparr>]\<rparr>, [ft_changed])"

definition clamp01 :: "real \<Rightarrow> real" where
  "clamp01 x = (if x < 0 then 0 else if 1 < x then 1 else x)"

text \<open>The last part of \<open>handleMessage\<close>: the event applied to the task at index \<open>i\<close>.\<close>

definition applyTransferEvent ::
    "jobject \<Rightarrow> bool \<Rightarrow> qstring \<Rightarrow> nat \<Rightarrow> ft_queue \<Rightarrow> ft_queue \<times> ft_event list" where
  "applyTransferEvent message download transferId i q =
     (let type = toString (oget message ''type'');
          t = (if transferId \<noteq> [] then (q_tasks q ! i)\<lparr>t_transferId := transferId\<rparr> else q_tasks q ! i);
          cancelling = t_cancelRequested t
      in if endsWith type ''Complete''
         then
           let t' = (if download then t\<lparr>t_savePath := toString (oget message ''savePath'')\<rparr> else t)
           in finish i ''complete''
                (if cancelling then ''Completed before cancellation took effect.'' else [])
                (q\<lparr>q_tasks := (q_tasks q)[i := t']\<rparr>)
         else if endsWith type ''Error''
         then
           let e0 = toString (oget message ''errorMessage'');
               e1 = (if e0 = [] then ''File transfer failed.'' else e0);
               e2 = (if cancelling then ''Transfer ended after a cancellation request: '' @ e1 else e1)
           in finish i ''error'' e2 (q\<lparr>q_tasks := (q_tasks q)[i := t]\<rparr>)
         else if endsWith type ''Progress''
         then
           let total = toDouble (oget message ''totalBytes'');
               bytes = toDouble (oget message (if download then ''bytesReceived'' else ''bytesSent''));
               q1 = q\<lparr>q_tasks := (q_tasks q)[i := t\<lparr>t_progress :=
                        (if total > 0 then clamp01 (bytes / total) else 0)\<rparr>]\<rparr>
           in if cancelling
              then (let (q2, ev) = sendCancel i q1 in (q2, ft_changed # ev))
              else (q1, [ft_changed])
         else (q\<lparr>q_tasks := (q_tasks q)[i := t]\<rparr>, []))"

definition handleMessage :: "qstring \<Rightarrow> jobject \<Rightarrow> ft_queue \<Rightarrow> ft_queue \<times> ft_event list" where
  "handleMessage uuid message q =
     (let connectionId = toString (oget message ''connectionId'');
          type = toString (oget message ''type'');
          download = startsWith type ''fileDownload'';
          direction = (if download then ''download'' else ''upload'');
          transferId = toString (oget message ''transferId'');
          filename = toString (oget message ''filename'')
      in
      if \<not> qm_contains (q_sessions q) connectionId then (q, [])
      else if type \<notin> set transfer_types then (q, [])
      else if transferId \<noteq> [] \<and> wireKey connectionId direction transferId \<in> q_retiredTransfers q
      then (q, [])
      else if \<not> download \<and> transferId = []
      then (if endsWith type ''Error'' \<or> endsWith type ''Complete''
            then markUncertain connectionId q else (q, []))
      else
        case find_index (matches_transfer connectionId direction transferId) (q_tasks q) of
          Some i \<Rightarrow> applyTransferEvent message download transferId i q
        | None \<Rightarrow>
            if download \<and> type = ''fileDownloadStarted''
            then (if transferId = [] \<or> \<not> qm_contains (q_downloadRoots q) connectionId then (q, [])
                  else startDownload uuid connectionId transferId filename q)
            else if download
            then (if type = ''fileDownloadError'' \<and> qm_contains (q_downloadRoots q) connectionId
                  then (q, [ft_notice (qm_value [] (q_sessions q) connectionId)
                              (''Download could not start: '' @ toString (oget message ''errorMessage''))])
                  else (q, []))
            else
              case find_index (unbound_upload connectionId) (q_tasks q) of
                None \<Rightarrow> (q, [])
              | Some i \<Rightarrow>
                  if filename \<noteq> [] \<and> filename \<noteq> t_filename (q_tasks q ! i) then (q, [])
                  else applyTransferEvent message download transferId i q)"


section \<open>Reading the queue\<close>

definition tasks :: "ft_queue \<Rightarrow> jobject list" where
  "tasks q = map (\<lambda>t. mkobj [(''taskId'', JStr (t_id t)), (''transferId'', JStr (t_transferId t)),
     (''deviceId'', JStr (t_deviceId t)), (''filename'', JStr (t_filename t)),
     (''direction'', JStr (t_direction t)), (''progress'', JNum (t_progress t)),
     (''status'', JStr (t_status t)), (''errorMessage'', JStr (t_error t)),
     (''savePath'', JStr (t_savePath t))]) (q_tasks q)"

definition completedDownloadPath :: "file_env \<Rightarrow> qstring \<Rightarrow> ft_queue \<Rightarrow> qstring" where
  "completedDownloadPath fs taskId q =
     (case taskIndex taskId q of
        None \<Rightarrow> []
      | Some i \<Rightarrow>
          let t = q_tasks q ! i
          in if t_direction t \<noteq> ''download'' \<or> t_status t \<noteq> ''complete'' then []
             else if \<not> file_available fs (t_savePath t) then []
             else
               let root = fe_canonicalFilePath fs (t_saveRoot t);
                   path = fe_canonicalFilePath fs (t_savePath t)
               in if root = [] \<or> path = [] then []
                  else
                    let relative = fe_relativeFilePath fs root path
                    in if relative = ''..'' \<or> startsWith relative ''../'' \<or> fe_isAbsolutePath fs relative
                       then [] else path)"


section \<open>The queue as a state machine\<close>

text \<open>
  One step is one call of the class, with any argument and any answer of the file system, or
  one pending timer firing. A new task's UUID differs from the identifiers in the queue.
\<close>

inductive ft_step :: "ft_queue \<Rightarrow> ft_queue \<Rightarrow> bool" where
  step_begin: "ft_step q (beginSession c d q)"
| step_end: "ft_step q (fst (endSession c q))"
| step_reconcile: "ft_step q (fst (reconcileSession c d isConnected terminated q))"
| step_clear: "ft_step q (clearCompleted q)"
| step_endAll: "ft_step q (fst (endAllSessions q))"
| step_enqueue: "uuid \<notin> t_id ` set (q_tasks q) \<Longrightarrow> ft_step q (fst (enqueueUpload fs uuid c url q))"
| step_register: "ft_step q (registerDownload fs c dir q)"
| step_message: "uuid \<notin> t_id ` set (q_tasks q) \<Longrightarrow> ft_step q (fst (handleMessage uuid msg q))"
| step_cancel: "ft_step q (fst (cancel taskId q))"
| step_timedOut: "ft_step q (fst (cancellationTimedOut taskId q))"
| fire_pump: "T_pump c \<in> set (q_timers q) \<Longrightarrow>
    ft_step q (fst (pump fs c (q\<lparr>q_timers := remove1 (T_pump c) (q_timers q)\<rparr>)))"
| fire_clear: "T_clear \<in> set (q_timers q) \<Longrightarrow>
    ft_step q (fst (pruneCompleted (q\<lparr>q_timers := remove1 T_clear (q_timers q)\<rparr>)))"
| fire_timeout: "T_cancelTimeout taskId \<in> set (q_timers q) \<Longrightarrow>
    ft_step q (fst (cancellationTimedOut taskId
      (q\<lparr>q_timers := remove1 (T_cancelTimeout taskId) (q_timers q)\<rparr>)))"

abbreviation ft_reachable :: "ft_queue \<Rightarrow> bool" where
  "ft_reachable \<equiv> reachable (\<lambda>q. q = FileTransferQueue_init) ft_step"


inductive_cases ft_stepE: "ft_step q q'"

end
