(* ===== verification/FileTransferSafety.thy ===== *)
theory FileTransferSafety
  imports FileTransferQueue
begin

text \<open>
  What the file-transfer queue guarantees. \<open>ft_inv\<close> is an inductive invariant of \<open>ft_step\<close>: every
  live task belongs to an active session, no connection has two dispatched uploads or more
  than 256 pending ones, no two live downloads share an identifier, no active session is
  retired. The properties at the end are about every reachable queue and every run from it.
\<close>


section \<open>Invariant\<close>

definition task_ok :: "(qstring, qstring) qmap \<Rightarrow> task \<Rightarrow> bool" where
  "task_ok sessions t \<longleftrightarrow>
     (\<not> terminal (t_status t) \<longrightarrow> qm_contains sessions (t_connectionId t))
     \<and> (t_status t = ''queued'' \<longrightarrow> t_direction t = ''upload'' \<and> t_transferId t = [] \<and> \<not> t_cancelRequested t)
     \<and> (t_direction t = ''upload'' \<or> t_direction t = ''download'' \<and> t_transferId t \<noteq> [])
     \<and> 0 \<le> t_progress t \<and> t_progress t \<le> 1
     \<and> (t_cancelSent t \<longrightarrow> t_cancelRequested t \<and> t_transferId t \<noteq> [])"

definition tasks_inv :: "(qstring, qstring) qmap \<Rightarrow> task list \<Rightarrow> bool" where
  "tasks_inv sessions ts \<longleftrightarrow>
     (\<forall>t \<in> set ts. task_ok sessions t)
     \<and> (\<forall>c. length (filter (dispatched c) ts) \<le> 1)
     \<and> (\<forall>c. length (filter (pending_upload c) ts) \<le> 256)
     \<and> (\<forall>c tid. length (filter (matches_transfer c ''download'' tid) ts) \<le> 1)
     \<and> distinct (map t_id ts)"

definition ft_inv :: "ft_queue \<Rightarrow> bool" where
  "ft_inv q \<longleftrightarrow>
     tasks_inv (q_sessions q) (q_tasks q)
     \<and> (\<forall>c. qm_contains (q_sessions q) c \<longrightarrow> c \<notin> q_retiredConnections q)
     \<and> (\<forall>c. qm_contains (q_downloadRoots q) c \<longrightarrow> qm_contains (q_sessions q) c)
     \<and> (\<forall>c \<in> q_blockedUploads q. qm_contains (q_sessions q) c)"

text \<open>What an operation other than \<open>pump\<close> may do to one task.\<close>

definition evolves :: "task \<Rightarrow> task \<Rightarrow> bool" where
  "evolves t t' \<longleftrightarrow>
     t_id t' = t_id t \<and> t_connectionId t' = t_connectionId t \<and> t_direction t' = t_direction t
     \<and> (\<not> terminal (t_status t') \<longrightarrow>
          \<not> terminal (t_status t) \<and> (t_status t = ''queued'' \<longrightarrow> t_status t' = ''queued''))
     \<and> (t_direction t = ''download'' \<longrightarrow> t_transferId t' = t_transferId t)"

lemma terminal_simps [simp]:
  "terminal ''complete''" "terminal ''error''" "terminal ''cancelled''" "terminal ''disconnected''"
  "\<not> terminal ''queued''" "\<not> terminal ''uploading''" "\<not> terminal ''downloading''"
  "\<not> terminal ''cancelling''" "\<not> terminal ''uncertain''"
  by (simp_all add: terminal_def)

lemma filter_update_le:
  assumes "i < length xs" and "P y \<Longrightarrow> P (xs ! i)"
  shows "length (filter P (xs[i := y])) \<le> length (filter P xs)"
proof -
  have "xs[i := y] = take i xs @ y # drop (Suc i) xs"
    using assms(1) by (simp add: upd_conv_take_nth_drop)
  moreover have "xs = take i xs @ xs ! i # drop (Suc i) xs"
    using assms(1) by (rule id_take_nth_drop)
  then have "length (filter P xs) = length (filter P (take i xs @ xs ! i # drop (Suc i) xs))"
    by simp
  ultimately show ?thesis using assms(2) by auto
qed

lemma filter_map_le:
  "(\<And>x. x \<in> set xs \<Longrightarrow> P (f x) \<Longrightarrow> P x) \<Longrightarrow> length (filter (P \<circ> f) xs) \<le> length (filter P xs)"
  by (induction xs) fastforce+

lemma evolves_refl [simp]: "evolves t t"
  by (simp add: evolves_def)

lemma evolves_dispatched: "evolves t t' \<Longrightarrow> dispatched c t' \<Longrightarrow> dispatched c t"
  by (auto simp: evolves_def dispatched_def)

lemma evolves_pending: "evolves t t' \<Longrightarrow> pending_upload c t' \<Longrightarrow> pending_upload c t"
  by (auto simp: evolves_def pending_upload_def)

lemma evolves_download:
  "evolves t t' \<Longrightarrow> matches_transfer c ''download'' tid t' \<Longrightarrow> matches_transfer c ''download'' tid t"
  by (auto simp: evolves_def matches_transfer_def)

lemmas evolves_dests = evolves_dispatched evolves_pending evolves_download

lemma tasks_inv_shrink:
  assumes "tasks_inv ss ts" and "\<And>t. t \<in> set ts' \<Longrightarrow> task_ok ss' t" and "distinct (map t_id ts')"
    and "\<And>c. length (filter (dispatched c) ts') \<le> length (filter (dispatched c) ts)"
    and "\<And>c. length (filter (pending_upload c) ts') \<le> length (filter (pending_upload c) ts)"
    and "\<And>c tid. length (filter (matches_transfer c ''download'' tid) ts')
            \<le> length (filter (matches_transfer c ''download'' tid) ts)"
  shows "tasks_inv ss' ts'"
  using assms unfolding tasks_inv_def by (blast intro: le_trans)

lemma tasks_inv_update:
  assumes inv: "tasks_inv ss ts" and i: "i < length ts" and ev: "evolves (ts ! i) t'" and ok: "task_ok ss t'"
  shows "tasks_inv ss (ts[i := t'])"
proof (rule tasks_inv_shrink[OF inv])
  have "map t_id (ts[i := t']) = map t_id ts"
    using i ev by (simp add: map_update evolves_def list_update_same_conv)
  then show "distinct (map t_id (ts[i := t']))" using inv by (simp add: tasks_inv_def)
  show "task_ok ss t" if "t \<in> set (ts[i := t'])" for t
    using that inv ok set_update_subset_insert[of ts i t'] by (auto simp: tasks_inv_def)
qed (use i ev in \<open>auto intro!: filter_update_le dest: evolves_dests\<close>)

lemma tasks_inv_map:
  assumes inv: "tasks_inv ss ts" and ev: "\<And>t. t \<in> set ts \<Longrightarrow> evolves t (f t)"
    and ok: "\<And>t. t \<in> set ts \<Longrightarrow> task_ok ss' (f t)"
  shows "tasks_inv ss' (map f ts)"
proof (rule tasks_inv_shrink[OF inv])
  have "map t_id (map f ts) = map t_id ts" using ev by (simp add: evolves_def)
  then show "distinct (map t_id (map f ts))" using inv by (simp only: tasks_inv_def)
qed (use ok in \<open>auto intro!: filter_map_le dest: ev[THEN evolves_dispatched]
      ev[THEN evolves_pending] ev[THEN evolves_download]\<close>)

lemma filter_filter_le: "length (filter Q (filter P xs)) \<le> length (filter Q xs)"
  by (induction xs) auto

lemma tasks_inv_filter: "tasks_inv ss ts \<Longrightarrow> tasks_inv ss (filter P ts)"
  by (rule tasks_inv_shrink, assumption)
     (auto simp: tasks_inv_def filter_filter_le distinct_map_filter simp del: filter_filter)

text \<open>
  The contract the operations on one task share: what the schedule relies on is framed, and one
  task evolves or nothing happens.
\<close>

definition same_sessions :: "ft_queue \<Rightarrow> ft_queue \<Rightarrow> bool" where
  "same_sessions q q' \<longleftrightarrow> q_sessions q' = q_sessions q \<and> q_downloadRoots q' = q_downloadRoots q
     \<and> q_retiredConnections q' = q_retiredConnections q \<and> q_blockedUploads q' = q_blockedUploads q"

lemma ft_inv_update:
  assumes "ft_inv q" and "same_sessions q q'" and "q_tasks q' = (q_tasks q)[i := t']"
    and "i < length (q_tasks q)" and "evolves (q_tasks q ! i) t'" and "task_ok (q_sessions q) t'"
  shows "ft_inv q'"
  using assms tasks_inv_update[of "q_sessions q" "q_tasks q" i t']
  by (auto simp: ft_inv_def same_sessions_def)

lemma ft_inv_task: "ft_inv q \<Longrightarrow> i < length (q_tasks q) \<Longrightarrow> task_ok (q_sessions q) (q_tasks q ! i)"
  by (simp add: ft_inv_def tasks_inv_def)

lemma ft_inv_timers [simp]: "ft_inv (q\<lparr>q_timers := ts\<rparr>) = ft_inv q"
  by (simp add: ft_inv_def)



section \<open>Every step keeps the invariant\<close>

lemma beginSession_inv [qd_inv]: "ft_inv q \<Longrightarrow> ft_inv (beginSession c d q)"
proof -
  assume inv: "ft_inv q"
  have "task_ok (qm_insert c d (q_sessions q)) t" if "task_ok (q_sessions q) t" for t
    using that by (auto simp: task_ok_def)
  with inv show ?thesis
    by (auto simp: beginSession_def ft_inv_def tasks_inv_def)
qed

lemma evolves_disconnect [simp]: "evolves t (disconnect_task c t)"
  by (simp add: evolves_def disconnect_task_def)

lemma task_ok_disconnect:
  "task_ok ss t \<Longrightarrow> task_ok (qm_remove c ss) (disconnect_task c t)"
  by (auto simp: task_ok_def disconnect_task_def)

lemma endSession_inv [qd_inv]: "ft_inv q \<Longrightarrow> ft_inv (fst (endSession c q))"
proof -
  assume inv: "ft_inv q"
  then have "tasks_inv (qm_remove c (q_sessions q)) (map (disconnect_task c) (q_tasks q))"
    by (intro tasks_inv_map[of "q_sessions q"]) (auto simp: ft_inv_def tasks_inv_def task_ok_disconnect)
  with inv show ?thesis
    by (auto simp: endSession_def ft_inv_def)
qed

lemma reconcileSession_inv [qd_inv]: "ft_inv q \<Longrightarrow> ft_inv (fst (reconcileSession c d i t q))"
  by (simp add: reconcileSession_def beginSession_inv endSession_inv)

lemma clearCompleted_inv [qd_inv]: "ft_inv q \<Longrightarrow> ft_inv (clearCompleted q)"
  by (simp add: clearCompleted_def)

lemma pruneCompleted_inv [qd_inv]: "ft_inv q \<Longrightarrow> ft_inv (fst (pruneCompleted q))"
  by (simp add: pruneCompleted_def Let_def ft_inv_def tasks_inv_filter)

lemma endSessions_inv: "ft_inv q \<Longrightarrow> ft_inv (fst (endSessions ids q))"
proof (induction ids arbitrary: q)
  case Nil
  then show ?case by simp
next
  case (Cons c ids)
  then have "ft_inv (fst (endSessions ids (fst (endSession c q))))" by (simp add: endSession_inv)
  then show ?case by (simp add: case_prod_beta Let_def)
qed

lemma endAllSessions_inv [qd_inv]: "ft_inv q \<Longrightarrow> ft_inv (fst (endAllSessions q))"
  by (simp add: endAllSessions_def endSessions_inv)

lemma registerDownload_inv [qd_inv]: "ft_inv q \<Longrightarrow> ft_inv (registerDownload fs c dir q)"
  by (auto simp: registerDownload_def ft_inv_def)

subsection \<open>\<open>pump\<close> and \<open>enqueueUpload\<close>\<close>

lemma pump_scan_Cons:
  "fst (pump_scan fs c (t # ts)) =
     (if t_connectionId t \<noteq> c \<or> t_status t \<noteq> ''queued'' then t # fst (pump_scan fs c ts)
      else if \<not> file_available fs (t_path t)
      then t\<lparr>t_status := ''error'', t_error := ''The local file is no longer available.''\<rparr>
             # fst (pump_scan fs c ts)
      else t\<lparr>t_status := ''uploading''\<rparr> # ts)"
  by (simp add: case_prod_beta Let_def)

lemma pump_scan_ids: "map t_id (fst (pump_scan fs c ts)) = map t_id ts"
  by (induction ts) (simp_all add: pump_scan_Cons del: pump_scan.simps(2))

lemma task_ok_unavailable: "task_ok ss t \<Longrightarrow> task_ok ss (t\<lparr>t_status := ''error'', t_error := e\<rparr>)"
  by (simp add: task_ok_def)

lemma task_ok_uploading:
  "task_ok ss t \<Longrightarrow> t_status t = ''queued'' \<Longrightarrow> task_ok ss (t\<lparr>t_status := ''uploading''\<rparr>)"
  by (auto simp: task_ok_def)

lemma pump_scan_ok:
  "\<forall>t \<in> set ts. task_ok ss t \<Longrightarrow> \<forall>t \<in> set (fst (pump_scan fs c ts)). task_ok ss t"
  by (induction ts)
     (simp_all add: pump_scan_Cons task_ok_unavailable task_ok_uploading del: pump_scan.simps(2))

lemma pump_scan_dispatched:
  "length (filter (dispatched c') (fst (pump_scan fs c ts)))
     \<le> length (filter (dispatched c') ts) + (if c' = c then 1 else 0)"
  by (induction ts) (auto simp: pump_scan_Cons dispatched_def simp del: pump_scan.simps(2))

lemma pump_scan_pending:
  "length (filter (pending_upload c') (fst (pump_scan fs c ts))) \<le> length (filter (pending_upload c') ts)"
  by (induction ts) (auto simp: pump_scan_Cons pending_upload_def simp del: pump_scan.simps(2))

lemma pump_scan_downloads:
  "\<forall>t \<in> set ts. task_ok ss t \<Longrightarrow>
   length (filter (matches_transfer c' ''download'' tid) (fst (pump_scan fs c ts)))
     \<le> length (filter (matches_transfer c' ''download'' tid) ts)"
  by (induction ts)
     (auto simp: pump_scan_Cons task_ok_def matches_transfer_def simp del: pump_scan.simps(2))

lemma pump_inv [qd_inv]:
  assumes inv: "ft_inv q"
  shows "ft_inv (fst (pump fs c q))"
proof (cases "qm_contains (q_sessions q) c \<and> c \<notin> q_blockedUploads q \<and> (\<forall>t \<in> set (q_tasks q). \<not> dispatched c t)")
  case False
  then have "fst (pump fs c q) = q" by (auto simp: pump_def)
  with inv show ?thesis by simp
next
  case True
  have ok: "\<forall>t \<in> set (q_tasks q). task_ok (q_sessions q) t"
    and d: "\<And>c'. length (filter (dispatched c') (q_tasks q)) \<le> 1"
    using inv by (auto simp: ft_inv_def tasks_inv_def)
  let ?ts = "fst (pump_scan fs c (q_tasks q))"
  have "filter (dispatched c) (q_tasks q) = []" using True by (simp add: filter_empty_conv)
  then have "length (filter (dispatched c') ?ts) \<le> 1" for c'
    using pump_scan_dispatched[of c' fs c "q_tasks q"] d[of c'] by (cases "c' = c") auto
  moreover have "length (filter (pending_upload c') ?ts) \<le> 256" for c'
    using pump_scan_pending[of c' fs c "q_tasks q"] inv
    by (meson ft_inv_def tasks_inv_def le_trans)
  moreover have "length (filter (matches_transfer c' ''download'' tid) ?ts) \<le> 1" for c' tid
    using pump_scan_downloads[OF ok, of c' tid fs c] inv
    by (meson ft_inv_def tasks_inv_def le_trans)
  ultimately have "tasks_inv (q_sessions q) ?ts"
    using inv pump_scan_ids[of fs c "q_tasks q"] pump_scan_ok[OF ok, of fs c]
    by (simp add: ft_inv_def tasks_inv_def)
  moreover have "fst (pump fs c q) = q\<lparr>q_tasks := ?ts\<rparr>"
    using True by (auto simp: pump_def case_prod_beta Let_def)
  ultimately show ?thesis using inv by (simp add: ft_inv_def)
qed

lemma count_pending_Some:
  "count_pending c path ts n = Some m \<Longrightarrow> m = n + length (filter (pending_upload c) ts)"
  by (induction ts arbitrary: n) (fastforce split: if_splits)+

lemma tasks_inv_snoc:
  assumes "tasks_inv ss ts" and "task_ok ss t" and "t_id t \<notin> t_id ` set ts"
    and "\<And>c. dispatched c t \<Longrightarrow> filter (dispatched c) ts = []"
    and "\<And>c. pending_upload c t \<Longrightarrow> length (filter (pending_upload c) ts) < 256"
    and "\<And>c tid. matches_transfer c ''download'' tid t \<Longrightarrow> filter (matches_transfer c ''download'' tid) ts = []"
  shows "tasks_inv ss (ts @ [t])"
  using assms unfolding tasks_inv_def
  by (auto simp: Suc_le_eq)

lemma enqueueUpload_inv [qd_inv]:
  assumes inv: "ft_inv q" and fresh: "uuid \<notin> t_id ` set (q_tasks q)"
  shows "ft_inv (fst (enqueueUpload fs uuid c url q))"
proof -
  have "ft_inv (fst (pump fs c (q\<lparr>q_tasks := q_tasks q @ [t]\<rparr>)))"
    if "qm_contains (q_sessions q) c" "length (filter (pending_upload c) (q_tasks q)) < 256"
      and t: "t = new_task\<lparr>t_id := uuid, t_connectionId := c, t_deviceId := d, t_filename := f,
              t_path := p, t_direction := ''upload'', t_status := ''queued''\<rparr>" for t d f p
  proof -
    have "tasks_inv (q_sessions q) (q_tasks q @ [t])"
      using inv that fresh
      by (intro tasks_inv_snoc)
         (auto simp: ft_inv_def task_ok_def new_task_def dispatched_def pending_upload_def matches_transfer_def)
    then have "ft_inv (q\<lparr>q_tasks := q_tasks q @ [t]\<rparr>)"
      using inv by (simp add: ft_inv_def)
    then show ?thesis by (rule pump_inv)
  qed
  with inv show ?thesis
    unfolding enqueueUpload_def
    by (auto simp: Let_def case_prod_beta not_le split: option.splits dest!: count_pending_Some)
qed


subsection \<open>Operations on one task\<close>

text \<open>
  \<open>touches i q q'\<close>: the operation leaves the sessions alone and changes at most the task at
  index \<open>i\<close>, in a way the schedule allows.
\<close>

definition touches :: "nat \<Rightarrow> ft_queue \<Rightarrow> ft_queue \<Rightarrow> bool" where
  "touches i q q' \<longleftrightarrow> same_sessions q q' \<and>
     (q_tasks q' = q_tasks q \<or>
      (\<exists>t'. q_tasks q' = (q_tasks q)[i := t'] \<and> evolves (q_tasks q ! i) t' \<and> task_ok (q_sessions q) t'))"

lemma touches_inv: "ft_inv q \<Longrightarrow> i < length (q_tasks q) \<Longrightarrow> touches i q q' \<Longrightarrow> ft_inv q'"
proof -
  assume inv: "ft_inv q" and i: "i < length (q_tasks q)" and t: "touches i q q'"
  show "ft_inv q'"
  proof (cases "q_tasks q' = q_tasks q")
    case True
    with inv t show ?thesis by (simp add: ft_inv_def touches_def same_sessions_def)
  next
    case False
    with inv i t show ?thesis by (auto simp: touches_def intro: ft_inv_update)
  qed
qed

lemma same_sessions_tasks [simp]:
  "same_sessions q (q\<lparr>q_tasks := ts\<rparr>)" "same_sessions q (q\<lparr>q_tasks := ts, q_timers := tm\<rparr>)"
  "same_sessions q (q\<lparr>q_timers := tm\<rparr>)" "same_sessions q q"
  by (simp_all add: same_sessions_def)

lemma finish_touches:
  assumes "task_ok (q_sessions q) (q_tasks q ! i)" and "terminal status"
  shows "touches i q (fst (finish i status err q))"
proof (cases "terminal (t_status (q_tasks q ! i))")
  case True
  then show ?thesis by (simp add: finish_def touches_def)
next
  case False
  let ?t = "q_tasks q ! i"
  let ?t' = "?t\<lparr>t_status := status, t_error := err,
      t_progress := (if status = ''complete'' then 1 else t_progress ?t)\<rparr>"
  have "status \<noteq> ''queued''" using assms(2) by auto
  then have "task_ok (q_sessions q) ?t'"
    using assms by (auto simp: task_ok_def)
  moreover have "evolves ?t ?t'" using assms(2) by (simp add: evolves_def)
  ultimately show ?thesis
    using False by (auto simp: touches_def finish_def Let_def same_sessions_def)
qed

text \<open>A finish on a queue whose task at \<open>i\<close> was just replaced by a task that evolved.\<close>

lemma finish_after_update:
  assumes i: "i < length (q_tasks q)" and t: "task_ok (q_sessions q) t" and ev: "evolves (q_tasks q ! i) t"
    and nt: "\<not> terminal (t_status t)" and st: "terminal status"
  shows "touches i q (fst (finish i status err (q\<lparr>q_tasks := (q_tasks q)[i := t]\<rparr>)))"
proof -
  let ?t' = "t\<lparr>t_status := status, t_error := err,
      t_progress := (if status = ''complete'' then 1 else t_progress t)\<rparr>"
  have "status \<noteq> ''queued''" using st by auto
  then have "task_ok (q_sessions q) ?t'" using t st by (auto simp: task_ok_def)
  moreover have "evolves (q_tasks q ! i) ?t'" using ev st by (simp add: evolves_def)
  ultimately show ?thesis
    using i nt by (auto simp: touches_def finish_def Let_def same_sessions_def)
qed

lemma sendCancel_after_update:
  assumes i: "i < length (q_tasks q)" and t: "task_ok (q_sessions q) t" and ev: "evolves (q_tasks q ! i) t"
    and c: "t_cancelRequested t"
  shows "touches i q (fst (sendCancel i (q\<lparr>q_tasks := (q_tasks q)[i := t]\<rparr>)))"
proof -
  have "task_ok (q_sessions q) (t\<lparr>t_cancelSent := True\<rparr>)" if "t_transferId t \<noteq> []"
    using t c that by (auto simp: task_ok_def)
  moreover have "evolves (q_tasks q ! i) (t\<lparr>t_cancelSent := True\<rparr>)"
    using ev by (simp add: evolves_def)
  ultimately show ?thesis
    using i t ev by (auto simp: touches_def sendCancel_def Let_def)
qed

lemma taskIndex_lt: "taskIndex taskId q = Some i \<Longrightarrow> i < length (q_tasks q)"
  by (auto simp: taskIndex_def dest: find_index_lengthD)

text \<open>A cancellation touches one task, and not a finished one.\<close>

definition touches_live :: "ft_queue \<Rightarrow> ft_queue \<Rightarrow> bool" where
  "touches_live q q' \<longleftrightarrow> q_tasks q' = q_tasks q \<and> same_sessions q q' \<or>
     (\<exists>i < length (q_tasks q). \<not> terminal (t_status (q_tasks q ! i)) \<and> touches i q q')"

lemma touches_live_inv: "ft_inv q \<Longrightarrow> touches_live q q' \<Longrightarrow> ft_inv q'"
  unfolding touches_live_def
proof (elim disjE exE conjE)
  assume "ft_inv q" "q_tasks q' = q_tasks q" "same_sessions q q'"
  then show "ft_inv q'" by (simp add: ft_inv_def same_sessions_def)
qed (rule touches_inv)

lemma touches_timers [simp]: "touches i q (q'\<lparr>q_timers := ts\<rparr>) = touches i q q'"
  by (simp add: touches_def same_sessions_def)

lemma touches_live_timers [simp]: "touches_live q (q'\<lparr>q_timers := ts\<rparr>) = touches_live q q'"
  by (simp add: touches_live_def same_sessions_def)

lemma cancel_touches:
  assumes inv: "ft_inv q"
  shows "touches_live q (fst (cancel taskId q))"
proof (cases "taskIndex taskId q")
  case None
  then show ?thesis by (simp add: cancel_def touches_live_def)
next
  case (Some i)
  let ?t = "q_tasks q ! i"
  have i: "i < length (q_tasks q)" using Some by (rule taskIndex_lt)
  have ok: "task_ok (q_sessions q) ?t" using inv i by (rule ft_inv_task)
  let ?t' = "?t\<lparr>t_cancelRequested := True, t_status := ''cancelling'',
      t_error := ''Cancellation requested. Waiting for the remote transfer result.''\<rparr>"
  have 1: "touches i q (fst (finish i ''cancelled'' e q))" for e
    using ok by (rule finish_touches) simp
  have "touches i q (fst (sendCancel i (q\<lparr>q_tasks := (q_tasks q)[i := ?t']\<rparr>)))"
    if "\<not> terminal (t_status ?t)" "t_status ?t \<noteq> ''queued''"
  proof (rule sendCancel_after_update[OF i])
    show "task_ok (q_sessions q) ?t'" using ok that by (auto simp: task_ok_def)
    show "evolves ?t ?t'" using that by (simp add: evolves_def)
  qed simp
  with Some i 1 show ?thesis
    unfolding cancel_def touches_live_def
    by (auto simp: Let_def case_prod_beta)
qed

lemma cancel_inv [qd_inv]: "ft_inv q \<Longrightarrow> ft_inv (fst (cancel taskId q))"
  by (blast intro: touches_live_inv cancel_touches)

lemma cancellationTimedOut_touches:
  assumes inv: "ft_inv q"
  shows "touches_live q (fst (cancellationTimedOut taskId q))"
proof (cases "taskIndex taskId q")
  case None
  then show ?thesis by (simp add: cancellationTimedOut_def touches_live_def)
next
  case (Some i)
  have i: "i < length (q_tasks q)" using Some by (rule taskIndex_lt)
  have ok: "task_ok (q_sessions q) (q_tasks q ! i)" using inv i by (rule ft_inv_task)
  show ?thesis
  proof (cases "t_status (q_tasks q ! i) = ''cancelling''")
    case True
    with Some ok have "touches i q (fst (cancellationTimedOut taskId q))"
      by (auto simp: cancellationTimedOut_def touches_def evolves_def task_ok_def)
    with i True show ?thesis by (auto simp: touches_live_def)
  next
    case False
    with Some show ?thesis by (simp add: cancellationTimedOut_def touches_live_def)
  qed
qed

lemma cancellationTimedOut_inv [qd_inv]: "ft_inv q \<Longrightarrow> ft_inv (fst (cancellationTimedOut taskId q))"
  by (blast intro: touches_live_inv cancellationTimedOut_touches)

lemma markUncertain_inv:
  assumes inv: "ft_inv q" and c: "qm_contains (q_sessions q) c"
  shows "ft_inv (fst (markUncertain c q))"
proof (cases "find_index (dispatched c) (q_tasks q)")
  case None
  with inv show ?thesis by (simp add: markUncertain_def del: find_index_None)
next
  case (Some i)
  have i: "i < length (q_tasks q)" and d: "dispatched c (q_tasks q ! i)"
    using Some by (auto dest: find_index_SomeD)
  have ok: "task_ok (q_sessions q) (q_tasks q ! i)" using inv i by (rule ft_inv_task)
  have "tasks_inv (q_sessions q) (q_tasks (fst (markUncertain c q)))"
    using Some inv i ok d
    by (auto simp: markUncertain_def ft_inv_def evolves_def task_ok_def dispatched_def
        intro!: tasks_inv_update)
  with inv c Some show ?thesis by (auto simp: markUncertain_def ft_inv_def)
qed

lemma clamp01_bounds: "0 \<le> clamp01 x \<and> clamp01 x \<le> 1"
  by (simp add: clamp01_def)


lemma applyTransferEvent_touches:
  assumes inv: "ft_inv q" and i: "i < length (q_tasks q)" and tid: "transferId \<noteq> []"
    and nt: "\<not> terminal (t_status (q_tasks q ! i))" and nq: "t_status (q_tasks q ! i) \<noteq> ''queued''"
    and dl: "t_direction (q_tasks q ! i) = ''download'' \<Longrightarrow> t_transferId (q_tasks q ! i) = transferId"
  shows "touches i q (fst (applyTransferEvent msg download transferId i q))"
proof -
  let ?t = "(q_tasks q ! i)\<lparr>t_transferId := transferId\<rparr>"
  have "task_ok (q_sessions q) (q_tasks q ! i)" using inv i by (rule ft_inv_task)
  then have ok: "task_ok (q_sessions q) ?t" using tid nq by (auto simp: task_ok_def)
  have ev: "evolves (q_tasks q ! i) ?t" using dl by (simp add: evolves_def)
  have oks: "task_ok (q_sessions q) (?t\<lparr>t_savePath := p\<rparr>)" for p
    using ok by (simp add: task_ok_def)
  have evs: "evolves (q_tasks q ! i) (?t\<lparr>t_savePath := p\<rparr>)" for p
    using ev by (simp add: evolves_def)
  have okp: "task_ok (q_sessions q) (?t\<lparr>t_progress := (if b then clamp01 x else 0)\<rparr>)" for b x
    using ok clamp01_bounds[of x] by (auto simp: task_ok_def)
  have evp: "evolves (q_tasks q ! i) (?t\<lparr>t_progress := x\<rparr>)" for x
    using ev by (simp add: evolves_def)
  have ntt: "\<not> terminal (t_status ?t)" using nt by simp
  have plain: "touches i q (q\<lparr>q_tasks := (q_tasks q)[i := t']\<rparr>)"
    if "task_ok (q_sessions q) t'" "evolves (q_tasks q ! i) t'" for t'
    using that by (auto simp: touches_def)
  let ?ty = "toString (oget msg ''type'')"
  consider (complete) "endsWith ?ty ''Complete''"
    | (error) "\<not> endsWith ?ty ''Complete''" "endsWith ?ty ''Error''"
    | (progress) "\<not> endsWith ?ty ''Complete''" "\<not> endsWith ?ty ''Error''" "endsWith ?ty ''Progress''"
    | (other) "\<not> endsWith ?ty ''Complete''" "\<not> endsWith ?ty ''Error''" "\<not> endsWith ?ty ''Progress''"
    by blast
  then show ?thesis
  proof cases
    case complete
    with tid finish_after_update[OF i ok ev ntt] finish_after_update[OF i oks evs] nt
    show ?thesis by (simp add: applyTransferEvent_def Let_def)
  next
    case error
    with tid finish_after_update[OF i ok ev ntt] show ?thesis
      by (simp add: applyTransferEvent_def Let_def)
  next
    case progress
    with tid plain[OF okp evp] sendCancel_after_update[OF i okp evp] show ?thesis
      by (simp add: applyTransferEvent_def Let_def case_prod_beta)
  next
    case other
    with tid plain[OF ok ev] show ?thesis by (simp add: applyTransferEvent_def Let_def)
  qed
qed


lemma startDownload_inv:
  assumes inv: "ft_inv q" and fresh: "uuid \<notin> t_id ` set (q_tasks q)" and tid: "transferId \<noteq> []"
    and c: "qm_contains (q_sessions q) c"
    and none: "find_index (matches_transfer c ''download'' transferId) (q_tasks q) = None"
  shows "ft_inv (fst (startDownload uuid c transferId filename q))"
proof -
  have "tasks_inv (q_sessions q) (q_tasks (fst (startDownload uuid c transferId filename q)))"
    using assms unfolding startDownload_def
    by (auto simp: ft_inv_def task_ok_def new_task_def dispatched_def pending_upload_def
        matches_transfer_def filter_empty_conv intro!: tasks_inv_snoc)
  with inv show ?thesis by (simp add: ft_inv_def startDownload_def)
qed

lemma matches_transfer_anonymous [simp]: "find_index (matches_transfer c d []) ts = None"
  by (simp add: matches_transfer_def)

text \<open>The five things a native message can do, used by every fact on \<open>handleMessage\<close>.\<close>

lemma handleMessage_cases:
  fixes uuid msg q
  defines "c \<equiv> toString (oget msg ''connectionId'')" and "tid \<equiv> toString (oget msg ''transferId'')"
    and "dir \<equiv> if startsWith (toString (oget msg ''type'')) ''fileDownload'' then ''download'' else ''upload''"
  obtains (ignored) ev where "handleMessage uuid msg q = (q, ev)"
  | (uncertain) "handleMessage uuid msg q = markUncertain c q" "qm_contains (q_sessions q) c" "tid = []"
  | (matched) i dl where "handleMessage uuid msg q = applyTransferEvent msg dl tid i q"
      "find_index (matches_transfer c dir tid) (q_tasks q) = Some i"
      "wireKey c dir tid \<notin> q_retiredTransfers q"
  | (started) filename where "handleMessage uuid msg q = startDownload uuid c tid filename q"
      "qm_contains (q_sessions q) c" "tid \<noteq> []" "dir = ''download''"
      "find_index (matches_transfer c ''download'' tid) (q_tasks q) = None"
      "wireKey c ''download'' tid \<notin> q_retiredTransfers q"
  | (bound) i where "handleMessage uuid msg q = applyTransferEvent msg False tid i q"
      "find_index (unbound_upload c) (q_tasks q) = Some i" "tid \<noteq> []" "dir = ''upload''"
      "wireKey c ''upload'' tid \<notin> q_retiredTransfers q"
proof -
  define type where "type = toString (oget msg ''type'')"
  define dl where "dl = startsWith type ''fileDownload''"
  note eq = handleMessage_def[of uuid msg q, unfolded Let_def,
      folded c_def tid_def type_def, folded dl_def]
  have dir: "dir = (if dl then ''download'' else ''upload'')"
    by (simp add: dir_def dl_def type_def)
  consider (guard) "\<not> qm_contains (q_sessions q) c \<or> type \<notin> set transfer_types
        \<or> tid \<noteq> [] \<and> wireKey c dir tid \<in> q_retiredTransfers q"
    | (go) "qm_contains (q_sessions q) c" "type \<in> set transfer_types"
        "tid = [] \<or> wireKey c dir tid \<notin> q_retiredTransfers q"
    by blast
  then show thesis
  proof cases
    case guard
    then have "handleMessage uuid msg q = (q, [])" by (elim disjE) (simp_all add: eq dir)
    then show thesis by (rule ignored)
  next
    case go
    show thesis
    proof (cases "\<not> dl \<and> tid = []")
      case True
      with go show thesis
        by (cases "endsWith type ''Error'' \<or> endsWith type ''Complete''")
           (auto simp: eq dir intro: uncertain ignored)
    next
      case False
      show thesis
      proof (cases "find_index (matches_transfer c dir tid) (q_tasks q)")
        case (Some i)
        then have "tid \<noteq> []" by auto
        with go False Some show thesis
          by (intro matched[of dl i]) (auto simp: eq dir simp del: find_index_None)
      next
        case None
        show thesis
        proof (cases dl)
          case True
          show thesis
          proof (cases "type = ''fileDownloadStarted'' \<and> tid \<noteq> [] \<and> qm_contains (q_downloadRoots q) c")
            case start: True
            with go None True show thesis
              by (intro started) (auto simp: eq dir simp del: find_index_None)
          next
            case False
            with go None True have "\<exists>ev. handleMessage uuid msg q = (q, ev)"
              by (auto simp: eq dir simp del: find_index_None)
            then show thesis using ignored by blast
          qed
        next
          case no_dl: False
          with False have tid: "tid \<noteq> []" by simp
          show thesis
          proof (cases "find_index (unbound_upload c) (q_tasks q)")
            case None': None
            with go None no_dl tid have "handleMessage uuid msg q = (q, [])"
              by (simp add: eq dir del: find_index_None)
            then show thesis by (rule ignored)
          next
            case (Some i)
            with go None no_dl tid show thesis
              by (cases "toString (oget msg ''filename'') \<noteq> []
                    \<and> toString (oget msg ''filename'') \<noteq> t_filename (q_tasks q ! i)")
                 (auto simp: eq dir simp del: find_index_None intro: bound ignored)
          qed
        qed
      qed
    qed
  qed
qed

text \<open>The same cases, with what the invariant adds: a bound or matched task is live and evolves.\<close>

lemma handleMessage_effect [consumes 1, case_names ignored uncertain applied started]:
  assumes inv: "ft_inv q"
  obtains (ignored) ev where "handleMessage uuid msg q = (q, ev)"
  | (uncertain) c where "handleMessage uuid msg q = markUncertain c q" "qm_contains (q_sessions q) c"
  | (applied) i where "i < length (q_tasks q)" "\<not> terminal (t_status (q_tasks q ! i))"
      "touches i q (fst (handleMessage uuid msg q))"
  | (started) c tid filename where "handleMessage uuid msg q = startDownload uuid c tid filename q"
      "qm_contains (q_sessions q) c" "tid \<noteq> []"
      "find_index (matches_transfer c ''download'' tid) (q_tasks q) = None"
proof (cases rule: handleMessage_cases[of uuid msg q])
  case (matched i dl)
  then show ?thesis
    using find_index_SomeD[OF matched(2)]
    by (intro applied[of i]) (auto intro!: applyTransferEvent_touches[OF inv] simp: matches_transfer_def)
next
  case (bound i)
  then show ?thesis
    using find_index_SomeD[OF bound(2)]
    by (intro applied[of i])
       (auto intro!: applyTransferEvent_touches[OF inv] simp: unbound_upload_def dispatched_def)
qed (use that in blast)+

lemma handleMessage_inv [qd_inv]:
  assumes inv: "ft_inv q" and fresh: "uuid \<notin> t_id ` set (q_tasks q)"
  shows "ft_inv (fst (handleMessage uuid msg q))"
  by (cases rule: handleMessage_effect[OF inv, of uuid msg])
     (use inv fresh in \<open>auto intro: touches_inv startDownload_inv markUncertain_inv\<close>)

lemma ft_step_inv: "ft_inv q \<Longrightarrow> ft_step q q' \<Longrightarrow> ft_inv q'"
  by (erule ft_stepE) (simp_all add: qd_inv)

lemma ft_inv_init: "ft_inv FileTransferQueue_init"
  by (simp add: ft_inv_def FileTransferQueue_init_def tasks_inv_def)

interpretation ftq: invariant_system "\<lambda>q. q = FileTransferQueue_init" ft_step ft_inv
  by unfold_locales (auto intro: ft_inv_init ft_step_inv)

end
