(* ===== verification/FileTransferProperties.thy ===== *)
theory FileTransferProperties
  imports FileTransferSafety
begin

text \<open>
  The properties of the file-transfer queue over its reachable states and its runs: the
  upload schedule, the end of sessions and of transfers, the tombstones, and the
  containment of downloaded files in the directory the user chose.
\<close>


section \<open>What no step undoes\<close>

lemma touches_frame:
  "touches_live q q' \<Longrightarrow> q_retiredConnections q' = q_retiredConnections q"
  by (auto simp: touches_live_def touches_def same_sessions_def)

lemma pump_frame [simp]:
  "q_retiredConnections (fst (pump fs c q)) = q_retiredConnections q"
  "q_retiredTransfers (fst (pump fs c q)) = q_retiredTransfers q"
  "q_timers (fst (pump fs c q)) = q_timers q"
  "q_sessions (fst (pump fs c q)) = q_sessions q"
  "q_blockedUploads (fst (pump fs c q)) = q_blockedUploads q"
  by (simp_all add: pump_def case_prod_beta Let_def)

lemma finish_frame [simp]:
  "q_retiredConnections (fst (finish i st e q)) = q_retiredConnections q"
  "q_retiredTransfers q \<subseteq> q_retiredTransfers (fst (finish i st e q))"
  by (auto simp: finish_def Let_def)

lemma sendCancel_frame [simp]:
  "q_retiredConnections (fst (sendCancel i q)) = q_retiredConnections q"
  "q_retiredTransfers (fst (sendCancel i q)) = q_retiredTransfers q"
  by (auto simp: sendCancel_def Let_def)

lemma finish_retired_mono: "x \<in> q_retiredTransfers q \<Longrightarrow> x \<in> q_retiredTransfers (fst (finish i st e (q\<lparr>q_tasks := ts\<rparr>)))"
  using finish_frame(2)[of "q\<lparr>q_tasks := ts\<rparr>" i st e] by auto

text \<open>Connections and transfers that were retired stay retired.\<close>

definition retired_le :: "ft_queue \<Rightarrow> ft_queue \<Rightarrow> bool" where
  "retired_le q q' \<longleftrightarrow> q_retiredConnections q \<subseteq> q_retiredConnections q'
     \<and> q_retiredTransfers q \<subseteq> q_retiredTransfers q'"

lemma retired_le_refl [simp]: "retired_le q q"
  by (simp add: retired_le_def)

lemma retired_le_trans: "retired_le a b \<Longrightarrow> retired_le b c \<Longrightarrow> retired_le a c"
  by (auto simp: retired_le_def)

lemma retired_le_endSession: "retired_le q (fst (endSession c q))"
  by (auto simp: retired_le_def endSession_def)

lemma retired_le_endSessions: "retired_le q (fst (endSessions ids q))"
proof (induction ids arbitrary: q)
  case Nil
  then show ?case by simp
next
  case (Cons c ids)
  have "fst (endSessions (c # ids) q) = fst (endSessions ids (fst (endSession c q)))"
    by (simp add: case_prod_beta Let_def)
  with Cons[of "fst (endSession c q)"] retired_le_endSession[of q c] show ?case
    by (metis retired_le_trans)
qed

lemma retired_le_applyTransferEvent: "retired_le q (fst (applyTransferEvent m dl tid i q))"
  by (auto simp: retired_le_def applyTransferEvent_def Let_def case_prod_beta
      intro: finish_retired_mono)

lemma retired_le_markUncertain: "retired_le q (fst (markUncertain c q))"
  by (auto simp: retired_le_def markUncertain_def split: option.split)

lemma retired_le_startDownload: "retired_le q (fst (startDownload u c tid f q))"
  by (simp add: retired_le_def startDownload_def)

lemma retired_le_handleMessage: "retired_le q (fst (handleMessage uuid m q))"
  by (cases rule: handleMessage_cases[of uuid m q])
     (simp_all add: retired_le_applyTransferEvent retired_le_markUncertain retired_le_startDownload)

lemma retired_le_cancel: "retired_le q (fst (cancel taskId q))"
  by (auto simp: retired_le_def cancel_def Let_def case_prod_beta split: option.split
      intro: finish_frame(2)[THEN subsetD])

lemma retired_le_timedOut: "retired_le q (fst (cancellationTimedOut taskId q))"
  by (auto simp: retired_le_def cancellationTimedOut_def split: option.splits)

lemma retired_le_enqueue: "retired_le q (fst (enqueueUpload fs u c url q))"
  by (auto simp: retired_le_def enqueueUpload_def Let_def case_prod_beta split: option.splits)

lemma retired_le_timers [simp]: "retired_le (q\<lparr>q_timers := ts\<rparr>) q' = retired_le q q'"
  by (simp add: retired_le_def)

lemma retired_le_session [simp]:
  "retired_le q (beginSession c d q)" "retired_le q (clearCompleted q)"
  "retired_le q (registerDownload fs c dir q)" "retired_le q (fst (pump fs c q))"
  "retired_le q (fst (pruneCompleted q))"
  by (simp_all add: retired_le_def beginSession_def clearCompleted_def registerDownload_def
      pruneCompleted_def Let_def)

lemma retired_le_reconcile: "retired_le q (fst (reconcileSession c d b t q))"
  by (simp add: reconcileSession_def retired_le_endSession)

lemma retired_le_after_timer: "retired_le (q\<lparr>q_timers := ts\<rparr>) q' \<Longrightarrow> retired_le q q'"
  by simp

lemma ft_step_retired: "ft_step q q' \<Longrightarrow> retired_le q q'"
proof (induction rule: ft_step.induct)
  case (fire_pump c q fs)
  show ?case by (rule retired_le_after_timer, rule retired_le_session)
next
  case (fire_clear q)
  show ?case by (rule retired_le_after_timer, rule retired_le_session)
next
  case (fire_timeout taskId q)
  show ?case by (rule retired_le_after_timer, rule retired_le_timedOut)
qed (simp_all add: retired_le_endSession retired_le_endSessions retired_le_handleMessage
    retired_le_cancel retired_le_timedOut retired_le_enqueue retired_le_reconcile endAllSessions_def)

lemma ft_steps_retired: "ft_step\<^sup>*\<^sup>* q q' \<Longrightarrow> retired_le q q'"
  by (induction rule: rtranclp_induct) (auto intro: retired_le_trans ft_step_retired)


section \<open>Finished tasks\<close>

text \<open>No operation changes a task that has ended; it can only be dropped from the list.\<close>

definition keeps_finished :: "ft_queue \<Rightarrow> ft_queue \<Rightarrow> bool" where
  "keeps_finished q q' \<longleftrightarrow>
     (\<forall>t \<in> set (q_tasks q). terminal (t_status t) \<longrightarrow>
        (\<forall>t' \<in> set (q_tasks q'). t_id t' = t_id t \<longrightarrow> t' = t))"

lemma ids_inj: "distinct (map t_id ts) \<Longrightarrow> t \<in> set ts \<Longrightarrow> t' \<in> set ts \<Longrightarrow> t_id t' = t_id t \<Longrightarrow> t' = t"
  by (meson distinct_map inj_onD)

lemma keeps_finishedI:
  assumes d: "distinct (map t_id (q_tasks q))"
    and new: "\<And>t'. t' \<in> set (q_tasks q') \<Longrightarrow> t_id t' \<in> t_id ` set (q_tasks q) \<Longrightarrow>
      \<exists>t \<in> set (q_tasks q). t_id t' = t_id t \<and> (terminal (t_status t) \<longrightarrow> t' = t)"
  shows "keeps_finished q q'"
  unfolding keeps_finished_def
proof (intro ballI impI)
  fix t t' assume t: "t \<in> set (q_tasks q)" "terminal (t_status t)"
    and t': "t' \<in> set (q_tasks q')" "t_id t' = t_id t"
  from new[OF t'(1)] t t'(2) obtain u where
    "u \<in> set (q_tasks q)" "t_id t' = t_id u" "terminal (t_status u) \<longrightarrow> t' = u" by auto
  with ids_inj[OF d t(1), of u] t t' show "t' = t" by simp
qed

lemma ft_inv_distinct: "ft_inv q \<Longrightarrow> distinct (map t_id (q_tasks q))"
  by (simp add: ft_inv_def tasks_inv_def)

lemma keeps_finished_subset:
  "ft_inv q \<Longrightarrow> set (q_tasks q') \<subseteq> set (q_tasks q) \<Longrightarrow> keeps_finished q q'"
  by (rule keeps_finishedI) (auto dest: ft_inv_distinct)

lemma keeps_finished_touches:
  assumes inv: "ft_inv q" and t: "touches_live q q'"
  shows "keeps_finished q q'"
proof -
  have "\<exists>t \<in> set (q_tasks q). t_id t' = t_id t \<and> (terminal (t_status t) \<longrightarrow> t' = t)"
    if "t' \<in> set (q_tasks q')" for t'
    using t that set_update_subset_insert[of "q_tasks q"]
    unfolding touches_live_def touches_def evolves_def
    by (metis (no_types, lifting) insertE nth_mem subsetD)
  then show ?thesis by (intro keeps_finishedI[OF ft_inv_distinct[OF inv]])
qed

lemma disconnect_task_finished [simp]: "terminal (t_status t) \<Longrightarrow> disconnect_task c t = t"
  by (simp add: disconnect_task_def)

lemma disconnect_task_id [simp]: "t_id (disconnect_task c t) = t_id t"
  by (simp add: disconnect_task_def)

lemma endSession_origin:
  "t' \<in> set (q_tasks (fst (endSession c q))) \<Longrightarrow>
   \<exists>t \<in> set (q_tasks q). t_id t' = t_id t \<and> (terminal (t_status t) \<longrightarrow> t' = t)"
  by (auto simp: endSession_def split: if_splits)

lemma endSessions_origin:
  "t' \<in> set (q_tasks (fst (endSessions ids q))) \<Longrightarrow>
   \<exists>t \<in> set (q_tasks q). t_id t' = t_id t \<and> (terminal (t_status t) \<longrightarrow> t' = t)"
proof (induction ids arbitrary: q)
  case Nil
  then show ?case by auto
next
  case (Cons c ids)
  then have "t' \<in> set (q_tasks (fst (endSessions ids (fst (endSession c q)))))"
    by (simp add: case_prod_beta Let_def)
  from Cons.IH[OF this] obtain u where
    u: "u \<in> set (q_tasks (fst (endSession c q)))" "t_id t' = t_id u" "terminal (t_status u) \<longrightarrow> t' = u"
    by blast
  with endSession_origin[OF u(1)] show ?case by auto
qed

lemma pump_scan_origin:
  "t' \<in> set (fst (pump_scan fs c ts)) \<Longrightarrow>
   \<exists>t \<in> set ts. t_id t' = t_id t \<and> (terminal (t_status t) \<longrightarrow> t' = t)"
  by (induction ts) (auto simp: pump_scan_Cons simp del: pump_scan.simps(2) split: if_splits)

lemma pump_origin:
  "t' \<in> set (q_tasks (fst (pump fs c q))) \<Longrightarrow>
   \<exists>t \<in> set (q_tasks q). t_id t' = t_id t \<and> (terminal (t_status t) \<longrightarrow> t' = t)"
  by (auto simp: pump_def case_prod_beta Let_def dest: pump_scan_origin split: if_splits)

lemma keeps_finished_enqueue:
  assumes inv: "ft_inv q" and fresh: "uuid \<notin> t_id ` set (q_tasks q)"
  shows "keeps_finished q (fst (enqueueUpload fs uuid c url q))"
proof (rule keeps_finishedI[OF ft_inv_distinct[OF inv]])
  fix t' assume t': "t' \<in> set (q_tasks (fst (enqueueUpload fs uuid c url q)))"
    and old: "t_id t' \<in> t_id ` set (q_tasks q)"
  let ?goal = "\<exists>t \<in> set (q_tasks q). t_id t' = t_id t \<and> (terminal (t_status t) \<longrightarrow> t' = t)"
  have ?goal if "t' \<in> set (q_tasks (fst (pump fs c (q\<lparr>q_tasks := q_tasks q @ [u]\<rparr>))))" "t_id u = uuid" for u
    using pump_origin[OF that(1)] that(2) old fresh by auto
  with t' show ?goal
    unfolding enqueueUpload_def Let_def case_prod_beta
    by (auto split: if_splits option.splits)
qed

lemma keeps_finished_message:
  assumes inv: "ft_inv q" and fresh: "uuid \<notin> t_id ` set (q_tasks q)"
  shows "keeps_finished q (fst (handleMessage uuid msg q))"
  using inv
proof (cases rule: handleMessage_effect[where uuid = uuid and msg = msg])
  case (ignored ev)
  then show ?thesis using inv by (intro keeps_finished_subset) auto
next
  case (uncertain c)
  have "\<exists>t \<in> set (q_tasks q). t_id t' = t_id t \<and> (terminal (t_status t) \<longrightarrow> t' = t)"
    if t': "t' \<in> set (q_tasks (fst (markUncertain c q)))" for t'
  proof (cases "find_index (dispatched c) (q_tasks q)")
    case None
    with t' show ?thesis by (auto simp: markUncertain_def simp del: find_index_None)
  next
    case (Some i)
    with find_index_SomeD[OF Some] t' set_update_subset_insert[of "q_tasks q" i] show ?thesis
      by (force simp: markUncertain_def dispatched_def)
  qed
  then show ?thesis
    unfolding uncertain(1) by (intro keeps_finishedI[OF ft_inv_distinct[OF inv]])
next
  case (applied i)
  then show ?thesis using inv by (intro keeps_finished_touches) (auto simp: touches_live_def)
next
  case (started c tid filename)
  then show ?thesis
    unfolding started(1) using fresh
    by (intro keeps_finishedI[OF ft_inv_distinct[OF inv]]) (auto simp: startDownload_def)
qed

lemma keeps_finished_timers [simp]: "keeps_finished (q\<lparr>q_timers := ts\<rparr>) q' = keeps_finished q q'"
  by (simp add: keeps_finished_def)

lemma keeps_finished_end: "ft_inv q \<Longrightarrow> keeps_finished q (fst (endSession c q))"
  by (rule keeps_finishedI) (auto dest: endSession_origin ft_inv_distinct)

lemma keeps_finished_pump: "ft_inv q \<Longrightarrow> keeps_finished q (fst (pump fs c q))"
  by (rule keeps_finishedI) (auto dest: pump_origin ft_inv_distinct)

lemma keeps_finished_begin: "ft_inv q \<Longrightarrow> keeps_finished q (beginSession c d q)"
  by (rule keeps_finished_subset) (auto simp: beginSession_def)

lemma ft_step_keeps_finished: "ft_step q q' \<Longrightarrow> ft_inv q \<Longrightarrow> keeps_finished q q'"
proof (induction rule: ft_step.induct)
  case (step_reconcile q c d b t)
  then show ?case
    by (auto simp: reconcileSession_def keeps_finished_end keeps_finished_begin intro: keeps_finished_subset)
next
  case (step_endAll q)
  then show ?case
    unfolding endAllSessions_def by (intro keeps_finishedI) (auto dest: endSessions_origin ft_inv_distinct)
next
  case (fire_pump c q fs)
  then show ?case using keeps_finished_pump[of "q\<lparr>q_timers := remove1 (T_pump c) (q_timers q)\<rparr>" fs c] by simp
next
  case (fire_clear q)
  then show ?case by (intro keeps_finished_subset) (auto simp: pruneCompleted_def Let_def)
next
  case (fire_timeout taskId q)
  then show ?case
    using keeps_finished_touches[OF _ cancellationTimedOut_touches,
        of "q\<lparr>q_timers := remove1 (T_cancelTimeout taskId) (q_timers q)\<rparr>" taskId] by simp
next
  case (step_clear q)
  then show ?case by (intro keeps_finished_subset) (auto simp: clearCompleted_def)
next
  case (step_register q fs c dir)
  then show ?case by (intro keeps_finished_subset) (auto simp: registerDownload_def)
qed (auto intro: keeps_finished_begin keeps_finished_end keeps_finished_enqueue keeps_finished_message
    keeps_finished_touches cancel_touches cancellationTimedOut_touches)


section \<open>The upload schedule\<close>

definition ready_upload :: "file_env \<Rightarrow> qstring \<Rightarrow> task \<Rightarrow> bool" where
  "ready_upload fs c t \<longleftrightarrow> t_connectionId t = c \<and> t_status t = ''queued'' \<and> file_available fs (t_path t)"

definition commands :: "ft_event list \<Rightarrow> jobject list" where
  "commands ev = concat (map (\<lambda>e. case e of ft_commandRequested m \<Rightarrow> [m] | _ \<Rightarrow> []) ev)"

lemma commands_simps [simp]:
  "commands [] = []" "commands (ft_changed # ev) = commands ev"
  "commands (ft_notice d n # ev) = commands ev"
  "commands (ft_commandRequested m # ev) = m # commands ev"
  by (simp_all add: commands_def)

lemma pump_scan_first:
  "find_index (ready_upload fs c) ts = Some i \<Longrightarrow>
   fst (pump_scan fs c ts) ! i = (ts ! i)\<lparr>t_status := ''uploading''\<rparr>
   \<and> drop (Suc i) (fst (pump_scan fs c ts)) = drop (Suc i) ts
   \<and> commands (snd (pump_scan fs c ts)) = [startCommand c (ts ! i)]"
proof (induction ts arbitrary: i)
  case Nil
  then show ?case by simp
next
  case (Cons t ts)
  show ?case
  proof (cases "ready_upload fs c t")
    case True
    with Cons.prems show ?thesis by (auto simp: ready_upload_def)
  next
    case False
    with Cons.prems obtain j where j: "find_index (ready_upload fs c) ts = Some j" "i = Suc j" by auto
    from Cons.IH[OF j(1)] False j(2) show ?thesis
      by (auto simp: ready_upload_def case_prod_beta Let_def)
  qed
qed

lemma pump_first:
  assumes "sessionActive c q" "c \<notin> q_blockedUploads q" "\<forall>t \<in> set (q_tasks q). \<not> dispatched c t"
    and "find_index (ready_upload fs c) (q_tasks q) = Some i"
  shows "q_tasks (fst (pump fs c q)) ! i = (q_tasks q ! i)\<lparr>t_status := ''uploading''\<rparr>
    \<and> drop (Suc i) (q_tasks (fst (pump fs c q))) = drop (Suc i) (q_tasks q)
    \<and> commands (snd (pump fs c q)) = [startCommand c (q_tasks q ! i)]"
  using assms pump_scan_first[OF assms(4)]
  by (auto simp: pump_def sessionActive_def case_prod_beta Let_def)









section \<open>Properties\<close>

text \<open>
  A file system for the witnesses: every path except \<open>gone\<close> is a readable file and its own
  canonical path, and a path is relative to a directory when it extends it.
\<close>

definition demo_fs :: file_env where
  "demo_fs = \<lparr>fe_exists = (\<lambda>p. p \<noteq> ''gone''), fe_isFile = (\<lambda>p. True), fe_isDir = (\<lambda>p. False),
     fe_isReadable = (\<lambda>p. True), fe_canonicalFilePath = (\<lambda>p. p), fe_fileName = (\<lambda>p. p),
     fe_absolutePath = (\<lambda>p. p),
     fe_relativeFilePath = (\<lambda>root p. if startsWith p (root @ ''/'') then drop (length root + 1) p else ''..''),
     fe_isAbsolutePath = (\<lambda>p. startsWith p ''/'')\<rparr>"

definition demo_open :: ft_queue where
  "demo_open = beginSession ''c'' ''dev'' FileTransferQueue_init"

definition demo_upload :: "qstring \<Rightarrow> qstring \<Rightarrow> ft_queue \<Rightarrow> ft_queue" where
  "demo_upload uuid path q =
     fst (enqueueUpload demo_fs uuid ''c'' \<lparr>url_isLocalFile = True, url_toLocalFile = path\<rparr> q)"

definition demo_task :: "qstring \<Rightarrow> qstring \<Rightarrow> qstring \<Rightarrow> task" where
  "demo_task uuid path status = new_task\<lparr>t_id := uuid, t_connectionId := ''c'', t_deviceId := ''dev'',
     t_filename := path, t_path := path, t_direction := ''upload'', t_status := status\<rparr>"

definition demo_two :: ft_queue where
  "demo_two = demo_open\<lparr>q_tasks := [demo_task ''1'' ''a'' ''uploading'', demo_task ''2'' ''b'' ''queued'']\<rparr>"

lemma demo_open_eq: "demo_open = FileTransferQueue_init\<lparr>q_sessions := [(''c'', ''dev'')]\<rparr>"
  by (simp add: demo_open_def beginSession_def FileTransferQueue_init_def)

lemmas demo_defs = demo_open_eq demo_upload_def demo_task_def demo_two_def demo_fs_def
  FileTransferQueue_init_def new_task_def

lemma demo_two_eq: "demo_two = demo_upload ''2'' ''b'' (demo_upload ''1'' ''a'' demo_open)"
  by (simp add: demo_defs enqueueUpload_def Let_def file_available_def pump_def qm_contains_def
      qm_value_def dispatched_def pending_upload_def terminal_def)

lemma demo_open_reachable: "ft_reachable demo_open"
  unfolding demo_open_def by (rule reach_step, rule reach_init, rule refl, rule step_begin)

lemma demo_upload_reachable:
  "ft_reachable q \<Longrightarrow> uuid \<notin> t_id ` set (q_tasks q) \<Longrightarrow> ft_reachable (demo_upload uuid path q)"
  unfolding demo_upload_def by (rule reach_step, assumption) (rule step_enqueue)

lemma demo_two_reachable: "ft_reachable demo_two"
proof -
  have one: "q_tasks (demo_upload ''1'' ''a'' demo_open) = [demo_task ''1'' ''a'' ''uploading'']"
    by (simp add: demo_defs enqueueUpload_def Let_def file_available_def pump_def qm_contains_def
        qm_value_def dispatched_def)
  have "ft_reachable (demo_upload ''1'' ''a'' demo_open)"
    by (rule demo_upload_reachable[OF demo_open_reachable]) (simp add: demo_defs)
  then have "ft_reachable (demo_upload ''2'' ''b'' (demo_upload ''1'' ''a'' demo_open))"
    by (rule demo_upload_reachable) (simp add: one demo_task_def)
  then show ?thesis by (simp add: demo_two_eq)
qed

text \<open>
  C8. Upload schedule: in every reachable state of the queue each connection has at most one
  dispatched upload and at most 256 pending ones, two live tasks never share an identifier,
  and every transfer that has not ended belongs to an open session that was never ended before.
\<close>

theorem upload_schedule:
  assumes "ft_reachable q"
  shows "length (filter (dispatched c) (q_tasks q)) \<le> 1
    \<and> length (filter (pending_upload c) (q_tasks q)) \<le> 256
    \<and> distinct (map t_id (q_tasks q))
    \<and> (\<forall>t \<in> set (q_tasks q). \<not> terminal (t_status t) \<longrightarrow>
          sessionActive (t_connectionId t) q \<and> t_connectionId t \<notin> q_retiredConnections q)"
  using ftq.reachable_inv[OF assms]
  by (auto simp: ft_inv_def tasks_inv_def task_ok_def sessionActive_def)

theorem upload_schedule_witness:
  "length (filter (dispatched ''c'') (q_tasks demo_two)) \<le> 1
    \<and> length (filter (pending_upload ''c'') (q_tasks demo_two)) = 2"
  using upload_schedule[OF demo_two_reachable, of "''c''"]
  by (simp add: demo_defs pending_upload_def)

text \<open>
  First in, first out: with an open, unblocked session and nothing in flight, \<open>pump\<close> dispatches
  the first queued upload whose file is still available, sends exactly one start command, for
  that file, and leaves every later task as it was.
\<close>

theorem pump_dispatches_first:
  assumes "sessionActive c q" and "c \<notin> q_blockedUploads q"
    and "\<forall>t \<in> set (q_tasks q). \<not> dispatched c t"
    and "find_index (ready_upload fs c) (q_tasks q) = Some i"
  shows "q_tasks (fst (pump fs c q)) ! i = (q_tasks q ! i)\<lparr>t_status := ''uploading''\<rparr>
    \<and> drop (Suc i) (q_tasks (fst (pump fs c q))) = drop (Suc i) (q_tasks q)
    \<and> commands (snd (pump fs c q)) = [startCommand c (q_tasks q ! i)]"
  using assms by (rule pump_first)

definition demo_gone :: ft_queue where
  "demo_gone = demo_open\<lparr>q_tasks := [demo_task ''1'' ''gone'' ''queued'', demo_task ''2'' ''b'' ''queued'']\<rparr>"

theorem pump_dispatches_first_witness:
  "q_tasks (fst (pump demo_fs ''c'' demo_gone)) ! 1 = demo_task ''2'' ''b'' ''uploading''"
  using pump_dispatches_first[of "''c''" demo_gone demo_fs 1]
  by (simp add: demo_gone_def demo_defs sessionActive_def qm_contains_def dispatched_def ready_upload_def
      file_available_def)



text \<open>
  C10. An ended session is never revived: whatever runs after \<open>endSession\<close>, the connection has no
  open session and none of its transfers is live, even if the same connection identifier
  reports itself connected again.
\<close>

theorem ended_session_stays_ended:
  assumes "ft_reachable q" and "c \<noteq> []" and "ft_step\<^sup>*\<^sup>* (fst (endSession c q)) q'"
  shows "\<not> sessionActive c q' \<and> (\<forall>t \<in> set (q_tasks q'). t_connectionId t = c \<longrightarrow> terminal (t_status t))"
proof -
  have inv: "ft_inv q'"
    using ftq.steps_inv[OF assms(3)] endSession_inv ftq.reachable_inv[OF assms(1)] by blast
  have "c \<in> q_retiredConnections (fst (endSession c q))" using assms(2) by (simp add: endSession_def)
  then have "c \<in> q_retiredConnections q'"
    using ft_steps_retired[OF assms(3)] by (auto simp: retired_le_def)
  then have "\<not> qm_contains (q_sessions q') c" using inv by (auto simp: ft_inv_def)
  with inv show ?thesis by (auto simp: ft_inv_def tasks_inv_def task_ok_def sessionActive_def)
qed

theorem ended_session_stays_ended_witness:
  "\<not> sessionActive ''c'' (beginSession ''c'' ''dev'' (fst (endSession ''c'' demo_two)))"
  using ended_session_stays_ended[OF demo_two_reachable, of "''c''"
      "beginSession ''c'' ''dev'' (fst (endSession ''c'' demo_two))"]
  by (simp add: r_into_rtranclp step_begin)

text \<open>
  A finished transfer is final: no call, message or timer changes a task that has ended; the
  user can only clear it from the list.
\<close>

theorem finished_task_is_final:
  assumes "ft_reachable q" and "ft_step q q'"
    and "t \<in> set (q_tasks q)" and "terminal (t_status t)"
    and "t' \<in> set (q_tasks q')" and "t_id t' = t_id t"
  shows "t' = t"
  using ft_step_keeps_finished[OF assms(2) ftq.reachable_inv[OF assms(1)]] assms(3-)
  by (auto simp: keeps_finished_def)

theorem finished_task_is_final_witness:
  "hd (q_tasks (fst (endSession ''c'' (fst (endSession ''c'' demo_two)))))
     = disconnect_task ''c'' (demo_task ''1'' ''a'' ''uploading'')"
proof -
  have "ft_reachable (fst (endSession ''c'' demo_two))"
    by (rule reach_step[OF demo_two_reachable step_end])
  note final = finished_task_is_final[OF this step_end[of _ "''c''"],
      of "disconnect_task ''c'' (demo_task ''1'' ''a'' ''uploading'')"]
  show ?thesis
    by (rule final) (simp_all add: endSession_def demo_defs disconnect_task_def)
qed

text \<open>
  Tombstones: once a transfer with an identifier has ended, every later message about it on
  the same connection and in the same direction is ignored, whatever happened in between.
\<close>

theorem late_messages_ignored:
  assumes "\<not> terminal (t_status (q_tasks q ! i))" and "t_transferId (q_tasks q ! i) \<noteq> []"
    and "ft_step\<^sup>*\<^sup>* (fst (finish i status err q)) q'"
    and "toString (oget m ''connectionId'') = t_connectionId (q_tasks q ! i)"
    and "toString (oget m ''transferId'') = t_transferId (q_tasks q ! i)"
    and "(if startsWith (toString (oget m ''type'')) ''fileDownload'' then ''download'' else ''upload'')
           = t_direction (q_tasks q ! i)"
  shows "handleMessage uuid m q' = (q', [])"
proof -
  let ?k = "wireKey (t_connectionId (q_tasks q ! i)) (t_direction (q_tasks q ! i)) (t_transferId (q_tasks q ! i))"
  have "?k \<in> q_retiredTransfers (fst (finish i status err q))"
    using assms(1,2) by (simp add: finish_def Let_def)
  then have "?k \<in> q_retiredTransfers q'"
    using ft_steps_retired[OF assms(3)] by (auto simp: retired_le_def)
  then show ?thesis
    unfolding handleMessage_def Let_def assms(4,5,6) using assms(2) by simp
qed

definition demo_message :: "qstring \<Rightarrow> jobject" where
  "demo_message type = mkobj [(''type'', JStr type), (''connectionId'', JStr ''c''), (''transferId'', JStr ''T'')]"

definition demo_named :: ft_queue where
  "demo_named = demo_open\<lparr>q_tasks := [(demo_task ''1'' ''a'' ''uploading'')\<lparr>t_transferId := ''T''\<rparr>]\<rparr>"

theorem late_messages_ignored_witness:
  "handleMessage ''9'' (demo_message ''fileTransferError'') (fst (finish 0 ''complete'' [] demo_named))
     = (fst (finish 0 ''complete'' [] demo_named), [])"
  by (rule late_messages_ignored[where q = demo_named and i = 0 and status = "''complete''" and err = "[]"])
     (simp_all add: demo_named_def demo_message_def json_lookup demo_defs startsWith_def)







end
