(* ===== verification/SecurityManager.thy ===== *)
theory SecurityManager
  imports Json "HOL-Library.Word"
begin

text \<open>
  \<open>QuickDesk/src/api/SecurityManager.cpp\<close>: tokens and permission levels, the device filter, the
  sliding-window rate limiter, session timeouts, the list of dangerous operations and the
  audit log of the WebSocket API.

  The clock (\<open>QDateTime::currentMSecsSinceEpoch\<close>) is the argument \<open>now\<close>. The audit file is the
  list of the lines written to it, \<open>None\<close> while there is no logger; the JSON printer is an
  argument of \<open>logAudit\<close>. Signals are the returned events. The locale \<open>sliding_window\<close> is the
  contract of a rate limiter, interpreted on \<open>checkRateLimit\<close>.
\<close>


section \<open>Data\<close>

datatype PermissionLevel = NoAccess | ReadOnly | FullControl

record security_manager =
  sm_fullAccessToken :: qstring
  sm_readOnlyToken :: qstring
  sm_allowedDevices :: "qstring list"
  sm_deviceFilterEnabled :: bool
  sm_rateLimitPerMinute :: int
  sm_rateLimiter :: "(qstring, int list) qmap"
  sm_sessionTimeoutSecs :: int
  sm_lastActivity :: "(qstring, int) qmap"
  sm_sessionCheckTimer :: "int option"
  sm_readOnlyMethods :: "qstring list"
  sm_auditLogger :: "qstring list option"

datatype sec_event =
    dangerousOperationBlocked qstring qstring jobject
  | rateLimitExceeded qstring qstring
  | sessionExpired qstring
  | anomalyDetected qstring qstring

definition readOnlyMethods :: "qstring list" where
  "readOnlyMethods = [''auth'', ''getHostInfo'', ''getHostClients'', ''getStatus'',
     ''getSignalingStatus'', ''listConnections'', ''getConnectionInfo'', ''screenshot'',
     ''getScreenSize'', ''getClipboard'']"

definition SecurityManager_init :: security_manager where
  "SecurityManager_init = \<lparr>sm_fullAccessToken = [], sm_readOnlyToken = [], sm_allowedDevices = [],
     sm_deviceFilterEnabled = False, sm_rateLimitPerMinute = 0, sm_rateLimiter = [],
     sm_sessionTimeoutSecs = 0, sm_lastActivity = [], sm_sessionCheckTimer = None,
     sm_readOnlyMethods = readOnlyMethods, sm_auditLogger = None\<rparr>"


section \<open>Authentication and authorization\<close>

definition setFullAccessToken :: "qstring \<Rightarrow> security_manager \<Rightarrow> security_manager" where
  "setFullAccessToken token sm = sm\<lparr>sm_fullAccessToken := token\<rparr>"

definition setReadOnlyToken :: "qstring \<Rightarrow> security_manager \<Rightarrow> security_manager" where
  "setReadOnlyToken token sm = sm\<lparr>sm_readOnlyToken := token\<rparr>"

definition authenticateToken :: "qstring \<Rightarrow> security_manager \<Rightarrow> PermissionLevel" where
  "authenticateToken token sm =
     (if sm_fullAccessToken sm \<noteq> [] \<and> token = sm_fullAccessToken sm then FullControl
      else if sm_readOnlyToken sm \<noteq> [] \<and> token = sm_readOnlyToken sm then ReadOnly
      else NoAccess)"

definition setAllowedDevices :: "qstring list \<Rightarrow> security_manager \<Rightarrow> security_manager" where
  "setAllowedDevices deviceIds sm =
     (let allowed = foldl (\<lambda>ds d. List.insert d ds) [] deviceIds
      in sm\<lparr>sm_allowedDevices := allowed, sm_deviceFilterEnabled := allowed \<noteq> []\<rparr>)"

definition isDeviceAllowed :: "qstring \<Rightarrow> security_manager \<Rightarrow> bool" where
  "isDeviceAllowed deviceId sm \<longleftrightarrow>
     (if \<not> sm_deviceFilterEnabled sm then True else deviceId \<in> set (sm_allowedDevices sm))"

definition isMethodAllowedForPermission ::
    "qstring \<Rightarrow> PermissionLevel \<Rightarrow> security_manager \<Rightarrow> bool" where
  "isMethodAllowedForPermission method level sm \<longleftrightarrow>
     (if level = FullControl then True
      else if level = ReadOnly then method \<in> set (sm_readOnlyMethods sm)
      else False)"


section \<open>Rate limiting\<close>

definition setRateLimitPerMinute :: "int \<Rightarrow> security_manager \<Rightarrow> security_manager" where
  "setRateLimitPerMinute maxRequests sm = sm\<lparr>sm_rateLimitPerMinute := maxRequests\<rparr>"

definition checkRateLimit ::
    "qstring \<Rightarrow> int \<Rightarrow> security_manager \<Rightarrow> security_manager \<times> bool" where
  "checkRateLimit clientId now sm =
     (if sm_rateLimitPerMinute sm \<le> 0 then (sm, True)
      else
        let cutoff = now - 60000;
            stamps = dropWhile (\<lambda>t. t < cutoff) (qm_value [] (sm_rateLimiter sm) clientId)
        in if int (length stamps) \<ge> sm_rateLimitPerMinute sm
           then (sm\<lparr>sm_rateLimiter := qm_insert clientId stamps (sm_rateLimiter sm)\<rparr>, False)
           else (sm\<lparr>sm_rateLimiter := qm_insert clientId (stamps @ [now]) (sm_rateLimiter sm)\<rparr>, True))"


section \<open>Session timeouts\<close>

text \<open>\<open>seconds * 1000\<close> is a 32-bit \<open>int\<close> product.\<close>

definition setSessionTimeoutSecs :: "int \<Rightarrow> security_manager \<Rightarrow> security_manager" where
  "setSessionTimeoutSecs seconds sm =
     sm\<lparr>sm_sessionTimeoutSecs := seconds,
        sm_sessionCheckTimer :=
          (if seconds > 0 then Some (min (sint (word_of_int (seconds * 1000) :: 32 word)) 30000)
           else None)\<rparr>"

definition recordActivity :: "qstring \<Rightarrow> int \<Rightarrow> security_manager \<Rightarrow> security_manager" where
  "recordActivity clientId now sm = sm\<lparr>sm_lastActivity := qm_insert clientId now (sm_lastActivity sm)\<rparr>"

definition removeClient :: "qstring \<Rightarrow> security_manager \<Rightarrow> security_manager" where
  "removeClient clientId sm =
     sm\<lparr>sm_lastActivity := qm_remove clientId (sm_lastActivity sm),
        sm_rateLimiter := qm_remove clientId (sm_rateLimiter sm)\<rparr>"

definition expiredClients :: "int \<Rightarrow> security_manager \<Rightarrow> qstring list" where
  "expiredClients now sm =
     (if sm_sessionTimeoutSecs sm \<le> 0 then []
      else let cutoff = now - sm_sessionTimeoutSecs sm * 1000
           in map fst (filter (\<lambda>kv. snd kv < cutoff) (sm_lastActivity sm)))"

definition checkSessionTimeouts :: "int \<Rightarrow> security_manager \<Rightarrow> sec_event list" where
  "checkSessionTimeouts now sm = map sessionExpired (expiredClients now sm)"


section \<open>Dangerous operations\<close>

definition isDangerousOperation :: "qstring \<Rightarrow> jobject \<Rightarrow> bool" where
  "isDangerousOperation method params \<longleftrightarrow>
     (if method = ''disconnectAll'' then True
      else
        let keyList = map (\<lambda>k. toLower (toString k)) (toArray (oget params ''keys''));
            text = toLower (toString (oget params ''text''))
        in if method = ''keyboardHotkey'' \<and> ''alt'' \<in> set keyList \<and> ''f4'' \<in> set keyList then True
           else if method = ''keyboardHotkey'' \<and> ''ctrl'' \<in> set keyList \<and> ''alt'' \<in> set keyList
                  \<and> ''delete'' \<in> set keyList then True
           else if method = ''keyboardType''
                  \<and> (contains_str text ''shutdown'' \<or> contains_str text ''reboot''
                     \<or> contains_str text ''format'' \<or> contains_str text ''rm -rf''
                     \<or> contains_str text ''del /f /s /q'' \<or> contains_str text ''mkfs'') then True
           else False)"


section \<open>Audit log\<close>

text \<open>\<open>opened\<close> is whether the rotating logger could be created.\<close>

definition initAuditLog :: "bool \<Rightarrow> security_manager \<Rightarrow> security_manager" where
  "initAuditLog opened sm = (if opened then sm\<lparr>sm_auditLogger := Some []\<rparr> else sm)"

definition audit_params :: "(jobject \<Rightarrow> qstring) \<Rightarrow> jobject \<Rightarrow> qstring" where
  "audit_params toJson params =
     (let s = toJson params in if length s > 500 then take 497 s @ ''...'' else s)"

definition audit_entry ::
    "(jobject \<Rightarrow> qstring) \<Rightarrow> qstring \<Rightarrow> qstring \<Rightarrow> jobject \<Rightarrow> bool \<Rightarrow> qstring \<Rightarrow> qstring" where
  "audit_entry toJson clientId method params allowed denialReason =
     ''['' @ (if allowed then ''ALLOW'' else ''DENY'') @ ''] '' @ clientId @ '' method='' @ method @
     '' params='' @ audit_params toJson params @
     (if denialReason = [] then [] else '' reason='' @ denialReason)"

definition logAudit ::
    "(jobject \<Rightarrow> qstring) \<Rightarrow> qstring \<Rightarrow> qstring \<Rightarrow> jobject \<Rightarrow> bool \<Rightarrow> qstring
       \<Rightarrow> security_manager \<Rightarrow> security_manager \<times> sec_event list" where
  "logAudit toJson clientId method params allowed denialReason sm =
     (sm\<lparr>sm_auditLogger :=
           map_option (\<lambda>ls. ls @ [audit_entry toJson clientId method params allowed denialReason])
             (sm_auditLogger sm)\<rparr>,
      if \<not> allowed \<and> contains_str denialReason ''rate_limit''
      then [rateLimitExceeded clientId method,
            anomalyDetected clientId (''Rate limit exceeded on '' @ method)]
      else [])"


section \<open>The rate limiter contract\<close>

text \<open>The calls a limiter accepts, in order, when it is asked about a sequence of calls.\<close>

fun accepted_calls :: "('k \<Rightarrow> int \<Rightarrow> 's \<Rightarrow> 's \<times> bool) \<Rightarrow> ('k \<times> int) list \<Rightarrow> 's \<Rightarrow> ('k \<times> int) list" where
  "accepted_calls check [] s = []"
| "accepted_calls check ((k, t) # calls) s =
     (let (s', ok) = check k t s
      in if ok then (k, t) # accepted_calls check calls s' else accepted_calls check calls s')"

definition times_of :: "'k \<Rightarrow> ('k \<times> int) list \<Rightarrow> int list" where
  "times_of k calls = map snd (filter (\<lambda>c. fst c = k) calls)"

definition in_window :: "int \<Rightarrow> int list \<Rightarrow> int list" where
  "in_window from ts = filter (\<lambda>t. from \<le> t \<and> t \<le> from + 60000) ts"

lemma dropWhile_sorted_filter: "sorted ts \<Longrightarrow> dropWhile (\<lambda>t. t < c) ts = filter (\<lambda>t. (c::int) \<le> t) ts"
proof (induction ts)
  case Nil
  then show ?case by simp
next
  case (Cons a ts)
  show ?case
  proof (cases "a < c")
    case True
    with Cons show ?thesis by simp
  next
    case False
    with Cons.prems have "\<forall>t \<in> set (a # ts). c \<le> t" by auto
    then have "filter (\<lambda>t. c \<le> t) (a # ts) = a # ts" unfolding filter_id_conv by blast
    with False show ?thesis by simp
  qed
qed

locale sliding_window =
  fixes check :: "'k \<Rightarrow> int \<Rightarrow> 's \<Rightarrow> 's \<times> bool"
    and stamps :: "'k \<Rightarrow> 's \<Rightarrow> int list"
    and configured :: "int \<Rightarrow> 's \<Rightarrow> bool"
  assumes check_configured: "configured limit s \<Longrightarrow> configured limit (fst (check k now s))"
    and check_frame: "configured limit s \<Longrightarrow> k' \<noteq> k \<Longrightarrow> stamps k' (fst (check k now s)) = stamps k' s"
    and check_accepts: "configured limit s \<Longrightarrow> snd (check k now s) \<Longrightarrow>
      stamps k (fst (check k now s)) = dropWhile (\<lambda>t. t < now - 60000) (stamps k s) @ [now]
      \<and> int (length (stamps k (fst (check k now s)))) \<le> limit"
    and check_rejects: "configured limit s \<Longrightarrow> \<not> snd (check k now s) \<Longrightarrow>
      stamps k (fst (check k now s)) = dropWhile (\<lambda>t. t < now - 60000) (stamps k s)
      \<and> limit \<le> int (length (stamps k (fst (check k now s))))"
begin

lemma accepted_extends_window:
  assumes s: "configured limit s" and ok: "snd (check k now s)" and A: "sorted A" "\<forall>t \<in> set A. t \<le> now"
    and st: "stamps k s = filter (\<lambda>t. m \<le> t) A" "m \<le> now - 60000"
    and bound: "\<And>T. int (length (in_window T A)) \<le> limit"
  shows "int (length (in_window T (A @ [now]))) \<le> limit"
proof (cases "T \<le> now \<and> now \<le> T + 60000")
  case False
  then have "in_window T (A @ [now]) = in_window T A" by (auto simp: in_window_def)
  with bound show ?thesis by simp
next
  case True
  have "stamps k (fst (check k now s)) = filter (\<lambda>t. now - 60000 \<le> t) (filter (\<lambda>t. m \<le> t) A) @ [now]"
    using check_accepts[OF s ok] st A(1) by (simp add: dropWhile_sorted_filter sorted_wrt_filter)
  also have "\<dots> = filter (\<lambda>t. now - 60000 \<le> t) A @ [now]"
    using st(2) by (auto simp: filter_filter intro: filter_cong)
  finally have "int (length (filter (\<lambda>t. now - 60000 \<le> t) A @ [now])) \<le> limit"
    using check_accepts[OF s ok] by metis
  moreover have "length (in_window T A) \<le> length (filter (\<lambda>t. now - 60000 \<le> t) A)"
    unfolding in_window_def using True by (intro length_filter_mono) auto
  ultimately show ?thesis using True by (simp add: in_window_def)
qed

lemma window_bound_from:
  assumes "configured limit s" "sorted (A @ map snd calls)"
    and "stamps k s = filter (\<lambda>t. m \<le> t) A" and "\<forall>t \<in> set (map snd calls). m \<le> t - 60000"
    and "\<And>T. int (length (in_window T A)) \<le> limit"
  shows "int (length (in_window T (A @ times_of k (accepted_calls check calls s)))) \<le> limit"
  using assms
proof (induction calls arbitrary: s A m)
  case Nil
  then show ?case by (simp add: times_of_def)
next
  case (Cons c calls)
  obtain k0 now where c: "c = (k0, now)" by (cases c)
  let ?s = "fst (check k0 now s)"
  have cfg: "configured limit ?s" using Cons.prems(1) by (rule check_configured)
  have A: "sorted A" "\<forall>t \<in> set A. t \<le> now" and m: "m \<le> now - 60000"
    and sorted': "sorted (A @ map snd calls)" "\<forall>t \<in> set (map snd calls). now \<le> t"
    using Cons.prems(2,4) c by (auto simp: sorted_append)
  have run: "times_of k (accepted_calls check (c # calls) s) =
     (if snd (check k0 now s) \<and> k0 = k then [now] else []) @ times_of k (accepted_calls check calls ?s)"
    by (auto simp: c times_of_def case_prod_beta Let_def)
  have drop: "dropWhile (\<lambda>t. t < now - 60000) (stamps k s) = filter (\<lambda>t. now - 60000 \<le> t) A"
    using Cons.prems(3) A(1) m by (auto simp: dropWhile_sorted_filter sorted_wrt_filter filter_filter
        intro: filter_cong)
  have later: "\<forall>t \<in> set (map snd calls). now - 60000 \<le> t - 60000" using sorted'(2) by auto
  show ?case
  proof (cases "k0 = k")
    case False
    then have "stamps k ?s = filter (\<lambda>t. m \<le> t) A"
      using check_frame[OF Cons.prems(1), of k k0 now] Cons.prems(3) by simp
    from Cons.IH[OF cfg sorted'(1) this] Cons.prems(4,5) False show ?thesis by (simp add: run)
  next
    case k: True
    show ?thesis
    proof (cases "snd (check k0 now s)")
      case False
      then have "stamps k ?s = filter (\<lambda>t. now - 60000 \<le> t) A"
        using check_rejects[OF Cons.prems(1) False] drop k by simp
      from Cons.IH[OF cfg sorted'(1) this later Cons.prems(5)] False show ?thesis by (simp add: run)
    next
      case True
      have "stamps k ?s = filter (\<lambda>t. now - 60000 \<le> t) (A @ [now])"
        using check_accepts[OF Cons.prems(1) True] drop k by simp
      moreover have "sorted ((A @ [now]) @ map snd calls)"
        using A sorted' by (auto simp: sorted_append)
      moreover have "int (length (in_window T (A @ [now]))) \<le> limit" for T
        using accepted_extends_window[OF Cons.prems(1) _ A, of k m T] True Cons.prems(3,5) m k by simp
      ultimately show ?thesis
        using Cons.IH[OF cfg, of "A @ [now]" "now - 60000"] later True k by (simp add: run)
    qed
  qed
qed

text \<open>Asked about calls in time order, the limiter accepts at most \<open>limit\<close> of a client in any 60 seconds.\<close>

lemma window_bound:
  assumes "configured limit s" "stamps k s = []" "0 \<le> limit" "sorted (map snd calls)"
  shows "int (length (in_window T (times_of k (accepted_calls check calls s)))) \<le> limit"
proof (cases calls)
  case Nil
  with assms(3) show ?thesis by (simp add: times_of_def in_window_def)
next
  case (Cons c cs)
  have "\<forall>t \<in> set (map snd calls). snd c - 60000 \<le> t - 60000"
    using assms(4) Cons by auto
  from window_bound_from[where A = "[]", OF assms(1) _ _ this] assms Cons show ?thesis
    by (simp add: in_window_def)
qed

end

interpretation limiter: sliding_window checkRateLimit "\<lambda>k sm. qm_value [] (sm_rateLimiter sm) k"
  "\<lambda>limit sm. sm_rateLimitPerMinute sm = limit \<and> 0 < limit"
  by unfold_locales (auto simp: checkRateLimit_def Let_def qm_value_insert split: if_splits)


section \<open>Properties\<close>

text \<open>
  C13. Rate limit: for any interleaving of calls of any clients with a clock that does not run
  backwards, starting with no recorded request of the client, the limiter accepts at most
  the configured number of its requests within any 60 seconds.
\<close>

theorem rate_limit_window:
  assumes "sm_rateLimitPerMinute sm = limit" and "0 < limit"
    and "\<not> qm_contains (sm_rateLimiter sm) clientId" and "sorted (map snd calls)"
  shows "int (length (in_window T (times_of clientId (accepted_calls checkRateLimit calls sm)))) \<le> limit"
  using assms by (intro limiter.window_bound) (auto simp: qm_contains_def qm_value_def)

theorem rate_limit_window_witness:
  "length (in_window 0 (times_of ''a'' (accepted_calls checkRateLimit
     [(''a'', 0), (''b'', 5), (''a'', 10), (''a'', 20), (''a'', 60001)]
     (setRateLimitPerMinute 2 SecurityManager_init)))) \<le> 2"
  using rate_limit_window[of "setRateLimitPerMinute 2 SecurityManager_init" 2 "''a''"
      "[(''a'', 0), (''b'', 5), (''a'', 10), (''a'', 20), (''a'', 60001)]" 0]
  by (simp add: setRateLimitPerMinute_def SecurityManager_init_def)

text \<open>
  Session expiry: after activity at time \<open>t\<close> a client is listed as expired exactly when a timeout is
  set and more than that many seconds have passed.
\<close>

lemma expired_iff:
  assumes "sorted_wrt (<) (qm_keys (sm_lastActivity sm))"
  shows "clientId \<in> set (expiredClients now (recordActivity clientId t sm))
    \<longleftrightarrow> 0 < sm_sessionTimeoutSecs sm \<and> sm_sessionTimeoutSecs sm * 1000 < now - t"
proof -
  let ?m = "qm_insert clientId t (sm_lastActivity sm)"
  have d: "distinct (qm_keys ?m)"
    using qm_insert_sorted[OF assms] by (rule strict_sorted_distinct)
  have "(clientId, v) \<in> set ?m \<longleftrightarrow> v = t" for v
    using map_of_eq_Some_iff[OF d, of clientId v] by auto
  then show ?thesis
    by (auto simp: expiredClients_def recordActivity_def Let_def image_iff)
qed

end
