(* ===== verification/WebSocketServer.thy ===== *)
theory WebSocketServer
  imports SecurityManager
begin

text \<open>
  \<open>QuickDesk/src/api/WebSocketServer.cpp\<close>: the WebSocket API server. It keeps the connected and the
  authenticated sockets, a record per socket and the way back from client identifiers, and
  takes every text message through parsing, authentication, rate limit, permission, device
  filter and dangerous-operation check before the API handler sees it.

  A socket is the address of its \<open>QWebSocket\<close>; an address may be used again after the socket was
  deleted. The API handler (\<open>ApiHandler\<close>), the JSON text format and the peer addresses are the
  environment \<open>ws_env\<close>. A reply is the object sent; \<open>WsDispatch\<close> marks that a request was handed
  to the API handler. \<open>kAsyncMethods\<close> run on the thread pool: they wait in \<open>w_async\<close> and \<open>asyncDone\<close>
  is the queued continuation that sends the reply. \<open>m_nextClientId\<close> is unbounded here; the \<open>int\<close> of
  the code would take \<open>2 ^ 31\<close> connections to overflow.
\<close>


section \<open>Data\<close>

type_synonym socket = nat

record client_info =
  ci_permission :: PermissionLevel
  ci_id :: qstring

record ws_server =
  w_server :: "nat option"
  w_security :: security_manager
  w_clients :: "socket list"
  w_authenticatedClients :: "socket list"
  w_clientInfo :: "(socket, client_info) qmap"
  w_clientIdMap :: "(qstring, socket) qmap"
  w_authToken :: qstring
  w_nextClientId :: nat
  w_async :: "(socket \<times> jobject) list"

record ws_env =
  we_fromJson :: "qstring \<Rightarrow> jobject option"
  we_toJson :: "jobject \<Rightarrow> qstring"
  we_handleRequest :: "jobject \<Rightarrow> jobject"
  we_peerAddress :: "socket \<Rightarrow> qstring"
  we_auditOpened :: bool

datatype ws_event =
    WsSend socket jobject
  | WsClose socket
  | WsDispatch socket jobject
  | WsAuthenticatedCount nat
  | WsListening bool
  | WsSecurity sec_event

definition default_info :: client_info where
  "default_info = \<lparr>ci_permission = FullControl, ci_id = []\<rparr>"

definition WebSocketApiServer_init :: "ws_env \<Rightarrow> ws_server" where
  "WebSocketApiServer_init env = \<lparr>w_server = None,
     w_security = initAuditLog (we_auditOpened env) SecurityManager_init, w_clients = [],
     w_authenticatedClients = [], w_clientInfo = [], w_clientIdMap = [], w_authToken = [],
     w_nextClientId = 1, w_async = []\<rparr>"


section \<open>Listening\<close>

text \<open>\<open>listenOk\<close> is the answer of \<open>QWebSocketServer::listen\<close>, \<open>bound\<close> the port it bound.\<close>

definition start :: "bool \<Rightarrow> nat \<Rightarrow> ws_server \<Rightarrow> ws_server \<times> ws_event list \<times> bool" where
  "start listenOk bound s =
     (if w_server s \<noteq> None then (s, [], True)
      else if \<not> listenOk then (s, [], False)
      else (s\<lparr>w_server := Some bound\<rparr>, [WsListening True], True))"

definition stop :: "ws_server \<Rightarrow> ws_server \<times> ws_event list" where
  "stop s =
     (if w_server s = None then (s, [])
      else (s\<lparr>w_clients := [], w_authenticatedClients := [], w_clientInfo := [], w_clientIdMap := [],
              w_server := None\<rparr>,
            map WsClose (w_clients s) @ [WsListening False]))"

definition isListening :: "ws_server \<Rightarrow> bool" where
  "isListening s \<longleftrightarrow> w_server s \<noteq> None"

definition port :: "ws_server \<Rightarrow> nat" where
  "port s = (case w_server s of None \<Rightarrow> 0 | Some p \<Rightarrow> p)"

definition setAuthToken :: "qstring \<Rightarrow> ws_server \<Rightarrow> ws_server" where
  "setAuthToken token s =
     s\<lparr>w_authToken := token, w_security := setFullAccessToken token (w_security s)\<rparr>"

definition authenticatedClientCount :: "ws_server \<Rightarrow> nat" where
  "authenticatedClientCount s = length (w_authenticatedClients s)"


section \<open>Clients\<close>

definition broadcastEvent :: "qstring \<Rightarrow> jobject \<Rightarrow> ws_server \<Rightarrow> ws_event list" where
  "broadcastEvent event data s =
     (let msg = mkobj [(''event'', JStr event), (''data'', JObj data)];
          targets = (if w_authToken s = [] then w_clients s else w_authenticatedClients s)
      in map (\<lambda>c. WsSend c msg) targets)"

definition clientId :: "ws_env \<Rightarrow> socket \<Rightarrow> ws_server \<Rightarrow> qstring" where
  "clientId env client s =
     (case map_of (w_clientInfo s) client of Some i \<Rightarrow> ci_id i | None \<Rightarrow> we_peerAddress env client)"

definition client_name :: "nat \<Rightarrow> qstring" where
  "client_name n = ''client_'' @ string_of_nat n"

definition accept_client :: "int \<Rightarrow> socket \<Rightarrow> ws_server \<Rightarrow> ws_server \<times> ws_event list" where
  "accept_client now client s =
     (let cid = client_name (w_nextClientId s);
          s1 = s\<lparr>w_clients := List.insert client (w_clients s),
                 w_nextClientId := w_nextClientId s + 1,
                 w_clientInfo := qm_insert client \<lparr>ci_permission = FullControl, ci_id = cid\<rparr> (w_clientInfo s),
                 w_clientIdMap := qm_insert cid client (w_clientIdMap s)\<rparr>;
          auth = List.insert client (w_authenticatedClients s1);
          (s2, ev) = (if w_authToken s1 = []
             then (s1\<lparr>w_authenticatedClients := auth\<rparr>, [WsAuthenticatedCount (length auth)])
             else (s1, []))
      in (s2\<lparr>w_security := recordActivity cid now (w_security s2)\<rparr>, ev))"

text \<open>The loop over the pending connections; \<open>None\<close> is a null \<open>nextPendingConnection()\<close>.\<close>

fun onNewConnection :: "int \<Rightarrow> socket option list \<Rightarrow> ws_server \<Rightarrow> ws_server \<times> ws_event list" where
  "onNewConnection now [] s = (s, [])"
| "onNewConnection now (None # pending) s = onNewConnection now pending s"
| "onNewConnection now (Some client # pending) s =
     (let (s1, ev1) = accept_client now client s; (s2, ev2) = onNewConnection now pending s1
      in (s2, ev1 @ ev2))"

definition onClientDisconnected :: "ws_env \<Rightarrow> socket \<Rightarrow> ws_server \<Rightarrow> ws_server \<times> ws_event list" where
  "onClientDisconnected env client s =
     (let cid = clientId env client s;
          was = client \<in> set (w_authenticatedClients s);
          auth = removeAll client (w_authenticatedClients s)
      in (s\<lparr>w_security := removeClient cid (w_security s),
            w_clients := removeAll client (w_clients s),
            w_authenticatedClients := auth,
            w_clientIdMap := qm_remove cid (w_clientIdMap s),
            w_clientInfo := qm_remove client (w_clientInfo s)\<rparr>,
          if was then [WsAuthenticatedCount (length auth)] else []))"


section \<open>Replies\<close>

definition with_id :: "jobject \<Rightarrow> jobject \<Rightarrow> jobject" where
  "with_id request reply =
     (if ocontains request ''id'' then oset ''id'' (oget request ''id'') reply else reply)"

definition error_reply :: "int \<Rightarrow> qstring \<Rightarrow> jobject" where
  "error_reply code message =
     mkobj [(''error'', JObj (mkobj [(''code'', JInt code), (''message'', JStr message)]))]"

definition audit ::
    "ws_env \<Rightarrow> qstring \<Rightarrow> qstring \<Rightarrow> jobject \<Rightarrow> bool \<Rightarrow> qstring \<Rightarrow> ws_server \<Rightarrow> ws_server \<times> ws_event list" where
  "audit env cid method params allowed reason s =
     (let (sm, ev) = logAudit (we_toJson env) cid method params allowed reason (w_security s)
      in (s\<lparr>w_security := sm\<rparr>, map WsSecurity ev))"

text \<open>A refusal: audit entry, further signals, error reply with the request's \<open>id\<close>.\<close>

definition refuse ::
    "ws_env \<Rightarrow> socket \<Rightarrow> qstring \<Rightarrow> jobject \<Rightarrow> qstring \<Rightarrow> ws_event list \<Rightarrow> int \<Rightarrow> qstring \<Rightarrow> ws_server
       \<Rightarrow> ws_server \<times> ws_event list" where
  "refuse env client cid request reason signals code message s =
     (let (s1, ev) = audit env cid (toString (oget request ''method'')) (toObject (oget request ''params''))
                       False reason s
      in (s1, ev @ signals @ [WsSend client (with_id request (error_reply code message))]))"


section \<open>Authentication\<close>

definition set_permission :: "socket \<Rightarrow> PermissionLevel \<Rightarrow> ws_server \<Rightarrow> ws_server" where
  "set_permission client permission s =
     s\<lparr>w_clientInfo := qm_insert client
         ((qm_value default_info (w_clientInfo s) client)\<lparr>ci_permission := permission\<rparr>) (w_clientInfo s)\<rparr>"

definition authenticateClient ::
    "ws_env \<Rightarrow> socket \<Rightarrow> jobject \<Rightarrow> ws_server \<Rightarrow> ws_server \<times> ws_event list \<times> bool" where
  "authenticateClient env client msg s =
     (let method = toString (oget msg ''method'')
      in if method \<noteq> ''auth''
         then (s, [WsSend client (with_id msg (error_reply 401
                 (''Authentication required. Send '' @
                  ''{\"method\":\"auth\",\"params\":{\"token\":\"...\"}} first.'')))], False)
         else
           let token = toString (oget (toObject (oget msg ''params'')) ''token'');
               permission = authenticateToken token (w_security s)
           in if permission = NoAccess
              then
                let cid = clientId env client s;
                    (s1, ev) = audit env cid ''auth'' [] False ''invalid_token'' s
                in (s1, ev @ [WsSecurity (anomalyDetected cid ''Failed authentication attempt''),
                              WsSend client (with_id msg (error_reply 401 ''Invalid token'')),
                              WsClose client], False)
              else
                let auth = List.insert client (w_authenticatedClients s);
                    s1 = set_permission client permission (s\<lparr>w_authenticatedClients := auth\<rparr>);
                    cid = clientId env client s1;
                    (s2, ev) = audit env cid ''auth'' [] True [] s1;
                    resp = mkobj [(''result'', JObj (mkobj
                       [(''authenticated'', JBool True),
                        (''permission'', JStr (if permission = FullControl then ''full_control''
                                               else ''read_only''))]))]
                in (s2, WsAuthenticatedCount (length auth) # ev @ [WsSend client (with_id msg resp)], True))"


section \<open>The request pipeline\<close>

definition kAsyncMethods :: "qstring list" where
  "kAsyncMethods = [''getUiState'', ''getScreenText'', ''findElement'', ''clickText'',
     ''assertTextPresent'', ''assertScreenState'', ''screenDiffSummary'', ''waitForText'',
     ''verifyActionResult'', ''skillExec'', ''skillListTools'', ''requestConfirmation'']"

text \<open>What happens to a request that passed every check.\<close>

definition dispatchRequest :: "ws_env \<Rightarrow> socket \<Rightarrow> jobject \<Rightarrow> ws_server \<Rightarrow> ws_server \<times> ws_event list" where
  "dispatchRequest env client request s =
     (if toString (oget request ''method'') \<in> set kAsyncMethods
      then (s\<lparr>w_async := w_async s @ [(client, request)]\<rparr>, [WsDispatch client request])
      else (s, [WsDispatch client request,
                WsSend client (with_id request (we_handleRequest env request))]))"

text \<open>The queued continuation of the \<open>n\<close>-th request on the thread pool.\<close>

definition asyncDone :: "ws_env \<Rightarrow> nat \<Rightarrow> ws_server \<Rightarrow> ws_server \<times> ws_event list" where
  "asyncDone env n s =
     (if n < length (w_async s)
      then
        let (client, request) = w_async s ! n;
            s1 = s\<lparr>w_async := remove_at n (w_async s)\<rparr>
        in if client \<notin> set (w_clients s1) \<and> client \<notin> set (w_authenticatedClients s1) then (s1, [])
           else (s1, [WsSend client (with_id request (we_handleRequest env request))])
      else (s, []))"

text \<open>The checks after authentication, from the rate limit on.\<close>

definition checkRequest ::
    "ws_env \<Rightarrow> int \<Rightarrow> socket \<Rightarrow> qstring \<Rightarrow> jobject \<Rightarrow> ws_server \<Rightarrow> ws_server \<times> ws_event list" where
  "checkRequest env now client cid request s =
     (let method = toString (oget request ''method'');
          params = toObject (oget request ''params'');
          permission = ci_permission (qm_value default_info (w_clientInfo s) client);
          (sm, underLimit) = checkRateLimit cid now (w_security s);
          s1 = s\<lparr>w_security := sm\<rparr>;
          deviceId = toString (oget params ''deviceId'')
      in if \<not> underLimit
         then refuse env client cid request ''rate_limit'' [] 429
                ''Rate limit exceeded. Please slow down.'' s1
         else if \<not> isMethodAllowedForPermission method permission sm
         then refuse env client cid request ''permission_denied'' [] 403
                (''Permission denied. Method '' @ [CHR 0x27] @ method @ [CHR 0x27] @
                 '' requires full control access.'') s1
         else if method = ''connectToHost'' \<and> \<not> isDeviceAllowed deviceId sm
         then refuse env client cid request ''device_not_allowed'' [] 403
                (''Device '' @ [CHR 0x27] @ deviceId @ [CHR 0x27] @
                 '' is not in the allowed device list.'') s1
         else if isDangerousOperation method params
         then refuse env client cid request ''dangerous_operation''
                [WsSecurity (dangerousOperationBlocked cid method params)] 403
                (''This operation has been blocked for safety. Dangerous operations '' @
                 ''(shutdown, format, rm -rf, Alt+F4, Ctrl+Alt+Delete, disconnect all) '' @
                 ''are not allowed via the API.'') s1
         else
           let (s2, ev) = audit env cid method params True [] s1;
               (s3, ev') = dispatchRequest env client request s2
           in (s3, ev @ ev'))"

definition onTextMessageReceived ::
    "ws_env \<Rightarrow> int \<Rightarrow> socket \<Rightarrow> qstring \<Rightarrow> ws_server \<Rightarrow> ws_server \<times> ws_event list" where
  "onTextMessageReceived env now client message s =
     (let cid = clientId env client s;
          s0 = s\<lparr>w_security := recordActivity cid now (w_security s)\<rparr>
      in case we_fromJson env message of
           None \<Rightarrow> (s0, [WsSend client (error_reply (-32700) ''Parse error'')])
         | Some request \<Rightarrow>
             if w_authToken s0 \<noteq> [] \<and> client \<notin> set (w_authenticatedClients s0)
             then
               let (s1, ev, ok) = authenticateClient env client request s0
               in if \<not> ok \<or> toString (oget request ''method'') = ''auth'' then (s1, ev)
                  else (let (s2, ev') = checkRequest env now client cid request s1 in (s2, ev @ ev'))
             else checkRequest env now client cid request s0)"


section \<open>Session timeouts\<close>

definition onSessionExpired :: "ws_env \<Rightarrow> qstring \<Rightarrow> ws_server \<Rightarrow> ws_server \<times> ws_event list" where
  "onSessionExpired env expiredClientId s =
     (case map_of (w_clientIdMap s) expiredClientId of
        None \<Rightarrow> (s, [])
      | Some client \<Rightarrow>
          let (s1, ev) = audit env expiredClientId ''SESSION_TIMEOUT'' [] False ''session_timeout'' s
          in (s1, ev @ [WsSend client (mkobj [(''event'', JStr ''sessionTimeout''),
                (''data'', JObj (mkobj [(''message'', JStr ''Session timed out due to inactivity.'')]))]),
                WsClose client]))"

fun onSessionsExpired :: "ws_env \<Rightarrow> qstring list \<Rightarrow> ws_server \<Rightarrow> ws_server \<times> ws_event list" where
  "onSessionsExpired env [] s = (s, [])"
| "onSessionsExpired env (cid # cids) s =
     (let (s1, ev1) = onSessionExpired env cid s; (s2, ev2) = onSessionsExpired env cids s1
      in (s2, WsSecurity (sessionExpired cid) # ev1 @ ev2))"

text \<open>One timeout of the session-check timer: \<open>checkSessionTimeouts\<close> and the slot connected to it.\<close>

definition sessionCheck :: "ws_env \<Rightarrow> int \<Rightarrow> ws_server \<Rightarrow> ws_server \<times> ws_event list" where
  "sessionCheck env now s = onSessionsExpired env (expiredClients now (w_security s)) s"


section \<open>Runs of the server\<close>

text \<open>
  What the event loop delivers to a running server. Only a connected socket sends and
  disconnects, and a pending connection is not the address of a live socket.
\<close>

datatype ws_input =
    InConnect int socket
  | InMessage int socket qstring
  | InDisconnect socket
  | InTick int
  | InAsyncDone nat
  | InStart bool nat
  | InStop

fun ws_exec :: "ws_env \<Rightarrow> ws_input \<Rightarrow> ws_server \<Rightarrow> ws_server \<times> ws_event list" where
  "ws_exec env (InConnect now c) s =
     (if c \<in> set (w_clients s) then (s, []) else onNewConnection now [Some c] s)"
| "ws_exec env (InMessage now c text) s =
     (if c \<in> set (w_clients s) then onTextMessageReceived env now c text s else (s, []))"
| "ws_exec env (InDisconnect c) s =
     (if c \<in> set (w_clients s) then onClientDisconnected env c s else (s, []))"
| "ws_exec env (InTick now) s = sessionCheck env now s"
| "ws_exec env (InAsyncDone n) s = asyncDone env n s"
| "ws_exec env (InStart ok p) s = (let (s', ev, _) = start ok p s in (s', ev))"
| "ws_exec env InStop s = stop s"

definition ws_run :: "ws_env \<Rightarrow> ws_input list \<Rightarrow> ws_server \<Rightarrow> ws_server" where
  "ws_run env inputs s = foldl (\<lambda>s i. fst (ws_exec env i s)) s inputs"

end
