(* ===== verification/WebSocketSafety.thy ===== *)
theory WebSocketSafety
  imports WebSocketServer
begin

text \<open>
  What the WebSocket API server guarantees: its tables stay consistent in every run, and no
  request reaches the API handler before its client has presented a valid token and the
  request has passed every check.
\<close>


section \<open>What operations leave alone\<close>

text \<open>The configuration of the security manager, and the client tables of the server.\<close>

definition sec_config :: "security_manager \<Rightarrow> security_manager" where
  "sec_config sm = sm\<lparr>sm_rateLimiter := [], sm_lastActivity := [], sm_auditLogger := None\<rparr>"

definition registry :: "ws_server \<Rightarrow> ws_server" where
  "registry s = s\<lparr>w_security := sec_config (w_security s), w_async := []\<rparr>"

lemma decide_sec_config [simp]:
  "authenticateToken t (sec_config sm) = authenticateToken t sm"
  "isMethodAllowedForPermission m p (sec_config sm) = isMethodAllowedForPermission m p sm"
  "isDeviceAllowed d (sec_config sm) = isDeviceAllowed d sm"
  by (simp_all add: sec_config_def authenticateToken_def isMethodAllowedForPermission_def isDeviceAllowed_def)

lemma registry_sel [simp]:
  "w_clients (registry s) = w_clients s" "w_authenticatedClients (registry s) = w_authenticatedClients s"
  "w_clientInfo (registry s) = w_clientInfo s" "w_clientIdMap (registry s) = w_clientIdMap s"
  "w_authToken (registry s) = w_authToken s" "w_nextClientId (registry s) = w_nextClientId s"
  "w_security (registry s) = sec_config (w_security s)"
  by (simp_all add: registry_def)

lemma registry_eqD:
  assumes "registry s = registry t"
  shows "w_clients s = w_clients t" "w_authenticatedClients s = w_authenticatedClients t"
    "w_clientInfo s = w_clientInfo t" "w_clientIdMap s = w_clientIdMap t"
    "w_authToken s = w_authToken t" "w_nextClientId s = w_nextClientId t"
    "sec_config (w_security s) = sec_config (w_security t)"
  using assms by (metis registry_sel)+

lemma sec_config_ops [simp]:
  "sec_config (fst (logAudit tj c m p a r sm)) = sec_config sm"
  "sec_config (fst (checkRateLimit c now sm)) = sec_config sm"
  "sec_config (recordActivity c now sm) = sec_config sm"
  "sec_config (removeClient c sm) = sec_config sm"
  by (simp_all add: sec_config_def logAudit_def checkRateLimit_def recordActivity_def removeClient_def Let_def)

lemma authenticateToken_activity [simp]:
  "authenticateToken t (recordActivity c now sm) = authenticateToken t sm"
  by (simp add: authenticateToken_def recordActivity_def)

lemma registry_security [simp]:
  "sec_config sm = sec_config (w_security s) \<Longrightarrow> registry (s\<lparr>w_security := sm\<rparr>) = registry s"
  by (simp add: registry_def)

lemma registry_async [simp]: "registry (s\<lparr>w_async := a\<rparr>) = registry s"
  by (simp add: registry_def)

lemma registry_audit [simp]: "registry (fst (audit env cid m p a r s)) = registry s"
  by (simp add: audit_def case_prod_beta Let_def)

lemma registry_refuse [simp]: "registry (fst (refuse env c cid req r sg code msg s)) = registry s"
  by (simp add: refuse_def case_prod_beta Let_def)

lemma registry_dispatch [simp]: "registry (fst (dispatchRequest env c req s)) = registry s"
  by (simp add: dispatchRequest_def)

lemma registry_check [simp]: "registry (fst (checkRequest env now c cid req s)) = registry s"
  by (simp add: checkRequest_def case_prod_beta Let_def)

lemma registry_expired [simp]: "registry (fst (onSessionExpired env cid s)) = registry s"
  by (simp add: onSessionExpired_def case_prod_beta Let_def split: option.split)

lemma registry_expireds [simp]: "registry (fst (onSessionsExpired env cids s)) = registry s"
  by (induction cids arbitrary: s) (simp_all add: case_prod_beta Let_def)

lemma registry_tick [simp]: "registry (fst (sessionCheck env now s)) = registry s"
  by (simp add: sessionCheck_def)

lemma registry_asyncDone [simp]: "registry (fst (asyncDone env n s)) = registry s"
  by (simp add: asyncDone_def case_prod_beta Let_def)


section \<open>Authentication\<close>

definition presented :: "jobject \<Rightarrow> qstring" where
  "presented m = toString (oget (toObject (oget m ''params'')) ''token'')"

text \<open>A message that authenticates its sender at level \<open>p\<close> under the configuration \<open>sm\<close>.\<close>

definition grants :: "ws_env \<Rightarrow> security_manager \<Rightarrow> qstring \<Rightarrow> PermissionLevel \<Rightarrow> bool" where
  "grants env sm text p \<longleftrightarrow> p \<noteq> NoAccess \<and>
     (case we_fromJson env text of None \<Rightarrow> False
      | Some m \<Rightarrow> toString (oget m ''method'') = ''auth'' \<and> authenticateToken (presented m) sm = p)"

lemma grants_sec_config [simp]: "grants env (sec_config sm) = grants env sm"
  by (simp add: fun_eq_iff grants_def split: option.split)

lemma authenticateClient_cases:
  obtains (denied) s' ev where "authenticateClient env c m s = (s', ev, False)" "registry s' = registry s"
  | (granted) s' ev p where "authenticateClient env c m s = (s', ev, True)" "p \<noteq> NoAccess"
      "toString (oget m ''method'') = ''auth''" "authenticateToken (presented m) (w_security s) = p"
      "registry s' = registry (set_permission c p (s\<lparr>w_authenticatedClients := List.insert c (w_authenticatedClients s)\<rparr>))"
proof (cases "toString (oget m ''method'') = ''auth''")
  case False
  then show thesis by (intro denied) (simp_all add: authenticateClient_def)
next
  case True
  show thesis
  proof (cases "authenticateToken (presented m) (w_security s) = NoAccess")
    case noaccess: True
    with True show thesis
      by (intro denied[of "fst (audit env (clientId env c s) ''auth'' [] False ''invalid_token'' s)"])
         (simp_all add: authenticateClient_def presented_def case_prod_beta Let_def)
  next
    case False
    let ?p = "authenticateToken (presented m) (w_security s)"
    let ?s1 = "set_permission c ?p (s\<lparr>w_authenticatedClients := List.insert c (w_authenticatedClients s)\<rparr>)"
    show thesis
      using False True
      by (intro granted[of "fst (audit env (clientId env c ?s1) ''auth'' [] True [] ?s1)" _ ?p])
         (simp_all add: authenticateClient_def presented_def case_prod_beta Let_def)
  qed
qed

lemma onTextMessage_registry:
  obtains (same) "registry (fst (onTextMessageReceived env now c text s)) = registry s"
  | (granted) p where "grants env (w_security s) text p"
      "registry (fst (onTextMessageReceived env now c text s)) =
         registry (set_permission c p (s\<lparr>w_authenticatedClients := List.insert c (w_authenticatedClients s)\<rparr>))"
proof -
  let ?s0 = "s\<lparr>w_security := recordActivity (clientId env c s) now (w_security s)\<rparr>"
  show thesis
  proof (cases "we_fromJson env text")
    case None
    then show thesis by (intro same) (simp add: onTextMessageReceived_def Let_def)
  next
    case (Some m)
    show thesis
    proof (cases "w_authToken s \<noteq> [] \<and> c \<notin> set (w_authenticatedClients s)")
      case False
      with Some show thesis by (intro same) (auto simp: onTextMessageReceived_def Let_def)
    next
      case True
      show thesis
      proof (cases rule: authenticateClient_cases[of env c m ?s0])
        case (denied s' ev)
        with True Some show thesis by (intro same) (simp add: onTextMessageReceived_def Let_def)
      next
        case (granted s' ev p)
        have "grants env (w_security s) text p"
          using granted(2-4) Some by (simp add: grants_def)
        moreover have "registry (fst (onTextMessageReceived env now c text s)) =
          registry (set_permission c p (?s0\<lparr>w_authenticatedClients := List.insert c (w_authenticatedClients s)\<rparr>))"
          using granted True Some by (simp add: onTextMessageReceived_def Let_def)
        moreover have "\<dots> = registry (set_permission c p
            (s\<lparr>w_authenticatedClients := List.insert c (w_authenticatedClients s)\<rparr>))"
          by (simp add: set_permission_def registry_def)
        ultimately show thesis by (intro that(2)[of p]) simp_all
      qed
    qed
  qed
qed


section \<open>The client tables\<close>

definition ws_inv :: "ws_server \<Rightarrow> bool" where
  "ws_inv s \<longleftrightarrow>
     distinct (w_clients s)
     \<and> set (w_authenticatedClients s) \<subseteq> set (w_clients s)
     \<and> dom (map_of (w_clientInfo s)) = set (w_clients s)
     \<and> (\<forall>k c. map_of (w_clientIdMap s) k = Some c
          \<longleftrightarrow> (\<exists>i. map_of (w_clientInfo s) c = Some i \<and> ci_id i = k))
     \<and> (\<forall>c i. map_of (w_clientInfo s) c = Some i \<longrightarrow> (\<exists>n < w_nextClientId s. ci_id i = client_name n))"

lemma ws_inv_registry: "registry s = registry t \<Longrightarrow> ws_inv s = ws_inv t"
  using registry_eqD[of s t] by (simp add: ws_inv_def)

lemma client_name_inject [simp]: "client_name m = client_name n \<longleftrightarrow> m = n"
  by (simp add: client_name_def)

lemma ws_inv_infoD: "ws_inv s \<Longrightarrow> map_of (w_clientInfo s) c = Some i \<Longrightarrow> map_of (w_clientIdMap s) (ci_id i) = Some c"
  by (auto simp: ws_inv_def)

lemma ws_inv_client:
  assumes "ws_inv s" and "c \<in> set (w_clients s)"
  obtains i where "map_of (w_clientInfo s) c = Some i"
proof -
  have "c \<in> dom (map_of (w_clientInfo s))" using assms by (simp add: ws_inv_def)
  then show thesis using that by auto
qed

lemma ws_inv_ids_unique:
  "ws_inv s \<Longrightarrow> map_of (w_clientInfo s) c = Some i \<Longrightarrow> map_of (w_clientInfo s) c' = Some i' \<Longrightarrow>
   ci_id i = ci_id i' \<Longrightarrow> c = c'"
  using ws_inv_infoD by (metis option.inject)

lemma ws_inv_idMap:
  "ws_inv s \<Longrightarrow> map_of (w_clientIdMap s) k = Some c \<longleftrightarrow> (\<exists>i. map_of (w_clientInfo s) c = Some i \<and> ci_id i = k)"
  by (simp add: ws_inv_def)

lemma ws_inv_name:
  "ws_inv s \<Longrightarrow> map_of (w_clientInfo s) c = Some i \<Longrightarrow> \<exists>n < w_nextClientId s. ci_id i = client_name n"
  by (simp add: ws_inv_def)

lemma ws_inv_unused:
  assumes inv: "ws_inv s"
  shows "map_of (w_clientInfo s) d = Some i \<Longrightarrow> ci_id i \<noteq> client_name (w_nextClientId s)"
    and "map_of (w_clientIdMap s) (client_name (w_nextClientId s)) = None"
proof -
  show 1: "ci_id i \<noteq> client_name (w_nextClientId s)" if "map_of (w_clientInfo s) d = Some i" for d i
    using ws_inv_name[OF inv that] by auto
  show "map_of (w_clientIdMap s) (client_name (w_nextClientId s)) = None"
    using 1 ws_inv_idMap[OF inv] by (metis not_None_eq)
qed

lemma accept_inv:
  assumes inv: "ws_inv s" and new: "c \<notin> set (w_clients s)"
  shows "ws_inv (fst (accept_client now c s))"
proof -
  let ?cid = "client_name (w_nextClientId s)"
  let ?info = "qm_insert c \<lparr>ci_permission = FullControl, ci_id = ?cid\<rparr> (w_clientInfo s)"
  have "c \<notin> dom (map_of (w_clientInfo s))" using inv new by (simp add: ws_inv_def)
  then have fresh: "map_of (w_clientInfo s) c = None" by auto
  have ids: "map_of (qm_insert ?cid c (w_clientIdMap s)) k = Some d \<longleftrightarrow>
      (\<exists>i. map_of ?info d = Some i \<and> ci_id i = k)" for k d
    using fresh ws_inv_unused[OF inv] ws_inv_idMap[OF inv, of k d] by (cases "d = c") auto
  have "\<exists>n < Suc (w_nextClientId s). ci_id i = client_name n" if "map_of ?info d = Some i" for d i
    using that ws_inv_name[OF inv, of d i] by (auto intro: less_SucI split: if_splits)
  with inv new ids show ?thesis
    by (auto simp: ws_inv_def accept_client_def Let_def case_prod_beta)
qed

lemma disconnect_inv:
  assumes inv: "ws_inv s" and c: "c \<in> set (w_clients s)"
  shows "ws_inv (fst (onClientDisconnected env c s))"
proof -
  obtain i where i: "map_of (w_clientInfo s) c = Some i"
    using ws_inv_client[OF inv c] .
  then have cid: "clientId env c s = ci_id i" by (simp add: clientId_def)
  let ?t = "fst (onClientDisconnected env c s)"
  have t: "w_clients ?t = removeAll c (w_clients s)"
    "w_authenticatedClients ?t = removeAll c (w_authenticatedClients s)"
    "w_clientInfo ?t = qm_remove c (w_clientInfo s)" "w_clientIdMap ?t = qm_remove (ci_id i) (w_clientIdMap s)"
    "w_nextClientId ?t = w_nextClientId s"
    by (simp_all add: onClientDisconnected_def Let_def cid)
  have "map_of (w_clientIdMap ?t) k = Some d \<longleftrightarrow> (\<exists>j. map_of (w_clientInfo ?t) d = Some j \<and> ci_id j = k)" for k d
  proof (cases "d = c")
    case True
    with i ws_inv_idMap[OF inv, of k c] show ?thesis by (auto simp: t)
  next
    case False
    with ws_inv_ids_unique[OF inv i, of d] ws_inv_idMap[OF inv, of k d] show ?thesis by (auto simp: t)
  qed
  moreover have "\<exists>n < w_nextClientId ?t. ci_id j = client_name n" if "map_of (w_clientInfo ?t) d = Some j" for d j
    using that inv by (auto simp: t ws_inv_def split: if_splits)
  moreover have "dom (map_of (w_clientInfo ?t)) = set (w_clients ?t)"
    using inv by (auto simp: t ws_inv_def)
  moreover have "distinct (w_clients ?t)" "set (w_authenticatedClients ?t) \<subseteq> set (w_clients ?t)"
    using inv by (auto simp: t ws_inv_def distinct_removeAll)
  ultimately show ?thesis unfolding ws_inv_def by blast
qed

lemma set_permission_inv:
  assumes inv: "ws_inv s" and c: "c \<in> set (w_clients s)"
  shows "ws_inv (set_permission c p (s\<lparr>w_authenticatedClients := List.insert c (w_authenticatedClients s)\<rparr>))"
proof -
  obtain i where i: "map_of (w_clientInfo s) c = Some i"
    using ws_inv_client[OF inv c] .
  then have v: "qm_value default_info (w_clientInfo s) c = i" by (simp add: qm_value_def)
  have "map_of (w_clientIdMap s) k = Some d \<longleftrightarrow>
     (\<exists>j. map_of (qm_insert c (i\<lparr>ci_permission := p\<rparr>) (w_clientInfo s)) d = Some j \<and> ci_id j = k)" for k d
    using inv i by (auto simp: ws_inv_def)
  moreover have "\<exists>n < w_nextClientId s. ci_id j = client_name n" if
    "map_of (qm_insert c (i\<lparr>ci_permission := p\<rparr>) (w_clientInfo s)) d = Some j" for d j
    using that inv i by (auto simp: ws_inv_def split: if_splits)
  ultimately show ?thesis
    using inv c i by (auto simp: ws_inv_def set_permission_def v)
qed

lemma message_inv:
  assumes inv: "ws_inv s" and c: "c \<in> set (w_clients s)"
  shows "ws_inv (fst (onTextMessageReceived env now c tx s))"
proof (cases rule: onTextMessage_registry[of env now c tx s])
  case same
  with inv show ?thesis using ws_inv_registry by blast
next
  case (granted p)
  with set_permission_inv[OF inv c, of p] show ?thesis using ws_inv_registry by blast
qed

lemma ws_exec_inv: "ws_inv s \<Longrightarrow> ws_inv (fst (ws_exec env i s))"
proof (cases i)
  case (InConnect now c)
  then show "ws_inv s \<Longrightarrow> ws_inv (fst (ws_exec env i s))"
    by (auto simp: accept_inv case_prod_beta Let_def)
next
  case (InTick now)
  then show "ws_inv s \<Longrightarrow> ws_inv (fst (ws_exec env i s))"
    using ws_inv_registry[OF registry_tick] by simp
next
  case (InAsyncDone n)
  then show "ws_inv s \<Longrightarrow> ws_inv (fst (ws_exec env i s))"
    using ws_inv_registry[OF registry_asyncDone] by simp
next
  case (InStart ok p)
  then show "ws_inv s \<Longrightarrow> ws_inv (fst (ws_exec env i s))"
    by (auto simp: start_def ws_inv_def)
next
  case InStop
  then show "ws_inv s \<Longrightarrow> ws_inv (fst (ws_exec env i s))"
    by (auto simp: stop_def ws_inv_def)
qed (simp_all add: message_inv disconnect_inv)

lemma ws_run_snoc [simp]: "ws_run env (inputs @ [i]) s = fst (ws_exec env i (ws_run env inputs s))"
  by (simp add: ws_run_def)

lemma ws_run_Nil [simp]: "ws_run env [] s = s"
  by (simp add: ws_run_def)

text \<open>The server after construction, with any configuration of its token and security manager.\<close>

definition ws_fresh :: "ws_server \<Rightarrow> bool" where
  "ws_fresh s \<longleftrightarrow> w_clients s = [] \<and> w_authenticatedClients s = [] \<and> w_clientInfo s = []
     \<and> w_clientIdMap s = []"

lemma ws_fresh_inv: "ws_fresh s \<Longrightarrow> ws_inv s"
  by (simp add: ws_fresh_def ws_inv_def)

interpretation ws: invariant_system ws_fresh "\<lambda>s t. \<exists>env i. t = fst (ws_exec env i s)" ws_inv
  by unfold_locales (auto intro: ws_fresh_inv ws_exec_inv)

lemma ws_run_reachable:
  "ws_fresh s \<Longrightarrow> reachable ws_fresh (\<lambda>s t. \<exists>env i. t = fst (ws_exec env i s)) (ws_run env inputs s)"
  by (induction inputs rule: rev_induct) (auto intro: reach_init reach_step)

lemma ws_run_inv: "ws_fresh s \<Longrightarrow> ws_inv (ws_run env inputs s)"
  using ws.reachable_inv[OF ws_run_reachable] .


section \<open>The gate in front of the API handler\<close>

text \<open>What a request must satisfy to be handed over for a client with permission \<open>p\<close>.\<close>

definition admissible :: "security_manager \<Rightarrow> PermissionLevel \<Rightarrow> jobject \<Rightarrow> bool" where
  "admissible sm p request \<longleftrightarrow>
     (let method = toString (oget request ''method''); params = toObject (oget request ''params'')
      in isMethodAllowedForPermission method p sm
         \<and> (method = ''connectToHost'' \<longrightarrow> isDeviceAllowed (toString (oget params ''deviceId'')) sm)
         \<and> \<not> isDangerousOperation method params)"

lemma admissible_sec_config [simp]: "admissible (sec_config sm) = admissible sm"
  by (simp add: fun_eq_iff admissible_def)

definition permission_of :: "socket \<Rightarrow> ws_server \<Rightarrow> PermissionLevel" where
  "permission_of c s = ci_permission (qm_value default_info (w_clientInfo s) c)"

lemma no_dispatch [simp]:
  "WsDispatch c r \<notin> set (snd (audit env cid m p a rs s))"
  "WsDispatch c r \<notin> set (snd (refuse env d cid req rs [] code msg s))"
  "WsDispatch c r \<notin> set (snd (refuse env d cid req rs [WsSecurity e] code msg s))"
  by (auto simp: refuse_def audit_def case_prod_beta Let_def)

lemma no_dispatch_authenticate [simp]: "WsDispatch c r \<notin> set (fst (snd (authenticateClient env d m s)))"
  by (auto simp: authenticateClient_def audit_def case_prod_beta Let_def)

lemma checkRequest_dispatch:
  assumes "WsDispatch d r \<in> set (snd (checkRequest env now c cid req s))"
  shows "d = c \<and> r = req \<and> admissible (w_security s) (permission_of c s) req
    \<and> snd (checkRateLimit cid now (w_security s))"
proof -
  let ?sm = "fst (checkRateLimit cid now (w_security s))"
  have cfg: "sec_config ?sm = sec_config (w_security s)" by simp
  have same: "isMethodAllowedForPermission m p ?sm = isMethodAllowedForPermission m p (w_security s)"
    "isDeviceAllowed dv ?sm = isDeviceAllowed dv (w_security s)" for m p dv
    using cfg decide_sec_config by metis+
  have "WsDispatch d r \<in> set (snd (dispatchRequest env c req t)) \<Longrightarrow> d = c \<and> r = req" for t
    by (auto simp: dispatchRequest_def split: if_splits)
  with assms show ?thesis
    unfolding checkRequest_def Let_def case_prod_beta
    by (auto simp: same admissible_def permission_of_def Let_def split: if_splits)
qed

lemma admissible_activity [simp]:
  "admissible (recordActivity cid now sm) = admissible sm"
  by (metis admissible_sec_config sec_config_ops(3))

lemma onTextMessage_dispatch:
  assumes "WsDispatch d r \<in> set (snd (onTextMessageReceived env now c tx s))"
  shows "d = c \<and> we_fromJson env tx = Some r \<and> admissible (w_security s) (permission_of c s) r
    \<and> (w_authToken s \<noteq> [] \<longrightarrow> c \<in> set (w_authenticatedClients s))"
proof -
  let ?s0 = "s\<lparr>w_security := recordActivity (clientId env c s) now (w_security s)\<rparr>"
  obtain m where m: "we_fromJson env tx = Some m"
    using assms by (auto simp: onTextMessageReceived_def Let_def split: option.splits)
  have p0: "permission_of c ?s0 = permission_of c s" by (simp add: permission_of_def)
  show ?thesis
  proof (cases "w_authToken s \<noteq> [] \<and> c \<notin> set (w_authenticatedClients s)")
    case False
    then have "WsDispatch d r \<in> set (snd (checkRequest env now c (clientId env c s) m ?s0))"
      using assms m by (simp add: onTextMessageReceived_def Let_def split: if_splits)
    from checkRequest_dispatch[OF this] p0 m False show ?thesis by auto
  next
    case True
    show ?thesis
    proof (cases rule: authenticateClient_cases[of env c m ?s0])
      case (denied s' ev)
      with no_dispatch_authenticate[of d r env c m ?s0] assms m True show ?thesis
        by (auto simp: onTextMessageReceived_def Let_def)
    next
      case (granted s' ev p)
      with no_dispatch_authenticate[of d r env c m ?s0] assms m True show ?thesis
        by (auto simp: onTextMessageReceived_def Let_def)
    qed
  qed
qed

lemma onSessionsExpired_dispatch: "WsDispatch c r \<notin> set (snd (onSessionsExpired env cids s))"
  by (induction cids arbitrary: s)
     (auto simp: onSessionExpired_def audit_def case_prod_beta Let_def split: option.splits)

text \<open>Only a message of a connected client makes the server hand a request over.\<close>

lemma ws_exec_dispatch:
  assumes "WsDispatch c r \<in> set (snd (ws_exec env i s))"
  obtains now tx where "i = InMessage now c tx" "c \<in> set (w_clients s)"
    "WsDispatch c r \<in> set (snd (onTextMessageReceived env now c tx s))"
proof (cases i)
  case (InMessage now d tx)
  with assms have "WsDispatch c r \<in> set (snd (onTextMessageReceived env now d tx s))" "d \<in> set (w_clients s)"
    by (auto split: if_splits)
  moreover from onTextMessage_dispatch[OF this(1)] have "d = c" by simp
  ultimately show thesis using InMessage that by blast
qed (use assms in \<open>auto simp: accept_client_def onClientDisconnected_def asyncDone_def start_def stop_def
      sessionCheck_def onSessionsExpired_dispatch case_prod_beta Let_def split: if_splits\<close>)


section \<open>Authenticated clients have presented a token\<close>

definition earned :: "ws_env \<Rightarrow> ws_input list \<Rightarrow> ws_server \<Rightarrow> bool" where
  "earned env inputs s \<longleftrightarrow> (\<forall>c \<in> set (w_authenticatedClients s).
     \<exists>now tx. InMessage now c tx \<in> set inputs \<and> grants env (w_security s) tx (permission_of c s))"

lemma earned_registry:
  assumes "registry t = registry s" and "earned env inputs s" and "set inputs \<subseteq> set inputs'"
  shows "earned env inputs' t"
proof -
  have "grants env (w_security t) = grants env (w_security s)"
    using registry_eqD(7)[OF assms(1)] grants_sec_config by metis
  with assms registry_eqD[OF assms(1)] show ?thesis
    unfolding earned_def permission_of_def by (metis subsetD)
qed

lemma earned_restrict:
  assumes "earned env inputs s" and "set inputs \<subseteq> set inputs'"
    and "set (w_authenticatedClients t) \<subseteq> set (w_authenticatedClients s)"
    and "\<And>c. c \<in> set (w_authenticatedClients t) \<Longrightarrow> permission_of c t = permission_of c s"
    and "sec_config (w_security t) = sec_config (w_security s)"
  shows "earned env inputs' t"
  unfolding earned_def
proof
  fix c assume c: "c \<in> set (w_authenticatedClients t)"
  have "grants env (w_security t) = grants env (w_security s)"
    using assms(5) grants_sec_config by metis
  with c assms show "\<exists>now tx. InMessage now c tx \<in> set inputs' \<and> grants env (w_security t) tx (permission_of c t)"
    unfolding earned_def by (metis subsetD)
qed

lemma earned_exec:
  assumes inv: "ws_inv s" and tok: "w_authToken s \<noteq> []" and e: "earned env inputs s"
  shows "earned env (inputs @ [i]) (fst (ws_exec env i s))
    \<and> w_authToken (fst (ws_exec env i s)) = w_authToken s
    \<and> sec_config (w_security (fst (ws_exec env i s))) = sec_config (w_security s)"
proof (cases i)
  case (InConnect now c)
  show ?thesis
  proof (cases "c \<in> set (w_clients s)")
    case True
    with InConnect show ?thesis by (auto intro!: earned_restrict[OF e])
  next
    case False
    have "c \<notin> set (w_authenticatedClients s)" using inv False by (auto simp: ws_inv_def)
    with False tok InConnect show ?thesis
      by (auto simp: accept_client_def case_prod_beta Let_def permission_of_def qm_value_insert
          intro!: earned_restrict[OF e])
  qed
next
  case (InMessage now c tx)
  show ?thesis
  proof (cases "c \<in> set (w_clients s)")
    case False
    with InMessage show ?thesis by (auto intro!: earned_restrict[OF e])
  next
    case c: True
    let ?t = "fst (onTextMessageReceived env now c tx s)"
    show ?thesis
    proof (cases rule: onTextMessage_registry[of env now c tx s])
      case same
      with registry_eqD[OF same] c InMessage show ?thesis by (auto intro: earned_registry[OF same e])
    next
      case (granted p)
      let ?u = "set_permission c p (s\<lparr>w_authenticatedClients := List.insert c (w_authenticatedClients s)\<rparr>)"
      have "earned env (inputs @ [i]) ?u"
        using e granted(1) InMessage
        by (auto simp: earned_def set_permission_def permission_of_def qm_value_insert)
      moreover have "w_authToken ?u = w_authToken s" "w_security ?u = w_security s"
        by (simp_all add: set_permission_def)
      ultimately show ?thesis
        using registry_eqD[OF granted(2)] c InMessage
        by (auto intro: earned_registry[OF granted(2)])
    qed
  qed
next
  case (InDisconnect c)
  then show ?thesis
    by (auto simp: onClientDisconnected_def Let_def permission_of_def qm_value_def intro!: earned_restrict[OF e])
next
  case (InTick now)
  with registry_eqD[OF registry_tick, of env now s] show ?thesis
    by (auto intro: earned_registry[OF registry_tick e])
next
  case (InAsyncDone n)
  with registry_eqD[OF registry_asyncDone, of env n s] show ?thesis
    by (auto intro: earned_registry[OF registry_asyncDone e])
next
  case (InStart ok p)
  then show ?thesis by (auto simp: start_def permission_of_def intro!: earned_restrict[OF e])
next
  case InStop
  then show ?thesis by (auto simp: stop_def intro!: earned_restrict[OF e])
qed

lemma earned_run:
  assumes "ws_fresh s" "w_authToken s \<noteq> []"
  shows "earned env inputs (ws_run env inputs s) \<and> w_authToken (ws_run env inputs s) = w_authToken s
    \<and> sec_config (w_security (ws_run env inputs s)) = sec_config (w_security s)"
proof (induction inputs rule: rev_induct)
  case Nil
  with assms show ?case by (simp add: earned_def ws_fresh_def)
next
  case (snoc i inputs)
  with earned_exec[OF ws_run_inv[OF assms(1)], of env inputs env inputs i] assms show ?case by simp
qed


section \<open>Idle sessions\<close>

abbreviation last_activity :: "ws_server \<Rightarrow> (qstring, int) qmap" where
  "last_activity s \<equiv> sm_lastActivity (w_security s)"

lemma last_activity_frames [simp]:
  "last_activity (fst (audit env cid m p a r s)) = last_activity s"
  "last_activity (fst (refuse env c cid req r sg code msg s)) = last_activity s"
  "last_activity (fst (dispatchRequest env c req s)) = last_activity s"
  "sm_lastActivity (fst (checkRateLimit cid now sm)) = sm_lastActivity sm"
  by (simp_all add: refuse_def audit_def dispatchRequest_def logAudit_def checkRateLimit_def case_prod_beta Let_def)

lemma last_activity_check [simp]: "last_activity (fst (checkRequest env now c cid req s)) = last_activity s"
  by (simp add: checkRequest_def case_prod_beta Let_def)

lemma last_activity_authenticate [simp]:
  "last_activity (fst (authenticateClient env c m s)) = last_activity s"
  by (simp add: authenticateClient_def set_permission_def case_prod_beta Let_def)

lemma last_activity_expired [simp]: "last_activity (fst (onSessionsExpired env cids s)) = last_activity s"
  by (induction cids arbitrary: s)
     (simp_all add: onSessionExpired_def case_prod_beta Let_def split: option.split)

lemma last_activity_message [simp]:
  "last_activity (fst (onTextMessageReceived env now c tx s)) = qm_insert (clientId env c s) now (last_activity s)"
  by (simp add: onTextMessageReceived_def case_prod_beta Let_def recordActivity_def split: option.split)

lemma last_activity_sorted:
  "sorted_wrt (<) (qm_keys (last_activity s)) \<Longrightarrow> sorted_wrt (<) (qm_keys (last_activity (fst (ws_exec env i s))))"
  by (cases i) (auto simp: accept_client_def onClientDisconnected_def recordActivity_def removeClient_def
      sessionCheck_def asyncDone_def start_def stop_def qm_insert_sorted qm_remove_sorted case_prod_beta Let_def)

lemma last_activity_run:
  "last_activity s = [] \<Longrightarrow> sorted_wrt (<) (qm_keys (last_activity (ws_run env inputs s)))"
  by (induction inputs rule: rev_induct) (simp_all add: last_activity_sorted)

text \<open>The sweep closes the sockets of the identifiers it is given, and only these.\<close>

lemma sessions_closed:
  "WsClose c \<in> set (snd (onSessionsExpired env cids s)) \<longleftrightarrow> (\<exists>cid \<in> set cids. map_of (w_clientIdMap s) cid = Some c)"
proof (induction cids arbitrary: s)
  case Nil
  then show ?case by simp
next
  case (Cons cid cids)
  have same: "w_clientIdMap (fst (onSessionExpired env cid s)) = w_clientIdMap s"
    by (rule registry_eqD[OF registry_expired])
  have "WsClose c \<in> set (snd (onSessionExpired env cid s)) \<longleftrightarrow> map_of (w_clientIdMap s) cid = Some c"
    by (auto simp: onSessionExpired_def audit_def case_prod_beta Let_def split: option.split)
  with Cons[of "fst (onSessionExpired env cid s)"] same show ?case
    by (simp add: case_prod_beta Let_def)
qed

lemma clientId_registry: "registry s = registry t \<Longrightarrow> clientId env c s = clientId env c t"
  by (drule registry_eqD(3)) (simp add: clientId_def)

lemma clientId_message:
  assumes "ws_inv s" "c \<in> set (w_clients s)"
  shows "clientId env c (fst (onTextMessageReceived env now c tx s)) = clientId env c s"
proof (cases rule: onTextMessage_registry[of env now c tx s])
  case same
  then show ?thesis by (rule clientId_registry)
next
  case (granted p)
  obtain i where "map_of (w_clientInfo s) c = Some i" using ws_inv_client[OF assms] .
  with clientId_registry[OF granted(2)] show ?thesis
    by (simp add: clientId_def set_permission_def qm_value_def)
qed

lemma sec_config_timeout: "sm_sessionTimeoutSecs (sec_config sm) = sm_sessionTimeoutSecs sm"
  by (simp add: sec_config_def)

lemma onTextMessage_config:
  "sec_config (w_security (fst (onTextMessageReceived env now c tx s))) = sec_config (w_security s)"
proof (cases rule: onTextMessage_registry[of env now c tx s])
  case same
  then show ?thesis by (rule registry_eqD)
next
  case (granted p)
  from registry_eqD(7)[OF granted(2)] show ?thesis by (simp add: set_permission_def)
qed

lemma message_keeps_clients: "w_clients (fst (onTextMessageReceived env now c tx s)) = w_clients s"
proof (cases rule: onTextMessage_registry[of env now c tx s])
  case same
  then show ?thesis by (rule registry_eqD)
next
  case (granted p)
  from registry_eqD(1)[OF granted(2)] show ?thesis by (simp add: set_permission_def)
qed


section \<open>Properties\<close>

text \<open>
  C12. The gate: on a server whose token was set before the first connection, a request reaches the
  API handler only after its client sent an \<open>auth\<close> message with the full-access or the read-only
  token, and then only if that level allows the method, the device of a \<open>connectToHost\<close> is
  allowed, and the operation is not dangerous. This holds in every run, whatever clients
  connect, send, disconnect, time out or reuse an address.
\<close>

theorem api_gate:
  assumes "ws_fresh s" and "w_authToken s \<noteq> []"
    and "WsDispatch c request \<in> set (snd (ws_exec env i (ws_run env inputs s)))"
  shows "\<exists>now tx p. InMessage now c tx \<in> set inputs \<and> grants env (w_security s) tx p
    \<and> admissible (w_security s) p request"
proof -
  let ?s = "ws_run env inputs s"
  have e: "earned env inputs ?s" and tok: "w_authToken ?s \<noteq> []"
    and cfg: "sec_config (w_security ?s) = sec_config (w_security s)"
    using earned_run[OF assms(1,2)] assms(2) by simp_all
  obtain now tx where "WsDispatch c request \<in> set (snd (onTextMessageReceived env now c tx ?s))"
    using ws_exec_dispatch[OF assms(3)] by blast
  from onTextMessage_dispatch[OF this] tok
  have "admissible (w_security ?s) (permission_of c ?s) request" "c \<in> set (w_authenticatedClients ?s)"
    by simp_all
  moreover have "grants env (w_security ?s) = grants env (w_security s)"
    "admissible (w_security ?s) = admissible (w_security s)"
    using cfg grants_sec_config admissible_sec_config by metis+
  ultimately show ?thesis using e unfolding earned_def by metis
qed

text \<open>An environment for the witnesses: four texts that parse, a handler that echoes.\<close>

definition demo_auth :: "qstring \<Rightarrow> jobject" where
  "demo_auth token = mkobj [(''method'', JStr ''auth''), (''params'', JObj (mkobj [(''token'', JStr token)]))]"

definition demo_call :: "qstring \<Rightarrow> jobject" where
  "demo_call method = mkobj [(''method'', JStr method)]"

definition demo_env :: ws_env where
  "demo_env = \<lparr>we_fromJson = (\<lambda>t. if t = ''login'' then Some (demo_auth ''ro'')
       else if t = ''admin'' then Some (demo_auth ''full'')
       else if t = ''status'' then Some (demo_call ''getStatus'')
       else if t = ''ui'' then Some (demo_call ''getUiState'') else None),
     we_toJson = (\<lambda>ob. []), we_handleRequest = (\<lambda>r. r), we_peerAddress = (\<lambda>c. ''peer''),
     we_auditOpened = True\<rparr>"

definition demo_server :: ws_server where
  "demo_server = (let s = setAuthToken ''full'' (WebSocketApiServer_init demo_env)
     in s\<lparr>w_security := setReadOnlyToken ''ro'' (w_security s)\<rparr>)"

lemmas demo_ws = demo_server_def demo_env_def demo_auth_def demo_call_def WebSocketApiServer_init_def
  SecurityManager_init_def setAuthToken_def setReadOnlyToken_def setFullAccessToken_def initAuditLog_def
  ws_fresh_def Let_def

lemmas ws_ops = onTextMessageReceived_def accept_client_def authenticateClient_def checkRequest_def
  dispatchRequest_def set_permission_def clientId_def audit_def refuse_def with_id_def
  authenticateToken_def recordActivity_def checkRateLimit_def isMethodAllowedForPermission_def
  isDangerousOperation_def logAudit_def json_lookup qm_value_def

theorem api_gate_witness:
  "\<exists>now tx p. InMessage now 7 tx \<in> set [InConnect 0 7, InMessage 1 7 ''login'']
    \<and> grants demo_env (w_security demo_server) tx p \<and> admissible (w_security demo_server) p (demo_call ''getStatus'')"
proof (rule api_gate)
  show "ws_fresh demo_server" "w_authToken demo_server \<noteq> []" by (simp_all add: demo_ws)
  show "WsDispatch 7 (demo_call ''getStatus'') \<in> set (snd (ws_exec demo_env (InMessage 2 7 ''status'')
      (ws_run demo_env [InConnect 0 7, InMessage 1 7 ''login''] demo_server)))"
    by (simp add: ws_run_def demo_ws ws_ops readOnlyMethods_def kAsyncMethods_def)
qed

text \<open>
  Client tables: after any run every connected socket has its own client identifier, the
  identifier leads back to that socket, and only connected sockets are authenticated, so a
  session timeout reported for an identifier closes the socket of that client and no other.
\<close>

theorem client_ids_unique:
  assumes "ws_fresh s" and "c \<in> set (w_clients (ws_run env inputs s))"
  shows "map_of (w_clientIdMap (ws_run env inputs s)) (clientId env c (ws_run env inputs s)) = Some c
    \<and> (\<forall>d \<in> set (w_clients (ws_run env inputs s)).
         clientId env d (ws_run env inputs s) = clientId env c (ws_run env inputs s) \<longrightarrow> d = c)
    \<and> set (w_authenticatedClients (ws_run env inputs s)) \<subseteq> set (w_clients (ws_run env inputs s))"
proof -
  let ?s = "ws_run env inputs s"
  have inv: "ws_inv ?s" using assms(1) by (rule ws_run_inv)
  obtain i where i: "map_of (w_clientInfo ?s) c = Some i" using ws_inv_client[OF inv assms(2)] .
  have "d = c" if "d \<in> set (w_clients ?s)" "clientId env d ?s = clientId env c ?s" for d
    using ws_inv_client[OF inv that(1)] ws_inv_ids_unique[OF inv] that(2) i
    by (metis clientId_def option.simps(5))
  with i ws_inv_infoD[OF inv i] inv show ?thesis
    by (auto simp: clientId_def ws_inv_def)
qed

theorem client_ids_unique_witness:
  "map_of (w_clientIdMap (ws_run demo_env [InConnect 0 7, InConnect 0 8] demo_server))
     (clientId demo_env 8 (ws_run demo_env [InConnect 0 7, InConnect 0 8] demo_server)) = Some 8"
  using client_ids_unique[of demo_server 8 demo_env "[InConnect 0 7, InConnect 0 8]"]
  by (simp add: ws_run_def demo_ws ws_ops)

text \<open>
  A read-only token alone protects nothing. When only the read-only token is configured the server
  asks for no authentication: the first message of a fresh client is handed to the API handler
  with full control, whatever its method, unless the operation is dangerous or the device filtered.
\<close>

theorem readonly_token_alone_is_open:
  assumes "ws_fresh s" and "w_authToken s = []"
    and "sm_readOnlyToken (w_security s) \<noteq> []" and "sm_rateLimitPerMinute (w_security s) \<le> 0"
    and "sm_deviceFilterEnabled (w_security s) = False"
    and "we_fromJson env tx = Some request"
    and "\<not> isDangerousOperation (toString (oget request ''method'')) (toObject (oget request ''params''))"
  shows "WsDispatch c request \<in> set (snd (ws_exec env (InMessage now c tx) (ws_run env [InConnect t c] s)))"
  using assms
  by (simp add: ws_run_def ws_fresh_def ws_ops isDeviceAllowed_def Let_def case_prod_beta)

definition demo_readonly :: ws_server where
  "demo_readonly = (let s = WebSocketApiServer_init demo_env
     in s\<lparr>w_security := setReadOnlyToken ''ro'' (w_security s)\<rparr>)"

theorem readonly_token_alone_is_open_witness:
  "WsDispatch 7 (demo_call ''getUiState'') \<in> set (snd (ws_exec demo_env (InMessage 1 7 ''ui'')
     (ws_run demo_env [InConnect 0 7] demo_readonly)))"
  by (rule readonly_token_alone_is_open)
     (simp_all add: demo_readonly_def demo_ws json_lookup isDangerousOperation_def)

definition reuse_run :: "ws_input list" where
  "reuse_run = [InConnect 0 7, InMessage 1 7 ''admin'', InMessage 2 7 ''ui'', InDisconnect 7, InConnect 3 7]"

text \<open>
  Replies of pooled requests follow the address, not the client: a client asks for the screen
  contents and leaves before the thread pool is done; if the next connection is allocated at
  the same address it receives that reply, without having authenticated.
\<close>

theorem async_reply_follows_address:
  "WsSend 7 (we_handleRequest demo_env (demo_call ''getUiState''))
     \<in> set (snd (ws_exec demo_env (InAsyncDone 0) (ws_run demo_env reuse_run demo_server)))
   \<and> 7 \<notin> set (w_authenticatedClients (ws_run demo_env reuse_run demo_server))"
  by (simp add: reuse_run_def ws_run_def demo_ws ws_ops kAsyncMethods_def asyncDone_def
      onClientDisconnected_def removeClient_def qm_remove_def readOnlyMethods_def)


text \<open>
  Idle sessions: after any run and a message of a connected client at time \<open>t\<close>, a session check at
  time \<open>now\<close> closes that client's socket if and only if a timeout is configured and more than
  that many seconds have passed since the message.
\<close>

theorem idle_session_closed:
  assumes "ws_fresh s" and "sm_lastActivity (w_security s) = []" and "c \<in> set (w_clients (ws_run env inputs s))"
  shows "WsClose c \<in> set (snd (ws_exec env (InTick now) (ws_run env (inputs @ [InMessage t c tx]) s)))
    \<longleftrightarrow> (let timeout = sm_sessionTimeoutSecs (w_security (ws_run env inputs s))
         in 0 < timeout \<and> timeout * 1000 < now - t)"
proof -
  let ?s = "ws_run env inputs s"
  let ?t = "fst (onTextMessageReceived env t c tx ?s)"
  have inv: "ws_inv ?s" using assms(1) by (rule ws_run_inv)
  have inv': "ws_inv ?t" using inv assms(3) by (rule message_inv)
  let ?cid = "clientId env c ?s"
  have cid: "clientId env c ?t = ?cid" using inv assms(3) by (rule clientId_message)
  have c: "c \<in> set (w_clients ?t)" using assms(3) by (simp add: message_keeps_clients)
  obtain i where i: "map_of (w_clientInfo ?t) c = Some i" using ws_inv_client[OF inv' c] .
  have key: "map_of (w_clientIdMap ?t) k = Some c \<longleftrightarrow> k = ?cid" for k
    using ws_inv_idMap[OF inv', of k c] i cid by (auto simp: clientId_def)
  have timeout: "sm_sessionTimeoutSecs (w_security ?t) = sm_sessionTimeoutSecs (w_security ?s)"
    using onTextMessage_config[of env t c tx ?s] sec_config_timeout by metis
  have sorted: "sorted_wrt (<) (qm_keys (last_activity ?s))" using assms(2) by (rule last_activity_run)
  have "?cid \<in> set (expiredClients now (w_security ?t)) \<longleftrightarrow>
    ?cid \<in> set (expiredClients now (recordActivity ?cid t (w_security ?s)))"
    by (simp add: expiredClients_def recordActivity_def timeout Let_def)
  with expired_iff[OF sorted] show ?thesis
    using assms(3) by (simp add: sessionCheck_def sessions_closed key Let_def)
qed

theorem idle_session_closed_witness:
  "WsClose 7 \<in> set (snd (ws_exec demo_env (InTick 5000) (ws_run demo_env ([InConnect 0 7] @ [InMessage 1 7 ''status''])
     (demo_server\<lparr>w_security := setSessionTimeoutSecs 2 (w_security demo_server)\<rparr>))))"
proof -
  let ?s = "demo_server\<lparr>w_security := setSessionTimeoutSecs 2 (w_security demo_server)\<rparr>"
  have "7 \<in> set (w_clients (ws_run demo_env [InConnect 0 7] ?s))"
    and "sm_sessionTimeoutSecs (w_security (ws_run demo_env [InConnect 0 7] ?s)) = 2"
    by (simp_all add: ws_run_def demo_ws ws_ops setSessionTimeoutSecs_def)
  then show ?thesis
    by (subst idle_session_closed) (simp_all add: demo_ws setSessionTimeoutSecs_def)
qed

end
