(* ===== verification/Rendezvous.thy ===== *)
theory Rendezvous
  imports Json
begin

text \<open>
  The blocking rendezvous that \<open>TrustHandler\<close> and \<open>SkillHandler\<close> share. A worker thread puts pointers to
  local variables of its own stack frame into the table \<open>m_pending\<close> under a fresh identifier, waits
  on a condition variable with a timeout, takes its entry out again and reads the variables.
  Another thread that finds the entry writes the result and sets \<open>done\<close>.

  A \<open>frame\<close> is the stack frame of one call, the table maps identifiers to frames, and each
  constructor of \<open>rv_step\<close> is one critical section of the code (or the return of \<open>wait\<close>, which may be
  woken, time out or be spurious). The locale \<open>rendezvous_client\<close> states what a component has to show
  about its own steps to inherit the guarantees: the table never holds a pointer to a frame that
  has returned, and nobody writes a frame after its worker left the table.
\<close>


section \<open>Frames and the pending table\<close>

datatype phase = Waiting | Leaving | Removed | Returned

record 'r frame =
  fr_key :: qstring
  fr_phase :: phase
  fr_done :: bool
  fr_result :: 'r

record 'r rendezvous =
  rv_pending :: "(qstring, nat) qmap"
  rv_frames :: "'r frame list"

definition rv_empty :: "'r rendezvous" where
  "rv_empty = \<lparr>rv_pending = [], rv_frames = []\<rparr>"

text \<open>The local variables, \<open>m_pending.insert\<close>.\<close>

definition rv_register :: "qstring \<Rightarrow> 'r \<Rightarrow> 'r rendezvous \<Rightarrow> 'r rendezvous" where
  "rv_register k r0 rv = rv\<lparr>
     rv_frames := rv_frames rv @ [\<lparr>fr_key = k, fr_phase = Waiting, fr_done = False, fr_result = r0\<rparr>],
     rv_pending := qm_insert k (length (rv_frames rv)) (rv_pending rv)\<rparr>"

definition set_phase :: "phase \<Rightarrow> nat \<Rightarrow> 'r rendezvous \<Rightarrow> 'r rendezvous" where
  "set_phase p i rv = rv\<lparr>rv_frames := (rv_frames rv)[i := (rv_frames rv ! i)\<lparr>fr_phase := p\<rparr>]\<rparr>"

text \<open>\<open>cond.wait\<close> (or the test of \<open>done\<close> before it) lets the worker go on.\<close>

definition rv_wake :: "nat \<Rightarrow> 'r rendezvous \<Rightarrow> 'r rendezvous" where
  "rv_wake i rv = set_phase Leaving i rv"

text \<open>\<open>m_pending.remove(id)\<close>.\<close>

definition rv_unregister :: "nat \<Rightarrow> 'r rendezvous \<Rightarrow> 'r rendezvous" where
  "rv_unregister i rv =
     (set_phase Removed i rv)\<lparr>rv_pending := qm_remove (fr_key (rv_frames rv ! i)) (rv_pending rv)\<rparr>"

text \<open>The last statements read \<open>done\<close> and the result; the frame is gone.\<close>

definition rv_return :: "nat \<Rightarrow> 'r rendezvous \<Rightarrow> 'r rendezvous" where
  "rv_return i rv = set_phase Returned i rv"

text \<open>Another thread finds the entry and writes through its pointers.\<close>

definition answer :: "'r \<Rightarrow> 'r frame \<Rightarrow> 'r frame" where
  "answer r f = f\<lparr>fr_done := True, fr_result := r\<rparr>"

definition rv_resolve :: "qstring \<Rightarrow> 'r \<Rightarrow> 'r rendezvous \<Rightarrow> 'r rendezvous" where
  "rv_resolve k r rv =
     (case map_of (rv_pending rv) k of
        None \<Rightarrow> rv
      | Some i \<Rightarrow> rv\<lparr>rv_frames := (rv_frames rv)[i := answer r (rv_frames rv ! i)]\<rparr>)"

text \<open>Every entry is answered and the table cleared.\<close>

definition rv_resolve_all :: "'r \<Rightarrow> 'r rendezvous \<Rightarrow> 'r rendezvous" where
  "rv_resolve_all r rv = rv\<lparr>
     rv_frames := foldl (\<lambda>fs i. fs[i := answer r (fs ! i)]) (rv_frames rv) (map snd (rv_pending rv)),
     rv_pending := []\<rparr>"

inductive rv_step :: "'r rendezvous \<Rightarrow> 'r rendezvous \<Rightarrow> bool" where
  register: "k \<notin> fr_key ` set (rv_frames rv) \<Longrightarrow> rv_step rv (rv_register k r0 rv)"
| wake: "i < length (rv_frames rv) \<Longrightarrow> fr_phase (rv_frames rv ! i) = Waiting \<Longrightarrow> rv_step rv (rv_wake i rv)"
| unregister: "i < length (rv_frames rv) \<Longrightarrow> fr_phase (rv_frames rv ! i) = Leaving \<Longrightarrow>
    rv_step rv (rv_unregister i rv)"
| return: "i < length (rv_frames rv) \<Longrightarrow> fr_phase (rv_frames rv ! i) = Removed \<Longrightarrow> rv_step rv (rv_return i rv)"
| resolve: "rv_step rv (rv_resolve k r rv)"
| resolve_all: "rv_step rv (rv_resolve_all r rv)"

inductive_cases rv_stepE: "rv_step rv rv'"


section \<open>Invariant\<close>

definition live :: "phase \<Rightarrow> bool" where
  "live p \<longleftrightarrow> p = Waiting \<or> p = Leaving"

definition rv_inv :: "'r rendezvous \<Rightarrow> bool" where
  "rv_inv rv \<longleftrightarrow> distinct (map fr_key (rv_frames rv))
     \<and> sorted_wrt (<) (qm_keys (rv_pending rv))
     \<and> (\<forall>k i. map_of (rv_pending rv) k = Some i \<longrightarrow> i < length (rv_frames rv) \<and> fr_key (rv_frames rv ! i) = k
          \<and> live (fr_phase (rv_frames rv ! i)))"

lemma live_simps [simp]: "live Waiting" "live Leaving" "\<not> live Removed" "\<not> live Returned"
  by (simp_all add: live_def)

lemma rv_inv_entry:
  "rv_inv rv \<Longrightarrow> map_of (rv_pending rv) k = Some i \<Longrightarrow>
   i < length (rv_frames rv) \<and> fr_key (rv_frames rv ! i) = k \<and> live (fr_phase (rv_frames rv ! i))"
  by (simp add: rv_inv_def)

lemma set_phase_sel [simp]:
  "rv_pending (set_phase p i rv) = rv_pending rv"
  "length (rv_frames (set_phase p i rv)) = length (rv_frames rv)"
  "j < length (rv_frames rv) \<Longrightarrow> rv_frames (set_phase p i rv) ! j =
     (if j = i then (rv_frames rv ! j)\<lparr>fr_phase := p\<rparr> else rv_frames rv ! j)"
  by (auto simp: set_phase_def nth_list_update)

lemma set_phase_keys [simp]: "map fr_key (rv_frames (set_phase p i rv)) = map fr_key (rv_frames rv)"
  by (rule nth_equalityI) auto

text \<open>Answering: what changes of the frames is \<open>done\<close> and the result, of the frames answered.\<close>

definition answered :: "'r \<Rightarrow> nat set \<Rightarrow> 'r frame list \<Rightarrow> 'r frame list \<Rightarrow> bool" where
  "answered r S fs fs' \<longleftrightarrow> length fs' = length fs
     \<and> (\<forall>j < length fs. fs' ! j = (if j \<in> S then answer r (fs ! j) else fs ! j))"

lemma answer_sel [simp]:
  "fr_key (answer r f) = fr_key f" "fr_phase (answer r f) = fr_phase f"
  "fr_done (answer r f)" "fr_result (answer r f) = r" "answer r (answer r f) = answer r f"
  by (simp_all add: answer_def)

lemma answer_update: "j < length fs \<Longrightarrow> answer r (fs[i := answer r (fs ! i)] ! j) = answer r (fs ! j)"
  by (cases "i = j") simp_all

lemma answered_foldl:
  "answered r (set is) fs (foldl (\<lambda>fs i. fs[i := answer r (fs ! i)]) fs is)"
proof (induction "is" arbitrary: fs)
  case Nil
  then show ?case by (simp add: answered_def)
next
  case (Cons i "is")
  then have "answered r (set is) (fs[i := answer r (fs ! i)]) (foldl (\<lambda>fs i. fs[i := answer r (fs ! i)]) fs (i # is))"
    by simp
  then show ?case by (auto simp: answered_def answer_update nth_list_update)
qed

lemma resolve_answered:
  "answered r {i. map_of (rv_pending rv) k = Some i} (rv_frames rv) (rv_frames (rv_resolve k r rv))"
  by (auto simp: rv_resolve_def answered_def nth_list_update split: option.split)

lemma resolve_all_answered:
  "answered r (snd ` set (rv_pending rv)) (rv_frames rv) (rv_frames (rv_resolve_all r rv))"
  using answered_foldl[of r "map snd (rv_pending rv)" "rv_frames rv"] by (simp add: rv_resolve_all_def)

lemma answered_keys: "answered r S fs fs' \<Longrightarrow> map fr_key fs' = map fr_key fs"
  by (rule nth_equalityI) (auto simp: answered_def)

definition keys_in_use :: "'r rendezvous \<Rightarrow> qstring set" where
  "keys_in_use rv = fr_key ` set (rv_frames rv)"

lemma keys_in_use_eq: "map fr_key (rv_frames rv') = map fr_key (rv_frames rv) \<Longrightarrow> keys_in_use rv' = keys_in_use rv"
  by (metis keys_in_use_def set_map)

lemma keys_in_use_ops [simp]:
  "keys_in_use (rv_register k r rv) = insert k (keys_in_use rv)"
  "keys_in_use (rv_wake i rv) = keys_in_use rv"
  "keys_in_use (rv_unregister i rv) = keys_in_use rv"
  "keys_in_use (rv_return i rv) = keys_in_use rv"
  "keys_in_use (rv_resolve k r rv) = keys_in_use rv"
  "keys_in_use (rv_resolve_all r rv) = keys_in_use rv"
proof -
  show "keys_in_use (rv_register k r rv) = insert k (keys_in_use rv)"
    by (auto simp: keys_in_use_def rv_register_def)
qed (rule keys_in_use_eq,
    simp add: rv_wake_def rv_unregister_def rv_return_def
      answered_keys[OF resolve_answered] answered_keys[OF resolve_all_answered])+

lemma answered_inv:
  assumes inv: "rv_inv rv" and a: "answered r S (rv_frames rv) (rv_frames rv')"
    and sub: "map_of (rv_pending rv') \<subseteq>\<^sub>m map_of (rv_pending rv)" and "sorted_wrt (<) (qm_keys (rv_pending rv'))"
  shows "rv_inv rv'"
proof -
  have "i < length (rv_frames rv') \<and> fr_key (rv_frames rv' ! i) = k \<and> live (fr_phase (rv_frames rv' ! i))"
    if "map_of (rv_pending rv') k = Some i" for k i
  proof -
    have "map_of (rv_pending rv) k = Some i" using that sub by (metis domI map_le_def)
    from rv_inv_entry[OF inv this] a show ?thesis by (simp add: answered_def)
  qed
  with inv assms(4) answered_keys[OF a] show ?thesis by (simp add: rv_inv_def)
qed

lemma register_inv:
  assumes inv: "rv_inv rv" and k: "k \<notin> fr_key ` set (rv_frames rv)"
  shows "rv_inv (rv_register k r0 rv)"
proof -
  let ?f = "\<lparr>fr_key = k, fr_phase = Waiting, fr_done = False, fr_result = r0\<rparr>"
  have "i < length (rv_frames rv) + 1 \<and> fr_key ((rv_frames rv @ [?f]) ! i) = k'
      \<and> live (fr_phase ((rv_frames rv @ [?f]) ! i))"
    if "map_of (qm_insert k (length (rv_frames rv)) (rv_pending rv)) k' = Some i" for k' i
    using that rv_inv_entry[OF inv, of k' i] by (auto simp: nth_append split: if_splits)
  with inv k show ?thesis
    by (auto simp: rv_inv_def rv_register_def qm_insert_sorted)
qed

lemma set_phase_inv:
  assumes inv: "rv_inv rv" and p: "live p \<or> \<not> live (fr_phase (rv_frames rv ! i))"
  shows "rv_inv (set_phase p i rv)"
proof -
  have "j < length (rv_frames (set_phase p i rv)) \<and> fr_key (rv_frames (set_phase p i rv) ! j) = k
      \<and> live (fr_phase (rv_frames (set_phase p i rv) ! j))"
    if "map_of (rv_pending rv) k = Some j" for k j
    using rv_inv_entry[OF inv that] p by auto
  with inv show ?thesis by (simp add: rv_inv_def)
qed

lemma unregister_inv:
  assumes inv: "rv_inv rv"
  shows "rv_inv (rv_unregister i rv)"
proof -
  let ?rv = "rv_unregister i rv"
  have f: "rv_frames ?rv = rv_frames (set_phase Removed i rv)" by (simp add: rv_unregister_def)
  have "j < length (rv_frames ?rv) \<and> fr_key (rv_frames ?rv ! j) = k \<and> live (fr_phase (rv_frames ?rv ! j))"
    if "map_of (rv_pending ?rv) k = Some j" for k j
  proof -
    have "map_of (rv_pending rv) k = Some j" "k \<noteq> fr_key (rv_frames rv ! i)"
      using that by (auto simp: rv_unregister_def split: if_splits)
    with rv_inv_entry[OF inv this(1)] show ?thesis unfolding f by auto
  qed
  moreover have "sorted_wrt (<) (qm_keys (rv_pending ?rv))"
    using inv by (simp add: rv_inv_def rv_unregister_def qm_remove_sorted)
  moreover have "distinct (map fr_key (rv_frames ?rv))"
    unfolding f using inv by (simp add: rv_inv_def)
  ultimately show ?thesis unfolding rv_inv_def by blast
qed

lemma return_inv: "rv_inv rv \<Longrightarrow> fr_phase (rv_frames rv ! i) = Removed \<Longrightarrow> rv_inv (rv_return i rv)"
  by (simp add: rv_return_def set_phase_inv)

lemma resolve_pending [simp]: "rv_pending (rv_resolve k r rv) = rv_pending rv"
  by (simp add: rv_resolve_def split: option.split)

lemma rv_step_inv: "rv_step rv rv' \<Longrightarrow> rv_inv rv \<Longrightarrow> rv_inv rv'"
proof (induction rule: rv_step.induct)
  case (resolve rv k r)
  then show ?case by (intro answered_inv[OF resolve resolve_answered]) (simp_all add: rv_inv_def)
next
  case (resolve_all rv r)
  then show ?case by (intro answered_inv[OF resolve_all resolve_all_answered]) (simp_all add: rv_resolve_all_def)
qed (simp_all add: register_inv set_phase_inv unregister_inv return_inv rv_wake_def)


section \<open>What a worker can rely on\<close>

text \<open>Once a worker has left the table its result is frozen, and phases only move forward.\<close>

lemma answered_frozen:
  assumes "answered r S fs fs'" "i < length fs" "i \<notin> S"
  shows "fs' ! i = fs ! i"
  using assms by (simp add: answered_def)

definition settled :: "nat \<Rightarrow> 'r frame \<Rightarrow> 'r rendezvous \<Rightarrow> bool" where
  "settled i f rv \<longleftrightarrow> i < length (rv_frames rv) \<and> \<not> live (fr_phase (rv_frames rv ! i))
     \<and> fr_key (rv_frames rv ! i) = fr_key f \<and> fr_done (rv_frames rv ! i) = fr_done f
     \<and> fr_result (rv_frames rv ! i) = fr_result f"

lemma rv_step_settled: "rv_step rv rv' \<Longrightarrow> rv_inv rv \<Longrightarrow> settled i f rv \<Longrightarrow> settled i f rv'"
proof (induction rule: rv_step.induct)
  case (register k rv r0)
  then show ?case by (auto simp: settled_def rv_register_def nth_append)
next
  case (wake j rv)
  then show ?case by (auto simp: settled_def rv_wake_def)
next
  case (unregister j rv)
  then show ?case by (auto simp: settled_def rv_unregister_def)
next
  case (return j rv)
  then show ?case by (auto simp: settled_def rv_return_def)
next
  case (resolve rv k r)
  have "map_of (rv_pending rv) k \<noteq> Some i"
    using rv_inv_entry[OF resolve(1), of k i] resolve(2) by (auto simp: settled_def)
  with answered_frozen[OF resolve_answered, of i rv k r] resolve_answered[of r rv k] resolve(2)
  show ?case by (simp add: settled_def answered_def)
next
  case (resolve_all rv r)
  have "i \<notin> snd ` set (rv_pending rv)"
    using resolve_all rv_inv_entry[OF resolve_all(1)] by (auto simp: settled_def qm_values rv_inv_def)
  with answered_frozen[OF resolve_all_answered, of i rv r] resolve_all_answered[of r rv] resolve_all(2)
  show ?case by (simp add: settled_def answered_def)
qed

text \<open>
  The contract of a component that blocks its workers this way: it starts with an empty table
  and each of its steps is a step of the rendezvous or does not touch it.
\<close>

locale rendezvous_client =
  fixes initial :: "'s \<Rightarrow> bool"
    and step :: "'s \<Rightarrow> 's \<Rightarrow> bool"
    and table :: "'s \<Rightarrow> 'r rendezvous"
  assumes initial_table: "initial s \<Longrightarrow> table s = rv_empty"
    and step_table: "reachable initial step s \<Longrightarrow> step s t \<Longrightarrow> table t = table s \<or> rv_step (table s) (table t)"
begin

lemma table_inv: "reachable initial step s \<Longrightarrow> rv_inv (table s)"
proof (induction rule: reachable.induct)
  case (reach_init s)
  then show ?case by (simp add: initial_table rv_empty_def rv_inv_def)
next
  case (reach_step s t)
  then show ?case using step_table[OF reach_step(1,2)] rv_step_inv by metis
qed

text \<open>No dangling pointer: an entry of the table points to the frame of a worker still inside its call.\<close>

lemma entry_live:
  assumes "reachable initial step s" "map_of (rv_pending (table s)) k = Some i"
  shows "i < length (rv_frames (table s)) \<and> fr_key (rv_frames (table s) ! i) = k
    \<and> live (fr_phase (rv_frames (table s) ! i))"
  using rv_inv_entry[OF table_inv] assms by blast

lemma result_frozen:
  assumes "step\<^sup>*\<^sup>* s t" "reachable initial step s" "settled i f (table s)"
  shows "settled i f (table t)"
proof -
  have "reachable initial step t \<and> settled i f (table t)"
    using assms
  proof (induction rule: rtranclp_induct)
    case (step t u)
    then have t: "reachable initial step t" "settled i f (table t)" by auto
    have "settled i f (table u)"
      using step_table[OF t(1) step(2)] rv_step_settled[OF _ table_inv[OF t(1)] t(2)] t(2) by auto
    with reach_step[OF t(1) step(2)] show ?case by simp
  qed simp
  then show ?thesis ..
qed

end

end
