(* ===== verification/TrustHandler.thy ===== *)
theory TrustHandler
  imports Rendezvous
begin

text \<open>
  \<open>QuickDesk/src/api/TrustHandler.cpp\<close>: confirmation of risky tool calls by the user, and the emergency
  stop. \<open>handleRequestConfirmation\<close> blocks a pool thread; it is modelled by the steps between its
  critical sections, which interleave with everything else in any order: the call up to the wait
  (\<open>TRequest\<close>), the end of the wait by a wake-up, the timeout or spuriously (\<open>TWake\<close>), the removal of the
  entry (\<open>TRemove\<close>) and the return (\<open>TReturn\<close>). The confirmation policy is an argument, \<open>None\<close> when it
  could not be read. The atomic counter is unbounded here.
\<close>


section \<open>Model\<close>

record trust_handler =
  th_nextId :: nat
  th_rv :: "(bool \<times> qstring) rendezvous"

definition TrustHandler_init :: trust_handler where
  "TrustHandler_init = \<lparr>th_nextId = 1, th_rv = rv_empty\<rparr>"

datatype trust_event =
    confirmationRequested qstring qstring qstring qstring qstring "qstring list" int
  | emergencyStopActivated qstring
  | emergencyStopDeactivated
  | requestReturned qstring jobject  \<comment> \<open>the value a call returned; no identifier if none was drawn\<close>

definition confirm_name :: "nat \<Rightarrow> qstring" where
  "confirm_name n = ''confirm-'' @ string_of_nat n"

definition handleRequestConfirmation ::
    "(jobject \<Rightarrow> qstring) \<Rightarrow> qstring option \<Rightarrow> jobject \<Rightarrow> trust_handler \<Rightarrow> trust_handler \<times> trust_event list" where
  "handleRequestConfirmation toJson confirmMode params th =
     (let deviceId = toString (oget params ''deviceId'');
          toolName = toString (oget params ''tool_name'');
          argumentsJson = toJson (toObject (oget params ''arguments''));
          riskLevel = toStringD ''medium'' (oget params ''risk_level'');
          reasonsArr = toArray (oget params ''reasons'');
          timeoutSecs = toIntD 60 (oget params ''timeout_secs'')
      in if toolName = []
         then (th, [requestReturned [] (mkobj [(''error'', JStr ''requestConfirmation: tool_name is required'')])])
         else if confirmMode = Some ''auto_approve''
         then (th, [requestReturned [] (mkobj [(''approved'', JBool True),
                      (''reason'', JStr ''auto_approved_by_policy'')])])
         else
           let confirmId = confirm_name (th_nextId th)
           in (th\<lparr>th_nextId := th_nextId th + 1, th_rv := rv_register confirmId (False, []) (th_rv th)\<rparr>,
               [confirmationRequested confirmId deviceId toolName argumentsJson riskLevel
                  (map toString reasonsArr) timeoutSecs]))"

text \<open>The end of \<open>handleRequestConfirmation\<close>: what it returns for its local variables.\<close>

definition confirmationReply :: "(bool \<times> qstring) frame \<Rightarrow> jobject" where
  "confirmationReply f =
     (if \<not> fr_done f then mkobj [(''approved'', JBool False), (''reason'', JStr ''timeout'')]
      else mkobj [(''approved'', JBool (fst (fr_result f))), (''reason'', JStr (snd (fr_result f)))])"

definition handleEmergencyStop :: "jobject \<Rightarrow> trust_handler \<Rightarrow> trust_handler \<times> trust_event list \<times> jobject" where
  "handleEmergencyStop params th =
     (let reason = toStringD ''manual'' (oget params ''reason'')
      in (th\<lparr>th_rv := rv_resolve_all (False, ''emergency stop'') (th_rv th)\<rparr>, [emergencyStopActivated reason],
          mkobj [(''status'', JStr ''emergency_stop_activated''), (''reason'', JStr reason)]))"

definition handleDeactivateEmergency ::
    "jobject \<Rightarrow> trust_handler \<Rightarrow> trust_handler \<times> trust_event list \<times> jobject" where
  "handleDeactivateEmergency params th =
     (th, [emergencyStopDeactivated], mkobj [(''status'', JStr ''emergency_stop_deactivated'')])"

definition resolveConfirmation :: "qstring \<Rightarrow> bool \<Rightarrow> qstring \<Rightarrow> trust_handler \<Rightarrow> trust_handler" where
  "resolveConfirmation confirmationId approved reason th =
     th\<lparr>th_rv := rv_resolve confirmationId (approved, reason) (th_rv th)\<rparr>"

datatype trust_input =
    TRequest "qstring option" jobject
  | TWake nat
  | TRemove nat
  | TReturn nat
  | TResolve qstring bool qstring
  | TEmergencyStop jobject
  | TDeactivate jobject

definition in_phase :: "phase \<Rightarrow> nat \<Rightarrow> 'r rendezvous \<Rightarrow> bool" where
  "in_phase p i rv \<longleftrightarrow> i < length (rv_frames rv) \<and> fr_phase (rv_frames rv ! i) = p"

fun trust_exec :: "(jobject \<Rightarrow> qstring) \<Rightarrow> trust_input \<Rightarrow> trust_handler \<Rightarrow> trust_handler \<times> trust_event list" where
  "trust_exec tj (TRequest mode params) th = handleRequestConfirmation tj mode params th"
| "trust_exec tj (TWake i) th =
     (if in_phase Waiting i (th_rv th) then (th\<lparr>th_rv := rv_wake i (th_rv th)\<rparr>, []) else (th, []))"
| "trust_exec tj (TRemove i) th =
     (if in_phase Leaving i (th_rv th) then (th\<lparr>th_rv := rv_unregister i (th_rv th)\<rparr>, []) else (th, []))"
| "trust_exec tj (TReturn i) th =
     (if in_phase Removed i (th_rv th)
      then (th\<lparr>th_rv := rv_return i (th_rv th)\<rparr>,
            [requestReturned (fr_key (rv_frames (th_rv th) ! i)) (confirmationReply (rv_frames (th_rv th) ! i))])
      else (th, []))"
| "trust_exec tj (TResolve k approved reason) th = (resolveConfirmation k approved reason th, [])"
| "trust_exec tj (TEmergencyStop params) th = (let (th', ev, _) = handleEmergencyStop params th in (th', ev))"
| "trust_exec tj (TDeactivate params) th = (let (th', ev, _) = handleDeactivateEmergency params th in (th', ev))"

definition trust_step :: "trust_handler \<Rightarrow> trust_handler \<Rightarrow> bool" where
  "trust_step th th' \<longleftrightarrow> (\<exists>tj i. th' = fst (trust_exec tj i th))"

definition trust_run :: "(jobject \<Rightarrow> qstring) \<Rightarrow> trust_input list \<Rightarrow> trust_handler" where
  "trust_run tj inputs = foldl (\<lambda>th i. fst (trust_exec tj i th)) TrustHandler_init inputs"

abbreviation trust_reachable :: "trust_handler \<Rightarrow> bool" where
  "trust_reachable \<equiv> reachable (\<lambda>th. th = TrustHandler_init) trust_step"


section \<open>The handler implements the rendezvous\<close>

lemma confirm_name_inject [simp]: "confirm_name m = confirm_name n \<longleftrightarrow> m = n"
  by (simp add: confirm_name_def)

text \<open>Identifiers in use were drawn from the counter.\<close>

definition ids_drawn :: "trust_handler \<Rightarrow> bool" where
  "ids_drawn th \<longleftrightarrow> (\<forall>f \<in> set (rv_frames (th_rv th)). \<exists>n < th_nextId th. fr_key f = confirm_name n)"

lemma ids_drawn_keys: "ids_drawn th \<longleftrightarrow> keys_in_use (th_rv th) \<subseteq> confirm_name ` {..< th_nextId th}"
  by (auto simp: ids_drawn_def keys_in_use_def)

lemma ids_drawn_step: "ids_drawn th \<Longrightarrow> ids_drawn (fst (trust_exec tj i th))"
  by (cases i) (auto simp: ids_drawn_keys handleRequestConfirmation_def handleEmergencyStop_def
      handleDeactivateEmergency_def resolveConfirmation_def Let_def)

lemma ids_drawn_init: "ids_drawn TrustHandler_init"
  by (simp add: ids_drawn_def TrustHandler_init_def rv_empty_def)

interpretation trust_ids: invariant_system "\<lambda>th. th = TrustHandler_init" trust_step ids_drawn
  by unfold_locales (auto simp: trust_step_def ids_drawn_step ids_drawn_init)

lemma trust_exec_table:
  assumes "ids_drawn th"
  shows "th_rv (fst (trust_exec tj i th)) = th_rv th \<or> rv_step (th_rv th) (th_rv (fst (trust_exec tj i th)))"
proof (cases i)
  case (TRequest mode params)
  have "confirm_name (th_nextId th) \<notin> fr_key ` set (rv_frames (th_rv th))"
    using assms by (auto simp: ids_drawn_def)
  with TRequest show ?thesis
    by (auto simp: handleRequestConfirmation_def Let_def intro: rv_step.register)
qed (auto simp: in_phase_def resolveConfirmation_def handleEmergencyStop_def handleDeactivateEmergency_def
    Let_def case_prod_beta intro: rv_step.intros)

interpretation trust: rendezvous_client "\<lambda>th. th = TrustHandler_init" trust_step th_rv
proof (unfold_locales, goal_cases)
  case (1 s)
  then show ?case by (simp add: TrustHandler_init_def)
next
  case (2 s t)
  then show ?case using trust_exec_table[OF trust_ids.reachable_inv[OF 2(1)]] by (auto simp: trust_step_def)
qed

lemma trust_run_snoc [simp]: "trust_run tj (inputs @ [i]) = fst (trust_exec tj i (trust_run tj inputs))"
  by (simp add: trust_run_def)

lemma trust_run_reachable: "trust_reachable (trust_run tj inputs)"
  by (induction inputs rule: rev_induct)
     (auto simp: trust_step_def trust_run_def[of tj "[]"] intro: reach_init reach_step)


section \<open>Approvals\<close>

text \<open>Where the answer \<open>approved\<close> in a frame can come from.\<close>

lemma frame_origin:
  assumes "rv_inv (th_rv th)" and "j < length (rv_frames (th_rv (fst (trust_exec tj i th))))"
    and "f = rv_frames (th_rv (fst (trust_exec tj i th))) ! j" and "fr_done f" and "fst (fr_result f)"
  shows "(\<exists>reason. i = TResolve (fr_key f) True reason)
    \<or> j < length (rv_frames (th_rv th)) \<and> fr_key (rv_frames (th_rv th) ! j) = fr_key f
       \<and> fr_done (rv_frames (th_rv th) ! j) \<and> fst (fr_result (rv_frames (th_rv th) ! j))"
proof (cases i)
  case (TRequest mode params)
  with assms show ?thesis
    by (auto simp: handleRequestConfirmation_def rv_register_def nth_append Let_def split: if_splits)
next
  case (TResolve k a r)
  with assms resolve_answered[of "(a, r)" "th_rv th" k] rv_inv_entry[OF assms(1), of k j] show ?thesis
    by (auto simp: resolveConfirmation_def answered_def split: if_splits)
next
  case (TEmergencyStop params)
  with assms resolve_all_answered[of "(False, ''emergency stop'')" "th_rv th"] show ?thesis
    by (auto simp: handleEmergencyStop_def answered_def Let_def split: if_splits)
qed (use assms in \<open>auto simp: rv_wake_def rv_unregister_def rv_return_def handleDeactivateEmergency_def
      Let_def split: if_splits\<close>)

lemma approved_was_resolved:
  assumes "j < length (rv_frames (th_rv (trust_run tj inputs)))"
    and "fr_done (rv_frames (th_rv (trust_run tj inputs)) ! j)"
    and "fst (fr_result (rv_frames (th_rv (trust_run tj inputs)) ! j))"
  shows "\<exists>reason. TResolve (fr_key (rv_frames (th_rv (trust_run tj inputs)) ! j)) True reason \<in> set inputs"
  using assms
proof (induction inputs rule: rev_induct)
  case Nil
  then show ?case by (simp add: trust_run_def TrustHandler_init_def rv_empty_def)
next
  case (snoc i inputs)
  have inv: "rv_inv (th_rv (trust_run tj inputs))" by (rule trust.table_inv[OF trust_run_reachable])
  let ?f = "rv_frames (th_rv (trust_run tj (inputs @ [i]))) ! j"
  from frame_origin[OF inv, of j tj i ?f] snoc.prems consider
    (now) reason where "i = TResolve (fr_key ?f) True reason"
  | (before) "j < length (rv_frames (th_rv (trust_run tj inputs)))"
      "fr_key (rv_frames (th_rv (trust_run tj inputs)) ! j) = fr_key ?f"
      "fr_done (rv_frames (th_rv (trust_run tj inputs)) ! j)"
      "fst (fr_result (rv_frames (th_rv (trust_run tj inputs)) ! j))"
    by auto
  then show ?case
  proof cases
    case now
    show ?thesis by (intro exI[of _ reason]) (simp flip: now del: trust_run_snoc)
  next
    case before
    from snoc.IH[OF before(1,3,4)] before(2) show ?thesis by auto
  qed
qed

text \<open>A worker that waits is registered, or has been refused by an emergency stop.\<close>

definition refused :: "nat \<Rightarrow> (bool \<times> qstring) rendezvous \<Rightarrow> bool" where
  "refused j rv \<longleftrightarrow> j < length (rv_frames rv) \<and> fr_done (rv_frames rv ! j) \<and> \<not> fst (fr_result (rv_frames rv ! j))
     \<and> map_of (rv_pending rv) (fr_key (rv_frames rv ! j)) = None"

definition registered :: "nat \<Rightarrow> (bool \<times> qstring) rendezvous \<Rightarrow> bool" where
  "registered j rv \<longleftrightarrow> map_of (rv_pending rv) (fr_key (rv_frames rv ! j)) = Some j"

lemma refused_answered:
  assumes "refused j rv" "answered r S (rv_frames rv) (rv_frames rv')"
    "map_of (rv_pending rv') \<subseteq>\<^sub>m map_of (rv_pending rv)" "j \<notin> S"
  shows "refused j rv'"
  using assms by (auto simp: refused_def answered_def map_le_def dom_def)

lemma refused_exec:
  assumes inv: "rv_inv (th_rv th)" and d: "ids_drawn th" and r: "refused j (th_rv th)"
  shows "refused j (th_rv (fst (trust_exec tj i th)))"
proof (cases i)
  case (TRequest mode params)
  have "fr_key (rv_frames (th_rv th) ! j) \<noteq> confirm_name (th_nextId th)"
    using d r nth_mem[of j "rv_frames (th_rv th)"] unfolding ids_drawn_def refused_def
    by (metis confirm_name_inject less_irrefl)
  with TRequest r show ?thesis
    by (auto simp: handleRequestConfirmation_def rv_register_def refused_def nth_append Let_def)
next
  case (TResolve k a s)
  have "map_of (rv_pending (th_rv th)) k \<noteq> Some j"
    using rv_inv_entry[OF inv, of k j] r by (auto simp: refused_def)
  with TResolve refused_answered[OF r resolve_answered[of "(a, s)" "th_rv th" k]] show ?thesis
    by (simp add: resolveConfirmation_def)
next
  case (TEmergencyStop params)
  let ?r = "(False, ''emergency stop'')"
  from TEmergencyStop r resolve_all_answered[of ?r "th_rv th"] show ?thesis
    by (auto simp: handleEmergencyStop_def Let_def refused_def answered_def) (auto simp: rv_resolve_all_def)
qed (use r in \<open>auto simp: refused_def rv_wake_def rv_unregister_def rv_return_def in_phase_def
      handleDeactivateEmergency_def Let_def\<close>)

lemma refused_run: "refused j (th_rv (trust_run tj inputs)) \<Longrightarrow> refused j (th_rv (trust_run tj (inputs @ later)))"
proof (induction later rule: rev_induct)
  case Nil
  then show ?case by simp
next
  case (snoc i later)
  have reach: "trust_reachable (trust_run tj (inputs @ later))" by (rule trust_run_reachable)
  have "refused j (th_rv (fst (trust_exec tj i (trust_run tj (inputs @ later)))))"
    using refused_exec[OF trust.table_inv[OF reach] trust_ids.reachable_inv[OF reach] snoc.IH[OF snoc.prems]] .
  then show ?case by (simp flip: append_assoc)
qed

lemma live_registered_exec:
  assumes inv: "rv_inv (th_rv th)" and fresh: "confirm_name (th_nextId th) \<notin> keys_in_use (th_rv th)"
    and j: "j < length (rv_frames (th_rv (fst (trust_exec tj i th))))"
      "live (fr_phase (rv_frames (th_rv (fst (trust_exec tj i th))) ! j))"
    and IH: "j < length (rv_frames (th_rv th)) \<Longrightarrow> live (fr_phase (rv_frames (th_rv th) ! j)) \<Longrightarrow>
      registered j (th_rv th) \<or> refused j (th_rv th)"
    and nr: "\<not> refused j (th_rv th)"
  shows "registered j (th_rv (fst (trust_exec tj i th))) \<or> refused j (th_rv (fst (trust_exec tj i th)))"
proof (cases i)
  case (TRequest mode params)
  have "j < length (rv_frames (th_rv th)) \<Longrightarrow> fr_key (rv_frames (th_rv th) ! j) \<noteq> confirm_name (th_nextId th)"
    using fresh nth_mem[of j "rv_frames (th_rv th)"] unfolding keys_in_use_def by (metis imageI)
  with TRequest j IH nr show ?thesis
    by (auto simp: handleRequestConfirmation_def rv_register_def registered_def nth_append Let_def less_Suc_eq
        split: if_splits)
next
  case (TRemove n)
  have "fr_key (rv_frames (th_rv th) ! j) \<noteq> fr_key (rv_frames (th_rv th) ! n)"
    if "n < length (rv_frames (th_rv th))" "j < length (rv_frames (th_rv th))" "j \<noteq> n"
    using inv that by (auto simp: rv_inv_def distinct_conv_nth)
  with TRemove j IH nr show ?thesis
    by (auto simp: rv_unregister_def registered_def in_phase_def split: if_splits)
next
  case (TResolve k a s)
  with j IH nr resolve_answered[of "(a, s)" "th_rv th" k] show ?thesis
    by (auto simp: resolveConfirmation_def registered_def answered_def split: if_splits)
next
  case (TEmergencyStop params)
  let ?r = "(False, ''emergency stop'')"
  have A: "answered ?r (snd ` set (rv_pending (th_rv th))) (rv_frames (th_rv th))
      (rv_frames (rv_resolve_all ?r (th_rv th)))" by (rule resolve_all_answered)
  with TEmergencyStop j have len: "j < length (rv_frames (th_rv th))"
    and lv: "live (fr_phase (rv_frames (th_rv th) ! j))"
    by (auto simp: handleEmergencyStop_def Let_def answered_def split: if_splits)
  have "map_of (rv_pending (th_rv th)) (fr_key (rv_frames (th_rv th) ! j)) = Some j"
    using IH[OF len lv] nr by (simp add: registered_def)
  then have "j \<in> snd ` set (rv_pending (th_rv th))" by (force dest: map_of_SomeD)
  with A len have "refused j (rv_resolve_all ?r (th_rv th))"
    by (auto simp: refused_def answered_def) (simp add: rv_resolve_all_def)
  with TEmergencyStop show ?thesis by (simp add: handleEmergencyStop_def Let_def)
qed (use j IH nr in \<open>auto simp: registered_def rv_wake_def rv_return_def in_phase_def
      handleDeactivateEmergency_def Let_def split: if_splits\<close>)

lemma live_registered:
  assumes "j < length (rv_frames (th_rv (trust_run tj inputs)))"
    and "live (fr_phase (rv_frames (th_rv (trust_run tj inputs)) ! j))"
  shows "registered j (th_rv (trust_run tj inputs)) \<or> refused j (th_rv (trust_run tj inputs))"
  using assms
proof (induction inputs rule: rev_induct)
  case Nil
  then show ?case by (simp add: trust_run_def TrustHandler_init_def rv_empty_def)
next
  case (snoc i inputs)
  let ?th = "trust_run tj inputs"
  have reach: "trust_reachable ?th" by (rule trust_run_reachable)
  have inv: "rv_inv (th_rv ?th)" by (rule trust.table_inv[OF reach])
  have fresh: "confirm_name (th_nextId ?th) \<notin> keys_in_use (th_rv ?th)"
    using trust_ids.reachable_inv[OF reach] by (auto simp: ids_drawn_keys)
  show ?case
  proof (cases "refused j (th_rv ?th)")
    case True
    then show ?thesis using refused_run[of j tj inputs "[i]"] by simp
  next
    case False
    note prems = snoc.prems[unfolded trust_run_snoc] and IH = snoc.IH
    show ?thesis unfolding trust_run_snoc using prems IH False
      by (rule live_registered_exec[OF inv fresh])
  qed
qed


section \<open>Properties\<close>

text \<open>
  C14. Emergency stop: a confirmation whose worker is still waiting (or has not yet taken its entry
  back) when the emergency stop is handled is never approved, whatever is resolved before or
  after and in whatever order the threads run.
\<close>

theorem emergency_stop_denies:
  assumes "j < length (rv_frames (th_rv (trust_run tj inputs)))"
    and "live (fr_phase (rv_frames (th_rv (trust_run tj inputs)) ! j))"
  shows "oget (confirmationReply (rv_frames (th_rv (trust_run tj (inputs @ [TEmergencyStop params] @ later))) ! j))
    ''approved'' = JBool False"
proof -
  let ?th = "trust_run tj inputs"
  let ?r = "(False, ''emergency stop'')"
  have A: "answered ?r (snd ` set (rv_pending (th_rv ?th))) (rv_frames (th_rv ?th))
      (rv_frames (rv_resolve_all ?r (th_rv ?th)))" by (rule resolve_all_answered)
  have "refused j (th_rv (trust_run tj (inputs @ [TEmergencyStop params])))"
  proof (cases "refused j (th_rv ?th)")
    case True
    then show ?thesis by (rule refused_run)
  next
    case False
    then have "map_of (rv_pending (th_rv ?th)) (fr_key (rv_frames (th_rv ?th) ! j)) = Some j"
      using live_registered[OF assms] by (simp add: registered_def)
    then have "j \<in> snd ` set (rv_pending (th_rv ?th))" by (force dest: map_of_SomeD)
    with A assms(1) have "refused j (rv_resolve_all ?r (th_rv ?th))"
      by (auto simp: refused_def answered_def) (simp add: rv_resolve_all_def)
    then show ?thesis by (simp add: handleEmergencyStop_def Let_def)
  qed
  from refused_run[OF this, of later] show ?thesis
    by (simp add: refused_def confirmationReply_def json_lookup)
qed

definition demo_params :: jobject where
  "demo_params = mkobj [(''tool_name'', JStr ''rm'')]"

lemmas trust_ops = trust_run_def TrustHandler_init_def rv_empty_def handleRequestConfirmation_def
  demo_params_def json_lookup rv_register_def Let_def

theorem emergency_stop_denies_witness:
  "oget (confirmationReply (rv_frames (th_rv (trust_run (\<lambda>_. [])
     ([TRequest None demo_params] @ [TEmergencyStop []] @ [TResolve (confirm_name 1) True ''yes'']))) ! 0)) ''approved''
   = JBool False"
  by (rule emergency_stop_denies) (simp_all add: trust_ops)

text \<open>
  C15. Approval needs a decision: a call returns \<open>approved\<close> only if the policy is \<open>auto_approve\<close> or someone
  resolved exactly this confirmation with approval before. A timeout, a lost or spurious wake-up
  or the decision on another confirmation never approves.
\<close>

theorem approval_needs_resolution:
  assumes "requestReturned k reply \<in> set (snd (trust_exec tj i (trust_run tj inputs)))"
    and "oget reply ''approved'' = JBool True"
  shows "(\<exists>reason. TResolve k True reason \<in> set inputs) \<or> (\<exists>params. i = TRequest (Some ''auto_approve'') params)"
proof (cases i)
  case (TRequest mode params)
  with assms show ?thesis
    by (auto simp: handleRequestConfirmation_def json_lookup Let_def split: if_splits)
next
  case (TReturn j)
  let ?f = "rv_frames (th_rv (trust_run tj inputs)) ! j"
  have "j < length (rv_frames (th_rv (trust_run tj inputs)))" "k = fr_key ?f" "reply = confirmationReply ?f"
    using assms(1) TReturn by (auto simp: in_phase_def split: if_splits)
  moreover from this(3) assms(2) have "fr_done ?f" "fst (fr_result ?f)"
    by (auto simp: confirmationReply_def json_lookup split: if_splits)
  ultimately show ?thesis using approved_was_resolved[of j tj inputs] by auto
qed (use assms in \<open>auto simp: handleEmergencyStop_def handleDeactivateEmergency_def Let_def split: if_splits\<close>)

theorem approval_needs_resolution_witness:
  "(\<exists>reason. TResolve (confirm_name 1) True reason \<in>
      set [TRequest None demo_params, TResolve (confirm_name 1) True ''ok'', TWake 0, TRemove 0])
   \<or> (\<exists>params. TReturn 0 = TRequest (Some ''auto_approve'') params)"
  by (rule approval_needs_resolution[where tj = "\<lambda>_. []" and reply = "mkobj [(''approved'', JBool True), (''reason'', JStr ''ok'')]"])
     (simp_all add: trust_ops resolveConfirmation_def rv_resolve_def
       answer_def in_phase_def rv_wake_def set_phase_def rv_unregister_def confirmationReply_def)

text \<open>
  No dangling pointers and no late writes: in every reachable state the table of pending
  confirmations only points to stack frames of calls that have not returned, and once a call has
  taken its entry back nothing changes what it is about to read, whatever the other threads do.
\<close>

theorem confirmation_frames_safe:
  assumes "trust_reachable th"
  shows "(\<forall>k j. map_of (rv_pending (th_rv th)) k = Some j \<longrightarrow>
        fr_key (rv_frames (th_rv th) ! j) = k \<and> fr_phase (rv_frames (th_rv th) ! j) \<in> {Waiting, Leaving})
    \<and> (\<forall>j th'. trust_step\<^sup>*\<^sup>* th th' \<longrightarrow> in_phase Removed j (th_rv th) \<longrightarrow>
        confirmationReply (rv_frames (th_rv th') ! j) = confirmationReply (rv_frames (th_rv th) ! j))"
proof (intro conjI allI impI)
  fix k j assume "map_of (rv_pending (th_rv th)) k = Some j"
  from trust.entry_live[OF assms this]
  show "fr_key (rv_frames (th_rv th) ! j) = k" "fr_phase (rv_frames (th_rv th) ! j) \<in> {Waiting, Leaving}"
    by (auto simp: live_def)
next
  fix j th' assume "trust_step\<^sup>*\<^sup>* th th'" and "in_phase Removed j (th_rv th)"
  then show "confirmationReply (rv_frames (th_rv th') ! j) = confirmationReply (rv_frames (th_rv th) ! j)"
    using trust.result_frozen[OF _ assms, of th' j "rv_frames (th_rv th) ! j"]
    by (auto simp: settled_def in_phase_def confirmationReply_def)
qed

theorem confirmation_frames_safe_witness:
  "fr_key (rv_frames (th_rv (trust_run (\<lambda>_. []) [TRequest None demo_params])) ! 0) = confirm_name 1"
  using confirmation_frames_safe[OF trust_run_reachable[of "\<lambda>_. []" "[TRequest None demo_params]"]]
  by (simp add: trust_ops)

end
