(* ===== verification/SkillHandler.thy ===== *)
theory SkillHandler
  imports Rendezvous
begin

text \<open>
  \<open>QuickDesk/src/api/SkillHandler.cpp\<close>: tool calls on a remote device. \<open>sendAndWait\<close> registers the request
  under a fresh identifier, queues the command for the main thread and blocks until
  \<open>onSkillResponse\<close> finds the identifier or ten seconds have passed; its steps are those of the
  rendezvous. What \<open>ClientManager\<close> answers to \<open>connectedDeviceIds\<close> is an argument, \<open>None\<close> while there is
  no client manager.
\<close>


section \<open>Model\<close>

record skill_handler =
  sk_nextId :: nat
  sk_rv :: "jobject rendezvous"

definition SkillHandler_init :: skill_handler where
  "SkillHandler_init = \<lparr>sk_nextId = 1, sk_rv = rv_empty\<rparr>"

datatype skill_event =
    sendSkillCommand qstring qstring
  | skillReturned qstring jobject

definition skill_name :: "nat \<Rightarrow> qstring" where
  "skill_name n = ''skill-'' @ string_of_nat n"

definition nextRequestId :: "skill_handler \<Rightarrow> qstring \<times> skill_handler" where
  "nextRequestId sk = (skill_name (sk_nextId sk), sk\<lparr>sk_nextId := sk_nextId sk + 1\<rparr>)"

definition isConnectionValid :: "qstring list option \<Rightarrow> qstring \<Rightarrow> bool" where
  "isConnectionValid devices deviceId = (case devices of None \<Rightarrow> False | Some ds \<Rightarrow> deviceId \<in> set ds)"

text \<open>\<open>sendAndWait\<close> up to the wait.\<close>

definition sendAndWait ::
    "(jobject \<Rightarrow> qstring) \<Rightarrow> qstring \<Rightarrow> jobject \<Rightarrow> skill_handler \<Rightarrow> skill_handler \<times> skill_event list" where
  "sendAndWait toJson deviceId payload sk =
     (let k = toString (oget payload ''id'')
      in (sk\<lparr>sk_rv := rv_register k [] (sk_rv sk)\<rparr>, [sendSkillCommand deviceId (toJson payload)]))"

text \<open>\<open>sendAndWait\<close> after the wait, for the default \<open>timeoutMs\<close>.\<close>

definition skillReply :: "jobject frame \<Rightarrow> jobject" where
  "skillReply f = (if \<not> fr_done f then mkobj [(''error'', JStr ''skillExec timed out after 10000 ms'')]
     else fr_result f)"

definition handleSkillExec ::
    "(jobject \<Rightarrow> qstring) \<Rightarrow> qstring list option \<Rightarrow> jobject \<Rightarrow> skill_handler \<Rightarrow> skill_handler \<times> skill_event list" where
  "handleSkillExec toJson devices params sk =
     (let deviceId = toString (oget params ''deviceId'');
          tool = toString (oget params ''tool'');
          args = oget params ''args''
      in if deviceId = [] \<or> tool = []
         then (sk, [skillReturned [] (mkobj [(''error'', JStr ''skillExec: device_id and tool are required'')])])
         else if \<not> isConnectionValid devices deviceId
         then (sk, [skillReturned [] (mkobj [(''error'', JStr (''skillExec: device '' @ [CHR 0x27] @ deviceId @
                      [CHR 0x27] @ '' not found''))])])
         else
           let (k, sk1) = nextRequestId sk;
               payload = oset ''args'' (if args = JUndefined then JObj [] else args)
                          (oset ''tool'' (JStr tool) (oset ''type'' (JStr ''toolCall'') (oset ''id'' (JStr k) [])))
           in sendAndWait toJson deviceId payload sk1)"

definition handleSkillListTools ::
    "(jobject \<Rightarrow> qstring) \<Rightarrow> qstring list option \<Rightarrow> jobject \<Rightarrow> skill_handler \<Rightarrow> skill_handler \<times> skill_event list" where
  "handleSkillListTools toJson devices params sk =
     (let deviceId = toString (oget params ''deviceId'')
      in if deviceId = []
         then (sk, [skillReturned [] (mkobj [(''error'', JStr ''skillListTools: device_id is required'')])])
         else if \<not> isConnectionValid devices deviceId
         then (sk, [skillReturned [] (mkobj [(''error'', JStr (''skillListTools: device '' @ [CHR 0x27] @ deviceId @
                      [CHR 0x27] @ '' not found''))])])
         else
           let (k, sk1) = nextRequestId sk
           in sendAndWait toJson deviceId (oset ''type'' (JStr ''listTools'') (oset ''id'' (JStr k) [])) sk1)"

definition onSkillResponse :: "qstring \<Rightarrow> jobject \<Rightarrow> skill_handler \<Rightarrow> skill_handler" where
  "onSkillResponse deviceId response sk =
     (let k = toString (oget response ''id'')
      in if k = [] then sk else sk\<lparr>sk_rv := rv_resolve k response (sk_rv sk)\<rparr>)"

datatype skill_input =
    SExec "qstring list option" jobject
  | SListTools "qstring list option" jobject
  | SWake nat
  | SRemove nat
  | SReturn nat
  | SResponse qstring jobject

definition sk_in_phase :: "phase \<Rightarrow> nat \<Rightarrow> skill_handler \<Rightarrow> bool" where
  "sk_in_phase p i sk \<longleftrightarrow> i < length (rv_frames (sk_rv sk)) \<and> fr_phase (rv_frames (sk_rv sk) ! i) = p"

fun skill_exec :: "(jobject \<Rightarrow> qstring) \<Rightarrow> skill_input \<Rightarrow> skill_handler \<Rightarrow> skill_handler \<times> skill_event list" where
  "skill_exec tj (SExec devices params) sk = handleSkillExec tj devices params sk"
| "skill_exec tj (SListTools devices params) sk = handleSkillListTools tj devices params sk"
| "skill_exec tj (SWake i) sk =
     (if sk_in_phase Waiting i sk then (sk\<lparr>sk_rv := rv_wake i (sk_rv sk)\<rparr>, []) else (sk, []))"
| "skill_exec tj (SRemove i) sk =
     (if sk_in_phase Leaving i sk then (sk\<lparr>sk_rv := rv_unregister i (sk_rv sk)\<rparr>, []) else (sk, []))"
| "skill_exec tj (SReturn i) sk =
     (if sk_in_phase Removed i sk
      then (sk\<lparr>sk_rv := rv_return i (sk_rv sk)\<rparr>,
            [skillReturned (fr_key (rv_frames (sk_rv sk) ! i)) (skillReply (rv_frames (sk_rv sk) ! i))])
      else (sk, []))"
| "skill_exec tj (SResponse d response) sk = (onSkillResponse d response sk, [])"

definition skill_step :: "skill_handler \<Rightarrow> skill_handler \<Rightarrow> bool" where
  "skill_step sk sk' \<longleftrightarrow> (\<exists>tj i. sk' = fst (skill_exec tj i sk))"

definition skill_run :: "(jobject \<Rightarrow> qstring) \<Rightarrow> skill_input list \<Rightarrow> skill_handler" where
  "skill_run tj inputs = foldl (\<lambda>sk i. fst (skill_exec tj i sk)) SkillHandler_init inputs"

abbreviation skill_reachable :: "skill_handler \<Rightarrow> bool" where
  "skill_reachable \<equiv> reachable (\<lambda>sk. sk = SkillHandler_init) skill_step"


section \<open>The handler implements the rendezvous\<close>

lemma skill_name_inject [simp]: "skill_name m = skill_name n \<longleftrightarrow> m = n"
  by (simp add: skill_name_def)

definition requests_drawn :: "skill_handler \<Rightarrow> bool" where
  "requests_drawn sk \<longleftrightarrow> keys_in_use (sk_rv sk) \<subseteq> skill_name ` {..< sk_nextId sk}"

lemmas skill_calls = handleSkillExec_def handleSkillListTools_def nextRequestId_def sendAndWait_def
  oget_def Let_def case_prod_beta

text \<open>What a call does to the table: nothing, or a registration under the next identifier.\<close>

lemma skill_call_table:
  assumes "r = handleSkillExec tj ds ps sk \<or> r = handleSkillListTools tj ds ps sk"
  shows "fst r = sk \<or> fst r = sk\<lparr>sk_nextId := sk_nextId sk + 1,
    sk_rv := rv_register (skill_name (sk_nextId sk)) [] (sk_rv sk)\<rparr>"
  using assms by (elim disjE) (simp_all add: skill_calls)

lemma requests_drawn_exec: "requests_drawn sk \<Longrightarrow> requests_drawn (fst (skill_exec tj i sk))"
proof (cases i)
  case (SExec ds ps)
  then show "requests_drawn sk \<Longrightarrow> requests_drawn (fst (skill_exec tj i sk))"
    using skill_call_table[of "handleSkillExec tj ds ps sk" tj ds ps sk] by (auto simp: requests_drawn_def lessThan_Suc)
next
  case (SListTools ds ps)
  then show "requests_drawn sk \<Longrightarrow> requests_drawn (fst (skill_exec tj i sk))"
    using skill_call_table[of "handleSkillListTools tj ds ps sk" tj ds ps sk] by (auto simp: requests_drawn_def lessThan_Suc)
qed (auto simp: requests_drawn_def onSkillResponse_def Let_def)

lemma requests_drawn_init: "requests_drawn SkillHandler_init"
  by (simp add: requests_drawn_def SkillHandler_init_def rv_empty_def keys_in_use_def)

interpretation skill_ids: invariant_system "\<lambda>sk. sk = SkillHandler_init" skill_step requests_drawn
  by unfold_locales (auto simp: skill_step_def requests_drawn_exec requests_drawn_init)

lemma skill_exec_table:
  assumes "requests_drawn sk"
  shows "sk_rv (fst (skill_exec tj i sk)) = sk_rv sk \<or> rv_step (sk_rv sk) (sk_rv (fst (skill_exec tj i sk)))"
proof -
  have fresh: "skill_name (sk_nextId sk) \<notin> fr_key ` set (rv_frames (sk_rv sk))"
    using assms by (auto simp: requests_drawn_def keys_in_use_def)
  then have reg: "rv_step (sk_rv sk) (rv_register (skill_name (sk_nextId sk)) [] (sk_rv sk))"
    by (rule rv_step.register)
  show ?thesis
  proof (cases i)
    case (SExec ds ps)
    then show ?thesis using skill_call_table[of "handleSkillExec tj ds ps sk" tj ds ps sk] reg by auto
  next
    case (SListTools ds ps)
    then show ?thesis using skill_call_table[of "handleSkillListTools tj ds ps sk" tj ds ps sk] reg by auto
  qed (auto simp: sk_in_phase_def onSkillResponse_def Let_def intro: rv_step.intros)
qed

interpretation skill: rendezvous_client "\<lambda>sk. sk = SkillHandler_init" skill_step sk_rv
proof (unfold_locales, goal_cases)
  case (1 s)
  then show ?case by (simp add: SkillHandler_init_def)
next
  case (2 s t)
  then show ?case using skill_exec_table[OF skill_ids.reachable_inv[OF 2(1)]] by (auto simp: skill_step_def)
qed

lemma skill_run_snoc [simp]: "skill_run tj (inputs @ [i]) = fst (skill_exec tj i (skill_run tj inputs))"
  by (simp add: skill_run_def)

lemma skill_run_reachable: "skill_reachable (skill_run tj inputs)"
  by (induction inputs rule: rev_induct)
     (auto simp: skill_step_def skill_run_def[of tj "[]"] intro: reach_init reach_step)


section \<open>Where a reply comes from\<close>

abbreviation "sk_frame sk j \<equiv> rv_frames (sk_rv sk) ! j"

lemma skill_frame_origin:
  assumes inv: "rv_inv (sk_rv sk)" and "j < length (rv_frames (sk_rv (fst (skill_exec tj i sk))))"
    and "f = sk_frame (fst (skill_exec tj i sk)) j" and "fr_done f"
  shows "(\<exists>d. i = SResponse d (fr_result f) \<and> toString (oget (fr_result f) ''id'') = fr_key f)
    \<or> j < length (rv_frames (sk_rv sk)) \<and> fr_key (sk_frame sk j) = fr_key f
       \<and> fr_done (sk_frame sk j) \<and> fr_result (sk_frame sk j) = fr_result f"
proof (cases i)
  case (SExec ds ps)
  with assms skill_call_table[of "handleSkillExec tj ds ps sk" tj ds ps sk] show ?thesis
    by (auto simp: rv_register_def nth_append split: if_splits)
next
  case (SListTools ds ps)
  with assms skill_call_table[of "handleSkillListTools tj ds ps sk" tj ds ps sk] show ?thesis
    by (auto simp: rv_register_def nth_append split: if_splits)
next
  case (SResponse d r)
  with assms resolve_answered[of r "sk_rv sk" "toString (oget r ''id'')"]
    rv_inv_entry[OF inv, of "toString (oget r ''id'')" j] show ?thesis
    by (auto simp: onSkillResponse_def answered_def Let_def split: if_splits)
qed (use assms in \<open>auto simp: rv_wake_def rv_unregister_def rv_return_def split: if_splits\<close>)

lemma done_was_answered:
  assumes "j < length (rv_frames (sk_rv (skill_run tj inputs)))" "fr_done (sk_frame (skill_run tj inputs) j)"
  shows "(\<exists>d. SResponse d (fr_result (sk_frame (skill_run tj inputs) j)) \<in> set inputs)
    \<and> toString (oget (fr_result (sk_frame (skill_run tj inputs) j)) ''id'') = fr_key (sk_frame (skill_run tj inputs) j)"
  using assms
proof (induction inputs rule: rev_induct)
  case Nil
  then show ?case by (simp add: skill_run_def SkillHandler_init_def rv_empty_def)
next
  case (snoc i inputs)
  let ?sk = "skill_run tj inputs" and ?f = "sk_frame (skill_run tj (inputs @ [i])) j"
  have inv: "rv_inv (sk_rv ?sk)" by (rule skill.table_inv[OF skill_run_reachable])
  from skill_frame_origin[OF inv, of j tj i ?f] snoc.prems consider
    (now) d where "i = SResponse d (fr_result ?f)" "toString (oget (fr_result ?f) ''id'') = fr_key ?f"
  | (before) "j < length (rv_frames (sk_rv ?sk))" "fr_key (sk_frame ?sk j) = fr_key ?f" "fr_done (sk_frame ?sk j)"
      "fr_result (sk_frame ?sk j) = fr_result ?f"
    by auto
  then show ?case
  proof cases
    case now
    have "SResponse d (fr_result ?f) \<in> set (inputs @ [i])" by (simp flip: now(1) del: skill_run_snoc)
    with now(2) show ?thesis by blast
  next
    case before
    from snoc.IH[OF before(1,3)] before(2,4) show ?thesis by auto
  qed
qed


section \<open>Properties\<close>

text \<open>
  C16. Correlation of tool replies: whatever calls run at the same time, a call that got an identifier
  returns either the timeout error or a response that carried exactly that identifier and was
  received before; the response to another call is never returned.
\<close>

theorem skill_reply_correlated:
  assumes "skillReturned k reply \<in> set (snd (skill_exec tj (SReturn j) (skill_run tj inputs)))"
  shows "reply = mkobj [(''error'', JStr ''skillExec timed out after 10000 ms'')]
    \<or> (\<exists>d. SResponse d reply \<in> set inputs) \<and> toString (oget reply ''id'') = k"
proof -
  have "j < length (rv_frames (sk_rv (skill_run tj inputs)))" "k = fr_key (sk_frame (skill_run tj inputs) j)"
    "reply = skillReply (sk_frame (skill_run tj inputs) j)"
    using assms by (auto simp: sk_in_phase_def split: if_splits)
  with done_was_answered[of j tj inputs] show ?thesis by (auto simp: skillReply_def)
qed

definition demo_exec :: jobject where
  "demo_exec = mkobj [(''deviceId'', JStr ''A''), (''tool'', JStr ''ls'')]"

definition demo_reply :: "nat \<Rightarrow> jobject" where
  "demo_reply n = mkobj [(''id'', JStr (skill_name n)), (''result'', JStr ''x'')]"

lemma skill_name_nonempty [simp]: "skill_name n \<noteq> []"
  by (simp add: skill_name_def)

lemmas skill_demo = skill_run_def SkillHandler_init_def rv_empty_def demo_exec_def demo_reply_def mkobj_def
  skill_calls isConnectionValid_def rv_register_def onSkillResponse_def rv_resolve_def answer_def
  sk_in_phase_def rv_wake_def set_phase_def rv_unregister_def skillReply_def

theorem skill_reply_correlated_witness:
  "demo_reply 1 = mkobj [(''error'', JStr ''skillExec timed out after 10000 ms'')]
    \<or> (\<exists>d. SResponse d (demo_reply 1) \<in> set [SExec (Some [''A'']) demo_exec, SResponse ''A'' (demo_reply 1), SWake 0, SRemove 0])
       \<and> toString (oget (demo_reply 1) ''id'') = skill_name 1"
  by (rule skill_reply_correlated[where tj = "\<lambda>_. []" and j = 0]) (simp add: skill_demo)

text \<open>
  The sender of a tool reply is not checked: a call to device A returns what device B sent, as
  long as B used the (guessable) identifier of the call.
\<close>

theorem skill_reply_from_other_device:
  "skillReturned (skill_name 1) (demo_reply 1) \<in> set (snd (skill_exec (\<lambda>_. []) (SReturn 0)
     (skill_run (\<lambda>_. []) [SExec (Some [''A'', ''B'']) demo_exec, SResponse ''B'' (demo_reply 1), SWake 0, SRemove 0])))"
  by (simp add: skill_demo)

end
