(* ===== verification/OcrCache.thy ===== *)
theory OcrCache
  imports Prelude
begin

text \<open>
  \<open>QuickDesk/src/api/OcrCache.cpp\<close>: the cache of OCR results by frame hash, bounded to \<open>MAX_ENTRIES\<close>.
  \<open>m_data\<close> is a map, \<open>m_order\<close> the queue of its keys, oldest first. The locale \<open>result_cache\<close> is what
  the clients of a cache rely on; inside it a memoised computation is shown to return what the
  computation itself would return.
\<close>


section \<open>Model\<close>

record 'v ocr_cache =
  oc_data :: "(qstring, 'v) qmap"
  oc_order :: "qstring list"

definition MAX_ENTRIES :: nat where
  "MAX_ENTRIES = 30"

definition OcrCache_init :: "'v ocr_cache" where
  "OcrCache_init = \<lparr>oc_data = [], oc_order = []\<rparr>"

definition get :: "qstring \<Rightarrow> 'v ocr_cache \<Rightarrow> 'v option" where
  "get frameHash c = (if frameHash = [] then None else map_of (oc_data c) frameHash)"

text \<open>The eviction loop.\<close>

fun evict :: "(qstring, 'v) qmap \<Rightarrow> qstring list \<Rightarrow> 'v ocr_cache" where
  "evict data [] = \<lparr>oc_data = data, oc_order = []\<rparr>"
| "evict data (k # ks) =
     (if length data \<ge> MAX_ENTRIES then evict (qm_remove k data) ks
      else \<lparr>oc_data = data, oc_order = k # ks\<rparr>)"

definition put :: "qstring \<Rightarrow> 'v \<Rightarrow> 'v ocr_cache \<Rightarrow> 'v ocr_cache" where
  "put frameHash result c =
     (if frameHash = [] then c
      else if qm_contains (oc_data c) frameHash
      then c\<lparr>oc_data := qm_insert frameHash result (oc_data c)\<rparr>
      else
        let c' = evict (oc_data c) (oc_order c)
        in c'\<lparr>oc_data := qm_insert frameHash result (oc_data c'), oc_order := oc_order c' @ [frameHash]\<rparr>)"

definition clear :: "'v ocr_cache \<Rightarrow> 'v ocr_cache" where
  "clear c = \<lparr>oc_data = [], oc_order = []\<rparr>"

definition cache_size :: "'v ocr_cache \<Rightarrow> nat" where
  "cache_size c = length (oc_data c)"


section \<open>Invariant\<close>

definition cache_inv :: "'v ocr_cache \<Rightarrow> bool" where
  "cache_inv c \<longleftrightarrow> sorted_wrt (<) (qm_keys (oc_data c)) \<and> distinct (oc_order c)
     \<and> set (oc_order c) = fst ` set (oc_data c) \<and> length (oc_data c) \<le> MAX_ENTRIES \<and> [] \<notin> set (oc_order c)"

lemma cache_inv_length: "cache_inv c \<Longrightarrow> length (oc_data c) = length (oc_order c)"
  using strict_sorted_distinct distinct_card
  by (metis cache_inv_def length_map set_map)

text \<open>A full cache loses exactly its oldest entry.\<close>

lemma evict_inv:
  assumes inv: "cache_inv c"
  shows "evict (oc_data c) (oc_order c) =
    (if length (oc_order c) = MAX_ENTRIES
     then \<lparr>oc_data = qm_remove (hd (oc_order c)) (oc_data c), oc_order = tl (oc_order c)\<rparr> else c)"
proof (cases "oc_order c")
  case Nil
  with cache_inv_length[OF inv] show ?thesis by (simp add: MAX_ENTRIES_def)
next
  case (Cons k ks)
  have len: "length (oc_data c) = Suc (length ks)" using cache_inv_length[OF inv] Cons by simp
  have k: "k \<in> fst ` set (oc_data c)" "k \<notin> set ks" using inv Cons by (auto simp: cache_inv_def)
  have "length (qm_remove k (oc_data c)) < length (oc_data c)"
    using k(1) unfolding qm_remove_def by (auto intro: length_filter_less)
  then have "length (qm_remove k (oc_data c)) < MAX_ENTRIES" using inv by (simp add: cache_inv_def)
  then have "evict (qm_remove k (oc_data c)) ks = \<lparr>oc_data = qm_remove k (oc_data c), oc_order = ks\<rparr>"
    by (cases ks) simp_all
  with Cons len inv show ?thesis by (auto simp: cache_inv_def)
qed

definition kept :: "'v ocr_cache \<Rightarrow> qstring list" where
  "kept c = drop (length (oc_order c) - (MAX_ENTRIES - 1)) (oc_order c)"

lemma cache_inv_dom: "cache_inv c \<Longrightarrow> dom (map_of (oc_data c)) = set (oc_order c)"
  by (simp add: cache_inv_def dom_map_of_conv_image_fst)

lemma cache_invI:
  assumes "sorted_wrt (<) (qm_keys (oc_data c))" "distinct (oc_order c)" "set (oc_order c) = fst ` set (oc_data c)"
    "length (oc_order c) \<le> MAX_ENTRIES" "[] \<notin> set (oc_order c)"
  shows "cache_inv c"
  using assms strict_sorted_distinct[OF assms(1)] unfolding cache_inv_def
  by (metis distinct_card length_map set_map)

lemma evicted_inv:
  assumes inv: "cache_inv c"
  shows "cache_inv (evict (oc_data c) (oc_order c)) \<and> oc_order (evict (oc_data c) (oc_order c)) = kept c
    \<and> map_of (oc_data (evict (oc_data c) (oc_order c))) = map_of (oc_data c) |` set (kept c)"
proof (cases "length (oc_order c) = MAX_ENTRIES")
  case False
  then have "length (oc_order c) < MAX_ENTRIES"
    using inv cache_inv_length[OF inv] by (simp add: cache_inv_def)
  then have "kept c = oc_order c" by (simp add: kept_def MAX_ENTRIES_def)
  moreover have "map_of (oc_data c) |` dom (map_of (oc_data c)) = map_of (oc_data c)"
    by (auto simp: fun_eq_iff restrict_map_def dom_def)
  ultimately show ?thesis
    unfolding evict_inv[OF inv] using False inv by (simp flip: cache_inv_dom)
next
  case True
  then obtain h t where o: "oc_order c = h # t" by (cases "oc_order c") (auto simp: MAX_ENTRIES_def)
  let ?c = "\<lparr>oc_data = qm_remove h (oc_data c), oc_order = t\<rparr>"
  have ev: "evict (oc_data c) (oc_order c) = ?c" unfolding evict_inv[OF inv] using True o by simp
  have k: "kept c = t" using True o by (simp add: kept_def MAX_ENTRIES_def)
  have h: "h \<notin> set t" using inv o by (simp add: cache_inv_def)
  have "cache_inv ?c"
    using inv o h True by (intro cache_invI) (auto simp: cache_inv_def qm_remove_sorted)
  moreover have "map_of (qm_remove h (oc_data c)) = map_of (oc_data c) |` set t"
    using cache_inv_dom[OF inv] o h by (auto simp: fun_eq_iff restrict_map_def)
  ultimately show ?thesis unfolding ev k by simp
qed

lemma put_fresh:
  assumes inv: "cache_inv c" and k: "k \<noteq> []" "\<not> qm_contains (oc_data c) k"
  shows "cache_inv (put k v c) \<and> oc_order (put k v c) = kept c @ [k]
    \<and> map_of (oc_data (put k v c)) = (map_of (oc_data c) |` set (kept c))(k \<mapsto> v)"
proof -
  let ?e = "evict (oc_data c) (oc_order c)"
  have e: "cache_inv ?e" "oc_order ?e = kept c" "map_of (oc_data ?e) = map_of (oc_data c) |` set (kept c)"
    using evicted_inv[OF inv] by auto
  have put: "oc_data (put k v c) = qm_insert k v (oc_data ?e)" "oc_order (put k v c) = kept c @ [k]"
    using k by (simp_all add: put_def Let_def e(2))
  have "k \<notin> set (kept c)"
    using k(2) cache_inv_dom[OF inv] by (auto simp: kept_def qm_contains_def dest: in_set_dropD)
  moreover have "length (kept c) < MAX_ENTRIES" by (simp add: kept_def MAX_ENTRIES_def)
  ultimately have "cache_inv (put k v c)"
    using e(1,2) k(1) by (intro cache_invI) (auto simp: put cache_inv_def qm_insert_sorted)
  with put e(3) show ?thesis by simp
qed

lemma put_present:
  assumes inv: "cache_inv c" and k: "k \<noteq> []" "qm_contains (oc_data c) k"
  shows "cache_inv (put k v c) \<and> map_of (oc_data (put k v c)) = (map_of (oc_data c))(k \<mapsto> v)"
proof -
  have put: "put k v c = c\<lparr>oc_data := qm_insert k v (oc_data c)\<rparr>" using k by (simp add: put_def)
  have "k \<in> set (oc_order c)" using k(2) cache_inv_dom[OF inv] by (auto simp: qm_contains_def)
  with inv have "cache_inv (put k v c)"
    using cache_inv_length[OF inv]
    by (intro cache_invI) (auto simp: put cache_inv_def qm_insert_sorted)
  with put show ?thesis by simp
qed


section \<open>The contract of a result cache\<close>

locale result_cache =
  fixes lookup :: "qstring \<Rightarrow> 'c \<Rightarrow> 'v option"
    and store :: "qstring \<Rightarrow> 'v \<Rightarrow> 'c \<Rightarrow> 'c"
    and cinv :: "'c \<Rightarrow> bool"
  assumes store_inv: "cinv c \<Longrightarrow> cinv (store k v c)"
    and lookup_store: "cinv c \<Longrightarrow> k \<noteq> [] \<Longrightarrow> lookup k (store k v c) = Some v"
    and lookup_other: "cinv c \<Longrightarrow> lookup k' (store k v c) = Some w \<Longrightarrow> k' = k \<and> w = v \<or> lookup k' c = Some w"
begin

text \<open>
  Memoising a computation \<open>f\<close> whose arguments (those with \<open>D\<close>) are identified by \<open>hash\<close>: as long as the
  cache only holds results of \<open>f\<close>, the lookup-or-compute step returns what \<open>f\<close> returns and keeps that so.
\<close>

definition sound :: "('a \<Rightarrow> bool) \<Rightarrow> ('a \<Rightarrow> qstring) \<Rightarrow> ('a \<Rightarrow> 'v) \<Rightarrow> 'c \<Rightarrow> bool" where
  "sound D hash f c \<longleftrightarrow> cinv c \<and> (\<forall>x v. D x \<longrightarrow> lookup (hash x) c = Some v \<longrightarrow> v = f x)"

lemma sound_store:
  assumes "sound D hash f c" and "D x" and "\<And>y. D y \<Longrightarrow> hash y = hash x \<Longrightarrow> f y = f x"
  shows "sound D hash f (store (hash x) (f x) c)"
  using assms store_inv lookup_other unfolding sound_def by metis

lemma sound_lookup: "sound D hash f c \<Longrightarrow> D x \<Longrightarrow> lookup (hash x) c = Some v \<Longrightarrow> v = f x"
  unfolding sound_def by blast

end

interpretation ocr_cache: result_cache get put cache_inv
proof (unfold_locales, goal_cases)
  case (1 c k v)
  then show ?case
    using put_fresh[of c k v] put_present[of c k v] by (cases "k = []") (auto simp: put_def)
next
  case (2 c k v)
  then show ?case
    using put_fresh[of c k v] put_present[of c k v] by (cases "qm_contains (oc_data c) k") (auto simp: get_def)
next
  case (3 c k' k v w)
  then show ?case
  proof (cases "k = []")
    case True
    with 3 show ?thesis by (simp add: put_def)
  next
    case False
    with 3 put_fresh[of c k v] put_present[of c k v] show ?thesis
      by (cases "qm_contains (oc_data c) k") (auto simp: get_def restrict_map_def split: if_splits)
  qed
qed


section \<open>Properties\<close>

definition puts :: "(qstring \<times> 'v) list \<Rightarrow> 'v ocr_cache \<Rightarrow> 'v ocr_cache" where
  "puts kvs c = foldl (\<lambda>c (k, v). put k v c) c kvs"

lemma puts_snoc: "puts (kvs @ [(k, v)]) c = put k v (puts kvs c)"
  by (simp add: puts_def)

lemma puts_inv: "cache_inv c \<Longrightarrow> cache_inv (puts kvs c)"
proof (induction kvs rule: rev_induct)
  case Nil
  then show ?case by (simp add: puts_def)
next
  case (snoc kv kvs)
  then show ?case by (cases kv) (simp add: puts_snoc ocr_cache.store_inv)
qed

lemma cache_inv_init: "cache_inv OcrCache_init"
  by (simp add: cache_inv_def OcrCache_init_def)

text \<open>What is held after putting fresh keys: they are the youngest in the queue, with their results.\<close>

lemma puts_youngest:
  assumes "cache_inv c" and "distinct (map fst kvs)" and "[] \<notin> fst ` set kvs" and "length kvs \<le> MAX_ENTRIES"
    and "\<forall>k \<in> fst ` set kvs. k \<notin> set (oc_order c)"
  shows "\<exists>older. oc_order (puts kvs c) = older @ map fst kvs \<and> set older \<subseteq> set (oc_order c)
    \<and> (\<forall>(k, v) \<in> set kvs. get k (puts kvs c) = Some v)"
  using assms(2-)
proof (induction kvs rule: rev_induct)
  case Nil
  then show ?case by (simp add: puts_def)
next
  case (snoc kv kvs)
  obtain k v where kv: "kv = (k, v)" by (cases kv)
  from snoc kv obtain older where older: "oc_order (puts kvs c) = older @ map fst kvs"
    "set older \<subseteq> set (oc_order c)" "\<forall>(k, v) \<in> set kvs. get k (puts kvs c) = Some v"
    by auto
  have inv: "cache_inv (puts kvs c)" using assms(1) by (rule puts_inv)
  have new: "k \<notin> set (oc_order (puts kvs c))" and ne: "k \<noteq> []"
    using snoc.prems kv older(1,2) by auto
  then have nc: "\<not> qm_contains (oc_data (puts kvs c)) k"
    using cache_inv_dom[OF inv] by (auto simp: qm_contains_def)
  let ?n = "length older + length kvs - (MAX_ENTRIES - 1)"
  have "kept (puts kvs c) = drop ?n older @ map fst kvs"
    using snoc.prems kv by (simp add: kept_def older(1))
  with put_fresh[OF inv ne nc, of v]
  have p: "oc_order (puts (kvs @ [kv]) c) = drop ?n older @ map fst (kvs @ [kv])"
    "map_of (oc_data (puts (kvs @ [kv]) c)) =
       (map_of (oc_data (puts kvs c)) |` set (drop ?n older @ map fst kvs))(k \<mapsto> v)"
    by (simp_all add: puts_snoc kv)
  have "get k' (puts (kvs @ [kv]) c) = Some v'" if "(k', v') \<in> set (kvs @ [kv])" for k' v'
  proof (cases "(k', v') \<in> set kvs")
    case True
    then have "get k' (puts kvs c) = Some v'" "k' \<in> fst ` set kvs" "k' \<noteq> k"
      using older(3) snoc.prems(1) kv by (auto intro: rev_image_eqI)
    then show ?thesis using p(2) by (auto simp: get_def restrict_map_def split: if_splits)
  next
    case False
    with that kv ne p(2) show ?thesis by (simp add: get_def)
  qed
  then have "\<forall>(k', v') \<in> set (kvs @ [kv]). get k' (puts (kvs @ [kv]) c) = Some v'" by blast
  moreover have "set (drop ?n older) \<subseteq> set (oc_order c)" using older(2) by (auto dest: in_set_dropD)
  ultimately show ?case using p(1) by blast
qed

text \<open>
  The cache keeps the latest frames: starting from any consistent cache, after storing results for at
  most 30 different new frames every one of them is found with its result, and the cache never
  holds more than 30 entries.
\<close>

theorem cache_keeps_latest:
  assumes "cache_inv c" and "distinct (map fst kvs)" and "[] \<notin> fst ` set kvs" and "length kvs \<le> MAX_ENTRIES"
    and "\<forall>k \<in> fst ` set kvs. get k c = None" and "(k, v) \<in> set kvs"
  shows "get k (puts kvs c) = Some v \<and> cache_size (puts kvs c) \<le> 30"
proof -
  have "k \<noteq> []" if "k \<in> fst ` set kvs" for k using assms(3) that by metis
  then have "\<forall>k \<in> fst ` set kvs. k \<notin> set (oc_order c)"
    using assms(5) cache_inv_dom[OF assms(1)] by (auto simp: get_def)
  from puts_youngest[OF assms(1-4) this] assms(6) have "get k (puts kvs c) = Some v" by auto
  moreover have "cache_size (puts kvs c) \<le> 30"
    using puts_inv[OF assms(1), of kvs] by (simp add: cache_inv_def cache_size_def MAX_ENTRIES_def)
  ultimately show ?thesis by simp
qed

theorem cache_keeps_latest_witness:
  "get ''a'' (puts [(''a'', 1), (''b'', 2 :: nat)] OcrCache_init) = Some 1"
  using cache_keeps_latest[OF cache_inv_init, of "[(''a'', 1), (''b'', 2 :: nat)]" "''a''" 1]
  by (simp add: MAX_ENTRIES_def OcrCache_init_def get_def)

text \<open>
  Eviction is first in, first out, not least recently used: a full cache drops its oldest entry even
  if that entry was the last one read.
\<close>

theorem eviction_is_fifo:
  assumes "cache_inv c" and "length (oc_order c) = MAX_ENTRIES" and "k \<noteq> []" and "get k c = None"
  shows "get (hd (oc_order c)) (put k v c) = None"
proof -
  have nc: "\<not> qm_contains (oc_data c) k" using assms(3,4) by (simp add: get_def qm_contains_def)
  obtain h t where o: "oc_order c = h # t" using assms(2) by (cases "oc_order c") (auto simp: MAX_ENTRIES_def)
  have "kept c = t" using assms(2) o by (simp add: kept_def MAX_ENTRIES_def)
  moreover have "h \<in> dom (map_of (oc_data c))" using cache_inv_dom[OF assms(1)] o by simp
  then have "h \<noteq> k" using nc by (auto simp: qm_contains_def)
  moreover have "h \<notin> set t" using assms(1) o by (simp add: cache_inv_def)
  ultimately show ?thesis using put_fresh[OF assms(1,3) nc, of v] o by (simp add: get_def)
qed

definition demo_keys :: "(qstring \<times> nat) list" where
  "demo_keys = map (\<lambda>n. (''k'' @ string_of_nat n, n)) [0..<30]"

theorem eviction_is_fifo_witness:
  "get (hd (oc_order (puts demo_keys OcrCache_init))) (put ''x'' 99 (puts demo_keys OcrCache_init)) = None"
proof (rule eviction_is_fifo[OF puts_inv[OF cache_inv_init]])
  have d: "distinct (map fst demo_keys)" "[] \<notin> fst ` set demo_keys" "length demo_keys \<le> MAX_ENTRIES"
    by (auto simp: demo_keys_def comp_def distinct_map inj_on_def MAX_ENTRIES_def)
  obtain older where o: "oc_order (puts demo_keys OcrCache_init) = older @ map fst demo_keys"
      "set older \<subseteq> set (oc_order (OcrCache_init :: nat ocr_cache))"
    using puts_youngest[OF cache_inv_init d] by (auto simp: OcrCache_init_def)
  then have e: "oc_order (puts demo_keys OcrCache_init) = map fst demo_keys" by (simp add: OcrCache_init_def)
  then show "length (oc_order (puts demo_keys OcrCache_init)) = MAX_ENTRIES"
    by (simp add: demo_keys_def MAX_ENTRIES_def)
  have "''x'' \<notin> set (oc_order (puts demo_keys OcrCache_init))" unfolding e by (auto simp: demo_keys_def)
  then show "get ''x'' (puts demo_keys OcrCache_init) = None"
    using cache_inv_dom[OF puts_inv[OF cache_inv_init], of demo_keys] by (auto simp: get_def)
qed simp

end
