(* ===== verification/OcrEngine.thy ===== *)
theory OcrEngine
  imports Prelude
begin

text \<open>
  \<open>QuickDesk/src/api/OcrEngine.cpp\<close> (built with \<open>QUICKDESK_OCR_ENABLED\<close>): finding the model files, the
  engine handle, and the conversion of the recognised blocks with their bounding boxes.

  The OCR library, MD5, UTF-8 decoding and the file system are arguments (\<open>ocr_lib\<close>). A raw block's
  text is the byte array with its terminator, \<open>None\<close> for a null pointer; \<open>lib_detect\<close> is \<open>None\<close> when the
  conversion to BGR or the detection fails. Coordinates are exact reals, cast to \<open>int\<close> towards zero.
\<close>

record qimage =
  im_isNull :: bool
  im_bits :: "nat list"
  im_width :: int
  im_height :: int

record qrect =
  rc_x1 :: int
  rc_y1 :: int
  rc_x2 :: int
  rc_y2 :: int

record ocr_text_block =
  tb_text :: qstring
  tb_bbox :: qrect
  tb_center :: "int \<times> int"
  tb_confidence :: real

record ocr_result =
  or_imageSize :: "int \<times> int"
  or_blocks :: "ocr_text_block list"
  or_frameHash :: qstring

record raw_block =
  rb_text :: "nat list option"
  rb_boxScore :: real
  rb_boxPoint :: "(real \<times> real) list"

record ocr_lib =
  lib_md5hex :: "nat list \<Rightarrow> qstring"
  lib_utf8 :: "nat list \<Rightarrow> qstring"
  lib_detect :: "qimage \<Rightarrow> raw_block list option"
  lib_exists :: "qstring \<Rightarrow> bool"
  lib_appDir :: qstring
  lib_init :: "qstring \<Rightarrow> qstring option \<Rightarrow> qstring \<Rightarrow> qstring \<Rightarrow> bool"

record ocr_engine =
  oe_handle :: bool
  oe_modelDir :: qstring

definition no_rect :: qrect where
  "no_rect = \<lparr>rc_x1 = 0, rc_y1 = 0, rc_x2 = -1, rc_y2 = -1\<rparr>"

definition no_block :: ocr_text_block where
  "no_block = \<lparr>tb_text = [], tb_bbox = no_rect, tb_center = (0, 0), tb_confidence = 0\<rparr>"

definition no_result :: ocr_result where
  "no_result = \<lparr>or_imageSize = (-1, -1), or_blocks = [], or_frameHash = []\<rparr>"

definition defaultModelDir :: "ocr_lib \<Rightarrow> qstring" where
  "defaultModelDir lib = lib_appDir lib @ ''/models''"

definition computeFrameHash :: "ocr_lib \<Rightarrow> qimage \<Rightarrow> qstring" where
  "computeFrameHash lib img = (if im_isNull img then [] else lib_md5hex lib (im_bits img))"

definition pickModel :: "ocr_lib \<Rightarrow> qstring \<Rightarrow> qstring \<Rightarrow> qstring \<Rightarrow> qstring" where
  "pickModel lib dir v4Name v3Name =
     (if lib_exists lib (dir @ ''/'' @ v4Name) then dir @ ''/'' @ v4Name
      else if lib_exists lib (dir @ ''/'' @ v3Name) then dir @ ''/'' @ v3Name
      else [])"

definition ocr_initialize :: "ocr_lib \<Rightarrow> qstring \<Rightarrow> ocr_engine \<Rightarrow> ocr_engine \<times> bool" where
  "ocr_initialize lib modelDir eng =
     (if oe_handle eng then (eng, True)
      else
        let dir = (if modelDir = [] then defaultModelDir lib else modelDir);
            eng1 = eng\<lparr>oe_modelDir := dir\<rparr>;
            det = pickModel lib dir ''ch_PP-OCRv4_det_infer.onnx'' ''ch_PP-OCRv3_det_infer.onnx'';
            rec = pickModel lib dir ''ch_PP-OCRv4_rec_infer.onnx'' ''ch_PP-OCRv3_rec_infer.onnx'';
            cls = dir @ ''/ch_ppocr_mobile_v2.0_cls_infer.onnx'';
            key = dir @ ''/ppocr_keys_v1.txt''
        in if det = [] \<or> rec = [] then (eng1, False)
           else if \<not> lib_exists lib key then (eng1, False)
           else
             let handle = lib_init lib det (if lib_exists lib cls then Some cls else None) rec key
             in (eng1\<lparr>oe_handle := handle\<rparr>, handle))"

definition uninitialize :: "ocr_engine \<Rightarrow> ocr_engine" where
  "uninitialize eng = (if oe_handle eng then eng\<lparr>oe_handle := False\<rparr> else eng)"

definition isInitialized :: "ocr_engine \<Rightarrow> bool" where
  "isInitialized eng = oe_handle eng"

text \<open>\<open>static_cast<int>\<close> and the integer division of \<open>QRect::center\<close>, both towards zero.\<close>

definition trunc_int :: "real \<Rightarrow> int" where
  "trunc_int r = (if r \<ge> 0 then \<lfloor>r\<rfloor> else \<lceil>r\<rceil>)"

definition half :: "int \<Rightarrow> int" where
  "half a = (if a \<ge> 0 then a div 2 else - ((- a) div 2))"

definition rect_center :: "qrect \<Rightarrow> int \<times> int" where
  "rect_center r = (half (rc_x1 r + rc_x2 r), half (rc_y1 r + rc_y2 r))"

text \<open>The loop over the vertices: minimum and maximum of both coordinates.\<close>

fun bounds_loop :: "(real \<times> real) list \<Rightarrow> real \<Rightarrow> real \<Rightarrow> real \<Rightarrow> real \<Rightarrow> real \<times> real \<times> real \<times> real" where
  "bounds_loop [] minX maxX minY maxY = (minX, maxX, minY, maxY)"
| "bounds_loop ((x, y) # ps) minX maxX minY maxY =
     bounds_loop ps (min minX x) (max maxX x) (min minY y) (max maxY y)"

definition bounding_rect :: "(real \<times> real) list \<Rightarrow> qrect" where
  "bounding_rect ps =
     (let (x0, y0) = hd ps;
          (minX, maxX, minY, maxY) = bounds_loop (tl ps) x0 x0 y0 y0
      in \<lparr>rc_x1 = trunc_int minX, rc_y1 = trunc_int minY, rc_x2 = trunc_int maxX, rc_y2 = trunc_int maxY\<rparr>)"

definition text_block :: "ocr_lib \<Rightarrow> raw_block \<Rightarrow> ocr_text_block list" where
  "text_block lib blk =
     (case rb_text blk of
        None \<Rightarrow> []
      | Some [] \<Rightarrow> []
      | Some bytes \<Rightarrow>
          let tb = no_block\<lparr>tb_text := lib_utf8 lib (butlast bytes), tb_confidence := rb_boxScore blk\<rparr>;
              r = bounding_rect (rb_boxPoint blk)
          in [if length (rb_boxPoint blk) \<ge> 4 then tb\<lparr>tb_bbox := r, tb_center := rect_center r\<rparr> else tb])"

definition recognize :: "ocr_lib \<Rightarrow> qimage \<Rightarrow> ocr_engine \<Rightarrow> ocr_result" where
  "recognize lib img eng =
     (if im_isNull img then no_result
      else if \<not> oe_handle eng then no_result
      else case lib_detect lib img of
             None \<Rightarrow> no_result
           | Some raw \<Rightarrow>
               no_result\<lparr>or_imageSize := (im_width img, im_height img),
                 or_blocks := concat (map (text_block lib) raw)\<rparr>)"


section \<open>Bounding boxes\<close>

lemma trunc_int_mono: "r \<le> s \<Longrightarrow> trunc_int r \<le> trunc_int s"
proof -
  assume le: "r \<le> s"
  have 1: "\<lceil>r\<rceil> \<le> 0" if "\<not> 0 \<le> r" using that by (simp add: ceiling_le_iff)
  have 2: "0 \<le> \<lfloor>s\<rfloor>" if "0 \<le> s" using that by simp
  show ?thesis
  proof (cases "0 \<le> r \<longleftrightarrow> 0 \<le> s")
    case True
    with le show ?thesis by (simp add: trunc_int_def floor_mono ceiling_mono)
  next
    case False
    with le have "\<not> 0 \<le> r" "0 \<le> s" by auto
    moreover from this have "\<lceil>r\<rceil> \<le> \<lfloor>s\<rfloor>" using 1 2 by (meson order_trans)
    ultimately show ?thesis by (simp add: trunc_int_def)
  qed
qed

lemma bounds_loop_spec:
  assumes "bounds_loop ps a b c d = (a', b', c', d')"
  shows "a' \<le> a \<and> b \<le> b' \<and> c' \<le> c \<and> d \<le> d' \<and> (\<forall>(x, y) \<in> set ps. a' \<le> x \<and> x \<le> b' \<and> c' \<le> y \<and> y \<le> d')"
  using assms
proof (induction ps arbitrary: a b c d)
  case Nil
  then show ?case by simp
next
  case (Cons p ps)
  obtain x y where p: "p = (x, y)" by (cases p)
  from Cons.IH[of "min a x" "max b x" "min c y" "max d y"] Cons.prems p show ?case by auto
qed

lemma half_between: "a \<le> b \<Longrightarrow> a \<le> half (a + b) \<and> half (a + b) \<le> b"
  unfolding half_def by (auto split: if_splits)

text \<open>
  Click targets: for a recognised block with at least four vertices, the bounding box contains every
  vertex (in the integer grid the box lives in) and the block's centre, where a click on the
  text goes, lies inside the box.
\<close>

theorem block_box_sound:
  assumes "length (rb_boxPoint blk) \<ge> 4" and "tb \<in> set (text_block lib blk)" and "(x, y) \<in> set (rb_boxPoint blk)"
  shows "rc_x1 (tb_bbox tb) \<le> trunc_int x \<and> trunc_int x \<le> rc_x2 (tb_bbox tb)
    \<and> rc_y1 (tb_bbox tb) \<le> trunc_int y \<and> trunc_int y \<le> rc_y2 (tb_bbox tb)
    \<and> rc_x1 (tb_bbox tb) \<le> fst (tb_center tb) \<and> fst (tb_center tb) \<le> rc_x2 (tb_bbox tb)
    \<and> rc_y1 (tb_bbox tb) \<le> snd (tb_center tb) \<and> snd (tb_center tb) \<le> rc_y2 (tb_bbox tb)"
proof -
  obtain x0 y0 ps where pts: "rb_boxPoint blk = (x0, y0) # ps"
    using assms(1) by (cases "rb_boxPoint blk") auto
  obtain a b c d where l: "bounds_loop ps x0 x0 y0 y0 = (a, b, c, d)" by (metis prod_cases4)
  have r: "tb_bbox tb = \<lparr>rc_x1 = trunc_int a, rc_y1 = trunc_int c, rc_x2 = trunc_int b, rc_y2 = trunc_int d\<rparr>"
    "tb_center tb = rect_center (tb_bbox tb)"
    using assms(1,2) pts l
    by (auto simp: text_block_def bounding_rect_def Let_def split: option.splits list.splits)
  have "a \<le> x \<and> x \<le> b \<and> c \<le> y \<and> y \<le> d"
    using bounds_loop_spec[OF l] assms(3) pts by auto
  moreover have "a \<le> b" "c \<le> d" using bounds_loop_spec[OF l] by auto
  ultimately show ?thesis
    using half_between[OF trunc_int_mono[of a b]] half_between[OF trunc_int_mono[of c d]]
    by (simp add: r rect_center_def trunc_int_mono)
qed

definition demo_raw :: raw_block where
  "demo_raw = \<lparr>rb_text = Some [79, 75, 0], rb_boxScore = 1, rb_boxPoint = [(2, 3), (10, 3), (10, 9), (2, 9)]\<rparr>"

definition demo_lib :: ocr_lib where
  "demo_lib = \<lparr>lib_md5hex = (\<lambda>bs. ''h'' @ map char_of bs), lib_utf8 = map char_of,
     lib_detect = (\<lambda>im. Some [demo_raw]), lib_exists = (\<lambda>p. True), lib_appDir = ''app'',
     lib_init = (\<lambda>d c r k. True)\<rparr>"

theorem block_box_sound_witness:
  "rc_x1 (tb_bbox (hd (text_block demo_lib demo_raw))) \<le> trunc_int 10
    \<and> trunc_int 10 \<le> rc_x2 (tb_bbox (hd (text_block demo_lib demo_raw)))"
  using block_box_sound[of demo_raw "hd (text_block demo_lib demo_raw)" demo_lib 10 9]
  by (simp add: demo_raw_def text_block_def Let_def)

end
