(* ===== verification/UiStateService.thy ===== *)
theory UiStateService
  imports Json OcrCache OcrEngine
begin

text \<open>
  \<open>QuickDesk/src/api/UiStateService.cpp\<close>: OCR of the current frame through the cache, and the polling
  wait for a text. What the outside world shows at one moment (engine, shared memory, frame,
  foreground window) is an \<open>ocr_obs\<close>; a polling loop sees a sequence of them, one per poll. Times are
  unbounded integers; the code's \<open>int\<close> would overflow only for timeouts within 200 ms of \<open>2 ^ 31\<close>.
\<close>


section \<open>Data\<close>

record ocr_obs =
  ob_engine :: ocr_engine
  ob_attached :: bool
  ob_frame :: "qimage option"
  ob_window :: "(nat \<times> qstring) option"

record ui_state =
  us_deviceId :: qstring
  us_screenWidth :: int
  us_screenHeight :: int
  us_ocr :: ocr_result
  us_activeWindowTitle :: qstring
  us_ocrFromCache :: bool

definition new_ui_state :: ui_state where
  "new_ui_state = \<lparr>us_deviceId = [], us_screenWidth = 0, us_screenHeight = 0, us_ocr = no_result,
     us_activeWindowTitle = [], us_ocrFromCache = False\<rparr>"

type_synonym cache = "ocr_result ocr_cache"


section \<open>Operations\<close>

definition runOcr ::
    "ocr_lib \<Rightarrow> qstring \<Rightarrow> ocr_obs \<Rightarrow> cache \<Rightarrow> cache \<times> (qstring + ocr_result \<times> bool)" where
  "runOcr lib deviceId ob c =
     (if \<not> isInitialized (ob_engine ob)
      then (c, Inl (''OCR engine not ready. Check that model files are present in the models/ directory.''))
      else if \<not> ob_attached ob then (c, Inl (''No video frame available for: '' @ deviceId))
      else case ob_frame ob of
             None \<Rightarrow> (c, Inl ''Failed to read video frame'')
           | Some img \<Rightarrow>
               if im_isNull img then (c, Inl ''Failed to convert video frame to QImage'')
               else
                 let frameHash = computeFrameHash lib img
                 in case get frameHash c of
                      Some cached \<Rightarrow> (c, Inr (cached, True))
                    | None \<Rightarrow>
                        let result = (recognize lib img (ob_engine ob))\<lparr>or_frameHash := frameHash\<rparr>
                        in (put frameHash result c, Inr (result, False)))"

fun find_block :: "(ocr_text_block \<Rightarrow> bool) \<Rightarrow> ocr_text_block list \<Rightarrow> ocr_text_block" where
  "find_block hit [] = no_block"
| "find_block hit (blk # blks) = (if hit blk then blk else find_block hit blks)"

definition findInBlocks :: "ocr_result \<Rightarrow> qstring \<Rightarrow> bool \<Rightarrow> bool \<Rightarrow> ocr_text_block" where
  "findInBlocks result txt exact ignoreCase =
     find_block (\<lambda>blk. if exact then equals_cs ignoreCase (tb_text blk) txt
                       else contains_cs ignoreCase (tb_text blk) txt) (or_blocks result)"

text \<open>
  On Windows: the buffer has room for the terminator, and \<open>fromStdWString\<close> converts all of it.
\<close>

definition activeWindowTitle :: "(nat \<times> qstring) option \<Rightarrow> qstring" where
  "activeWindowTitle w =
     (case w of
        None \<Rightarrow> []
      | Some (len, txt) \<Rightarrow>
          if len = 0 then []
          else take len txt @ replicate (len + 1 - length (take len txt)) (CHR 0x00))"

text \<open>\<open>info\<close> is \<open>ClientManager::getConnection\<close>: identifier (empty if unknown), width, height.\<close>

definition getUiState ::
    "ocr_lib \<Rightarrow> qstring \<times> int \<times> int \<Rightarrow> qstring \<Rightarrow> ocr_obs \<Rightarrow> cache \<Rightarrow> cache \<times> (qstring + ui_state)" where
  "getUiState lib info deviceId ob c =
     (let (infoId, width, height) = info
      in if infoId = [] then (c, Inl (''Device not found: '' @ deviceId))
         else
           let st = new_ui_state\<lparr>us_deviceId := deviceId, us_screenWidth := width, us_screenHeight := height,
                      us_activeWindowTitle := activeWindowTitle (ob_window ob)\<rparr>;
               (c', r) = runOcr lib deviceId ob c
           in case r of
                Inl err \<Rightarrow> (c', Inr (st\<lparr>us_ocrFromCache := False\<rparr>))
              | Inr (ocr, fromCache) \<Rightarrow> (c', Inr (st\<lparr>us_ocr := ocr, us_ocrFromCache := fromCache\<rparr>)))"

definition kPollIntervalMs :: int where
  "kPollIntervalMs = 200"

definition not_appeared :: "qstring \<Rightarrow> int \<Rightarrow> qstring" where
  "not_appeared txt timeoutMs =
     qarg (qarg (''Text '' @ [CHR 0x22] @ ''%1'' @ [CHR 0x22] @ '' did not appear within %2 ms'') txt)
       (string_of_int timeoutMs)"

text \<open>The loop of \<open>waitForText\<close> at its \<open>n\<close>-th poll.\<close>

function waitLoop ::
    "ocr_lib \<Rightarrow> qstring \<Rightarrow> (nat \<Rightarrow> ocr_obs) \<Rightarrow> qstring \<Rightarrow> bool \<Rightarrow> bool \<Rightarrow> int \<Rightarrow> nat \<Rightarrow> int \<Rightarrow> cache
       \<Rightarrow> cache \<times> (qstring + ocr_text_block)" where
  "waitLoop lib dev obs txt exact ic timeoutMs n elapsed c =
     (if \<not> elapsed \<le> timeoutMs then (c, Inl (not_appeared txt timeoutMs))
      else case runOcr lib dev (obs n) c of
             (c1, Inl err) \<Rightarrow> (c1, Inl err)
           | (c1, Inr (result, fromCache)) \<Rightarrow>
               let blk = findInBlocks result txt exact ic
               in if tb_text blk \<noteq> [] then (c1, Inr blk)
                  else if elapsed \<ge> timeoutMs then (c1, Inl (not_appeared txt timeoutMs))
                  else waitLoop lib dev obs txt exact ic timeoutMs (Suc n) (elapsed + kPollIntervalMs) c1)"
  by pat_completeness auto
termination
  by (relation "measure (\<lambda>(lib, dev, obs, txt, exact, ic, timeoutMs, n, elapsed, c). nat (timeoutMs - elapsed))")
     (auto simp: kPollIntervalMs_def)

declare waitLoop.simps [simp del]

definition waitForText ::
    "ocr_lib \<Rightarrow> qstring \<Rightarrow> (nat \<Rightarrow> ocr_obs) \<Rightarrow> qstring \<Rightarrow> bool \<Rightarrow> bool \<Rightarrow> int \<Rightarrow> cache
       \<Rightarrow> cache \<times> (qstring + ocr_text_block)" where
  "waitForText lib dev obs txt exact ic timeoutMs c = waitLoop lib dev obs txt exact ic timeoutMs 0 0 c"

text \<open>The result tells the three outcomes apart: an OCR error, not found, found.\<close>

definition assertTextPresent ::
    "ocr_lib \<Rightarrow> qstring \<Rightarrow> ocr_obs \<Rightarrow> qstring \<Rightarrow> bool \<Rightarrow> bool \<Rightarrow> cache \<Rightarrow> cache \<times> (qstring + ocr_text_block option)" where
  "assertTextPresent lib dev ob txt exact ic c =
     (case runOcr lib dev ob c of
        (c1, Inl err) \<Rightarrow> (c1, Inl err)
      | (c1, Inr (result, fromCache)) \<Rightarrow>
          let blk = findInBlocks result txt exact ic
          in (c1, Inr (if tb_text blk \<noteq> [] then Some blk else None)))"

definition ocrBlockToJson :: "ocr_text_block \<Rightarrow> jobject" where
  "ocrBlockToJson blk =
     mkobj [(''text'', JStr (tb_text blk)), (''confidence'', JNum (tb_confidence blk)),
       (''bbox'', JObj (mkobj [(''x'', JInt (rc_x1 (tb_bbox blk))), (''y'', JInt (rc_y1 (tb_bbox blk))),
          (''w'', JInt (rc_x2 (tb_bbox blk) - rc_x1 (tb_bbox blk) + 1)),
          (''h'', JInt (rc_y2 (tb_bbox blk) - rc_y1 (tb_bbox blk) + 1))])),
       (''center'', JObj (mkobj [(''x'', JInt (fst (tb_center blk))), (''y'', JInt (snd (tb_center blk)))]))]"

definition uiStateToJson :: "ui_state \<Rightarrow> jobject" where
  "uiStateToJson st =
     (let blocksArr = JArr (map (\<lambda>b. JObj (ocrBlockToJson b)) (or_blocks (us_ocr st)));
          ocrObj = mkobj [(''blocks'', blocksArr), (''frameHash'', JStr (or_frameHash (us_ocr st))),
                     (''fromCache'', JBool (us_ocrFromCache st))];
          screenObj = mkobj [(''width'', JInt (us_screenWidth st)), (''height'', JInt (us_screenHeight st))]
      in mkobj [(''deviceId'', JStr (us_deviceId st)), (''screen'', JObj screenObj), (''ocr'', JObj ocrObj),
           (''activeWindow'', JObj (mkobj [(''title'', JStr (us_activeWindowTitle st))]))])"


section \<open>The cache is transparent\<close>

text \<open>What OCR of an image gives without any cache, and when two frames share a hash.\<close>

definition ocr_of :: "ocr_lib \<Rightarrow> qimage \<Rightarrow> ocr_result" where
  "ocr_of lib img =
     (recognize lib img \<lparr>oe_handle = True, oe_modelDir = []\<rparr>)\<lparr>or_frameHash := computeFrameHash lib img\<rparr>"

definition no_collision :: "ocr_lib \<Rightarrow> qimage set \<Rightarrow> bool" where
  "no_collision lib F \<longleftrightarrow> (\<forall>x \<in> F. \<forall>y \<in> F.
     computeFrameHash lib x = computeFrameHash lib y \<longrightarrow> ocr_of lib x = ocr_of lib y)"

abbreviation cache_sound :: "ocr_lib \<Rightarrow> qimage set \<Rightarrow> cache \<Rightarrow> bool" where
  "cache_sound lib F \<equiv> ocr_cache.sound (\<lambda>img. img \<in> F) (computeFrameHash lib) (ocr_of lib)"

definition readable :: "ocr_obs \<Rightarrow> qimage \<Rightarrow> bool" where
  "readable ob img \<longleftrightarrow> oe_handle (ob_engine ob) \<and> ob_attached ob \<and> ob_frame ob = Some img \<and> \<not> im_isNull img"

lemma cache_sound_init: "cache_sound lib F OcrCache_init"
  by (simp add: ocr_cache.sound_def cache_inv_init) (simp add: OcrCache_init_def get_def)

lemma recognize_handle: "oe_handle eng \<Longrightarrow> recognize lib img eng = recognize lib img \<lparr>oe_handle = True, oe_modelDir = []\<rparr>"
  by (simp add: recognize_def)

lemma runOcr_readable:
  assumes "cache_sound lib F c" "no_collision lib F" "readable ob img" "img \<in> F"
  shows "\<exists>c' fc. runOcr lib dev ob c = (c', Inr (ocr_of lib img, fc)) \<and> cache_sound lib F c'"
proof (cases "get (computeFrameHash lib img) c")
  case (Some v)
  then have "v = ocr_of lib img"
    using ocr_cache.sound_lookup[OF assms(1), of img] assms(4) by simp
  with Some assms(1,3) show ?thesis by (auto simp: runOcr_def readable_def isInitialized_def Let_def)
next
  case None
  have "cache_sound lib F (put (computeFrameHash lib img) (ocr_of lib img) c)"
  proof (rule ocr_cache.sound_store[OF assms(1,4)])
    show "ocr_of lib y = ocr_of lib img"
      if "y \<in> F" "computeFrameHash lib y = computeFrameHash lib img" for y
      using assms(2,4) that unfolding no_collision_def by blast
  qed
  with None assms(3) recognize_handle[of "ob_engine ob" lib img] show ?thesis
    by (auto simp: runOcr_def readable_def isInitialized_def Let_def ocr_of_def)
qed

lemma runOcr_sound:
  assumes "cache_sound lib F c" "no_collision lib F" "\<And>img. readable ob img \<Longrightarrow> img \<in> F"
  shows "cache_sound lib F (fst (runOcr lib dev ob c))"
proof (cases "\<exists>img. readable ob img")
  case True
  then show ?thesis using runOcr_readable[OF assms(1,2)] assms(3) by (metis fst_conv)
next
  case False
  then have "fst (runOcr lib dev ob c) = c"
    by (auto simp: runOcr_def readable_def isInitialized_def split: option.splits)
  with assms(1) show ?thesis by simp
qed

definition runOcrs :: "ocr_lib \<Rightarrow> qstring \<Rightarrow> ocr_obs list \<Rightarrow> cache \<Rightarrow> cache" where
  "runOcrs lib dev obs c = foldl (\<lambda>c ob. fst (runOcr lib dev ob c)) c obs"

definition frames_of :: "ocr_obs list \<Rightarrow> qimage set" where
  "frames_of obs = {img. \<exists>ob \<in> set obs. readable ob img}"

lemma runOcrs_sound:
  "no_collision lib F \<Longrightarrow> cache_sound lib F c \<Longrightarrow> frames_of obs \<subseteq> F \<Longrightarrow> cache_sound lib F (runOcrs lib dev obs c)"
proof (induction obs arbitrary: c)
  case Nil
  then show ?case by (simp add: runOcrs_def)
next
  case (Cons ob obs)
  have "cache_sound lib F (fst (runOcr lib dev ob c))"
    using Cons.prems by (intro runOcr_sound) (auto simp: frames_of_def)
  moreover have "frames_of obs \<subseteq> F" using Cons.prems(3) by (auto simp: frames_of_def)
  ultimately show ?case using Cons.IH[OF Cons.prems(1)] by (simp add: runOcrs_def)
qed


section \<open>Polling\<close>

definition visible :: "ocr_lib \<Rightarrow> qstring \<Rightarrow> bool \<Rightarrow> bool \<Rightarrow> qimage \<Rightarrow> bool" where
  "visible lib txt exact ic img \<longleftrightarrow> tb_text (findInBlocks (ocr_of lib img) txt exact ic) \<noteq> []"

text \<open>From its \<open>n\<close>-th poll on, the loop finds the text exactly if a poll it still makes shows it.\<close>

lemma waitLoop_finds:
  assumes nc: "no_collision lib F" and obs: "\<And>k. readable (obs k) (frames k)" and F: "\<And>k. frames k \<in> F"
  shows "cache_sound lib F c \<Longrightarrow> elapsed = 200 * int n \<Longrightarrow>
    snd (waitLoop lib dev obs txt exact ic timeoutMs n elapsed c) =
      (if \<exists>k \<ge> n. 200 * int k \<le> timeoutMs \<and> visible lib txt exact ic (frames k)
       then Inr (findInBlocks (ocr_of lib (frames (LEAST k. k \<ge> n \<and> visible lib txt exact ic (frames k)))) txt exact ic)
       else Inl (not_appeared txt timeoutMs))"
proof (induction "nat (timeoutMs - elapsed)" arbitrary: n elapsed c rule: less_induct)
  case less
  let ?v = "\<lambda>k. visible lib txt exact ic (frames k)"
  note loop = waitLoop.simps[where n = n and elapsed = elapsed and c = c]
  show ?case
  proof (cases "elapsed \<le> timeoutMs")
    case False
    then have "\<not> (\<exists>k \<ge> n. 200 * int k \<le> timeoutMs \<and> ?v k)" using less.prems(2) by force
    with False show ?thesis by (simp add: loop)
  next
    case True
    obtain c1 fc where r: "runOcr lib dev (obs n) c = (c1, Inr (ocr_of lib (frames n), fc))" "cache_sound lib F c1"
      using runOcr_readable[OF less.prems(1) nc obs F] by blast
    show ?thesis
    proof (cases "?v n")
      case v: True
      then have "(LEAST k. k \<ge> n \<and> ?v k) = n" by (intro Least_equality) auto
      moreover have "\<exists>k \<ge> n. 200 * int k \<le> timeoutMs \<and> ?v k" using v True less.prems(2) by blast
      ultimately show ?thesis using v True by (simp add: loop r visible_def Let_def)
    next
      case nv: False
      have suc: "(\<exists>k \<ge> n. 200 * int k \<le> timeoutMs \<and> ?v k) \<longleftrightarrow> (\<exists>k \<ge> Suc n. 200 * int k \<le> timeoutMs \<and> ?v k)"
        using nv by (metis Suc_leD Suc_leI le_neq_implies_less)
      have least: "(\<lambda>k. k \<ge> n \<and> ?v k) = (\<lambda>k. k \<ge> Suc n \<and> ?v k)"
        using nv by (metis Suc_leD Suc_leI le_neq_implies_less)
      show ?thesis
      proof (cases "elapsed \<ge> timeoutMs")
        case True
        then have "\<not> (\<exists>k \<ge> Suc n. 200 * int k \<le> timeoutMs \<and> ?v k)" using less.prems(2) by force
        with True \<open>elapsed \<le> timeoutMs\<close> nv r suc show ?thesis by (simp add: loop visible_def Let_def)
      next
        case False
        with less.hyps[of "elapsed + kPollIntervalMs" c1 "Suc n"] less.prems(2) r(2)
        have "snd (waitLoop lib dev obs txt exact ic timeoutMs (Suc n) (elapsed + kPollIntervalMs) c1) =
          (if \<exists>k \<ge> Suc n. 200 * int k \<le> timeoutMs \<and> ?v k
           then Inr (findInBlocks (ocr_of lib (frames (LEAST k. k \<ge> Suc n \<and> ?v k))) txt exact ic)
           else Inl (not_appeared txt timeoutMs))"
          by (simp add: kPollIntervalMs_def)
        with False True nv r show ?thesis
          unfolding suc least by (simp add: loop visible_def Let_def)
      qed
    qed
  qed
qed


section \<open>Properties\<close>

text \<open>
  C18. The OCR cache is transparent: if among the frames of a session equal hashes mean equal OCR results,
  then after any sequence of OCR calls, on readable frames or not, OCR of a readable frame
  returns exactly what the recogniser returns for it, whether it comes from the cache or not.
\<close>

theorem ocr_cache_transparent:
  assumes "no_collision lib (insert img (frames_of history))" and "readable ob img"
  shows "\<exists>fromCache. snd (runOcr lib dev ob (runOcrs lib dev' history OcrCache_init))
    = Inr (ocr_of lib img, fromCache)"
  using runOcr_readable[OF runOcrs_sound[OF assms(1) cache_sound_init] assms] by (metis insertI1 snd_conv subset_insertI)

definition demo_image :: "nat \<Rightarrow> qimage" where
  "demo_image b = \<lparr>im_isNull = False, im_bits = [b], im_width = 1, im_height = 1\<rparr>"

definition demo_ob :: "nat \<Rightarrow> ocr_obs" where
  "demo_ob b = \<lparr>ob_engine = \<lparr>oe_handle = True, oe_modelDir = []\<rparr>, ob_attached = True,
     ob_frame = Some (demo_image b), ob_window = None\<rparr>"

text \<open>A library that reads the text \<open>OK\<close> on frame 1 and nothing on the others.\<close>

definition ok_lib :: ocr_lib where
  "ok_lib = demo_lib\<lparr>lib_detect := (\<lambda>im. Some (if im_bits im = [1] then [demo_raw] else [])),
     lib_md5hex := (\<lambda>bs. replicate (Suc (hd bs)) (CHR ''h''))\<rparr>"

lemma demo_no_collision: "no_collision ok_lib (range demo_image)"
  by (auto simp: no_collision_def computeFrameHash_def ok_lib_def demo_image_def replicate_eq_replicate)

lemma no_collision_mono: "no_collision lib F \<Longrightarrow> G \<subseteq> F \<Longrightarrow> no_collision lib G"
  unfolding no_collision_def by blast

lemma demo_readable [simp]: "readable (demo_ob b) img \<longleftrightarrow> img = demo_image b"
  by (auto simp: readable_def demo_ob_def demo_image_def)

theorem ocr_cache_transparent_witness:
  "\<exists>fromCache. snd (runOcr ok_lib ''d'' (demo_ob 1) (runOcrs ok_lib ''d'' [demo_ob 1, demo_ob 2] OcrCache_init))
    = Inr (ocr_of ok_lib (demo_image 1), fromCache)"
proof (rule ocr_cache_transparent)
  show "no_collision ok_lib (insert (demo_image 1) (frames_of [demo_ob 1, demo_ob 2]))"
    by (rule no_collision_mono[OF demo_no_collision]) (auto simp: frames_of_def)
qed simp

text \<open>
  Waiting for a text: the wait looks at the screen every 200 ms, first at once and last at the greatest
  multiple of 200 not above the timeout, and returns the block found at the first look that shows
  the text, or the timeout message if none of these looks does.
\<close>

theorem waitForText_polls:
  assumes "no_collision lib (frames_of history \<union> range frames)" and "\<forall>k. readable (obs k) (frames k)"
  shows "snd (waitForText lib dev obs txt exact ic timeoutMs (runOcrs lib dev history OcrCache_init)) =
    (if \<exists>k. 200 * int k \<le> timeoutMs \<and> visible lib txt exact ic (frames k)
     then Inr (findInBlocks (ocr_of lib (frames (LEAST k. visible lib txt exact ic (frames k)))) txt exact ic)
     else Inl (not_appeared txt timeoutMs))"
proof -
  have "cache_sound lib (frames_of history \<union> range frames) (runOcrs lib dev history OcrCache_init)"
    by (rule runOcrs_sound[OF assms(1) cache_sound_init]) simp
  from waitLoop_finds[where n = 0 and obs = obs and frames = frames and elapsed = 0, OF assms(1) _ _ this] assms(2)
  show ?thesis by (simp add: waitForText_def)
qed

theorem waitForText_polls_witness:
  "snd (waitForText ok_lib ''d'' (\<lambda>k. demo_ob (if k < 2 then 0 else 1)) ''ok'' False True 300
     (runOcrs ok_lib ''d'' [] OcrCache_init)) = Inl (not_appeared ''ok'' 300)"
proof -
  have nv: "\<not> visible ok_lib ''ok'' False True (demo_image 0)"
    by (simp add: visible_def findInBlocks_def ocr_of_def recognize_def ok_lib_def demo_image_def no_block_def)
  have "\<not> (\<exists>k. 200 * int k \<le> 300 \<and> visible ok_lib ''ok'' False True (demo_image (if k < 2 then 0 else 1)))"
  proof
    assume "\<exists>k. 200 * int k \<le> 300 \<and> visible ok_lib ''ok'' False True (demo_image (if k < 2 then 0 else 1))"
    then obtain k where "200 * int k \<le> 300" "visible ok_lib ''ok'' False True (demo_image (if k < 2 then 0 else 1))"
      by blast
    moreover from this(1) have "k < 2" by linarith
    ultimately show False using nv by simp
  qed
  moreover have "no_collision ok_lib (frames_of [] \<union> range (\<lambda>k::nat. demo_image (if k < 2 then 0 else 1)))"
    by (rule no_collision_mono[OF demo_no_collision]) (auto simp: frames_of_def)
  ultimately show ?thesis
    by (subst waitForText_polls[where frames = "\<lambda>k. demo_image (if k < 2 then 0 else 1)"]) simp_all
qed

text \<open>
  A failed recognition is remembered: if the detection fails once for a frame, later calls for the same
  frame return an empty result from the cache although the detection would succeed by then.
\<close>

theorem failed_ocr_is_cached:
  assumes "readable ob img" and "cache_inv c" and "lib_detect lib img = None"
    and "computeFrameHash lib img \<noteq> []" and "get (computeFrameHash lib img) c = None"
    and "lib_md5hex lib' = lib_md5hex lib"
  shows "snd (runOcr lib' dev ob (fst (runOcr lib dev ob c)))
    = Inr (no_result\<lparr>or_frameHash := computeFrameHash lib img\<rparr>, True)"
proof -
  let ?r = "no_result\<lparr>or_frameHash := computeFrameHash lib img\<rparr>"
  have "recognize lib img (ob_engine ob) = no_result" using assms(1,3) by (simp add: recognize_def)
  then have "fst (runOcr lib dev ob c) = put (computeFrameHash lib img) ?r c"
    using assms(1,5) by (simp add: runOcr_def readable_def isInitialized_def Let_def)
  moreover have "computeFrameHash lib' img = computeFrameHash lib img"
    using assms(6) by (simp add: computeFrameHash_def)
  moreover have "get (computeFrameHash lib img) (put (computeFrameHash lib img) ?r c) = Some ?r"
    using ocr_cache.lookup_store[OF assms(2,4)] .
  ultimately show ?thesis
    using assms(1) by (simp add: runOcr_def readable_def isInitialized_def Let_def)
qed

theorem failed_ocr_is_cached_witness:
  "snd (runOcr ok_lib ''d'' (demo_ob 1) (fst (runOcr (ok_lib\<lparr>lib_detect := (\<lambda>im. None)\<rparr>) ''d'' (demo_ob 1) OcrCache_init)))
    = Inr (no_result\<lparr>or_frameHash := ''hh''\<rparr>, True)"
  using failed_ocr_is_cached[of "demo_ob 1" "demo_image 1" OcrCache_init "ok_lib\<lparr>lib_detect := (\<lambda>im. None)\<rparr>" ok_lib "''d''"]
    cache_inv_init
  by (simp add: computeFrameHash_def demo_image_def ok_lib_def get_def OcrCache_init_def)

end
