(* ===== verification/VerificationService.thy ===== *)
theory VerificationService
  imports UiStateService
begin

text \<open>
  \<open>QuickDesk/src/api/VerificationService.cpp\<close>: checks of the screen contents by conditions, polled until
  they hold or a timeout, and the textual difference between two frames. The world is seen as in
  \<open>UiStateService\<close>, one \<open>ocr_obs\<close> per poll.
\<close>


section \<open>Data\<close>

record verification_condition =
  vc_type :: qstring
  vc_value :: qstring

record condition_result =
  cr_condition :: verification_condition
  cr_passed :: bool
  cr_actual :: qstring
  cr_reason :: qstring

record verification_result =
  vr_allPassed :: bool
  vr_timedOut :: bool
  vr_results :: "condition_result list"
  vr_summary :: qstring

record screen_diff =
  sd_fromHash :: qstring
  sd_toHash :: qstring
  sd_added :: "ocr_text_block list"
  sd_removed :: "ocr_text_block list"
  sd_hasChanges :: bool
  sd_summary :: qstring

definition new_result :: verification_result where
  "new_result = \<lparr>vr_allPassed = False, vr_timedOut = False, vr_results = [], vr_summary = []\<rparr>"

definition quoted :: "qstring \<Rightarrow> qstring" where
  "quoted s = [CHR 0x22] @ s @ [CHR 0x22]"


section \<open>OCR and conditions\<close>

definition vs_runOcr :: "ocr_lib \<Rightarrow> qstring \<Rightarrow> ocr_obs \<Rightarrow> cache \<Rightarrow> cache \<times> (qstring + ocr_result)" where
  "vs_runOcr lib deviceId ob c =
     (if \<not> isInitialized (ob_engine ob) then (c, Inl ''OCR engine not ready'')
      else if \<not> ob_attached ob then (c, Inl (''No video frame available for: '' @ deviceId))
      else case ob_frame ob of
             None \<Rightarrow> (c, Inl ''Failed to read video frame'')
           | Some img \<Rightarrow>
               if im_isNull img then (c, Inl ''Failed to convert frame to image'')
               else
                 let h = computeFrameHash lib img
                 in case get h c of
                      Some cached \<Rightarrow> (c, Inr cached)
                    | None \<Rightarrow>
                        let result = (recognize lib img (ob_engine ob))\<lparr>or_frameHash := h\<rparr>
                        in (put h result c, Inr result))"

fun first_block :: "(ocr_text_block \<Rightarrow> bool) \<Rightarrow> ocr_text_block list \<Rightarrow> ocr_text_block option" where
  "first_block hit [] = None"
| "first_block hit (blk # blks) = (if hit blk then Some blk else first_block hit blks)"

definition evaluate :: "verification_condition \<Rightarrow> ocr_result \<Rightarrow> qstring \<Rightarrow> condition_result" where
  "evaluate cond ocr windowTitle =
     (let type = vc_type cond; value = vc_value cond;
          r = \<lparr>cr_condition = cond, cr_passed = False, cr_actual = [], cr_reason = []\<rparr>;
          containing = first_block (\<lambda>blk. contains_cs True (tb_text blk) value) (or_blocks ocr);
          equal = first_block (\<lambda>blk. equals_cs False (tb_text blk) value) (or_blocks ocr)
      in if type = ''text_present''
         then (case containing of
                 Some blk \<Rightarrow> r\<lparr>cr_passed := True, cr_actual := tb_text blk,
                    cr_reason := ''Found '' @ quoted value @ '' in block '' @ quoted (tb_text blk)\<rparr>
               | None \<Rightarrow> r\<lparr>cr_reason := ''Text '' @ quoted value @ '' not found on screen''\<rparr>)
         else if type = ''text_absent''
         then (case containing of
                 Some blk \<Rightarrow> r\<lparr>cr_actual := tb_text blk,
                    cr_reason := ''Text '' @ quoted value @ '' is still present: '' @ quoted (tb_text blk)\<rparr>
               | None \<Rightarrow> r\<lparr>cr_passed := True,
                    cr_reason := ''Text '' @ quoted value @ '' is absent (as expected)''\<rparr>)
         else if type = ''text_present_exact''
         then (case equal of
                 Some blk \<Rightarrow> r\<lparr>cr_passed := True, cr_actual := tb_text blk,
                    cr_reason := ''Exact match '' @ quoted value @ '' found''\<rparr>
               | None \<Rightarrow> r\<lparr>cr_reason := ''Exact text '' @ quoted value @ '' not found on screen''\<rparr>)
         else if type = ''window_title_contains''
         then (if contains_cs True windowTitle value
               then r\<lparr>cr_passed := True, cr_actual := windowTitle,
                      cr_reason := ''Window title '' @ quoted windowTitle @ '' contains '' @ quoted value\<rparr>
               else r\<lparr>cr_actual := windowTitle,
                      cr_reason := ''Window title '' @ quoted windowTitle @ '' does not contain '' @ quoted value\<rparr>)
         else if type = ''window_title_equals''
         then (if equals_cs False windowTitle value
               then r\<lparr>cr_passed := True, cr_actual := windowTitle,
                      cr_reason := ''Window title matches '' @ quoted value\<rparr>
               else r\<lparr>cr_actual := windowTitle,
                      cr_reason := ''Window title is '' @ quoted windowTitle @ '', expected '' @ quoted value\<rparr>)
         else r\<lparr>cr_reason := ''Unknown condition type: '' @ quoted type\<rparr>)"

definition evaluate_all :: "verification_condition list \<Rightarrow> ocr_result \<Rightarrow> qstring \<Rightarrow> condition_result list" where
  "evaluate_all conditions ocr title = map (\<lambda>cond. evaluate cond ocr title) conditions"

definition failures :: "condition_result list \<Rightarrow> qstring" where
  "failures rs = join (map cr_reason (filter (\<lambda>r. \<not> cr_passed r) rs)) ''; ''"

text \<open>The loop of \<open>verifyActionResult\<close> at its \<open>n\<close>-th poll.\<close>

function verifyLoop ::
    "ocr_lib \<Rightarrow> qstring \<Rightarrow> (nat \<Rightarrow> ocr_obs) \<Rightarrow> verification_condition list \<Rightarrow> int \<Rightarrow> nat \<Rightarrow> int
       \<Rightarrow> verification_result \<Rightarrow> cache \<Rightarrow> cache \<times> verification_result" where
  "verifyLoop lib dev obs conditions timeoutMs n elapsed vr c =
     (case vs_runOcr lib dev (obs n) c of
        (c1, Inl err) \<Rightarrow> (c1, vr\<lparr>vr_summary := ''OCR error: '' @ err\<rparr>)
      | (c1, Inr ocr) \<Rightarrow>
          let rs = evaluate_all conditions ocr (activeWindowTitle (ob_window (obs n)));
              vr1 = vr\<lparr>vr_results := rs\<rparr>
          in if \<forall>r \<in> set rs. cr_passed r
             then (c1, vr1\<lparr>vr_allPassed := True,
                     vr_summary := ''All '' @ string_of_nat (length conditions) @ '' condition(s) passed''\<rparr>)
             else if elapsed \<ge> timeoutMs
             then (c1, vr1\<lparr>vr_timedOut := False, vr_summary := ''Verification failed: '' @ failures rs\<rparr>)
             else verifyLoop lib dev obs conditions timeoutMs (Suc n) (elapsed + kPollIntervalMs) vr1 c1)"
  by pat_completeness auto
termination
  by (relation "measure (\<lambda>(lib, dev, obs, conds, timeoutMs, n, elapsed, vr, c). nat (timeoutMs - elapsed))")
     (auto simp: kPollIntervalMs_def)

declare verifyLoop.simps [simp del]

definition verifyActionResult ::
    "ocr_lib \<Rightarrow> qstring \<Rightarrow> (nat \<Rightarrow> ocr_obs) \<Rightarrow> verification_condition list \<Rightarrow> int \<Rightarrow> cache
       \<Rightarrow> cache \<times> verification_result" where
  "verifyActionResult lib dev obs conditions timeoutMs c =
     verifyLoop lib dev obs conditions timeoutMs 0 0 new_result c"

definition assertScreenState ::
    "ocr_lib \<Rightarrow> qstring \<Rightarrow> ocr_obs \<Rightarrow> verification_condition list \<Rightarrow> cache \<Rightarrow> cache \<times> verification_result" where
  "assertScreenState lib dev ob conditions c =
     (case vs_runOcr lib dev ob c of
        (c1, Inl err) \<Rightarrow> (c1, new_result\<lparr>vr_summary := ''OCR error: '' @ err\<rparr>)
      | (c1, Inr ocr) \<Rightarrow>
          let rs = evaluate_all conditions ocr (activeWindowTitle (ob_window ob));
              allPass = (\<forall>r \<in> set rs. cr_passed r)
          in (c1, new_result\<lparr>vr_results := rs, vr_allPassed := allPass,
                vr_summary := (if allPass
                  then ''All '' @ string_of_nat (length conditions) @ '' condition(s) satisfied''
                  else ''Assertion failed: '' @ failures rs)\<rparr>))"


section \<open>Screen differences\<close>

definition diff_summary :: "ocr_text_block list \<Rightarrow> ocr_text_block list \<Rightarrow> qstring" where
  "diff_summary added removed =
     (let texts = (\<lambda>bs. join (map (\<lambda>b. quoted (tb_text b)) bs) '', '')
      in join ((if added \<noteq> [] then [''appeared: '' @ texts added] else []) @
               (if removed \<noteq> [] then [''disappeared: '' @ texts removed] else [])) ''; '')"

definition screenDiffSummary ::
    "ocr_lib \<Rightarrow> qstring \<Rightarrow> ocr_obs \<Rightarrow> qstring \<Rightarrow> cache \<Rightarrow> cache \<times> screen_diff \<times> qstring" where
  "screenDiffSummary lib dev ob fromHash c =
     (let diff = \<lparr>sd_fromHash = fromHash, sd_toHash = [], sd_added = [], sd_removed = [],
                  sd_hasChanges = False, sd_summary = []\<rparr>
      in case vs_runOcr lib dev ob c of
           (c1, Inl err) \<Rightarrow> (c1, diff, err)
         | (c1, Inr toOcr) \<Rightarrow>
             let diff1 = diff\<lparr>sd_toHash := or_frameHash toOcr\<rparr>
             in if sd_fromHash diff1 = sd_toHash diff1
                then (c1, diff1\<lparr>sd_summary := ''No screen change detected (same frame)''\<rparr>, [])
                else case (if fromHash \<noteq> [] then get fromHash c1 else None) of
                  None \<Rightarrow>
                    (c1, diff1\<lparr>sd_added := or_blocks toOcr, sd_hasChanges := True,
                       sd_summary := qarg (qarg (''No baseline available for hash '' @ quoted ''%1'' @
                         ''; current frame has %2 text block(s)'') fromHash)
                         (string_of_nat (length (or_blocks toOcr)))\<rparr>, [])
                | Some fromOcr \<Rightarrow>
                    let fromTexts = map tb_text (or_blocks fromOcr);
                        toTexts = map tb_text (or_blocks toOcr);
                        added = filter (\<lambda>b. tb_text b \<notin> set fromTexts) (or_blocks toOcr);
                        removed = filter (\<lambda>b. tb_text b \<notin> set toTexts) (or_blocks fromOcr);
                        changes = (added \<noteq> [] \<or> removed \<noteq> [])
                    in (c1, diff1\<lparr>sd_added := added, sd_removed := removed, sd_hasChanges := changes,
                          sd_summary := (if \<not> changes
                            then ''Screen text content unchanged (same text blocks, possibly repositioned)''
                            else diff_summary added removed)\<rparr>, []))"


section \<open>JSON\<close>

definition conditionFromJson :: "jobject \<Rightarrow> verification_condition" where
  "conditionFromJson ob = \<lparr>vc_type = toString (oget ob ''type''), vc_value = toString (oget ob ''value'')\<rparr>"

definition conditionResultToJson :: "condition_result \<Rightarrow> jobject" where
  "conditionResultToJson r =
     mkobj [(''type'', JStr (vc_type (cr_condition r))), (''value'', JStr (vc_value (cr_condition r))),
       (''passed'', JBool (cr_passed r)), (''actual'', JStr (cr_actual r)), (''reason'', JStr (cr_reason r))]"

definition verificationResultToJson :: "verification_result \<Rightarrow> jobject" where
  "verificationResultToJson vr =
     mkobj [(''allPassed'', JBool (vr_allPassed vr)), (''timedOut'', JBool (vr_timedOut vr)),
       (''results'', JArr (map (\<lambda>r. JObj (conditionResultToJson r)) (vr_results vr))),
       (''summary'', JStr (vr_summary vr))]"

definition screenDiffToJson :: "screen_diff \<Rightarrow> jobject" where
  "screenDiffToJson d =
     mkobj [(''fromHash'', JStr (sd_fromHash d)), (''toHash'', JStr (sd_toHash d)),
       (''hasChanges'', JBool (sd_hasChanges d)),
       (''added'', JArr (map (\<lambda>b. JObj (ocrBlockToJson b)) (sd_added d))),
       (''removed'', JArr (map (\<lambda>b. JObj (ocrBlockToJson b)) (sd_removed d))),
       (''summary'', JStr (sd_summary d))]"


section \<open>Polling\<close>

lemma vs_runOcr_eq:
  "runOcr lib dev ob c = (c', Inr (r, fc)) \<Longrightarrow> vs_runOcr lib dev ob c = (c', Inr r)"
  by (auto simp: runOcr_def vs_runOcr_def Let_def split: if_splits option.splits)

text \<open>The conditions hold on the \<open>k\<close>-th look.\<close>

definition holds :: "ocr_lib \<Rightarrow> verification_condition list \<Rightarrow> ocr_obs \<Rightarrow> qimage \<Rightarrow> bool" where
  "holds lib conds ob img \<longleftrightarrow>
     (\<forall>r \<in> set (evaluate_all conds (ocr_of lib img) (activeWindowTitle (ob_window ob))). cr_passed r)"

lemma verifyLoop_polls:
  assumes nc: "no_collision lib F" and obs: "\<And>k. readable (obs k) (frames k)" and F: "\<And>k. frames k \<in> F"
  shows "cache_sound lib F c \<Longrightarrow> elapsed = 200 * int n \<Longrightarrow> \<not> vr_allPassed vr \<Longrightarrow> \<not> vr_timedOut vr \<Longrightarrow>
    (vr_allPassed (snd (verifyLoop lib dev obs conds timeoutMs n elapsed vr c)) \<longleftrightarrow>
      (\<exists>k \<ge> n. (k = n \<or> 200 * (int k - 1) < timeoutMs) \<and> holds lib conds (obs k) (frames k)))
    \<and> \<not> vr_timedOut (snd (verifyLoop lib dev obs conds timeoutMs n elapsed vr c))"
proof (induction "nat (timeoutMs - elapsed)" arbitrary: n elapsed vr c rule: less_induct)
  case less
  let ?h = "\<lambda>k. holds lib conds (obs k) (frames k)"
  note loop = verifyLoop.simps[where n = n and elapsed = elapsed and c = c and vr = vr]
  obtain c1 where r: "vs_runOcr lib dev (obs n) c = (c1, Inr (ocr_of lib (frames n)))" "cache_sound lib F c1"
    using runOcr_readable[OF less.prems(1) nc obs F, of dev n] vs_runOcr_eq by blast
  let ?vr = "vr\<lparr>vr_results := evaluate_all conds (ocr_of lib (frames n)) (activeWindowTitle (ob_window (obs n)))\<rparr>"
  let ?next = "verifyLoop lib dev obs conds timeoutMs (Suc n) (elapsed + kPollIntervalMs) ?vr c1"
  have step: "verifyLoop lib dev obs conds timeoutMs n elapsed vr c =
    (if ?h n then (c1, ?vr\<lparr>vr_allPassed := True,
        vr_summary := ''All '' @ string_of_nat (length conds) @ '' condition(s) passed''\<rparr>)
     else if timeoutMs \<le> elapsed
     then (c1, ?vr\<lparr>vr_timedOut := False, vr_summary := ''Verification failed: '' @ failures (vr_results ?vr)\<rparr>)
     else ?next)"
    by (subst loop) (simp add: r holds_def Let_def)
  show ?case
  proof (cases "?h n")
    case True
    then show ?thesis using less.prems(4) by (auto simp: step)
  next
    case nh: False
    show ?thesis
    proof (cases "elapsed \<ge> timeoutMs")
      case True
      have "\<not> (\<exists>k \<ge> n. (k = n \<or> 200 * (int k - 1) < timeoutMs) \<and> ?h k)"
      proof
        assume "\<exists>k \<ge> n. (k = n \<or> 200 * (int k - 1) < timeoutMs) \<and> ?h k"
        then obtain k where k: "k \<ge> n" "k = n \<or> 200 * (int k - 1) < timeoutMs" "?h k" by blast
        with nh have "k > n" by (metis le_neq_implies_less)
        with k True less.prems(2) show False by auto
      qed
      with True nh less.prems(3) show ?thesis by (simp add: step)
    next
      case False
      have IH: "(vr_allPassed (snd ?next) \<longleftrightarrow>
          (\<exists>k \<ge> Suc n. (k = Suc n \<or> 200 * (int k - 1) < timeoutMs) \<and> ?h k)) \<and> \<not> vr_timedOut (snd ?next)"
        using less.hyps[of "elapsed + kPollIntervalMs" c1 "Suc n" ?vr] less.prems False r(2)
        by (simp add: kPollIntervalMs_def)
      have "(\<exists>k \<ge> n. (k = n \<or> 200 * (int k - 1) < timeoutMs) \<and> ?h k) \<longleftrightarrow>
        (\<exists>k \<ge> Suc n. (k = Suc n \<or> 200 * (int k - 1) < timeoutMs) \<and> ?h k)"
        using nh False less.prems(2) by (metis Suc_leD Suc_leI add_diff_cancel_left' le_neq_implies_less
            not_le of_nat_Suc)
      with IH nh False show ?thesis by (simp add: step)
    qed
  qed
qed


section \<open>Facts on the searches\<close>

lemma first_block_None: "first_block hit bs = None \<longleftrightarrow> (\<forall>b \<in> set bs. \<not> hit b)"
  by (induction bs) auto

lemma first_block_Some: "first_block hit bs = Some b \<Longrightarrow> b \<in> set bs \<and> hit b"
  by (induction bs) (auto split: if_splits)


section \<open>Properties\<close>

text \<open>
  Verification by polling: with readable frames, \<open>verifyActionResult\<close> succeeds exactly if all conditions
  hold on one of its looks, which it takes at once and then every 200 ms until one at or after
  the timeout; it always returns, and never reports \<open>timedOut\<close>.
\<close>

theorem verifyActionResult_polls:
  assumes "no_collision lib (frames_of history \<union> range frames)" and "\<forall>k. readable (obs k) (frames k)"
  shows "(vr_allPassed (snd (verifyActionResult lib dev obs conds timeoutMs (runOcrs lib dev history OcrCache_init)))
      \<longleftrightarrow> (\<exists>k. (k = 0 \<or> 200 * (int k - 1) < timeoutMs) \<and> holds lib conds (obs k) (frames k)))
    \<and> \<not> vr_timedOut (snd (verifyActionResult lib dev obs conds timeoutMs (runOcrs lib dev history OcrCache_init)))"
proof -
  have "cache_sound lib (frames_of history \<union> range frames) (runOcrs lib dev history OcrCache_init)"
    by (rule runOcrs_sound[OF assms(1) cache_sound_init]) simp
  from verifyLoop_polls[where n = 0 and elapsed = 0 and obs = obs and frames = frames and vr = new_result,
      OF assms(1) _ _ this] assms(2) show ?thesis
    by (simp add: verifyActionResult_def new_result_def)
qed

definition demo_absent :: verification_condition where
  "demo_absent = \<lparr>vc_type = ''text_absent'', vc_value = ''OK''\<rparr>"

theorem verifyActionResult_polls_witness:
  "vr_allPassed (snd (verifyActionResult ok_lib ''d'' (\<lambda>k. demo_ob 0) [demo_absent] 300
     (runOcrs ok_lib ''d'' [] OcrCache_init)))"
proof -
  have "holds ok_lib [demo_absent] (demo_ob 0) (demo_image 0)"
    by (simp add: holds_def evaluate_all_def evaluate_def demo_absent_def ocr_of_def recognize_def ok_lib_def
        demo_image_def no_result_def Let_def)
  moreover have "no_collision ok_lib (frames_of [] \<union> range (\<lambda>k::nat. demo_image 0))"
    by (rule no_collision_mono[OF demo_no_collision]) (auto simp: frames_of_def)
  ultimately show ?thesis
    using verifyActionResult_polls[of ok_lib "[]" "\<lambda>k. demo_image 0" "\<lambda>k. demo_ob 0" "''d''" "[demo_absent]" 300]
    by auto
qed

text \<open>
  Presence and absence are complementary: on the same screen \<open>text_present\<close> passes exactly when
  \<open>text_absent\<close> fails, and \<open>text_present\<close> passes exactly when some recognised block contains the text,
  ignoring case.
\<close>

theorem evaluate_present_absent:
  "cr_passed (evaluate \<lparr>vc_type = ''text_present'', vc_value = v\<rparr> ocr title)
     = (\<not> cr_passed (evaluate \<lparr>vc_type = ''text_absent'', vc_value = v\<rparr> ocr title))
   \<and> cr_passed (evaluate \<lparr>vc_type = ''text_present'', vc_value = v\<rparr> ocr title)
     = (\<exists>b \<in> set (or_blocks ocr). contains_cs True (tb_text b) v)"
  using first_block_None[of "\<lambda>b. contains_cs True (tb_text b) v" "or_blocks ocr"]
  by (auto simp: evaluate_def Let_def split: option.split)

text \<open>
  A window title never equals what the user types: on Windows the title carries the buffer's
  terminator, so \<open>window_title_equals\<close> fails for every non-empty window title and every value without a
  NUL character, also when the value is the title of the window.
\<close>

theorem window_title_equals_fails:
  assumes "0 < len" and "CHR 0x00 \<notin> set v"
  shows "\<not> cr_passed (evaluate \<lparr>vc_type = ''window_title_equals'', vc_value = v\<rparr> ocr
    (activeWindowTitle (Some (len, title))))"
proof -
  have "CHR 0x00 \<in> set (activeWindowTitle (Some (len, title)))"
    using assms(1) by (simp add: activeWindowTitle_def)
  then have "activeWindowTitle (Some (len, title)) \<noteq> v" using assms(2) by blast
  then show ?thesis by (simp add: evaluate_def Let_def equals_cs_def fold_case_def)
qed

theorem window_title_equals_fails_witness:
  "\<not> cr_passed (evaluate \<lparr>vc_type = ''window_title_equals'', vc_value = ''Notepad''\<rparr> no_result
    (activeWindowTitle (Some (7, ''Notepad''))))"
  by (rule window_title_equals_fails) simp_all

text \<open>
  Screen difference: when the baseline frame is still cached and another frame is shown, the
  difference reports changes exactly if the sets of texts on the two frames differ; the added
  blocks are those whose text is new, the removed ones those whose text is gone.
\<close>

theorem screenDiff_texts:
  assumes "vs_runOcr lib dev ob c = (c', Inr toOcr)" and "fromHash \<noteq> []" and "fromHash \<noteq> or_frameHash toOcr"
    and "get fromHash c' = Some fromOcr"
  shows "sd_hasChanges (fst (snd (screenDiffSummary lib dev ob fromHash c)))
      = (tb_text ` set (or_blocks fromOcr) \<noteq> tb_text ` set (or_blocks toOcr))
    \<and> tb_text ` set (sd_added (fst (snd (screenDiffSummary lib dev ob fromHash c))))
      = tb_text ` set (or_blocks toOcr) - tb_text ` set (or_blocks fromOcr)
    \<and> tb_text ` set (sd_removed (fst (snd (screenDiffSummary lib dev ob fromHash c))))
      = tb_text ` set (or_blocks fromOcr) - tb_text ` set (or_blocks toOcr)"
proof -
  let ?d = "fst (snd (screenDiffSummary lib dev ob fromHash c))"
  have d: "sd_added ?d = filter (\<lambda>b. tb_text b \<notin> tb_text ` set (or_blocks fromOcr)) (or_blocks toOcr)"
    "sd_removed ?d = filter (\<lambda>b. tb_text b \<notin> tb_text ` set (or_blocks toOcr)) (or_blocks fromOcr)"
    "sd_hasChanges ?d = (sd_added ?d \<noteq> [] \<or> sd_removed ?d \<noteq> [])"
    using assms by (simp_all add: screenDiffSummary_def Let_def)
  have sets: "tb_text ` set (sd_added ?d) = tb_text ` set (or_blocks toOcr) - tb_text ` set (or_blocks fromOcr)"
    "tb_text ` set (sd_removed ?d) = tb_text ` set (or_blocks fromOcr) - tb_text ` set (or_blocks toOcr)"
    unfolding d(1,2) by auto
  have "sd_hasChanges ?d \<longleftrightarrow> tb_text ` set (sd_added ?d) \<noteq> {} \<or> tb_text ` set (sd_removed ?d) \<noteq> {}"
    unfolding d(3) by simp
  then have "sd_hasChanges ?d \<longleftrightarrow> tb_text ` set (or_blocks fromOcr) \<noteq> tb_text ` set (or_blocks toOcr)"
    unfolding sets by blast
  with sets show ?thesis by blast
qed

definition demo_baseline :: cache where
  "demo_baseline = put ''base'' (no_result\<lparr>or_blocks := [no_block\<lparr>tb_text := ''Login''\<rparr>]\<rparr>) OcrCache_init"

theorem screenDiff_texts_witness:
  "sd_hasChanges (fst (snd (screenDiffSummary ok_lib ''d'' (demo_ob 0) ''base'' demo_baseline)))"
proof -
  let ?r = "no_result\<lparr>or_imageSize := (1, 1), or_frameHash := ''h''\<rparr>"
  have "vs_runOcr ok_lib ''d'' (demo_ob 0) demo_baseline = (put ''h'' ?r demo_baseline, Inr ?r)"
    by (simp add: vs_runOcr_def demo_ob_def demo_image_def isInitialized_def Let_def computeFrameHash_def ok_lib_def
        recognize_def no_result_def demo_baseline_def put_def get_def OcrCache_init_def qm_contains_def)
  moreover have "get ''base'' (put ''h'' ?r demo_baseline) = Some (no_result\<lparr>or_blocks := [no_block\<lparr>tb_text := ''Login''\<rparr>]\<rparr>)"
    by (simp add: demo_baseline_def put_def get_def OcrCache_init_def qm_contains_def MAX_ENTRIES_def)
  ultimately show ?thesis
    using screenDiff_texts[of ok_lib "''d''" "demo_ob 0" demo_baseline "put ''h'' ?r demo_baseline" ?r "''base''"]
    by (simp add: no_result_def)
qed

end
