(* ===== verification/ProcessManager.thy ===== *)
theory ProcessManager
  imports NativeMessaging
begin

text \<open>
  \<open>QuickDesk/src/manager/ProcessManager.cpp\<close> (Windows build): supervision of the host and the client
  process. A process is started, observed through the signals of its \<open>QProcess\<close>, restarted with
  exponential back-off when it fails, and stopped in phases. The host may instead run in a service,
  reached through two named pipes; if the service cannot be reached it is run as a child process.

  The two supervised processes have the same fields and the same handlers for \<open>finished\<close> and
  \<open>errorOccurred\<close>, written twice in the source; they are one record \<open>sup\<close> and one definition each here,
  with the process name as argument. What the system answers during a call (does the executable
  exist, is the service running) is part of the input. \<open>pm_exec\<close> is one delivery of the event loop:
  a public call, a signal of a process or socket that exists, or a timer that is armed.
\<close>


section \<open>Data\<close>

datatype process_status = NotStarted | Starting | Running | Failed | Restarting

datatype launch_mode = UnknownMode | ServiceMode | ChildProcessMode

datatype exit_status = NormalExit | CrashExit

record sup =
  sp_process :: "process_state option"
  sp_messaging :: bool
  sp_exePath :: qstring
  sp_autoRestart :: bool
  sp_restartCount :: int
  sp_stoppingIntentionally :: bool
  sp_restartTimer :: "int option"
  sp_status :: process_status
  sp_escalation :: "nat list" \<comment> \<open>single-shot timers of a stop in progress: 0 will terminate, 1 will kill\<close>

record process_manager =
  pm_host :: sup
  pm_client :: sup
  pm_logDir :: qstring
  pm_configDir :: qstring
  pm_readSocket :: "socket_state option"
  pm_writeSocket :: "socket_state option"
  pm_serviceConnecting :: bool
  pm_pipeConnectTimer :: bool
  pm_postedPipeErrors :: nat \<comment> \<open>\<open>singleShot(0)\<close> calls of \<open>onServicePipeError\<close> not yet run\<close>
  pm_launchMode :: launch_mode

datatype which = Host | Client

datatype pm_event =
    processStarted which
  | processStopped which int
  | processError which qstring
  | processRestarting which int int
  | autoRestartChanged which
  | statusChanged which
  | launchModeChanged
  | spawn which qstring "qstring list" qstring \<comment> \<open>program, arguments, working directory\<close>
  | connectPipe qstring
  | closeWriteChannel which
  | terminateProcess which
  | killProcess which

text \<open>What the system answers while a call runs.\<close>

record sys =
  sy_executable :: "qstring \<Rightarrow> bool"
  sy_absolutePath :: "qstring \<Rightarrow> qstring"
  sy_absoluteFilePath :: "qstring \<Rightarrow> qstring"
  sy_serviceRunning :: bool
  sy_sessionId :: nat
  sy_appDir :: qstring

definition MAX_RESTART_ATTEMPTS :: int where
  "MAX_RESTART_ATTEMPTS = 5"

definition BASE_RESTART_DELAY_MS :: int where
  "BASE_RESTART_DELAY_MS = 2000"

definition new_sup :: sup where
  "new_sup = \<lparr>sp_process = None, sp_messaging = False, sp_exePath = [], sp_autoRestart = True,
     sp_restartCount = 0, sp_stoppingIntentionally = False, sp_restartTimer = None,
     sp_status = NotStarted, sp_escalation = []\<rparr>"

definition ProcessManager_init :: process_manager where
  "ProcessManager_init = \<lparr>pm_host = new_sup, pm_client = new_sup, pm_logDir = [], pm_configDir = [],
     pm_readSocket = None, pm_writeSocket = None, pm_serviceConnecting = False,
     pm_pipeConnectTimer = False, pm_postedPipeErrors = 0, pm_launchMode = UnknownMode\<rparr>"

definition process_name :: "which \<Rightarrow> qstring" where
  "process_name w = (case w of Host \<Rightarrow> ''Host'' | Client \<Rightarrow> ''Client'')"


section \<open>One supervised process\<close>

text \<open>The product is a 32-bit \<open>int\<close>; the callers pass 1 to 5, where it is exact.\<close>

definition calculateRestartDelay :: "int \<Rightarrow> int" where
  "calculateRestartDelay retryCount = min (BASE_RESTART_DELAY_MS * 2 ^ nat (retryCount - 1)) 32000"

definition setProcessStatus :: "which \<Rightarrow> process_status \<Rightarrow> sup \<Rightarrow> sup \<times> pm_event list" where
  "setProcessStatus w st s = (if sp_status s \<noteq> st then (s\<lparr>sp_status := st\<rparr>, [statusChanged w]) else (s, []))"

definition resetProcess :: "sup \<Rightarrow> sup" where
  "resetProcess s = s\<lparr>sp_process := None, sp_escalation := []\<rparr>"

text \<open>The counted retry that \<open>finished\<close> and \<open>errorOccurred\<close> share.\<close>

definition scheduleRestart :: "which \<Rightarrow> sup \<Rightarrow> sup \<times> pm_event list" where
  "scheduleRestart w s =
     (let n = sp_restartCount s + 1;
          (s1, ev) = setProcessStatus w Restarting (s\<lparr>sp_restartCount := n\<rparr>)
      in (s1\<lparr>sp_restartTimer := Some (calculateRestartDelay n)\<rparr>,
          ev @ [processRestarting w n MAX_RESTART_ATTEMPTS]))"

definition onProcessFinished :: "which \<Rightarrow> int \<Rightarrow> exit_status \<Rightarrow> sup \<Rightarrow> sup \<times> pm_event list" where
  "onProcessFinished w exitCode status s =
     (let s0 = s\<lparr>sp_messaging := False\<rparr>;
          isAbnormalExit = (status = CrashExit \<or> exitCode \<noteq> 0);
          (s1, ev) =
            (if sp_stoppingIntentionally s0
             then setProcessStatus w NotStarted
                    ((resetProcess s0)\<lparr>sp_stoppingIntentionally := False, sp_restartCount := 0\<rparr>)
             else if \<not> sp_autoRestart s0 then setProcessStatus w NotStarted s0
             else if \<not> isAbnormalExit then setProcessStatus w NotStarted s0
             else if sp_restartCount s0 \<ge> MAX_RESTART_ATTEMPTS
             then (let (s2, ev2) = setProcessStatus w Failed s0
                   in (s2, ev2 @ [processError w (process_name w @ '' process crashed '' @
                         string_of_int MAX_RESTART_ATTEMPTS @ '' times, giving up'')]))
             else scheduleRestart w s0)
      in (s1, processStopped w exitCode # ev))"

definition onProcessErrorOccurred :: "which \<Rightarrow> process_error \<Rightarrow> qstring \<Rightarrow> sup \<Rightarrow> sup \<times> pm_event list" where
  "onProcessErrorOccurred w error errorText s =
     (let errorString = (if sp_process s \<noteq> None then errorText else ''Unknown error'')
      in if error = FailedToStart
         then
           let (s1, ev) =
             (if sp_autoRestart s \<and> \<not> sp_stoppingIntentionally s
              then if sp_restartCount s < MAX_RESTART_ATTEMPTS then scheduleRestart w s
                   else (let (s2, ev2) = setProcessStatus w Failed s
                         in (s2, ev2 @ [processError w (''Failed to start '' @ process_name w @
                               '' after multiple attempts'')]))
              else setProcessStatus w NotStarted s)
           in (s1, processError w (''Failed to start '' @ process_name w @ '' process: '' @ errorString) # ev)
         else if error = Crashed then (s, [])
         else (s, [processError w (process_name w @ '' process error: '' @ errorString)]))"

text \<open>\<open>Inl\<close> is the error of a missing executable, \<open>Inr\<close> the process handed to the system.\<close>

definition startProcess :: "sys \<Rightarrow> which \<Rightarrow> qstring \<Rightarrow> qstring \<Rightarrow> qstring \<Rightarrow> pm_event + pm_event" where
  "startProcess sy w exePath logDir configDir =
     (if \<not> sy_executable sy exePath
      then Inl (processError w (process_name w @ '' executable not found or not executable: '' @ exePath))
      else Inr (spawn w exePath
                  ((if logDir \<noteq> [] then [''--log-dir='' @ logDir] else []) @
                   (if configDir \<noteq> [] then [''--config-dir='' @ configDir] else []))
                  (sy_absolutePath sy exePath)))"

text \<open>A new \<open>QProcess\<close> (its signals replace those of an old one) and \<open>startProcess\<close>.\<close>

definition launch :: "sys \<Rightarrow> which \<Rightarrow> qstring \<Rightarrow> qstring \<Rightarrow> sup \<Rightarrow> sup \<times> pm_event list \<times> bool" where
  "launch sy w logDir configDir s =
     (case startProcess sy w (sp_exePath s) logDir configDir of
        Inl err \<Rightarrow> (let (s1, ev) = setProcessStatus w NotStarted (resetProcess s) in (s1, err # ev, False))
      | Inr sp \<Rightarrow> ((resetProcess s)\<lparr>sp_process := Some PStarting\<rparr>, [sp], True))"

text \<open>The stop of a process that is not running, and the start of a phased stop.\<close>

definition stopIdle :: "which \<Rightarrow> sup \<Rightarrow> sup \<times> pm_event list" where
  "stopIdle w s = setProcessStatus w NotStarted ((resetProcess s)\<lparr>sp_messaging := False, sp_restartCount := 0\<rparr>)"

definition stopSup :: "which \<Rightarrow> sup \<Rightarrow> sup \<times> pm_event list" where
  "stopSup w s =
     (if sp_process s = None \<or> sp_process s = Some PNotRunning then stopIdle w s
      else (s\<lparr>sp_escalation := sp_escalation s @ [0]\<rparr>, [closeWriteChannel w]))"

text \<open>A timer of a stop in progress fires: terminate, three (two) seconds later kill.\<close>

definition escalate :: "which \<Rightarrow> nat \<Rightarrow> sup \<Rightarrow> sup \<times> pm_event list" where
  "escalate w i s =
     (let stage = sp_escalation s ! i; s1 = s\<lparr>sp_escalation := remove_at i (sp_escalation s)\<rparr>
      in if sp_process s = Some PNotRunning then (s1, [])
         else if stage = 0 then (s1\<lparr>sp_escalation := sp_escalation s1 @ [1]\<rparr>, [terminateProcess w])
         else (s1, [killProcess w]))"


section \<open>The client process\<close>

definition upd_client :: "(sup \<Rightarrow> sup \<times> pm_event list) \<Rightarrow> process_manager \<Rightarrow> process_manager \<times> pm_event list" where
  "upd_client f pm = (let (s, ev) = f (pm_client pm) in (pm\<lparr>pm_client := s\<rparr>, ev))"

definition isClientRunning :: "process_manager \<Rightarrow> bool" where
  "isClientRunning pm \<longleftrightarrow> sp_process (pm_client pm) = Some PRunning"

definition startClientProcess :: "sys \<Rightarrow> process_manager \<Rightarrow> process_manager \<times> pm_event list \<times> bool" where
  "startClientProcess sy pm =
     (if isClientRunning pm then (pm, [], True)
      else if sp_exePath (pm_client pm) = []
      then (pm, [processError Client ''Client executable path not set''], False)
      else
        let (s1, ev1) = setProcessStatus Client Starting (pm_client pm);
            (s2, ev2, ok) = launch sy Client (pm_logDir pm) (pm_configDir pm) s1
        in (pm\<lparr>pm_client := s2\<rparr>, ev1 @ ev2, ok))"

definition stopClientProcess :: "process_manager \<Rightarrow> process_manager \<times> pm_event list" where
  "stopClientProcess pm =
     upd_client (\<lambda>s. stopSup Client (s\<lparr>sp_restartTimer := None, sp_stoppingIntentionally := True\<rparr>)) pm"

definition onClientProcessFinished :: "int \<Rightarrow> exit_status \<Rightarrow> process_manager \<Rightarrow> process_manager \<times> pm_event list" where
  "onClientProcessFinished exitCode status pm = upd_client (onProcessFinished Client exitCode status) pm"

definition onClientProcessErrorOccurred :: "process_error \<Rightarrow> qstring \<Rightarrow> process_manager \<Rightarrow> process_manager \<times> pm_event list" where
  "onClientProcessErrorOccurred error errorText pm = upd_client (onProcessErrorOccurred Client error errorText) pm"

definition onClientProcessStarted :: "process_manager \<Rightarrow> process_manager \<times> pm_event list" where
  "onClientProcessStarted pm =
     upd_client (\<lambda>s. let (s1, ev) = setProcessStatus Client Running (s\<lparr>sp_messaging := True, sp_restartCount := 0\<rparr>)
                     in (s1, ev @ [processStarted Client])) pm"

definition onClientRestartTimer :: "sys \<Rightarrow> process_manager \<Rightarrow> process_manager \<times> pm_event list" where
  "onClientRestartTimer sy pm = (let (pm', ev, _) = startClientProcess sy pm in (pm', ev))"


section \<open>The host process and the service pipes\<close>

definition upd_host :: "(sup \<Rightarrow> sup \<times> pm_event list) \<Rightarrow> process_manager \<Rightarrow> process_manager \<times> pm_event list" where
  "upd_host f pm = (let (s, ev) = f (pm_host pm) in (pm\<lparr>pm_host := s\<rparr>, ev))"

definition isHostRunning :: "process_manager \<Rightarrow> bool" where
  "isHostRunning pm \<longleftrightarrow>
     (if sp_messaging (pm_host pm) \<and> pm_readSocket pm = Some SConnected then True
      else sp_process (pm_host pm) = Some PRunning)"

definition startHostAsChildProcess :: "sys \<Rightarrow> process_manager \<Rightarrow> process_manager \<times> pm_event list \<times> bool" where
  "startHostAsChildProcess sy pm =
     (if sp_exePath (pm_host pm) = []
      then (let (pm1, ev) = upd_host (setProcessStatus Host NotStarted) pm
            in (pm1, processError Host ''Host executable path not set'' # ev, False))
      else
        let (s1, ev, ok) = launch sy Host (pm_logDir pm) (pm_configDir pm) (pm_host pm)
        in (pm\<lparr>pm_host := s1\<rparr>, ev, ok))"

definition connectToHostServiceAsync :: "sys \<Rightarrow> process_manager \<Rightarrow> process_manager \<times> pm_event list" where
  "connectToHostServiceAsync sy pm =
     (pm\<lparr>pm_readSocket := Some SUnconnected, pm_writeSocket := Some SConnecting, pm_serviceConnecting := True,
         pm_pipeConnectTimer := True\<rparr>,
      [connectPipe (''quickdesk_host_'' @ string_of_nat (sy_sessionId sy) @ ''_in'')])"

definition startHostProcess :: "sys \<Rightarrow> process_manager \<Rightarrow> process_manager \<times> pm_event list \<times> bool" where
  "startHostProcess sy pm =
     (if isHostRunning pm \<or> pm_serviceConnecting pm then (pm, [], True)
      else
        let (pm1, ev1) = upd_host (setProcessStatus Host Starting) pm
        in if sy_serviceRunning sy
           then (let (pm2, ev2) = connectToHostServiceAsync sy pm1 in (pm2, ev1 @ ev2, True))
           else (let (pm2, ev2, ok) = startHostAsChildProcess sy pm1 in (pm2, ev1 @ ev2, ok)))"

definition cleanupServiceConnection :: "process_manager \<Rightarrow> process_manager" where
  "cleanupServiceConnection pm =
     pm\<lparr>pm_host := (pm_host pm)\<lparr>sp_messaging := False\<rparr>, pm_readSocket := None, pm_writeSocket := None\<rparr>"

definition setLaunchMode :: "launch_mode \<Rightarrow> process_manager \<Rightarrow> process_manager" where
  "setLaunchMode m pm = pm\<lparr>pm_launchMode := m\<rparr>"

definition stopHostProcess :: "process_manager \<Rightarrow> process_manager \<times> pm_event list" where
  "stopHostProcess pm =
     (let pm1 = pm\<lparr>pm_host := (pm_host pm)\<lparr>sp_restartTimer := None, sp_stoppingIntentionally := True\<rparr>\<rparr>;
          pm2 = (if pm_serviceConnecting pm1
                 then pm1\<lparr>pm_serviceConnecting := False, pm_pipeConnectTimer := False\<rparr> else pm1);
          pm3 = setLaunchMode UnknownMode pm2
      in if pm_readSocket pm3 \<noteq> None \<or> pm_writeSocket pm3 \<noteq> None
         then (let pm4 = cleanupServiceConnection pm3;
                   (pm5, ev) = upd_host (\<lambda>s. setProcessStatus Host NotStarted (s\<lparr>sp_restartCount := 0\<rparr>)) pm4
               in (pm5, launchModeChanged # ev))
         else (let (pm4, ev) = upd_host (stopSup Host) pm3 in (pm4, launchModeChanged # ev)))"

definition stopAllProcesses :: "process_manager \<Rightarrow> process_manager \<times> pm_event list" where
  "stopAllProcesses pm =
     (let (pm1, ev1) = stopHostProcess pm; (pm2, ev2) = stopClientProcess pm1 in (pm2, ev1 @ ev2))"

definition onHostProcessFinished :: "int \<Rightarrow> exit_status \<Rightarrow> process_manager \<Rightarrow> process_manager \<times> pm_event list" where
  "onHostProcessFinished exitCode status pm = upd_host (onProcessFinished Host exitCode status) pm"

definition onHostProcessErrorOccurred :: "process_error \<Rightarrow> qstring \<Rightarrow> process_manager \<Rightarrow> process_manager \<times> pm_event list" where
  "onHostProcessErrorOccurred error errorText pm = upd_host (onProcessErrorOccurred Host error errorText) pm"

definition onHostProcessStarted :: "process_manager \<Rightarrow> process_manager \<times> pm_event list" where
  "onHostProcessStarted pm =
     (let pm1 = setLaunchMode ChildProcessMode
                  (pm\<lparr>pm_host := (pm_host pm)\<lparr>sp_messaging := True, sp_restartCount := 0\<rparr>\<rparr>);
          (pm2, ev) = upd_host (setProcessStatus Host Running) pm1
      in (pm2, launchModeChanged # ev @ [processStarted Host]))"

definition onHostRestartTimer :: "sys \<Rightarrow> process_manager \<Rightarrow> process_manager \<times> pm_event list" where
  "onHostRestartTimer sy pm = (let (pm', ev, _) = startHostProcess sy pm in (pm', ev))"

definition onServicePipeConnected :: "process_manager \<Rightarrow> process_manager \<times> pm_event list" where
  "onServicePipeConnected pm =
     (if \<not> pm_serviceConnecting pm then (pm, [])
      else
        let pm1 = setLaunchMode ServiceMode (pm\<lparr>pm_serviceConnecting := False, pm_pipeConnectTimer := False,
                    pm_host := (pm_host pm)\<lparr>sp_messaging := True, sp_restartCount := 0\<rparr>\<rparr>);
            (pm2, ev) = upd_host (setProcessStatus Host Running) pm1
        in (pm2, launchModeChanged # ev @ [processStarted Host]))"

text \<open>
  The retry that the pipe handlers share: count, arm the timer while the count allows, else
  fall back to a child process.
\<close>

definition fallBackToChild :: "sys \<Rightarrow> process_manager \<Rightarrow> process_manager \<times> pm_event list" where
  "fallBackToChild sy pm =
     (let (pm1, ev, _) = startHostAsChildProcess sy (setLaunchMode UnknownMode pm)
      in (pm1, launchModeChanged # ev))"

definition retryPipe :: "sys \<Rightarrow> process_manager \<Rightarrow> process_manager \<times> pm_event list" where
  "retryPipe sy pm =
     (if sy_serviceRunning sy
      then
        let n = sp_restartCount (pm_host pm) + 1
        in if n \<le> MAX_RESTART_ATTEMPTS then upd_host (scheduleRestart Host) pm
           else fallBackToChild sy (pm\<lparr>pm_host := (pm_host pm)\<lparr>sp_restartCount := n\<rparr>\<rparr>)
      else fallBackToChild sy pm)"

definition onServicePipeError :: "sys \<Rightarrow> process_manager \<Rightarrow> process_manager \<times> pm_event list" where
  "onServicePipeError sy pm =
     (if \<not> pm_serviceConnecting pm then (pm, [])
      else retryPipe sy (cleanupServiceConnection
             (pm\<lparr>pm_serviceConnecting := False, pm_pipeConnectTimer := False\<rparr>)))"

text \<open>The three handlers \<open>connectToHostServiceAsync\<close> connects to the sockets.\<close>

definition onWritePipeConnected :: "sys \<Rightarrow> process_manager \<Rightarrow> process_manager \<times> pm_event list" where
  "onWritePipeConnected sy pm =
     (if \<not> pm_serviceConnecting pm then (pm, [])
      else (pm\<lparr>pm_readSocket := Some SConnecting\<rparr>,
            [connectPipe (''quickdesk_host_'' @ string_of_nat (sy_sessionId sy) @ ''_out'')]))"

definition onPipeError :: "bool \<Rightarrow> qstring \<Rightarrow> process_manager \<Rightarrow> process_manager \<times> pm_event list" where
  "onPipeError peerClosed msg pm =
     (if pm_serviceConnecting pm then (pm\<lparr>pm_postedPipeErrors := pm_postedPipeErrors pm + 1\<rparr>, [])
      else if \<not> peerClosed then (pm, [processError Host msg])
      else (pm, []))"

definition onPipeDisconnected :: "sys \<Rightarrow> process_manager \<Rightarrow> process_manager \<times> pm_event list" where
  "onPipeDisconnected sy pm =
     (if pm_serviceConnecting pm then (pm, [])
      else
        let pm1 = cleanupServiceConnection pm;
            (pm2, ev) =
              (if sp_stoppingIntentionally (pm_host pm1)
               then upd_host (setProcessStatus Host NotStarted)
                      (pm1\<lparr>pm_host := (pm_host pm1)\<lparr>sp_stoppingIntentionally := False\<rparr>\<rparr>)
               else if \<not> sp_autoRestart (pm_host pm1) then upd_host (setProcessStatus Host NotStarted) pm1
               else if sy_serviceRunning sy \<and> sp_restartCount (pm_host pm1) + 1 \<le> MAX_RESTART_ATTEMPTS
               then upd_host (scheduleRestart Host) pm1
               else fallBackToChild sy
                      (pm1\<lparr>pm_host := (pm_host pm1)\<lparr>sp_restartTimer := None,
                         sp_restartCount := sp_restartCount (pm_host pm1) + (if sy_serviceRunning sy then 1 else 0)\<rparr>\<rparr>))
        in (pm2, processStopped Host 0 # ev))"


section \<open>Configuration\<close>

definition setExePath :: "which \<Rightarrow> qstring \<Rightarrow> process_manager \<Rightarrow> process_manager" where
  "setExePath w path pm =
     (case w of Host \<Rightarrow> pm\<lparr>pm_host := (pm_host pm)\<lparr>sp_exePath := path\<rparr>\<rparr>
      | Client \<Rightarrow> pm\<lparr>pm_client := (pm_client pm)\<lparr>sp_exePath := path\<rparr>\<rparr>)"

definition setLogDir :: "qstring \<Rightarrow> process_manager \<Rightarrow> process_manager" where
  "setLogDir d pm = pm\<lparr>pm_logDir := d\<rparr>"

definition setConfigDir :: "qstring \<Rightarrow> process_manager \<Rightarrow> process_manager" where
  "setConfigDir d pm = pm\<lparr>pm_configDir := d\<rparr>"

definition set_autoRestart :: "which \<Rightarrow> bool \<Rightarrow> sup \<Rightarrow> sup \<times> pm_event list" where
  "set_autoRestart w enabled s =
     (if sp_autoRestart s \<noteq> enabled then (s\<lparr>sp_autoRestart := enabled\<rparr>, [autoRestartChanged w]) else (s, []))"

definition setAutoRestart :: "which \<Rightarrow> bool \<Rightarrow> process_manager \<Rightarrow> process_manager \<times> pm_event list" where
  "setAutoRestart w enabled pm =
     (case w of Host \<Rightarrow> upd_host (set_autoRestart Host enabled) pm
      | Client \<Rightarrow> upd_client (set_autoRestart Client enabled) pm)"

definition resetRetryCount :: "which \<Rightarrow> process_manager \<Rightarrow> process_manager" where
  "resetRetryCount w pm =
     (case w of Host \<Rightarrow> pm\<lparr>pm_host := (pm_host pm)\<lparr>sp_restartCount := 0\<rparr>\<rparr>
      | Client \<Rightarrow> pm\<lparr>pm_client := (pm_client pm)\<lparr>sp_restartCount := 0\<rparr>\<rparr>)"

text \<open>The search of a release build; \<open>QDir(a).filePath(b)\<close> is \<open>a/b\<close>.\<close>

definition search_paths :: "sys \<Rightarrow> qstring list" where
  "search_paths sy = [sy_appDir sy @ ''/../../../../src/out/Release'',
     sy_appDir sy @ ''/../../../QuickDesk/3rdparty/quickdesk-remoting/x64'', sy_appDir sy]"

definition findExecutable :: "sys \<Rightarrow> qstring \<Rightarrow> qstring" where
  "findExecutable sy name =
     (case filter (sy_executable sy) (map (\<lambda>p. p @ ''/'' @ name @ ''.exe'') (search_paths sy)) of
        [] \<Rightarrow> [] | full # _ \<Rightarrow> sy_absoluteFilePath sy full)"

definition autoDetectPaths :: "sys \<Rightarrow> process_manager \<Rightarrow> process_manager \<times> bool" where
  "autoDetectPaths sy pm =
     (let hostPath = findExecutable sy ''quickdesk_host'';
          clientPath = findExecutable sy ''quickdesk_client'';
          pm1 = (if hostPath \<noteq> [] then setExePath Host hostPath pm else pm);
          pm2 = (if clientPath \<noteq> [] then setExePath Client clientPath pm1 else pm1)
      in (pm2, hostPath \<noteq> [] \<and> clientPath \<noteq> []))"


section \<open>The event loop\<close>

text \<open>
  One delivery. A signal of a process or socket is delivered only if that object exists and is in
  the state the signal leaves; the object changes its state first. A replaced \<open>QProcess\<close> sends
  nothing more. (On Windows \<open>QProcess::start\<close> reports \<open>started\<close> or \<open>errorOccurred\<close> before it returns;
  here any other input may also come in between.)
\<close>

datatype pm_input =
    StartHost sys
  | StartClient sys
  | StopHost
  | StopClient
  | StopAll
  | SetExePath which qstring
  | SetLogDir qstring
  | SetConfigDir qstring
  | AutoDetect sys
  | SetAutoRestart which bool
  | ResetRetryCount which
  | Started which
  | FailedStart which qstring
  | Exited which int exit_status
  | OtherError which process_error qstring
  | RestartTimer which sys
  | EscalationTimer which nat
  | WriteConnected sys
  | ReadConnected
  | PipeError bool qstring
  | PostedPipeError sys
  | PipeTimeout sys
  | ReadDisconnected sys

definition get_sup :: "which \<Rightarrow> process_manager \<Rightarrow> sup" where
  "get_sup w pm = (case w of Host \<Rightarrow> pm_host pm | Client \<Rightarrow> pm_client pm)"

definition upd_sup :: "which \<Rightarrow> (sup \<Rightarrow> sup \<times> pm_event list) \<Rightarrow> process_manager \<Rightarrow> process_manager \<times> pm_event list" where
  "upd_sup w f pm = (case w of Host \<Rightarrow> upd_host f pm | Client \<Rightarrow> upd_client f pm)"

definition set_process :: "which \<Rightarrow> process_state \<Rightarrow> process_manager \<Rightarrow> process_manager" where
  "set_process w st pm = fst (upd_sup w (\<lambda>s. (s\<lparr>sp_process := Some st\<rparr>, [])) pm)"

definition clear_timer :: "which \<Rightarrow> process_manager \<Rightarrow> process_manager" where
  "clear_timer w pm = fst (upd_sup w (\<lambda>s. (s\<lparr>sp_restartTimer := None\<rparr>, [])) pm)"

fun pm_exec :: "pm_input \<Rightarrow> process_manager \<Rightarrow> process_manager \<times> pm_event list" where
  "pm_exec (StartHost sy) pm = (let (pm', ev, _) = startHostProcess sy pm in (pm', ev))"
| "pm_exec (StartClient sy) pm = (let (pm', ev, _) = startClientProcess sy pm in (pm', ev))"
| "pm_exec StopHost pm = stopHostProcess pm"
| "pm_exec StopClient pm = stopClientProcess pm"
| "pm_exec StopAll pm = stopAllProcesses pm"
| "pm_exec (SetExePath w path) pm = (setExePath w path pm, [])"
| "pm_exec (SetLogDir d) pm = (setLogDir d pm, [])"
| "pm_exec (SetConfigDir d) pm = (setConfigDir d pm, [])"
| "pm_exec (AutoDetect sy) pm = (fst (autoDetectPaths sy pm), [])"
| "pm_exec (SetAutoRestart w b) pm = setAutoRestart w b pm"
| "pm_exec (ResetRetryCount w) pm = (resetRetryCount w pm, [])"
| "pm_exec (Started w) pm =
     (if sp_process (get_sup w pm) = Some PStarting
      then (case w of Host \<Rightarrow> onHostProcessStarted (set_process w PRunning pm)
            | Client \<Rightarrow> onClientProcessStarted (set_process w PRunning pm))
      else (pm, []))"
| "pm_exec (FailedStart w msg) pm =
     (if sp_process (get_sup w pm) = Some PStarting
      then (case w of Host \<Rightarrow> onHostProcessErrorOccurred FailedToStart msg (set_process w PNotRunning pm)
            | Client \<Rightarrow> onClientProcessErrorOccurred FailedToStart msg (set_process w PNotRunning pm))
      else (pm, []))"
| "pm_exec (Exited w code st) pm =
     (if sp_process (get_sup w pm) = Some PRunning
      then (case w of Host \<Rightarrow> onHostProcessFinished code st (set_process w PNotRunning pm)
            | Client \<Rightarrow> onClientProcessFinished code st (set_process w PNotRunning pm))
      else (pm, []))"
| "pm_exec (OtherError w e msg) pm =
     (if sp_process (get_sup w pm) \<noteq> None \<and> e \<noteq> FailedToStart
      then (case w of Host \<Rightarrow> onHostProcessErrorOccurred e msg pm
            | Client \<Rightarrow> onClientProcessErrorOccurred e msg pm)
      else (pm, []))"
| "pm_exec (RestartTimer w sy) pm =
     (if sp_restartTimer (get_sup w pm) \<noteq> None
      then (case w of Host \<Rightarrow> onHostRestartTimer sy (clear_timer w pm)
            | Client \<Rightarrow> onClientRestartTimer sy (clear_timer w pm))
      else (pm, []))"
| "pm_exec (EscalationTimer w i) pm =
     (if i < length (sp_escalation (get_sup w pm)) then upd_sup w (escalate w i) pm else (pm, []))"
| "pm_exec (WriteConnected sy) pm =
     (if pm_writeSocket pm = Some SConnecting then onWritePipeConnected sy (pm\<lparr>pm_writeSocket := Some SConnected\<rparr>)
      else (pm, []))"
| "pm_exec ReadConnected pm =
     (if pm_readSocket pm = Some SConnecting then onServicePipeConnected (pm\<lparr>pm_readSocket := Some SConnected\<rparr>)
      else (pm, []))"
| "pm_exec (PipeError peerClosed msg) pm =
     (if pm_readSocket pm \<noteq> None \<or> pm_writeSocket pm \<noteq> None then onPipeError peerClosed msg pm else (pm, []))"
| "pm_exec (PostedPipeError sy) pm =
     (if pm_postedPipeErrors pm > 0
      then onServicePipeError sy (pm\<lparr>pm_postedPipeErrors := pm_postedPipeErrors pm - 1\<rparr>) else (pm, []))"
| "pm_exec (PipeTimeout sy) pm =
     (if pm_pipeConnectTimer pm then onServicePipeError sy (pm\<lparr>pm_pipeConnectTimer := False\<rparr>) else (pm, []))"
| "pm_exec (ReadDisconnected sy) pm =
     (if pm_readSocket pm = Some SConnected then onPipeDisconnected sy (pm\<lparr>pm_readSocket := Some SUnconnected\<rparr>)
      else (pm, []))"

fun pm_run :: "pm_input list \<Rightarrow> process_manager \<Rightarrow> process_manager \<times> pm_event list" where
  "pm_run [] pm = (pm, [])"
| "pm_run (i # is) pm = (let (pm1, ev1) = pm_exec i pm; (pm2, ev2) = pm_run is pm1 in (pm2, ev1 @ ev2))"

definition pm_step :: "process_manager \<Rightarrow> process_manager \<Rightarrow> bool" where
  "pm_step pm pm' \<longleftrightarrow> (\<exists>i. pm' = fst (pm_exec i pm))"

end
