(* ===== verification/ProcessSupervision.thy ===== *)
theory ProcessSupervision
  imports ProcessManager
begin

text \<open>
  What the supervision of \<open>ProcessManager\<close> guarantees in every run: how long a restart waits, what the
  reported status means, that a stop is final, and when the supervisor gives up.
\<close>

lemmas sup_defs = setProcessStatus_def resetProcess_def scheduleRestart_def stopIdle_def stopSup_def
  escalate_def set_autoRestart_def launch_def

lemmas client_defs = upd_client_def isClientRunning_def startClientProcess_def stopClientProcess_def
  onClientProcessFinished_def onClientProcessErrorOccurred_def onClientProcessStarted_def onClientRestartTimer_def

lemmas host_defs = upd_host_def startHostAsChildProcess_def connectToHostServiceAsync_def
  startHostProcess_def cleanupServiceConnection_def setLaunchMode_def stopHostProcess_def
  onHostProcessFinished_def onHostProcessErrorOccurred_def onHostProcessStarted_def onHostRestartTimer_def
  onServicePipeConnected_def fallBackToChild_def retryPipe_def onServicePipeError_def
  onWritePipeConnected_def onPipeError_def onPipeDisconnected_def

lemmas pm_defs = setExePath_def setLogDir_def setConfigDir_def setAutoRestart_def
  resetRetryCount_def autoDetectPaths_def get_sup_def upd_sup_def set_process_def clear_timer_def

lemmas pm_splits = which.splits prod.splits if_splits sum.splits


section \<open>Restart delays\<close>

text \<open>
  One step of a supervised process backs off: it leaves the restart timer, stops it, or starts it
  with the delay of one of the five attempts.
\<close>

definition backs_off :: "sup \<Rightarrow> sup \<Rightarrow> bool" where
  "backs_off s s' \<longleftrightarrow>
     (0 \<le> sp_restartCount s \<longrightarrow> 0 \<le> sp_restartCount s' \<and>
        (sp_restartTimer s' = sp_restartTimer s \<or> sp_restartTimer s' = None \<or>
         (\<exists>n. 1 \<le> n \<and> n \<le> MAX_RESTART_ATTEMPTS \<and> sp_restartTimer s' = Some (calculateRestartDelay n))))"

lemma backs_off_refl [simp]: "backs_off s s"
  by (simp add: backs_off_def)

lemma backs_off_trans: "backs_off s t \<Longrightarrow> backs_off t u \<Longrightarrow> backs_off s u"
  unfolding backs_off_def by metis

lemma delay_values:
  assumes "1 \<le> n" "n \<le> MAX_RESTART_ATTEMPTS"
  shows "calculateRestartDelay n \<in> {2000, 4000, 8000, 16000, 32000}"
proof -
  have "n \<in> {1, 2, 3, 4, 5}" using assms by (auto simp: MAX_RESTART_ATTEMPTS_def)
  then show ?thesis by (auto simp: calculateRestartDelay_def BASE_RESTART_DELAY_MS_def)
qed

locale restart_supervisor =
  fixes initial :: "'s \<Rightarrow> bool"
    and step :: "'s \<Rightarrow> 's \<Rightarrow> bool"
    and view :: "'s \<Rightarrow> sup"
  assumes view_initial: "initial s \<Longrightarrow> view s = new_sup"
    and view_step: "step s t \<Longrightarrow> backs_off (view s) (view t)"
begin

lemma count_and_delay:
  assumes "reachable initial step s"
  shows "0 \<le> sp_restartCount (view s) \<and>
    (\<forall>d. sp_restartTimer (view s) = Some d \<longrightarrow> d \<in> {2000, 4000, 8000, 16000, 32000})"
  using assms
proof (induction rule: reachable.induct)
  case (reach_init s)
  then show ?case by (simp add: view_initial new_sup_def)
next
  case (reach_step s t)
  then show ?case using view_step[OF reach_step.hyps(2)] delay_values unfolding backs_off_def by (metis option.inject option.distinct(1))
qed

end

lemma backs_off_setProcessStatus [simp]: "backs_off s (fst (setProcessStatus w st s'))  = backs_off s s'"
  by (simp add: backs_off_def setProcessStatus_def)

lemma backs_off_scheduleRestart: "sp_restartCount s < MAX_RESTART_ATTEMPTS \<Longrightarrow> backs_off s (fst (scheduleRestart w s))"
  by (auto simp: backs_off_def scheduleRestart_def setProcessStatus_def Let_def intro!: exI[of _ "sp_restartCount s + 1"])

lemma backs_off_finished: "backs_off s (fst (onProcessFinished w c st s))"
  using backs_off_scheduleRestart[of "s\<lparr>sp_messaging := False\<rparr>" w]
  by (auto simp: onProcessFinished_def backs_off_def setProcessStatus_def resetProcess_def Let_def split: pm_splits)

lemma backs_off_error: "backs_off s (fst (onProcessErrorOccurred w e m s))"
  using backs_off_scheduleRestart[of s w]
  by (auto simp: onProcessErrorOccurred_def backs_off_def setProcessStatus_def Let_def split: pm_splits)


lemma backs_off_launch: "backs_off s (fst (launch sy w l c s))"
  by (auto simp: launch_def backs_off_def setProcessStatus_def resetProcess_def split: pm_splits)

lemma backs_off_stopSup: "backs_off s (fst (stopSup w s))"
  by (auto simp: stopSup_def stopIdle_def backs_off_def setProcessStatus_def resetProcess_def)

lemma backs_off_upd [simp]:
  "backs_off s (s'\<lparr>sp_messaging := b\<rparr>) = backs_off s s'"
  "backs_off s (s'\<lparr>sp_stoppingIntentionally := b\<rparr>) = backs_off s s'"
  "backs_off s (s'\<lparr>sp_process := p\<rparr>) = backs_off s s'"
  "backs_off s (s'\<lparr>sp_escalation := l\<rparr>) = backs_off s s'"
  "backs_off s (s'\<lparr>sp_exePath := x\<rparr>) = backs_off s s'"
  "backs_off s (s'\<lparr>sp_autoRestart := a\<rparr>) = backs_off s s'"
  "backs_off s (s'\<lparr>sp_status := st\<rparr>) = backs_off s s'"
  by (auto simp: backs_off_def)

lemma backs_off_reset: "backs_off s s' \<Longrightarrow> backs_off s (s'\<lparr>sp_restartCount := 0\<rparr>)"
  "backs_off s s' \<Longrightarrow> backs_off s (s'\<lparr>sp_restartTimer := None\<rparr>)"
  by (auto simp: backs_off_def)

lemma backs_off_client:
  "backs_off (pm_client pm) (pm_client (fst (startClientProcess sy pm)))"
  "backs_off (pm_client pm) (pm_client (fst (stopClientProcess pm)))"
  "backs_off (pm_client pm) (pm_client (fst (onClientProcessStarted pm)))"
  "backs_off (pm_client pm) (pm_client (fst (onClientRestartTimer sy pm)))"
proof -
  show s: "backs_off (pm_client pm) (pm_client (fst (startClientProcess sy pm)))"
    using backs_off_launch[of "fst (setProcessStatus Client Starting (pm_client pm))" sy Client "pm_logDir pm" "pm_configDir pm"]
    by (auto simp: startClientProcess_def setProcessStatus_def backs_off_def Let_def split: pm_splits)
  show "backs_off (pm_client pm) (pm_client (fst (stopClientProcess pm)))"
    using backs_off_stopSup[of "(pm_client pm)\<lparr>sp_restartTimer := None, sp_stoppingIntentionally := True\<rparr>" Client]
    by (auto simp: stopClientProcess_def upd_client_def backs_off_def Let_def split: pm_splits)
  show "backs_off (pm_client pm) (pm_client (fst (onClientProcessStarted pm)))"
    by (auto simp: onClientProcessStarted_def upd_client_def setProcessStatus_def backs_off_def Let_def)
  show "backs_off (pm_client pm) (pm_client (fst (onClientRestartTimer sy pm)))"
    using s by (auto simp: onClientRestartTimer_def split: prod.splits)
qed

lemma backs_off_child: "backs_off s (pm_host pm) \<Longrightarrow> backs_off s (pm_host (fst (startHostAsChildProcess sy pm)))"
  using backs_off_launch[of "pm_host pm" sy Host "pm_logDir pm" "pm_configDir pm"]
  by (auto simp: startHostAsChildProcess_def upd_host_def setProcessStatus_def Let_def
      intro: backs_off_trans split: pm_splits)

lemma backs_off_fallBack: "backs_off s (pm_host pm) \<Longrightarrow> backs_off s (pm_host (fst (fallBackToChild sy pm)))"
  using backs_off_child[of s "setLaunchMode UnknownMode pm" sy]
  by (auto simp: fallBackToChild_def setLaunchMode_def split: prod.splits)

lemma backs_off_count: "backs_off s (s\<lparr>sp_restartCount := sp_restartCount s + 1\<rparr>)"
  "backs_off s (s\<lparr>sp_restartTimer := None, sp_restartCount := sp_restartCount s + (if b then 1 else 0)\<rparr>)"
  by (auto simp: backs_off_def)

lemma backs_off_retryPipe: "backs_off (pm_host pm) (pm_host (fst (retryPipe sy pm)))"
  using backs_off_scheduleRestart[of "pm_host pm" Host]
  by (auto simp: retryPipe_def upd_host_def Let_def intro!: backs_off_fallBack backs_off_count split: prod.splits)


lemma backs_off_host:
  "backs_off (pm_host pm) (pm_host (fst (startHostProcess sy pm)))"
  "backs_off (pm_host pm) (pm_host (fst (stopHostProcess pm)))"
  "backs_off (pm_host pm) (pm_host (fst (onHostProcessStarted pm)))"
  "backs_off (pm_host pm) (pm_host (fst (onHostRestartTimer sy pm)))"
proof -
  show s: "backs_off (pm_host pm) (pm_host (fst (startHostProcess sy pm)))"
    using backs_off_child[of "pm_host pm" "fst (upd_host (setProcessStatus Host Starting) pm)" sy]
    by (auto simp: startHostProcess_def upd_host_def setProcessStatus_def connectToHostServiceAsync_def Let_def
        split: pm_splits)
  show "backs_off (pm_host pm) (pm_host (fst (stopHostProcess pm)))"
    using backs_off_stopSup[of "(pm_host pm)\<lparr>sp_restartTimer := None, sp_stoppingIntentionally := True\<rparr>" Host]
    by (auto simp: stopHostProcess_def upd_host_def cleanupServiceConnection_def setLaunchMode_def
        setProcessStatus_def backs_off_def Let_def split: pm_splits)
  show "backs_off (pm_host pm) (pm_host (fst (onHostProcessStarted pm)))"
    by (auto simp: onHostProcessStarted_def upd_host_def setLaunchMode_def setProcessStatus_def backs_off_def Let_def)
  show "backs_off (pm_host pm) (pm_host (fst (onHostRestartTimer sy pm)))"
    using s by (auto simp: onHostRestartTimer_def split: prod.splits)
qed

lemma backs_off_pipes:
  "backs_off (pm_host pm) (pm_host (fst (onServicePipeConnected pm)))"
  "backs_off (pm_host pm) (pm_host (fst (onServicePipeError sy pm)))"
  "backs_off (pm_host pm) (pm_host (fst (onPipeDisconnected sy pm)))"
proof -
  show "backs_off (pm_host pm) (pm_host (fst (onServicePipeConnected pm)))"
    by (auto simp: onServicePipeConnected_def upd_host_def setLaunchMode_def setProcessStatus_def backs_off_def Let_def)
  show "backs_off (pm_host pm) (pm_host (fst (onServicePipeError sy pm)))"
    using backs_off_retryPipe[of "cleanupServiceConnection
             (pm\<lparr>pm_serviceConnecting := False, pm_pipeConnectTimer := False\<rparr>)" sy]
    by (auto simp: onServicePipeError_def cleanupServiceConnection_def backs_off_def)
  show "backs_off (pm_host pm) (pm_host (fst (onPipeDisconnected sy pm)))"
  proof -
    let ?h = "(pm_host pm)\<lparr>sp_messaging := False\<rparr>"
    have fb: "backs_off (pm_host pm) (pm_host (fst (fallBackToChild sy
        (cleanupServiceConnection pm\<lparr>pm_host := ?h\<lparr>sp_restartTimer := None, sp_restartCount := n\<rparr>\<rparr>))))"
      if "n = sp_restartCount (pm_host pm) \<or> n = sp_restartCount (pm_host pm) + 1" for n
      using that by (intro backs_off_fallBack) (auto simp: backs_off_def)
    have sr: "backs_off (pm_host pm) (fst (scheduleRestart Host ?h))" 
      if "sp_restartCount (pm_host pm) + 1 \<le> MAX_RESTART_ATTEMPTS"
      using backs_off_scheduleRestart[of ?h Host] that by (simp add: backs_off_def)
    show ?thesis
      using fb[of "sp_restartCount (pm_host pm)"] fb[of "sp_restartCount (pm_host pm) + 1"] sr
      by (auto simp: onPipeDisconnected_def cleanupServiceConnection_def upd_host_def setProcessStatus_def Let_def
          split: prod.splits)
  qed
qed

text \<open>The calls and signals of one process leave the other alone.\<close>

lemma client_frame [simp]:
  "pm_host (fst (upd_client f pm)) = pm_host pm" "pm_client (fst (upd_client f pm)) = fst (f (pm_client pm))"
  "pm_client (fst (upd_host f pm)) = pm_client pm" "pm_host (fst (upd_host f pm)) = fst (f (pm_host pm))"
  by (simp_all add: upd_client_def upd_host_def split: prod.splits)

lemma client_ops_host [simp]:
  "pm_host (fst (startClientProcess sy pm)) = pm_host pm"
  "pm_host (fst (stopClientProcess pm)) = pm_host pm"
  "pm_host (fst (onClientProcessStarted pm)) = pm_host pm"
  "pm_host (fst (onClientProcessFinished c st pm)) = pm_host pm"
  "pm_host (fst (onClientProcessErrorOccurred e m pm)) = pm_host pm"
  "pm_host (fst (onClientRestartTimer sy pm)) = pm_host pm"
  by (auto simp: client_defs Let_def split: prod.splits)

lemma host_ops_client [simp]:
  "pm_client (fst (startHostAsChildProcess sy pm)) = pm_client pm"
  "pm_client (fst (startHostProcess sy pm)) = pm_client pm"
  "pm_client (fst (stopHostProcess pm)) = pm_client pm"
  "pm_client (fst (onHostProcessStarted pm)) = pm_client pm"
  "pm_client (fst (onHostProcessFinished c st pm)) = pm_client pm"
  "pm_client (fst (onHostProcessErrorOccurred e m pm)) = pm_client pm"
  "pm_client (fst (onHostRestartTimer sy pm)) = pm_client pm"
  "pm_client (fst (fallBackToChild sy pm)) = pm_client pm"
  "pm_client (fst (retryPipe sy pm)) = pm_client pm"
  "pm_client (fst (onServicePipeConnected pm)) = pm_client pm"
  "pm_client (fst (onServicePipeError sy pm)) = pm_client pm"
  "pm_client (fst (onWritePipeConnected sy pm)) = pm_client pm"
  "pm_client (fst (onPipeError b m pm)) = pm_client pm"
  "pm_client (fst (onPipeDisconnected sy pm)) = pm_client pm"
  by (auto simp: host_defs Let_def split: prod.splits)


lemma handlers_sup [simp]:
  "pm_client (fst (onClientProcessFinished c st pm)) = fst (onProcessFinished Client c st (pm_client pm))"
  "pm_client (fst (onClientProcessErrorOccurred e m pm)) = fst (onProcessErrorOccurred Client e m (pm_client pm))"
  "pm_host (fst (onHostProcessFinished c st pm)) = fst (onProcessFinished Host c st (pm_host pm))"
  "pm_host (fst (onHostProcessErrorOccurred e m pm)) = fst (onProcessErrorOccurred Host e m (pm_host pm))"
  by (simp_all add: onClientProcessFinished_def onClientProcessErrorOccurred_def
      onHostProcessFinished_def onHostProcessErrorOccurred_def)

lemma backs_off_small:
  "backs_off s (fst (escalate w i s))" "backs_off s (fst (set_autoRestart w b s))"
  by (auto simp: escalate_def set_autoRestart_def Let_def)

lemmas backs_off_steps =
  backs_off_client[THEN [2] backs_off_trans] backs_off_host[THEN [2] backs_off_trans]
  backs_off_pipes[THEN [2] backs_off_trans] backs_off_finished[THEN [2] backs_off_trans]
  backs_off_error[THEN [2] backs_off_trans] backs_off_small[THEN [2] backs_off_trans]

lemma pipe_signals_host [simp]:
  "pm_host (fst (onWritePipeConnected sy pm)) = pm_host pm" "pm_host (fst (onPipeError b m pm)) = pm_host pm"
  by (simp_all add: onWritePipeConnected_def onPipeError_def)

lemma fst_case_prod3: "fst (case x of (a, b, c) \<Rightarrow> (a, b)) = fst x" "fst (case y of (a, b) \<Rightarrow> (a, f a b)) = fst y"
  by (simp_all split: prod.splits)

lemma stopAll_fst [simp]: "fst (stopAllProcesses pm) = fst (stopClientProcess (fst (stopHostProcess pm)))"
  by (simp add: stopAllProcesses_def split: prod.splits)

lemma exec_backs_off: "backs_off (get_sup w pm) (get_sup w (fst (pm_exec i pm)))"
  by (cases w; cases i)
    (auto simp: pm_defs fst_case_prod3 Let_def intro!: backs_off_steps backs_off_reset split: which.splits)

interpretation host_sup: restart_supervisor "\<lambda>pm. pm = ProcessManager_init" pm_step pm_host
  using exec_backs_off[of Host]
  by unfold_locales (auto simp: pm_step_def ProcessManager_init_def get_sup_def)

interpretation client_sup: restart_supervisor "\<lambda>pm. pm = ProcessManager_init" pm_step pm_client
  using exec_backs_off[of Client]
  by unfold_locales (auto simp: pm_step_def ProcessManager_init_def get_sup_def)

text \<open>
  Whatever the system does, a restart of either process that is waiting was armed with one of the
  five back-off delays: never less than two seconds, never more than 32.
\<close>

theorem restart_delay_bounded:
  assumes "reachable (\<lambda>pm. pm = ProcessManager_init) pm_step pm"
    and "sp_restartTimer (get_sup w pm) = Some d"
  shows "d \<in> {2000, 4000, 8000, 16000, 32000}"
  using assms host_sup.count_and_delay[of pm] client_sup.count_and_delay[of pm]
  by (cases w) (auto simp: get_sup_def)


section \<open>The client process\<close>

text \<open>What the fields of the client say of each other.\<close>

definition faithful :: "sup \<Rightarrow> bool" where
  "faithful s \<longleftrightarrow>
     (sp_status s = Running \<longleftrightarrow> sp_process s = Some PRunning) \<and>
     (sp_messaging s \<longleftrightarrow> sp_process s = Some PRunning) \<and>
     (sp_process s = Some PRunning \<longrightarrow> sp_restartCount s = 0) \<and>
     sp_restartCount s \<le> MAX_RESTART_ATTEMPTS"

lemma faithful_stop: "faithful s \<Longrightarrow> faithful (fst (stopSup w s))"
  by (auto simp: faithful_def stopSup_def stopIdle_def setProcessStatus_def resetProcess_def MAX_RESTART_ATTEMPTS_def)

lemma faithful_finished:
  "faithful s \<Longrightarrow> faithful (fst (onProcessFinished w c st (s\<lparr>sp_process := Some PNotRunning\<rparr>)))"
  by (auto simp: faithful_def onProcessFinished_def setProcessStatus_def resetProcess_def scheduleRestart_def
      MAX_RESTART_ATTEMPTS_def Let_def)

lemma faithful_failed:
  "faithful s \<Longrightarrow> sp_process s = Some PStarting \<Longrightarrow>
   faithful (fst (onProcessErrorOccurred w FailedToStart m (s\<lparr>sp_process := Some PNotRunning\<rparr>)))"
  by (auto simp: faithful_def onProcessErrorOccurred_def setProcessStatus_def scheduleRestart_def
      MAX_RESTART_ATTEMPTS_def Let_def)

lemma other_error_sup [simp]: "e \<noteq> FailedToStart \<Longrightarrow> fst (onProcessErrorOccurred w e m s) = s"
  by (simp add: onProcessErrorOccurred_def Let_def)

lemma faithful_launch:
  "faithful s \<Longrightarrow> sp_process s \<noteq> Some PRunning \<Longrightarrow> faithful (fst (launch sy w l c (fst (setProcessStatus w Starting s))))"
  by (auto simp: faithful_def launch_def setProcessStatus_def resetProcess_def split: sum.splits)

lemma faithful_start:
  assumes "faithful (pm_client pm)"
  shows "faithful (pm_client (fst (startClientProcess sy pm)))"
  using assms faithful_launch[OF assms, of sy Client "pm_logDir pm" "pm_configDir pm"]
  by (auto simp: startClientProcess_def isClientRunning_def split: prod.splits)

lemma faithful_upd [simp]:
  "faithful (s\<lparr>sp_restartTimer := t\<rparr>) = faithful s"
  "faithful (s\<lparr>sp_stoppingIntentionally := b\<rparr>) = faithful s"
  "faithful (s\<lparr>sp_exePath := x\<rparr>) = faithful s"
  "faithful (s\<lparr>sp_autoRestart := b\<rparr>) = faithful s"
  "faithful (s\<lparr>sp_escalation := l\<rparr>) = faithful s"
  "faithful s \<Longrightarrow> faithful (s\<lparr>sp_restartCount := 0\<rparr>)"
  by (auto simp: faithful_def MAX_RESTART_ATTEMPTS_def)

lemma faithful_started:
  "pm_client pm = (s\<lparr>sp_process := Some PRunning\<rparr>) \<Longrightarrow> faithful s \<Longrightarrow>
   faithful (pm_client (fst (onClientProcessStarted pm)))"
  by (auto simp: faithful_def onClientProcessStarted_def setProcessStatus_def MAX_RESTART_ATTEMPTS_def Let_def)

lemma faithful_exec: "faithful (pm_client pm) \<Longrightarrow> faithful (pm_client (fst (pm_exec i pm)))"
  by (cases i)
    (auto simp: pm_defs fst_case_prod3 stopClientProcess_def onClientRestartTimer_def escalate_def set_autoRestart_def
       Let_def intro!: faithful_stop faithful_start faithful_finished faithful_failed
       intro: faithful_started split: which.splits)

lemma faithful_init: "faithful (pm_client ProcessManager_init)"
  by (simp add: ProcessManager_init_def new_sup_def faithful_def MAX_RESTART_ATTEMPTS_def)

interpretation client_faithful: invariant_system "\<lambda>pm. pm = ProcessManager_init" pm_step "\<lambda>pm. faithful (pm_client pm)"
  by unfold_locales (auto simp: pm_step_def faithful_exec faithful_init)

text \<open>
  The status shown for the client is the truth in every reachable state: it reads Running exactly
  while the process runs, and then, and only then, there is a message channel to it.
\<close>

theorem client_status_faithful:
  assumes "reachable (\<lambda>pm. pm = ProcessManager_init) pm_step pm"
  shows "(sp_status (pm_client pm) = Running \<longleftrightarrow> isClientRunning pm)
    \<and> (sp_messaging (pm_client pm) \<longleftrightarrow> isClientRunning pm)"
  using client_faithful.reachable_inv[OF assms] by (auto simp: faithful_def isClientRunning_def)

text \<open>
  A client that runs and then fails is restarted after two seconds, as the first of five attempts,
  in every reachable state: the count of attempts was reset when it started. So the supervisor never
  gives up on a client that starts and then fails, however often that happens.
\<close>

theorem client_crash_always_restarts:
  assumes "reachable (\<lambda>pm. pm = ProcessManager_init) pm_step pm"
    and "isClientRunning pm" and "sp_autoRestart (pm_client pm)" and "\<not> sp_stoppingIntentionally (pm_client pm)"
    and "st = CrashExit \<or> exitCode \<noteq> 0"
  shows "sp_restartTimer (pm_client (fst (pm_exec (Exited Client exitCode st) pm))) = Some 2000
    \<and> snd (pm_exec (Exited Client exitCode st) pm) =
        [processStopped Client exitCode, statusChanged Client, processRestarting Client 1 MAX_RESTART_ATTEMPTS]"
  using client_faithful.reachable_inv[OF assms(1)] assms(2-)
  by (auto simp: faithful_def isClientRunning_def pm_defs onClientProcessFinished_def upd_client_def onProcessFinished_def
      scheduleRestart_def setProcessStatus_def calculateRestartDelay_def BASE_RESTART_DELAY_MS_def
      MAX_RESTART_ATTEMPTS_def Let_def)


section \<open>Stopping\<close>

fun start_input :: "pm_input \<Rightarrow> bool" where
  "start_input (StartHost _) = True"
| "start_input (StartClient _) = True"
| "start_input _ = False"

fun start_event :: "pm_event \<Rightarrow> bool" where
  "start_event (spawn _ _ _ _) = True"
| "start_event (connectPipe _) = True"
| "start_event _ = False"

definition quiet_sup :: "sup \<Rightarrow> bool" where
  "quiet_sup s \<longleftrightarrow> sp_restartTimer s = None \<and>
     (sp_stoppingIntentionally s \<or> sp_process s = None \<or> sp_process s = Some PNotRunning)"

definition quiet :: "process_manager \<Rightarrow> bool" where
  "quiet pm \<longleftrightarrow> quiet_sup (pm_host pm) \<and> quiet_sup (pm_client pm) \<and> \<not> pm_serviceConnecting pm
     \<and> pm_readSocket pm = None \<and> pm_writeSocket pm = None"

lemma setProcessStatus_events [simp]: "filter start_event (snd (setProcessStatus w st s)) = []"
  by (simp add: setProcessStatus_def)

lemma quiet_setProcessStatus [simp]: "quiet_sup (fst (setProcessStatus w st s)) = quiet_sup s"
  by (simp add: setProcessStatus_def quiet_sup_def)

lemma stopSup_quiet:
  "sp_restartTimer s = None \<Longrightarrow> sp_stoppingIntentionally s \<Longrightarrow> quiet_sup (fst (stopSup w s))"
  "filter start_event (snd (stopSup w s)) = []"
  by (auto simp: stopSup_def stopIdle_def quiet_sup_def resetProcess_def setProcessStatus_def)

lemma escalate_quiet:
  "quiet_sup s \<Longrightarrow> quiet_sup (fst (escalate w i s))" "filter start_event (snd (escalate w i s)) = []"
  by (auto simp: escalate_def quiet_sup_def Let_def)

lemma signals_quiet:
  "sp_process s = Some PStarting \<or> sp_process s = Some PRunning \<Longrightarrow> quiet_sup s \<Longrightarrow>
     quiet_sup (fst (onProcessFinished w c st (s\<lparr>sp_process := Some PNotRunning\<rparr>)))"
  "sp_process s = Some PStarting \<or> sp_process s = Some PRunning \<Longrightarrow> quiet_sup s \<Longrightarrow>
     quiet_sup (fst (onProcessErrorOccurred w e m (s\<lparr>sp_process := Some PNotRunning\<rparr>)))"
  by (auto simp: quiet_sup_def onProcessFinished_def onProcessErrorOccurred_def setProcessStatus_def resetProcess_def Let_def)

lemma signals_events:
  "filter start_event (snd (onProcessFinished w c st s)) = []"
  "filter start_event (snd (onProcessErrorOccurred w e m s)) = []"
  by (auto simp: onProcessFinished_def onProcessErrorOccurred_def scheduleRestart_def setProcessStatus_def Let_def)

lemma stop_quiet:
  "quiet_sup (pm_host (fst (stopHostProcess pm))) \<and> \<not> pm_serviceConnecting (fst (stopHostProcess pm))
    \<and> pm_readSocket (fst (stopHostProcess pm)) = None \<and> pm_writeSocket (fst (stopHostProcess pm)) = None"
  "quiet_sup (pm_client (fst (stopClientProcess pm)))"
  by (auto simp: stopHostProcess_def stopClientProcess_def cleanupServiceConnection_def setLaunchMode_def upd_host_def
      Let_def stopSup_def stopIdle_def resetProcess_def quiet_sup_def setProcessStatus_def split: prod.splits)

lemma quiet_upd [simp]:
  "quiet_sup (s\<lparr>sp_exePath := x\<rparr>) = quiet_sup s"
  "quiet_sup (s\<lparr>sp_autoRestart := b\<rparr>) = quiet_sup s"
  "quiet_sup (s\<lparr>sp_restartCount := n\<rparr>) = quiet_sup s"
  "quiet_sup (s\<lparr>sp_messaging := c\<rparr>) = quiet_sup s"
  "sp_process s = Some PStarting \<Longrightarrow> quiet_sup s \<Longrightarrow> quiet_sup (s\<lparr>sp_process := Some PRunning\<rparr>)"
  by (auto simp: quiet_sup_def)

lemma started_quiet:
  "pm_client (fst (onClientProcessStarted pm)) =
     fst (setProcessStatus Client Running ((pm_client pm)\<lparr>sp_messaging := True, sp_restartCount := 0\<rparr>))"
  "pm_host (fst (onHostProcessStarted pm)) =
     fst (setProcessStatus Host Running ((pm_host pm)\<lparr>sp_messaging := True, sp_restartCount := 0\<rparr>))"
  by (simp_all add: onClientProcessStarted_def onHostProcessStarted_def setLaunchMode_def fst_case_prod3 Let_def)

text \<open>The pipes: only the host's own calls and the pipe signals touch them.\<close>

definition pipes :: "process_manager \<Rightarrow> bool \<times> socket_state option \<times> socket_state option" where
  "pipes pm = (pm_serviceConnecting pm, pm_readSocket pm, pm_writeSocket pm)"

lemma pipes_upd [simp]: "pipes (fst (upd_host f pm)) = pipes pm" "pipes (fst (upd_client f pm)) = pipes pm"
  by (simp_all add: pipes_def upd_host_def upd_client_def split: prod.splits)

lemma pipes_ops [simp]:
  "pipes (fst (stopClientProcess pm)) = pipes pm"
  "pipes (fst (onClientProcessStarted pm)) = pipes pm"
  "pipes (fst (onClientProcessFinished c st pm)) = pipes pm"
  "pipes (fst (onClientProcessErrorOccurred e m pm)) = pipes pm"
  "pipes (fst (onHostProcessStarted pm)) = pipes pm"
  "pipes (fst (onHostProcessFinished c st pm)) = pipes pm"
  "pipes (fst (onHostProcessErrorOccurred e m pm)) = pipes pm"
  by (auto simp: stopClientProcess_def onClientProcessStarted_def onClientProcessFinished_def
      onClientProcessErrorOccurred_def onHostProcessStarted_def onHostProcessFinished_def
      onHostProcessErrorOccurred_def setLaunchMode_def fst_case_prod3 Let_def)
   (simp add: pipes_def)

lemma quiet_pipes: "quiet pm \<longleftrightarrow> quiet_sup (pm_host pm) \<and> quiet_sup (pm_client pm) \<and> pipes pm = (False, None, None)"
  by (auto simp: quiet_def pipes_def)

lemma stopHost_pipes: "pipes (fst (stopHostProcess pm)) = (False, None, None)"
  using stop_quiet(1)[of pm] by (simp add: pipes_def)

lemma stopAll_quiet: "quiet (fst (pm_exec StopAll pm))"
  using stop_quiet[of pm] stop_quiet(2)[of "fst (stopHostProcess pm)"] by (simp add: quiet_pipes stopHost_pipes)

lemma pipes_fields [simp]:
  "pipes (pm\<lparr>pm_host := h\<rparr>) = pipes pm" "pipes (pm\<lparr>pm_client := c\<rparr>) = pipes pm"
  "pipes (pm\<lparr>pm_logDir := d\<rparr>) = pipes pm" "pipes (pm\<lparr>pm_configDir := d\<rparr>) = pipes pm"
  by (simp_all add: pipes_def)

lemma quiet_pipe_signals:
  assumes "quiet pm" "pipes pm' = pipes pm"
  shows "onServicePipeError sy pm' = (pm', [])" "pm_readSocket pm = None" "pm_writeSocket pm = None"
  using assms by (auto simp: quiet_def pipes_def onServicePipeError_def)

lemma quiet_timers: "quiet pm \<Longrightarrow> sp_restartTimer (get_sup w pm) = None"
  by (auto simp: quiet_def quiet_sup_def get_sup_def split: which.splits)

fun pipe_input :: "pm_input \<Rightarrow> bool" where
  "pipe_input (WriteConnected _) = True"
| "pipe_input ReadConnected = True"
| "pipe_input (PipeError _ _) = True"
| "pipe_input (PostedPipeError _) = True"
| "pipe_input (PipeTimeout _) = True"
| "pipe_input (ReadDisconnected _) = True"
| "pipe_input (RestartTimer _ _) = True"
| "pipe_input _ = False"

lemma quiet_pipe_exec:
  assumes "quiet pm" "pipe_input i"
  shows "quiet (fst (pm_exec i pm)) \<and> snd (pm_exec i pm) = []"
  using assms quiet_timers[OF assms(1)]
  by (cases i) (auto simp: quiet_def onServicePipeError_def)

lemma quiet_exec:
  assumes "quiet pm" "\<not> start_input i" "\<not> pipe_input i"
  shows "quiet (fst (pm_exec i pm))"
  using assms unfolding quiet_pipes
  by (cases i)
   (auto simp: pm_defs started_quiet stop_quiet Let_def fst_case_prod3 set_autoRestart_def
      stopHost_pipes signals_quiet escalate_quiet split: which.splits)

lemma stop_events [simp]:
  "filter start_event (snd (stopHostProcess pm)) = []" "filter start_event (snd (stopClientProcess pm)) = []"
  by (auto simp: stopHostProcess_def stopClientProcess_def upd_host_def upd_client_def stopSup_def stopIdle_def
      setProcessStatus_def Let_def)

lemma quiet_events:
  assumes "\<not> start_input i" "\<not> pipe_input i"
  shows "filter start_event (snd (pm_exec i pm)) = []"
  using assms
  by (cases i)
   (auto simp: pm_defs Let_def set_autoRestart_def stopAllProcesses_def onClientProcessStarted_def onHostProcessStarted_def
      onClientProcessFinished_def onClientProcessErrorOccurred_def onHostProcessFinished_def
      onHostProcessErrorOccurred_def upd_host_def upd_client_def setProcessStatus_def
      signals_events escalate_quiet split_beta split: which.splits)

lemma pm_run_snd_fst: 
  "fst (pm_run (i # is) pm) = fst (pm_run is (fst (pm_exec i pm)))"
  "snd (pm_run (i # is) pm) = snd (pm_exec i pm) @ snd (pm_run is (fst (pm_exec i pm)))"
  by (simp_all add: split_beta Let_def)

lemma pm_run_append: "fst (pm_run (is @ js) pm) = fst (pm_run js (fst (pm_run is pm)))"
  by (induction "is" arbitrary: pm) (simp_all add: pm_run_snd_fst del: pm_run.simps(2))

lemma quiet_run:
  "quiet pm \<Longrightarrow> filter start_input is = [] \<Longrightarrow>
   quiet (fst (pm_run is pm)) \<and> filter start_event (snd (pm_run is pm)) = []"
proof (induction "is" arbitrary: pm)
  case Nil
  then show ?case by simp
next
  case (Cons i "is")
  then have ns: "\<not> start_input i" "filter start_input is = []" by (auto split: if_splits)
  have "quiet (fst (pm_exec i pm)) \<and> filter start_event (snd (pm_exec i pm)) = []"
    using quiet_pipe_exec[OF Cons.prems(1)] quiet_exec[OF Cons.prems(1) ns(1)] quiet_events[OF ns(1)]
    by (cases "pipe_input i") auto
  then show ?case using Cons.IH[OF _ ns(2)] by (simp add: pm_run_snd_fst del: pm_run.simps)
qed

text \<open>
  C17. Stopping everything is final. From then on, until the user starts a process again, no signal, timer
  or setting makes the supervisor start a process or contact the service, and no restart is
  waiting: neither a crash during the stop, nor a pipe error already posted, nor a switched-on
  auto-restart revives anything.
\<close>

theorem stop_is_final:
  assumes "filter start_input is = []"
  shows "filter start_event (snd (pm_run is (fst (pm_exec StopAll pm)))) = []
    \<and> sp_restartTimer (get_sup w (fst (pm_run is (fst (pm_exec StopAll pm))))) = None"
  using quiet_run[OF stopAll_quiet assms, of pm] quiet_timers by blast


section \<open>Giving up\<close>

definition failed_restarts :: "sys \<Rightarrow> qstring \<Rightarrow> nat \<Rightarrow> pm_input list" where
  "failed_restarts sy msg n = concat (replicate n [RestartTimer Client sy, FailedStart Client msg])"

text \<open>The client is waiting for its nth restart.\<close>

definition waiting :: "sys \<Rightarrow> nat \<Rightarrow> sup \<Rightarrow> bool" where
  "waiting sy n s \<longleftrightarrow> sp_process s = Some PNotRunning \<and> sp_autoRestart s \<and> \<not> sp_stoppingIntentionally s
     \<and> sp_restartCount s = int n \<and> sp_restartTimer s = Some (calculateRestartDelay (int n))
     \<and> sp_exePath s \<noteq> [] \<and> sy_executable sy (sp_exePath s) \<and> sp_status s = Restarting"

lemma waiting_next:
  assumes "waiting sy n (pm_client pm)" "n < 5"
  shows "waiting sy (n + 1) (pm_client (fst (pm_run [RestartTimer Client sy, FailedStart Client msg] pm)))"
  using assms
  by (auto simp: waiting_def pm_defs onClientRestartTimer_def startClientProcess_def isClientRunning_def
      launch_def startProcess_def setProcessStatus_def resetProcess_def onProcessErrorOccurred_def scheduleRestart_def
      MAX_RESTART_ATTEMPTS_def split_beta Let_def add.commute[of 1 "int n"])

lemma waiting_last:
  assumes "waiting sy 5 (pm_client pm)"
  shows "sp_restartTimer (pm_client (fst (pm_run [RestartTimer Client sy, FailedStart Client msg] pm))) = None
    \<and> sp_status (pm_client (fst (pm_run [RestartTimer Client sy, FailedStart Client msg] pm))) = Failed"
  using assms
  by (auto simp: waiting_def pm_defs onClientRestartTimer_def startClientProcess_def isClientRunning_def
      launch_def startProcess_def setProcessStatus_def resetProcess_def onProcessErrorOccurred_def scheduleRestart_def
      MAX_RESTART_ATTEMPTS_def split_beta Let_def)

lemma failed_restarts_Suc:
  "failed_restarts sy msg (Suc n) = failed_restarts sy msg n @ [RestartTimer Client sy, FailedStart Client msg]"
  by (simp add: failed_restarts_def replicate_append_same[symmetric] del: replicate_append_same)

lemma waiting_run:
  "waiting sy 1 (pm_client pm) \<Longrightarrow> n \<le> 4 \<Longrightarrow> waiting sy (n + 1) (pm_client (fst (pm_run (failed_restarts sy msg n) pm)))"
proof (induction n)
  case 0
  then show ?case by (simp add: failed_restarts_def)
next
  case (Suc n)
  then show ?case
    using waiting_next[of sy "n + 1" "fst (pm_run (failed_restarts sy msg n) pm)" msg]
    by (simp add: failed_restarts_Suc pm_run_append del: pm_run.simps)
qed

text \<open>
  A client that cannot be started is tried again after 2, 4, 8, 16 and 32 seconds; when the fifth
  retry fails too, the supervisor reports Failed and no restart is waiting.
\<close>

theorem client_gives_up:
  assumes "sp_process (pm_client pm) = Some PStarting" "sp_autoRestart (pm_client pm)"
    and "\<not> sp_stoppingIntentionally (pm_client pm)" "sp_restartCount (pm_client pm) = 0"
    and "sp_exePath (pm_client pm) \<noteq> []" "sy_executable sy (sp_exePath (pm_client pm))" "sp_restartTimer (pm_client pm) = None"
  shows "(n < 5 \<longrightarrow>
      sp_restartTimer (pm_client (fst (pm_run (FailedStart Client msg # failed_restarts sy msg n) pm))) = Some (2000 * 2 ^ n)
      \<and> sp_status (pm_client (fst (pm_run (FailedStart Client msg # failed_restarts sy msg n) pm))) = Restarting)
    \<and> sp_restartTimer (pm_client (fst (pm_run (FailedStart Client msg # failed_restarts sy msg 5) pm))) = None
    \<and> sp_status (pm_client (fst (pm_run (FailedStart Client msg # failed_restarts sy msg 5) pm))) = Failed"
proof -
  let ?pm = "fst (pm_exec (FailedStart Client msg) pm)"
  have w: "waiting sy 1 (pm_client ?pm)"
    using assms by (auto simp: waiting_def pm_defs onProcessErrorOccurred_def scheduleRestart_def setProcessStatus_def
        MAX_RESTART_ATTEMPTS_def split_beta Let_def)
  have d: "calculateRestartDelay (int n + 1) = 2000 * 2 ^ n" if "n < 5" for n
  proof -
    have "n \<in> {0, 1, 2, 3, 4}" using that by auto
    then show ?thesis by (auto simp: calculateRestartDelay_def BASE_RESTART_DELAY_MS_def)
  qed
  have "failed_restarts sy msg 5 = failed_restarts sy msg 4 @ [RestartTimer Client sy, FailedStart Client msg]"
    using failed_restarts_Suc[of sy msg 4] by simp
  then show ?thesis
    using waiting_run[OF w, of n msg] d[of n] waiting_last[of sy "fst (pm_run (failed_restarts sy msg 4) ?pm)" msg]
      waiting_run[OF w, of 4 msg]
    by (auto simp: pm_run_snd_fst(1) pm_run_append waiting_def add.commute simp del: pm_run.simps pm_exec.simps)
qed


section \<open>A stop that is remembered too long\<close>

lemma stop_idle_client:
  assumes "sp_process (pm_client pm) = None \<or> sp_process (pm_client pm) = Some PNotRunning"
  shows "sp_process (pm_client (fst (pm_exec StopClient pm))) = None
    \<and> sp_stoppingIntentionally (pm_client (fst (pm_exec StopClient pm)))
    \<and> sp_exePath (pm_client (fst (pm_exec StopClient pm))) = sp_exePath (pm_client pm)
    \<and> sp_restartTimer (pm_client (fst (pm_exec StopClient pm))) = None"
  using assms by (auto simp: stopClientProcess_def stopSup_def stopIdle_def setProcessStatus_def resetProcess_def)

lemma start_client:
  assumes "sp_process (pm_client pm) = None" "sp_exePath (pm_client pm) \<noteq> []" "sy_executable sy (sp_exePath (pm_client pm))"
  shows "sp_process (pm_client (fst (pm_exec (StartClient sy) pm))) = Some PStarting
    \<and> sp_stoppingIntentionally (pm_client (fst (pm_exec (StartClient sy) pm))) = sp_stoppingIntentionally (pm_client pm)
    \<and> sp_restartTimer (pm_client (fst (pm_exec (StartClient sy) pm))) = sp_restartTimer (pm_client pm)"
  using assms by (auto simp: startClientProcess_def isClientRunning_def launch_def startProcess_def setProcessStatus_def
      resetProcess_def split_beta Let_def)

lemma started_client:
  assumes "sp_process (pm_client pm) = Some PStarting"
  shows "sp_process (pm_client (fst (pm_exec (Started Client) pm))) = Some PRunning
    \<and> sp_stoppingIntentionally (pm_client (fst (pm_exec (Started Client) pm))) = sp_stoppingIntentionally (pm_client pm)
    \<and> sp_restartTimer (pm_client (fst (pm_exec (Started Client) pm))) = sp_restartTimer (pm_client pm)"
  using assms by (auto simp: pm_defs started_quiet setProcessStatus_def)

lemma intended_exit_client:
  assumes "sp_process (pm_client pm) = Some PRunning" "sp_stoppingIntentionally (pm_client pm)"
  shows "sp_status (pm_client (fst (pm_exec (Exited Client c st) pm))) = NotStarted
    \<and> sp_restartTimer (pm_client (fst (pm_exec (Exited Client c st) pm))) = sp_restartTimer (pm_client pm)"
  using assms by (auto simp: pm_defs onProcessFinished_def setProcessStatus_def resetProcess_def split_beta Let_def)

text \<open>
  A stop of a client that is not running leaves the flag of an intentional stop set, and starting the
  client does not clear it: the client that is then started is not restarted when it crashes,
  although auto-restart is on.
\<close>

theorem idle_stop_swallows_crash:
  assumes "sp_process (pm_client pm) = None \<or> sp_process (pm_client pm) = Some PNotRunning"
    and "sp_exePath (pm_client pm) \<noteq> []" "sy_executable sy (sp_exePath (pm_client pm))"
  shows "sp_restartTimer (pm_client (fst (pm_run [StopClient, StartClient sy, Started Client, Exited Client c CrashExit] pm))) = None
    \<and> sp_status (pm_client (fst (pm_run [StopClient, StartClient sy, Started Client, Exited Client c CrashExit] pm))) = NotStarted"
proof -
  let ?p1 = "fst (pm_exec StopClient pm)" and ?p2 = "fst (pm_run [StopClient, StartClient sy] pm)"
  let ?p3 = "fst (pm_exec (Started Client) ?p2)"
  have r: "?p2 = fst (pm_exec (StartClient sy) ?p1)"
    "fst (pm_run [StopClient, StartClient sy, Started Client, Exited Client c CrashExit] pm) = fst (pm_exec (Exited Client c CrashExit) ?p3)"
    by (simp_all only: pm_run_snd_fst pm_run.simps(1) fst_conv)
  show ?thesis
    using stop_idle_client[OF assms(1)] start_client[of ?p1 sy] started_client[of ?p2]
      intended_exit_client[of ?p3 c CrashExit] assms(2,3) unfolding r by (simp del: pm_exec.simps pm_run.simps)
qed


section \<open>Concrete runs\<close>

definition any_sys :: sys where
  "any_sys = \<lparr>sy_executable = (\<lambda>_. True), sy_absolutePath = (\<lambda>_. ''/''), sy_absoluteFilePath = (\<lambda>p. p),
     sy_serviceRunning = False, sy_sessionId = 1, sy_appDir = ''/app''\<rparr>"

lemma pm_run_reachable: "reachable (\<lambda>pm. pm = ProcessManager_init) pm_step pm \<Longrightarrow>
   reachable (\<lambda>pm. pm = ProcessManager_init) pm_step (fst (pm_run is pm))"
proof (induction "is" arbitrary: pm)
  case (Cons i "is")
  have "pm_step pm (fst (pm_exec i pm))" unfolding pm_step_def by blast
  from Cons.IH[OF reach_step[OF Cons.prems this]] show ?case by (simp only: pm_run_snd_fst)
qed simp

lemmas pm_run_from_init = pm_run_reachable[OF reach_init, OF refl]

lemmas pm_eval = pm_defs client_defs sup_defs onProcessFinished_def onProcessErrorOccurred_def startProcess_def
  ProcessManager_init_def new_sup_def any_sys_def calculateRestartDelay_def BASE_RESTART_DELAY_MS_def
  MAX_RESTART_ATTEMPTS_def Let_def

definition starting_client :: "pm_input list" where
  "starting_client = [SetExePath Client ''client.exe'', StartClient any_sys]"

definition running_client :: "pm_input list" where
  "running_client = [SetExePath Client ''client.exe'', StartClient any_sys, Started Client]"

lemma starting_client_state:
  "sp_process (pm_client (fst (pm_run starting_client ProcessManager_init))) = Some PStarting"
  "sp_autoRestart (pm_client (fst (pm_run starting_client ProcessManager_init)))"
  "\<not> sp_stoppingIntentionally (pm_client (fst (pm_run starting_client ProcessManager_init)))"
  "sp_restartCount (pm_client (fst (pm_run starting_client ProcessManager_init))) = 0"
  "sp_exePath (pm_client (fst (pm_run starting_client ProcessManager_init))) = ''client.exe''"
  "sp_restartTimer (pm_client (fst (pm_run starting_client ProcessManager_init))) = None"
  by (simp_all add: starting_client_def pm_eval)

lemma running_client_state:
  "isClientRunning (fst (pm_run running_client ProcessManager_init))"
  "sp_autoRestart (pm_client (fst (pm_run running_client ProcessManager_init)))"
  "\<not> sp_stoppingIntentionally (pm_client (fst (pm_run running_client ProcessManager_init)))"
  by (simp_all add: running_client_def pm_eval)

theorem restart_delay_bounded_witness:
  "(2000 :: int) \<in> {2000, 4000, 8000, 16000, 32000}
   \<and> sp_restartTimer (get_sup Client (fst (pm_run (running_client @ [Exited Client 1 NormalExit]) ProcessManager_init))) = Some 2000"
proof -
  have "sp_restartTimer (get_sup Client (fst (pm_run (running_client @ [Exited Client 1 NormalExit]) ProcessManager_init))) = Some 2000"
    by (simp add: running_client_def pm_eval)
  then show ?thesis using restart_delay_bounded[OF pm_run_from_init] by blast
qed

theorem client_status_faithful_witness:
  "sp_status (pm_client (fst (pm_run running_client ProcessManager_init))) = Running
   \<and> sp_messaging (pm_client (fst (pm_run running_client ProcessManager_init)))"
  using client_status_faithful[OF pm_run_from_init] running_client_state(1) by blast

theorem client_crash_always_restarts_witness:
  "sp_restartTimer (pm_client (fst (pm_exec (Exited Client 3 NormalExit) (fst (pm_run running_client ProcessManager_init))))) = Some 2000"
  using client_crash_always_restarts[OF pm_run_from_init running_client_state, of NormalExit 3] by simp

theorem stop_is_final_witness:
  "filter start_event (snd (pm_run [SetAutoRestart Client True, Exited Client 1 CrashExit, RestartTimer Client any_sys]
     (fst (pm_exec StopAll (fst (pm_run running_client ProcessManager_init)))))) = []"
  using stop_is_final[of "[SetAutoRestart Client True, Exited Client 1 CrashExit, RestartTimer Client any_sys]"
      "fst (pm_run running_client ProcessManager_init)" Client]
  by (simp del: pm_run.simps pm_exec.simps)

theorem client_gives_up_witness:
  "sp_status (pm_client (fst (pm_run (FailedStart Client ''denied'' # failed_restarts any_sys ''denied'' 5)
     (fst (pm_run starting_client ProcessManager_init))))) = Failed"
  using client_gives_up[of "fst (pm_run starting_client ProcessManager_init)" any_sys 0 "''denied''"]
  by (simp add: starting_client_state any_sys_def del: pm_run.simps pm_exec.simps)

theorem idle_stop_swallows_crash_witness:
  "sp_status (pm_client (fst (pm_run [StopClient, StartClient any_sys, Started Client, Exited Client 9 CrashExit]
     (fst (pm_exec (SetExePath Client ''client.exe'') ProcessManager_init))))) = NotStarted"
  using idle_stop_swallows_crash[of "fst (pm_exec (SetExePath Client ''client.exe'') ProcessManager_init)" any_sys 9]
  by (simp add: any_sys_def setExePath_def ProcessManager_init_def new_sup_def del: pm_run.simps)



section \<open>The end of the process manager\<close>

text \<open>
  The destructor stops the timers and kills what still runs, without waiting for the phases of a stop and without any
  signal: the processes have been disconnected. It waits for each process for a second.
\<close>

definition destroy_sup :: "which \<Rightarrow> sup \<Rightarrow> sup \<times> pm_event list" where
  "destroy_sup w s =
     (let s1 = s\<lparr>sp_restartTimer := None, sp_autoRestart := False\<rparr>
      in case sp_process s1 of
           None \<Rightarrow> (s1, [])
         | Some p \<Rightarrow> (s1, if p \<noteq> PNotRunning then [killProcess w] else []))"

definition ProcessManager_destroy :: "process_manager \<Rightarrow> process_manager \<times> pm_event list" where
  "ProcessManager_destroy pm =
     (let (h, ev1) = destroy_sup Host (pm_host pm); (c, ev2) = destroy_sup Client (pm_client pm)
      in (pm\<lparr>pm_host := h, pm_client := c, pm_pipeConnectTimer := False\<rparr>, ev1 @ ev2))"

lemma destroy_sup_facts [simp]:
  "sp_restartTimer (fst (destroy_sup w s)) = None"
  "killProcess v \<in> set (snd (destroy_sup w s)) \<longleftrightarrow> v = w \<and> (\<exists>p. sp_process s = Some p \<and> p \<noteq> PNotRunning)"
  by (cases "sp_process s"; auto simp: destroy_sup_def Let_def)+

text \<open>It kills a process exactly if there is one that has not ended, and arms nothing.\<close>

lemma destroy_kills_running:
  "killProcess w \<in> set (snd (ProcessManager_destroy pm)) \<longleftrightarrow> (\<exists>p. sp_process (get_sup w pm) = Some p \<and> p \<noteq> PNotRunning)"
  by (cases w) (simp_all add: ProcessManager_destroy_def get_sup_def split_beta)

lemma destroy_arms_nothing:
  "sp_restartTimer (get_sup w (fst (ProcessManager_destroy pm))) = None \<and> \<not> pm_pipeConnectTimer (fst (ProcessManager_destroy pm))"
  by (cases w) (simp_all add: ProcessManager_destroy_def get_sup_def split_beta)

end
