(* ===== verification/SharedMemoryManager.thy ===== *)
theory SharedMemoryManager
  imports NativeMessaging
begin

text \<open>
  \<open>QuickDesk/src/manager/SharedMemoryManager.cpp\<close>: the video frames the client process writes into a
  shared memory region per device, and the checks made before a frame is copied out of it.

  A region is the list of its bytes at the time it is locked. Header fields and the sizes computed
  from them are 32-bit words, as in the code; a size that is then stored in an \<open>int\<close> is read as signed.
  A copy that leaves the region is undefined behaviour in C++ and the value \<open>OutOfBounds\<close> here. What the
  system answers (can the region be attached, can it be locked, what does it hold) is an argument.
\<close>


section \<open>Data\<close>

definition kSharedFrameMagic :: "32 word" where
  "kSharedFrameMagic = 0x51444656"

definition kSharedFrameVersion :: "32 word" where
  "kSharedFrameVersion = 1"

record frame_header =
  fh_magic :: "32 word"
  fh_version :: "32 word"
  fh_width :: "32 word"
  fh_height :: "32 word"
  fh_format :: "32 word"
  fh_frame_index :: "32 word"
  fh_timestamp_us :: "64 word"
  fh_data_size :: "32 word"
  fh_y_stride :: "32 word"
  fh_u_stride :: "32 word"
  fh_v_stride :: "32 word"

definition header_size :: nat where
  "header_size = 64"

text \<open>The packed little-endian fields at the start of the region.\<close>

definition quint32_at :: "nat \<Rightarrow> byte list \<Rightarrow> 32 word" where
  "quint32_at off mem = frame_length (drop off mem)"

definition header_of :: "byte list \<Rightarrow> frame_header" where
  "header_of mem = \<lparr>fh_magic = quint32_at 0 mem, fh_version = quint32_at 4 mem, fh_width = quint32_at 8 mem,
     fh_height = quint32_at 12 mem, fh_format = quint32_at 16 mem, fh_frame_index = quint32_at 20 mem,
     fh_timestamp_us = ucast (quint32_at 24 mem) OR push_bit 32 (ucast (quint32_at 28 mem)),
     fh_data_size = quint32_at 32 mem, fh_y_stride = quint32_at 36 mem, fh_u_stride = quint32_at 40 mem,
     fh_v_stride = quint32_at 44 mem\<rparr>"

record frame_data =
  fd_width :: "32 word"
  fd_height :: "32 word"
  fd_frameIndex :: "32 word"
  fd_timestampUs :: "64 word"
  fd_format :: "32 word"
  fd_data :: nat \<comment> \<open>offset of the data in the region\<close>
  fd_dataSize :: "32 word"

record shm_handle =
  sh_deviceId :: qstring
  sh_sharedMemoryName :: qstring
  sh_lastFrameIndex :: "32 word"
  sh_attached :: bool
  sh_isLocked :: bool

type_synonym shm_manager = "(qstring, shm_handle) qmap"

datatype shm_event =
    attachmentChanged qstring bool
  | frameReadError qstring qstring

record plane =
  pl_bytesPerLine :: "32 word"
  pl_data :: "byte list"

datatype read_result =
    NoFrame
  | Frame "32 word" "32 word" "plane list" \<comment> \<open>width, height, the three planes\<close>
  | OutOfBounds


section \<open>Attaching\<close>

definition shm_isAttached :: "qstring \<Rightarrow> shm_manager \<Rightarrow> bool" where
  "shm_isAttached deviceId m = (case map_of m deviceId of None \<Rightarrow> False | Some h \<Rightarrow> sh_attached h)"

definition shm_detach :: "qstring \<Rightarrow> shm_manager \<Rightarrow> shm_manager \<times> shm_event list" where
  "shm_detach deviceId m =
     (if \<not> qm_contains m deviceId then (m, []) else (qm_remove deviceId m, [attachmentChanged deviceId False]))"

text \<open>\<open>attachError\<close> is the error text of \<open>QSharedMemory::attach\<close>, \<open>None\<close> if it succeeds.\<close>

definition shm_open :: "qstring option \<Rightarrow> qstring \<Rightarrow> qstring \<Rightarrow> shm_manager \<Rightarrow> shm_manager \<times> shm_event list \<times> bool" where
  "shm_open attachError deviceId sharedMemoryName m =
     (case attachError of
        Some e \<Rightarrow> (m, [frameReadError deviceId (''Failed to attach: '' @ e)], False)
      | None \<Rightarrow> (qm_insert deviceId \<lparr>sh_deviceId = deviceId, sh_sharedMemoryName = sharedMemoryName,
                   sh_lastFrameIndex = 0, sh_attached = True, sh_isLocked = False\<rparr> m,
                 [attachmentChanged deviceId True], True))"

definition shm_attach :: "qstring option \<Rightarrow> qstring \<Rightarrow> qstring \<Rightarrow> shm_manager \<Rightarrow> shm_manager \<times> shm_event list \<times> bool" where
  "shm_attach attachError deviceId sharedMemoryName m =
     (case map_of m deviceId of
        None \<Rightarrow> shm_open attachError deviceId sharedMemoryName m
      | Some h \<Rightarrow>
          if sh_sharedMemoryName h = sharedMemoryName \<and> sh_attached h then (m, [], True)
          else
            let (m1, ev1) = shm_detach deviceId m;
                (m2, ev2, ok) = shm_open attachError deviceId sharedMemoryName m1
            in (m2, ev1 @ ev2, ok))"

definition shm_detachAll :: "shm_manager \<Rightarrow> shm_manager \<times> shm_event list" where
  "shm_detachAll m = ([], map (\<lambda>(k, h). attachmentChanged (sh_deviceId h) False) m)"


section \<open>Reading a frame\<close>

text \<open>
  \<open>QByteArray(data, size)\<close>: \<open>size\<close> bytes are copied; a negative size stands for a NUL-terminated string.
\<close>

definition copy_bytes :: "byte list \<Rightarrow> nat \<Rightarrow> int \<Rightarrow> byte list option" where
  "copy_bytes mem off sz =
     (if sz < 0
      then (if 0 \<in> set (drop off mem) then Some (takeWhile (\<lambda>b. b \<noteq> 0) (drop off mem)) else None)
      else if off + nat sz \<le> length mem then Some (take (nat sz) (drop off mem)) else None)"

definition expectedSize :: "frame_header \<Rightarrow> 32 word" where
  "expectedSize h = fh_y_stride h * fh_height h + fh_u_stride h * (fh_height h div 2) + fh_v_stride h * (fh_height h div 2)"

definition copy_planes :: "byte list \<Rightarrow> frame_header \<Rightarrow> read_result" where
  "copy_planes mem h =
     (let sizeY = fh_y_stride h * fh_height h;
          uOff = header_size + unat sizeY;
          sizeU = fh_u_stride h * (fh_height h div 2);
          vOff = uOff + unat sizeU;
          sizeV = fh_v_stride h * (fh_height h div 2)
      in case (copy_bytes mem header_size (sint sizeY), copy_bytes mem uOff (sint sizeU), copy_bytes mem vOff (sint sizeV)) of
           (Some y, Some u, Some v) \<Rightarrow>
             Frame (fh_width h) (fh_height h)
               [\<lparr>pl_bytesPerLine = fh_y_stride h, pl_data = y\<rparr>, \<lparr>pl_bytesPerLine = fh_u_stride h, pl_data = u\<rparr>,
                \<lparr>pl_bytesPerLine = fh_v_stride h, pl_data = v\<rparr>]
         | _ \<Rightarrow> OutOfBounds)"

definition header_ok :: "frame_header \<Rightarrow> bool" where
  "header_ok h \<longleftrightarrow> fh_magic h = kSharedFrameMagic \<and> fh_version h = kSharedFrameVersion"

definition size_ok :: "frame_header \<Rightarrow> bool" where
  "size_ok h \<longleftrightarrow> 0 < fh_width h \<and> 0 < fh_height h \<and> fh_width h \<le> 8192 \<and> fh_height h \<le> 8192"

text \<open>
  \<open>mem\<close> is \<open>None\<close> if the region cannot be locked or has no data. Reading a header from a region shorter
  than a header leaves it (for \<open>lockFrame\<close> and \<open>frameSize\<close> the region is taken to hold a header).
\<close>

definition readVideoFrame :: "byte list option \<Rightarrow> qstring \<Rightarrow> shm_manager \<Rightarrow> shm_manager \<times> read_result" where
  "readVideoFrame mem deviceId m =
     (case map_of m deviceId of
        None \<Rightarrow> (m, NoFrame)
      | Some handle \<Rightarrow>
          if \<not> sh_attached handle then (m, NoFrame)
          else case mem of
            None \<Rightarrow> (m, NoFrame)
          | Some bytes \<Rightarrow>
              if length bytes < header_size then (m, OutOfBounds)
              else
                let h = header_of bytes
                in if \<not> header_ok h then (m, NoFrame)
                   else
                     let m1 = qm_insert deviceId (handle\<lparr>sh_lastFrameIndex := fh_frame_index h\<rparr>) m
                     in if size_ok h \<and> fh_data_size h = expectedSize h
                        then (m1, copy_planes bytes h) else (m1, NoFrame))"

definition lockFrame :: "byte list option \<Rightarrow> bool \<Rightarrow> qstring \<Rightarrow> shm_manager \<Rightarrow> shm_manager \<times> frame_data option" where
  "lockFrame mem locks deviceId m =
     (case map_of m deviceId of
        None \<Rightarrow> (m, None)
      | Some handle \<Rightarrow>
          if \<not> sh_attached handle \<or> sh_isLocked handle \<or> \<not> locks then (m, None)
          else case mem of
            None \<Rightarrow> (qm_insert deviceId (handle\<lparr>sh_isLocked := False\<rparr>) m, None)
          | Some bytes \<Rightarrow>
              let h = header_of bytes;
                  expected = fh_width h * fh_height h + (fh_width h div 2) * (fh_height h div 2) * 2
              in if \<not> header_ok h \<or> fh_width h = 0 \<or> fh_height h = 0 \<or> fh_width h > 8192 \<or> fh_height h > 8192
                    \<or> fh_data_size h \<noteq> expected
                 then (qm_insert deviceId (handle\<lparr>sh_isLocked := False\<rparr>) m, None)
                 else (qm_insert deviceId (handle\<lparr>sh_isLocked := True, sh_lastFrameIndex := fh_frame_index h\<rparr>) m,
                       Some \<lparr>fd_width = fh_width h, fd_height = fh_height h, fd_frameIndex = fh_frame_index h,
                         fd_timestampUs = fh_timestamp_us h, fd_format = fh_format h, fd_data = header_size,
                         fd_dataSize = fh_data_size h\<rparr>))"

definition unlockFrame :: "qstring \<Rightarrow> shm_manager \<Rightarrow> shm_manager" where
  "unlockFrame deviceId m =
     (case map_of m deviceId of
        None \<Rightarrow> m
      | Some h \<Rightarrow> if sh_isLocked h then qm_insert deviceId (h\<lparr>sh_isLocked := False\<rparr>) m else m)"

text \<open>\<open>QSize()\<close>, the size of no frame, is \<open>None\<close>.\<close>

definition frameSize :: "byte list option \<Rightarrow> qstring \<Rightarrow> shm_manager \<Rightarrow> (int \<times> int) option" where
  "frameSize mem deviceId m =
     (if \<not> shm_isAttached deviceId m then None
      else case mem of
        None \<Rightarrow> None
      | Some bytes \<Rightarrow>
          if fh_magic (header_of bytes) = kSharedFrameMagic
          then Some (sint (fh_width (header_of bytes)), sint (fh_height (header_of bytes))) else None)"

definition lastFrameIndex :: "qstring \<Rightarrow> shm_manager \<Rightarrow> 32 word" where
  "lastFrameIndex deviceId m = (case map_of m deviceId of None \<Rightarrow> 0 | Some h \<Rightarrow> sh_lastFrameIndex h)"

definition isNewFrame :: "qstring \<Rightarrow> 32 word \<Rightarrow> shm_manager \<Rightarrow> bool" where
  "isNewFrame deviceId currentFrameIndex m =
     (case map_of m deviceId of None \<Rightarrow> True | Some h \<Rightarrow> currentFrameIndex > sh_lastFrameIndex h)"



section \<open>What a reader gets\<close>

text \<open>The size of the three planes as natural numbers, without wrap-around.\<close>

definition frame_bytes :: "frame_header \<Rightarrow> nat" where
  "frame_bytes h = unat (fh_y_stride h) * unat (fh_height h)
     + unat (fh_u_stride h) * (unat (fh_height h) div 2) + unat (fh_v_stride h) * (unat (fh_height h) div 2)"

lemma unat_mult_small: "unat (a :: 32 word) * unat b < 2 ^ 31 \<Longrightarrow> unat (a * b) = unat a * unat b"
  by (simp add: unat_word_ariths)

lemma sint_small:
  assumes "unat (a :: 32 word) < 2 ^ 31"
  shows "sint a = int (unat a)"
proof -
  have "uint a < 2 ^ 31" using assms by (metis of_nat_less_iff of_nat_numeral of_nat_power uint_nat)
  then have "signed_take_bit 31 (uint a) = uint a" 
    using order_trans[of "- (2 ^ 31)" 0 "uint a"] by (intro signed_take_bit_int_eq_self) auto
  then show ?thesis by (simp add: sint_uint)
qed

lemma frame_bytes_words:
  assumes "frame_bytes h < 2 ^ 31"
  shows "unat (fh_y_stride h * fh_height h) = unat (fh_y_stride h) * unat (fh_height h)"
    "unat (fh_u_stride h * (fh_height h div 2)) = unat (fh_u_stride h) * (unat (fh_height h) div 2)"
    "unat (fh_v_stride h * (fh_height h div 2)) = unat (fh_v_stride h) * (unat (fh_height h) div 2)"
    "unat (expectedSize h) = frame_bytes h"
proof -
  have d: "unat (fh_height h div 2) = unat (fh_height h) div 2" by (simp add: unat_div)
  show y: "unat (fh_y_stride h * fh_height h) = unat (fh_y_stride h) * unat (fh_height h)"
    and u: "unat (fh_u_stride h * (fh_height h div 2)) = unat (fh_u_stride h) * (unat (fh_height h) div 2)"
    and v: "unat (fh_v_stride h * (fh_height h div 2)) = unat (fh_v_stride h) * (unat (fh_height h) div 2)"
    using assms by (auto simp: frame_bytes_def d unat_mult_small)
  show "unat (expectedSize h) = frame_bytes h"
    using assms by (simp add: expectedSize_def unat_word_ariths(1) y u v frame_bytes_def)
qed

lemma copy_bytes_inside: "off + n \<le> length mem \<Longrightarrow> copy_bytes mem off (int n) = Some (take n (drop off mem))"
  by (simp add: copy_bytes_def)

lemma copy_bytes_outside: "length mem < off + n \<Longrightarrow> copy_bytes mem off (int n) = None"
  by (simp add: copy_bytes_def)

lemma slices: "take a xs @ take b (drop a xs) @ take c (drop (a + b) xs) = take (a + b + c) xs"
  by (simp add: take_add add.commute[of b a])

lemma slices_length:
  assumes "a + b + c \<le> length xs"
  shows "length (take a xs) = a" "length (take b (drop a xs)) = b" "length (take c (drop (a + b) xs)) = c"
  using assms by simp_all

lemma readVideoFrame_accepted:
  assumes "map_of m d = Some handle" "sh_attached handle" "header_size \<le> length bytes"
    and "header_ok (header_of bytes)" "size_ok (header_of bytes)" "fh_data_size (header_of bytes) = expectedSize (header_of bytes)"
  shows "snd (readVideoFrame (Some bytes) d m) = copy_planes bytes (header_of bytes)"
  using assms by (simp add: readVideoFrame_def Let_def)

lemma copy_planes_inside:
  assumes "frame_bytes h < 2 ^ 31" and "header_size + frame_bytes h \<le> length bytes"
  shows "\<exists>py pu pv. copy_planes bytes h = Frame (fh_width h) (fh_height h) [py, pu, pv]
    \<and> pl_data py @ pl_data pu @ pl_data pv = take (frame_bytes h) (drop header_size bytes)
    \<and> length (pl_data py) = unat (pl_bytesPerLine py) * unat (fh_height h)
    \<and> length (pl_data pu) = unat (pl_bytesPerLine pu) * (unat (fh_height h) div 2)
    \<and> length (pl_data pv) = unat (pl_bytesPerLine pv) * (unat (fh_height h) div 2)"
proof -
  define a where "a = unat (fh_y_stride h) * unat (fh_height h)"
  define b where "b = unat (fh_u_stride h) * (unat (fh_height h) div 2)"
  define c where "c = unat (fh_v_stride h) * (unat (fh_height h) div 2)"
  let ?xs = "drop header_size bytes"
  note w = frame_bytes_words[OF assms(1), folded a_def b_def c_def]
  have fb: "frame_bytes h = a + b + c" by (simp add: frame_bytes_def a_def b_def c_def)
  have s: "sint (fh_y_stride h * fh_height h) = int a" "sint (fh_u_stride h * (fh_height h div 2)) = int b"
    "sint (fh_v_stride h * (fh_height h div 2)) = int c"
    using assms(1) fb by (simp_all add: sint_small w(1-3))
  have "copy_bytes bytes header_size (int a) = Some (take a ?xs)"
    "copy_bytes bytes (header_size + a) (int b) = Some (take b (drop a ?xs))"
    "copy_bytes bytes (header_size + a + b) (int c) = Some (take c (drop (a + b) ?xs))"
    using assms(2) fb by (simp_all add: copy_bytes_inside add_ac)
  then have p: "copy_planes bytes h = Frame (fh_width h) (fh_height h)
      [\<lparr>pl_bytesPerLine = fh_y_stride h, pl_data = take a ?xs\<rparr>,
       \<lparr>pl_bytesPerLine = fh_u_stride h, pl_data = take b (drop a ?xs)\<rparr>,
       \<lparr>pl_bytesPerLine = fh_v_stride h, pl_data = take c (drop (a + b) ?xs)\<rparr>]"
    by (simp add: copy_planes_def Let_def s w(1-3))
  have l: "a + b + c \<le> length ?xs" using assms(2) fb by simp
  show ?thesis
    unfolding p fb a_def[symmetric] by (rule exI, rule exI, rule exI, intro conjI, rule refl)
      (simp_all only: plane.simps slices slices_length[OF l], simp_all only: a_def b_def c_def)
qed

text \<open>
  A frame is copied exactly. If the header is valid, its sizes agree with its data size without overflow
  and the region holds that much data, the three planes are the data bytes in order, none
  missing and none read twice, and each has as many bytes as its lines need.
\<close>

theorem frame_copied_exactly:
  assumes "map_of m d = Some handle" "sh_attached handle"
    and "header_ok (header_of bytes)" "size_ok (header_of bytes)"
    and "unat (fh_data_size (header_of bytes)) = frame_bytes (header_of bytes)"
    and "frame_bytes (header_of bytes) < 2 ^ 31"
    and "header_size + frame_bytes (header_of bytes) \<le> length bytes"
  shows "\<exists>py pu pv. snd (readVideoFrame (Some bytes) d m)
        = Frame (fh_width (header_of bytes)) (fh_height (header_of bytes)) [py, pu, pv]
    \<and> pl_data py @ pl_data pu @ pl_data pv = take (frame_bytes (header_of bytes)) (drop header_size bytes)
    \<and> length (pl_data py) = unat (pl_bytesPerLine py) * unat (fh_height (header_of bytes))
    \<and> length (pl_data pu) = unat (pl_bytesPerLine pu) * (unat (fh_height (header_of bytes)) div 2)
    \<and> length (pl_data pv) = unat (pl_bytesPerLine pv) * (unat (fh_height (header_of bytes)) div 2)"
proof -
  have "fh_data_size (header_of bytes) = expectedSize (header_of bytes)"
    by (rule word_unat_eq_iff[THEN iffD2]) (simp only: assms(5) frame_bytes_words(4)[OF assms(6)])
  moreover have "header_size \<le> length bytes" using assms(7) by simp
  ultimately show ?thesis
    using readVideoFrame_accepted[OF assms(1,2) _ assms(3,4)] copy_planes_inside[OF assms(6,7)] by simp
qed

text \<open>
  The size of the region is never consulted: a header whose own fields agree is believed, so if it
  announces a luminance plane longer than the region the copy leaves the region.
\<close>

theorem oversized_frame_leaves_region:
  assumes "map_of m d = Some handle" "sh_attached handle" "header_size \<le> length bytes"
    and "header_ok (header_of bytes)" "size_ok (header_of bytes)" "fh_data_size (header_of bytes) = expectedSize (header_of bytes)"
    and "unat (fh_y_stride (header_of bytes)) * unat (fh_height (header_of bytes)) < 2 ^ 31"
    and "length bytes < header_size + unat (fh_y_stride (header_of bytes)) * unat (fh_height (header_of bytes))"
  shows "snd (readVideoFrame (Some bytes) d m) = OutOfBounds"
proof -
  let ?h = "header_of bytes" and ?n = "unat (fh_y_stride (header_of bytes)) * unat (fh_height (header_of bytes))"
  have "sint (fh_y_stride ?h * fh_height ?h) = int ?n"
    using unat_mult_small[OF assms(7)] sint_small[of "fh_y_stride ?h * fh_height ?h"] assms(7) by simp
  then have "copy_bytes bytes header_size (sint (fh_y_stride ?h * fh_height ?h)) = None"
    using copy_bytes_outside[OF assms(8)] by simp
  then show ?thesis
    unfolding readVideoFrame_accepted[OF assms(1-6)] by (simp add: copy_planes_def Let_def)
qed

text \<open>
  The frame counter is compared, not tested for a change: once the last index read is the largest
  32-bit number, no later frame counts as new.
\<close>

lemma frame_counter_sticks:
  assumes "lastFrameIndex d m = - 1"
  shows "\<not> isNewFrame d i m"
  using assms by (auto simp: lastFrameIndex_def isNewFrame_def split: option.splits)


text \<open>The header of a frame of two by two pixels: strides 2, 1 and 1, six data bytes.\<close>

definition demo_frame :: "byte list \<Rightarrow> byte list" where
  "demo_frame payload = [0x56, 0x46, 0x44, 0x51,  1, 0, 0, 0,  2, 0, 0, 0,  2, 0, 0, 0,  3, 0, 0, 0,
     7, 0, 0, 0,  0, 0, 0, 0,  0, 0, 0, 0,  6, 0, 0, 0,  2, 0, 0, 0,  1, 0, 0, 0,  1, 0, 0, 0]
     @ replicate 16 0 @ payload"

definition demo_shm :: shm_manager where
  "demo_shm = fst (shm_attach None ''dev'' ''shm'' [])"

lemma demo_shm_handle: "map_of demo_shm ''dev'' = Some \<lparr>sh_deviceId = ''dev'', sh_sharedMemoryName = ''shm'',
    sh_lastFrameIndex = 0, sh_attached = True, sh_isLocked = False\<rparr>"
  by (simp add: demo_shm_def shm_attach_def shm_open_def)

lemma demo_frame_header:
  "header_of (demo_frame payload) = \<lparr>fh_magic = 0x51444656, fh_version = 1, fh_width = 2, fh_height = 2,
     fh_format = 3, fh_frame_index = 7, fh_timestamp_us = 0, fh_data_size = 6, fh_y_stride = 2,
     fh_u_stride = 1, fh_v_stride = 1\<rparr>"
  by (simp add: header_of_def quint32_at_def frame_length_def demo_frame_def)

lemma demo_frame_data: "length (demo_frame payload) = 64 + length payload" "drop 64 (demo_frame payload) = payload"
  by (simp_all add: demo_frame_def)

lemmas demo_frame_eval = demo_frame_header demo_frame_data header_ok_def size_ok_def kSharedFrameMagic_def
  kSharedFrameVersion_def frame_bytes_def expectedSize_def header_size_def

theorem frame_copied_exactly_witness:
  "\<exists>py pu pv. snd (readVideoFrame (Some (demo_frame [1, 2, 3, 4, 5, 6])) ''dev'' demo_shm) = Frame 2 2 [py, pu, pv]
    \<and> pl_data py @ pl_data pu @ pl_data pv = [1, 2, 3, 4, 5, 6]"
  using frame_copied_exactly[OF demo_shm_handle, of "demo_frame [1, 2, 3, 4, 5, 6]"]
  by (auto simp: demo_frame_eval)

theorem oversized_frame_leaves_region_witness:
  "snd (readVideoFrame (Some (demo_frame [1, 2])) ''dev'' demo_shm) = OutOfBounds"
  by (rule oversized_frame_leaves_region[OF demo_shm_handle]) (simp_all add: demo_frame_eval)

end
