(* ===== verification/Actions.thy ===== *)
theory Actions
  imports Prelude
begin

text \<open>
  Sequencing. A handler maps a state to the new state and the signals it emits, in order. \<open>seq\<close> runs
  the statements of a handler one after another, \<open>guarded\<close> is an \<open>if\<close> without \<open>else\<close>, \<open>for_each\<close> a loop over a list.
\<close>

type_synonym ('s, 'e) action = "'s \<Rightarrow> 's \<times> 'e list"

definition emit :: "'e list \<Rightarrow> ('s, 'e) action" where
  "emit evs s = (s, evs)"

definition modify :: "('s \<Rightarrow> 's) \<Rightarrow> ('s, 'e) action" where
  "modify f s = (f s, [])"

definition guarded :: "bool \<Rightarrow> ('s, 'e) action \<Rightarrow> ('s, 'e) action" where
  "guarded b a s = (if b then a s else (s, []))"

fun seq :: "('s, 'e) action list \<Rightarrow> ('s, 'e) action" where
  "seq [] s = (s, [])"
| "seq (a # as) s = (let (s1, ev1) = a s; (s2, ev2) = seq as s1 in (s2, ev1 @ ev2))"

definition for_each :: "('a \<Rightarrow> ('s, 'e) action) \<Rightarrow> 'a list \<Rightarrow> ('s, 'e) action" where
  "for_each f xs = seq (map f xs)"

lemma action_simps [simp]:
  "fst (emit evs s) = s" "snd (emit evs s) = evs"
  "fst (modify f s) = f s" "snd (modify f s) = []"
  "guarded True a s = a s" "guarded False a s = (s, [])"
  by (simp_all add: emit_def modify_def guarded_def)

lemma seq_Cons: "fst (seq (a # as) s) = fst (seq as (fst (a s)))"
  "snd (seq (a # as) s) = snd (a s) @ snd (seq as (fst (a s)))"
  by (simp_all add: split_beta Let_def)

lemma for_each_Nil [simp]: "for_each f [] s = (s, [])"
  by (simp add: for_each_def)

lemma for_each_Cons: "fst (for_each f (x # xs) s) = fst (for_each f xs (fst (f x s)))"
  "snd (for_each f (x # xs) s) = snd (f x s) @ snd (for_each f xs (fst (f x s)))"
  by (simp_all add: for_each_def seq_Cons del: seq.simps)

text \<open>An invariant of every statement is an invariant of the handler.\<close>

definition keeps :: "('s \<Rightarrow> bool) \<Rightarrow> ('s, 'e) action \<Rightarrow> bool" where
  "keeps I a \<longleftrightarrow> (\<forall>s. I s \<longrightarrow> I (fst (a s)))"

lemma keepsI: "(\<And>s. I s \<Longrightarrow> I (fst (a s))) \<Longrightarrow> keeps I a"
  by (simp add: keeps_def)

lemma keepsD: "keeps I a \<Longrightarrow> I s \<Longrightarrow> I (fst (a s))"
  by (simp add: keeps_def)

lemma keeps_emit [simp]: "keeps I (emit evs)"
  by (simp add: keeps_def)

lemma keeps_guarded: "keeps I a \<Longrightarrow> keeps I (guarded b a)"
  by (simp add: keeps_def guarded_def)

lemma keeps_seq: "(\<And>a. a \<in> set as \<Longrightarrow> keeps I a) \<Longrightarrow> keeps I (seq as)"
proof (induction as)
  case Nil
  then show ?case by (simp add: keeps_def)
next
  case (Cons a as)
  then show ?case by (simp add: keeps_def seq_Cons del: seq.simps)
qed

lemma keeps_for_each: "(\<And>x. x \<in> set xs \<Longrightarrow> keeps I (f x)) \<Longrightarrow> keeps I (for_each f xs)"
  unfolding for_each_def by (rule keeps_seq) auto

lemma keeps_if: "(b \<Longrightarrow> keeps I a) \<Longrightarrow> (\<not> b \<Longrightarrow> keeps I a') \<Longrightarrow> keeps I (\<lambda>s. if b then a s else a' s)"
  by (simp add: keeps_def)

text \<open>A part of the state no statement touches.\<close>

lemma seq_frame: "(\<And>a t. a \<in> set as \<Longrightarrow> g (fst (a t)) = g t) \<Longrightarrow> g (fst (seq as s)) = g s"
  by (induction as arbitrary: s) (simp_all add: seq_Cons del: seq.simps(2))

end
