(* ===== verification/ClientManager.thy ===== *)
theory ClientManager
  imports FileTransferQueue SharedMemoryManager Actions
begin

text \<open>
  \<open>QuickDesk/src/manager/ClientManager.cpp\<close>: the connections to remote devices. The rest of the program
  names a connection by its device; the client process by a connection identifier. The class keeps the
  table of connections and the reverse table, translates every command and message between the two,
  and drives the file transfer queue and the shared memory of a connection.

  The channel is the model of \<open>NativeMessaging\<close>, the queue that of \<open>FileTransferQueue\<close>, the frames that of
  \<open>SharedMemoryManager\<close>; their signals are handled where the code connects them: an error of the channel
  ends all file sessions, a command of the queue is sent or its session ended, and a change of a
  connection's state reconciles its session. \<open>client_env\<close> holds what the system answers during a call.
\<close>


section \<open>Data\<close>

datatype rtc_status = RtcDisconnected | RtcConnecting | RtcConnected | RtcFailed

record connection_info =
  ci_connectionId :: qstring
  ci_deviceId :: qstring
  ci_deviceName :: qstring
  ci_rtcState :: rtc_status
  ci_connectedAt :: qstring
  ci_width :: int
  ci_height :: int
  ci_signalingState :: qstring
  ci_signalingRetryCount :: int
  ci_signalingNextRetryIn :: int
  ci_signalingError :: qstring
  ci_supportsSendAttentionSequence :: bool
  ci_supportsLockWorkstation :: bool
  ci_supportsFileTransfer :: bool
  ci_supportsPrivacyScreen :: bool
  ci_supportsVirtualDisplay :: bool

definition new_connection :: connection_info where
  "new_connection = \<lparr>ci_connectionId = [], ci_deviceId = [], ci_deviceName = [], ci_rtcState = RtcDisconnected,
     ci_connectedAt = [], ci_width = 0, ci_height = 0, ci_signalingState = ''disconnected'',
     ci_signalingRetryCount = 0, ci_signalingNextRetryIn = 0, ci_signalingError = [],
     ci_supportsSendAttentionSequence = False, ci_supportsLockWorkstation = False,
     ci_supportsFileTransfer = False, ci_supportsPrivacyScreen = False, ci_supportsVirtualDisplay = False\<rparr>"

record client_manager =
  cm_fileTransfers :: ft_queue
  cm_messaging :: "native_messaging option"
  cm_sharedMemory :: shm_manager
  cm_connections :: "(qstring, connection_info) qmap"
  cm_connIdToDeviceId :: "(qstring, qstring) qmap"
  cm_activeDeviceId :: qstring
  cm_connectionCounter :: nat
  cm_iceConfig :: jobject

datatype cm_event =
    cm_fileTransferTasksChanged
  | cm_fileTransferNotice qstring qstring
  | cm_connectionCountChanged
  | cm_activeConnectionChanged
  | cm_helloResponseReceived qstring
  | cm_signalingStateChanged qstring qstring int int qstring
  | cm_connectionStateChanged qstring qstring jobject
  | cm_connectionAdded qstring
  | cm_connectionRemoved qstring
  | cm_connectionListChanged
  | cm_videoFrameReady qstring int
  | cm_clipboardReceived qstring qstring
  | cm_skillBridgeResponseReceived qstring jobject
  | cm_errorOccurred qstring qstring qstring
  | cm_cursorShapeChanged qstring int int int int "byte list"
  | cm_performanceStatsUpdated qstring jobject
  | cm_videoLayoutChanged qstring int int
  | cm_displayListChanged qstring "json list" int
  | cm_routeChanged qstring jobject
  | cm_hostCapabilitiesChanged qstring bool bool bool bool bool
  | cm_fileTransferProgress qstring qstring qstring real real
  | cm_fileTransferComplete qstring qstring qstring
  | cm_fileTransferError qstring qstring qstring
  | cm_fileDownloadStarted qstring qstring qstring real
  | cm_fileDownloadProgress qstring qstring qstring real real
  | cm_fileDownloadComplete qstring qstring qstring qstring
  | cm_fileDownloadError qstring qstring qstring
  | cm_virtualDisplayStateChanged qstring jobject
  | cm_sharedMemory_event shm_event
  | cm_sent jobject \<comment> \<open>a message written to the channel\<close>

record client_env =
  ce_toJson :: "jobject \<Rightarrow> byte list"
  ce_compact :: "jobject \<Rightarrow> qstring"
  ce_fromJson :: "qstring \<Rightarrow> json_doc"
  ce_fromBase64 :: "qstring \<Rightarrow> byte list"
  ce_write :: "byte list \<Rightarrow> int"
  ce_apiKey :: qstring
  ce_preferredVideoCodec :: qstring
  ce_fs :: file_env
  ce_uuid :: qstring
  ce_downloadLocation :: qstring
  ce_attachError :: "qstring option"
  ce_copyToClipboard :: "qstring \<Rightarrow> bool"

definition ClientManager_init :: client_manager where
  "ClientManager_init = \<lparr>cm_fileTransfers = FileTransferQueue_init, cm_messaging = None, cm_sharedMemory = [],
     cm_connections = [], cm_connIdToDeviceId = [], cm_activeDeviceId = [], cm_connectionCounter = 0,
     cm_iceConfig = []\<rparr>"

type_synonym cm_action = "(client_manager, cm_event) action"


section \<open>Tables\<close>

definition connectionIdFor :: "qstring \<Rightarrow> client_manager \<Rightarrow> qstring" where
  "connectionIdFor deviceId cm =
     (case map_of (cm_connections cm) deviceId of None \<Rightarrow> [] | Some c \<Rightarrow> ci_connectionId c)"

definition findDeviceId :: "qstring \<Rightarrow> client_manager \<Rightarrow> qstring" where
  "findDeviceId connectionId cm = qm_value [] (cm_connIdToDeviceId cm) connectionId"

definition conn_name :: "nat \<Rightarrow> qstring" where
  "conn_name n = ''conn_'' @ string_of_nat n"

definition generateConnectionId :: "client_manager \<Rightarrow> client_manager \<times> qstring" where
  "generateConnectionId cm =
     (let n = cm_connectionCounter cm + 1 in (cm\<lparr>cm_connectionCounter := n\<rparr>, conn_name n))"

definition getConnectionRtcState :: "qstring \<Rightarrow> client_manager \<Rightarrow> rtc_status" where
  "getConnectionRtcState deviceId cm =
     (case map_of (cm_connections cm) deviceId of None \<Rightarrow> RtcDisconnected | Some c \<Rightarrow> ci_rtcState c)"

definition supportsFileTransfer :: "qstring \<Rightarrow> client_manager \<Rightarrow> bool" where
  "supportsFileTransfer deviceId cm =
     (case map_of (cm_connections cm) deviceId of None \<Rightarrow> False | Some c \<Rightarrow> ci_supportsFileTransfer c)"

text \<open>\<open>m_connections[deviceId].field = value\<close>: \<open>QMap::operator[]\<close> inserts a default entry if there is none.\<close>

definition upd_conn :: "qstring \<Rightarrow> (connection_info \<Rightarrow> connection_info) \<Rightarrow> client_manager \<Rightarrow> client_manager" where
  "upd_conn deviceId f cm =
     cm\<lparr>cm_connections := qm_insert deviceId (f (qm_value new_connection (cm_connections cm) deviceId)) (cm_connections cm)\<rparr>"

definition cm_ready :: "client_manager \<Rightarrow> bool" where
  "cm_ready cm = (case cm_messaging cm of None \<Rightarrow> False | Some nm \<Rightarrow> isReady nm)"


section \<open>The channel and the queue\<close>

text \<open>Signals of the queue other than commands are passed on.\<close>

fun plain_signal :: "ft_event \<Rightarrow> cm_event list" where
  "plain_signal ft_changed = [cm_fileTransferTasksChanged]"
| "plain_signal (ft_notice d m) = [cm_fileTransferNotice d m]"
| "plain_signal (ft_commandRequested c) = []"

definition endTransfers :: "(ft_queue \<Rightarrow> ft_queue \<times> ft_event list) \<Rightarrow> cm_action" where
  "endTransfers f cm =
     (let (q, ev) = f (cm_fileTransfers cm) in (cm\<lparr>cm_fileTransfers := q\<rparr>, concat (map plain_signal ev)))"

definition onMessagingError :: "qstring \<Rightarrow> cm_action" where
  "onMessagingError error = seq [endTransfers endAllSessions, emit [cm_errorOccurred [] ''MESSAGING_ERROR'' error]]"

fun channel_signal :: "jobject \<Rightarrow> nm_event \<Rightarrow> cm_action" where
  "channel_signal message (nm_wrote bytes) = emit [cm_sent message]"
| "channel_signal message (nm_errorOccurred e) = onMessagingError e"
| "channel_signal message (nm_messageReceived m) = emit []"

definition send :: "client_env \<Rightarrow> jobject \<Rightarrow> cm_action" where
  "send env message cm =
     (case cm_messaging cm of
        None \<Rightarrow> (cm, [])
      | Some nm \<Rightarrow> for_each (channel_signal message) (sendMessage (ce_toJson env) (ce_write env) message nm) cm)"

text \<open>The slot of \<open>commandRequested\<close>.\<close>

definition onCommandRequested :: "client_env \<Rightarrow> jobject \<Rightarrow> cm_action" where
  "onCommandRequested env command cm =
     (let connectionId = toString (oget command ''connectionId'');
          deviceId = findDeviceId connectionId cm
      in if deviceId = [] \<or> \<not> cm_ready cm \<or> getConnectionRtcState deviceId cm \<noteq> RtcConnected
         then endTransfers (endSession connectionId) cm
         else send env command cm)"

fun queue_signal :: "client_env \<Rightarrow> ft_event \<Rightarrow> cm_action" where
  "queue_signal env (ft_commandRequested c) = onCommandRequested env c"
| "queue_signal env e = emit (plain_signal e)"

text \<open>A call of the queue: its signals are handled before it returns.\<close>

definition transfers :: "client_env \<Rightarrow> (ft_queue \<Rightarrow> ft_queue \<times> ft_event list) \<Rightarrow> cm_action" where
  "transfers env f cm =
     (let (q, ev) = f (cm_fileTransfers cm) in for_each (queue_signal env) ev (cm\<lparr>cm_fileTransfers := q\<rparr>))"

text \<open>The signal \<open>connectionStateChanged\<close> and the slot the constructor connects to it.\<close>

definition connectionState :: "qstring \<Rightarrow> qstring \<Rightarrow> jobject \<Rightarrow> cm_action" where
  "connectionState deviceId state hostInfo cm =
     seq [emit [cm_connectionStateChanged deviceId state hostInfo],
          endTransfers (reconcileSession (connectionIdFor deviceId cm) deviceId (state = ''connected'')
             (state = ''disconnected'' \<or> state = ''failed''))] cm"

definition detachMemory :: "qstring \<Rightarrow> cm_action" where
  "detachMemory deviceId cm =
     (let (m, ev) = shm_detach deviceId (cm_sharedMemory cm)
      in (cm\<lparr>cm_sharedMemory := m\<rparr>, map cm_sharedMemory_event ev))"

definition removeConnection :: "qstring \<Rightarrow> cm_action" where
  "removeConnection deviceId cm =
     (let connId = connectionIdFor deviceId cm
      in seq [endTransfers (endSession connId),
              guarded (qm_contains (cm_connections cm) deviceId)
                (modify (\<lambda>cm. cm\<lparr>cm_connIdToDeviceId := qm_remove connId (cm_connIdToDeviceId cm),
                                cm_connections := qm_remove deviceId (cm_connections cm)\<rparr>))] cm)"

definition setActiveDeviceId :: "qstring \<Rightarrow> cm_action" where
  "setActiveDeviceId deviceId cm =
     (if cm_activeDeviceId cm \<noteq> deviceId then (cm\<lparr>cm_activeDeviceId := deviceId\<rparr>, [cm_activeConnectionChanged])
      else (cm, []))"

text \<open>The end of the handlers that drop a connection: another one becomes the active one.\<close>

definition reselectActive :: "qstring \<Rightarrow> cm_action" where
  "reselectActive deviceId cm =
     (if cm_activeDeviceId cm = deviceId
      then setActiveDeviceId (case cm_connections cm of [] \<Rightarrow> [] | (k, _) # _ \<Rightarrow> k) cm
      else (cm, []))"

definition dropConnection :: "qstring \<Rightarrow> cm_action" where
  "dropConnection deviceId =
     seq [removeConnection deviceId,
          emit [cm_connectionCountChanged, cm_connectionRemoved deviceId, cm_connectionListChanged],
          reselectActive deviceId]"

text \<open>\<open>m_connections[deviceId].rtcState = ...; emit connectionStateChanged(...)\<close>, if the device is known.\<close>

definition noteState :: "qstring \<Rightarrow> rtc_status \<Rightarrow> qstring \<Rightarrow> cm_action" where
  "noteState deviceId rtc state cm =
     guarded (qm_contains (cm_connections cm) deviceId)
       (seq [modify (upd_conn deviceId (\<lambda>c. c\<lparr>ci_rtcState := rtc\<rparr>)), connectionState deviceId state []]) cm"


section \<open>Connections\<close>

text \<open>\<open>same\<close> tells whether the pointer passed is the one already set.\<close>

definition forgetDevice :: "qstring \<Rightarrow> cm_action" where
  "forgetDevice devId = seq [connectionState devId ''disconnected'' [], detachMemory devId, emit [cm_connectionRemoved devId]]"

definition clearConnections :: "client_manager \<Rightarrow> client_manager" where
  "clearConnections cm = cm\<lparr>cm_connections := [], cm_connIdToDeviceId := [], cm_activeDeviceId := []\<rparr>"

definition cm_setMessaging :: "bool \<Rightarrow> native_messaging option \<Rightarrow> cm_action" where
  "cm_setMessaging same messaging cm =
     seq [guarded (\<not> same) (endTransfers endAllSessions),
          modify (\<lambda>cm. cm\<lparr>cm_messaging := messaging\<rparr>),
          guarded (messaging = None)
            (let deviceIds = qm_keys (cm_connections cm)
             in seq [for_each forgetDevice deviceIds, modify clearConnections,
                     guarded (deviceIds \<noteq> [])
                       (emit [cm_connectionCountChanged, cm_activeConnectionChanged, cm_connectionListChanged])])] cm"

definition optional :: "bool \<Rightarrow> 'a \<Rightarrow> 'a list" where
  "optional b x = (if b then [x] else [])"

definition connectMessage :: "client_env \<Rightarrow> qstring \<Rightarrow> qstring \<Rightarrow> qstring \<Rightarrow> qstring \<Rightarrow> qstring \<Rightarrow> jobject \<Rightarrow> jobject" where
  "connectMessage env connectionId deviceId accessCode signalToken serverUrl iceConfig =
     mkobj ([(''type'', JStr ''connectToHost''), (''connectionId'', JStr connectionId), (''deviceId'', JStr deviceId),
             (''accessCode'', JStr accessCode), (''signalToken'', JStr signalToken), (''serverUrl'', JStr serverUrl)]
       @ optional (ce_apiKey env \<noteq> []) (''apiKey'', JStr (ce_apiKey env))
       @ optional (ce_preferredVideoCodec env \<noteq> []) (''preferredVideoCodec'', JStr (ce_preferredVideoCodec env))
       @ optional (iceConfig \<noteq> []) (''iceConfig'', JObj iceConfig))"

text \<open>The part of \<open>connectToHost\<close> after the checks.\<close>

definition openConnection :: "client_env \<Rightarrow> qstring \<Rightarrow> qstring \<Rightarrow> qstring \<Rightarrow> qstring \<Rightarrow> cm_action" where
  "openConnection env deviceId accessCode signalToken serverUrl cm =
     (let (cm1, connectionId) = generateConnectionId cm;
          conn = new_connection\<lparr>ci_connectionId := connectionId, ci_deviceId := deviceId, ci_rtcState := RtcConnecting\<rparr>;
          cm2 = cm1\<lparr>cm_connections := qm_insert deviceId conn (cm_connections cm1),
                    cm_connIdToDeviceId := qm_insert connectionId deviceId (cm_connIdToDeviceId cm1)\<rparr>
      in seq [send env (connectMessage env connectionId deviceId accessCode signalToken serverUrl (cm_iceConfig cm2)),
              emit [cm_connectionCountChanged, cm_connectionAdded deviceId, cm_connectionListChanged],
              guarded (cm_activeDeviceId cm2 = []) (setActiveDeviceId deviceId)] cm2)"

definition connectToHost ::
    "client_env \<Rightarrow> qstring \<Rightarrow> qstring \<Rightarrow> qstring \<Rightarrow> qstring \<Rightarrow> client_manager \<Rightarrow> client_manager \<times> cm_event list \<times> qstring" where
  "connectToHost env deviceId accessCode signalToken serverUrl cm =
     (if \<not> cm_ready cm then (cm, [cm_errorOccurred deviceId ''NOT_READY'' ''Client process is not ready''], [])
      else if signalToken = []
      then (cm, [cm_errorOccurred deviceId ''MISSING_SIGNAL_TOKEN''
                   ''signalToken is required (call verifyAccessCode first)''], [])
      else if qm_contains (cm_connections cm) deviceId
              \<and> getConnectionRtcState deviceId cm \<noteq> RtcDisconnected \<and> getConnectionRtcState deviceId cm \<noteq> RtcFailed
      then (cm, [], deviceId)
      else
        let (cm', ev) = seq [guarded (qm_contains (cm_connections cm) deviceId) (removeConnection deviceId),
                             openConnection env deviceId accessCode signalToken serverUrl] cm
        in (cm', ev, deviceId))"

definition disconnectFromHost :: "client_env \<Rightarrow> qstring \<Rightarrow> cm_action" where
  "disconnectFromHost env deviceId cm =
     (let connId = connectionIdFor deviceId cm
      in if \<not> cm_ready cm \<or> connId = [] then (cm, [])
         else seq [send env (mkobj [(''type'', JStr ''disconnectFromHost''), (''connectionId'', JStr connId)]),
                   noteState deviceId RtcDisconnected ''disconnected'',
                   detachMemory deviceId,
                   dropConnection deviceId] cm)"

definition disconnectDevice :: "qstring \<Rightarrow> cm_action" where
  "disconnectDevice devId =
     seq [modify (upd_conn devId (\<lambda>c. c\<lparr>ci_rtcState := RtcDisconnected\<rparr>)),
          connectionState devId ''disconnected'' [], detachMemory devId, emit [cm_connectionRemoved devId]]"

definition disconnectAll :: "client_env \<Rightarrow> cm_action" where
  "disconnectAll env cm =
     (if \<not> cm_ready cm then (cm, [])
      else seq [send env (mkobj [(''type'', JStr ''disconnectAll'')]),
                for_each disconnectDevice (qm_keys (cm_connections cm)),
                modify clearConnections,
                emit [cm_connectionCountChanged, cm_activeConnectionChanged, cm_connectionListChanged]] cm)"

definition cm_setIceConfig :: "jobject \<Rightarrow> client_manager \<Rightarrow> client_manager" where
  "cm_setIceConfig iceConfig cm = cm\<lparr>cm_iceConfig := iceConfig\<rparr>"

definition sendHello :: "client_env \<Rightarrow> qstring \<Rightarrow> qstring \<Rightarrow> cm_action" where
  "sendHello env deviceId preferredVideoCodec cm =
     (if \<not> cm_ready cm then (cm, [cm_errorOccurred [] ''NOT_READY'' ''Client process is not ready''])
      else send env (mkobj ([(''type'', JStr ''hello''), (''protocol_version'', JInt 3)]
             @ optional (deviceId \<noteq> []) (''deviceId'', JStr deviceId)
             @ optional (preferredVideoCodec \<noteq> []) (''preferredVideoCodec'', JStr preferredVideoCodec))) cm)"


section \<open>Commands to one device\<close>

text \<open>The frame every command shares: nothing unless the channel is ready and the device connected.\<close>

definition command :: "client_env \<Rightarrow> qstring \<Rightarrow> qstring \<Rightarrow> (qstring \<times> json) list \<Rightarrow> cm_action" where
  "command env deviceId type flds cm =
     (let connId = connectionIdFor deviceId cm
      in if \<not> cm_ready cm \<or> connId = [] then (cm, [])
         else send env (mkobj ([(''type'', JStr type), (''connectionId'', JStr connId)] @ flds)) cm)"

definition sendMouseEvent :: "client_env \<Rightarrow> qstring \<Rightarrow> qstring \<Rightarrow> int \<Rightarrow> int \<Rightarrow> int \<Rightarrow> int \<Rightarrow> int \<Rightarrow> cm_action" where
  "sendMouseEvent env deviceId eventType x y button wheelDeltaX wheelDeltaY =
     command env deviceId ''mouseEvent'' [(''eventType'', JStr eventType), (''x'', JInt x), (''y'', JInt y),
       (''button'', JInt button), (''wheelDeltaX'', JInt wheelDeltaX), (''wheelDeltaY'', JInt wheelDeltaY)]"

definition sendMouseMove :: "client_env \<Rightarrow> qstring \<Rightarrow> int \<Rightarrow> int \<Rightarrow> cm_action" where
  "sendMouseMove env deviceId x y = sendMouseEvent env deviceId ''move'' x y 0 0 0"

definition sendMousePress :: "client_env \<Rightarrow> qstring \<Rightarrow> int \<Rightarrow> int \<Rightarrow> int \<Rightarrow> cm_action" where
  "sendMousePress env deviceId x y button = sendMouseEvent env deviceId ''press'' x y button 0 0"

definition sendMouseRelease :: "client_env \<Rightarrow> qstring \<Rightarrow> int \<Rightarrow> int \<Rightarrow> int \<Rightarrow> cm_action" where
  "sendMouseRelease env deviceId x y button = sendMouseEvent env deviceId ''release'' x y button 0 0"

definition sendMouseWheel :: "client_env \<Rightarrow> qstring \<Rightarrow> int \<Rightarrow> int \<Rightarrow> int \<Rightarrow> int \<Rightarrow> cm_action" where
  "sendMouseWheel env deviceId x y deltaX deltaY = sendMouseEvent env deviceId ''wheel'' x y 0 deltaX deltaY"

definition sendKeyboardEvent :: "client_env \<Rightarrow> qstring \<Rightarrow> qstring \<Rightarrow> int \<Rightarrow> int \<Rightarrow> cm_action" where
  "sendKeyboardEvent env deviceId eventType nativeScanCode lockStates =
     command env deviceId ''keyboardEvent'' [(''eventType'', JStr eventType),
       (''nativeScanCode'', JInt nativeScanCode), (''lockStates'', JInt lockStates)]"

definition sendKeyPress :: "client_env \<Rightarrow> qstring \<Rightarrow> int \<Rightarrow> int \<Rightarrow> cm_action" where
  "sendKeyPress env deviceId nativeScanCode lockStates = sendKeyboardEvent env deviceId ''press'' nativeScanCode lockStates"

definition sendKeyRelease :: "client_env \<Rightarrow> qstring \<Rightarrow> int \<Rightarrow> int \<Rightarrow> cm_action" where
  "sendKeyRelease env deviceId nativeScanCode lockStates = sendKeyboardEvent env deviceId ''release'' nativeScanCode lockStates"

definition sendAction :: "client_env \<Rightarrow> qstring \<Rightarrow> qstring \<Rightarrow> cm_action" where
  "sendAction env deviceId act = command env deviceId ''sendAction'' [(''action'', JStr act)]"

definition releaseAllInput :: "client_env \<Rightarrow> qstring \<Rightarrow> cm_action" where
  "releaseAllInput env deviceId = sendAction env deviceId ''releaseAllInputAction''"

definition cm_togglePrivacyScreen :: "client_env \<Rightarrow> qstring \<Rightarrow> bool \<Rightarrow> cm_action" where
  "cm_togglePrivacyScreen env deviceId enabled =
     sendAction env deviceId (if enabled then ''enablePrivacyScreen'' else ''disablePrivacyScreen'')"

definition syncClipboard :: "client_env \<Rightarrow> qstring \<Rightarrow> qstring \<Rightarrow> cm_action" where
  "syncClipboard env deviceId str = command env deviceId ''clipboardSync'' [(''text'', JStr str)]"

definition sendSkillCommand :: "client_env \<Rightarrow> qstring \<Rightarrow> qstring \<Rightarrow> cm_action" where
  "sendSkillCommand env deviceId jsonData = command env deviceId ''skillBridgeSend'' [(''data'', JStr jsonData)]"

definition qBound :: "int \<Rightarrow> int \<Rightarrow> int \<Rightarrow> int" where
  "qBound lo v hi = max lo (min hi v)"

definition setTargetFramerate :: "client_env \<Rightarrow> qstring \<Rightarrow> int \<Rightarrow> cm_action" where
  "setTargetFramerate env deviceId framerate =
     command env deviceId ''setFramerate'' [(''framerate'', JInt (qBound 1 framerate 60))]"

definition setResolution :: "client_env \<Rightarrow> qstring \<Rightarrow> int \<Rightarrow> int \<Rightarrow> int \<Rightarrow> cm_action" where
  "setResolution env deviceId width height dpi =
     guarded (\<not> (width \<le> 0 \<or> height \<le> 0 \<or> width > 8192 \<or> height > 8192))
       (command env deviceId ''setResolution'' [(''width'', JInt width), (''height'', JInt height), (''dpi'', JInt dpi)])"

definition setFramerateBoost :: "client_env \<Rightarrow> qstring \<Rightarrow> bool \<Rightarrow> int \<Rightarrow> int \<Rightarrow> cm_action" where
  "setFramerateBoost env deviceId enabled captureIntervalMs boostDurationMs =
     command env deviceId ''setFramerateBoost'' [(''enabled'', JBool enabled),
       (''captureIntervalMs'', JInt (qBound 10 captureIntervalMs 1000)),
       (''boostDurationMs'', JInt (qBound 100 boostDurationMs 1000))]"

definition setBitrate :: "client_env \<Rightarrow> qstring \<Rightarrow> int \<Rightarrow> cm_action" where
  "setBitrate env deviceId minBitrateBps =
     guarded (\<not> minBitrateBps < 0) (command env deviceId ''setBitrate'' [(''minBitrateBps'', JInt minBitrateBps)])"

definition setAudioEnabled :: "client_env \<Rightarrow> qstring \<Rightarrow> bool \<Rightarrow> cm_action" where
  "setAudioEnabled env deviceId enabled = command env deviceId ''setAudioEnabled'' [(''enabled'', JBool enabled)]"

definition selectDisplay :: "client_env \<Rightarrow> qstring \<Rightarrow> int \<Rightarrow> cm_action" where
  "selectDisplay env deviceId displayIndex =
     command env deviceId ''selectDisplay'' [(''displayId'', JStr (string_of_int displayIndex))]"

definition virtualDisplayCommand :: "client_env \<Rightarrow> qstring \<Rightarrow> (qstring \<times> json) list \<Rightarrow> cm_action" where
  "virtualDisplayCommand env deviceId flds =
     command env deviceId ''virtualDisplayCommand'' [(''data'', JStr (ce_compact env (mkobj flds)))]"

definition createVirtualDisplay :: "client_env \<Rightarrow> qstring \<Rightarrow> int \<Rightarrow> int \<Rightarrow> int \<Rightarrow> cm_action" where
  "createVirtualDisplay env deviceId width height refreshRate =
     virtualDisplayCommand env deviceId [(''action'', JStr ''create''), (''width'', JInt width),
       (''height'', JInt height), (''refreshRate'', JInt refreshRate)]"

definition removeVirtualDisplay :: "client_env \<Rightarrow> qstring \<Rightarrow> int \<Rightarrow> cm_action" where
  "removeVirtualDisplay env deviceId index =
     virtualDisplayCommand env deviceId [(''action'', JStr ''remove''), (''index'', JInt index)]"

definition removeAllVirtualDisplays :: "client_env \<Rightarrow> qstring \<Rightarrow> cm_action" where
  "removeAllVirtualDisplays env deviceId = virtualDisplayCommand env deviceId [(''action'', JStr ''removeAll'')]"

definition queryVirtualDisplays :: "client_env \<Rightarrow> qstring \<Rightarrow> cm_action" where
  "queryVirtualDisplays env deviceId = virtualDisplayCommand env deviceId [(''action'', JStr ''query'')]"

definition cancelFileUpload :: "client_env \<Rightarrow> qstring \<Rightarrow> qstring \<Rightarrow> cm_action" where
  "cancelFileUpload env deviceId transferId = command env deviceId ''cancelFileUpload'' [(''transferId'', JStr transferId)]"

definition cancelFileDownload :: "client_env \<Rightarrow> qstring \<Rightarrow> qstring \<Rightarrow> cm_action" where
  "cancelFileDownload env deviceId transferId = command env deviceId ''cancelFileDownload'' [(''transferId'', JStr transferId)]"


section \<open>File transfers\<close>

definition fileTransferReady :: "qstring \<Rightarrow> client_manager \<Rightarrow> bool" where
  "fileTransferReady deviceId cm \<longleftrightarrow> cm_ready cm \<and> getConnectionRtcState deviceId cm = RtcConnected
     \<and> supportsFileTransfer deviceId cm"

definition not_available :: qstring where
  "not_available = ''File transfer is not available for this connection.''"

definition reset_session :: qstring where
  "reset_session = ''Disconnect and reconnect to reset this session's file queue.''"

definition openSession :: "qstring \<Rightarrow> cm_action" where
  "openSession deviceId cm =
     (cm\<lparr>cm_fileTransfers := beginSession (connectionIdFor deviceId cm) deviceId (cm_fileTransfers cm)\<rparr>, [])"

definition startFileUpload :: "client_env \<Rightarrow> qstring \<Rightarrow> qurl \<Rightarrow> cm_action" where
  "startFileUpload env deviceId fileUrl cm =
     (if \<not> fileTransferReady deviceId cm then (cm, [cm_fileTransferNotice deviceId not_available])
      else
        let connectionId = connectionIdFor deviceId cm;
            cm1 = fst (openSession deviceId cm)
        in if \<not> sessionActive connectionId (cm_fileTransfers cm1) then (cm1, [cm_fileTransferNotice deviceId reset_session])
           else transfers env (\<lambda>q. let (q', ev, _) = enqueueUpload (ce_fs env) (ce_uuid env) connectionId fileUrl q
                                   in (q', ev)) cm1)"

definition startFileDownload :: "client_env \<Rightarrow> qstring \<Rightarrow> cm_action" where
  "startFileDownload env deviceId cm =
     (if \<not> fileTransferReady deviceId cm then (cm, [cm_fileTransferNotice deviceId not_available])
      else
        let connId = connectionIdFor deviceId cm;
            saveDir = ce_downloadLocation env
        in if connId = [] then (cm, [])
           else
             let cm1 = fst (openSession deviceId cm)
             in if \<not> sessionActive connId (cm_fileTransfers cm1) then (cm1, [cm_fileTransferNotice deviceId reset_session])
                else send env (mkobj [(''type'', JStr ''startFileDownload''), (''connectionId'', JStr connId),
                            (''saveDir'', JStr saveDir)])
                       (cm1\<lparr>cm_fileTransfers := registerDownload (ce_fs env) connId saveDir (cm_fileTransfers cm1)\<rparr>))"

definition cancelFileTask :: "client_env \<Rightarrow> qstring \<Rightarrow> cm_action" where
  "cancelFileTask env taskId = transfers env (cancel taskId)"

definition clearCompletedFileTasks :: cm_action where
  "clearCompletedFileTasks cm = (cm\<lparr>cm_fileTransfers := clearCompleted (cm_fileTransfers cm)\<rparr>, [])"

definition copyDownloadedFile :: "client_env \<Rightarrow> qstring \<Rightarrow> client_manager \<Rightarrow> client_manager \<times> cm_event list \<times> bool" where
  "copyDownloadedFile env taskId cm =
     (if \<not> ce_copyToClipboard env (completedDownloadPath (ce_fs env) taskId (cm_fileTransfers cm))
      then (cm, [cm_fileTransferNotice [] ''The downloaded file is no longer available.''], False)
      else (cm, [], True))"

text \<open>\<open>urls\<close> are the URLs on the clipboard, each with the answers the upload gets; \<open>None\<close> if there are none.\<close>

definition pasteFilesFromClipboard :: "qstring \<Rightarrow> (client_env \<times> qurl) list option \<Rightarrow> client_manager
    \<Rightarrow> client_manager \<times> cm_event list \<times> bool" where
  "pasteFilesFromClipboard deviceId urls cm =
     (case urls of
        None \<Rightarrow> (cm, [], False)
      | Some us \<Rightarrow>
          let local = filter (\<lambda>(env, url). url_isLocalFile url) us;
              (cm', ev) = for_each (\<lambda>(env, url). startFileUpload env deviceId url) local cm
          in (cm', ev, local \<noteq> []))"

text \<open>A timer of the queue fires.\<close>

definition transferTimer :: "client_env \<Rightarrow> ft_timer \<Rightarrow> cm_action" where
  "transferTimer env tm cm =
     (if tm \<notin> set (q_timers (cm_fileTransfers cm)) then (cm, [])
      else transfers env (\<lambda>q. let q1 = q\<lparr>q_timers := remove1 tm (q_timers q)\<rparr>
             in case tm of T_pump c \<Rightarrow> pump (ce_fs env) c q1
                | T_clear \<Rightarrow> pruneCompleted q1
                | T_cancelTimeout taskId \<Rightarrow> cancellationTimedOut taskId q1) cm)"


section \<open>Messages of the client process\<close>

text \<open>The handlers that only translate: nothing for an unknown connection, otherwise signals for its device.\<close>

definition forDevice :: "jobject \<Rightarrow> (qstring \<Rightarrow> cm_action) \<Rightarrow> cm_action" where
  "forDevice message f cm =
     (let deviceId = findDeviceId (toString (oget message ''connectionId'')) cm
      in if deviceId = [] then (cm, []) else f deviceId cm)"

definition cm_handleHelloResponse :: "jobject \<Rightarrow> cm_action" where
  "cm_handleHelloResponse message = emit [cm_helloResponseReceived (toString (oget message ''version''))]"

definition cm_handleSignalingStateChanged :: "jobject \<Rightarrow> cm_action" where
  "cm_handleSignalingStateChanged message = forDevice message (\<lambda>deviceId.
     let state = toString (oget message ''state''); retryCount = toInt (oget message ''retryCount'');
         nextRetryIn = toInt (oget message ''nextRetryIn''); err = toString (oget message ''error'')
     in seq [modify (upd_conn deviceId (\<lambda>c. c\<lparr>ci_signalingState := state, ci_signalingRetryCount := retryCount,
               ci_signalingNextRetryIn := nextRetryIn, ci_signalingError := err\<rparr>)),
             emit [cm_signalingStateChanged deviceId state retryCount nextRetryIn err]])"

definition handleConnectToHostResponse :: "jobject \<Rightarrow> cm_action" where
  "handleConnectToHostResponse message = emit []"

definition rtc_of_string :: "qstring \<Rightarrow> rtc_status option" where
  "rtc_of_string st =
     (if st = ''connecting'' then Some RtcConnecting else if st = ''connected'' then Some RtcConnected
      else if st = ''disconnected'' then Some RtcDisconnected else if st = ''failed'' then Some RtcFailed else None)"

definition noteResolution :: "jobject \<Rightarrow> connection_info \<Rightarrow> connection_info" where
  "noteResolution hostInfo c =
     (if ocontains hostInfo ''resolution''
      then (case split_char CHR ''x'' (toString (oget hostInfo ''resolution'')) of
              [w, h] \<Rightarrow> c\<lparr>ci_width := string_toInt w, ci_height := string_toInt h\<rparr>
            | _ \<Rightarrow> c)
      else c)"

definition noteDeviceName :: "jobject \<Rightarrow> connection_info \<Rightarrow> connection_info" where
  "noteDeviceName hostInfo c =
     (if ocontains hostInfo ''deviceName'' then c\<lparr>ci_deviceName := toString (oget hostInfo ''deviceName'')\<rparr> else c)"

text \<open>Each of the three statements writes through \<open>m_connections[deviceId]\<close>, or does not touch it.\<close>

definition resolution_parts :: "jobject \<Rightarrow> bool" where
  "resolution_parts hostInfo \<longleftrightarrow> ocontains hostInfo ''resolution''
     \<and> length (split_char CHR ''x'' (toString (oget hostInfo ''resolution''))) = 2"

definition handleConnectionStateChanged :: "jobject \<Rightarrow> cm_action" where
  "handleConnectionStateChanged message = forDevice message (\<lambda>deviceId.
     let stateStr = toString (oget message ''state''); hostInfo = toObject (oget message ''hostInfo'')
     in seq [modify (case rtc_of_string stateStr of None \<Rightarrow> id
                     | Some rtc \<Rightarrow> upd_conn deviceId (\<lambda>c. c\<lparr>ci_rtcState := rtc\<rparr>)),
             guarded (resolution_parts hostInfo) (modify (upd_conn deviceId (noteResolution hostInfo))),
             guarded (ocontains hostInfo ''deviceName'') (modify (upd_conn deviceId (noteDeviceName hostInfo))),
             connectionState deviceId stateStr hostInfo,
             emit [cm_connectionListChanged]])"

text \<open>One entry of a connection list; capabilities are kept if the connection is the one already known.\<close>

definition listed_connection :: "(qstring, connection_info) qmap \<Rightarrow> jobject \<Rightarrow> connection_info" where
  "listed_connection oldConnections ob =
     (let conn = new_connection\<lparr>ci_connectionId := toString (oget ob ''connectionId''),
            ci_deviceId := toString (oget ob ''deviceId'')\<rparr>;
          conn1 =
            (case map_of oldConnections (ci_deviceId conn) of
               None \<Rightarrow> conn
             | Some previous \<Rightarrow>
                 if ci_connectionId previous = ci_connectionId conn
                 then conn\<lparr>ci_supportsFileTransfer := ci_supportsFileTransfer previous,
                       ci_supportsSendAttentionSequence := ci_supportsSendAttentionSequence previous,
                       ci_supportsLockWorkstation := ci_supportsLockWorkstation previous,
                       ci_supportsPrivacyScreen := ci_supportsPrivacyScreen previous,
                       ci_supportsVirtualDisplay := ci_supportsVirtualDisplay previous\<rparr>
                 else conn)
      in conn1\<lparr>ci_deviceName := toString (oget ob ''deviceName''), ci_connectedAt := toString (oget ob ''connectedAt''),
           ci_rtcState := (case rtc_of_string (toString (oget ob ''state'')) of None \<Rightarrow> RtcDisconnected | Some rtc \<Rightarrow> rtc)\<rparr>)"

definition listConnection :: "(qstring, connection_info) qmap \<Rightarrow> jobject \<Rightarrow> client_manager \<Rightarrow> client_manager" where
  "listConnection oldConnections ob cm =
     (let conn = listed_connection oldConnections ob
      in cm\<lparr>cm_connections := qm_insert (ci_deviceId conn) conn (cm_connections cm),
            cm_connIdToDeviceId := qm_insert (ci_connectionId conn) (ci_deviceId conn) (cm_connIdToDeviceId cm)\<rparr>)"

definition endIfGone :: "connection_info \<Rightarrow> cm_action" where
  "endIfGone old cm =
     guarded (\<not> qm_contains (cm_connections cm) (ci_deviceId old)
              \<or> ci_connectionId (qm_value new_connection (cm_connections cm) (ci_deviceId old)) \<noteq> ci_connectionId old)
       (endTransfers (endSession (ci_connectionId old))) cm"

definition reconcileConnection :: "connection_info \<Rightarrow> cm_action" where
  "reconcileConnection current =
     endTransfers (reconcileSession (ci_connectionId current) (ci_deviceId current) (ci_rtcState current = RtcConnected)
       (ci_rtcState current = RtcDisconnected \<or> ci_rtcState current = RtcFailed))"

definition handleConnectionListChanged :: "jobject \<Rightarrow> cm_action" where
  "handleConnectionListChanged message cm =
     (let oldConnections = cm_connections cm;
          listed = map toObject (toArray (oget message ''connections''));
          cm1 = fold (listConnection oldConnections) listed (cm\<lparr>cm_connections := [], cm_connIdToDeviceId := []\<rparr>)
      in seq [for_each endIfGone (map snd oldConnections),
              for_each reconcileConnection (map snd (cm_connections cm1)),
              emit [cm_connectionCountChanged, cm_connectionListChanged]] cm1)"

definition handleVideoFrameReady :: "client_env \<Rightarrow> jobject \<Rightarrow> cm_action" where
  "handleVideoFrameReady env message = forDevice message (\<lambda>deviceId cm.
     let frameIndex = toInt (oget message ''frameIndex''); width = toInt (oget message ''width'');
         height = toInt (oget message ''height''); sharedMemoryName = toString (oget message ''sharedMemoryName'');
         (m, ev, ok) = (if shm_isAttached deviceId (cm_sharedMemory cm) then (cm_sharedMemory cm, [], True)
                        else shm_attach (ce_attachError env) deviceId sharedMemoryName (cm_sharedMemory cm));
         cm1 = cm\<lparr>cm_sharedMemory := m\<rparr>
     in if \<not> ok then (cm1, map cm_sharedMemory_event ev)
        else seq [emit (map cm_sharedMemory_event ev),
                  guarded (qm_contains (cm_connections cm1) deviceId)
                    (modify (upd_conn deviceId (\<lambda>c. c\<lparr>ci_width := width, ci_height := height\<rparr>))),
                  emit [cm_videoFrameReady deviceId frameIndex]] cm1)"

definition handleClipboardReceived :: "jobject \<Rightarrow> cm_action" where
  "handleClipboardReceived message = forDevice message (\<lambda>deviceId.
     emit [cm_clipboardReceived deviceId (toString (oget message ''text''))])"

definition cm_handleError :: "jobject \<Rightarrow> cm_action" where
  "cm_handleError message cm =
     (cm, [cm_errorOccurred (findDeviceId (toString (oget message ''connectionId'')) cm)
             (toString (oget message ''code'')) (toString (oget message ''message''))])"

definition handleConnectionFailed :: "jobject \<Rightarrow> cm_action" where
  "handleConnectionFailed message = forDevice message (\<lambda>deviceId.
     seq [noteState deviceId RtcFailed ''failed'',
          emit [cm_errorOccurred deviceId (toString (oget message ''errorCode'')) (toString (oget message ''message''))],
          dropConnection deviceId])"

definition handleHostConnected :: "jobject \<Rightarrow> cm_action" where
  "handleHostConnected message = forDevice message (\<lambda>deviceId.
     seq [noteState deviceId RtcConnected ''connected'', emit [cm_connectionListChanged]])"

definition handleHostDisconnected :: "jobject \<Rightarrow> cm_action" where
  "handleHostDisconnected message = forDevice message (\<lambda>deviceId.
     seq [noteState deviceId RtcDisconnected ''disconnected'', detachMemory deviceId, dropConnection deviceId])"

definition failure_text :: "int \<Rightarrow> qstring" where
  "failure_text errorCode =
     (if errorCode = 1 then ''Authentication failed'' else if errorCode = 2 then ''Channel error''
      else if errorCode = 3 then ''Connection timeout'' else if errorCode = 4 then ''Network error''
      else ''Connection failed (error code: '' @ string_of_int errorCode @ '')'')"

definition handleHostConnectionFailed :: "jobject \<Rightarrow> cm_action" where
  "handleHostConnectionFailed message = forDevice message (\<lambda>deviceId.
     seq [noteState deviceId RtcFailed ''failed'',
          emit [cm_errorOccurred deviceId ''CONNECTION_FAILED'' (failure_text (toInt (oget message ''errorCode'')))],
          dropConnection deviceId])"

definition handleCursorShapeChanged :: "client_env \<Rightarrow> jobject \<Rightarrow> cm_action" where
  "handleCursorShapeChanged env message = forDevice message (\<lambda>deviceId.
     emit [cm_cursorShapeChanged deviceId (toInt (oget message ''width'')) (toInt (oget message ''height''))
       (toInt (oget message ''hotspotX'')) (toInt (oget message ''hotspotY''))
       (ce_fromBase64 env (toString (oget message ''data'')))])"

definition stat :: "jobject \<Rightarrow> qstring \<Rightarrow> qstring \<times> json" where
  "stat message k = (k, JNum (toDouble (oget message k)))"

definition handlePerformanceStatsUpdate :: "jobject \<Rightarrow> cm_action" where
  "handlePerformanceStatsUpdate message = forDevice message (\<lambda>deviceId.
     emit [cm_performanceStatsUpdated deviceId (mkobj
       (map (stat message) [''captureMs'', ''encodeMs'', ''networkDelayMs'', ''decodeMs'', ''paintMs'',
          ''totalLatencyMs'', ''inputRoundtripMs'', ''bandwidthKbps'', ''frameRate'', ''packetRate''] @
        [(''codec'', JStr (toStringD ''Unknown'' (oget message ''codec''))),
         (''frameQuality'', JInt (toIntD (-1) (oget message ''frameQuality''))),
         (''encodedRectWidth'', JInt (toInt (oget message ''encodedRectWidth''))),
         (''encodedRectHeight'', JInt (toInt (oget message ''encodedRectHeight'')))]))])"

definition handleDisplayListChanged :: "jobject \<Rightarrow> cm_action" where
  "handleDisplayListChanged message = forDevice message (\<lambda>deviceId.
     let displays = toArray (oget message ''displays''); active = toIntD 0 (oget message ''activeDisplayIndex'')
     in seq [emit [cm_displayListChanged deviceId displays active],
             guarded (0 \<le> active \<and> active < int (length displays))
               (let d = toObject (displays ! nat active)
                in emit [cm_videoLayoutChanged deviceId (toInt (oget d ''width'')) (toInt (oget d ''height''))])])"

definition candidate :: "json \<Rightarrow> json" where
  "candidate v =
     (let ob = toObject v
      in JObj (mkobj [(''address'', JStr (toString (oget ob ''address''))), (''type'', JStr (toString (oget ob ''type''))),
           (''protocol'', JStr (toString (oget ob ''protocol''))), (''isIpv6'', JBool (toBool (oget ob ''isIpv6''))),
           (''priority'', JInt (toInt (oget ob ''priority'')))]))"

definition handleRouteChanged :: "jobject \<Rightarrow> cm_action" where
  "handleRouteChanged message = forDevice message (\<lambda>deviceId.
     emit [cm_routeChanged deviceId (mkobj
       (map (\<lambda>k. (k, JStr (toString (oget message k)))) [''routeType'', ''transportProtocol'', ''localCandidateType'',
          ''remoteCandidateType'', ''localAddress'', ''remoteAddress''] @
        map (\<lambda>k. (k, JArr (map candidate (toArray (oget message k))))) [''localCandidates'', ''remoteCandidates'']))])"

definition handleHostCapabilities :: "jobject \<Rightarrow> cm_action" where
  "handleHostCapabilities message = forDevice message (\<lambda>deviceId cm.
     let sas = toBool (oget message ''supportsSendAttentionSequence''); lck = toBool (oget message ''supportsLockWorkstation'');
         fil = toBool (oget message ''supportsFileTransfer''); prv = toBool (oget message ''supportsPrivacyScreen'');
         vd = toBool (oget message ''supportsVirtualDisplay'')
     in seq [guarded (qm_contains (cm_connections cm) deviceId)
               (modify (upd_conn deviceId (\<lambda>c. c\<lparr>ci_supportsSendAttentionSequence := sas, ci_supportsLockWorkstation := lck,
                  ci_supportsFileTransfer := fil, ci_supportsPrivacyScreen := prv, ci_supportsVirtualDisplay := vd\<rparr>))),
             emit [cm_hostCapabilitiesChanged deviceId sas lck fil prv vd]] cm)"


text \<open>The signals that accompany the queue's own handling of a transfer message.\<close>

definition handleFileTransferProgress :: "jobject \<Rightarrow> cm_action" where
  "handleFileTransferProgress message = forDevice message (\<lambda>deviceId.
     emit [cm_fileTransferProgress deviceId (toString (oget message ''transferId'')) (toString (oget message ''filename''))
       (toDouble (oget message ''bytesSent'')) (toDouble (oget message ''totalBytes''))])"

definition handleFileTransferComplete :: "jobject \<Rightarrow> cm_action" where
  "handleFileTransferComplete message = forDevice message (\<lambda>deviceId.
     emit [cm_fileTransferComplete deviceId (toString (oget message ''transferId'')) (toString (oget message ''filename''))])"

definition handleFileTransferError :: "jobject \<Rightarrow> cm_action" where
  "handleFileTransferError message = forDevice message (\<lambda>deviceId.
     emit [cm_fileTransferError deviceId (toString (oget message ''transferId'')) (toString (oget message ''errorMessage''))])"

definition handleFileDownloadStarted :: "jobject \<Rightarrow> cm_action" where
  "handleFileDownloadStarted message = forDevice message (\<lambda>deviceId.
     emit [cm_fileDownloadStarted deviceId (toString (oget message ''transferId'')) (toString (oget message ''filename''))
       (toDouble (oget message ''totalBytes''))])"

definition handleFileDownloadProgress :: "jobject \<Rightarrow> cm_action" where
  "handleFileDownloadProgress message = forDevice message (\<lambda>deviceId.
     emit [cm_fileDownloadProgress deviceId (toString (oget message ''transferId'')) (toString (oget message ''filename''))
       (toDouble (oget message ''bytesReceived'')) (toDouble (oget message ''totalBytes''))])"

definition handleFileDownloadComplete :: "jobject \<Rightarrow> cm_action" where
  "handleFileDownloadComplete message = forDevice message (\<lambda>deviceId.
     emit [cm_fileDownloadComplete deviceId (toString (oget message ''transferId'')) (toString (oget message ''filename''))
       (toString (oget message ''savePath''))])"

definition handleFileDownloadError :: "jobject \<Rightarrow> cm_action" where
  "handleFileDownloadError message = forDevice message (\<lambda>deviceId.
     emit [cm_fileDownloadError deviceId (toString (oget message ''transferId'')) (toString (oget message ''errorMessage''))])"

text \<open>The text of a nested document, or the text itself under \<open>raw\<close> if it is not an object.\<close>

definition nested_object :: "client_env \<Rightarrow> qstring \<Rightarrow> jobject" where
  "nested_object env data = (case ce_fromJson env data of ObjectDoc ob \<Rightarrow> ob | _ \<Rightarrow> mkobj [(''raw'', JStr data)])"

definition handleSkillBridgeResponse :: "client_env \<Rightarrow> jobject \<Rightarrow> cm_action" where
  "handleSkillBridgeResponse env message = forDevice message (\<lambda>deviceId.
     emit [cm_skillBridgeResponseReceived deviceId (nested_object env (toString (oget message ''data'')))])"

definition handleVirtualDisplayState :: "client_env \<Rightarrow> jobject \<Rightarrow> cm_action" where
  "handleVirtualDisplayState env message = forDevice message (\<lambda>deviceId.
     emit [cm_virtualDisplayStateChanged deviceId (nested_object env (toString (oget message ''data'')))])"

text \<open>The types that are only logged (responses, unknown types) fall through to \<open>emit []\<close>.\<close>

definition dispatchMessage :: "client_env \<Rightarrow> jobject \<Rightarrow> cm_action" where
  "dispatchMessage env message =
     (let type = toString (oget message ''type'')
      in if type = ''helloResponse'' then cm_handleHelloResponse message
         else if type = ''signalingStateChanged'' then cm_handleSignalingStateChanged message
         else if type = ''connectToHostResponse'' then handleConnectToHostResponse message
         else if type = ''connectionStateChanged'' then handleConnectionStateChanged message
         else if type = ''connectionListChanged'' then handleConnectionListChanged message
         else if type = ''videoFrameReady'' then handleVideoFrameReady env message
         else if type = ''clipboardReceived'' then handleClipboardReceived message
         else if type = ''error'' then cm_handleError message
         else if type = ''connectionFailed'' then handleConnectionFailed message
         else if type = ''onHostConnected'' then handleHostConnected message
         else if type = ''onHostDisconnected'' then handleHostDisconnected message
         else if type = ''onHostConnectionFailed'' then handleHostConnectionFailed message
         else if type = ''cursorShapeChanged'' then handleCursorShapeChanged env message
         else if type = ''performanceStatsUpdate'' then handlePerformanceStatsUpdate message
         else if type = ''displayListChanged'' then handleDisplayListChanged message
         else if type = ''routeChanged'' then handleRouteChanged message
         else if type = ''hostCapabilities'' then handleHostCapabilities message
         else if type = ''fileTransferProgress'' then handleFileTransferProgress message
         else if type = ''fileTransferComplete'' then handleFileTransferComplete message
         else if type = ''fileTransferError'' then handleFileTransferError message
         else if type = ''fileDownloadStarted'' then handleFileDownloadStarted message
         else if type = ''fileDownloadProgress'' then handleFileDownloadProgress message
         else if type = ''fileDownloadComplete'' then handleFileDownloadComplete message
         else if type = ''fileDownloadError'' then handleFileDownloadError message
         else if type = ''skillBridgeResponse'' then handleSkillBridgeResponse env message
         else if type = ''virtualDisplayState'' then handleVirtualDisplayState env message
         else emit [])"

definition cm_onMessageReceived :: "client_env \<Rightarrow> jobject \<Rightarrow> cm_action" where
  "cm_onMessageReceived env message =
     seq [transfers env (handleMessage (ce_uuid env) message), dispatchMessage env message]"


section \<open>Reading the tables\<close>

definition connectionCount :: "client_manager \<Rightarrow> nat" where
  "connectionCount cm = length (cm_connections cm)"

definition connectedDeviceIds :: "client_manager \<Rightarrow> qstring list" where
  "connectedDeviceIds cm = qm_keys (cm_connections cm)"

definition connections :: "client_manager \<Rightarrow> connection_info list" where
  "connections cm = map snd (cm_connections cm)"

definition getConnection :: "qstring \<Rightarrow> client_manager \<Rightarrow> connection_info" where
  "getConnection deviceId cm = qm_value new_connection (cm_connections cm) deviceId"

definition conn_field :: "'a \<Rightarrow> (connection_info \<Rightarrow> 'a) \<Rightarrow> qstring \<Rightarrow> client_manager \<Rightarrow> 'a" where
  "conn_field d f deviceId cm = (case map_of (cm_connections cm) deviceId of None \<Rightarrow> d | Some c \<Rightarrow> f c)"

definition getSignalingState :: "qstring \<Rightarrow> client_manager \<Rightarrow> qstring" where
  "getSignalingState = conn_field ''disconnected'' ci_signalingState"

definition getSignalingRetryCount :: "qstring \<Rightarrow> client_manager \<Rightarrow> int" where
  "getSignalingRetryCount = conn_field 0 ci_signalingRetryCount"

definition getSignalingNextRetryIn :: "qstring \<Rightarrow> client_manager \<Rightarrow> int" where
  "getSignalingNextRetryIn = conn_field 0 ci_signalingNextRetryIn"

definition getSignalingError :: "qstring \<Rightarrow> client_manager \<Rightarrow> qstring" where
  "getSignalingError = conn_field [] ci_signalingError"

definition supportsSendAttentionSequence :: "qstring \<Rightarrow> client_manager \<Rightarrow> bool" where
  "supportsSendAttentionSequence = conn_field False ci_supportsSendAttentionSequence"

definition supportsLockWorkstation :: "qstring \<Rightarrow> client_manager \<Rightarrow> bool" where
  "supportsLockWorkstation = conn_field False ci_supportsLockWorkstation"

definition supportsPrivacyScreen :: "qstring \<Rightarrow> client_manager \<Rightarrow> bool" where
  "supportsPrivacyScreen = conn_field False ci_supportsPrivacyScreen"

definition supportsVirtualDisplay :: "qstring \<Rightarrow> client_manager \<Rightarrow> bool" where
  "supportsVirtualDisplay = conn_field False ci_supportsVirtualDisplay"


section \<open>The manager as a state machine\<close>

text \<open>
  One input is one call or one signal the event loop delivers. Messages arrive only while a channel is
  set. \<open>CM_channel\<close> is a change of the channel the class only observes: its transport changes state, or
  the object is destroyed, which clears the \<open>QPointer\<close>. The commands of one device share a constructor.
\<close>

datatype cm_command =
    MouseMove int int | MousePress int int int | MouseRelease int int int | MouseWheel int int int int
  | KeyPress int int | KeyRelease int int | ReleaseAllInput | SyncClipboard qstring | SkillCommand qstring
  | TargetFramerate int | Resolution int int int | FramerateBoost bool int int | Bitrate int
  | AudioEnabled bool | SelectDisplay int | Action qstring | PrivacyScreen bool
  | CreateDisplay int int int | RemoveDisplay int | RemoveAllDisplays | QueryDisplays
  | CancelUpload qstring | CancelDownload qstring

fun runCommand :: "client_env \<Rightarrow> qstring \<Rightarrow> cm_command \<Rightarrow> cm_action" where
  "runCommand env d (MouseMove x y) = sendMouseMove env d x y"
| "runCommand env d (MousePress x y b) = sendMousePress env d x y b"
| "runCommand env d (MouseRelease x y b) = sendMouseRelease env d x y b"
| "runCommand env d (MouseWheel x y dx dy) = sendMouseWheel env d x y dx dy"
| "runCommand env d (KeyPress c l) = sendKeyPress env d c l"
| "runCommand env d (KeyRelease c l) = sendKeyRelease env d c l"
| "runCommand env d ReleaseAllInput = releaseAllInput env d"
| "runCommand env d (SyncClipboard t) = syncClipboard env d t"
| "runCommand env d (SkillCommand j) = sendSkillCommand env d j"
| "runCommand env d (TargetFramerate f) = setTargetFramerate env d f"
| "runCommand env d (Resolution w h dpi) = setResolution env d w h dpi"
| "runCommand env d (FramerateBoost e c b) = setFramerateBoost env d e c b"
| "runCommand env d (Bitrate b) = setBitrate env d b"
| "runCommand env d (AudioEnabled e) = setAudioEnabled env d e"
| "runCommand env d (SelectDisplay i) = selectDisplay env d i"
| "runCommand env d (Action a) = sendAction env d a"
| "runCommand env d (PrivacyScreen e) = cm_togglePrivacyScreen env d e"
| "runCommand env d (CreateDisplay w h r) = createVirtualDisplay env d w h r"
| "runCommand env d (RemoveDisplay i) = removeVirtualDisplay env d i"
| "runCommand env d RemoveAllDisplays = removeAllVirtualDisplays env d"
| "runCommand env d QueryDisplays = queryVirtualDisplays env d"
| "runCommand env d (CancelUpload t) = cancelFileUpload env d t"
| "runCommand env d (CancelDownload t) = cancelFileDownload env d t"

datatype cm_input =
    CM_setMessaging bool "native_messaging option"
  | CM_channel "native_messaging option"
  | CM_setIceConfig jobject
  | CM_connect client_env qstring qstring qstring qstring
  | CM_disconnect client_env qstring
  | CM_disconnectAll client_env
  | CM_hello client_env qstring qstring
  | CM_command client_env qstring cm_command
  | CM_upload client_env qstring qurl
  | CM_download client_env qstring
  | CM_cancelTask client_env qstring
  | CM_clearCompleted
  | CM_timer client_env ft_timer
  | CM_setActive qstring
  | CM_message client_env jobject
  | CM_channelError qstring

fun cm_exec :: "cm_input \<Rightarrow> cm_action" where
  "cm_exec (CM_setMessaging same nm) cm = cm_setMessaging same nm cm"
| "cm_exec (CM_channel nm) cm = (if cm_messaging cm = None then (cm, []) else (cm\<lparr>cm_messaging := nm\<rparr>, []))"
| "cm_exec (CM_setIceConfig c) cm = (cm_setIceConfig c cm, [])"
| "cm_exec (CM_connect env d code token url) cm =
     (let (cm', ev, _) = connectToHost env d code token url cm in (cm', ev))"
| "cm_exec (CM_disconnect env d) cm = disconnectFromHost env d cm"
| "cm_exec (CM_disconnectAll env) cm = disconnectAll env cm"
| "cm_exec (CM_hello env d codec) cm = sendHello env d codec cm"
| "cm_exec (CM_command env d c) cm = runCommand env d c cm"
| "cm_exec (CM_upload env d url) cm = startFileUpload env d url cm"
| "cm_exec (CM_download env d) cm = startFileDownload env d cm"
| "cm_exec (CM_cancelTask env taskId) cm = cancelFileTask env taskId cm"
| "cm_exec CM_clearCompleted cm = clearCompletedFileTasks cm"
| "cm_exec (CM_timer env tm) cm = transferTimer env tm cm"
| "cm_exec (CM_setActive d) cm = setActiveDeviceId d cm"
| "cm_exec (CM_message env m) cm = (if cm_messaging cm = None then (cm, []) else cm_onMessageReceived env m cm)"
| "cm_exec (CM_channelError e) cm = (if cm_messaging cm = None then (cm, []) else onMessagingError e cm)"

end
