(* ===== verification/HostManager.thy ===== *)
theory HostManager
  imports NativeMessaging Actions
begin

text \<open>
  \<open>QuickDesk/src/manager/HostManager.cpp\<close>: this device as seen by others. The class talks to the host process
  over a channel, keeps the identity the process reports (device identifier, access code, the secret
  of the device, which is held in memory only), the state of the signalling connection and the table of
  clients that are connected, and passes on what the user decides about them.

  A message the channel fails to write is reported by the error slot. \<open>host_env\<close> holds what the
  configuration and the transport answer during a call.
\<close>


section \<open>Data\<close>

record session_info =
  si_connectionId :: qstring
  si_username :: qstring
  si_deviceId :: qstring
  si_ip :: qstring
  si_deviceName :: qstring
  si_connectedAt :: qstring
  si_state :: qstring

record host_manager =
  hm_messaging :: "native_messaging option"
  hm_deviceId :: qstring
  hm_accessCode :: qstring
  hm_deviceSecret :: qstring
  hm_isConnected :: bool
  hm_clients :: "(qstring, session_info) qmap"
  hm_signalingState :: qstring
  hm_signalingRetryCount :: int
  hm_signalingNextRetryIn :: int
  hm_signalingError :: qstring
  hm_supportsAutoLockOnSessionEnd :: bool
  hm_autoLockOnSessionEnd :: bool
  hm_iceConfig :: jobject

datatype hm_event =
    hm_deviceIdChanged
  | hm_accessCodeChanged
  | hm_connectionStatusChanged
  | hm_clientCountChanged
  | hm_signalingStateChanged
  | hm_deviceSecretReady qstring
  | hm_nativeMessagingProtocolMismatch int int
  | hm_helloResponseReceived qstring
  | hm_hostReady qstring qstring
  | hm_clientConnected qstring jobject
  | hm_clientDisconnected qstring qstring
  | hm_authorizationRequested qstring qstring qstring
  | hm_clientListChanged
  | hm_errorOccurred qstring qstring
  | hm_refreshAccessCodeResult bool qstring qstring
  | hm_privacyScreenStateChanged bool
  | hm_autoLockOnSessionEndChanged
  | hm_skillMessage qstring
  | hm_sent jobject \<comment> \<open>a message written to the channel\<close>

record host_env =
  he_toJson :: "jobject \<Rightarrow> byte list"
  he_write :: "byte list \<Rightarrow> int"
  he_applicationVersion :: qstring
  he_apiKey :: qstring
  he_onWindows :: bool
  he_autoPrivacyScreenOnConnect :: bool

type_synonym hm_action = "(host_manager, hm_event) action"

definition kNativeMessagingProtocolVersion :: int where
  "kNativeMessagingProtocolVersion = 3"

definition HostManager_init :: host_manager where
  "HostManager_init = \<lparr>hm_messaging = None, hm_deviceId = [], hm_accessCode = [], hm_deviceSecret = [],
     hm_isConnected = False, hm_clients = [], hm_signalingState = ''disconnected'', hm_signalingRetryCount = 0,
     hm_signalingNextRetryIn = 0, hm_signalingError = [], hm_supportsAutoLockOnSessionEnd = False,
     hm_autoLockOnSessionEnd = False, hm_iceConfig = []\<rparr>"


section \<open>The channel\<close>

definition hm_ready :: "host_manager \<Rightarrow> bool" where
  "hm_ready hm = (case hm_messaging hm of None \<Rightarrow> False | Some nm \<Rightarrow> isReady nm)"

definition hm_onMessagingError :: "qstring \<Rightarrow> hm_action" where
  "hm_onMessagingError error = emit [hm_errorOccurred ''MESSAGING_ERROR'' error]"

fun hm_channel_signal :: "jobject \<Rightarrow> nm_event \<Rightarrow> hm_action" where
  "hm_channel_signal message (nm_wrote bytes) = emit [hm_sent message]"
| "hm_channel_signal message (nm_errorOccurred e) = hm_onMessagingError e"
| "hm_channel_signal message (nm_messageReceived m) = emit []"

definition hm_send :: "host_env \<Rightarrow> jobject \<Rightarrow> hm_action" where
  "hm_send env message hm =
     (case hm_messaging hm of
        None \<Rightarrow> (hm, [])
      | Some nm \<Rightarrow> for_each (hm_channel_signal message) (sendMessage (he_toJson env) (he_write env) message nm) hm)"

definition hm_setMessaging :: "native_messaging option \<Rightarrow> hm_action" where
  "hm_setMessaging messaging hm =
     (if messaging \<noteq> None then (hm\<lparr>hm_messaging := messaging\<rparr>, [])
      else
        let hadClients = (hm_clients hm \<noteq> [])
        in (hm\<lparr>hm_messaging := None, hm_clients := [], hm_deviceId := [], hm_accessCode := [], hm_deviceSecret := [],
               hm_isConnected := False, hm_signalingState := ''disconnected'', hm_signalingRetryCount := 0,
               hm_signalingNextRetryIn := 0, hm_signalingError := [], hm_supportsAutoLockOnSessionEnd := False,
               hm_autoLockOnSessionEnd := False\<rparr>,
            [hm_deviceIdChanged, hm_accessCodeChanged, hm_connectionStatusChanged, hm_signalingStateChanged,
             hm_autoLockOnSessionEndChanged]
            @ (if hadClients then [hm_clientCountChanged, hm_clientListChanged] else [])))"


section \<open>Requests to the host process\<close>

definition hm_not_ready :: "hm_event list" where
  "hm_not_ready = [hm_errorOccurred ''NOT_READY'' ''Host process is not ready'']"

definition connectToServer :: "host_env \<Rightarrow> qstring \<Rightarrow> qstring \<Rightarrow> hm_action" where
  "connectToServer env serverUrl savedAccessCode hm =
     (if \<not> hm_ready hm then (hm, hm_not_ready)
      else hm_send env (mkobj
             ([(''type'', JStr ''connect''), (''signalingServerUrl'', JStr serverUrl),
               (''appVersion'', JStr (he_applicationVersion env))]
              @ (if he_apiKey env \<noteq> [] then [(''apiKey'', JStr (he_apiKey env))] else [])
              @ (if he_onWindows env then [(''useElevatedHost'', JBool False)] else [])
              @ (if savedAccessCode \<noteq> [] then [(''accessCode'', JStr savedAccessCode)] else [])
              @ (if hm_iceConfig hm \<noteq> [] then [(''iceConfig'', JObj (hm_iceConfig hm))] else []))) hm)"

definition disconnectFromServer :: "host_env \<Rightarrow> hm_action" where
  "disconnectFromServer env hm =
     (if \<not> hm_ready hm then (hm, [])
      else seq [hm_send env (mkobj [(''type'', JStr ''disconnect'')]),
                modify (\<lambda>hm. hm\<lparr>hm_isConnected := False, hm_deviceId := [], hm_accessCode := [], hm_clients := []\<rparr>),
                emit [hm_connectionStatusChanged, hm_deviceIdChanged, hm_accessCodeChanged, hm_clientCountChanged,
                      hm_clientListChanged]] hm)"

definition hm_sendHello :: "host_env \<Rightarrow> hm_action" where
  "hm_sendHello env hm =
     (if \<not> hm_ready hm then (hm, hm_not_ready)
      else hm_send env (mkobj [(''type'', JStr ''hello''),
             (''protocol_version'', JInt kNativeMessagingProtocolVersion)]) hm)"

definition authorizeClient :: "host_env \<Rightarrow> qstring \<Rightarrow> bool \<Rightarrow> hm_action" where
  "authorizeClient env connectionId authorized hm =
     (if \<not> hm_ready hm then (hm, [])
      else hm_send env (mkobj [(''type'', JStr ''authorizationResponse''), (''connectionId'', JStr connectionId),
             (''authorized'', JBool authorized)]) hm)"

definition kickClient :: "host_env \<Rightarrow> qstring \<Rightarrow> hm_action" where
  "kickClient env connectionId hm =
     (if \<not> hm_ready hm then (hm, [])
      else hm_send env (mkobj [(''type'', JStr ''kickClient''), (''connectionId'', JStr connectionId)]) hm)"

definition refreshAccessCode :: "host_env \<Rightarrow> hm_action" where
  "refreshAccessCode env hm =
     (if \<not> hm_ready hm then (hm, [hm_refreshAccessCodeResult False ''NOT_READY'' ''Host process not ready''])
      else if hm_signalingState hm \<noteq> ''connected''
      then (hm, [hm_refreshAccessCodeResult False ''NOT_CONNECTED'' ''Not connected to signaling server''])
      else hm_send env (mkobj [(''type'', JStr ''refreshAccessCode'')]) hm)"

definition hm_setIceConfig :: "jobject \<Rightarrow> host_manager \<Rightarrow> host_manager" where
  "hm_setIceConfig iceConfig hm = hm\<lparr>hm_iceConfig := iceConfig\<rparr>"

definition sendSkillBridgeSend :: "host_env \<Rightarrow> qstring \<Rightarrow> hm_action" where
  "sendSkillBridgeSend env jsonData hm =
     (if \<not> hm_ready hm then (hm, [])
      else hm_send env (mkobj [(''type'', JStr ''skillBridgeSend''), (''data'', JStr jsonData)]) hm)"

definition hm_togglePrivacyScreen :: "host_env \<Rightarrow> bool \<Rightarrow> hm_action" where
  "hm_togglePrivacyScreen env enabled hm =
     (if \<not> hm_ready hm then (hm, [])
      else hm_send env (mkobj [(''type'', JStr ''togglePrivacyScreen''), (''enabled'', JBool enabled)]) hm)"

definition setAutoLockOnSessionEnd :: "host_env \<Rightarrow> bool \<Rightarrow> hm_action" where
  "setAutoLockOnSessionEnd env enabled hm =
     (if \<not> hm_ready hm \<or> \<not> hm_supportsAutoLockOnSessionEnd hm
      then (hm, [hm_errorOccurred ''AUTO_LOCK_UNSUPPORTED''
                   ''Automatic lock on session end is not supported by this host''])
      else hm_send env (mkobj [(''type'', JStr ''setAutoLockOnSessionEnd''), (''enabled'', JBool enabled)]) hm)"


section \<open>Reading the state\<close>

definition clientCount :: "host_manager \<Rightarrow> nat" where
  "clientCount hm = length (hm_clients hm)"

definition clientIds :: "host_manager \<Rightarrow> qstring list" where
  "clientIds hm = qm_keys (hm_clients hm)"

definition connectedClients :: "host_manager \<Rightarrow> session_info list" where
  "connectedClients hm = map snd (hm_clients hm)"

definition getClientUsername :: "qstring \<Rightarrow> host_manager \<Rightarrow> qstring" where
  "getClientUsername clientId hm = (case map_of (hm_clients hm) clientId of None \<Rightarrow> [] | Some s \<Rightarrow> si_username s)"

definition getClientDeviceId :: "qstring \<Rightarrow> host_manager \<Rightarrow> qstring" where
  "getClientDeviceId clientId hm =
     (case map_of (hm_clients hm) clientId of
        None \<Rightarrow> ''Unknown Device''
      | Some s \<Rightarrow>
          if si_deviceId s \<noteq> [] then si_deviceId s
          else
            let index = (case find_index (\<lambda>k. k = clientId) (qm_keys (hm_clients hm)) of None \<Rightarrow> - 1 | Some i \<Rightarrow> int i) + 1
            in qarg ''Remote Device %1'' (string_of_int index))"

text \<open>The three labels are Chinese texts; a constructor stands for each.\<close>

datatype state_label = L_connected | L_authenticating | L_disconnected | L_state qstring

definition getClientState :: "qstring \<Rightarrow> host_manager \<Rightarrow> state_label" where
  "getClientState clientId hm =
     (case map_of (hm_clients hm) clientId of
        None \<Rightarrow> L_state []
      | Some s \<Rightarrow>
          if si_state s = ''connected'' then L_connected
          else if si_state s = ''authenticating'' then L_authenticating
          else if si_state s = ''disconnected'' then L_disconnected
          else L_state (si_state s))"


section \<open>Messages of the host process\<close>

text \<open>A text under one key, or under a second one if it is empty under the first.\<close>

definition either_key :: "jobject \<Rightarrow> qstring \<Rightarrow> qstring \<Rightarrow> qstring" where
  "either_key message k1 k2 =
     (let v = toString (oget message k1) in if v = [] then toString (oget message k2) else v)"

definition noteDeviceSecret :: "jobject \<Rightarrow> hm_action" where
  "noteDeviceSecret message hm =
     (let deviceSecret = toString (oget message ''device_secret'')
      in if deviceSecret \<noteq> [] \<and> deviceSecret \<noteq> hm_deviceSecret hm
         then (hm\<lparr>hm_deviceSecret := deviceSecret\<rparr>, [hm_deviceSecretReady deviceSecret])
         else (hm, []))"

definition noteAutoLock :: "jobject \<Rightarrow> hm_action" where
  "noteAutoLock message hm =
     (let supportsAutoLock = toBoolD False (oget message ''supportsAutoLockOnSessionEnd'');
          autoLock = (supportsAutoLock \<and> toBoolD False (oget message ''autoLockOnSessionEnd''))
      in if supportsAutoLock \<noteq> hm_supportsAutoLockOnSessionEnd hm \<or> autoLock \<noteq> hm_autoLockOnSessionEnd hm
         then (hm\<lparr>hm_supportsAutoLockOnSessionEnd := supportsAutoLock, hm_autoLockOnSessionEnd := autoLock\<rparr>,
               [hm_autoLockOnSessionEndChanged])
         else (hm, []))"

definition hm_handleHelloResponse :: "jobject \<Rightarrow> hm_action" where
  "hm_handleHelloResponse message hm =
     (let version = toString (oget message ''version'');
          hostProtocolVersion = toIntD 1 (oget message ''protocol_version'');
          deviceId = either_key message ''device_id'' ''deviceId'';
          accessCode = either_key message ''access_code'' ''accessCode'';
          idChanged = (deviceId \<noteq> [] \<and> deviceId \<noteq> hm_deviceId hm);
          codeChanged = (accessCode \<noteq> [] \<and> accessCode \<noteq> hm_accessCode hm)
      in seq [guarded (hostProtocolVersion \<noteq> kNativeMessagingProtocolVersion)
                (emit [hm_nativeMessagingProtocolMismatch hostProtocolVersion kNativeMessagingProtocolVersion]),
              guarded idChanged (modify (\<lambda>hm. hm\<lparr>hm_deviceId := deviceId\<rparr>)),
              guarded codeChanged (modify (\<lambda>hm. hm\<lparr>hm_accessCode := accessCode\<rparr>)),
              noteDeviceSecret message,
              guarded idChanged (emit [hm_deviceIdChanged]),
              guarded codeChanged (emit [hm_accessCodeChanged]),
              noteAutoLock message,
              emit [hm_helloResponseReceived version]] hm)"

definition handleConnectResponse :: "jobject \<Rightarrow> hm_action" where
  "handleConnectResponse message = emit []"

definition handleNatPolicyChanged :: "jobject \<Rightarrow> hm_action" where
  "handleNatPolicyChanged message = emit []"

definition handleHostReady :: "jobject \<Rightarrow> hm_action" where
  "handleHostReady message =
     (let deviceId = either_key message ''deviceId'' ''device_id'';
          accessCode = either_key message ''accessCode'' ''access_code''
      in seq [modify (\<lambda>hm. hm\<lparr>hm_deviceId := deviceId, hm_accessCode := accessCode, hm_isConnected := True\<rparr>),
              noteDeviceSecret message,
              emit [hm_deviceIdChanged, hm_accessCodeChanged, hm_connectionStatusChanged,
                    hm_hostReady deviceId accessCode]])"

definition handleAccessCodeChanged :: "jobject \<Rightarrow> hm_action" where
  "handleAccessCodeChanged message =
     (let newAccessCode = either_key message ''accessCode'' ''access_code''
      in guarded (newAccessCode \<noteq> [])
           (seq [modify (\<lambda>hm. hm\<lparr>hm_accessCode := newAccessCode\<rparr>), emit [hm_accessCodeChanged]]))"

definition message_clientId :: "jobject \<Rightarrow> qstring" where
  "message_clientId message = either_key message ''clientId'' ''connectionId''"

definition connected_session :: "jobject \<Rightarrow> session_info" where
  "connected_session message =
     (let clientInfo = toObject (oget message ''clientInfo'');
          clientUsername = toString (oget message ''clientUsername'')
      in \<lparr>si_connectionId = message_clientId message,
          si_username = (if clientUsername = [] then toString (oget clientInfo ''username'') else clientUsername),
          si_deviceId = toString (oget message ''deviceId''), si_ip = toString (oget clientInfo ''ip''),
          si_deviceName = toString (oget clientInfo ''deviceName''), si_connectedAt = [], si_state = ''connected''\<rparr>)"

definition handleClientConnected :: "host_env \<Rightarrow> jobject \<Rightarrow> hm_action" where
  "handleClientConnected env message =
     (let clientId = message_clientId message
      in seq [modify (\<lambda>hm. hm\<lparr>hm_clients := qm_insert clientId (connected_session message) (hm_clients hm)\<rparr>),
              emit [hm_clientCountChanged, hm_clientListChanged, hm_clientConnected clientId message],
              guarded (he_autoPrivacyScreenOnConnect env) (hm_togglePrivacyScreen env True)])"

definition handleClientDisconnected :: "jobject \<Rightarrow> hm_action" where
  "handleClientDisconnected message =
     (let clientId = message_clientId message; reason = toString (oget message ''reason'')
      in seq [modify (\<lambda>hm. hm\<lparr>hm_clients := qm_remove clientId (hm_clients hm)\<rparr>),
              emit [hm_clientCountChanged, hm_clientListChanged, hm_clientDisconnected clientId reason]])"

definition handleAuthorizationRequest :: "jobject \<Rightarrow> hm_action" where
  "handleAuthorizationRequest message =
     (let clientInfo = toObject (oget message ''clientInfo'')
      in emit [hm_authorizationRequested (toString (oget message ''connectionId'')) (toString (oget clientInfo ''username''))
                 (toString (oget clientInfo ''ip''))])"

definition listed_session :: "jobject \<Rightarrow> session_info" where
  "listed_session ob =
     \<lparr>si_connectionId = toString (oget ob ''connectionId''), si_username = toString (oget ob ''username''), si_deviceId = [],
      si_ip = toString (oget ob ''ip''), si_deviceName = toString (oget ob ''deviceName''),
      si_connectedAt = toString (oget ob ''connectedAt''), si_state = toString (oget ob ''state'')\<rparr>"

definition handleClientListChanged :: "jobject \<Rightarrow> hm_action" where
  "handleClientListChanged message =
     seq [modify (\<lambda>hm. hm\<lparr>hm_clients :=
            fold (\<lambda>value. let session = listed_session (toObject value) in qm_insert (si_connectionId session) session)
              (toArray (oget message ''clients'')) []\<rparr>),
          emit [hm_clientCountChanged, hm_clientListChanged]]"

definition hm_handleError :: "jobject \<Rightarrow> hm_action" where
  "hm_handleError message = emit [hm_errorOccurred (toString (oget message ''code'')) (toString (oget message ''message''))]"

definition hm_handleSignalingStateChanged :: "jobject \<Rightarrow> hm_action" where
  "hm_handleSignalingStateChanged message hm =
     (let state = toString (oget message ''state''); retryCount = toInt (oget message ''retryCount'');
          nextRetryIn = toInt (oget message ''nextRetryIn''); err = toString (oget message ''error'');
          changed = (hm_signalingState hm \<noteq> state \<or> hm_signalingRetryCount hm \<noteq> retryCount
            \<or> hm_signalingNextRetryIn hm \<noteq> nextRetryIn \<or> hm_signalingError hm \<noteq> err);
          nowConnected = (state = ''connected'')
      in (hm\<lparr>hm_signalingState := state, hm_signalingRetryCount := retryCount, hm_signalingNextRetryIn := nextRetryIn,
             hm_signalingError := err, hm_isConnected := nowConnected\<rparr>,
          (if changed then [hm_signalingStateChanged] else [])
          @ (if hm_isConnected hm \<noteq> nowConnected then [hm_connectionStatusChanged] else [])))"

definition handleDisconnectResponse :: "jobject \<Rightarrow> hm_action" where
  "handleDisconnectResponse message = emit []"

definition handleRefreshAccessCodeResponse :: "jobject \<Rightarrow> hm_action" where
  "handleRefreshAccessCodeResponse message =
     (if toBool (oget message ''success'')
      then seq [modify (\<lambda>hm. hm\<lparr>hm_accessCode := toString (oget message ''accessCode'')\<rparr>),
                emit [hm_accessCodeChanged, hm_refreshAccessCodeResult True [] []]]
      else emit [hm_refreshAccessCodeResult False (toString (oget message ''error''))
                   (toString (oget message ''errorMessage''))])"

definition handlePrivacyScreenStateChanged :: "jobject \<Rightarrow> hm_action" where
  "handlePrivacyScreenStateChanged message = emit [hm_privacyScreenStateChanged (toBool (oget message ''enabled''))]"

definition handleSetAutoLockOnSessionEndResult :: "jobject \<Rightarrow> hm_action" where
  "handleSetAutoLockOnSessionEndResult message hm =
     (if \<not> toBool (oget message ''success'')
      then (hm, [hm_errorOccurred ''AUTO_LOCK_UPDATE_FAILED'' (toString (oget message ''error'')),
                 hm_autoLockOnSessionEndChanged])
      else
        let enabled = toBoolD False (oget message ''enabled'')
        in if hm_autoLockOnSessionEnd hm \<noteq> enabled
           then (hm\<lparr>hm_autoLockOnSessionEnd := enabled\<rparr>, [hm_autoLockOnSessionEndChanged])
           else (hm, []))"

definition handleSkillMessage :: "jobject \<Rightarrow> hm_action" where
  "handleSkillMessage message = emit [hm_skillMessage (toString (oget message ''data''))]"

definition hm_onMessageReceived :: "host_env \<Rightarrow> jobject \<Rightarrow> hm_action" where
  "hm_onMessageReceived env message =
     (let type = toString (oget message ''type'')
      in if type = ''helloResponse'' then hm_handleHelloResponse message
         else if type = ''connectResponse'' then handleConnectResponse message
         else if type = ''hostReady'' then handleHostReady message
         else if type = ''accessCodeChanged'' then handleAccessCodeChanged message
         else if type = ''natPolicyChanged'' then handleNatPolicyChanged message
         else if type = ''clientConnected'' then handleClientConnected env message
         else if type = ''clientDisconnected'' then handleClientDisconnected message
         else if type = ''authorizationRequest'' then handleAuthorizationRequest message
         else if type = ''clientListChanged'' then handleClientListChanged message
         else if type = ''error'' then hm_handleError message
         else if type = ''signalingStateChanged'' then hm_handleSignalingStateChanged message
         else if type = ''refreshAccessCodeResponse'' then handleRefreshAccessCodeResponse message
         else if type = ''disconnectResponse'' then handleDisconnectResponse message
         else if type = ''skillMessage'' then handleSkillMessage message
         else if type = ''privacyScreenStateChanged'' then handlePrivacyScreenStateChanged message
         else if type = ''setAutoLockOnSessionEndResult'' then handleSetAutoLockOnSessionEndResult message
         else emit [])"


section \<open>The manager as a state machine\<close>

text \<open>
  One input is one call or one signal the event loop delivers; messages and errors arrive only while a
  channel is set. \<open>HM_channel\<close> is a change of the channel the class only observes (its transport changes
  state, or the object is destroyed, which clears the \<open>QPointer\<close>).
\<close>

datatype hm_input =
    HM_setMessaging "native_messaging option"
  | HM_channel "native_messaging option"
  | HM_connect host_env qstring qstring
  | HM_disconnect host_env
  | HM_hello host_env
  | HM_authorize host_env qstring bool
  | HM_kick host_env qstring
  | HM_refresh host_env
  | HM_setIceConfig jobject
  | HM_skill host_env qstring
  | HM_privacy host_env bool
  | HM_autoLock host_env bool
  | HM_message host_env jobject
  | HM_channelError qstring

fun hm_exec :: "hm_input \<Rightarrow> hm_action" where
  "hm_exec (HM_setMessaging nm) hm = hm_setMessaging nm hm"
| "hm_exec (HM_channel nm) hm = (if hm_messaging hm = None then (hm, []) else (hm\<lparr>hm_messaging := nm\<rparr>, []))"
| "hm_exec (HM_connect env url code) hm = connectToServer env url code hm"
| "hm_exec (HM_disconnect env) hm = disconnectFromServer env hm"
| "hm_exec (HM_hello env) hm = hm_sendHello env hm"
| "hm_exec (HM_authorize env c a) hm = authorizeClient env c a hm"
| "hm_exec (HM_kick env c) hm = kickClient env c hm"
| "hm_exec (HM_refresh env) hm = refreshAccessCode env hm"
| "hm_exec (HM_setIceConfig c) hm = (hm_setIceConfig c hm, [])"
| "hm_exec (HM_skill env d) hm = sendSkillBridgeSend env d hm"
| "hm_exec (HM_privacy env b) hm = hm_togglePrivacyScreen env b hm"
| "hm_exec (HM_autoLock env b) hm = setAutoLockOnSessionEnd env b hm"
| "hm_exec (HM_message env m) hm = (if hm_messaging hm = None then (hm, []) else hm_onMessageReceived env m hm)"
| "hm_exec (HM_channelError e) hm = (if hm_messaging hm = None then (hm, []) else hm_onMessagingError e hm)"

definition hm_run :: "hm_input list \<Rightarrow> hm_action" where
  "hm_run = for_each hm_exec"

end
