(* ===== verification/ApiHandler.thy ===== *)
theory ApiHandler
  imports ClientManager HostManager VerificationService SkillHandler TrustHandler ProcessManager
begin

text \<open>
  \<open>QuickDesk/src/api/ApiHandler.cpp\<close>: the methods of the WebSocket API. Each handler checks its parameters,
  calls the managers and answers with a result or an error object. The managers are the models of
  \<open>ClientManager\<close>, \<open>HostManager\<close>, \<open>UiStateService\<close>, \<open>VerificationService\<close>, \<open>SkillHandler\<close> and \<open>TrustHandler\<close>.

  \<open>api_env\<close> holds what the rest of the program answers during a call: the configuration, the contents of
  the shared memory, what a poll of the screen sees, Qt's image functions. What the main controller
  does beyond the managers (verifying an access code, showing a window, its timer) is an event. A
  call that waits (skill calls, confirmations) has no answer yet: the result is \<open>None\<close>, the answer follows
  as in the models of the two handlers. A read that leaves the shared memory, whose outcome is
  undefined, is shown as a failed read.
\<close>


section \<open>Data\<close>

record api =
  ah_client :: client_manager
  ah_host :: host_manager
  ah_clipboardCache :: "(qstring, qstring) qmap"
  ah_ocr :: cache
  ah_skill :: skill_handler
  ah_trust :: trust_handler

record api_env =
  ae_client :: client_env
  ae_host :: host_env
  ae_hostProcessStatus :: process_status
  ae_clientProcessStatus :: process_status
  ae_serverUrl :: qstring
  ae_nextAccessCodeRefreshTime :: qstring
  ae_memory :: "byte list option"
  ae_toImage :: "read_result \<Rightarrow> qimage"
  ae_scaledToWidth :: "qimage \<Rightarrow> int \<Rightarrow> qimage"
  ae_scaledToHeight :: "qimage \<Rightarrow> int \<Rightarrow> qimage"
  ae_encode :: "qimage \<Rightarrow> qstring \<Rightarrow> int \<Rightarrow> byte list option"
  ae_base64 :: "byte list \<Rightarrow> qstring"
  ae_lib :: ocr_lib
  ae_obs :: "nat \<Rightarrow> ocr_obs"
  ae_toJson :: "jobject \<Rightarrow> qstring"
  ae_confirmMode :: "qstring option"

datatype api_event =
    AE_client cm_event
  | AE_host hm_event
  | AE_skill skill_event
  | AE_trust trust_event
  | AE_connectToRemoteHost qstring qstring qstring
  | AE_resetAccessCodeRefreshTimer
  | AE_requestShowRemoteWindow qstring

type_synonym api_handler = "api_env \<Rightarrow> jobject \<Rightarrow> api \<Rightarrow> api \<times> api_event list \<times> jobject option"

fun processStatusToString :: "process_status \<Rightarrow> qstring" where
  "processStatusToString NotStarted = ''notStarted''"
| "processStatusToString Starting = ''starting''"
| "processStatusToString Running = ''running''"
| "processStatusToString Failed = ''failed''"
| "processStatusToString Restarting = ''restarting''"

fun rtcStatusToString :: "rtc_status \<Rightarrow> qstring" where
  "rtcStatusToString RtcDisconnected = ''disconnected''"
| "rtcStatusToString RtcConnecting = ''connecting''"
| "rtcStatusToString RtcConnected = ''connected''"
| "rtcStatusToString RtcFailed = ''failed''"

definition makeResult :: "jobject \<Rightarrow> jobject" where
  "makeResult data = mkobj [(''result'', JObj data)]"

definition makeError :: "int \<Rightarrow> qstring \<Rightarrow> jobject" where
  "makeError code message = mkobj [(''error'', JObj (mkobj [(''code'', JInt code), (''message'', JStr message)]))]"

definition success :: "jobject option" where
  "success = Some (makeResult (mkobj [(''success'', JBool True)]))"

definition missing :: "qstring \<Rightarrow> jobject option" where
  "missing k = Some (makeError 400 (''Missing '' @ [CHR 0x27] @ k @ [CHR 0x27]))"

text \<open>The first statement of most handlers: the device a request is about.\<close>

definition withDevice :: "(qstring \<Rightarrow> api_handler) \<Rightarrow> api_handler" where
  "withDevice f env params st =
     (let deviceId = toString (oget params ''deviceId'')
      in if deviceId = [] then (st, [], missing ''deviceId'') else f deviceId env params st)"

text \<open>The slots of \<open>clipboardReceived\<close> and \<open>connectionRemoved\<close>.\<close>

fun api_signal :: "cm_event \<Rightarrow> api \<Rightarrow> api" where
  "api_signal (cm_clipboardReceived deviceId str) st = st\<lparr>ah_clipboardCache := qm_insert deviceId str (ah_clipboardCache st)\<rparr>"
| "api_signal (cm_connectionRemoved deviceId) st = st\<lparr>ah_clipboardCache := qm_remove deviceId (ah_clipboardCache st)\<rparr>"
| "api_signal _ st = st"

text \<open>Calls of the managers; the two slots run when the client manager signals.\<close>

definition client_call :: "cm_action \<Rightarrow> api \<Rightarrow> api \<times> api_event list" where
  "client_call a st = (let (cm, ev) = a (ah_client st) in (fold api_signal ev (st\<lparr>ah_client := cm\<rparr>), map AE_client ev))"

definition host_call :: "hm_action \<Rightarrow> api \<Rightarrow> api \<times> api_event list" where
  "host_call a st = (let (hm, ev) = a (ah_host st) in (st\<lparr>ah_host := hm\<rparr>, map AE_host ev))"

text \<open>A handler that calls the client manager and answers with success.\<close>

definition runCommands :: "cm_action list \<Rightarrow> api \<Rightarrow> api \<times> api_event list \<times> jobject option" where
  "runCommands as st = (let (st', ev) = client_call (seq as) st in (st', ev, success))"


section \<open>Host\<close>

definition handleGetHostInfo :: api_handler where
  "handleGetHostInfo env params st =
     (let host = ah_host st
      in (st, [], Some (makeResult (mkobj
           [(''deviceId'', JStr (hm_deviceId host)), (''accessCode'', JStr (hm_accessCode host)),
            (''signalingState'', JStr (hm_signalingState host)), (''signalingRetryCount'', JInt (hm_signalingRetryCount host)),
            (''signalingNextRetryIn'', JInt (hm_signalingNextRetryIn host)), (''signalingError'', JStr (hm_signalingError host)),
            (''clientCount'', JInt (int (clientCount host))),
            (''nextAccessCodeRefreshTime'', JStr (ae_nextAccessCodeRefreshTime env))]))))"

definition sessionToJson :: "session_info \<Rightarrow> jobject" where
  "sessionToJson s =
     mkobj [(''connectionId'', JStr (si_connectionId s)), (''username'', JStr (si_username s)),
       (''deviceId'', JStr (si_deviceId s)), (''deviceName'', JStr (si_deviceName s)), (''ip'', JStr (si_ip s)),
       (''state'', JStr (si_state s)), (''connectedAt'', JStr (si_connectedAt s))]"

definition handleGetHostClients :: api_handler where
  "handleGetHostClients env params st =
     (st, [], Some (makeResult (mkobj
        [(''clients'', JArr (map (\<lambda>s. JObj (sessionToJson s)) (connectedClients (ah_host st))))])))"

definition handleRefreshAccessCode :: api_handler where
  "handleRefreshAccessCode env params st =
     (let (st', ev) = host_call (refreshAccessCode (ae_host env)) st
      in (st', ev @ [AE_resetAccessCodeRefreshTimer], success))"

definition handleKickClient :: api_handler where
  "handleKickClient env params st =
     (let connectionId = toString (oget params ''connectionId'')
      in if connectionId = [] then (st, [], missing ''connectionId'')
         else let (st', ev) = host_call (kickClient (ae_host env) connectionId) st in (st', ev, success))"


section \<open>Status\<close>

definition handleGetStatus :: api_handler where
  "handleGetStatus env params st =
     (let host = ah_host st; client = ah_client st;
          hostObj = mkobj [(''processStatus'', JStr (processStatusToString (ae_hostProcessStatus env))),
            (''signalingState'', JStr (hm_signalingState host)), (''deviceId'', JStr (hm_deviceId host)),
            (''accessCode'', JStr (hm_accessCode host)), (''clientCount'', JInt (int (clientCount host)))];
          clientObj = mkobj [(''processStatus'', JStr (processStatusToString (ae_clientProcessStatus env))),
            (''connectionCount'', JInt (int (connectionCount client))), (''activeDeviceId'', JStr (cm_activeDeviceId client))];
          serverObj = mkobj [(''url'', JStr (ae_serverUrl env)), (''configured'', JBool (ae_serverUrl env \<noteq> []))]
      in (st, [], Some (makeResult (mkobj [(''host'', JObj hostObj), (''client'', JObj clientObj), (''server'', JObj serverObj)]))))"

definition handleGetSignalingStatus :: api_handler where
  "handleGetSignalingStatus env params st =
     (let host = ah_host st;
          hostSig = mkobj [(''state'', JStr (hm_signalingState host)), (''retryCount'', JInt (hm_signalingRetryCount host)),
            (''nextRetryIn'', JInt (hm_signalingNextRetryIn host)), (''error'', JStr (hm_signalingError host))]
      in (st, [], Some (makeResult (mkobj [(''url'', JStr (ae_serverUrl env)), (''hostSignaling'', JObj hostSig)]))))"


section \<open>Connections\<close>

definition connectionInfoToJson :: "connection_info \<Rightarrow> jobject" where
  "connectionInfoToJson info =
     mkobj [(''deviceId'', JStr (ci_deviceId info)), (''deviceName'', JStr (ci_deviceName info)),
       (''rtcState'', JStr (rtcStatusToString (ci_rtcState info))), (''signalingState'', JStr (ci_signalingState info)),
       (''signalingRetryCount'', JInt (ci_signalingRetryCount info)),
       (''signalingNextRetryIn'', JInt (ci_signalingNextRetryIn info)), (''signalingError'', JStr (ci_signalingError info)),
       (''width'', JInt (ci_width info)), (''height'', JInt (ci_height info)), (''connectedAt'', JStr (ci_connectedAt info))]"

definition handleListConnections :: api_handler where
  "handleListConnections env params st =
     (st, [], Some (makeResult (mkobj
        [(''connections'', JArr (map (\<lambda>c. JObj (connectionInfoToJson c)) (connections (ah_client st)))),
         (''activeDeviceId'', JStr (cm_activeDeviceId (ah_client st)))])))"

definition device_not_found :: "qstring \<Rightarrow> jobject option" where
  "device_not_found deviceId = Some (makeError 404 (''Device not found: '' @ deviceId))"

definition handleGetConnectionInfo :: api_handler where
  "handleGetConnectionInfo = withDevice (\<lambda>deviceId env params st.
     let info = getConnection deviceId (ah_client st)
     in if ci_deviceId info = [] then (st, [], device_not_found deviceId)
        else (st, [], Some (makeResult (connectionInfoToJson info))))"

text \<open>\<open>MainController::connectToRemoteHost\<close> starts the verification of the access code and returns the device.\<close>

definition handleConnectToHost :: api_handler where
  "handleConnectToHost env params st =
     (let deviceId = toString (oget params ''deviceId''); accessCode = toString (oget params ''accessCode'')
      in if deviceId = [] \<or> accessCode = []
         then (st, [], Some (makeError 400 (''Missing '' @ [CHR 0x27] @ ''deviceId'' @ [CHR 0x27] @ '' or ''
                 @ [CHR 0x27] @ ''accessCode'' @ [CHR 0x27])))
         else
           let serverUrl = toString (oget params ''serverUrl'');
               url = (if serverUrl = [] then ae_serverUrl env else serverUrl);
               result = deviceId;
               showWindow = toBoolD True (oget params ''showWindow'')
           in (st, AE_connectToRemoteHost deviceId accessCode url
                   # (if showWindow \<and> result \<noteq> [] then [AE_requestShowRemoteWindow deviceId] else []),
               Some (makeResult (mkobj [(''deviceId'', JStr result)]))))"

definition handleDisconnectFromHost :: api_handler where
  "handleDisconnectFromHost = withDevice (\<lambda>deviceId env params.
     runCommands [disconnectFromHost (ae_client env) deviceId])"

definition handleDisconnectAll :: api_handler where
  "handleDisconnectAll env params = runCommands [disconnectAll (ae_client env)]"


section \<open>Screen, mouse and keyboard\<close>

definition no_frame :: "qstring \<Rightarrow> qstring" where
  "no_frame deviceId = ''No video frame available for: '' @ deviceId"

definition limit_size :: "api_env \<Rightarrow> jobject \<Rightarrow> qimage \<Rightarrow> qimage" where
  "limit_size env params img =
     (let maxWidth = toIntD 0 (oget params ''maxWidth''); maxHeight = toIntD 0 (oget params ''maxHeight'');
          img1 = (if maxWidth > 0 \<and> im_width img > maxWidth then ae_scaledToWidth env img maxWidth else img)
      in if maxHeight > 0 \<and> im_height img1 > maxHeight then ae_scaledToHeight env img1 maxHeight else img1)"

definition handleScreenshot :: api_handler where
  "handleScreenshot = withDevice (\<lambda>deviceId env params st.
     if \<not> shm_isAttached deviceId (cm_sharedMemory (ah_client st)) then (st, [], Some (makeError 404 (no_frame deviceId)))
     else
       let (m, r) = readVideoFrame (ae_memory env) deviceId (cm_sharedMemory (ah_client st));
           st1 = st\<lparr>ah_client := (ah_client st)\<lparr>cm_sharedMemory := m\<rparr>\<rparr>
       in case r of
            Frame w h ps \<Rightarrow>
              let image0 = ae_toImage env r
              in if im_isNull image0 then (st1, [], Some (makeError 500 ''Failed to convert video frame to image''))
                 else
                   let img = limit_size env params image0;
                       format = toStringD ''jpeg'' (oget params ''format'');
                       quality = toIntD 80 (oget params ''quality'')
                   in (case ae_encode env img (if format = ''png'' then ''PNG'' else ''JPEG'') quality of
                         None \<Rightarrow> (st1, [], Some (makeError 500 ''Failed to encode image''))
                       | Some bytes \<Rightarrow>
                           (st1, [], Some (makeResult (mkobj [(''width'', JInt (im_width img)), (''height'', JInt (im_height img)),
                              (''format'', JStr format), (''data'', JStr (ae_base64 env bytes))]))))
          | _ \<Rightarrow> (st1, [], Some (makeError 500 ''Failed to read video frame'')))"

definition button_code :: "jobject \<Rightarrow> int" where
  "button_code params =
     (let buttonStr = toStringD ''left'' (oget params ''button'')
      in if buttonStr = ''right'' then 2 else if buttonStr = ''middle'' then 4 else 1)"

definition click :: "client_env \<Rightarrow> qstring \<Rightarrow> int \<Rightarrow> int \<Rightarrow> int \<Rightarrow> cm_action list" where
  "click env deviceId x y button =
     [sendMouseMove env deviceId x y, sendMousePress env deviceId x y button, sendMouseRelease env deviceId x y button]"

definition handleMouseClick :: api_handler where
  "handleMouseClick = withDevice (\<lambda>deviceId env params.
     runCommands (click (ae_client env) deviceId (toInt (oget params ''x'')) (toInt (oget params ''y'')) (button_code params)))"

definition handleMouseDoubleClick :: api_handler where
  "handleMouseDoubleClick = withDevice (\<lambda>deviceId env params.
     let x = toInt (oget params ''x''); y = toInt (oget params ''y''); button = 1
     in runCommands (click (ae_client env) deviceId x y button
          @ [sendMousePress (ae_client env) deviceId x y button, sendMouseRelease (ae_client env) deviceId x y button]))"

definition handleMouseMove :: api_handler where
  "handleMouseMove = withDevice (\<lambda>deviceId env params.
     runCommands [sendMouseMove (ae_client env) deviceId (toInt (oget params ''x'')) (toInt (oget params ''y''))])"

definition handleMouseScroll :: api_handler where
  "handleMouseScroll = withDevice (\<lambda>deviceId env params.
     runCommands [sendMouseWheel (ae_client env) deviceId (toInt (oget params ''x'')) (toInt (oget params ''y''))
                 (toIntD 0 (oget params ''deltaX'')) (toIntD 0 (oget params ''deltaY''))])"

definition handleMouseDrag :: api_handler where
  "handleMouseDrag = withDevice (\<lambda>deviceId env params.
     let startX = toInt (oget params ''startX''); startY = toInt (oget params ''startY'');
         endX = toInt (oget params ''endX''); endY = toInt (oget params ''endY''); button = button_code params
     in runCommands [sendMouseMove (ae_client env) deviceId startX startY, sendMousePress (ae_client env) deviceId startX startY button,
          sendMouseMove (ae_client env) deviceId endX endY, sendMouseRelease (ae_client env) deviceId endX endY button])"

definition handleKeyboardType :: api_handler where
  "handleKeyboardType = withDevice (\<lambda>deviceId env params st.
     let str = toString (oget params ''text'')
     in if str = [] then (st, [], missing ''text'')
        else runCommands [syncClipboard (ae_client env) deviceId str,
               sendKeyPress (ae_client env) deviceId 0x1D 0, sendKeyPress (ae_client env) deviceId 0x2F 0,
               sendKeyRelease (ae_client env) deviceId 0x2F 0, sendKeyRelease (ae_client env) deviceId 0x1D 0] st)"

definition kMap :: "(qstring \<times> int) list" where
  "kMap =
     [(''ctrl'', 0x1D), (''lctrl'', 0x1D), (''rctrl'', 0xE01D), (''shift'', 0x2A), (''lshift'', 0x2A), (''rshift'', 0x36),
      (''alt'', 0x38), (''lalt'', 0x38), (''ralt'', 0xE038), (''win'', 0xE05B), (''lwin'', 0xE05B), (''rwin'', 0xE05C),
      (''meta'', 0xE05B),
      (''enter'', 0x1C), (''return'', 0x1C), (''tab'', 0x0F), (''space'', 0x39), (''backspace'', 0x0E), (''back'', 0x0E),
      (''escape'', 0x01), (''esc'', 0x01), (''delete'', 0xE053), (''del'', 0xE053), (''insert'', 0xE052), (''ins'', 0xE052),
      (''home'', 0xE047), (''end'', 0xE04F), (''pageup'', 0xE049), (''pgup'', 0xE049), (''pagedown'', 0xE051),
      (''pgdn'', 0xE051),
      (''up'', 0xE048), (''down'', 0xE050), (''left'', 0xE04B), (''right'', 0xE04D),
      (''f1'', 0x3B), (''f2'', 0x3C), (''f3'', 0x3D), (''f4'', 0x3E), (''f5'', 0x3F), (''f6'', 0x40), (''f7'', 0x41),
      (''f8'', 0x42), (''f9'', 0x43), (''f10'', 0x44), (''f11'', 0x57), (''f12'', 0x58),
      (''a'', 0x1E), (''b'', 0x30), (''c'', 0x2E), (''d'', 0x20), (''e'', 0x12), (''f'', 0x21), (''g'', 0x22), (''h'', 0x23),
      (''i'', 0x17), (''j'', 0x24), (''k'', 0x25), (''l'', 0x26), (''m'', 0x32), (''n'', 0x31), (''o'', 0x18), (''p'', 0x19),
      (''q'', 0x10), (''r'', 0x13), (''s'', 0x1F), (''t'', 0x14), (''u'', 0x16), (''v'', 0x2F), (''w'', 0x11), (''x'', 0x2D),
      (''y'', 0x15), (''z'', 0x2C),
      (''0'', 0x0B), (''1'', 0x02), (''2'', 0x03), (''3'', 0x04), (''4'', 0x05), (''5'', 0x06), (''6'', 0x07), (''7'', 0x08),
      (''8'', 0x09), (''9'', 0x0A),
      (''-'', 0x0C), (''='', 0x0D), (''['', 0x1A), ('']'', 0x1B), ('';'', 0x27), ([CHR 0x27], 0x28), ('','', 0x33),
      (''.'', 0x34), (''/'', 0x35), ([CHR 0x5C], 0x2B), ([CHR 0x60], 0x29),
      (''printscreen'', 0xE037), (''prtsc'', 0xE037), (''scrolllock'', 0x46), (''pause'', 0xE11D), (''capslock'', 0x3A),
      (''numlock'', 0x45)]"

text \<open>\<open>None\<close> where the code returns -1.\<close>

definition keyNameToScanCode :: "qstring \<Rightarrow> int option" where
  "keyNameToScanCode keyName = map_of kMap (trimmed (toLower keyName))"

definition unknown_key :: "qstring \<Rightarrow> jobject option" where
  "unknown_key k = Some (makeError 400 (''Unknown key: '' @ [CHR 0x27] @ k @ [CHR 0x27]))"

text \<open>The loop that collects the codes ends at the first unknown key.\<close>

fun scanCodes :: "json list \<Rightarrow> qstring + int list" where
  "scanCodes [] = Inr []"
| "scanCodes (key # keys) =
     (case keyNameToScanCode (toString key) of
        None \<Rightarrow> Inl (toString key)
      | Some sc \<Rightarrow> (case scanCodes keys of Inl k \<Rightarrow> Inl k | Inr scs \<Rightarrow> Inr (sc # scs)))"

definition handleKeyboardHotkey :: api_handler where
  "handleKeyboardHotkey = withDevice (\<lambda>deviceId env params st.
     let keysArray = toArray (oget params ''keys'')
     in if keysArray = [] then (st, [], Some (makeError 400 (''Missing '' @ [CHR 0x27] @ ''keys'' @ [CHR 0x27] @ '' array'')))
        else case scanCodes keysArray of
          Inl k \<Rightarrow> (st, [], unknown_key k)
        | Inr scs \<Rightarrow> runCommands (map (\<lambda>sc. sendKeyPress (ae_client env) deviceId sc 0) scs
                      @ map (\<lambda>sc. sendKeyRelease (ae_client env) deviceId sc 0) (rev scs)) st)"

definition key_handler :: "(client_env \<Rightarrow> qstring \<Rightarrow> int \<Rightarrow> int \<Rightarrow> cm_action) \<Rightarrow> api_handler" where
  "key_handler act = withDevice (\<lambda>deviceId env params st.
     let keyName = toString (oget params ''key'')
     in if keyName = [] then (st, [], missing ''key'')
        else case keyNameToScanCode keyName of
          None \<Rightarrow> (st, [], unknown_key keyName)
        | Some sc \<Rightarrow> runCommands [act (ae_client env) deviceId sc 0] st)"

definition handleKeyPress :: api_handler where
  "handleKeyPress = key_handler sendKeyPress"

definition handleKeyRelease :: api_handler where
  "handleKeyRelease = key_handler sendKeyRelease"

definition handleGetClipboard :: api_handler where
  "handleGetClipboard = withDevice (\<lambda>deviceId env params st.
     (st, [], Some (makeResult (mkobj
        (case map_of (ah_clipboardCache st) deviceId of
           Some str \<Rightarrow> [(''text'', JStr str)]
         | None \<Rightarrow> [(''text'', JStr []), (''note'', JStr (''No clipboard content received yet from remote. ''
               @ ''Clipboard is synced when the remote user copies something.''))])))))"

definition handleSetClipboard :: api_handler where
  "handleSetClipboard = withDevice (\<lambda>deviceId env params.
     runCommands [syncClipboard (ae_client env) deviceId (toString (oget params ''text''))])"

definition handleGetScreenSize :: api_handler where
  "handleGetScreenSize = withDevice (\<lambda>deviceId env params st.
     let info = getConnection deviceId (ah_client st)
     in if ci_deviceId info = [] then (st, [], device_not_found deviceId)
        else (st, [], Some (makeResult (mkobj [(''width'', JInt (ci_width info)), (''height'', JInt (ci_height info))]))))"


section \<open>Text on the screen\<close>

text \<open>\<open>readCurrentFrame\<close> and the OCR through the cache, as the two handlers that have their own copy of it do it.\<close>

definition readCurrentFrame :: "qstring \<Rightarrow> ocr_obs \<Rightarrow> qstring + qimage" where
  "readCurrentFrame deviceId ob =
     (if \<not> ob_attached ob then Inl (no_frame deviceId)
      else case ob_frame ob of
        None \<Rightarrow> Inl ''Failed to read video frame''
      | Some img \<Rightarrow> if im_isNull img then Inl ''Failed to convert video frame to QImage'' else Inr img)"

definition ocrResultToJson :: "ocr_result \<Rightarrow> qstring \<Rightarrow> jobject" where
  "ocrResultToJson result deviceId =
     mkobj [(''deviceId'', JStr deviceId), (''width'', JInt (fst (or_imageSize result))), (''height'', JInt (snd (or_imageSize result))),
       (''blocks'', JArr (map (\<lambda>b. JObj (ocrBlockToJson b)) (or_blocks result))), (''frameHash'', JStr (or_frameHash result))]"

text \<open>The result for a frame: the cached one, or a new one that is put into the cache.\<close>

definition cachedOcr :: "api_env \<Rightarrow> qimage \<Rightarrow> cache \<Rightarrow> cache \<times> ocr_result" where
  "cachedOcr env img c =
     (let frameHash = computeFrameHash (ae_lib env) img
      in case get frameHash c of
           Some cached \<Rightarrow> (c, cached)
         | None \<Rightarrow>
             let result = (recognize (ae_lib env) img (ob_engine (ae_obs env 0)))\<lparr>or_frameHash := frameHash\<rparr>
             in (put frameHash result c, result))"

definition handleGetScreenText :: api_handler where
  "handleGetScreenText = withDevice (\<lambda>deviceId env params st.
     if \<not> isInitialized (ob_engine (ae_obs env 0))
     then (st, [], Some (makeError 503 ''OCR engine not ready. Check that model files are present in the models/ directory.''))
     else case readCurrentFrame deviceId (ae_obs env 0) of
       Inl err \<Rightarrow> (st, [], Some (makeError 404 err))
     | Inr img \<Rightarrow>
         let (c, result) = cachedOcr env img (ah_ocr st)
         in (st\<lparr>ah_ocr := c\<rparr>, [], Some (makeResult (ocrResultToJson result deviceId))))"

definition hits :: "bool \<Rightarrow> bool \<Rightarrow> qstring \<Rightarrow> ocr_text_block \<Rightarrow> bool" where
  "hits exact ignoreCase str blk =
     (if exact then equals_cs ignoreCase (tb_text blk) str else contains_cs ignoreCase (tb_text blk) str)"

definition handleFindElement :: api_handler where
  "handleFindElement = withDevice (\<lambda>deviceId env params st.
     let str = trimmed (toString (oget params ''text'')); exact = toBoolD False (oget params ''exact'');
         ignoreCase = toBoolD True (oget params ''ignoreCase'')
     in if str = [] then (st, [], Some (makeError 400 (''Missing '' @ [CHR 0x27] @ ''text'' @ [CHR 0x27] @ '' to find'')))
        else if \<not> isInitialized (ob_engine (ae_obs env 0)) then (st, [], Some (makeError 503 ''OCR engine not ready''))
        else case readCurrentFrame deviceId (ae_obs env 0) of
          Inl err \<Rightarrow> (st, [], Some (makeError 404 err))
        | Inr img \<Rightarrow>
            let frameHash = computeFrameHash (ae_lib env) img;
                (c, result) = cachedOcr env img (ah_ocr st);
                matches = map (\<lambda>b. JObj (ocrBlockToJson b)) (filter (hits exact ignoreCase str) (or_blocks result))
            in (st\<lparr>ah_ocr := c\<rparr>, [], Some (makeResult (mkobj [(''deviceId'', JStr deviceId), (''query'', JStr str),
                 (''found'', JBool (matches \<noteq> [])), (''matches'', JArr matches), (''frameHash'', JStr frameHash)]))))"

definition text_not_found :: "qstring \<Rightarrow> jobject option" where
  "text_not_found q = Some (makeResult (mkobj [(''found'', JBool False), (''query'', JStr q),
     (''message'', JStr (''Text not found on screen: '' @ quoted q))]))"

definition handleClickText :: api_handler where
  "handleClickText = withDevice (\<lambda>deviceId env params st.
     case handleFindElement env params st of
       (st1, ev1, None) \<Rightarrow> (st1, ev1, None)
     | (st1, ev1, Some findResult) \<Rightarrow>
         if ocontains findResult ''error'' then (st1, ev1, Some findResult)
         else
           let matches = toArray (oget (toObject (oget findResult ''result'')) ''matches'')
           in if matches = [] then (st1, ev1, text_not_found (toString (oget params ''text'')))
              else
                let first = toObject (matches ! 0); center = toObject (oget first ''center'');
                    x = toInt (oget center ''x''); y = toInt (oget center ''y'');
                    (st2, ev2) = client_call (seq (click (ae_client env) deviceId x y (button_code params))) st1
                in (st2, ev1 @ ev2, Some (makeResult (mkobj [(''success'', JBool True), (''clickedText'', oget first ''text''),
                      (''x'', JInt x), (''y'', JInt y), (''confidence'', oget first ''confidence'')]))))"

definition handleGetUiState :: api_handler where
  "handleGetUiState = withDevice (\<lambda>deviceId env params st.
     let info = getConnection deviceId (ah_client st);
         (c, r) = getUiState (ae_lib env) (ci_deviceId info, ci_width info, ci_height info) deviceId (ae_obs env 0) (ah_ocr st);
         st1 = st\<lparr>ah_ocr := c\<rparr>
     in case r of Inl err \<Rightarrow> (st1, [], Some (makeError 404 err)) | Inr u \<Rightarrow> (st1, [], Some (makeResult (uiStateToJson u))))"

definition withText :: "(qstring \<Rightarrow> qstring \<Rightarrow> bool \<Rightarrow> bool \<Rightarrow> api_handler) \<Rightarrow> api_handler" where
  "withText f = withDevice (\<lambda>deviceId env params st.
     let str = trimmed (toString (oget params ''text''))
     in if str = [] then (st, [], missing ''text'')
        else f deviceId str (toBoolD False (oget params ''exact'')) (toBoolD True (oget params ''ignoreCase'')) env params st)"

definition handleWaitForText :: api_handler where
  "handleWaitForText = withText (\<lambda>deviceId str exact ignoreCase env params st.
     let timeoutMs = toIntD 5000 (oget params ''timeoutMs'');
         (c, r) = waitForText (ae_lib env) deviceId (ae_obs env) str exact ignoreCase timeoutMs (ah_ocr st);
         st1 = st\<lparr>ah_ocr := c\<rparr>;
         data = [(''deviceId'', JStr deviceId), (''query'', JStr str)]
     in case r of
          Inr found \<Rightarrow> (st1, [], Some (makeResult (mkobj (data @ [(''found'', JBool True), (''match'', JObj (ocrBlockToJson found))]))))
        | Inl err \<Rightarrow>
            if err \<noteq> [] then (st1, [], Some (makeError 500 err))
            else (st1, [], Some (makeResult (mkobj (data @ [(''found'', JBool False)])))))"

definition handleAssertTextPresent :: api_handler where
  "handleAssertTextPresent = withText (\<lambda>deviceId str exact ignoreCase env params st.
     let (c, r) = assertTextPresent (ae_lib env) deviceId (ae_obs env 0) str exact ignoreCase (ah_ocr st);
         st1 = st\<lparr>ah_ocr := c\<rparr>;
         data = [(''deviceId'', JStr deviceId), (''query'', JStr str)]
     in case r of
          Inl err \<Rightarrow> (st1, [], Some (makeError 503 err))
        | Inr None \<Rightarrow> (st1, [], Some (makeResult (mkobj (data @ [(''present'', JBool False)]))))
        | Inr (Some found) \<Rightarrow>
            (st1, [], Some (makeResult (mkobj (data @ [(''present'', JBool True), (''match'', JObj (ocrBlockToJson found))])))))"

definition parseConditions :: "json list \<Rightarrow> verification_condition list" where
  "parseConditions arr =
     filter (\<lambda>c. vc_type c \<noteq> [] \<and> vc_value c \<noteq> []) (map (\<lambda>v. conditionFromJson (toObject v)) arr)"

definition withConditions :: "(qstring \<Rightarrow> verification_condition list \<Rightarrow> api_handler) \<Rightarrow> api_handler" where
  "withConditions f = withDevice (\<lambda>deviceId env params st.
     let arr1 = toArray (oget params ''expectations'');
         condArr = (if arr1 = [] then toArray (oget params ''conditions'') else arr1);
         conditions = parseConditions condArr
     in if condArr = []
        then (st, [], Some (makeError 400 (''Missing '' @ [CHR 0x27] @ ''expectations'' @ [CHR 0x27] @ '' array'')))
        else if conditions = []
        then (st, [], Some (makeError 400 (''No valid conditions in '' @ [CHR 0x27] @ ''expectations'' @ [CHR 0x27])))
        else f deviceId conditions env params st)"

definition handleVerifyActionResult :: api_handler where
  "handleVerifyActionResult = withConditions (\<lambda>deviceId conditions env params st.
     let timeoutMs = toIntD 3000 (oget params ''timeoutMs'');
         (c, vr) = verifyActionResult (ae_lib env) deviceId (ae_obs env) conditions timeoutMs (ah_ocr st)
     in (st\<lparr>ah_ocr := c\<rparr>, [], Some (makeResult (verificationResultToJson vr))))"

definition handleScreenDiffSummary :: api_handler where
  "handleScreenDiffSummary = withDevice (\<lambda>deviceId env params st.
     let fromHash = toString (oget params ''fromHash'');
         (c, diff, err) = screenDiffSummary (ae_lib env) deviceId (ae_obs env 0) fromHash (ah_ocr st);
         st1 = st\<lparr>ah_ocr := c\<rparr>
     in if err \<noteq> [] then (st1, [], Some (makeError 500 err)) else (st1, [], Some (makeResult (screenDiffToJson diff))))"

definition handleAssertScreenState :: api_handler where
  "handleAssertScreenState = withConditions (\<lambda>deviceId conditions env params st.
     let (c, vr) = assertScreenState (ae_lib env) deviceId (ae_obs env 0) conditions (ah_ocr st)
     in (st\<lparr>ah_ocr := c\<rparr>, [], Some (makeResult (verificationResultToJson vr))))"


section \<open>Skills and trust\<close>

text \<open>The answer if the call returned already.\<close>

fun skill_answer :: "skill_event list \<Rightarrow> jobject option" where
  "skill_answer [skillReturned k r] = Some (makeResult r)"
| "skill_answer _ = None"

fun trust_answer :: "trust_event list \<Rightarrow> jobject option" where
  "trust_answer [requestReturned k r] = Some (makeResult r)"
| "trust_answer _ = None"

definition api_handleSkillExec :: api_handler where
  "api_handleSkillExec env params st =
     (let (sk, ev) = handleSkillExec (ae_toJson env) (Some (connectedDeviceIds (ah_client st))) params (ah_skill st)
      in (st\<lparr>ah_skill := sk\<rparr>, map AE_skill ev, skill_answer ev))"

definition api_handleSkillListTools :: api_handler where
  "api_handleSkillListTools env params st =
     (let (sk, ev) = handleSkillListTools (ae_toJson env) (Some (connectedDeviceIds (ah_client st))) params (ah_skill st)
      in (st\<lparr>ah_skill := sk\<rparr>, map AE_skill ev, skill_answer ev))"

definition api_handleRequestConfirmation :: api_handler where
  "api_handleRequestConfirmation env params st =
     (let (th, ev) = handleRequestConfirmation (ae_toJson env) (ae_confirmMode env) params (ah_trust st)
      in (st\<lparr>ah_trust := th\<rparr>, map AE_trust ev, trust_answer ev))"

definition api_handleEmergencyStop :: api_handler where
  "api_handleEmergencyStop env params st =
     (let (th, ev, r) = handleEmergencyStop params (ah_trust st)
      in (st\<lparr>ah_trust := th\<rparr>, map AE_trust ev, Some (makeResult r)))"

definition api_handleDeactivateEmergency :: api_handler where
  "api_handleDeactivateEmergency env params st =
     (let (th, ev, r) = handleDeactivateEmergency params (ah_trust st)
      in (st\<lparr>ah_trust := th\<rparr>, map AE_trust ev, Some (makeResult r)))"

definition handleResolveConfirmation :: api_handler where
  "handleResolveConfirmation env params st =
     (let confirmId = toString (oget params ''confirmation_id''); approved = toBoolD False (oget params ''approved'');
          reason = toString (oget params ''reason'')
      in if confirmId = [] then (st, [], missing ''confirmation_id'')
         else (st\<lparr>ah_trust := resolveConfirmation confirmId approved reason (ah_trust st)\<rparr>, [], success))"


section \<open>Dispatch\<close>

definition registerHandlers :: "(qstring \<times> api_handler) list" where
  "registerHandlers =
     [(''getHostInfo'', handleGetHostInfo), (''getHostClients'', handleGetHostClients),
      (''refreshAccessCode'', handleRefreshAccessCode), (''kickClient'', handleKickClient),
      (''getStatus'', handleGetStatus), (''getSignalingStatus'', handleGetSignalingStatus),
      (''listConnections'', handleListConnections), (''getConnectionInfo'', handleGetConnectionInfo),
      (''connectToHost'', handleConnectToHost), (''disconnectFromHost'', handleDisconnectFromHost),
      (''disconnectAll'', handleDisconnectAll),
      (''screenshot'', handleScreenshot), (''mouseClick'', handleMouseClick), (''mouseDoubleClick'', handleMouseDoubleClick),
      (''mouseMove'', handleMouseMove), (''mouseScroll'', handleMouseScroll), (''keyboardType'', handleKeyboardType),
      (''keyboardHotkey'', handleKeyboardHotkey), (''mouseDrag'', handleMouseDrag), (''keyPress'', handleKeyPress),
      (''keyRelease'', handleKeyRelease), (''getClipboard'', handleGetClipboard), (''setClipboard'', handleSetClipboard),
      (''getScreenSize'', handleGetScreenSize),
      (''getScreenText'', handleGetScreenText), (''findElement'', handleFindElement), (''clickText'', handleClickText),
      (''getUiState'', handleGetUiState), (''waitForText'', handleWaitForText),
      (''assertTextPresent'', handleAssertTextPresent),
      (''verifyActionResult'', handleVerifyActionResult), (''screenDiffSummary'', handleScreenDiffSummary),
      (''assertScreenState'', handleAssertScreenState),
      (''skillExec'', api_handleSkillExec), (''skillListTools'', api_handleSkillListTools),
      (''requestConfirmation'', api_handleRequestConfirmation), (''emergencyStop'', api_handleEmergencyStop),
      (''deactivateEmergency'', api_handleDeactivateEmergency), (''resolveConfirmation'', handleResolveConfirmation)]"

definition handleRequest :: api_handler where
  "handleRequest env request st =
     (let method = toString (oget request ''method'')
      in if method = [] then (st, [], Some (makeError (-32600) (''Missing '' @ [CHR 0x27] @ ''method'' @ [CHR 0x27] @ '' field'')))
         else case map_of registerHandlers method of
           None \<Rightarrow> (st, [], Some (makeError (-32601) (''Unknown method: '' @ method)))
         | Some handler \<Rightarrow> handler env (toObject (oget request ''params'')) st)"

end
