(* ===== verification/ClientRouting.thy ===== *)
theory ClientRouting
  imports ClientManager FileTransferProperties
begin

text \<open>
  What \<open>ClientManager\<close> guarantees in every run: it uses the file transfer queue only through the queue's
  own operations, file sessions belong to connections in the table, the two tables are inverse to
  each other, and commands reach the connection of the device they name.
\<close>


section \<open>Sessions under the queue's operations\<close>

lemma endSession_sessions: "q_sessions (fst (endSession c q)) = (if c = [] then q_sessions q else qm_remove c (q_sessions q))"
  by (simp add: endSession_def)

lemma endSessions_sub: "map_of (q_sessions (fst (endSessions ids q))) \<subseteq>\<^sub>m map_of (q_sessions q)"
proof (induction ids arbitrary: q)
  case Nil
  then show ?case by simp
next
  case (Cons c ids)
  have "map_of (q_sessions (fst (endSession c q))) \<subseteq>\<^sub>m map_of (q_sessions q)"
    by (auto simp: endSession_sessions map_le_def)
  with Cons[of "fst (endSession c q)"] show ?case
    by (simp add: case_prod_beta Let_def) (meson map_le_trans)
qed

lemma finish_sessions [simp]: "q_sessions (fst (finish i st e q)) = q_sessions q"
  by (simp add: finish_def Let_def)

lemma sendCancel_sessions [simp]: "q_sessions (fst (sendCancel i q)) = q_sessions q"
  by (simp add: sendCancel_def Let_def)

lemma same_session_ops [simp]:
  "q_sessions (fst (markUncertain c q)) = q_sessions q"
  "q_sessions (fst (startDownload u c tid f q)) = q_sessions q"
  "q_sessions (fst (applyTransferEvent m dl tid i q)) = q_sessions q"
  "q_sessions (fst (cancel taskId q)) = q_sessions q"
  "q_sessions (fst (cancellationTimedOut taskId q)) = q_sessions q"
  "q_sessions (fst (pruneCompleted q)) = q_sessions q"
  "q_sessions (clearCompleted q) = q_sessions q"
  "q_sessions (registerDownload fs c dir q) = q_sessions q"
  "q_sessions (fst (enqueueUpload fs u c url q)) = q_sessions q"
  by (simp_all add: markUncertain_def startDownload_def applyTransferEvent_def cancel_def cancellationTimedOut_def
      pruneCompleted_def clearCompleted_def registerDownload_def enqueueUpload_def case_prod_beta Let_def split: option.splits)

lemma handleMessage_sessions [simp]: "q_sessions (fst (handleMessage u m q)) = q_sessions q"
  by (cases rule: handleMessage_cases[of u m q]) simp_all


section \<open>What leaves the tables alone\<close>

text \<open>
  A statement is \<open>still\<close> if it leaves the tables alone, uses the queue by steps of the queue and opens
  no session. Sending is still: a failed write ends all file sessions.
\<close>

definition still :: "client_manager \<Rightarrow> client_manager \<Rightarrow> bool" where
  "still cm cm' \<longleftrightarrow>
     cm_connections cm' = cm_connections cm \<and> cm_connIdToDeviceId cm' = cm_connIdToDeviceId cm
     \<and> cm_activeDeviceId cm' = cm_activeDeviceId cm \<and> cm_connectionCounter cm' = cm_connectionCounter cm
     \<and> ft_step\<^sup>*\<^sup>* (cm_fileTransfers cm) (cm_fileTransfers cm')
     \<and> map_of (q_sessions (cm_fileTransfers cm')) \<subseteq>\<^sub>m map_of (q_sessions (cm_fileTransfers cm))"

lemma ft_once: "ft_step q q' \<Longrightarrow> ft_step\<^sup>*\<^sup>* q q'"
  by (rule r_into_rtranclp)

lemma still_refl [simp]: "still cm cm"
  by (simp add: still_def)

lemma still_trans: "still a b \<Longrightarrow> still b c \<Longrightarrow> still a c"
  by (auto simp: still_def intro: rtranclp_trans map_le_trans)

lemma still_seq: "(\<And>a t. a \<in> set as \<Longrightarrow> still t (fst (a t))) \<Longrightarrow> still s (fst (seq as s))"
proof (induction as arbitrary: s)
  case Nil
  then show ?case by simp
next
  case (Cons a as)
  then show ?case using still_trans[of s "fst (a s)"] by (simp add: seq_Cons del: seq.simps(2))
qed

lemma still_for_each: "(\<And>x t. x \<in> set xs \<Longrightarrow> still t (fst (f x t))) \<Longrightarrow> still s (fst (for_each f xs s))"
  unfolding for_each_def by (rule still_seq) auto

lemma still_guarded: "still s (fst (a s)) \<Longrightarrow> still s (fst (guarded b a s))"
  by (simp add: guarded_def)

lemma still_endTransfers:
  "ft_step\<^sup>*\<^sup>* (cm_fileTransfers cm) (fst (f (cm_fileTransfers cm))) \<Longrightarrow>
   map_of (q_sessions (fst (f (cm_fileTransfers cm)))) \<subseteq>\<^sub>m map_of (q_sessions (cm_fileTransfers cm)) \<Longrightarrow>
   still cm (fst (endTransfers f cm))"
  by (simp add: still_def endTransfers_def split_beta Let_def)

lemma still_endSession [simp]: "still cm (fst (endTransfers (endSession c) cm))"
  by (rule still_endTransfers) (auto simp: endSession_sessions map_le_def intro: ft_once[OF step_end])

lemma still_endAll [simp]: "still cm (fst (endTransfers endAllSessions cm))"
  using endSessions_sub[of "qm_keys (q_sessions (cm_fileTransfers cm))" "cm_fileTransfers cm"]
  by (intro still_endTransfers ft_once[OF step_endAll]) (simp add: endAllSessions_def)

lemma still_onMessagingError [simp]: "still cm (fst (onMessagingError e cm))"
  unfolding onMessagingError_def by (rule still_seq) auto

lemma still_channel_signal [simp]: "still cm (fst (channel_signal m e cm))"
  by (cases e) simp_all

lemma still_send [simp]: "still cm (fst (send env m cm))"
  by (auto simp: send_def intro: still_for_each split: option.split)

lemma still_command_requested [simp]: "still cm (fst (onCommandRequested env c cm))"
  by (simp add: onCommandRequested_def Let_def)

lemma still_queue_signal [simp]: "still cm (fst (queue_signal env e cm))"
  by (cases e) simp_all

lemma still_queue:
  "ft_step\<^sup>*\<^sup>* (cm_fileTransfers cm) q \<Longrightarrow> q_sessions q = q_sessions (cm_fileTransfers cm) \<Longrightarrow>
   still cm (cm\<lparr>cm_fileTransfers := q\<rparr>)"
  by (simp add: still_def)

lemma still_transfers:
  assumes "ft_step\<^sup>*\<^sup>* (cm_fileTransfers cm) (fst (f (cm_fileTransfers cm)))"
    and "q_sessions (fst (f (cm_fileTransfers cm))) = q_sessions (cm_fileTransfers cm)"
  shows "still cm (fst (transfers env f cm))"
proof -
  have "still cm (cm\<lparr>cm_fileTransfers := fst (f (cm_fileTransfers cm))\<rparr>)" using assms by (rule still_queue)
  moreover have "still (cm\<lparr>cm_fileTransfers := fst (f (cm_fileTransfers cm))\<rparr>) (fst (transfers env f cm))"
    by (auto simp: transfers_def split_beta Let_def intro: still_for_each)
  ultimately show ?thesis by (rule still_trans)
qed

lemma still_detach [simp]: "still cm (fst (detachMemory d cm))"
  by (simp add: detachMemory_def still_def split_beta Let_def)

lemma still_command [simp]: "still cm (fst (command env d ty fs cm))"
  by (simp add: command_def Let_def)

lemma still_runCommand [simp]: "still cm (fst (runCommand env d c cm))"
  by (cases c)
    (simp_all add: sendMouseMove_def sendMousePress_def sendMouseRelease_def sendMouseWheel_def sendMouseEvent_def
      sendKeyPress_def sendKeyRelease_def sendKeyboardEvent_def releaseAllInput_def syncClipboard_def sendSkillCommand_def
      setTargetFramerate_def setResolution_def setFramerateBoost_def setBitrate_def setAudioEnabled_def selectDisplay_def
      sendAction_def cm_togglePrivacyScreen_def createVirtualDisplay_def removeVirtualDisplay_def
      removeAllVirtualDisplays_def queryVirtualDisplays_def virtualDisplayCommand_def cancelFileUpload_def
      cancelFileDownload_def still_guarded)



section \<open>File sessions belong to connections\<close>

abbreviation conn :: "client_manager \<Rightarrow> qstring \<Rightarrow> connection_info option" where
  "conn cm \<equiv> map_of (cm_connections cm)"

abbreviation session :: "client_manager \<Rightarrow> qstring \<Rightarrow> qstring option" where
  "session cm \<equiv> map_of (q_sessions (cm_fileTransfers cm))"

definition owned :: "client_manager \<Rightarrow> bool" where
  "owned cm \<longleftrightarrow>
     (\<forall>c d. session cm c = Some d \<longrightarrow> c \<noteq> [] \<and> (\<exists>ci. conn cm d = Some ci \<and> ci_connectionId ci = c))
     \<and> (\<forall>d ci. conn cm d = Some ci \<longrightarrow> ci_connectionId ci \<noteq> [] \<longrightarrow> ci_deviceId ci = d)"

lemma owned_session:
  assumes "owned cm" "session cm c = Some d"
  obtains ci where "c \<noteq> []" "conn cm d = Some ci" "ci_connectionId ci = c"
  using assms unfolding owned_def by blast

lemma owned_named: "owned cm \<Longrightarrow> conn cm d = Some ci \<Longrightarrow> ci_connectionId ci \<noteq> [] \<Longrightarrow> ci_deviceId ci = d"
  unfolding owned_def by blast

lemma ownedI:
  assumes "\<And>c d. session cm c = Some d \<Longrightarrow> c \<noteq> [] \<and> (\<exists>ci. conn cm d = Some ci \<and> ci_connectionId ci = c)"
    and "\<And>d ci. conn cm d = Some ci \<Longrightarrow> ci_connectionId ci \<noteq> [] \<Longrightarrow> ci_deviceId ci = d"
  shows "owned cm"
  using assms unfolding owned_def by blast

text \<open>A statement is \<open>safe\<close> if it uses the queue by the queue's steps and keeps sessions owned.\<close>

definition safe :: "client_manager \<Rightarrow> client_manager \<Rightarrow> bool" where
  "safe cm cm' \<longleftrightarrow> ft_step\<^sup>*\<^sup>* (cm_fileTransfers cm) (cm_fileTransfers cm') \<and> (owned cm \<longrightarrow> owned cm')"

lemma safe_refl [simp]: "safe cm cm"
  by (simp add: safe_def)

lemma safe_trans: "safe a b \<Longrightarrow> safe b c \<Longrightarrow> safe a c"
  by (auto simp: safe_def intro: rtranclp_trans)

lemma still_owned: "still cm cm' \<Longrightarrow> owned cm \<Longrightarrow> owned cm'"
  unfolding still_def owned_def map_le_def by (metis domI)

lemma still_safe: "still cm cm' \<Longrightarrow> safe cm cm'"
  using still_owned by (auto simp: safe_def still_def)

lemma safe_seq: "(\<And>a t. a \<in> set as \<Longrightarrow> safe t (fst (a t))) \<Longrightarrow> safe s (fst (seq as s))"
proof (induction as arbitrary: s)
  case Nil
  then show ?case by simp
next
  case (Cons a as)
  then show ?case using safe_trans[of s "fst (a s)"] by (simp add: seq_Cons del: seq.simps(2))
qed

lemma safe_guarded: "(b \<Longrightarrow> safe s (fst (a s))) \<Longrightarrow> safe s (fst (guarded b a s))"
  by (simp add: guarded_def)

lemma conn_upd [simp]:
  "conn (upd_conn d f cm) d' = (if d' = d then Some (f (qm_value new_connection (cm_connections cm) d)) else conn cm d')"
  by (simp add: upd_conn_def)

lemma upd_conn_queue [simp]: "cm_fileTransfers (upd_conn d f cm) = cm_fileTransfers cm"
  by (simp add: upd_conn_def)

lemma safe_upd_conn:
  assumes "\<And>c. ci_connectionId (f c) = ci_connectionId c" "\<And>c. ci_deviceId (f c) = ci_deviceId c"
  shows "safe cm (upd_conn d f cm)"
proof -
  have "owned (upd_conn d f cm)" if o: "owned cm"
  proof (rule ownedI)
    fix c d'
    assume "session (upd_conn d f cm) c = Some d'"
    then obtain ci where "c \<noteq> []" "conn cm d' = Some ci" "ci_connectionId ci = c"
      using owned_session[OF o, of c d'] by auto
    then show "c \<noteq> [] \<and> (\<exists>ci. conn (upd_conn d f cm) d' = Some ci \<and> ci_connectionId ci = c)"
      by (auto simp: qm_value_def assms)
  next
    fix d' ci
    assume "conn (upd_conn d f cm) d' = Some ci" "ci_connectionId ci \<noteq> []"
    then show "ci_deviceId ci = d'"
      using owned_named[OF o, of d'] by (auto simp: qm_value_def assms new_connection_def split: if_splits option.splits)
  qed
  then show ?thesis by (simp add: safe_def)
qed

lemma connectionIdFor_conn: "connectionIdFor d cm = c \<Longrightarrow> c \<noteq> [] \<Longrightarrow> \<exists>ci. conn cm d = Some ci \<and> ci_connectionId ci = c"
  by (auto simp: connectionIdFor_def split: option.splits)

lemma safe_begin: "safe cm (cm\<lparr>cm_fileTransfers := beginSession (connectionIdFor d cm) d (cm_fileTransfers cm)\<rparr>)"
proof -
  have "owned cm \<Longrightarrow> owned (cm\<lparr>cm_fileTransfers := beginSession (connectionIdFor d cm) d (cm_fileTransfers cm)\<rparr>)"
    using connectionIdFor_conn[of d cm "connectionIdFor d cm"] by (auto simp: owned_def beginSession_def)
  then show ?thesis by (auto simp: safe_def intro: ft_once[OF step_begin])
qed

lemma endTransfers_reconcile:
  "fst (endTransfers (reconcileSession c d isConn ended) cm) =
     (if ended \<or> (\<not> isConn \<and> qm_contains (q_sessions (cm_fileTransfers cm)) c) then fst (endTransfers (endSession c) cm)
      else if isConn then cm\<lparr>cm_fileTransfers := beginSession c d (cm_fileTransfers cm)\<rparr> else cm)"
  by (simp add: endTransfers_def reconcileSession_def split_beta Let_def)

lemma safe_connectionState [simp]: "safe cm (fst (connectionState d st info cm))"
proof -
  have "safe cm (fst (endTransfers (reconcileSession (connectionIdFor d cm) d isConn ended) cm))" for isConn ended
    by (simp add: endTransfers_reconcile safe_begin still_safe)
  then show ?thesis by (simp add: connectionState_def seq_Cons del: seq.simps(2))
qed

lemma removeConnection_eq:
  "fst (removeConnection d cm) =
     (let cm1 = fst (endTransfers (endSession (connectionIdFor d cm)) cm)
      in if qm_contains (cm_connections cm) d
         then cm1\<lparr>cm_connIdToDeviceId := qm_remove (connectionIdFor d cm) (cm_connIdToDeviceId cm1),
                  cm_connections := qm_remove d (cm_connections cm1)\<rparr>
         else cm1)"
  by (simp add: removeConnection_def seq_Cons guarded_def Let_def del: seq.simps(2))

lemma safe_removeConnection [simp]: "safe cm (fst (removeConnection d cm))"
proof -
  let ?c = "connectionIdFor d cm" and ?cm1 = "fst (endTransfers (endSession (connectionIdFor d cm)) cm)"
  have s: "cm_connections ?cm1 = cm_connections cm" "q_sessions (cm_fileTransfers ?cm1) =
      (if ?c = [] then q_sessions (cm_fileTransfers cm) else qm_remove ?c (q_sessions (cm_fileTransfers cm)))"
    by (simp_all add: endTransfers_def split_beta Let_def endSession_sessions)
  have "owned (fst (removeConnection d cm))" if o: "owned cm"
  proof (rule ownedI)
    fix c d'
    assume "session (fst (removeConnection d cm)) c = Some d'"
    then have "session cm c = Some d'" and nc: "?c \<noteq> [] \<Longrightarrow> c \<noteq> ?c"
      by (auto simp: removeConnection_eq s Let_def split: if_splits)
    then obtain ci where ci: "c \<noteq> []" "conn cm d' = Some ci" "ci_connectionId ci = c"
      using owned_session[OF o] by blast
    then have "d' \<noteq> d" using nc by (auto simp: connectionIdFor_def)
    then show "c \<noteq> [] \<and> (\<exists>ci. conn (fst (removeConnection d cm)) d' = Some ci \<and> ci_connectionId ci = c)"
      using ci by (simp add: removeConnection_eq s Let_def)
  next
    fix d' ci
    assume "conn (fst (removeConnection d cm)) d' = Some ci" "ci_connectionId ci \<noteq> []"
    then show "ci_deviceId ci = d'"
      using owned_named[OF o, of d' ci] by (auto simp: removeConnection_eq s Let_def split: if_splits)
  qed
  moreover have "ft_step\<^sup>*\<^sup>* (cm_fileTransfers cm) (cm_fileTransfers (fst (removeConnection d cm)))"
    using still_endSession[of cm ?c] by (simp add: removeConnection_eq Let_def still_def)
  ultimately show ?thesis by (simp add: safe_def)
qed

lemma safe_same:
  "cm_fileTransfers cm' = cm_fileTransfers cm \<Longrightarrow> cm_connections cm' = cm_connections cm \<Longrightarrow> safe cm cm'"
  by (simp add: safe_def owned_def)

lemma safe_active [simp]: "safe cm (fst (setActiveDeviceId d cm))" "safe cm (fst (reselectActive d cm))"
  by (rule safe_same; simp add: setActiveDeviceId_def reselectActive_def)+

lemma safe_dropConnection [simp]: "safe cm (fst (dropConnection d cm))"
  unfolding dropConnection_def by (rule safe_seq) auto

lemma safe_noteState [simp]: "safe cm (fst (noteState d rtc st cm))"
  unfolding noteState_def by (intro safe_guarded safe_seq) (auto intro!: safe_upd_conn)

lemma safe_modify_upd:
  "(\<And>c. ci_connectionId (f c) = ci_connectionId c) \<Longrightarrow> (\<And>c. ci_deviceId (f c) = ci_deviceId c) \<Longrightarrow>
   safe cm (fst (modify (upd_conn d f) cm))"
  by (simp add: safe_upd_conn)

lemma safe_forDevice: "(\<And>d t. safe t (fst (f d t))) \<Longrightarrow> safe cm (fst (forDevice m f cm))"
  by (simp add: forDevice_def Let_def)


text \<open>Opening a connection is safe for a device that has none.\<close>

lemma removeConnection_gone: "conn (fst (removeConnection d cm)) d = None"
  by (auto simp: removeConnection_eq Let_def endTransfers_def split_beta qm_contains_def)

definition openTables :: "qstring \<Rightarrow> client_manager \<Rightarrow> client_manager" where
  "openTables d cm =
     (let c = conn_name (cm_connectionCounter cm + 1)
      in cm\<lparr>cm_connectionCounter := cm_connectionCounter cm + 1,
            cm_connections := qm_insert d (new_connection\<lparr>ci_connectionId := c, ci_deviceId := d, ci_rtcState := RtcConnecting\<rparr>)
              (cm_connections cm),
            cm_connIdToDeviceId := qm_insert c d (cm_connIdToDeviceId cm)\<rparr>)"

lemma openConnection_eq:
  "openConnection env d code token url cm =
     (let cm2 = openTables d cm
      in seq [send env (connectMessage env (conn_name (cm_connectionCounter cm + 1)) d code token url (cm_iceConfig cm2)),
              emit [cm_connectionCountChanged, cm_connectionAdded d, cm_connectionListChanged],
              guarded (cm_activeDeviceId cm2 = []) (setActiveDeviceId d)] cm2)"
  by (simp add: openConnection_def openTables_def generateConnectionId_def Let_def del: seq.simps)

lemma safe_openTables: "conn cm d = None \<Longrightarrow> safe cm (openTables d cm)"
proof -
  assume n: "conn cm d = None"
  have "owned (openTables d cm)" if o: "owned cm"
  proof (rule ownedI)
    fix c d'
    assume "session (openTables d cm) c = Some d'"
    then have "session cm c = Some d'" by (simp add: openTables_def Let_def)
    then obtain ci where "c \<noteq> []" "conn cm d' = Some ci" "ci_connectionId ci = c" by (rule owned_session[OF o])
    moreover from this n have "d' \<noteq> d" by auto
    ultimately show "c \<noteq> [] \<and> (\<exists>ci. conn (openTables d cm) d' = Some ci \<and> ci_connectionId ci = c)"
      by (simp add: openTables_def Let_def)
  next
    fix d' ci
    assume "conn (openTables d cm) d' = Some ci" "ci_connectionId ci \<noteq> []"
    then show "ci_deviceId ci = d'"
      using owned_named[OF o, of d' ci] by (cases "d' = d") (auto simp: openTables_def Let_def)
  qed
  then show ?thesis by (simp add: safe_def openTables_def Let_def)
qed

lemma safe_openConnection: "conn cm d = None \<Longrightarrow> safe cm (fst (openConnection env d code token url cm))"
  unfolding openConnection_eq Let_def
  by (rule safe_trans[OF safe_openTables], assumption, rule safe_seq) (auto intro: still_safe safe_guarded)

lemma connectToHost_cases:
  obtains (refused) "fst (connectToHost env d code token url cm) = cm"
  | (opened) cm1 where "cm1 = fst (guarded (qm_contains (cm_connections cm) d) (removeConnection d) cm)" "conn cm1 d = None"
      "fst (connectToHost env d code token url cm) = fst (openConnection env d code token url cm1)"
proof -
  let ?cm1 = "fst (guarded (qm_contains (cm_connections cm) d) (removeConnection d) cm)"
  let ?reused = "qm_contains (cm_connections cm) d \<and> getConnectionRtcState d cm \<noteq> RtcDisconnected
    \<and> getConnectionRtcState d cm \<noteq> RtcFailed"
  have n: "conn ?cm1 d = None" by (simp add: guarded_def removeConnection_gone qm_contains_def)
  show ?thesis
  proof (cases "\<not> cm_ready cm \<or> token = [] \<or> ?reused")
    case True
    then have "fst (connectToHost env d code token url cm) = cm" unfolding connectToHost_def by (elim disjE) simp_all
    then show ?thesis by (rule refused)
  next
    case False
    then have "fst (connectToHost env d code token url cm) = fst (openConnection env d code token url ?cm1)"
      by (simp add: connectToHost_def split_beta seq_Cons Let_def del: seq.simps(2)) blast
    with n show ?thesis by (intro opened) simp_all
  qed
qed

lemma safe_connectToHost: "safe cm (fst (connectToHost env d code token url cm))"
proof (cases rule: connectToHost_cases[of env d code token url cm])
  case (opened cm1)
  have "safe cm cm1" unfolding opened(1) by (rule safe_guarded) simp
  with safe_openConnection[OF opened(2)] opened(3) show ?thesis by (metis safe_trans)
qed simp

lemma safe_openSession [simp]: "safe cm (fst (openSession d cm))"
  by (simp add: openSession_def safe_begin)

lemma openSession_tasks [simp]: "q_tasks (cm_fileTransfers (fst (openSession d cm))) = q_tasks (cm_fileTransfers cm)"
  by (simp add: openSession_def beginSession_def)

lemma safe_upload:
  assumes "ce_uuid env \<notin> t_id ` set (q_tasks (cm_fileTransfers cm))"
  shows "safe cm (fst (startFileUpload env d url cm))"
proof -
  let ?cm1 = "fst (openSession d cm)"
  have "still ?cm1 (fst (transfers env (\<lambda>q. let (q', ev, _) = enqueueUpload (ce_fs env) (ce_uuid env) c url q in (q', ev)) ?cm1))" for c
    using assms
    by (intro still_transfers) (auto simp: split_beta Let_def intro!: ft_once step_enqueue)
  then show ?thesis
    using safe_trans[OF safe_openSession still_safe, of d cm] by (simp add: startFileUpload_def Let_def)
qed

lemma safe_download: "safe cm (fst (startFileDownload env d cm))"
proof -
  let ?cm1 = "fst (openSession d cm)"
  have "still ?cm1 (?cm1\<lparr>cm_fileTransfers := registerDownload fs c dir (cm_fileTransfers ?cm1)\<rparr>)" for fs c dir
    by (rule still_queue) (auto intro: ft_once step_register)
  then have "still ?cm1 (fst (send env m (?cm1\<lparr>cm_fileTransfers := registerDownload fs c dir (cm_fileTransfers ?cm1)\<rparr>)))" for m fs c dir
    using still_send still_trans by blast
  then show ?thesis
    using safe_trans[OF safe_openSession still_safe, of d cm] by (simp add: startFileDownload_def Let_def)
qed

lemma still_cancelTask: "still cm (fst (cancelFileTask env taskId cm))"
  unfolding cancelFileTask_def by (rule still_transfers) (auto intro: ft_once step_cancel)

lemma still_clear: "still cm (fst (clearCompletedFileTasks cm))"
  unfolding clearCompletedFileTasks_def by (simp add: still_queue ft_once step_clear)

lemma still_timer: "still cm (fst (transferTimer env tm cm))"
proof (cases "tm \<in> set (q_timers (cm_fileTransfers cm))")
  case True
  show ?thesis
  proof (cases tm)
    case (T_pump c)
    show ?thesis using True unfolding T_pump
      by (simp add: transferTimer_def Let_def) (rule still_transfers; simp add: ft_once fire_pump)
  next
    case T_clear
    show ?thesis using True unfolding T_clear
      by (simp add: transferTimer_def Let_def) (rule still_transfers; simp add: ft_once fire_clear)
  next
    case (T_cancelTimeout taskId)
    show ?thesis using True unfolding T_cancelTimeout
      by (simp add: transferTimer_def Let_def) (rule still_transfers; simp add: ft_once fire_timeout)
  qed
qed (simp add: transferTimer_def)


section \<open>Messages\<close>

lemma listed_key: "(k, ci) \<in> set (cm_connections (fold (listConnection old) obs cm)) \<Longrightarrow>
    (k, ci) \<in> set (cm_connections cm) \<or> ci_deviceId ci = k"
proof (induction obs arbitrary: cm)
  case (Cons ob obs)
  have ins: "(k, ci) \<in> set (qm_insert k' v m) \<Longrightarrow> (k, ci) = (k', v) \<or> (k, ci) \<in> set m" for k' v and m :: "(qstring, connection_info) qmap"
    by (induction k' v m rule: qm_insert.induct) (auto split: if_splits)
  from Cons.IH[of "listConnection old ob cm"] Cons.prems show ?case
    by (auto simp: listConnection_def Let_def dest!: ins)
qed simp

lemma listed_sorted: "sorted_wrt (<) (qm_keys (cm_connections cm)) \<Longrightarrow>
    sorted_wrt (<) (qm_keys (cm_connections (fold (listConnection old) obs cm)))"
  by (induction obs arbitrary: cm) (simp_all add: listConnection_def Let_def qm_insert_sorted)

lemma listed_frame [simp]: "cm_fileTransfers (fold (listConnection old) obs cm) = cm_fileTransfers cm"
  "cm_activeDeviceId (fold (listConnection old) obs cm) = cm_activeDeviceId cm"
  "cm_connectionCounter (fold (listConnection old) obs cm) = cm_connectionCounter cm"
  by (induction obs arbitrary: cm) (simp_all add: listConnection_def Let_def)

definition gone :: "client_manager \<Rightarrow> connection_info \<Rightarrow> bool" where
  "gone cm old \<longleftrightarrow> \<not> (\<exists>ci. conn cm (ci_deviceId old) = Some ci \<and> ci_connectionId ci = ci_connectionId old)"

lemma endIfGone_eq: "endIfGone old cm = guarded (gone cm old) (endTransfers (endSession (ci_connectionId old))) cm"
  by (auto simp: endIfGone_def gone_def qm_contains_def qm_value_def guarded_def split: option.splits)

lemma still_endIfGone [simp]: "still cm (fst (endIfGone old cm))"
  by (simp add: endIfGone_eq still_guarded)

lemma still_gone: "still cm cm' \<Longrightarrow> gone cm' old = gone cm old"
  by (simp add: gone_def still_def)

lemma endIfGone_loop:
  assumes "old \<in> set olds" "gone cm old" "ci_connectionId old \<noteq> []"
  shows "session (fst (for_each endIfGone olds cm)) (ci_connectionId old) = None"
  using assms(1,2)
proof (induction olds arbitrary: cm)
  case (Cons o' olds)
  let ?cm1 = "fst (endIfGone o' cm)"
  have st: "still ?cm1 (fst (for_each endIfGone olds ?cm1))" by (rule still_for_each) simp
  show ?case
  proof (cases "old = o'")
    case True
    then have "session ?cm1 (ci_connectionId old) = None"
      using Cons.prems(2) assms(3) by (simp add: endIfGone_eq endTransfers_def split_beta Let_def endSession_sessions)
    then have "session (fst (for_each endIfGone olds ?cm1)) (ci_connectionId old) = None"
      using st unfolding still_def map_le_def by (metis domI domIff)
    then show ?thesis by (simp add: for_each_Cons)
  next
    case False
    then show ?thesis
      using Cons.IH[of ?cm1] Cons.prems still_gone[OF still_endIfGone, of o' cm old] by (simp add: for_each_Cons)
  qed
qed simp

lemma safe_reconcileConnection:
  assumes "conn cm (ci_deviceId cur) = Some cur"
  shows "safe cm (fst (reconcileConnection cur cm))"
proof -
  have "connectionIdFor (ci_deviceId cur) cm = ci_connectionId cur" using assms by (simp add: connectionIdFor_def)
  then have "safe cm (cm\<lparr>cm_fileTransfers := beginSession (ci_connectionId cur) (ci_deviceId cur) (cm_fileTransfers cm)\<rparr>)"
    using safe_begin[of cm "ci_deviceId cur"] by simp
  then show ?thesis by (simp add: reconcileConnection_def endTransfers_reconcile still_safe)
qed

lemma reconcile_conns [simp]: "cm_connections (fst (reconcileConnection cur cm)) = cm_connections cm"
  by (simp add: reconcileConnection_def endTransfers_def split_beta Let_def)

lemma safe_reconcile_loop:
  "\<forall>cur \<in> set curs. conn cm (ci_deviceId cur) = Some cur \<Longrightarrow> safe cm (fst (for_each reconcileConnection curs cm))"
proof (induction curs arbitrary: cm)
  case (Cons cur curs)
  have "safe (fst (reconcileConnection cur cm)) (fst (for_each reconcileConnection curs (fst (reconcileConnection cur cm))))"
    using Cons by (intro Cons.IH) simp
  then show ?case
    using safe_trans[OF safe_reconcileConnection[of cm cur]] Cons.prems by (simp add: for_each_Cons)
qed simp


definition relisted :: "jobject \<Rightarrow> client_manager \<Rightarrow> client_manager" where
  "relisted message cm = fold (listConnection (cm_connections cm)) (map toObject (toArray (oget message ''connections'')))
     (cm\<lparr>cm_connections := [], cm_connIdToDeviceId := []\<rparr>)"

lemma relisted_named:
  assumes "(k, ci) \<in> set (cm_connections (relisted m cm))"
  shows "ci_deviceId ci = k" "conn (relisted m cm) k = Some ci"
proof -
  show "ci_deviceId ci = k" using listed_key[OF assms[unfolded relisted_def]] by simp
  have "distinct (qm_keys (cm_connections (relisted m cm)))"
    unfolding relisted_def by (rule strict_sorted_distinct, rule listed_sorted) simp
  then show "conn (relisted m cm) k = Some ci" using assms by (rule map_of_is_SomeI)
qed

lemma handleConnectionListChanged_eq:
  "fst (handleConnectionListChanged m cm) =
     fst (for_each reconcileConnection (map snd (cm_connections (relisted m cm)))
       (fst (for_each endIfGone (map snd (cm_connections cm)) (relisted m cm))))"
  by (simp add: handleConnectionListChanged_def relisted_def seq_Cons Let_def del: seq.simps(2))

lemma relisted_owned:
  assumes o: "owned cm"
  shows "owned (fst (for_each endIfGone (map snd (cm_connections cm)) (relisted m cm)))" (is "owned ?cm2")
proof (rule ownedI)
  have st: "still (relisted m cm) ?cm2" by (rule still_for_each) simp
  fix c d
  assume s: "session ?cm2 c = Some d"
  then have "session cm c = Some d" using st unfolding still_def map_le_def
    by (simp add: relisted_def) (metis domI)
  then obtain ci where ci: "c \<noteq> []" "conn cm d = Some ci" "ci_connectionId ci = c" by (rule owned_session[OF o])
  then have "ci_deviceId ci = d" using owned_named[OF o] by blast
  moreover have "ci \<in> set (map snd (cm_connections cm))" using map_of_SomeD[OF ci(2)] by force
  ultimately have "\<not> gone (relisted m cm) ci"
    using endIfGone_loop[of ci "map snd (cm_connections cm)" "relisted m cm"] s ci by auto
  then show "c \<noteq> [] \<and> (\<exists>ci. conn ?cm2 d = Some ci \<and> ci_connectionId ci = c)"
    using st ci \<open>ci_deviceId ci = d\<close> by (auto simp: gone_def still_def)
next
  fix d ci
  assume "conn (fst (for_each endIfGone (map snd (cm_connections cm)) (relisted m cm))) d = Some ci"
  moreover have "still (relisted m cm) ?cm2" by (rule still_for_each) simp
  ultimately have "conn (relisted m cm) d = Some ci" by (simp add: still_def)
  then show "ci_deviceId ci = d" by (rule relisted_named(1)[OF map_of_SomeD])
qed

lemma safe_list: "safe cm (fst (handleConnectionListChanged m cm))"
proof -
  let ?cm2 = "fst (for_each endIfGone (map snd (cm_connections cm)) (relisted m cm))"
  have st: "still (relisted m cm) ?cm2" by (rule still_for_each) simp
  then have "safe cm ?cm2" using relisted_owned[of cm m] by (simp add: safe_def still_def relisted_def)
  moreover have "safe ?cm2 (fst (handleConnectionListChanged m cm))"
    unfolding handleConnectionListChanged_eq
  proof (rule safe_reconcile_loop, rule ballI)
    fix cur
    assume "cur \<in> set (map snd (cm_connections (relisted m cm)))"
    then obtain k where "(k, cur) \<in> set (cm_connections (relisted m cm))" by auto
    from relisted_named[OF this] st show "conn ?cm2 (ci_deviceId cur) = Some cur" by (simp add: still_def)
  qed
  ultimately show ?thesis by (rule safe_trans)
qed

lemma noteResolution_ids [simp]: "ci_connectionId (noteResolution h c) = ci_connectionId c"
  "ci_deviceId (noteResolution h c) = ci_deviceId c"
  by (auto simp: noteResolution_def split: list.splits)

lemma noteDeviceName_ids [simp]: "ci_connectionId (noteDeviceName h c) = ci_connectionId c"
  "ci_deviceId (noteDeviceName h c) = ci_deviceId c"
  by (simp_all add: noteDeviceName_def)

lemma safe_table_messages:
  "safe cm (fst (cm_handleSignalingStateChanged m cm))"
  "safe cm (fst (handleConnectionStateChanged m cm))"
  "safe cm (fst (handleConnectionFailed m cm))"
  "safe cm (fst (handleHostConnected m cm))"
  "safe cm (fst (handleHostDisconnected m cm))"
  "safe cm (fst (handleHostConnectionFailed m cm))"
  unfolding cm_handleSignalingStateChanged_def handleConnectionStateChanged_def handleConnectionFailed_def
    handleHostConnected_def handleHostDisconnected_def handleHostConnectionFailed_def Let_def
  by (rule safe_forDevice, rule safe_seq, auto intro!: safe_upd_conn still_safe[OF still_detach] safe_guarded split: option.split)+

lemma safe_frame_messages:
  "safe cm (fst (handleVideoFrameReady env m cm))" "safe cm (fst (handleHostCapabilities m cm))"
proof -
  have u: "safe cm (upd_conn d f (cm\<lparr>cm_sharedMemory := m\<rparr>))"
    if "\<And>c. ci_connectionId (f c) = ci_connectionId c" "\<And>c. ci_deviceId (f c) = ci_deviceId c" for cm d f m
    using safe_trans[OF safe_same safe_upd_conn[OF that], of "cm\<lparr>cm_sharedMemory := m\<rparr>" cm d] by simp
  show "safe cm (fst (handleVideoFrameReady env m cm))"
    unfolding handleVideoFrameReady_def Let_def
    by (rule safe_forDevice)
      (auto simp: split_beta seq_Cons guarded_def safe_same simp del: seq.simps(2) intro: u safe_upd_conn)
  show "safe cm (fst (handleHostCapabilities m cm))"
    unfolding handleHostCapabilities_def Let_def
    by (rule safe_forDevice) (auto simp: seq_Cons guarded_def simp del: seq.simps(2) intro!: safe_upd_conn)
qed

text \<open>The other messages only produce signals.\<close>

lemma forDevice_emit [simp]: "fst (forDevice m (\<lambda>d. emit (f d)) cm) = cm"
  by (simp add: forDevice_def Let_def)

lemma display_list_tables [simp]: "fst (handleDisplayListChanged m cm) = cm"
  by (simp add: handleDisplayListChanged_def forDevice_def seq_Cons guarded_def Let_def del: seq.simps(2))

lemma signal_messages [simp]:
  "fst (cm_handleHelloResponse m cm) = cm" "fst (handleConnectToHostResponse m cm) = cm"
  "fst (handleClipboardReceived m cm) = cm" "fst (cm_handleError m cm) = cm"
  "fst (handleCursorShapeChanged env m cm) = cm" "fst (handlePerformanceStatsUpdate m cm) = cm"
  "fst (handleRouteChanged m cm) = cm" "fst (handleFileTransferProgress m cm) = cm"
  "fst (handleFileTransferComplete m cm) = cm" "fst (handleFileTransferError m cm) = cm"
  "fst (handleFileDownloadStarted m cm) = cm" "fst (handleFileDownloadProgress m cm) = cm"
  "fst (handleFileDownloadComplete m cm) = cm" "fst (handleFileDownloadError m cm) = cm"
  "fst (handleSkillBridgeResponse env m cm) = cm" "fst (handleVirtualDisplayState env m cm) = cm"
  by (simp_all add: cm_handleHelloResponse_def handleConnectToHostResponse_def handleClipboardReceived_def cm_handleError_def
      handleCursorShapeChanged_def handlePerformanceStatsUpdate_def handleRouteChanged_def handleFileTransferProgress_def
      handleFileTransferComplete_def handleFileTransferError_def handleFileDownloadStarted_def handleFileDownloadProgress_def
      handleFileDownloadComplete_def handleFileDownloadError_def handleSkillBridgeResponse_def handleVirtualDisplayState_def)

lemma safe_dispatch: "safe cm (fst (dispatchMessage env m cm))"
  unfolding dispatchMessage_def Let_def
  by (simp add: safe_list safe_table_messages safe_frame_messages)

lemma safe_message:
  assumes "ce_uuid env \<notin> t_id ` set (q_tasks (cm_fileTransfers cm))"
  shows "safe cm (fst (cm_onMessageReceived env m cm))"
proof -
  have "still cm (fst (transfers env (handleMessage (ce_uuid env) m) cm))"
    by (rule still_transfers) (simp_all add: ft_once step_message assms)
  with safe_dispatch show ?thesis
    unfolding cm_onMessageReceived_def by (simp add: seq_Cons del: seq.simps(2)) (meson safe_trans still_safe)
qed


section \<open>Clearing the tables\<close>

text \<open>What the loops over all devices do with each: its session ends, no other begins.\<close>

definition closes :: "(qstring \<Rightarrow> cm_action) \<Rightarrow> bool" where
  "closes f \<longleftrightarrow> (\<forall>d cm. safe cm (fst (f d cm)) \<and> session (fst (f d cm)) \<subseteq>\<^sub>m session cm
     \<and> dom (conn (fst (f d cm))) \<subseteq> insert d (dom (conn cm))
     \<and> (owned cm \<longrightarrow> (\<forall>c. session (fst (f d cm)) c \<noteq> Some d)))"

lemma closes_loop:
  assumes f: "closes f"
  shows "safe cm (fst (for_each f ds cm)) \<and> session (fst (for_each f ds cm)) \<subseteq>\<^sub>m session cm
    \<and> dom (conn (fst (for_each f ds cm))) \<subseteq> set ds \<union> dom (conn cm)
    \<and> (owned cm \<longrightarrow> (\<forall>c d. session (fst (for_each f ds cm)) c = Some d \<longrightarrow> d \<notin> set ds))"
proof (induction ds arbitrary: cm)
  case (Cons d ds)
  let ?cm1 = "fst (f d cm)"
  have one: "safe cm ?cm1" "session ?cm1 \<subseteq>\<^sub>m session cm" "dom (conn ?cm1) \<subseteq> insert d (dom (conn cm))"
    "owned cm \<Longrightarrow> session ?cm1 c \<noteq> Some d" for c
    using f by (simp_all add: closes_def)
  note two = Cons.IH[of ?cm1]
  have "safe cm (fst (for_each f ds ?cm1))" using one(1) two safe_trans by blast
  moreover have "session (fst (for_each f ds ?cm1)) \<subseteq>\<^sub>m session cm" using one(2) two map_le_trans by blast
  moreover have "dom (conn (fst (for_each f ds ?cm1))) \<subseteq> set ds \<union> dom (conn ?cm1)" using two by blast
  then have "dom (conn (fst (for_each f ds ?cm1))) \<subseteq> set (d # ds) \<union> dom (conn cm)"
    using one(3) unfolding list.set by blast
  moreover have "d' \<notin> set (d # ds)" if "owned cm" "session (fst (for_each f ds ?cm1)) c = Some d'" for c d'
  proof -
    have "owned ?cm1" using one(1) that(1) by (simp add: safe_def)
    moreover have "session ?cm1 c = Some d'" using two that(2) by (metis domI map_le_def)
    ultimately show ?thesis using two that one(4)[OF that(1), of c] by auto
  qed
  ultimately show ?case by (simp add: for_each_Cons)
qed simp

lemma connectionState_ended:
  "fst (connectionState d ''disconnected'' info cm) = fst (endTransfers (endSession (connectionIdFor d cm)) cm)"
  by (simp add: connectionState_def seq_Cons endTransfers_reconcile del: seq.simps(2))

lemma endSession_ends:
  assumes "owned cm"
  shows "session (fst (endTransfers (endSession (connectionIdFor d cm)) cm)) c \<noteq> Some d"
proof
  assume "session (fst (endTransfers (endSession (connectionIdFor d cm)) cm)) c = Some d"
  then have s: "session cm c = Some d" "connectionIdFor d cm \<noteq> [] \<Longrightarrow> c \<noteq> connectionIdFor d cm"
    by (auto simp: endTransfers_def split_beta Let_def endSession_sessions split: if_splits)
  then obtain ci where "c \<noteq> []" "conn cm d = Some ci" "ci_connectionId ci = c" using owned_session[OF assms] by blast
  with s show False by (simp add: connectionIdFor_def)
qed

lemma detach_frame [simp]:
  "cm_fileTransfers (fst (detachMemory d cm)) = cm_fileTransfers cm"
  "cm_connections (fst (detachMemory d cm)) = cm_connections cm"
  by (simp_all add: detachMemory_def split_beta Let_def)

lemma forgetDevice_closes: "closes forgetDevice"
proof -
  have e: "cm_fileTransfers (fst (forgetDevice d cm)) = cm_fileTransfers (fst (endTransfers (endSession (connectionIdFor d cm)) cm))"
    "cm_connections (fst (forgetDevice d cm)) = cm_connections cm" for d cm
    by (simp_all add: forgetDevice_def seq_Cons connectionState_ended endTransfers_def split_beta Let_def del: seq.simps(2))
  have "safe cm (fst (forgetDevice d cm))" for d cm
    unfolding forgetDevice_def by (rule safe_seq) (auto intro: still_safe[OF still_detach])
  then show ?thesis
    using still_endSession endSession_ends by (auto simp: closes_def e still_def)
qed

lemma disconnectDevice_closes: "closes disconnectDevice"
proof -
  let ?u = "\<lambda>d. upd_conn d (\<lambda>c. c\<lparr>ci_rtcState := RtcDisconnected\<rparr>)"
  have e: "cm_fileTransfers (fst (disconnectDevice d cm))
      = cm_fileTransfers (fst (endTransfers (endSession (connectionIdFor d (?u d cm))) (?u d cm)))"
    "conn (fst (disconnectDevice d cm)) = conn (?u d cm)" for d cm
    by (simp_all add: disconnectDevice_def seq_Cons connectionState_ended endTransfers_def split_beta Let_def del: seq.simps(2))
  have "safe cm (fst (disconnectDevice d cm))" for d cm
    unfolding disconnectDevice_def by (rule safe_seq) (auto intro!: safe_upd_conn intro: still_safe[OF still_detach])
  moreover have "owned cm \<Longrightarrow> owned (?u d cm)" for d cm
    using safe_upd_conn[of "\<lambda>c. c\<lparr>ci_rtcState := RtcDisconnected\<rparr>" cm d] by (simp add: safe_def)
  moreover have "dom (conn (?u d cm)) \<subseteq> insert d (dom (conn cm))" for d cm
    by (auto split: if_splits)
  ultimately show ?thesis
    using still_endSession[of "?u d cm" "connectionIdFor d (?u d cm)" for d cm] endSession_ends[of "?u d cm" d for d cm]
    by (auto simp: closes_def e still_def simp del: conn_upd)
qed

lemma safe_clear:
  assumes "closes f"
  shows "safe cm (clearConnections (fst (for_each f (qm_keys (cm_connections cm)) cm)))"
proof -
  let ?ds = "qm_keys (cm_connections cm)" and ?cm1 = "fst (for_each f (qm_keys (cm_connections cm)) cm)"
  note l = closes_loop[OF assms, of cm ?ds]
  have "owned (clearConnections ?cm1)" if o: "owned cm"
  proof -
    have "session ?cm1 c = None" for c
    proof (rule ccontr)
      assume "session ?cm1 c \<noteq> None"
      then obtain d where d: "session ?cm1 c = Some d" by auto
      moreover have "owned ?cm1" using l o by (simp add: safe_def)
      ultimately have "d \<in> dom (conn ?cm1)" using owned_session by blast
      then have "d \<in> set ?ds" using l by (auto simp: dom_map_of_conv_image_fst)
      then show False using l o d by blast
    qed
    then show ?thesis by (auto simp: owned_def clearConnections_def)
  qed
  then show ?thesis using l by (simp add: safe_def clearConnections_def)
qed

lemma safe_setMessaging: "safe cm (fst (cm_setMessaging same nm cm))"
proof -
  define cm1 where "cm1 = (fst (guarded (\<not> same) (endTransfers endAllSessions) cm))\<lparr>cm_messaging := nm\<rparr>"
  have g: "still cm (fst (guarded (\<not> same) (endTransfers endAllSessions) cm))" by (simp add: guarded_def)
  have s: "safe cm cm1" unfolding cm1_def by (rule safe_trans[OF still_safe[OF g] safe_same]) simp_all
  have "cm_connections cm1 = cm_connections cm"
    using g by (simp add: cm1_def still_def)
  then have "safe cm1 (clearConnections (fst (for_each forgetDevice (qm_keys (cm_connections cm)) cm1)))"
    using safe_clear[OF forgetDevice_closes, of cm1] by simp
  moreover have "fst (cm_setMessaging same nm cm) =
      (if nm = None then clearConnections (fst (for_each forgetDevice (qm_keys (cm_connections cm)) cm1)) else cm1)"
    unfolding cm_setMessaging_def cm1_def Let_def seq_Cons action_simps
    by (cases nm) (simp_all add: seq_Cons guarded_def del: seq.simps(2))
  ultimately show ?thesis using s safe_trans by simp
qed

lemma safe_disconnectAll: "safe cm (fst (disconnectAll env cm))"
proof -
  let ?cm1 = "fst (send env (mkobj [(''type'', JStr ''disconnectAll'')]) cm)"
  have "cm_connections ?cm1 = cm_connections cm" using still_send[of cm env] by (simp add: still_def)
  then have "safe ?cm1 (clearConnections (fst (for_each disconnectDevice (qm_keys (cm_connections cm)) ?cm1)))"
    using safe_clear[OF disconnectDevice_closes, of ?cm1] by simp
  then show ?thesis
    using safe_trans[OF still_safe[OF still_send]] by (simp add: disconnectAll_def seq_Cons del: seq.simps(2))
qed

lemma safe_disconnect: "safe cm (fst (disconnectFromHost env d cm))"
proof -
  have "safe cm (fst (seq [send env m, noteState d RtcDisconnected ''disconnected'', detachMemory d, dropConnection d] cm))" for m
    by (rule safe_seq) (auto intro: still_safe)
  then show ?thesis by (simp add: disconnectFromHost_def Let_def del: seq.simps)
qed



section \<open>The queue under its client\<close>

text \<open>
  The interface of the file transfer queue as its client sees it: a component that starts with an empty
  queue and changes it only by the queue's own steps inherits everything proved of the queue.
\<close>

locale queue_client =
  fixes initial :: "'s \<Rightarrow> bool"
    and step :: "'s \<Rightarrow> 's \<Rightarrow> bool"
    and view :: "'s \<Rightarrow> ft_queue"
  assumes view_initial: "initial s \<Longrightarrow> view s = FileTransferQueue_init"
    and view_step: "step s t \<Longrightarrow> ft_step\<^sup>*\<^sup>* (view s) (view t)"
begin

lemma reachable_steps: "ft_step\<^sup>*\<^sup>* q q' \<Longrightarrow> ft_reachable q \<Longrightarrow> ft_reachable q'"
  by (induction rule: rtranclp_induct) (auto intro: reach_step)

lemma reachable_view: "reachable initial step s \<Longrightarrow> ft_reachable (view s)"
  by (induction rule: reachable.induct) (auto simp: view_initial intro: reach_init reachable_steps[OF view_step])

lemma view_inv: "reachable initial step s \<Longrightarrow> ft_inv (view s)"
  by (rule ftq.reachable_inv[OF reachable_view])

end

text \<open>A step of the manager: one input; a new task's identifier differs from those in the queue.\<close>

fun fresh_uuid :: "cm_input \<Rightarrow> client_manager \<Rightarrow> bool" where
  "fresh_uuid (CM_upload env d url) cm \<longleftrightarrow> ce_uuid env \<notin> t_id ` set (q_tasks (cm_fileTransfers cm))"
| "fresh_uuid (CM_message env m) cm \<longleftrightarrow> ce_uuid env \<notin> t_id ` set (q_tasks (cm_fileTransfers cm))"
| "fresh_uuid _ cm \<longleftrightarrow> True"

definition cm_step :: "client_manager \<Rightarrow> client_manager \<Rightarrow> bool" where
  "cm_step cm cm' \<longleftrightarrow> (\<exists>i. fresh_uuid i cm \<and> cm' = fst (cm_exec i cm))"

abbreviation cm_reachable :: "client_manager \<Rightarrow> bool" where
  "cm_reachable \<equiv> reachable (\<lambda>cm. cm = ClientManager_init) cm_step"

lemma connect_exec: "fst (cm_exec (CM_connect env d code token url) cm) = fst (connectToHost env d code token url cm)"
  by (simp add: split_beta Let_def)

lemma still_hello: "still cm (fst (sendHello env d codec cm))"
  by (simp add: sendHello_def)

lemma cm_exec_safe: "fresh_uuid i cm \<Longrightarrow> safe cm (fst (cm_exec i cm))"
proof (cases i)
  case (CM_connect env d code token url)
  then show ?thesis unfolding CM_connect connect_exec by (simp add: safe_connectToHost)
qed (auto simp: safe_setMessaging safe_same cm_setIceConfig_def safe_disconnect safe_disconnectAll safe_upload
      safe_download safe_message still_safe[OF still_hello] still_safe[OF still_runCommand] still_safe[OF still_cancelTask]
      still_safe[OF still_clear] still_safe[OF still_timer] still_safe[OF still_onMessagingError])

lemma owned_init: "owned ClientManager_init"
  by (simp add: owned_def ClientManager_init_def FileTransferQueue_init_def)

interpretation client_sessions: invariant_system "\<lambda>cm. cm = ClientManager_init" cm_step owned
  by unfold_locales (auto simp: cm_step_def owned_init dest!: cm_exec_safe simp: safe_def)

interpretation client_queue: queue_client "\<lambda>cm. cm = ClientManager_init" cm_step cm_fileTransfers
  by unfold_locales (auto simp: cm_step_def ClientManager_init_def dest!: cm_exec_safe simp: safe_def)

end
