(* ===== verification/ClientTables.thy ===== *)
theory ClientTables
  imports ClientRouting
begin

text \<open>
  The two tables of \<open>ClientManager\<close>: the connections by device and the devices by connection identifier
  are inverse to each other as long as the client process lists each connection once, under an identifier
  it was given. Messages of unknown connections are ignored, commands reach the connection of their
  device and carry values within the documented ranges.
\<close>


section \<open>Inverse tables\<close>

abbreviation device :: "client_manager \<Rightarrow> qstring \<Rightarrow> qstring option" where
  "device cm \<equiv> map_of (cm_connIdToDeviceId cm)"

definition inverse_tables :: "client_manager \<Rightarrow> bool" where
  "inverse_tables cm \<longleftrightarrow>
     (\<forall>c d. device cm c = Some d \<longleftrightarrow> (\<exists>ci. conn cm d = Some ci \<and> ci_connectionId ci = c))
     \<and> (\<forall>c d. device cm c = Some d \<longrightarrow> c \<in> conn_name ` {1..cm_connectionCounter cm})"

lemma conn_name_inject [simp]: "conn_name m = conn_name n \<longleftrightarrow> m = n"
  by (simp add: conn_name_def)

lemma conn_name_nonempty [simp]: "conn_name n \<noteq> []"
  by (simp add: conn_name_def)

lemma inverse_conn:
  assumes "inverse_tables cm" "conn cm d = Some ci"
  shows "device cm (ci_connectionId ci) = Some d" "ci_connectionId ci \<in> conn_name ` {1..cm_connectionCounter cm}"
  using assms unfolding inverse_tables_def by blast+

lemma inverse_device:
  assumes "inverse_tables cm" "device cm c = Some d"
  obtains ci where "conn cm d = Some ci" "ci_connectionId ci = c"
  using assms unfolding inverse_tables_def by blast

lemma inverse_tablesI:
  assumes "\<And>c d. device cm c = Some d \<Longrightarrow> \<exists>ci. conn cm d = Some ci \<and> ci_connectionId ci = c"
    and "\<And>d ci. conn cm d = Some ci \<Longrightarrow> device cm (ci_connectionId ci) = Some d"
    and "\<And>c d. device cm c = Some d \<Longrightarrow> c \<in> conn_name ` {1..cm_connectionCounter cm}"
  shows "inverse_tables cm"
  using assms unfolding inverse_tables_def by blast

lemma still_inverse: "still cm cm' \<Longrightarrow> inverse_tables cm' = inverse_tables cm"
  by (simp add: still_def inverse_tables_def)

lemma keeps_still: "(\<And>cm. still cm (fst (a cm))) \<Longrightarrow> keeps inverse_tables a"
  by (rule keepsI) (metis still_inverse)

text \<open>A statement that changes the fields of a known connection other than its identifier.\<close>

definition known :: "qstring \<Rightarrow> client_manager \<Rightarrow> bool" where
  "known d cm \<longleftrightarrow> inverse_tables cm \<and> conn cm d \<noteq> None"

lemma known_upd:
  assumes "\<And>c. ci_connectionId (f c) = ci_connectionId c"
  shows "keeps (known d) (modify (upd_conn d f))"
proof (rule keepsI)
  fix cm
  assume k: "known d cm"
  then obtain ci0 where ci0: "conn cm d = Some ci0" and inv: "inverse_tables cm" by (auto simp: known_def)
  have c: "conn (upd_conn d f cm) d' = (if d' = d then Some (f ci0) else conn cm d')" for d'
    using ci0 by (simp add: qm_value_def)
  have t: "device (upd_conn d f cm) = device cm" "cm_connectionCounter (upd_conn d f cm) = cm_connectionCounter cm"
    by (simp_all add: upd_conn_def)
  have "inverse_tables (upd_conn d f cm)"
    unfolding inverse_tables_def t c using inv ci0 assms
    by (simp add: inverse_tables_def)
  then show "known d (fst (modify (upd_conn d f) cm))" by (simp add: known_def c)
qed

lemma known_same:
  "(\<And>cm. cm_connections (fst (a cm)) = cm_connections cm \<and> cm_connIdToDeviceId (fst (a cm)) = cm_connIdToDeviceId cm
     \<and> cm_connectionCounter (fst (a cm)) = cm_connectionCounter cm) \<Longrightarrow> keeps (known d) a"
  by (rule keepsI) (simp add: known_def inverse_tables_def)

lemma endTransfers_tables [simp]:
  "cm_connections (fst (endTransfers f cm)) = cm_connections cm"
  "cm_connIdToDeviceId (fst (endTransfers f cm)) = cm_connIdToDeviceId cm"
  "cm_connectionCounter (fst (endTransfers f cm)) = cm_connectionCounter cm"
  "cm_activeDeviceId (fst (endTransfers f cm)) = cm_activeDeviceId cm"
  by (simp_all add: endTransfers_def split_beta Let_def)

lemma connectionState_tables [simp]:
  "cm_connections (fst (connectionState d st info cm)) = cm_connections cm"
  "cm_connIdToDeviceId (fst (connectionState d st info cm)) = cm_connIdToDeviceId cm"
  "cm_connectionCounter (fst (connectionState d st info cm)) = cm_connectionCounter cm"
  by (simp_all add: connectionState_def seq_Cons del: seq.simps(2))

lemma inverse_same:
  "cm_connections cm' = cm_connections cm \<Longrightarrow> cm_connIdToDeviceId cm' = cm_connIdToDeviceId cm \<Longrightarrow>
   cm_connectionCounter cm' = cm_connectionCounter cm \<Longrightarrow> inverse_tables cm' = inverse_tables cm"
  by (simp add: inverse_tables_def)

lemma inverse_removeConnection: "keeps inverse_tables (removeConnection d)"
proof (rule keepsI)
  fix cm
  assume inv: "inverse_tables cm"
  show "inverse_tables (fst (removeConnection d cm))"
  proof (cases "conn cm d")
    case None
    then have "inverse_tables (fst (removeConnection d cm)) = inverse_tables cm"
      by (intro inverse_same) (simp_all add: removeConnection_eq Let_def qm_contains_def)
    with inv show ?thesis by simp
  next
    case (Some ci)
    let ?c = "ci_connectionId ci"
    have e: "device (fst (removeConnection d cm)) = (device cm)(?c := None)" "conn (fst (removeConnection d cm)) = (conn cm)(d := None)"
      "cm_connectionCounter (fst (removeConnection d cm)) = cm_connectionCounter cm"
      using Some by (simp_all add: removeConnection_eq Let_def qm_contains_def connectionIdFor_def)
    have "device cm ?c = Some d" using inverse_conn[OF inv Some] by simp
    note c = this
    show ?thesis
    proof (rule inverse_tablesI)
      fix c' d'
      assume "device (fst (removeConnection d cm)) c' = Some d'"
      then have d': "device cm c' = Some d'" "c' \<noteq> ?c" unfolding e by (simp_all split: if_splits)
      then obtain ci' where ci': "conn cm d' = Some ci'" "ci_connectionId ci' = c'" by (metis inverse_device[OF inv])
      then have "d' \<noteq> d" using d'(2) Some by auto
      with ci' show "\<exists>ci. conn (fst (removeConnection d cm)) d' = Some ci \<and> ci_connectionId ci = c'" by (simp add: e)
    next
      fix d' ci'
      assume "conn (fst (removeConnection d cm)) d' = Some ci'"
      then have d': "d' \<noteq> d" "conn cm d' = Some ci'" unfolding e by (simp_all split: if_splits)
      with c inverse_conn(1)[OF inv d'(2)] show "device (fst (removeConnection d cm)) (ci_connectionId ci') = Some d'"
        by (auto simp: e)
    next
      fix c' d'
      assume "device (fst (removeConnection d cm)) c' = Some d'"
      then have "device cm c' = Some d'" unfolding e by (simp split: if_splits)
      then show "c' \<in> conn_name ` {1..cm_connectionCounter (fst (removeConnection d cm))}"
        using inv unfolding inverse_tables_def e by blast
    qed
  qed
qed

text \<open>A new pair of a device and an identifier, neither of them in the tables.\<close>

lemma inverse_insert:
  assumes inv: "inverse_tables cm" and n: "conn cm d = None" "device cm (ci_connectionId ci0) = None"
    and b: "ci_connectionId ci0 \<in> conn_name ` {1..cm_connectionCounter cm'}" "cm_connectionCounter cm \<le> cm_connectionCounter cm'"
    and e: "device cm' = (device cm)(ci_connectionId ci0 \<mapsto> d)" "conn cm' = (conn cm)(d \<mapsto> ci0)"
  shows "inverse_tables cm'"
proof (rule inverse_tablesI)
  let ?c = "ci_connectionId ci0"
  have bound: "c \<in> conn_name ` {1..cm_connectionCounter cm'}" if "device cm c = Some d'" for c d'
  proof -
    have "c \<in> conn_name ` {1..cm_connectionCounter cm}" using inv that unfolding inverse_tables_def by blast
    then show ?thesis using b(2) by auto
  qed
  fix c d'
  assume a: "device cm' c = Some d'"
  show "c \<in> conn_name ` {1..cm_connectionCounter cm'}"
    using a b(1) bound by (cases "c = ?c") (simp_all add: e)
  show "\<exists>ci. conn cm' d' = Some ci \<and> ci_connectionId ci = c"
  proof (cases "c = ?c")
    case True
    then have "d' = d" using a by (simp add: e)
    with True show ?thesis by (simp add: e)
  next
    case False
    then have "device cm c = Some d'" using a by (simp add: e)
    then obtain ci where "conn cm d' = Some ci" "ci_connectionId ci = c" by (rule inverse_device[OF inv])
    moreover from this n have "d' \<noteq> d" by auto
    ultimately show ?thesis by (simp add: e)
  qed
next
  fix d' ci
  assume a: "conn cm' d' = Some ci"
  show "device cm' (ci_connectionId ci) = Some d'"
  proof (cases "d' = d")
    case True
    then show ?thesis using a by (simp add: e)
  next
    case False
    then have "device cm (ci_connectionId ci) = Some d'" using a inverse_conn(1)[OF inv] by (simp add: e)
    with n show ?thesis by (auto simp: e)
  qed
qed

lemma inverse_openTables:
  assumes inv: "inverse_tables cm" and n: "conn cm d = None"
  shows "inverse_tables (openTables d cm)"
proof -
  have "device cm (conn_name (cm_connectionCounter cm + 1)) = None"
  proof (cases "device cm (conn_name (cm_connectionCounter cm + 1))")
    case (Some d')
    then have "conn_name (cm_connectionCounter cm + 1) \<in> conn_name ` {1..cm_connectionCounter cm}"
      using inv unfolding inverse_tables_def by blast
    then show ?thesis by auto
  qed
  then show ?thesis
    by (intro inverse_insert[OF inv n, of "new_connection\<lparr>ci_connectionId := conn_name (cm_connectionCounter cm + 1),
        ci_deviceId := d, ci_rtcState := RtcConnecting\<rparr>"]) (simp_all add: openTables_def Let_def)
qed

text \<open>A list of connections as the client process sends it: each once, under an identifier it was given.\<close>

definition list_ok :: "jobject \<Rightarrow> client_manager \<Rightarrow> bool" where
  "list_ok message cm \<longleftrightarrow>
     (let obs = map toObject (toArray (oget message ''connections''));
          ids = map (\<lambda>ob. toString (oget ob ''connectionId'')) obs
      in distinct ids \<and> distinct (map (\<lambda>ob. toString (oget ob ''deviceId'')) obs)
         \<and> set ids \<subseteq> conn_name ` {1..cm_connectionCounter cm})"

lemma listed_ids [simp]: "ci_connectionId (listed_connection old ob) = toString (oget ob ''connectionId'')"
  "ci_deviceId (listed_connection old ob) = toString (oget ob ''deviceId'')"
  by (simp_all add: listed_connection_def Let_def split: option.splits)

lemma inverse_fold:
  assumes "inverse_tables cm"
    and "distinct (map (\<lambda>ob. toString (oget ob ''connectionId'')) obs)" "distinct (map (\<lambda>ob. toString (oget ob ''deviceId'')) obs)"
    and "\<forall>ob \<in> set obs. toString (oget ob ''connectionId'') \<in> conn_name ` {1..cm_connectionCounter cm}
           \<and> device cm (toString (oget ob ''connectionId'')) = None \<and> conn cm (toString (oget ob ''deviceId'')) = None"
  shows "inverse_tables (fold (listConnection old) obs cm)"
  using assms
proof (induction obs arbitrary: cm)
  case (Cons ob obs)
  let ?cm1 = "listConnection old ob cm"
  have "inverse_tables ?cm1"
    by (rule inverse_insert[OF Cons.prems(1), of "toString (oget ob ''deviceId'')" "listed_connection old ob"])
      (use Cons.prems in \<open>simp_all add: listConnection_def Let_def\<close>)
  moreover have "\<forall>ob \<in> set obs. toString (oget ob ''connectionId'') \<in> conn_name ` {1..cm_connectionCounter ?cm1}
           \<and> device ?cm1 (toString (oget ob ''connectionId'')) = None \<and> conn ?cm1 (toString (oget ob ''deviceId'')) = None"
  proof
    fix ob'
    assume "ob' \<in> set obs"
    then have "toString (oget ob' ''connectionId'') \<noteq> toString (oget ob ''connectionId'')"
      "toString (oget ob' ''deviceId'') \<noteq> toString (oget ob ''deviceId'')"
      using Cons.prems(2,3) by (auto simp: image_iff)
    then show "toString (oget ob' ''connectionId'') \<in> conn_name ` {1..cm_connectionCounter ?cm1}
           \<and> device ?cm1 (toString (oget ob' ''connectionId'')) = None \<and> conn ?cm1 (toString (oget ob' ''deviceId'')) = None"
      using Cons.prems(4) \<open>ob' \<in> set obs\<close> by (simp add: listConnection_def Let_def)
  qed
  ultimately show ?case using Cons.IH[of ?cm1] Cons.prems(2,3) by simp
qed simp

lemma inverse_empty: "inverse_tables (cm\<lparr>cm_connections := [], cm_connIdToDeviceId := []\<rparr>)"
  by (simp add: inverse_tables_def)

lemma inverse_relisted:
  assumes "list_ok m cm"
  shows "inverse_tables (relisted m cm)"
  unfolding relisted_def
  by (rule inverse_fold[OF inverse_empty]) (use assms in \<open>auto simp: list_ok_def Let_def\<close>)

lemma for_each_tables:
  assumes "\<And>x t. cm_connections (fst (f x t)) = cm_connections t \<and> cm_connIdToDeviceId (fst (f x t)) = cm_connIdToDeviceId t
     \<and> cm_connectionCounter (fst (f x t)) = cm_connectionCounter t"
  shows "inverse_tables (fst (for_each f xs cm)) = inverse_tables cm"
proof -
  have a: "a \<in> f ` set xs \<Longrightarrow> cm_connections (fst (a t)) = cm_connections t \<and> cm_connIdToDeviceId (fst (a t)) = cm_connIdToDeviceId t
     \<and> cm_connectionCounter (fst (a t)) = cm_connectionCounter t" for a t
    using assms by blast
  show ?thesis
    unfolding for_each_def
    by (rule inverse_same; rule seq_frame; use a in simp)
qed

lemma inverse_list:
  assumes "list_ok m cm"
  shows "inverse_tables (fst (handleConnectionListChanged m cm))"
proof -
  have "inverse_tables (fst (for_each reconcileConnection xs t)) = inverse_tables t" for xs t
    by (rule for_each_tables) (simp add: reconcileConnection_def)
  moreover have "inverse_tables (fst (for_each endIfGone xs t)) = inverse_tables t" for xs t
    by (rule for_each_tables) (simp add: endIfGone_eq guarded_def)
  ultimately show ?thesis by (simp add: handleConnectionListChanged_eq inverse_relisted[OF assms])
qed


section \<open>Every input keeps the tables inverse\<close>

lemma keeps_same_tables:
  assumes "\<And>cm. cm_connections (fst (a cm)) = cm_connections cm \<and> cm_connIdToDeviceId (fst (a cm)) = cm_connIdToDeviceId cm
     \<and> cm_connectionCounter (fst (a cm)) = cm_connectionCounter cm"
  shows "keeps inverse_tables a"
proof (rule keepsI)
  fix cm
  assume "inverse_tables cm"
  then show "inverse_tables (fst (a cm))" using inverse_same[of "fst (a cm)" cm] assms by blast
qed

lemma keeps_small:
  "keeps inverse_tables (setActiveDeviceId d)" "keeps inverse_tables (reselectActive d)"
  "keeps inverse_tables (connectionState d st info)" "keeps inverse_tables (detachMemory d)"
  "keeps inverse_tables (send env m)"
  by (rule keeps_same_tables; simp add: setActiveDeviceId_def reselectActive_def detachMemory_def split_beta Let_def)+
    (rule keeps_still, simp)

lemma keeps_dropConnection: "keeps inverse_tables (dropConnection d)"
  unfolding dropConnection_def by (rule keeps_seq) (auto simp: inverse_removeConnection keeps_small)

lemma keeps_noteState: "keeps inverse_tables (noteState d rtc st)"
proof (rule keepsI)
  fix cm
  assume inv: "inverse_tables cm"
  show "inverse_tables (fst (noteState d rtc st cm))"
  proof (cases "qm_contains (cm_connections cm) d")
    case True
    then have "known d cm" using inv by (simp add: known_def qm_contains_def)
    moreover have "keeps (known d) (seq [modify (upd_conn d (\<lambda>c. c\<lparr>ci_rtcState := rtc\<rparr>)), connectionState d st []])"
      by (rule keeps_seq) (auto intro: known_upd known_same)
    ultimately have "known d (fst (seq [modify (upd_conn d (\<lambda>c. c\<lparr>ci_rtcState := rtc\<rparr>)), connectionState d st []] cm))"
      by (metis keepsD)
    then show ?thesis using True by (simp add: noteState_def known_def del: seq.simps)
  qed (simp add: noteState_def inv)
qed

lemma keeps_forDevice_known:
  assumes "\<And>d. keeps (known d) (f d)"
  shows "keeps inverse_tables (forDevice m f)"
proof (rule keepsI)
  fix cm
  assume inv: "inverse_tables cm"
  let ?d = "findDeviceId (toString (oget m ''connectionId'')) cm"
  show "inverse_tables (fst (forDevice m f cm))"
  proof (cases "?d = []")
    case False
    then have "device cm (toString (oget m ''connectionId'')) = Some ?d"
      by (auto simp: findDeviceId_def qm_value_def split: option.splits)
    then have "known ?d cm" using inv by (metis inverse_device known_def option.distinct(1))
    then show ?thesis using assms[of ?d] False by (simp add: forDevice_def Let_def keeps_def known_def)
  qed (simp add: forDevice_def Let_def inv)
qed

lemma keeps_forDevice: "(\<And>d. keeps inverse_tables (f d)) \<Longrightarrow> keeps inverse_tables (forDevice m f)"
  by (simp add: keeps_def forDevice_def Let_def)

lemma keeps_id [simp]: "keeps I (modify id)"
  by (simp add: keeps_def)

lemma keeps_table_messages:
  "keeps inverse_tables (cm_handleSignalingStateChanged m)" "keeps inverse_tables (handleConnectionStateChanged m)"
  "keeps inverse_tables (handleHostCapabilities m)" "keeps inverse_tables (handleVideoFrameReady env m)"
  "keeps inverse_tables (handleConnectionFailed m)" "keeps inverse_tables (handleHostConnected m)"
  "keeps inverse_tables (handleHostDisconnected m)" "keeps inverse_tables (handleHostConnectionFailed m)"
proof -
  show "keeps inverse_tables (cm_handleSignalingStateChanged m)"
    unfolding cm_handleSignalingStateChanged_def Let_def
    by (intro keeps_forDevice_known keeps_seq) (auto intro: known_upd)
  show "keeps inverse_tables (handleConnectionStateChanged m)"
    unfolding handleConnectionStateChanged_def Let_def
    by (intro keeps_forDevice_known keeps_seq)
      (auto intro!: known_upd keeps_guarded intro: known_same split: option.split)
  show "keeps inverse_tables (handleHostConnected m)" "keeps inverse_tables (handleConnectionFailed m)"
    "keeps inverse_tables (handleHostDisconnected m)" "keeps inverse_tables (handleHostConnectionFailed m)"
    unfolding handleHostConnected_def handleConnectionFailed_def handleHostDisconnected_def handleHostConnectionFailed_def
    by (intro keeps_forDevice keeps_seq; auto simp: keeps_noteState keeps_dropConnection keeps_small)+
  have u: "known d (upd_conn d f t)" if "known d t" "\<And>c. ci_connectionId (f c) = ci_connectionId c" for d f t
    using known_upd[OF that(2), of d] that(1) by (metis action_simps(3) keepsD)
  have sm: "known d (t\<lparr>cm_sharedMemory := x\<rparr>) = known d t" for d t x by (simp add: known_def inverse_tables_def)
  show "keeps inverse_tables (handleHostCapabilities m)"
    unfolding handleHostCapabilities_def Let_def
    by (intro keeps_forDevice_known keepsI) (auto simp: seq_Cons guarded_def simp del: seq.simps(2) intro!: u)
  show "keeps inverse_tables (handleVideoFrameReady env m)"
    unfolding handleVideoFrameReady_def Let_def
    by (intro keeps_forDevice_known keepsI)
      (auto simp: split_beta seq_Cons guarded_def sm simp del: seq.simps(2) intro!: u)
qed


lemma inverse_queue [simp]: "inverse_tables (cm\<lparr>cm_fileTransfers := q\<rparr>) = inverse_tables cm"
  "inverse_tables (cm\<lparr>cm_messaging := nm\<rparr>) = inverse_tables cm" "inverse_tables (cm\<lparr>cm_iceConfig := ic\<rparr>) = inverse_tables cm"
  "inverse_tables (clearConnections cm)"
  by (simp_all add: inverse_tables_def clearConnections_def)

lemma inverse_transfers [simp]: "inverse_tables (fst (transfers env f cm)) = inverse_tables cm"
proof -
  have "still (cm\<lparr>cm_fileTransfers := fst (f (cm_fileTransfers cm))\<rparr>) (fst (transfers env f cm))"
    by (auto simp: transfers_def split_beta Let_def intro: still_for_each)
  then show ?thesis using still_inverse inverse_queue(1) by blast
qed

lemma inverse_send [simp]: "inverse_tables (fst (send env m cm)) = inverse_tables cm"
  by (rule still_inverse) simp

lemma inverse_transfer_calls [simp]:
  "inverse_tables (fst (startFileUpload env d url cm)) = inverse_tables cm"
  "inverse_tables (fst (startFileDownload env d cm)) = inverse_tables cm"
  by (simp_all add: startFileUpload_def startFileDownload_def openSession_def Let_def)

lemma inverse_connect: "inverse_tables cm \<Longrightarrow> inverse_tables (fst (connectToHost env d code token url cm))"
proof (cases rule: connectToHost_cases[of env d code token url cm])
  case (opened cm1)
  assume "inverse_tables cm"
  then have "inverse_tables cm1" using inverse_removeConnection[of d] by (simp add: opened(1) guarded_def keeps_def)
  then have "inverse_tables (openTables d cm1)" using opened(2) by (rule inverse_openTables)
  moreover have "keeps inverse_tables (seq [send env m, emit evs, guarded b (setActiveDeviceId d)])" for m evs b
    by (rule keeps_seq) (auto intro: keeps_guarded keeps_small)
  ultimately show ?thesis unfolding opened(3) openConnection_eq Let_def by (rule keepsD[rotated])
qed simp

lemma inverse_dispatch:
  assumes "inverse_tables cm" and "toString (oget m ''type'') = ''connectionListChanged'' \<longrightarrow> list_ok m cm"
  shows "inverse_tables (fst (dispatchMessage env m cm))"
  using assms keeps_table_messages[THEN keepsD, OF assms(1)] inverse_list[of m cm]
  unfolding dispatchMessage_def Let_def by simp

text \<open>What the environment may send: a list of connections only as \<open>list_ok\<close> says.\<close>

fun proper_input :: "cm_input \<Rightarrow> client_manager \<Rightarrow> bool" where
  "proper_input (CM_message env m) cm \<longleftrightarrow>
     (toString (oget m ''type'') = ''connectionListChanged'' \<longrightarrow> list_ok m cm)"
| "proper_input _ cm \<longleftrightarrow> True"

lemma list_ok_still: "still cm cm' \<Longrightarrow> list_ok m cm' = list_ok m cm"
  by (simp add: still_def list_ok_def)

lemma list_ok_transfers [simp]: "list_ok m (fst (transfers env f cm)) = list_ok m cm"
proof -
  have "still (cm\<lparr>cm_fileTransfers := fst (f (cm_fileTransfers cm))\<rparr>) (fst (transfers env f cm))"
    by (auto simp: transfers_def split_beta Let_def intro: still_for_each)
  then show ?thesis using list_ok_still by (fastforce simp: list_ok_def)
qed

lemma inverse_disconnect: "inverse_tables cm \<Longrightarrow> inverse_tables (fst (disconnectFromHost env d cm))"
proof -
  assume inv: "inverse_tables cm"
  have "keeps inverse_tables (seq [send env m, noteState d RtcDisconnected ''disconnected'', detachMemory d, dropConnection d])" for m
    by (rule keeps_seq) (auto simp: keeps_small keeps_noteState keeps_dropConnection)
  from keepsD[OF this inv] show ?thesis by (simp add: disconnectFromHost_def inv Let_def del: seq.simps)
qed

lemma inverse_setMessaging: "inverse_tables cm \<Longrightarrow> inverse_tables (fst (cm_setMessaging same nm cm))"
  using still_inverse[OF still_endAll, of cm] unfolding cm_setMessaging_def
  by (cases nm; cases same) (simp_all add: seq_Cons guarded_def Let_def del: seq.simps(2))

lemma inverse_disconnectAll: "inverse_tables cm \<Longrightarrow> inverse_tables (fst (disconnectAll env cm))"
  by (simp add: disconnectAll_def seq_Cons del: seq.simps(2))

lemma inverse_exec:
  assumes inv: "inverse_tables cm" and "proper_input i cm"
  shows "inverse_tables (fst (cm_exec i cm))"
proof (cases i)
  case (CM_connect env d code token url)
  show ?thesis unfolding CM_connect connect_exec by (rule inverse_connect[OF inv])
next
  case (CM_message env m)
  then show ?thesis
    using assms inverse_dispatch[of "fst (transfers env (handleMessage (ce_uuid env) m) cm)" m env]
    by (simp add: cm_onMessageReceived_def seq_Cons del: seq.simps(2))
next
  case (CM_setActive d)
  then show ?thesis using keepsD[OF keeps_small(1) inv] by simp
qed (use inv still_inverse[OF still_runCommand] still_inverse[OF still_hello] still_inverse[OF still_cancelTask]
      still_inverse[OF still_clear] still_inverse[OF still_timer] still_inverse[OF still_onMessagingError] in
    \<open>simp_all add: inverse_disconnect inverse_disconnectAll inverse_setMessaging cm_setIceConfig_def\<close>)

definition cm_proper_step :: "client_manager \<Rightarrow> client_manager \<Rightarrow> bool" where
  "cm_proper_step cm cm' \<longleftrightarrow> (\<exists>i. fresh_uuid i cm \<and> proper_input i cm \<and> cm' = fst (cm_exec i cm))"

interpretation client_tables: invariant_system "\<lambda>cm. cm = ClientManager_init" cm_proper_step inverse_tables
  by unfold_locales (auto simp: cm_proper_step_def inverse_exec, simp add: ClientManager_init_def inverse_tables_def)

end
