(* ===== verification/ClientProperties.thy ===== *)
theory ClientProperties
  imports ClientTables
begin

text \<open>
  What \<open>ClientManager\<close> promises the rest of the program, in every state a run reaches: the queue of file
  transfers inside it behaves as the queue specifies, a live transfer has its connection, the two tables
  are inverse, messages of unknown connections change nothing, and a command reaches the device it names
  with values in range.
\<close>


section \<open>A run\<close>

definition demo_env :: client_env where
  "demo_env = \<lparr>ce_toJson = (\<lambda>_. []), ce_compact = (\<lambda>_. []), ce_fromJson = (\<lambda>_. OtherDoc), ce_fromBase64 = (\<lambda>_. []),
     ce_write = (\<lambda>_. 4), ce_apiKey = [], ce_preferredVideoCodec = ''H264'', ce_fs = demo_fs, ce_uuid = ''u1'',
     ce_downloadLocation = ''/tmp'', ce_attachError = None, ce_copyToClipboard = (\<lambda>_. False)\<rparr>"

definition demo_channel :: native_messaging where
  "demo_channel = \<lparr>nm_process = Some PRunning, nm_readSocket = None, nm_writeSocket = None, nm_buffer = []\<rparr>"

text \<open>A channel, a connection, its capabilities, an upload.\<close>

definition demo_inputs :: "cm_input list" where
  "demo_inputs =
     [CM_setMessaging False (Some demo_channel),
      CM_connect demo_env ''dev'' ''123456'' ''token'' ''wss://s'',
      CM_message demo_env [(''connectionId'', JStr ''conn_1''), (''type'', JStr ''onHostConnected'')],
      CM_message demo_env [(''connectionId'', JStr ''conn_1''), (''supportsFileTransfer'', JBool True),
        (''type'', JStr ''hostCapabilities'')],
      CM_upload demo_env ''dev'' \<lparr>url_isLocalFile = True, url_toLocalFile = ''a''\<rparr>]"

definition demo_state :: "nat \<Rightarrow> client_manager" where
  "demo_state n = fold (\<lambda>i cm. fst (cm_exec i cm)) (take n demo_inputs) ClientManager_init"

lemma demo_next:
  assumes "n < 5"
  shows "demo_state (Suc n) = fst (cm_exec (demo_inputs ! n) (demo_state n))"
proof -
  have "n < length demo_inputs" using assms by (simp add: demo_inputs_def)
  then show ?thesis by (simp add: demo_state_def take_Suc_conv_app_nth del: cm_exec.simps)
qed

abbreviation cm_proper :: "client_manager \<Rightarrow> bool" where
  "cm_proper \<equiv> reachable (\<lambda>cm. cm = ClientManager_init) cm_proper_step"

lemma proper_reachable: "cm_proper cm \<Longrightarrow> cm_reachable cm"
  by (induction rule: reachable.induct) (auto simp: cm_step_def cm_proper_step_def intro: reach_init reach_step)

lemma demo_ok:
  "list_all (\<lambda>n. fresh_uuid (demo_inputs ! n) (demo_state n) \<and> proper_input (demo_inputs ! n) (demo_state n)) [0, 1, 2, 3, 4]"
  by code_simp

lemma demo_reach: "n \<le> 5 \<Longrightarrow> cm_proper (demo_state n)"
proof (induction n)
  case 0
  then show ?case by (simp add: demo_state_def reach_init)
next
  case (Suc n)
  then have "n \<in> set [0, 1, 2, 3, 4]" by auto
  then have "fresh_uuid (demo_inputs ! n) (demo_state n)" "proper_input (demo_inputs ! n) (demo_state n)"
    using demo_ok unfolding list_all_iff by blast+
  then have "cm_proper_step (demo_state n) (demo_state (Suc n))"
    using Suc.prems by (auto simp: cm_proper_step_def demo_next)
  then show ?case using Suc reach_step by fastforce
qed

lemmas demo_proper = demo_reach[of 5, simplified]
lemmas demo_reachable = proper_reachable[OF demo_proper]


section \<open>The queue inside the manager\<close>



text \<open>
  A transfer that has not ended belongs to a connection that is in the table, in every reachable
  state and whatever the client process reports: no message, error or disconnect leaves a live transfer
  behind without its connection.
\<close>

theorem live_transfers_have_connections:
  assumes "cm_reachable cm" and "t \<in> set (q_tasks (cm_fileTransfers cm))" and "\<not> terminal (t_status t)"
  shows "\<exists>d ci. map_of (cm_connections cm) d = Some ci \<and> ci_connectionId ci = t_connectionId t \<and> ci_deviceId ci = d"
proof -
  have o: "owned cm" using assms(1) by (rule client_sessions.reachable_inv)
  have "ft_inv (cm_fileTransfers cm)" using assms(1) by (rule client_queue.view_inv)
  then have "qm_contains (q_sessions (cm_fileTransfers cm)) (t_connectionId t)"
    using assms(2,3) by (auto simp: ft_inv_def tasks_inv_def task_ok_def)
  then obtain d where "session cm (t_connectionId t) = Some d" by (auto simp: qm_contains_def)
  then show ?thesis using owned_session[OF o] owned_named[OF o] by metis
qed

theorem live_transfers_have_connections_witness:
  "\<exists>d ci. map_of (cm_connections (demo_state 5)) d = Some ci \<and> ci_connectionId ci = ''conn_1'' \<and> ci_deviceId ci = d"
proof -
  have "t_connectionId (q_tasks (cm_fileTransfers (demo_state 5)) ! 0) = ''conn_1''"
    "\<not> terminal (t_status (q_tasks (cm_fileTransfers (demo_state 5)) ! 0))"
    "0 < length (q_tasks (cm_fileTransfers (demo_state 5)))"
    by code_simp+
  then show ?thesis
    using live_transfers_have_connections[OF demo_reachable, of "q_tasks (cm_fileTransfers (demo_state 5)) ! 0"] by simp
qed


section \<open>Routing\<close>

text \<open>
  C20. The two tables are inverse in every run in which the client process lists each connection once, under
  an identifier it was given: an identifier names a device exactly if that device's connection has the
  identifier, so an identifier names at most one device and a device has at most one identifier.
\<close>

theorem routing_tables_inverse:
  assumes "cm_proper cm"
  shows "map_of (cm_connIdToDeviceId cm) c = Some d
    \<longleftrightarrow> (\<exists>ci. map_of (cm_connections cm) d = Some ci \<and> ci_connectionId ci = c)"
  using client_tables.reachable_inv[OF assms] unfolding inverse_tables_def by blast

theorem routing_tables_inverse_witness:
  "cm_proper (demo_state 5) \<and> map_of (cm_connIdToDeviceId (demo_state 5)) ''conn_1'' = Some ''dev''
    \<and> (\<exists>ci. map_of (cm_connections (demo_state 5)) ''dev'' = Some ci \<and> ci_connectionId ci = ''conn_1'')"
proof -
  have "map_of (cm_connIdToDeviceId (demo_state 5)) ''conn_1'' = Some ''dev''" by code_simp
  then show ?thesis using routing_tables_inverse[OF demo_proper, of "''conn_1''" "''dev''"] demo_proper by simp
qed

lemma unknown_no_session:
  assumes "cm_proper cm" and "map_of (cm_connIdToDeviceId cm) c = None"
  shows "\<not> qm_contains (q_sessions (cm_fileTransfers cm)) c"
proof
  assume "qm_contains (q_sessions (cm_fileTransfers cm)) c"
  then obtain d where "session cm c = Some d" by (auto simp: qm_contains_def)
  moreover have "owned cm" using proper_reachable[OF assms(1)] by (rule client_sessions.reachable_inv)
  ultimately obtain ci where "conn cm d = Some ci" "ci_connectionId ci = c" by (metis owned_session)
  then have "device cm c = Some d" using inverse_conn(1)[OF client_tables.reachable_inv[OF assms(1)]] by blast
  with assms(2) show False by simp
qed

lemma forDevice_unknown [simp]:
  "map_of (cm_connIdToDeviceId cm) (toString (oget m ''connectionId'')) = None \<Longrightarrow> forDevice m f cm = (cm, [])"
  by (simp add: forDevice_def findDeviceId_def qm_value_def)

lemma dispatch_unknown:
  assumes "map_of (cm_connIdToDeviceId cm) (toString (oget m ''connectionId'')) = None"
    and "toString (oget m ''type'') \<notin> {''connectionListChanged'', ''helloResponse'', ''error''}"
  shows "dispatchMessage env m cm = (cm, [])"
proof -
  note a = forDevice_unknown[OF assms(1)]
  show ?thesis
    using assms(2) unfolding dispatchMessage_def Let_def
    by (simp add: emit_def a cm_handleSignalingStateChanged_def handleConnectToHostResponse_def handleConnectionStateChanged_def
        handleVideoFrameReady_def handleClipboardReceived_def handleConnectionFailed_def handleHostConnected_def
        handleHostDisconnected_def handleHostConnectionFailed_def handleCursorShapeChanged_def
        handlePerformanceStatsUpdate_def handleDisplayListChanged_def handleRouteChanged_def handleHostCapabilities_def
        handleFileTransferProgress_def handleFileTransferComplete_def handleFileTransferError_def
        handleFileDownloadStarted_def handleFileDownloadProgress_def handleFileDownloadComplete_def
        handleFileDownloadError_def handleSkillBridgeResponse_def handleVirtualDisplayState_def)
qed

text \<open>
  A message for a connection the manager does not know changes nothing and signals nothing: a late frame, state
  or transfer report of a connection that was dropped cannot touch another one, its transfers or the
  memory of a device. (The three types that are not about one connection are excepted.)
\<close>

theorem unknown_connection_ignored:
  assumes "cm_proper cm" and "map_of (cm_connIdToDeviceId cm) (toString (oget m ''connectionId'')) = None"
    and "toString (oget m ''type'') \<notin> {''connectionListChanged'', ''helloResponse'', ''error''}"
  shows "cm_onMessageReceived env m cm = (cm, [])"
proof -
  have "handleMessage (ce_uuid env) m (cm_fileTransfers cm) = (cm_fileTransfers cm, [])"
    using unknown_no_session[OF assms(1,2)] by (simp add: handleMessage_def Let_def)
  then have "transfers env (handleMessage (ce_uuid env) m) cm = (cm, [])" by (simp add: transfers_def)
  then show ?thesis by (simp add: cm_onMessageReceived_def dispatch_unknown[OF assms(2,3)])
qed

theorem unknown_connection_ignored_witness:
  "cm_onMessageReceived demo_env [(''connectionId'', JStr ''conn_7''), (''frameIndex'', JInt 3),
     (''type'', JStr ''videoFrameReady'')] (demo_state 5) = (demo_state 5, [])"
proof (rule unknown_connection_ignored[OF demo_proper])
  show "map_of (cm_connIdToDeviceId (demo_state 5)) (toString (oget [(''connectionId'', JStr ''conn_7''),
     (''frameIndex'', JInt 3), (''type'', JStr ''videoFrameReady'')] ''connectionId'')) = None"
    by code_simp
qed (simp add: oget_def)


section \<open>Commands\<close>

lemma sent_in_end [simp]: "cm_sent m \<notin> set (snd (endTransfers f cm))"
proof -
  have "cm_sent m \<notin> set (plain_signal e)" for e by (cases e) simp_all
  then show ?thesis by (simp add: endTransfers_def split_beta Let_def)
qed

lemma sent_in_signal: "cm_sent m \<in> set (snd (channel_signal m' e cm)) \<Longrightarrow> m = m'"
  by (cases e) (simp_all add: onMessagingError_def seq_Cons del: seq.simps(2))

lemma sent_in_loop: "cm_sent m \<in> set (snd (for_each (channel_signal m') es cm)) \<Longrightarrow> m = m'"
  by (induction es arbitrary: cm) (auto simp: for_each_Cons dest: sent_in_signal)

lemma sent_in_send: "cm_sent m \<in> set (snd (send env m' cm)) \<Longrightarrow> m = m'"
  by (auto simp: send_def split: option.splits dest: sent_in_loop)

lemma sent_in_command:
  assumes "cm_sent m \<in> set (snd (command env d type flds cm))"
  shows "cm_ready cm \<and> connectionIdFor d cm \<noteq> []
    \<and> m = mkobj ([(''type'', JStr type), (''connectionId'', JStr (connectionIdFor d cm))] @ flds)"
  using assms by (auto simp: command_def Let_def split: if_splits dest: sent_in_send)

text \<open>The ranges the commands document.\<close>

fun in_range :: "cm_command \<Rightarrow> jobject \<Rightarrow> bool" where
  "in_range (TargetFramerate f) m \<longleftrightarrow> toInt (oget m ''framerate'') \<in> {1..60}"
| "in_range (Resolution w h dpi) m \<longleftrightarrow> toInt (oget m ''width'') \<in> {1..8192} \<and> toInt (oget m ''height'') \<in> {1..8192}"
| "in_range (FramerateBoost e c b) m \<longleftrightarrow>
     toInt (oget m ''captureIntervalMs'') \<in> {10..1000} \<and> toInt (oget m ''boostDurationMs'') \<in> {100..1000}"
| "in_range (Bitrate b) m \<longleftrightarrow> 0 \<le> toDouble (oget m ''minBitrateBps'')"
| "in_range _ m \<longleftrightarrow> True"

lemma runCommand_cases:
  assumes "cm_sent m \<in> set (snd (runCommand env d c cm))"
  shows "cm_ready cm \<and> connectionIdFor d cm \<noteq> [] \<and> oget m ''connectionId'' = JStr (connectionIdFor d cm) \<and> in_range c m"
  using assms
  by (cases c)
    (auto simp: sendMouseMove_def sendMousePress_def sendMouseRelease_def sendMouseWheel_def sendMouseEvent_def
      sendKeyPress_def sendKeyRelease_def sendKeyboardEvent_def releaseAllInput_def syncClipboard_def sendSkillCommand_def
      setTargetFramerate_def setResolution_def setFramerateBoost_def setBitrate_def setAudioEnabled_def selectDisplay_def
      sendAction_def cm_togglePrivacyScreen_def createVirtualDisplay_def removeVirtualDisplay_def
      removeAllVirtualDisplays_def queryVirtualDisplays_def virtualDisplayCommand_def cancelFileUpload_def
      cancelFileDownload_def guarded_def oget_mkobj qBound_def split: if_splits dest!: sent_in_command)

text \<open>
  C21. A command goes out only over a ready channel, to the connection of the device it is for, and with
  values in the range the command documents, whatever the caller passes: frame rates of 1 to 60,
  resolutions of 1 to 8192, boost intervals of 10 to 1000 and 100 to 1000 ms, no negative bit rate.
\<close>

theorem command_reaches_device_in_range:
  assumes "cm_proper cm" and "cm_sent m \<in> set (snd (runCommand env d c cm))"
  shows "cm_ready cm \<and> map_of (cm_connIdToDeviceId cm) (toString (oget m ''connectionId'')) = Some d \<and> in_range c m"
proof -
  note c = runCommand_cases[OF assms(2)]
  then obtain ci where "conn cm d = Some ci" "ci_connectionId ci = connectionIdFor d cm"
    using connectionIdFor_conn by blast
  then have "device cm (connectionIdFor d cm) = Some d"
    using inverse_conn(1)[OF client_tables.reachable_inv[OF assms(1)]] by metis
  with c show ?thesis by simp
qed

theorem command_reaches_device_in_range_witness:
  "map_of (cm_connIdToDeviceId (demo_state 5)) ''conn_1'' = Some ''dev''
    \<and> in_range (TargetFramerate 240) (mkobj [(''type'', JStr ''setFramerate''), (''connectionId'', JStr ''conn_1''),
        (''framerate'', JInt 60)])"
proof -
  have "snd (runCommand demo_env ''dev'' (TargetFramerate 240) (demo_state 5)) = [cm_sent (mkobj [(''type'', JStr ''setFramerate''),
     (''connectionId'', JStr ''conn_1''), (''framerate'', JInt 60)])]"
    by code_simp
  then show ?thesis
    using command_reaches_device_in_range[OF demo_proper, of "mkobj [(''type'', JStr ''setFramerate''),
     (''connectionId'', JStr ''conn_1''), (''framerate'', JInt 60)]" demo_env "''dev''" "TargetFramerate 240"]
    by (simp add: oget_mkobj)
qed

text \<open>
  A list of connections without the active device leaves \<open>activeDeviceId\<close> where it was, unlike every other way
  a connection goes: the active device is then one that is not connected.
\<close>

theorem list_leaves_active_dangling:
  "cm_activeDeviceId (fst (cm_exec (CM_message demo_env [(''connections'', JArr []), (''type'', JStr ''connectionListChanged'')])
     (demo_state 4))) = ''dev''
   \<and> cm_connections (fst (cm_exec (CM_message demo_env [(''connections'', JArr []), (''type'', JStr ''connectionListChanged'')])
     (demo_state 4))) = []"
  by (intro conjI) code_simp+

end
