(* ===== verification/HostProperties.thy ===== *)
theory HostProperties
  imports HostManager
begin

text \<open>
  What \<open>HostManager\<close> guarantees: its table of clients is what the host process said last, every property the
  user interface reads is announced when it changes, nothing of a session survives the host process,
  and the secret of the device is announced once.
\<close>


section \<open>Sending changes nothing\<close>

lemma hm_signal_state [simp]: "fst (hm_channel_signal m e hm) = hm"
  by (cases e) (simp_all add: hm_onMessagingError_def)

lemma hm_send_state [simp]: "fst (hm_send env m hm) = hm"
proof -
  have "fst (for_each (hm_channel_signal m) es hm) = hm" for es
    unfolding for_each_def by (rule seq_frame[of _ "\<lambda>x. x"]) auto
  then show ?thesis by (simp add: hm_send_def split: option.split)
qed

lemma hm_request_state [simp]:
  "fst (connectToServer env url code hm) = hm" "fst (hm_sendHello env hm) = hm" "fst (authorizeClient env c a hm) = hm"
  "fst (kickClient env c hm) = hm" "fst (refreshAccessCode env hm) = hm" "fst (sendSkillBridgeSend env d hm) = hm"
  "fst (hm_togglePrivacyScreen env b hm) = hm" "fst (setAutoLockOnSessionEnd env b hm) = hm"
  by (simp_all add: connectToServer_def hm_sendHello_def authorizeClient_def kickClient_def refreshAccessCode_def
      sendSkillBridgeSend_def hm_togglePrivacyScreen_def setAutoLockOnSessionEnd_def)

section \<open>The table of clients\<close>

text \<open>
  The specification: the channel, and for every client what was said of it last. A list of clients
  replaces the table, its last entry for an identifier counts.
\<close>

record host_spec =
  hs_channel :: "native_messaging option"
  hs_clients :: "qstring \<Rightarrow> session_info option"

definition clients_after :: "jobject \<Rightarrow> (qstring \<Rightarrow> session_info option) \<Rightarrow> qstring \<Rightarrow> session_info option" where
  "clients_after m cs =
     (if toString (oget m ''type'') = ''clientConnected'' then cs(message_clientId m \<mapsto> connected_session m)
      else if toString (oget m ''type'') = ''clientDisconnected'' then cs(message_clientId m := None)
      else if toString (oget m ''type'') = ''clientListChanged''
      then map_of (rev (map (\<lambda>v. (toString (oget (toObject v) ''connectionId''), listed_session (toObject v)))
             (toArray (oget m ''clients''))))
      else cs)"

fun spec_step :: "hm_input \<Rightarrow> host_spec \<Rightarrow> host_spec" where
  "spec_step (HM_setMessaging None) s = \<lparr>hs_channel = None, hs_clients = Map.empty\<rparr>"
| "spec_step (HM_setMessaging (Some nm)) s = s\<lparr>hs_channel := Some nm\<rparr>"
| "spec_step (HM_channel nm) s = (if hs_channel s = None then s else s\<lparr>hs_channel := nm\<rparr>)"
| "spec_step (HM_disconnect env) s =
     (case hs_channel s of Some nm \<Rightarrow> if isReady nm then s\<lparr>hs_clients := Map.empty\<rparr> else s | None \<Rightarrow> s)"
| "spec_step (HM_message env m) s = (if hs_channel s = None then s else s\<lparr>hs_clients := clients_after m (hs_clients s)\<rparr>)"
| "spec_step _ s = s"

definition host_abs :: "host_manager \<Rightarrow> host_spec" where
  "host_abs hm = \<lparr>hs_channel = hm_messaging hm, hs_clients = map_of (hm_clients hm)\<rparr>"

lemma listed_clients:
  "map_of (fold (\<lambda>v. let s = listed_session (toObject v) in qm_insert (si_connectionId s) s) vs cs)
     = map_of (rev (map (\<lambda>v. (toString (oget (toObject v) ''connectionId''), listed_session (toObject v))) vs) @ cs)"
proof (induction vs arbitrary: cs)
  case (Cons v vs)
  let ?s = "listed_session (toObject v)"
  have "map_of (fold (\<lambda>v. let s = listed_session (toObject v) in qm_insert (si_connectionId s) s) (v # vs) cs)
      = map_of (rev (map (\<lambda>v. (toString (oget (toObject v) ''connectionId''), listed_session (toObject v))) vs)
          @ qm_insert (si_connectionId ?s) ?s cs)"
    using Cons by (simp add: Let_def)
  then show ?case by (auto simp: map_add_def listed_session_def Let_def)
qed simp

text \<open>A fact on every handler is a fact on the dispatcher.\<close>

definition plain_handlers :: "jobject \<Rightarrow> hm_action list" where
  "plain_handlers m =
     [hm_handleHelloResponse m, handleConnectResponse m, handleHostReady m, handleAccessCodeChanged m,
      handleNatPolicyChanged m, handleAuthorizationRequest m, hm_handleError m, hm_handleSignalingStateChanged m,
      handleRefreshAccessCodeResponse m, handleDisconnectResponse m, handleSkillMessage m,
      handlePrivacyScreenStateChanged m, handleSetAutoLockOnSessionEndResult m, emit []]"

lemma message_cases:
  obtains (joined) "toString (oget m ''type'') = ''clientConnected''" "hm_onMessageReceived env m = handleClientConnected env m"
  | (left) "toString (oget m ''type'') = ''clientDisconnected''" "hm_onMessageReceived env m = handleClientDisconnected m"
  | (listed) "toString (oget m ''type'') = ''clientListChanged''" "hm_onMessageReceived env m = handleClientListChanged m"
  | (plain) a where "a \<in> set (plain_handlers m)" "hm_onMessageReceived env m = a"
      "toString (oget m ''type'') \<notin> {''clientConnected'', ''clientDisconnected'', ''clientListChanged''}"
proof -
  let ?t = "toString (oget m ''type'')"
  consider "?t = ''clientConnected''" | "?t = ''clientDisconnected''" | "?t = ''clientListChanged''"
    | "?t \<notin> {''clientConnected'', ''clientDisconnected'', ''clientListChanged''}" by blast
  then show thesis
  proof cases
    case 4
    then have "hm_onMessageReceived env m \<in> set (plain_handlers m)"
      by (simp add: hm_onMessageReceived_def plain_handlers_def Let_def)
    with 4 plain show thesis by blast
  qed (use joined left listed in \<open>simp_all add: hm_onMessageReceived_def Let_def\<close>)
qed

lemma secret_frame [simp]:
  "hm_messaging (fst (noteDeviceSecret m hm)) = hm_messaging hm" "hm_clients (fst (noteDeviceSecret m hm)) = hm_clients hm"
  "hm_messaging (fst (noteAutoLock m hm)) = hm_messaging hm" "hm_clients (fst (noteAutoLock m hm)) = hm_clients hm"
  by (simp_all add: noteDeviceSecret_def noteAutoLock_def Let_def)

lemma hello_frame [simp]:
  "hm_messaging (fst (hm_handleHelloResponse m hm)) = hm_messaging hm" "hm_clients (fst (hm_handleHelloResponse m hm)) = hm_clients hm"
  unfolding hm_handleHelloResponse_def Let_def by (rule seq_frame; auto simp: guarded_def)+

lemma plain_frame:
  assumes "a \<in> set (plain_handlers m)"
  shows "hm_messaging (fst (a hm)) = hm_messaging hm" "hm_clients (fst (a hm)) = hm_clients hm"
  using assms unfolding plain_handlers_def
  by (auto simp: handleConnectResponse_def handleNatPolicyChanged_def handleHostReady_def handleAccessCodeChanged_def
      handleAuthorizationRequest_def hm_handleError_def hm_handleSignalingStateChanged_def handleDisconnectResponse_def
      handleRefreshAccessCodeResponse_def handlePrivacyScreenStateChanged_def handleSetAutoLockOnSessionEndResult_def
      handleSkillMessage_def seq_Cons guarded_def Let_def simp del: seq.simps(2))

lemma table_handlers [simp]:
  "fst (handleClientConnected env m hm) = hm\<lparr>hm_clients := qm_insert (message_clientId m) (connected_session m) (hm_clients hm)\<rparr>"
  "fst (handleClientDisconnected m hm) = hm\<lparr>hm_clients := qm_remove (message_clientId m) (hm_clients hm)\<rparr>"
  "fst (handleClientListChanged m hm) = hm\<lparr>hm_clients := fold (\<lambda>value. let session = listed_session (toObject value)
       in qm_insert (si_connectionId session) session) (toArray (oget m ''clients'')) []\<rparr>"
  by (simp_all add: handleClientConnected_def handleClientDisconnected_def handleClientListChanged_def seq_Cons guarded_def
      Let_def del: seq.simps(2))

lemma message_messaging [simp]: "hm_messaging (fst (hm_onMessageReceived env m hm)) = hm_messaging hm"
  by (cases rule: message_cases[of m env]) (simp_all add: plain_frame)

lemma message_clients:
  "map_of (hm_clients (fst (hm_onMessageReceived env m hm))) = clients_after m (map_of (hm_clients hm))"
proof (cases rule: message_cases[of m env])
  case listed
  then show ?thesis using listed_clients[of "toArray (oget m ''clients'')" "[]"] by (simp add: clients_after_def)
qed (simp_all add: plain_frame clients_after_def)

lemma host_simulation: "host_abs (fst (hm_exec i hm)) = spec_step i (host_abs hm)"
proof (cases i)
  case (HM_setMessaging nm)
  then show ?thesis by (cases nm) (simp_all add: host_abs_def hm_setMessaging_def Let_def)
next
  case (HM_disconnect env)
  then show ?thesis
    by (simp add: host_abs_def disconnectFromServer_def hm_ready_def seq_Cons del: seq.simps(2) split: option.split)
qed (simp_all add: host_abs_def message_clients hm_setIceConfig_def hm_onMessagingError_def)

text \<open>
  C23. The manager refines the specification of the client table: after any sequence of calls, messages and
  channel changes the table holds exactly what the specification holds.
\<close>

theorem host_clients_refine_spec:
  "host_abs (fst (hm_run is hm)) = fold spec_step is (host_abs hm)"
  by (induction "is" arbitrary: hm) (simp_all add: hm_run_def for_each_Cons host_simulation)


section \<open>Every session under its own identifier\<close>

definition clients_ok :: "host_manager \<Rightarrow> bool" where
  "clients_ok hm \<longleftrightarrow> sorted_wrt (<) (qm_keys (hm_clients hm))
     \<and> (\<forall>c s. map_of (hm_clients hm) c = Some s \<longrightarrow> si_connectionId s = c)"

lemma clients_after_keyed:
  assumes "\<And>c s. cs c = Some s \<Longrightarrow> si_connectionId s = c" and "clients_after m cs c = Some s"
  shows "si_connectionId s = c"
  using assms(2) unfolding clients_after_def
  by (auto simp: connected_session_def listed_session_def Let_def assms(1) split: if_splits dest!: map_of_SomeD)

lemma spec_step_keyed:
  assumes "\<And>c s. hs_clients h c = Some s \<Longrightarrow> si_connectionId s = c" and "hs_clients (spec_step i h) c = Some s"
  shows "si_connectionId s = c"
proof (cases i)
  case (HM_setMessaging nm)
  then show ?thesis using assms by (cases nm) simp_all
qed (use assms clients_after_keyed[OF assms(1)] in \<open>auto split: if_splits option.splits\<close>)

lemma host_listed_sorted:
  "sorted_wrt (<) (qm_keys cs) \<Longrightarrow>
   sorted_wrt (<) (qm_keys (fold (\<lambda>v. let s = listed_session (toObject v) in qm_insert (si_connectionId s) s) vs cs))"
  by (induction vs arbitrary: cs) (simp_all add: Let_def qm_insert_sorted)

lemma message_sorted:
  assumes "sorted_wrt (<) (qm_keys (hm_clients hm))"
  shows "sorted_wrt (<) (qm_keys (hm_clients (fst (hm_onMessageReceived env m hm))))"
proof (cases rule: message_cases[of m env])
  case listed
  then show ?thesis using host_listed_sorted[of "[]" "toArray (oget m ''clients'')"] by simp
qed (simp_all add: assms plain_frame qm_insert_sorted qm_remove_sorted)

lemma exec_sorted:
  assumes s: "sorted_wrt (<) (qm_keys (hm_clients hm))"
  shows "sorted_wrt (<) (qm_keys (hm_clients (fst (hm_exec i hm))))"
proof (cases i)
  case (HM_setMessaging nm)
  then show ?thesis using s by (simp add: hm_setMessaging_def Let_def)
next
  case (HM_disconnect env)
  then show ?thesis using s by (simp add: disconnectFromServer_def seq_Cons del: seq.simps(2))
qed (use s in \<open>simp_all add: message_sorted hm_setIceConfig_def hm_onMessagingError_def\<close>)

definition hm_step :: "host_manager \<Rightarrow> host_manager \<Rightarrow> bool" where
  "hm_step hm hm' \<longleftrightarrow> (\<exists>i. hm' = fst (hm_exec i hm))"

interpretation host_clients: invariant_system "\<lambda>hm. hm = HostManager_init" hm_step clients_ok
proof unfold_locales
  fix hm hm'
  assume ok: "clients_ok hm" and "hm_step hm hm'"
  then obtain i where i: "hm' = fst (hm_exec i hm)" by (auto simp: hm_step_def)
  have "si_connectionId s = c" if "map_of (hm_clients hm') c = Some s" for c s
    using spec_step_keyed[of "host_abs hm" i c s] ok that host_simulation[of i hm]
    by (simp add: i clients_ok_def host_abs_def) (metis host_spec.select_convs(2))
  then show "clients_ok hm'" using ok exec_sorted[of hm i] by (simp add: clients_ok_def i)
qed (simp add: clients_ok_def HostManager_init_def)

text \<open>
  C24. The table is well formed in every reachable state: the keys are in order and distinct, and each
  session is stored under the identifier it carries, so that the identifiers and sessions the interface
  lists side by side belong together.
\<close>

theorem host_client_table_well_formed:
  assumes "reachable (\<lambda>hm. hm = HostManager_init) hm_step hm"
  shows "map si_connectionId (connectedClients hm) = clientIds hm \<and> distinct (clientIds hm)
    \<and> clientCount hm = card (set (clientIds hm))"
proof -
  have ok: "clients_ok hm" using assms by (rule host_clients.reachable_inv)
  then have d: "distinct (qm_keys (hm_clients hm))" by (simp add: clients_ok_def strict_sorted_distinct)
  have "si_connectionId (snd p) = fst p" if "p \<in> set (hm_clients hm)" for p
    using ok map_of_is_SomeI[OF d, of "fst p" "snd p"] that by (simp add: clients_ok_def)
  then have "map si_connectionId (connectedClients hm) = clientIds hm" by (simp add: connectedClients_def clientIds_def)
  with d show ?thesis using distinct_card[OF d] by (simp add: clientIds_def clientCount_def)
qed


section \<open>Changes are announced\<close>

definition announced :: "host_manager \<Rightarrow> host_manager \<Rightarrow> hm_event list \<Rightarrow> bool" where
  "announced hm hm' ev \<longleftrightarrow>
     (hm_deviceId hm' = hm_deviceId hm \<or> hm_deviceIdChanged \<in> set ev)
     \<and> (hm_accessCode hm' = hm_accessCode hm \<or> hm_accessCodeChanged \<in> set ev)
     \<and> (hm_isConnected hm' = hm_isConnected hm \<or> hm_connectionStatusChanged \<in> set ev)
     \<and> (hm_clients hm' = hm_clients hm \<or> {hm_clientCountChanged, hm_clientListChanged} \<subseteq> set ev)
     \<and> ((hm_signalingState hm' = hm_signalingState hm \<and> hm_signalingRetryCount hm' = hm_signalingRetryCount hm
          \<and> hm_signalingNextRetryIn hm' = hm_signalingNextRetryIn hm \<and> hm_signalingError hm' = hm_signalingError hm)
        \<or> hm_signalingStateChanged \<in> set ev)
     \<and> ((hm_supportsAutoLockOnSessionEnd hm' = hm_supportsAutoLockOnSessionEnd hm
          \<and> hm_autoLockOnSessionEnd hm' = hm_autoLockOnSessionEnd hm) \<or> hm_autoLockOnSessionEndChanged \<in> set ev)"

lemma announced_same [simp]: "announced hm hm ev"
  by (simp add: announced_def)

lemma note_frame [simp]:
  "hm_deviceId (fst (noteDeviceSecret m hm)) = hm_deviceId hm" "hm_deviceId (fst (noteAutoLock m hm)) = hm_deviceId hm"
  "hm_accessCode (fst (noteDeviceSecret m hm)) = hm_accessCode hm" "hm_accessCode (fst (noteAutoLock m hm)) = hm_accessCode hm"
  "hm_isConnected (fst (noteDeviceSecret m hm)) = hm_isConnected hm" "hm_isConnected (fst (noteAutoLock m hm)) = hm_isConnected hm"
  "hm_signalingState (fst (noteDeviceSecret m hm)) = hm_signalingState hm" "hm_signalingState (fst (noteAutoLock m hm)) = hm_signalingState hm"
  "hm_signalingRetryCount (fst (noteDeviceSecret m hm)) = hm_signalingRetryCount hm" "hm_signalingRetryCount (fst (noteAutoLock m hm)) = hm_signalingRetryCount hm"
  "hm_signalingNextRetryIn (fst (noteDeviceSecret m hm)) = hm_signalingNextRetryIn hm" "hm_signalingNextRetryIn (fst (noteAutoLock m hm)) = hm_signalingNextRetryIn hm"
  "hm_signalingError (fst (noteDeviceSecret m hm)) = hm_signalingError hm" "hm_signalingError (fst (noteAutoLock m hm)) = hm_signalingError hm"
  "hm_supportsAutoLockOnSessionEnd (fst (noteDeviceSecret m hm)) = hm_supportsAutoLockOnSessionEnd hm"
  "hm_autoLockOnSessionEnd (fst (noteDeviceSecret m hm)) = hm_autoLockOnSessionEnd hm"
  by (simp_all add: noteDeviceSecret_def noteAutoLock_def Let_def)

lemma guarded_modify_frame:
  "hm_deviceId (fst (guarded b (modify g) hm)) = (if b then hm_deviceId (g hm) else hm_deviceId hm)"
  "hm_accessCode (fst (guarded b (modify g) hm)) = (if b then hm_accessCode (g hm) else hm_accessCode hm)"
  "hm_isConnected (fst (guarded b (modify g) hm)) = (if b then hm_isConnected (g hm) else hm_isConnected hm)"
  "hm_signalingState (fst (guarded b (modify g) hm)) = (if b then hm_signalingState (g hm) else hm_signalingState hm)"
  "hm_signalingRetryCount (fst (guarded b (modify g) hm)) = (if b then hm_signalingRetryCount (g hm) else hm_signalingRetryCount hm)"
  "hm_signalingNextRetryIn (fst (guarded b (modify g) hm)) = (if b then hm_signalingNextRetryIn (g hm) else hm_signalingNextRetryIn hm)"
  "hm_signalingError (fst (guarded b (modify g) hm)) = (if b then hm_signalingError (g hm) else hm_signalingError hm)"
  "hm_supportsAutoLockOnSessionEnd (fst (guarded b (modify g) hm)) = (if b then hm_supportsAutoLockOnSessionEnd (g hm) else hm_supportsAutoLockOnSessionEnd hm)"
  "hm_autoLockOnSessionEnd (fst (guarded b (modify g) hm)) = (if b then hm_autoLockOnSessionEnd (g hm) else hm_autoLockOnSessionEnd hm)"
  "hm_clients (fst (guarded b (modify g) hm)) = (if b then hm_clients (g hm) else hm_clients hm)"
  by (simp_all add: guarded_def)

lemma autoLock_announced:
  "(hm_supportsAutoLockOnSessionEnd (fst (noteAutoLock m hm)) = hm_supportsAutoLockOnSessionEnd hm
     \<and> hm_autoLockOnSessionEnd (fst (noteAutoLock m hm)) = hm_autoLockOnSessionEnd hm)
   \<or> hm_autoLockOnSessionEndChanged \<in> set (snd (noteAutoLock m hm))"
  by (simp add: noteAutoLock_def Let_def)

lemma guarded_emit [simp]: "fst (guarded b (emit evs) hm) = hm" "snd (guarded b (emit evs) hm) = (if b then evs else [])"
  by (simp_all add: guarded_def)

lemma hello_announced: "announced hm (fst (hm_handleHelloResponse m hm)) (snd (hm_handleHelloResponse m hm))"
proof -
  define hm3 where "hm3 = fst (noteDeviceSecret m (fst (guarded (either_key m ''access_code'' ''accessCode'' \<noteq> []
      \<and> either_key m ''access_code'' ''accessCode'' \<noteq> hm_accessCode hm)
      (modify (\<lambda>hm. hm\<lparr>hm_accessCode := either_key m ''access_code'' ''accessCode''\<rparr>) :: hm_action)
      (fst (guarded (either_key m ''device_id'' ''deviceId'' \<noteq> [] \<and> either_key m ''device_id'' ''deviceId'' \<noteq> hm_deviceId hm)
      (modify (\<lambda>hm. hm\<lparr>hm_deviceId := either_key m ''device_id'' ''deviceId''\<rparr>) :: hm_action) hm)))))"
  have al: "hm_supportsAutoLockOnSessionEnd hm3 = hm_supportsAutoLockOnSessionEnd hm"
    "hm_autoLockOnSessionEnd hm3 = hm_autoLockOnSessionEnd hm"
    by (simp_all add: hm3_def guarded_modify_frame)
  have f: "fst (hm_handleHelloResponse m hm) = fst (noteAutoLock m hm3)"
    and e: "set (snd (noteAutoLock m hm3)) \<subseteq> set (snd (hm_handleHelloResponse m hm))"
    unfolding hm_handleHelloResponse_def Let_def seq_Cons hm3_def by auto
  have "hm_deviceId hm3 = hm_deviceId hm \<or> hm_deviceIdChanged \<in> set (snd (hm_handleHelloResponse m hm))"
    "hm_accessCode hm3 = hm_accessCode hm \<or> hm_accessCodeChanged \<in> set (snd (hm_handleHelloResponse m hm))"
    unfolding hm_handleHelloResponse_def Let_def seq_Cons hm3_def by (simp_all add: guarded_modify_frame)
  moreover have "hm_isConnected hm3 = hm_isConnected hm" "hm_clients hm3 = hm_clients hm"
    "hm_signalingState hm3 = hm_signalingState hm" "hm_signalingRetryCount hm3 = hm_signalingRetryCount hm"
    "hm_signalingNextRetryIn hm3 = hm_signalingNextRetryIn hm" "hm_signalingError hm3 = hm_signalingError hm"
    by (simp_all add: hm3_def guarded_modify_frame)
  ultimately show ?thesis using autoLock_announced[of m hm3] e unfolding announced_def f al by auto
qed

lemma ready_announced: "announced hm (fst (handleHostReady m hm)) (snd (handleHostReady m hm))"
  unfolding handleHostReady_def Let_def seq_Cons announced_def by simp

lemma code_announced:
  "announced hm (fst (handleAccessCodeChanged m hm)) (snd (handleAccessCodeChanged m hm))"
  "announced hm (fst (handleRefreshAccessCodeResponse m hm)) (snd (handleRefreshAccessCodeResponse m hm))"
  by (simp_all add: handleAccessCodeChanged_def handleRefreshAccessCodeResponse_def Let_def guarded_def seq_Cons announced_def
      del: seq.simps(2))

lemma signaling_announced:
  "announced hm (fst (hm_handleSignalingStateChanged m hm)) (snd (hm_handleSignalingStateChanged m hm))"
  unfolding hm_handleSignalingStateChanged_def Let_def announced_def by auto

lemma setting_announced:
  "announced hm (fst (handleSetAutoLockOnSessionEndResult m hm)) (snd (handleSetAutoLockOnSessionEndResult m hm))"
  unfolding handleSetAutoLockOnSessionEndResult_def Let_def announced_def by simp

lemma silent_handlers [simp]:
  "fst (handleConnectResponse m hm) = hm" "fst (handleNatPolicyChanged m hm) = hm" "fst (handleAuthorizationRequest m hm) = hm"
  "fst (hm_handleError m hm) = hm" "fst (handleDisconnectResponse m hm) = hm" "fst (handlePrivacyScreenStateChanged m hm) = hm"
  "fst (handleSkillMessage m hm) = hm"
  by (simp_all add: handleConnectResponse_def handleNatPolicyChanged_def handleAuthorizationRequest_def hm_handleError_def
      handleDisconnectResponse_def handlePrivacyScreenStateChanged_def handleSkillMessage_def Let_def)

lemma plain_announced: "a \<in> set (plain_handlers m) \<Longrightarrow> announced hm (fst (a hm)) (snd (a hm))"
  unfolding plain_handlers_def
  by (auto simp: hello_announced ready_announced code_announced signaling_announced setting_announced)

lemma message_announced: "announced hm (fst (hm_onMessageReceived env m hm)) (snd (hm_onMessageReceived env m hm))"
proof (cases rule: message_cases[of m env])
  case (plain a)
  then show ?thesis by (simp add: plain_announced)
next
  case joined
  then show ?thesis unfolding joined(2) table_handlers
    by (auto simp: announced_def handleClientConnected_def seq_Cons Let_def simp del: seq.simps(2))
next
  case left
  then show ?thesis unfolding left(2) table_handlers
    by (auto simp: announced_def handleClientDisconnected_def seq_Cons Let_def simp del: seq.simps(2))
next
  case listed
  then show ?thesis unfolding listed(2) table_handlers
    by (auto simp: announced_def handleClientListChanged_def seq_Cons simp del: seq.simps(2))
qed

text \<open>
  Every property of the class the user interface binds to has a signal. Whatever happens, a property whose
  value a call or message changes has had its signal emitted before the call returns, so no binding shows a
  stale value: identity, access code, connection status, client list and count, the signalling state and the
  auto-lock settings.
\<close>

theorem host_changes_announced: "announced hm (fst (hm_exec i hm)) (snd (hm_exec i hm))"
proof (cases i)
  case (HM_setMessaging nm)
  then show ?thesis by (auto simp: announced_def hm_setMessaging_def Let_def)
next
  case (HM_disconnect env)
  then show ?thesis by (auto simp: announced_def disconnectFromServer_def seq_Cons simp del: seq.simps(2))
next
  case (HM_channel nm)
  then show ?thesis by (simp add: announced_def)
next
  case (HM_setIceConfig c)
  then show ?thesis by (simp add: announced_def hm_setIceConfig_def)
qed (simp_all add: message_announced hm_onMessagingError_def)


section \<open>After the host process\<close>

definition cleared :: "host_manager \<Rightarrow> bool" where
  "cleared hm \<longleftrightarrow> hm = HostManager_init\<lparr>hm_iceConfig := hm_iceConfig hm\<rparr>"

definition keeps_channel_out :: "hm_input \<Rightarrow> bool" where
  "keeps_channel_out i \<longleftrightarrow> (case i of HM_setMessaging (Some nm) \<Rightarrow> False | _ \<Rightarrow> True)"

lemma cleared_ready: "cleared hm \<Longrightarrow> hm_messaging hm = None \<and> \<not> hm_ready hm"
  unfolding cleared_def by (metis HostManager_init_def hm_ready_def host_manager.select_convs(1) host_manager.update_convs(13)
      option.simps(4))

lemma stopped_cleared: "cleared (fst (hm_setMessaging None hm))"
  by (cases hm) (simp add: cleared_def hm_setMessaging_def HostManager_init_def Let_def)

definition harmless :: "hm_event \<Rightarrow> bool" where
  "harmless e \<longleftrightarrow> e \<in> {hm_deviceIdChanged, hm_accessCodeChanged, hm_connectionStatusChanged, hm_signalingStateChanged,
     hm_autoLockOnSessionEndChanged, hm_errorOccurred ''NOT_READY'' ''Host process is not ready'',
     hm_errorOccurred ''AUTO_LOCK_UNSUPPORTED'' ''Automatic lock on session end is not supported by this host'',
     hm_refreshAccessCodeResult False ''NOT_READY'' ''Host process not ready''}"

lemma cleared_exec:
  assumes "cleared hm" and "keeps_channel_out i"
  shows "cleared (fst (hm_exec i hm)) \<and> list_all harmless (snd (hm_exec i hm))"
proof (cases i)
  case (HM_setMessaging nm)
  with assms have nm: "nm = None" by (auto simp: keeps_channel_out_def split: option.splits)
  have "hm_clients hm = []" using assms(1) unfolding cleared_def by (metis HostManager_init_def host_manager.select_convs(6)
      host_manager.update_convs(13))
  then have "list_all harmless (snd (hm_setMessaging None hm))" by (simp add: hm_setMessaging_def harmless_def Let_def)
  then show ?thesis using stopped_cleared by (simp add: HM_setMessaging nm)
next
  case (HM_setIceConfig c)
  have "cleared (hm\<lparr>hm_iceConfig := c\<rparr>)"
    using assms(1) unfolding cleared_def by (metis (no_types, lifting) host_manager.select_convs(13) host_manager.surjective
        host_manager.update_convs(13))
  then show ?thesis by (simp add: HM_setIceConfig hm_setIceConfig_def)
qed (use assms(1) cleared_ready[OF assms(1)] in \<open>simp_all add: connectToServer_def disconnectFromServer_def hm_sendHello_def
      authorizeClient_def kickClient_def refreshAccessCode_def sendSkillBridgeSend_def hm_togglePrivacyScreen_def
      setAutoLockOnSessionEnd_def hm_not_ready_def harmless_def\<close>)

lemma cleared_run:
  "cleared hm \<Longrightarrow> list_all keeps_channel_out is \<Longrightarrow>
   cleared (fst (hm_run is hm)) \<and> list_all harmless (snd (hm_run is hm))"
  unfolding hm_run_def
proof (induction "is" arbitrary: hm)
  case (Cons i "is")
  then show ?case using cleared_exec[of hm i] Cons.IH[of "fst (hm_exec i hm)"] by (simp add: for_each_Cons)
qed simp

text \<open>
  When the host process goes, its session goes with it: once the channel is taken away, whatever is called
  until a new channel is set, the manager is as new except for the relay configuration. No device
  identifier, access code, secret of the device or client remains, nothing is sent, and the only
  signals are change notices and refusals.
\<close>

theorem stopped_host_leaves_nothing:
  assumes "list_all keeps_channel_out is"
  shows "cleared (fst (hm_run is (fst (hm_setMessaging None hm))))
    \<and> list_all harmless (snd (hm_run is (fst (hm_setMessaging None hm))))"
  by (rule cleared_run[OF stopped_cleared assms])


section \<open>The secret of the device\<close>

fun secret_of :: "hm_event \<Rightarrow> qstring list" where
  "secret_of (hm_deviceSecretReady s) = [s]"
| "secret_of _ = []"

definition secrets :: "hm_event list \<Rightarrow> qstring list" where
  "secrets ev = concat (map secret_of ev)"

lemma secrets_simps [simp]:
  "secrets [] = []" "secrets (e # ev) = secret_of e @ secrets ev" "secrets (ev @ ev') = secrets ev @ secrets ev'"
  by (simp_all add: secrets_def)

text \<open>A statement that neither stores nor announces a secret, and one that may take the secret of a message.\<close>

definition no_secret :: "hm_action \<Rightarrow> bool" where
  "no_secret a \<longleftrightarrow> (\<forall>hm. hm_deviceSecret (fst (a hm)) = hm_deviceSecret hm \<and> secrets (snd (a hm)) = [])"

definition takes_secret :: "qstring \<Rightarrow> hm_action \<Rightarrow> bool" where
  "takes_secret s a \<longleftrightarrow> (\<forall>hm. if s \<noteq> [] \<and> s \<noteq> hm_deviceSecret hm
     then hm_deviceSecret (fst (a hm)) = s \<and> secrets (snd (a hm)) = [s]
     else hm_deviceSecret (fst (a hm)) = hm_deviceSecret hm \<and> secrets (snd (a hm)) = [])"

lemma no_secret_seq: "(\<And>a. a \<in> set as \<Longrightarrow> no_secret a) \<Longrightarrow> no_secret (seq as)"
  by (induction as) (simp_all add: no_secret_def seq_Cons del: seq.simps(2))

lemma takes_here: "takes_secret s a \<Longrightarrow> no_secret (seq bs) \<Longrightarrow> takes_secret s (seq (a # bs))"
  by (simp add: takes_secret_def no_secret_def seq_Cons del: seq.simps(2))

lemma takes_later: "no_secret a \<Longrightarrow> takes_secret s (seq bs) \<Longrightarrow> takes_secret s (seq (a # bs))"
  by (simp add: takes_secret_def no_secret_def seq_Cons del: seq.simps(2))

lemma takes_pointwise: "(\<And>h. takes_secret s (f h)) \<Longrightarrow> takes_secret s (\<lambda>hm. f hm hm)"
  unfolding takes_secret_def by blast

lemma no_secret_simps [simp]:
  "no_secret (guarded b a)" if "no_secret a" for b a
  using that by (simp add: no_secret_def guarded_def)

lemma no_secret_emit [simp]: "secrets evs = [] \<Longrightarrow> no_secret (emit evs)"
  by (simp add: no_secret_def)

lemma no_secret_modify [simp]: "(\<And>hm. hm_deviceSecret (f hm) = hm_deviceSecret hm) \<Longrightarrow> no_secret (modify f)"
  by (simp add: no_secret_def)

lemma takes_note: "takes_secret (toString (oget m ''device_secret'')) (noteDeviceSecret m)"
  by (simp add: takes_secret_def noteDeviceSecret_def Let_def)

lemma no_secret_autoLock [simp]: "no_secret (noteAutoLock m)"
  by (simp add: no_secret_def noteAutoLock_def Let_def)

lemma takes_ready: "takes_secret (toString (oget m ''device_secret'')) (handleHostReady m)"
  unfolding handleHostReady_def Let_def
  by (intro takes_later takes_here takes_note no_secret_seq no_secret_modify) auto

lemma takes_hello: "takes_secret (toString (oget m ''device_secret'')) (hm_handleHelloResponse m)"
  unfolding hm_handleHelloResponse_def Let_def
  by (rule takes_pointwise, rule takes_later, simp, rule takes_later, simp, rule takes_later, simp)
    (rule takes_here[OF takes_note no_secret_seq], auto)

lemma no_secret_send: "no_secret (hm_send env m)"
proof -
  have "no_secret (hm_channel_signal m e)" for e
    by (cases e) (simp_all add: hm_onMessagingError_def)
  then have "no_secret (for_each (hm_channel_signal m) es)" for es
    unfolding for_each_def by (intro no_secret_seq) auto
  then show ?thesis by (simp add: no_secret_def hm_send_def split: option.split)
qed

lemma send_secrets [simp]: "secrets (snd (hm_send env m hm)) = []"
  using no_secret_send[of env m] unfolding no_secret_def by blast

lemma request_secrets [simp]:
  "secrets (snd (connectToServer env url code hm)) = []" "secrets (snd (hm_sendHello env hm)) = []"
  "secrets (snd (authorizeClient env c a hm)) = []" "secrets (snd (kickClient env c hm)) = []"
  "secrets (snd (refreshAccessCode env hm)) = []" "secrets (snd (sendSkillBridgeSend env d hm)) = []"
  "secrets (snd (hm_togglePrivacyScreen env b hm)) = []" "secrets (snd (setAutoLockOnSessionEnd env b hm)) = []"
  by (simp_all add: connectToServer_def hm_sendHello_def authorizeClient_def kickClient_def refreshAccessCode_def
      sendSkillBridgeSend_def hm_togglePrivacyScreen_def setAutoLockOnSessionEnd_def hm_not_ready_def)

lemma no_secret_table:
  "no_secret (handleClientConnected env m)" "no_secret (handleClientDisconnected m)" "no_secret (handleClientListChanged m)"
  by (simp_all add: no_secret_def handleClientConnected_def handleClientDisconnected_def handleClientListChanged_def
      seq_Cons guarded_def Let_def del: seq.simps(2))

lemma no_secret_plain:
  "no_secret (handleAccessCodeChanged m)" "no_secret (hm_handleSignalingStateChanged m)"
  "no_secret (handleRefreshAccessCodeResponse m)" "no_secret (handleSetAutoLockOnSessionEndResult m)"
  "no_secret (handleConnectResponse m)" "no_secret (handleNatPolicyChanged m)" "no_secret (handleAuthorizationRequest m)"
  "no_secret (hm_handleError m)" "no_secret (handleDisconnectResponse m)" "no_secret (handlePrivacyScreenStateChanged m)"
  "no_secret (handleSkillMessage m)"
  by (simp_all add: no_secret_def handleAccessCodeChanged_def hm_handleSignalingStateChanged_def guarded_def
      handleRefreshAccessCodeResponse_def handleSetAutoLockOnSessionEndResult_def handleConnectResponse_def
      handleNatPolicyChanged_def handleAuthorizationRequest_def hm_handleError_def handleDisconnectResponse_def
      handlePrivacyScreenStateChanged_def handleSkillMessage_def seq_Cons Let_def del: seq.simps(2))

text \<open>What one input does to the secret.\<close>

definition secret_kept :: "qstring \<Rightarrow> host_manager \<Rightarrow> host_manager \<Rightarrow> hm_event list \<Rightarrow> bool" where
  "secret_kept s hm hm' ev \<longleftrightarrow> hm_deviceSecret hm' = hm_deviceSecret hm \<and> secrets ev = []
     \<or> s \<noteq> hm_deviceSecret hm \<and> hm_deviceSecret hm' = s \<and> secrets ev = [s]"

lemma message_secret:
  "secret_kept (toString (oget m ''device_secret'')) hm (fst (hm_onMessageReceived env m hm)) (snd (hm_onMessageReceived env m hm))
   \<and> (toString (oget m ''device_secret'') = [] \<longrightarrow> secrets (snd (hm_onMessageReceived env m hm)) = [])"
proof -
  have t: "takes_secret s a \<Longrightarrow> secret_kept s hm (fst (a hm)) (snd (a hm)) \<and> (s = [] \<longrightarrow> secrets (snd (a hm)) = [])" for s a
    unfolding takes_secret_def secret_kept_def by metis
  have n: "no_secret a \<Longrightarrow> secret_kept s hm (fst (a hm)) (snd (a hm)) \<and> (s = [] \<longrightarrow> secrets (snd (a hm)) = [])" for s a
    unfolding no_secret_def secret_kept_def by blast
  show ?thesis
  proof (cases rule: message_cases[of m env])
    case (plain a)
    have "a \<in> {hm_handleHelloResponse m, handleHostReady m} \<or> no_secret a"
      using plain(1) unfolding plain_handlers_def by (auto simp: no_secret_plain)
    then show ?thesis unfolding plain(2) using t[OF takes_hello] t[OF takes_ready] n by blast
  qed (simp_all add: n no_secret_table del: table_handlers)
qed

text \<open>Inputs during one life of the host process whose messages carry no secret but \<open>s\<close>.\<close>

definition one_secret :: "qstring \<Rightarrow> hm_input \<Rightarrow> bool" where
  "one_secret s i \<longleftrightarrow> (case i of HM_setMessaging nm \<Rightarrow> nm \<noteq> None
     | HM_message env m \<Rightarrow> toString (oget m ''device_secret'') \<in> {[], s} | _ \<Rightarrow> True)"

lemma exec_secret:
  assumes "one_secret s i"
  shows "secret_kept s hm (fst (hm_exec i hm)) (snd (hm_exec i hm))"
proof (cases i)
  case (HM_message env m)
  then have m: "toString (oget m ''device_secret'') = [] \<or> toString (oget m ''device_secret'') = s"
    using assms by (auto simp: one_secret_def)
  have "secret_kept s hm (fst (hm_onMessageReceived env m hm)) (snd (hm_onMessageReceived env m hm))"
    using message_secret[of m hm env] m by (auto simp: secret_kept_def)
  then show ?thesis by (simp add: HM_message secret_kept_def)
qed (use assms in \<open>simp_all add: one_secret_def secret_kept_def hm_setMessaging_def disconnectFromServer_def hm_setIceConfig_def
      hm_onMessagingError_def seq_Cons del: seq.simps(2)\<close>)

lemma run_secret:
  assumes "list_all (one_secret s) is" and "hm_deviceSecret hm \<in> {[], s}" and "s \<noteq> []"
  shows "secrets (snd (hm_run is hm)) = (if hm_deviceSecret (fst (hm_run is hm)) = hm_deviceSecret hm then [] else [s])
    \<and> hm_deviceSecret (fst (hm_run is hm)) \<in> {hm_deviceSecret hm, s}"
  using assms(1,2) unfolding hm_run_def
proof (induction "is" arbitrary: hm)
  case (Cons i "is")
  have "secret_kept s hm (fst (hm_exec i hm)) (snd (hm_exec i hm))" using Cons.prems exec_secret by simp
  then show ?case
    using Cons.IH[of "fst (hm_exec i hm)"] Cons.prems assms(3) by (auto simp: for_each_Cons secret_kept_def split: if_splits)
qed simp

text \<open>
  The secret of the device is announced once per life of the host process: from a state without a secret, over any
  sequence of calls and messages in which the process reports no other secret than \<open>s\<close>, however often, the
  signal \<open>deviceSecretReady\<close> is emitted exactly once if the secret was learnt and not at all otherwise.
\<close>

theorem secret_announced_once:
  assumes "list_all (one_secret s) is" and "hm_deviceSecret hm = []" and "s \<noteq> []"
  shows "secrets (snd (hm_run is hm)) = (if hm_deviceSecret (fst (hm_run is hm)) = [] then [] else [s])"
  using run_secret[OF assms(1) _ assms(3), of hm] assms(2) by simp


section \<open>Runs\<close>

definition demo_host_env :: host_env where
  "demo_host_env = \<lparr>he_toJson = (\<lambda>_. []), he_write = (\<lambda>_. 4), he_applicationVersion = ''1.0'', he_apiKey = [],
     he_onWindows = False, he_autoPrivacyScreenOnConnect = True\<rparr>"

definition demo_host_channel :: native_messaging where
  "demo_host_channel = \<lparr>nm_process = Some PRunning, nm_readSocket = None, nm_writeSocket = None, nm_buffer = []\<rparr>"

definition demo_host_inputs :: "hm_input list" where
  "demo_host_inputs =
     [HM_setMessaging (Some demo_host_channel),
      HM_message demo_host_env [(''device_id'', JStr ''dev''), (''device_secret'', JStr ''s3''), (''type'', JStr ''helloResponse'')],
      HM_message demo_host_env [(''deviceId'', JStr ''dev''), (''device_secret'', JStr ''s3''), (''type'', JStr ''hostReady'')],
      HM_message demo_host_env [(''clientId'', JStr ''c1''), (''clientUsername'', JStr ''ann''), (''type'', JStr ''clientConnected'')]]"

definition demo_host :: host_manager where
  "demo_host = fst (hm_run demo_host_inputs HostManager_init)"

lemma hm_run_reachable:
  "reachable (\<lambda>hm. hm = HostManager_init) hm_step hm \<Longrightarrow>
   reachable (\<lambda>hm. hm = HostManager_init) hm_step (fst (hm_run is hm))"
  unfolding hm_run_def
proof (induction "is" arbitrary: hm)
  case (Cons i "is")
  have "hm_step hm (fst (hm_exec i hm))" by (auto simp: hm_step_def)
  with Cons show ?case by (simp add: for_each_Cons reach_step)
qed simp

theorem host_client_table_well_formed_witness:
  "map si_connectionId (connectedClients demo_host) = [''c1''] \<and> clientCount demo_host = 1"
proof -
  have "clientIds demo_host = [''c1'']" by code_simp
  then show ?thesis
    using host_client_table_well_formed[OF hm_run_reachable[OF reach_init[of _ HostManager_init]], of demo_host_inputs]
    by (simp add: demo_host_def)
qed

theorem stopped_host_leaves_nothing_witness:
  "cleared (fst (hm_run [HM_kick demo_host_env ''c1'', HM_message demo_host_env []] (fst (hm_setMessaging None demo_host))))"
  using stopped_host_leaves_nothing[of "[HM_kick demo_host_env ''c1'', HM_message demo_host_env []]" demo_host]
  by (simp add: keeps_channel_out_def)

theorem secret_announced_once_witness:
  "secrets (snd (hm_run demo_host_inputs HostManager_init)) = [''s3'']"
proof -
  have "list_all (one_secret ''s3'') demo_host_inputs" "hm_deviceSecret (fst (hm_run demo_host_inputs HostManager_init)) = ''s3''"
    by code_simp+
  then show ?thesis
    using secret_announced_once[of "''s3''" demo_host_inputs HostManager_init] by (simp add: HostManager_init_def)
qed

end
