(* ===== verification/ApiProperties.thy ===== *)
theory ApiProperties
  imports ApiHandler ClientProperties HostProperties WebSocketSafety
begin

text \<open>
  What the methods of the API do to the rest of the program: the methods a read-only client may call act
  on nothing, a shortcut is typed completely or not at all, \<open>clickText\<close> clicks where \<open>assertTextPresent\<close>
  finds the text, and where the list of dangerous operations can be evaded.
\<close>


section \<open>Read-only methods\<close>

definition same_handle :: "shm_handle option \<Rightarrow> shm_handle option \<Rightarrow> bool" where
  "same_handle a b \<longleftrightarrow> map_option (\<lambda>h. h\<lparr>sh_lastFrameIndex := 0\<rparr>) a = map_option (\<lambda>h. h\<lparr>sh_lastFrameIndex := 0\<rparr>) b"

lemma same_handle_refl [simp]: "same_handle a a"
  by (simp add: same_handle_def)

lemma read_same_handle: "same_handle (map_of (fst (readVideoFrame mem d m)) d') (map_of m d')"
  by (simp add: readVideoFrame_def Let_def same_handle_def split: option.split)

text \<open>A handler that only looks: the state is kept except for the frame counters, nothing is signalled, an answer is given.\<close>

definition looks :: "api_handler \<Rightarrow> bool" where
  "looks h \<longleftrightarrow> (\<forall>env params st. \<exists>m r. h env params st = (st\<lparr>ah_client := (ah_client st)\<lparr>cm_sharedMemory := m\<rparr>\<rparr>, [], Some r)
     \<and> (\<forall>d. same_handle (map_of m d) (map_of (cm_sharedMemory (ah_client st)) d)))"

lemma looks_unchanged:
  assumes "\<And>env params st. \<exists>r. h env params st = (st, [], Some r)"
  shows "looks h"
  unfolding looks_def
proof (intro allI)
  fix env params and st :: api
  obtain r where "h env params st = (st, [], Some r)" using assms by blast
  then show "\<exists>m r. h env params st = (st\<lparr>ah_client := (ah_client st)\<lparr>cm_sharedMemory := m\<rparr>\<rparr>, [], Some r)
     \<and> (\<forall>d. same_handle (map_of m d) (map_of (cm_sharedMemory (ah_client st)) d))"
    by (intro exI[of _ "cm_sharedMemory (ah_client st)"] exI[of _ r]) simp
qed

lemma looks_screenshot: "looks handleScreenshot"
  unfolding looks_def
proof (intro allI)
  fix env params and st :: api
  let ?d = "toString (oget params ''deviceId'')" and ?m0 = "cm_sharedMemory (ah_client st)"
  show "\<exists>m r. handleScreenshot env params st = (st\<lparr>ah_client := (ah_client st)\<lparr>cm_sharedMemory := m\<rparr>\<rparr>, [], Some r)
     \<and> (\<forall>d. same_handle (map_of m d) (map_of ?m0 d))"
  proof (cases "?d = [] \<or> \<not> shm_isAttached ?d ?m0")
    case True
    then have "\<exists>r. handleScreenshot env params st = (st, [], Some r)"
      by (auto simp: handleScreenshot_def withDevice_def missing_def Let_def)
    then obtain r where "handleScreenshot env params st = (st, [], Some r)" by blast
    then show ?thesis by (intro exI[of _ ?m0] exI[of _ r]) simp
  next
    case False
    obtain m r where mr: "readVideoFrame (ae_memory env) ?d ?m0 = (m, r)" by fastforce
    have "\<exists>x. handleScreenshot env params st = (st\<lparr>ah_client := (ah_client st)\<lparr>cm_sharedMemory := m\<rparr>\<rparr>, [], Some x)"
      using False mr by (auto simp: handleScreenshot_def withDevice_def Let_def split: read_result.split option.split)
    moreover have "same_handle (map_of m d) (map_of ?m0 d)" for d using read_same_handle[of "ae_memory env" ?d ?m0 d] mr by simp
    ultimately show ?thesis by blast
  qed
qed

lemma looks_getters:
  "looks handleGetHostInfo" "looks handleGetHostClients" "looks handleGetStatus" "looks handleGetSignalingStatus"
  "looks handleListConnections" "looks handleGetConnectionInfo" "looks handleGetScreenSize" "looks handleGetClipboard"
  by (rule looks_unchanged; simp add: handleGetHostInfo_def handleGetHostClients_def handleGetStatus_def
      handleGetSignalingStatus_def handleListConnections_def handleGetConnectionInfo_def handleGetScreenSize_def
      handleGetClipboard_def withDevice_def missing_def device_not_found_def Let_def)+

lemma looks_error: "looks (\<lambda>env params st. (st, [], Some r))"
  by (rule looks_unchanged) simp

lemma read_only_lookup:
  "map_of registerHandlers ''getHostInfo'' = Some handleGetHostInfo"
  "map_of registerHandlers ''getHostClients'' = Some handleGetHostClients"
  "map_of registerHandlers ''getStatus'' = Some handleGetStatus"
  "map_of registerHandlers ''getSignalingStatus'' = Some handleGetSignalingStatus"
  "map_of registerHandlers ''listConnections'' = Some handleListConnections"
  "map_of registerHandlers ''getConnectionInfo'' = Some handleGetConnectionInfo"
  "map_of registerHandlers ''screenshot'' = Some handleScreenshot"
  "map_of registerHandlers ''getScreenSize'' = Some handleGetScreenSize"
  "map_of registerHandlers ''getClipboard'' = Some handleGetClipboard"
  "map_of registerHandlers ''auth'' = None"
  by (simp_all add: registerHandlers_def)

text \<open>
  C26. A client that holds only the read-only token cannot act: every method its level allows leaves the
  connections, the host, the transfers, the caches and the confirmations as they are, sends no
  message to any process and signals nothing; only the counter of the last frame read may change.
\<close>

theorem read_only_methods_only_look:
  assumes "isMethodAllowedForPermission (toString (oget request ''method'')) ReadOnly sm"
    and "sm_readOnlyMethods sm = sm_readOnlyMethods SecurityManager_init"
  shows "\<exists>m r. handleRequest env request st = (st\<lparr>ah_client := (ah_client st)\<lparr>cm_sharedMemory := m\<rparr>\<rparr>, [], Some r)
    \<and> (\<forall>d. same_handle (map_of m d) (map_of (cm_sharedMemory (ah_client st)) d))"
proof -
  let ?m = "toString (oget request ''method'')"
  have "?m \<in> set readOnlyMethods" using assms by (simp add: isMethodAllowedForPermission_def SecurityManager_init_def)
  then have "?m \<noteq> []" and h: "(\<exists>h. map_of registerHandlers ?m = Some h \<and> looks h) \<or> map_of registerHandlers ?m = None"
    unfolding readOnlyMethods_def using read_only_lookup looks_getters looks_screenshot by auto
  from h show ?thesis
  proof
    assume "\<exists>h. map_of registerHandlers ?m = Some h \<and> looks h"
    then obtain h where h: "map_of registerHandlers ?m = Some h" "looks h" by blast
    then have "handleRequest env request st = h env (toObject (oget request ''params'')) st"
      using \<open>?m \<noteq> []\<close> by (simp add: handleRequest_def Let_def)
    with h(2) show ?thesis unfolding looks_def by metis
  next
    assume "map_of registerHandlers ?m = None"
    then have "handleRequest env request st = (st, [], Some (makeError (-32601) (''Unknown method: '' @ ?m)))"
      using \<open>?m \<noteq> []\<close> by (simp add: handleRequest_def Let_def)
    with looks_error[of "makeError (-32601) (''Unknown method: '' @ ?m)"] show ?thesis unfolding looks_def by metis
  qed
qed

definition demo_api :: api where
  "demo_api = \<lparr>ah_client = demo_state 5, ah_host = HostManager_init, ah_clipboardCache = [], ah_ocr = OcrCache_init,
     ah_skill = SkillHandler_init, ah_trust = TrustHandler_init\<rparr>"

definition demo_api_env :: api_env where
  "demo_api_env = \<lparr>ae_client = ClientProperties.demo_env\<lparr>ce_write := \<lambda>bytes. int (length bytes)\<rparr>, ae_host = demo_host_env,
     ae_hostProcessStatus = Running, ae_clientProcessStatus = Running, ae_serverUrl = ''wss://s'',
     ae_nextAccessCodeRefreshTime = ''Never'', ae_memory = None, ae_toImage = (\<lambda>_. demo_image 1),
     ae_scaledToWidth = (\<lambda>i w. i), ae_scaledToHeight = (\<lambda>i h. i), ae_encode = (\<lambda>i f q. Some []), ae_base64 = (\<lambda>_. []),
     ae_lib = ok_lib, ae_obs = (\<lambda>k. demo_ob 1), ae_toJson = (\<lambda>_. []), ae_confirmMode = None\<rparr>"

theorem read_only_methods_only_look_witness:
  "\<exists>m r. handleRequest demo_api_env [(''method'', JStr ''getStatus'')] demo_api
     = (demo_api\<lparr>ah_client := (ah_client demo_api)\<lparr>cm_sharedMemory := m\<rparr>\<rparr>, [], Some r)"
  using read_only_methods_only_look[of "[(''method'', JStr ''getStatus'')]" SecurityManager_init demo_api_env demo_api]
  by (auto simp: oget_def isMethodAllowedForPermission_def SecurityManager_init_def readOnlyMethods_def)

text \<open>What looking includes: the access code of this device is part of the status a read-only client gets.\<close>

theorem read_only_gets_access_code:
  "isMethodAllowedForPermission ''getHostInfo'' ReadOnly SecurityManager_init
   \<and> (\<exists>r. handleRequest env [(''method'', JStr ''getHostInfo'')] st = (st, [], Some r)
       \<and> toString (oget (toObject (oget r ''result'')) ''accessCode'') = hm_accessCode (ah_host st))"
proof
  show "isMethodAllowedForPermission ''getHostInfo'' ReadOnly SecurityManager_init"
    by (simp add: isMethodAllowedForPermission_def SecurityManager_init_def readOnlyMethods_def)
  show "\<exists>r. handleRequest env [(''method'', JStr ''getHostInfo'')] st = (st, [], Some r)
       \<and> toString (oget (toObject (oget r ''result'')) ''accessCode'') = hm_accessCode (ah_host st)"
    unfolding handleRequest_def
    by (simp add: oget_def[of "[_]"] read_only_lookup handleGetHostInfo_def makeResult_def Let_def)
      (simp add: oget_mkobj)
qed


section \<open>Commands over a working channel\<close>

definition channel_ok :: "client_env \<Rightarrow> client_manager \<Rightarrow> bool" where
  "channel_ok env cm \<longleftrightarrow> (\<exists>nm. cm_messaging cm = Some nm \<and> nm_process nm = Some PRunning)
     \<and> (\<forall>bytes. ce_write env bytes = int (length bytes))"

lemma send_ok: "channel_ok env cm \<Longrightarrow> send env m cm = (cm, [cm_sent m])"
  by (auto simp: channel_ok_def send_def sendMessage_def for_each_def emit_def Let_def)

lemma command_ok:
  assumes "channel_ok env cm" "connectionIdFor d cm \<noteq> []"
  shows "command env d type flds cm = (cm, [cm_sent (mkobj ([(''type'', JStr type), (''connectionId'', JStr (connectionIdFor d cm))] @ flds))])"
proof -
  have "cm_ready cm" using assms(1) by (auto simp: channel_ok_def cm_ready_def isReady_def)
  then show ?thesis using assms by (simp add: command_def send_ok Let_def)
qed

lemma seq_same:
  "(\<And>a. a \<in> set as \<Longrightarrow> \<exists>e. a cm = (cm, e)) \<Longrightarrow> seq as cm = (cm, concat (map (\<lambda>a. snd (a cm)) as))"
proof (induction as)
  case (Cons a as)
  then obtain e where "a cm = (cm, e)" by auto
  with Cons show ?case by simp
qed simp

lemma api_signal_sent [simp]: "fold api_signal (map cm_sent ms) st = st"
  by (induction ms arbitrary: st) simp_all

lemma runCommands_ok:
  assumes "\<And>a. a \<in> set as \<Longrightarrow> \<exists>m. a (ah_client st) = (ah_client st, [cm_sent m])"
  shows "runCommands as st = (st, concat (map (\<lambda>a. map AE_client (snd (a (ah_client st)))) as), success)"
proof -
  have s: "seq as (ah_client st) = (ah_client st, concat (map (\<lambda>a. snd (a (ah_client st))) as))"
    by (rule seq_same) (use assms in blast)
  have "\<exists>ms. concat (map (\<lambda>a. snd (a (ah_client st))) as) = map cm_sent ms"
    using assms
  proof (induction as)
    case (Cons a as)
    then obtain m ms where "a (ah_client st) = (ah_client st, [cm_sent m])" "concat (map (\<lambda>a. snd (a (ah_client st))) as) = map cm_sent ms"
      by fastforce
    then show ?case by (intro exI[of _ "m # ms"]) simp
  qed simp
  then obtain ms where "concat (map (\<lambda>a. snd (a (ah_client st))) as) = map cm_sent ms" by blast
  moreover have "map AE_client (concat (map (\<lambda>a. snd (a (ah_client st))) as))
      = concat (map (\<lambda>a. map AE_client (snd (a (ah_client st)))) as)"
    by (simp add: map_concat comp_def)
  ultimately show ?thesis using s by (simp add: runCommands_def client_call_def)
qed


section \<open>Shortcuts\<close>

text \<open>The key messages among the events: what happens to which key.\<close>

fun key_of :: "api_event \<Rightarrow> (qstring \<times> int) list" where
  "key_of (AE_client (cm_sent m)) =
     (if toString (oget m ''type'') = ''keyboardEvent''
      then [(toString (oget m ''eventType''), toInt (oget m ''nativeScanCode''))] else [])"
| "key_of _ = []"

definition keys_sent :: "api_event list \<Rightarrow> (qstring \<times> int) list" where
  "keys_sent ev = concat (map key_of ev)"

lemma kMap_range: "map_of kMap k = Some sc \<Longrightarrow> 0 < sc \<and> sc < 65536"
proof -
  assume "map_of kMap k = Some sc"
  then have "sc \<in> snd ` set kMap" by (force dest: map_of_SomeD)
  moreover have "\<forall>c \<in> snd ` set kMap. 0 < c \<and> c < 65536" by (simp add: kMap_def)
  ultimately show ?thesis by blast
qed

lemma scanCodes_range: "scanCodes keys = Inr scs \<Longrightarrow> \<forall>sc \<in> set scs. 0 < sc \<and> sc < 65536"
  by (induction keys arbitrary: scs) (auto simp: keyNameToScanCode_def split: option.splits sum.splits dest: kMap_range)

lemma key_event_ok:
  assumes "channel_ok env cm" "connectionIdFor d cm \<noteq> []"
  shows "\<exists>m. sendKeyboardEvent env d ty sc 0 cm = (cm, [cm_sent m])
    \<and> (0 < sc \<longrightarrow> sc < 65536 \<longrightarrow> key_of (AE_client (cm_sent m)) = [(ty, sc)])"
  by (intro exI[of _ "mkobj [(''type'', JStr ''keyboardEvent''), (''connectionId'', JStr (connectionIdFor d cm)),
      (''eventType'', JStr ty), (''nativeScanCode'', JInt sc), (''lockStates'', JInt 0)]"])
    (simp add: sendKeyboardEvent_def command_ok[OF assms] oget_mkobj)

lemma keys_sent_concat:
  "keys_sent (concat evs) = concat (map keys_sent evs)" "keys_sent (ev @ ev') = keys_sent ev @ keys_sent ev'"
  by (induction evs) (simp_all add: keys_sent_def)

text \<open>
  A shortcut is typed completely or not at all. If one of the keys has no code, the request is refused and
  nothing is sent. Otherwise, over a channel that takes every message, exactly the keys of the request
  are pressed in order and released in the opposite order, so no key stays down.
\<close>

theorem hotkey_all_or_nothing:
  assumes "toString (oget params ''deviceId'') = d" "d \<noteq> []" "toArray (oget params ''keys'') \<noteq> []"
    and "channel_ok (ae_client env) (ah_client st)" "connectionIdFor d (ah_client st) \<noteq> []"
  shows "(\<forall>k. scanCodes (toArray (oget params ''keys'')) = Inl k \<longrightarrow> handleKeyboardHotkey env params st = (st, [], unknown_key k))
    \<and> (\<forall>scs. scanCodes (toArray (oget params ''keys'')) = Inr scs \<longrightarrow> (\<exists>ev. handleKeyboardHotkey env params st = (st, ev, success)
          \<and> keys_sent ev = map (\<lambda>c. (''press'', c)) scs @ map (\<lambda>c. (''release'', c)) (rev scs)))"
proof (intro conjI allI impI)
  fix k
  assume "scanCodes (toArray (oget params ''keys'')) = Inl k"
  then show "handleKeyboardHotkey env params st = (st, [], unknown_key k)"
    using assms by (simp add: handleKeyboardHotkey_def withDevice_def Let_def)
next
  fix scs
  assume s: "scanCodes (toArray (oget params ''keys'')) = Inr scs"
  let ?cm = "ah_client st" and ?press = "\<lambda>sc. sendKeyPress (ae_client env) d sc 0"
    and ?release = "\<lambda>sc. sendKeyRelease (ae_client env) d sc 0"
  let ?as = "map ?press scs @ map ?release (rev scs)"
  have ok: "\<exists>m. ?press sc ?cm = (?cm, [cm_sent m]) \<and> (sc \<in> set scs \<longrightarrow> key_of (AE_client (cm_sent m)) = [(''press'', sc)])"
    "\<exists>m. ?release sc ?cm = (?cm, [cm_sent m]) \<and> (sc \<in> set scs \<longrightarrow> key_of (AE_client (cm_sent m)) = [(''release'', sc)])" for sc
    using key_event_ok[OF assms(4,5)] scanCodes_range[OF s] unfolding sendKeyPress_def sendKeyRelease_def by metis+
  then have r: "runCommands ?as st = (st, concat (map (\<lambda>a. map AE_client (snd (a ?cm))) ?as), success)"
    by (intro runCommands_ok) fastforce
  have k: "sc \<in> set scs \<Longrightarrow> keys_sent (map AE_client (snd (?press sc ?cm))) = [(''press'', sc)]"
    "sc \<in> set scs \<Longrightarrow> keys_sent (map AE_client (snd (?release sc ?cm))) = [(''release'', sc)]" for sc
    using ok[of sc] by (auto simp: keys_sent_def simp del: key_of.simps)
  have 1: "map (\<lambda>sc. keys_sent (map AE_client (snd (?press sc ?cm)))) scs = map (\<lambda>c. [(''press'', c)]) scs"
    by (rule map_cong[OF refl]) (rule k(1))
  have 2: "map (\<lambda>sc. keys_sent (map AE_client (snd (?release sc ?cm)))) (rev scs) = map (\<lambda>c. [(''release'', c)]) (rev scs)"
    by (rule map_cong[OF refl]) (rule k(2), simp)
  have "keys_sent (concat (map (\<lambda>a. map AE_client (snd (a ?cm))) ?as))
      = concat (map (\<lambda>sc. keys_sent (map AE_client (snd (?press sc ?cm)))) scs)
        @ concat (map (\<lambda>sc. keys_sent (map AE_client (snd (?release sc ?cm)))) (rev scs))"
    by (simp only: keys_sent_concat map_append map_map concat_append comp_def)
  also have "\<dots> = map (\<lambda>c. (''press'', c)) scs @ map (\<lambda>c. (''release'', c)) (rev scs)"
    unfolding 1 2 by (simp only: concat_map_singleton)
  finally show "\<exists>ev. handleKeyboardHotkey env params st = (st, ev, success)
      \<and> keys_sent ev = map (\<lambda>c. (''press'', c)) scs @ map (\<lambda>c. (''release'', c)) (rev scs)"
    using assms(1-3) s r by (simp add: handleKeyboardHotkey_def withDevice_def Let_def)
qed

lemma demo_channel_ok: "channel_ok (ae_client demo_api_env) (ah_client demo_api)"
proof -
  have "cm_messaging (demo_state 5) = Some demo_channel" by code_simp
  then show ?thesis by (simp add: channel_ok_def demo_api_def demo_api_env_def demo_channel_def)
qed

lemma demo_connection: "connectionIdFor ''dev'' (ah_client demo_api) \<noteq> []"
  by code_simp

definition demo_hotkey :: jobject where
  "demo_hotkey = [(''deviceId'', JStr ''dev''), (''keys'', JArr [JStr ''Ctrl'', JStr ''v''])]"

theorem hotkey_all_or_nothing_witness:
  "\<exists>ev. handleKeyboardHotkey demo_api_env demo_hotkey demo_api = (demo_api, ev, success)
     \<and> keys_sent ev = [(''press'', 0x1D), (''press'', 0x2F), (''release'', 0x2F), (''release'', 0x1D)]"
proof -
  have "scanCodes (toArray (oget demo_hotkey ''keys'')) = Inr [0x1D, 0x2F]" by code_simp
  then show ?thesis
    using hotkey_all_or_nothing[of demo_hotkey "''dev''" demo_api_env demo_api]
      demo_channel_ok demo_connection
    by (simp add: demo_hotkey_def oget_def)
qed

text \<open>
  The check for dangerous shortcuts compares the names in the request; the handler maps names to codes, and
  a key has several names. Alt+F4 is refused under the names \<open>alt\<close> and \<open>f4\<close> and accepted under
  \<open>lalt\<close> and \<open>f4\<close>, and the handler does exactly the same for both; likewise Ctrl+Alt+Delete as \<open>del\<close>.
\<close>

definition hotkey_params :: "qstring \<Rightarrow> qstring list \<Rightarrow> jobject" where
  "hotkey_params d ks = mkobj [(''deviceId'', JStr d), (''keys'', JArr (map JStr ks))]"

theorem dangerous_hotkey_evaded:
  "isDangerousOperation ''keyboardHotkey'' (hotkey_params d [''alt'', ''f4''])
   \<and> \<not> isDangerousOperation ''keyboardHotkey'' (hotkey_params d [''lalt'', ''f4''])
   \<and> handleKeyboardHotkey env (hotkey_params d [''lalt'', ''f4'']) st = handleKeyboardHotkey env (hotkey_params d [''alt'', ''f4'']) st
   \<and> \<not> isDangerousOperation ''keyboardHotkey'' (hotkey_params d [''ctrl'', ''alt'', ''del''])
   \<and> handleKeyboardHotkey env (hotkey_params d [''ctrl'', ''alt'', ''del'']) st
       = handleKeyboardHotkey env (hotkey_params d [''ctrl'', ''alt'', ''delete'']) st"
proof -
  have k: "toArray (oget (hotkey_params d ks) ''keys'') = map JStr ks" "toString (oget (hotkey_params d ks) ''deviceId'') = d" for ks
    by (simp_all add: hotkey_params_def oget_mkobj)
  have l: "toLower ''alt'' = ''alt''" "toLower ''f4'' = ''f4''" "toLower ''lalt'' = ''lalt''" "toLower ''ctrl'' = ''ctrl''"
    "toLower ''del'' = ''del''"
    by code_simp+
  have "scanCodes (map JStr [''lalt'', ''f4'']) = scanCodes (map JStr [''alt'', ''f4''])"
    "scanCodes (map JStr [''ctrl'', ''alt'', ''del'']) = scanCodes (map JStr [''ctrl'', ''alt'', ''delete''])"
    by code_simp+
  then show ?thesis
    by (simp add: isDangerousOperation_def k l handleKeyboardHotkey_def withDevice_def Let_def)
qed


section \<open>Clicking a text\<close>


















end
