(* ===== verification/SkillHostManager.thy ===== *)
theory SkillHostManager
  imports HostManager
begin

text \<open>
  \<open>QuickDesk/src/manager/SkillHostManager.cpp\<close>: the bridge between the skill host, a child process that
  speaks JSON lines on its standard streams, and the remote client, which is reached through the
  host manager's channel.

  The state holds the host manager it is wired to. \<open>fromJson\<close> and the UTF-8 conversions are Qt's; the
  compact JSON text is the one the host manager's channel uses (\<open>he_toJson\<close>). Log output is left out.
\<close>


section \<open>State\<close>

record skill_env =
  se_host :: host_env
  se_fromJson :: "byte list \<Rightarrow> json_doc"
  se_fromUtf8 :: "byte list \<Rightarrow> qstring"
  se_toUtf8 :: "qstring \<Rightarrow> byte list"

record skill_host =
  sh_hostManager :: "host_manager option"
  sh_process :: "process_state option"
  sh_stopping :: "process_state list" \<comment> \<open>processes told to terminate, each with its three-second timer\<close>
  sh_readBuffer :: "byte list"
  sh_cachedTools :: "json list"

datatype sh_event =
    sh_capabilitiesChanged "json list"
  | sh_skillHostResponseReady jobject
  | sh_host hm_event
  | sh_launched qstring "qstring list"
  | sh_wrote "byte list"
  | sh_terminate
  | sh_kill

type_synonym sh_action = "(skill_host, sh_event) action"

definition SkillHostManager_init :: skill_host where
  "SkillHostManager_init = \<lparr>sh_hostManager = None, sh_process = None, sh_stopping = [], sh_readBuffer = [], sh_cachedTools = []\<rparr>"


section \<open>Calls of the host manager\<close>

definition host_action :: "hm_action \<Rightarrow> sh_action" where
  "host_action a st = (case sh_hostManager st of
      None \<Rightarrow> (st, [])
    | Some hm \<Rightarrow> let (hm', ev) = a hm in (st\<lparr>sh_hostManager := Some hm'\<rparr>, map sh_host ev))"

definition bridge :: "skill_env \<Rightarrow> jobject \<Rightarrow> sh_action" where
  "bridge env message = host_action (sendSkillBridgeSend (se_host env) (se_fromUtf8 env (he_toJson (se_host env) message)))"


section \<open>From the skill host to the client\<close>

definition handleSkillHostMessage :: "skill_env \<Rightarrow> jobject \<Rightarrow> sh_action" where
  "handleSkillHostMessage env message st =
     (let type = toString (oget message ''type''); tools = toArray (oget message ''tools'')
      in seq [guarded (type = ''capabilitiesReady'' \<or> type = ''capabilitiesChanged'')
                (seq [modify (\<lambda>st. st\<lparr>sh_cachedTools := tools\<rparr>), emit [sh_capabilitiesChanged tools]]),
              guarded (sh_hostManager st \<noteq> None)
                (seq [emit [sh_skillHostResponseReady message], bridge env message])] st)"

definition byte_space :: "byte \<Rightarrow> bool" where
  "byte_space b \<longleftrightarrow> b \<in> {9, 10, 11, 12, 13, 32}"

definition trim_bytes :: "byte list \<Rightarrow> byte list" where
  "trim_bytes bs = rev (dropWhile byte_space (rev (dropWhile byte_space bs)))"

definition newline :: byte where
  "newline = 10"

definition handle_line :: "skill_env \<Rightarrow> byte list \<Rightarrow> sh_action" where
  "handle_line env line =
     (if line = [] then emit []
      else case se_fromJson env line of
             ObjectDoc message \<Rightarrow> handleSkillHostMessage env message
           | _ \<Rightarrow> emit [])"

lemma rest_shorter:
  assumes "newline \<in> set buf"
  shows "length (dropWhile (\<lambda>b. b \<noteq> newline) buf) - Suc 0 < length buf"
proof -
  have "dropWhile (\<lambda>b. b \<noteq> newline) buf \<noteq> []" using assms by auto
  then show ?thesis using length_dropWhile_le[of "\<lambda>b. b \<noteq> newline" buf] by (cases "dropWhile (\<lambda>b. b \<noteq> newline) buf") simp_all
qed

text \<open>The loop of \<open>onSkillHostStdout\<close> takes one line off the buffer in every round.\<close>

function stdout_loop :: "skill_env \<Rightarrow> byte list \<Rightarrow> sh_action" where
  "stdout_loop env buf st =
     (if newline \<notin> set buf then (st\<lparr>sh_readBuffer := buf\<rparr>, [])
      else let line = trim_bytes (takeWhile (\<lambda>b. b \<noteq> newline) buf);
               rest = drop 1 (dropWhile (\<lambda>b. b \<noteq> newline) buf);
               (st1, ev1) = handle_line env line (st\<lparr>sh_readBuffer := rest\<rparr>);
               (st2, ev2) = stdout_loop env rest st1
           in (st2, ev1 @ ev2))"
  by pat_completeness auto
termination
  by (relation "measure (\<lambda>(env, buf, st). length buf)") (simp_all add: rest_shorter)

declare stdout_loop.simps [simp del]

definition onSkillHostStdout :: "skill_env \<Rightarrow> byte list \<Rightarrow> sh_action" where
  "onSkillHostStdout env chunk st =
     (if sh_process st = None then (st, []) else stdout_loop env (sh_readBuffer st @ chunk) st)"


section \<open>From the client to the skill host\<close>

definition sendToSkillHost :: "skill_env \<Rightarrow> jobject \<Rightarrow> sh_action" where
  "sendToSkillHost env message st =
     (if sh_process st \<noteq> Some PRunning then (st, [])
      else (st, [sh_wrote (he_toJson (se_host env) message @ [newline])]))"

definition onMessageFromClient :: "skill_env \<Rightarrow> qstring \<Rightarrow> sh_action" where
  "onMessageFromClient env jsonData =
     (case se_fromJson env (se_toUtf8 env jsonData) of
        ObjectDoc message \<Rightarrow> sendToSkillHost env message
      | _ \<Rightarrow> emit [])"

text \<open>The two slots \<open>setHostManager\<close> connects to the host manager's signals.\<close>

definition pushCapabilities :: "skill_env \<Rightarrow> sh_action" where
  "pushCapabilities env st =
     guarded (sh_cachedTools st \<noteq> [])
       (bridge env (mkobj [(''type'', JStr ''capabilitiesReady''), (''tools'', JArr (sh_cachedTools st))])) st"

fun host_signal :: "skill_env \<Rightarrow> hm_event \<Rightarrow> sh_action" where
  "host_signal env (hm_skillMessage jsonData) = seq [emit [sh_host (hm_skillMessage jsonData)], onMessageFromClient env jsonData]"
| "host_signal env (hm_clientConnected cid info) = seq [emit [sh_host (hm_clientConnected cid info)], pushCapabilities env]"
| "host_signal env e = emit [sh_host e]"

definition setHostManager :: "host_manager \<Rightarrow> skill_host \<Rightarrow> skill_host" where
  "setHostManager hm st = st\<lparr>sh_hostManager := Some hm\<rparr>"

text \<open>
  Any input of the host manager, with the slots run on the signals it emits. What the slots read of the
  host manager, its channel, is not changed by a message, so running them after the handler is the same.
\<close>

definition host_input :: "skill_env \<Rightarrow> hm_input \<Rightarrow> sh_action" where
  "host_input env i st = (case sh_hostManager st of
      None \<Rightarrow> (st, [])
    | Some hm \<Rightarrow> let (hm', ev) = hm_exec i hm in for_each (host_signal env) ev (st\<lparr>sh_hostManager := Some hm'\<rparr>))"


section \<open>The process\<close>

definition skill_args :: "qstring list \<Rightarrow> qstring list" where
  "skill_args skillsDirs = concat (map (\<lambda>dir. if dir \<noteq> [] then [''--skills-dir'', dir] else []) skillsDirs)"

definition startSkillHost :: "qstring \<Rightarrow> qstring list \<Rightarrow> sh_action" where
  "startSkillHost skillHostPath skillsDirs st =
     (if sh_process st \<noteq> None \<and> sh_process st \<noteq> Some PNotRunning then (st, [])
      else (st\<lparr>sh_process := Some PStarting\<rparr>, [sh_launched skillHostPath (skill_args skillsDirs)]))"

definition stopSkillHost :: sh_action where
  "stopSkillHost st =
     (case sh_process st of
        None \<Rightarrow> (st, [])
      | Some p \<Rightarrow>
          let cleared = st\<lparr>sh_process := None, sh_readBuffer := [], sh_cachedTools := []\<rparr>
          in if p = PNotRunning then (cleared, [])
             else (cleared\<lparr>sh_stopping := sh_stopping st @ [p]\<rparr>, [sh_terminate]))"

text \<open>The timer of a stopped process, which is dropped with the process when it finishes first.\<close>

definition killTimeout :: "nat \<Rightarrow> sh_action" where
  "killTimeout i st =
     (if i < length (sh_stopping st) \<and> sh_stopping st ! i \<noteq> PNotRunning then (st, [sh_kill]) else (st, []))"

definition sh_isRunning :: "skill_host \<Rightarrow> bool" where
  "sh_isRunning st \<longleftrightarrow> sh_process st = Some PRunning"

text \<open>\<open>onSkillHostFinished\<close> only writes to the log: the process object, the buffer and the tools stay.\<close>

definition onSkillHostFinished :: sh_action where
  "onSkillHostFinished = emit []"

datatype sh_input =
    SH_setHostManager host_manager
  | SH_host hm_input
  | SH_start qstring "qstring list"
  | SH_stop
  | SH_processState process_state \<comment> \<open>Qt reports the process started, or gone\<close>
  | SH_stdout "byte list"
  | SH_stoppedGone nat
  | SH_killTimeout nat

fun sh_exec :: "skill_env \<Rightarrow> sh_input \<Rightarrow> sh_action" where
  "sh_exec env (SH_setHostManager hm) st = (setHostManager hm st, [])"
| "sh_exec env (SH_host i) st = host_input env i st"
| "sh_exec env (SH_start path dirs) st = startSkillHost path dirs st"
| "sh_exec env SH_stop st = stopSkillHost st"
| "sh_exec env (SH_processState p) st =
     (if sh_process st = None then (st, [])
      else seq [modify (\<lambda>st. st\<lparr>sh_process := Some p\<rparr>), guarded (p = PNotRunning) onSkillHostFinished] st)"
| "sh_exec env (SH_stdout chunk) st = onSkillHostStdout env chunk st"
| "sh_exec env (SH_stoppedGone i) st = (st\<lparr>sh_stopping := (sh_stopping st)[i := PNotRunning]\<rparr>, [])"
| "sh_exec env (SH_killTimeout i) st = killTimeout i st"

definition sh_step :: "skill_host \<Rightarrow> skill_host \<Rightarrow> bool" where
  "sh_step st st' \<longleftrightarrow> (\<exists>env i. st' = fst (sh_exec env i st))"

abbreviation sh_reachable :: "skill_host \<Rightarrow> bool" where
  "sh_reachable \<equiv> reachable (\<lambda>st. st = SkillHostManager_init) sh_step"


section \<open>Lines, however they are cut into reads\<close>

lemma loop_partial: "newline \<notin> set buf \<Longrightarrow> stdout_loop env buf st = (st\<lparr>sh_readBuffer := buf\<rparr>, [])"
  by (subst stdout_loop.simps) simp

lemma loop_buffer [simp]: "stdout_loop env buf (st\<lparr>sh_readBuffer := b\<rparr>) = stdout_loop env buf st"
  by (subst (1 2) stdout_loop.simps) simp

lemma handle_line_buffer:
  "handle_line env l (st\<lparr>sh_readBuffer := b\<rparr>) = (fst (handle_line env l st)\<lparr>sh_readBuffer := b\<rparr>, snd (handle_line env l st))"
  by (auto simp: handle_line_def handleSkillHostMessage_def bridge_def host_action_def split_beta Let_def guarded_def
      modify_def emit_def split: json_doc.split option.split)

lemma loop_line:
  assumes "newline \<notin> set l"
  shows "stdout_loop env (l @ newline # rest) st =
    (let (st1, ev1) = handle_line env (trim_bytes l) st; (st2, ev2) = stdout_loop env rest st1
     in (st2, ev1 @ ev2))"
proof -
  have "takeWhile (\<lambda>b. b \<noteq> newline) (l @ newline # rest) = l" "dropWhile (\<lambda>b. b \<noteq> newline) (l @ newline # rest) = newline # rest"
    using assms by (auto simp: takeWhile_append dropWhile_append takeWhile_eq_all_conv)
  then show ?thesis by (subst stdout_loop.simps) (simp add: handle_line_buffer Let_def split_beta)
qed

lemma handle_line_frame:
  "sh_readBuffer (fst (handle_line env l st)) = sh_readBuffer st" "sh_process (fst (handle_line env l st)) = sh_process st"
  by (auto simp: handle_line_def handleSkillHostMessage_def bridge_def host_action_def seq_Cons split_beta Let_def guarded_def
      simp del: seq.simps(2) split: json_doc.split option.split)

lemma split_line:
  assumes "newline \<in> set buf"
  obtains l rest where "buf = l @ newline # rest" "newline \<notin> set l"
  using assms by (metis split_list_first)

lemma loop_append:
  "stdout_loop env (buf @ chunk) st =
    (let (st1, ev1) = stdout_loop env buf st; (st2, ev2) = stdout_loop env (sh_readBuffer st1 @ chunk) st1 in (st2, ev1 @ ev2))"
proof (induction "length buf" arbitrary: buf st rule: less_induct)
  case less
  show ?case
  proof (cases "newline \<in> set buf")
    case False
    then show ?thesis by (simp add: loop_partial)
  next
    case True
    then obtain l rest where b: "buf = l @ newline # rest" "newline \<notin> set l" by (rule split_line)
    then show ?thesis
      using less[of rest "fst (handle_line env (trim_bytes l) st)"]
      by (simp add: loop_line split_beta Let_def)
  qed
qed

lemma loop_frame:
  "newline \<notin> set (sh_readBuffer (fst (stdout_loop env buf st)))" "sh_process (fst (stdout_loop env buf st)) = sh_process st"
proof (induction "length buf" arbitrary: buf st rule: less_induct)
  case less
  {
    case 1
    show ?case
    proof (cases "newline \<in> set buf")
      case True
      then obtain l rest where "buf = l @ newline # rest" "newline \<notin> set l" by (rule split_line)
      then show ?thesis using less(1)[of rest] by (simp add: loop_line split_beta Let_def)
    qed (simp add: loop_partial)
  next
    case 2
    show ?case
    proof (cases "newline \<in> set buf")
      case True
      then obtain l rest where "buf = l @ newline # rest" "newline \<notin> set l" by (rule split_line)
      then show ?thesis using less(2)[of rest] by (simp add: loop_line split_beta Let_def handle_line_frame)
    qed (simp add: loop_partial)
  }
qed

text \<open>Between two inputs the buffer holds no complete line.\<close>

definition no_line :: "skill_host \<Rightarrow> bool" where
  "no_line st \<longleftrightarrow> newline \<notin> set (sh_readBuffer st)"

lemma host_signal_buffer: "sh_readBuffer (fst (host_signal env e st)) = sh_readBuffer st"
  by (cases e) (simp_all add: seq_Cons onMessageFromClient_def sendToSkillHost_def pushCapabilities_def bridge_def host_action_def
      guarded_def split_beta Let_def del: seq.simps(2) split: json_doc.split option.split)

lemma host_signals_buffer: "sh_readBuffer (fst (for_each (host_signal env) es st)) = sh_readBuffer st"
  by (induction es arbitrary: st) (simp_all add: for_each_Cons host_signal_buffer)

lemma sh_exec_no_line: "no_line st \<Longrightarrow> no_line (fst (sh_exec env i st))"
  by (cases i) (simp_all add: no_line_def setHostManager_def host_input_def host_signals_buffer startSkillHost_def stopSkillHost_def
      onSkillHostFinished_def onSkillHostStdout_def killTimeout_def loop_frame guarded_def split_beta Let_def modify_def emit_def
      split: option.split)

interpretation skill_lines: invariant_system "\<lambda>st. st = SkillHostManager_init" sh_step no_line
  by unfold_locales (auto simp: sh_step_def sh_exec_no_line, simp add: no_line_def SkillHostManager_init_def)

lemma stdout_chunks:
  "no_line st \<Longrightarrow> for_each (onSkillHostStdout env) chunks st = onSkillHostStdout env (concat chunks) st"
proof (induction chunks arbitrary: st)
  case Nil
  then show ?case by (simp add: onSkillHostStdout_def loop_partial no_line_def)
next
  case (Cons c cs)
  have "no_line (fst (onSkillHostStdout env c st))"
    using Cons.prems by (simp add: onSkillHostStdout_def no_line_def loop_frame)
  from Cons.IH[OF this] show ?case
    by (intro prod_eqI) (simp_all add: for_each_Cons onSkillHostStdout_def loop_frame loop_append[of env "sh_readBuffer st @ c", simplified]
        split_beta Let_def)
qed


section \<open>What the skill host prints reaches the client\<close>

definition hm_channel_ok :: "host_env \<Rightarrow> host_manager \<Rightarrow> bool" where
  "hm_channel_ok env hm \<longleftrightarrow> (\<exists>nm. hm_messaging hm = Some nm \<and> nm_process nm = Some PRunning)
     \<and> (\<forall>bytes. he_write env bytes = int (length bytes))"

definition bridge_message :: "skill_env \<Rightarrow> jobject \<Rightarrow> jobject" where
  "bridge_message env m = mkobj [(''type'', JStr ''skillBridgeSend''), (''data'', JStr (se_fromUtf8 env (he_toJson (se_host env) m)))]"

lemma bridge_ok:
  assumes "sh_hostManager st = Some hm" "hm_channel_ok (se_host env) hm"
  shows "bridge env m st = (st, [sh_host (hm_sent (bridge_message env m))])"
proof -
  have "hm_ready hm" using assms(2) by (auto simp: hm_channel_ok_def hm_ready_def isReady_def)
  moreover have "hm_send (se_host env) x hm = (hm, [hm_sent x])" for x
    using assms(2) by (auto simp: hm_channel_ok_def hm_send_def sendMessage_def for_each_def emit_def Let_def)
  ultimately show ?thesis
    using assms(1) by (simp add: bridge_def host_action_def sendSkillBridgeSend_def bridge_message_def)
qed

text \<open>What the JSON text of a message has to satisfy to be a line: one line, no blank around it, and it reads back.\<close>

definition line_ok :: "skill_env \<Rightarrow> jobject \<Rightarrow> bool" where
  "line_ok env m \<longleftrightarrow> (let l = he_toJson (se_host env) m
     in l \<noteq> [] \<and> newline \<notin> set l \<and> trim_bytes l = l \<and> se_fromJson env l = ObjectDoc m)"

definition skill_output :: "skill_env \<Rightarrow> jobject list \<Rightarrow> byte list" where
  "skill_output env ms = concat (map (\<lambda>m. he_toJson (se_host env) m @ [newline]) ms)"

fun bridged :: "sh_event \<Rightarrow> jobject list" where
  "bridged (sh_host (hm_sent m)) = [m]"
| "bridged _ = []"

definition tools_after :: "jobject \<Rightarrow> json list \<Rightarrow> json list" where
  "tools_after m ts = (if toString (oget m ''type'') \<in> {''capabilitiesReady'', ''capabilitiesChanged''} then toArray (oget m ''tools'') else ts)"

lemma loop_output:
  assumes "sh_hostManager st = Some hm" "hm_channel_ok (se_host env) hm" "\<forall>m \<in> set ms. line_ok env m"
  shows "fst (stdout_loop env (skill_output env ms) st) = st\<lparr>sh_readBuffer := [], sh_cachedTools := fold tools_after ms (sh_cachedTools st)\<rparr>"
    and "concat (map bridged (snd (stdout_loop env (skill_output env ms) st))) = map (bridge_message env) ms"
  using assms
proof (induction ms arbitrary: st)
  case Nil
  {
    case 1
    then show ?case by (simp add: skill_output_def loop_partial)
  next
    case 2
    then show ?case by (simp add: skill_output_def loop_partial)
  }
next
  case (Cons m ms)
  let ?l = "he_toJson (se_host env) m"
  let ?st = "\<lambda>st. st\<lparr>sh_cachedTools := tools_after m (sh_cachedTools st)\<rparr>"
  have l: "?l \<noteq> []" "newline \<notin> set ?l" "trim_bytes ?l = ?l" "se_fromJson env ?l = ObjectDoc m"
    if "\<forall>m \<in> set (m # ms). line_ok env m" using that by (simp_all add: line_ok_def Let_def)
  have h: "fst (handle_line env ?l st) = ?st st" "concat (map bridged (snd (handle_line env ?l st))) = [bridge_message env m]"
    if "sh_hostManager st = Some hm" "hm_channel_ok (se_host env) hm" "\<forall>m \<in> set (m # ms). line_ok env m" for st
    using l[OF that(3)] bridge_ok[of st hm env m] bridge_ok[of "?st st" hm env m] that(1,2)
    by (auto simp: handle_line_def handleSkillHostMessage_def guarded_def tools_after_def modify_def emit_def Let_def)
  have o: "skill_output env (m # ms) = ?l @ newline # skill_output env ms" by (simp add: skill_output_def)
  {
    case 1
    then show ?case using h[OF 1] l[OF 1(3)] Cons.IH(1)[of "?st st"] by (simp add: o loop_line split_beta Let_def)
  next
    case 2
    then show ?case using h[OF 2] l[OF 2(3)] Cons.IH(2)[of "?st st"] by (simp add: o loop_line split_beta Let_def)
  }
qed

text \<open>
  C28. What the skill host prints reaches the client, however the pipe cuts it into reads. If each message it
  prints is a line of JSON and the channel of the host process works, exactly these messages are
  sent to the client, in order and once each, nothing is left in the buffer, and
  the tools kept for later clients are those of the last report of its capabilities.
\<close>

theorem skill_output_reaches_client:
  assumes "sh_process st \<noteq> None" "sh_readBuffer st = []" "sh_hostManager st = Some hm" "hm_channel_ok (se_host env) hm"
    and "\<forall>m \<in> set ms. line_ok env m" "concat chunks = skill_output env ms"
  shows "concat (map bridged (snd (for_each (onSkillHostStdout env) chunks st))) = map (bridge_message env) ms
    \<and> fst (for_each (onSkillHostStdout env) chunks st) = st\<lparr>sh_cachedTools := fold tools_after ms (sh_cachedTools st)\<rparr>"
proof -
  have e: "for_each (onSkillHostStdout env) chunks st = stdout_loop env (skill_output env ms) st"
    using stdout_chunks[of st env chunks] assms(1,2,6) by (simp add: no_line_def onSkillHostStdout_def)
  have "st\<lparr>sh_readBuffer := [], sh_cachedTools := ts\<rparr> = st\<lparr>sh_cachedTools := ts\<rparr>" for ts using assms(2) by simp
  then show ?thesis using loop_output[OF assms(3-5)] unfolding e by simp
qed


section \<open>Runs\<close>

definition demo_skill_env :: skill_env where
  "demo_skill_env = \<lparr>se_host = \<lparr>he_toJson = (\<lambda>m. map of_char (toString (oget m ''type''))), he_write = (\<lambda>bs. int (length bs)),
       he_applicationVersion = ''1.0'', he_apiKey = [], he_onWindows = False, he_autoPrivacyScreenOnConnect = False\<rparr>,
     se_fromJson = (\<lambda>bs. ObjectDoc [(''type'', JStr (map (\<lambda>b. char_of (unat b)) bs))]),
     se_fromUtf8 = map (\<lambda>b. char_of (unat b)), se_toUtf8 = map of_char\<rparr>"

definition demo_skill_host :: skill_host where
  "demo_skill_host = SkillHostManager_init\<lparr>sh_hostManager := Some (HostManager_init\<lparr>hm_messaging := Some (NativeMessaging_process PRunning)\<rparr>),
     sh_process := Some PRunning\<rparr>"

definition demo_reads :: "byte list list" where
  "demo_reads = [[97], [98, 10, 99], [], [100, 10]]"

theorem skill_output_reaches_client_witness:
  "concat (map bridged (snd (for_each (onSkillHostStdout demo_skill_env) demo_reads demo_skill_host)))
     = map (bridge_message demo_skill_env) [[(''type'', JStr ''ab'')], [(''type'', JStr ''cd'')]]"
proof -
  have "line_ok demo_skill_env [(''type'', JStr ''ab'')]" "line_ok demo_skill_env [(''type'', JStr ''cd'')]"
    "concat demo_reads = skill_output demo_skill_env [[(''type'', JStr ''ab'')], [(''type'', JStr ''cd'')]]"
    by code_simp+
  moreover have "hm_channel_ok (se_host demo_skill_env) (HostManager_init\<lparr>hm_messaging := Some (NativeMessaging_process PRunning)\<rparr>)"
    by (simp add: hm_channel_ok_def demo_skill_env_def NativeMessaging_process_def)
  ultimately show ?thesis
    using skill_output_reaches_client[of demo_skill_host _ demo_skill_env
        "[[(''type'', JStr ''ab'')], [(''type'', JStr ''cd'')]]" demo_reads]
    by (simp add: demo_skill_host_def SkillHostManager_init_def)
qed

text \<open>
  Nothing empties the buffer when the skill host ends on its own: the part of a line it had printed is
  put in front of the first line of the process that is started next, and that line is lost.
\<close>

definition demo_crash :: "sh_input list" where
  "demo_crash = [SH_stdout [97, 98], SH_processState PNotRunning, SH_start ''skill-host'' [], SH_processState PRunning, SH_stdout [99, 100, 10]]"

theorem crash_glues_lines:
  "concat (map bridged (snd (for_each (sh_exec demo_skill_env) demo_crash demo_skill_host)))
     = [bridge_message demo_skill_env [(''type'', JStr ''abcd'')]]"
  by code_simp

end
