(* ===== verification/UserData.thy ===== *)
theory UserData
  imports Prelude "HOL-Library.Multiset"
begin

text \<open>
  The user database: \<open>QuickDesk/src/core/db/userdatadatabase.cpp\<close>, called through \<open>core/userdatacenter.cpp\<close>.

  A table is the list of its rows and its AUTOINCREMENT counter. Each SQL statement is the function
  on rows that its text says. A boolean argument says whether the statement executes: a statement that
  fails leaves the table as it is. \<open>ORDER BY\<close> leaves rows with equal keys in an order of the
  database's choice, so a query also takes the order \<open>scan\<close> in which the rows are visited, any
  permutation of them, and sorts that list stably.
\<close>


section \<open>Rows and tables\<close>

record ip_range =
  ir_ipRangeId :: int
  ir_startIp :: qstring
  ir_stopIp :: qstring
  ir_startPort :: qstring
  ir_stopPort :: qstring

record remote_device =
  rd_id :: int
  rd_deviceId :: qstring
  rd_deviceName :: qstring
  rd_accessPassword :: qstring
  rd_isFavorite :: bool
  rd_connectionCount :: int
  rd_lastConnectedTime :: int
  rd_createdTime :: int

record user_data =
  ud_devices :: "remote_device list"
  ud_deviceSeq :: int
  ud_ipRanges :: "ip_range list"
  ud_ipRangeSeq :: int

type_synonym row_order = "remote_device list \<Rightarrow> remote_device list"

definition UserData_empty :: user_data where
  "UserData_empty = \<lparr>ud_devices = [], ud_deviceSeq = 0, ud_ipRanges = [], ud_ipRangeSeq = 0\<rparr>"

text \<open>Opening creates what is missing and keeps what is there; it succeeds if all three statements do.\<close>

definition db_upgradeTables :: bool where
  "db_upgradeTables = True"

definition db_initTables :: "bool \<Rightarrow> bool \<Rightarrow> bool \<Rightarrow> bool" where
  "db_initTables createIpRanges createDevices createIndex =
     (if \<not> createIpRanges then False
      else if \<not> createDevices then False
      else if \<not> createIndex then False
      else if \<not> db_upgradeTables then False
      else True)"


section \<open>Address ranges\<close>

definition db_getLastId :: "bool \<Rightarrow> user_data \<Rightarrow> int" where
  "db_getLastId ok db = (if \<not> ok then 0 else ud_ipRangeSeq db)"

definition db_addIpRange :: "bool \<Rightarrow> bool \<Rightarrow> ip_range \<Rightarrow> user_data \<Rightarrow> user_data \<times> int option" where
  "db_addIpRange ok okSeq r db =
     (if \<not> ok then (db, None)
      else let i = ud_ipRangeSeq db + 1;
               db' = db\<lparr>ud_ipRanges := ud_ipRanges db @ [r\<lparr>ir_ipRangeId := i\<rparr>], ud_ipRangeSeq := i\<rparr>
           in (db', Some (db_getLastId okSeq db')))"

definition db_removeIpRange :: "bool \<Rightarrow> int \<Rightarrow> user_data \<Rightarrow> user_data \<times> bool" where
  "db_removeIpRange ok ipRangeId db =
     (if \<not> ok then (db, False)
      else (db\<lparr>ud_ipRanges := filter (\<lambda>r. ir_ipRangeId r \<noteq> ipRangeId) (ud_ipRanges db)\<rparr>, True))"

definition db_allIpRange :: "bool \<Rightarrow> user_data \<Rightarrow> ip_range list option" where
  "db_allIpRange ok db =
     (if \<not> ok then None
      else Some (map (\<lambda>r. if ir_stopPort r = [] then r\<lparr>ir_stopPort := ir_startPort r\<rparr> else r) (ud_ipRanges db)))"


section \<open>Remote devices\<close>

abbreviation has_id :: "qstring \<Rightarrow> remote_device \<Rightarrow> bool" where
  "has_id deviceId r \<equiv> rd_deviceId r = deviceId"

text \<open>\<open>UPDATE ... SET ... WHERE device_id = ...\<close>\<close>

definition sql_update :: "qstring \<Rightarrow> (remote_device \<Rightarrow> remote_device) \<Rightarrow> user_data \<Rightarrow> user_data" where
  "sql_update deviceId f db = db\<lparr>ud_devices := map (\<lambda>r. if has_id deviceId r then f r else r) (ud_devices db)\<rparr>"

text \<open>\<open>okCheck\<close> is the \<open>SELECT\<close> that looks for the device, \<open>ok\<close> the \<open>UPDATE\<close> or \<open>INSERT\<close> that follows.\<close>

definition db_addOrUpdateRemoteDevice :: "bool \<Rightarrow> bool \<Rightarrow> remote_device \<Rightarrow> user_data \<Rightarrow> user_data \<times> bool" where
  "db_addOrUpdateRemoteDevice okCheck ok device db =
     (if \<not> okCheck then (db, False)
      else if \<not> ok then (db, False)
      else if list_ex (has_id (rd_deviceId device)) (ud_devices db)
      then (sql_update (rd_deviceId device)
              (\<lambda>r. r\<lparr>rd_deviceName := rd_deviceName device, rd_accessPassword := rd_accessPassword device,
                     rd_isFavorite := rd_isFavorite device, rd_connectionCount := rd_connectionCount r + 1,
                     rd_lastConnectedTime := rd_lastConnectedTime device\<rparr>) db, True)
      else let i = ud_deviceSeq db + 1
           in (db\<lparr>ud_devices := ud_devices db @ [device\<lparr>rd_id := i, rd_connectionCount := 1\<rparr>], ud_deviceSeq := i\<rparr>, True))"

definition db_removeRemoteDevice :: "bool \<Rightarrow> qstring \<Rightarrow> user_data \<Rightarrow> user_data \<times> bool" where
  "db_removeRemoteDevice ok deviceId db =
     (if \<not> ok then (db, False)
      else (db\<lparr>ud_devices := filter (\<lambda>r. \<not> has_id deviceId r) (ud_devices db)\<rparr>, True))"

definition db_getRemoteDevice :: "bool \<Rightarrow> qstring \<Rightarrow> user_data \<Rightarrow> remote_device option" where
  "db_getRemoteDevice ok deviceId db = (if \<not> ok then None else find (has_id deviceId) (ud_devices db))"

text \<open>\<open>ORDER BY is_favorite DESC, last_connected_time DESC\<close>\<close>

definition recency :: "remote_device \<Rightarrow> int" where
  "recency r = - rd_lastConnectedTime r"

definition db_getAllRemoteDevices :: "bool \<Rightarrow> row_order \<Rightarrow> user_data \<Rightarrow> remote_device list option" where
  "db_getAllRemoteDevices ok scan db =
     (if \<not> ok then None
      else let rows = sort_key recency (scan (ud_devices db))
           in Some (filter rd_isFavorite rows @ filter (\<lambda>r. \<not> rd_isFavorite r) rows))"

definition db_updateDeviceLastConnected :: "bool \<Rightarrow> int \<Rightarrow> qstring \<Rightarrow> user_data \<Rightarrow> user_data \<times> bool" where
  "db_updateDeviceLastConnected ok now deviceId db =
     (if \<not> ok then (db, False)
      else (sql_update deviceId (\<lambda>r. r\<lparr>rd_connectionCount := rd_connectionCount r + 1, rd_lastConnectedTime := now\<rparr>) db, True))"

definition db_updateDevicePassword :: "bool \<Rightarrow> qstring \<Rightarrow> qstring \<Rightarrow> user_data \<Rightarrow> user_data \<times> bool" where
  "db_updateDevicePassword ok deviceId encryptedPassword db =
     (if \<not> ok then (db, False)
      else (sql_update deviceId (\<lambda>r. r\<lparr>rd_accessPassword := encryptedPassword\<rparr>) db,
            list_ex (has_id deviceId) (ud_devices db)))"

text \<open>The sub-query of \<open>cleanOldDevices\<close>: the identifiers of the \<open>maxCount\<close> most recent rows that are not favourites.\<close>

definition recent_ids :: "row_order \<Rightarrow> nat \<Rightarrow> user_data \<Rightarrow> int list" where
  "recent_ids scan maxCount db =
     map rd_id (take maxCount (sort_key recency (filter (\<lambda>r. \<not> rd_isFavorite r) (scan (ud_devices db)))))"

definition db_cleanOldDevices :: "bool \<Rightarrow> row_order \<Rightarrow> nat \<Rightarrow> user_data \<Rightarrow> user_data \<times> bool" where
  "db_cleanOldDevices ok scan maxCount db =
     (if \<not> ok then (db, False)
      else (db\<lparr>ud_devices := filter (\<lambda>r. \<not> (\<not> rd_isFavorite r \<and> rd_id r \<notin> set (recent_ids scan maxCount db))) (ud_devices db)\<rparr>,
            True))"


section \<open>The constraints of the table\<close>

text \<open>PRIMARY KEY, UNIQUE, and identifiers that the counter has handed out.\<close>

definition table_ok :: "user_data \<Rightarrow> bool" where
  "table_ok db \<longleftrightarrow> distinct (map rd_deviceId (ud_devices db)) \<and> distinct (map rd_id (ud_devices db))
     \<and> (\<forall>r \<in> set (ud_devices db). rd_id r \<le> ud_deviceSeq db)"

lemma table_ok_empty [simp]: "table_ok UserData_empty"
  by (simp add: table_ok_def UserData_empty_def)

lemma table_ok_map:
  assumes "table_ok db" and "\<And>r. rd_deviceId (f r) = rd_deviceId r \<and> rd_id (f r) = rd_id r"
  shows "table_ok (db\<lparr>ud_devices := map f (ud_devices db)\<rparr>)"
  using assms by (simp add: table_ok_def comp_def)

lemma table_ok_filter: "table_ok db \<Longrightarrow> table_ok (db\<lparr>ud_devices := filter P (ud_devices db)\<rparr>)"
  by (auto simp: table_ok_def intro: distinct_map_filter)

lemma sql_update_ok:
  assumes "table_ok db" and "\<And>r. rd_deviceId (f r) = rd_deviceId r \<and> rd_id (f r) = rd_id r"
  shows "table_ok (sql_update deviceId f db)"
  unfolding sql_update_def by (rule table_ok_map[OF assms(1)]) (simp add: assms(2))

lemma add_ok: "table_ok db \<Longrightarrow> table_ok (fst (db_addOrUpdateRemoteDevice okCheck ok device db))"
  by (auto simp: db_addOrUpdateRemoteDevice_def Let_def intro!: sql_update_ok)
    (force simp: table_ok_def list_ex_iff)

lemma remove_ok: "table_ok db \<Longrightarrow> table_ok (fst (db_removeRemoteDevice ok deviceId db))"
  by (simp add: db_removeRemoteDevice_def table_ok_filter)

lemma touch_ok: "table_ok db \<Longrightarrow> table_ok (fst (db_updateDeviceLastConnected ok now deviceId db))"
  by (simp add: db_updateDeviceLastConnected_def sql_update_ok)

lemma password_ok: "table_ok db \<Longrightarrow> table_ok (fst (db_updateDevicePassword ok deviceId p db))"
  by (simp add: db_updateDevicePassword_def sql_update_ok)

lemma clean_ok: "table_ok db \<Longrightarrow> table_ok (fst (db_cleanOldDevices ok scan n db))"
  by (simp add: db_cleanOldDevices_def table_ok_filter)

lemmas table_ops_ok = add_ok remove_ok touch_ok password_ok clean_ok

end
