(* ===== verification/RemoteDeviceManager.thy ===== *)
theory RemoteDeviceManager
  imports UserData "HOL-Library.Word"
begin

unbundle bit_operations_syntax

text \<open>
  \<open>QuickDesk/src/manager/RemoteDeviceManager.cpp\<close>: the history of the devices the user connected to, with
  their passwords, kept in the user database and mirrored in a list for the user interface.

  The password is stored XORed with a fixed key and in Base64. The text codecs of Qt are fields of the
  environment; so are the clock, the order in which the database visits rows and, for the \<open>i\<close>-th SQL
  statement of a call, whether it executes.
\<close>


section \<open>State and environment\<close>

record rdm_env =
  re_ok :: "nat \<Rightarrow> bool"
  re_scan :: row_order
  re_now :: int
  re_created :: int
  re_toUtf8 :: "qstring \<Rightarrow> 8 word list"
  re_fromUtf8 :: "8 word list \<Rightarrow> qstring"
  re_toBase64 :: "8 word list \<Rightarrow> qstring"
  re_fromBase64 :: "qstring \<Rightarrow> 8 word list"

record device_history =
  dh_dataCenter :: user_data
  dh_devices :: "remote_device list"

datatype rdm_event = rdm_deviceListChanged | rdm_deviceAdded qstring | rdm_deviceRemoved qstring

definition MAX_DEVICE_COUNT :: nat where
  "MAX_DEVICE_COUNT = 50"

definition ENCRYPTION_KEY :: qstring where
  "ENCRYPTION_KEY = ''QuickDeskRemote2024''"


section \<open>Passwords\<close>

definition xor_key :: "8 word list \<Rightarrow> 8 word list" where
  "xor_key bs = map (\<lambda>i. bs ! i XOR of_char (ENCRYPTION_KEY ! (i mod length ENCRYPTION_KEY))) [0..<length bs]"

definition encryptPassword :: "rdm_env \<Rightarrow> qstring \<Rightarrow> qstring" where
  "encryptPassword env password = re_toBase64 env (xor_key (re_toUtf8 env password))"

definition decryptPassword :: "rdm_env \<Rightarrow> qstring \<Rightarrow> qstring" where
  "decryptPassword env encryptedPassword = re_fromUtf8 env (xor_key (re_fromBase64 env encryptedPassword))"


section \<open>Operations\<close>

text \<open>Reading the table appends the rows to the list, which the callers clear first, except \<open>init\<close>.\<close>

definition load_devices :: "nat \<Rightarrow> rdm_env \<Rightarrow> device_history \<Rightarrow> device_history \<times> bool" where
  "load_devices i env st = (case db_getAllRemoteDevices (re_ok env i) (re_scan env) (dh_dataCenter st) of
      None \<Rightarrow> (st, False)
    | Some rows \<Rightarrow> (st\<lparr>dh_devices := dh_devices st @ rows\<rparr>, True))"

definition reload_devices :: "nat \<Rightarrow> rdm_env \<Rightarrow> device_history \<Rightarrow> device_history \<times> bool" where
  "reload_devices i env st = load_devices i env (st\<lparr>dh_devices := []\<rparr>)"

definition rdm_init :: "rdm_env \<Rightarrow> device_history \<Rightarrow> device_history \<times> rdm_event list \<times> bool" where
  "rdm_init env st = (let (st1, loaded) = load_devices 0 env st
     in if \<not> loaded then (st1, [], False) else (st1, [rdm_deviceListChanged], True))"

definition rdm_cleanOldDevices :: "rdm_env \<Rightarrow> device_history \<Rightarrow> device_history" where
  "rdm_cleanOldDevices env st =
     (let nonFavoriteCount = length (filter (\<lambda>r. \<not> rd_isFavorite r) (dh_devices st))
      in if nonFavoriteCount > MAX_DEVICE_COUNT
         then fst (reload_devices 4 env (st\<lparr>dh_dataCenter :=
                fst (db_cleanOldDevices (re_ok env 3) (re_scan env) MAX_DEVICE_COUNT (dh_dataCenter st))\<rparr>))
         else st)"

definition saved_device :: "rdm_env \<Rightarrow> qstring \<Rightarrow> qstring \<Rightarrow> qstring \<Rightarrow> remote_device" where
  "saved_device env deviceId password deviceName =
     \<lparr>rd_id = 0, rd_deviceId = deviceId, rd_deviceName = (if deviceName = [] then deviceId else deviceName),
      rd_accessPassword = encryptPassword env password, rd_isFavorite = False, rd_connectionCount = 0,
      rd_lastConnectedTime = re_now env, rd_createdTime = re_created env\<rparr>"

definition saveDevice ::
    "rdm_env \<Rightarrow> qstring \<Rightarrow> qstring \<Rightarrow> qstring \<Rightarrow> device_history \<Rightarrow> device_history \<times> rdm_event list \<times> bool" where
  "saveDevice env deviceId password deviceName st =
     (if deviceId = [] \<or> password = [] then (st, [], False)
      else
        let (db, stored) = db_addOrUpdateRemoteDevice (re_ok env 0) (re_ok env 1)
                             (saved_device env deviceId password deviceName) (dh_dataCenter st)
        in if \<not> stored then (st\<lparr>dh_dataCenter := db\<rparr>, [], False)
           else
             let (st1, loaded) = reload_devices 2 env (st\<lparr>dh_dataCenter := db\<rparr>)
             in if \<not> loaded then (st1, [], False)
                else (rdm_cleanOldDevices env st1, [rdm_deviceListChanged, rdm_deviceAdded deviceId], True))"

definition removeDevice :: "rdm_env \<Rightarrow> qstring \<Rightarrow> device_history \<Rightarrow> device_history \<times> rdm_event list \<times> bool" where
  "removeDevice env deviceId st =
     (if deviceId = [] then (st, [], False)
      else
        let (db, removed) = db_removeRemoteDevice (re_ok env 0) deviceId (dh_dataCenter st)
        in if \<not> removed then (st\<lparr>dh_dataCenter := db\<rparr>, [], False)
           else
             let (st1, loaded) = reload_devices 1 env (st\<lparr>dh_dataCenter := db\<rparr>)
             in if \<not> loaded then (st1, [], False)
                else (st1, [rdm_deviceListChanged, rdm_deviceRemoved deviceId], True))"

definition getDevicePassword :: "rdm_env \<Rightarrow> qstring \<Rightarrow> device_history \<Rightarrow> qstring" where
  "getDevicePassword env deviceId st =
     (case db_getRemoteDevice (re_ok env 0) deviceId (dh_dataCenter st) of
        Some device \<Rightarrow> decryptPassword env (rd_accessPassword device)
      | None \<Rightarrow> [])"

text \<open>The fields a device shows to the user interface; the password is not among them.\<close>

definition deviceToVariant :: "remote_device \<Rightarrow> qstring \<times> qstring \<times> bool \<times> int \<times> int" where
  "deviceToVariant r = (rd_deviceId r, rd_deviceName r, rd_isFavorite r, rd_connectionCount r, rd_lastConnectedTime r)"

definition deviceList :: "device_history \<Rightarrow> (qstring \<times> qstring \<times> bool \<times> int \<times> int) list" where
  "deviceList st = map deviceToVariant (dh_devices st)"

definition updateDeviceConnected :: "rdm_env \<Rightarrow> qstring \<Rightarrow> device_history \<Rightarrow> device_history \<times> rdm_event list" where
  "updateDeviceConnected env deviceId st =
     (if deviceId = [] then (st, [])
      else
        let db = fst (db_updateDeviceLastConnected (re_ok env 0) (re_now env) deviceId (dh_dataCenter st));
            (st1, loaded) = reload_devices 1 env (st\<lparr>dh_dataCenter := db\<rparr>)
        in (st1, if loaded then [rdm_deviceListChanged] else []))"

definition updateDevicePassword ::
    "rdm_env \<Rightarrow> qstring \<Rightarrow> qstring \<Rightarrow> device_history \<Rightarrow> device_history \<times> rdm_event list \<times> bool" where
  "updateDevicePassword env deviceId newPassword st =
     (if deviceId = [] \<or> newPassword = [] then (st, [], False)
      else if db_getRemoteDevice (re_ok env 0) deviceId (dh_dataCenter st) = None then (st, [], False)
      else
        let (db, updated) = db_updateDevicePassword (re_ok env 1) deviceId (encryptPassword env newPassword) (dh_dataCenter st)
        in if \<not> updated then (st\<lparr>dh_dataCenter := db\<rparr>, [], False)
           else
             let (st1, loaded) = reload_devices 2 env (st\<lparr>dh_dataCenter := db\<rparr>)
             in (st1, if loaded then [rdm_deviceListChanged] else [], True))"


section \<open>The history as a state machine\<close>

text \<open>\<open>RD_restart\<close> is a new manager, which starts with an empty list, on the same database.\<close>

datatype rdm_call =
    RD_restart
  | RD_save qstring qstring qstring
  | RD_remove qstring
  | RD_connected qstring
  | RD_password qstring qstring

fun rdm_exec :: "rdm_env \<Rightarrow> rdm_call \<Rightarrow> device_history \<Rightarrow> device_history" where
  "rdm_exec env RD_restart st = fst (rdm_init env (st\<lparr>dh_devices := []\<rparr>))"
| "rdm_exec env (RD_save d p n) st = fst (saveDevice env d p n st)"
| "rdm_exec env (RD_remove d) st = fst (removeDevice env d st)"
| "rdm_exec env (RD_connected d) st = fst (updateDeviceConnected env d st)"
| "rdm_exec env (RD_password d p) st = fst (updateDevicePassword env d p st)"

text \<open>An environment in which the database works: statements execute and a query visits each row once.\<close>

definition db_works :: "rdm_env \<Rightarrow> bool" where
  "db_works env \<longleftrightarrow> (\<forall>i. re_ok env i) \<and> (\<forall>rows. mset (re_scan env rows) = mset rows)"

definition rdm_step :: "device_history \<Rightarrow> device_history \<Rightarrow> bool" where
  "rdm_step st st' \<longleftrightarrow> (\<exists>env c. db_works env \<and> st' = rdm_exec env c st)"

definition DeviceHistory_empty :: device_history where
  "DeviceHistory_empty = \<lparr>dh_dataCenter = UserData_empty, dh_devices = []\<rparr>"


section \<open>Passwords come back\<close>

lemma length_xor_key [simp]: "length (xor_key bs) = length bs"
  by (simp add: xor_key_def)

lemma xor_key_involution [simp]: "xor_key (xor_key bs) = bs"
  by (rule nth_equalityI) (simp_all add: xor_key_def xor.assoc)

lemma decrypt_encrypt:
  assumes "re_fromBase64 env (re_toBase64 env (xor_key (re_toUtf8 env p))) = xor_key (re_toUtf8 env p)"
    and "re_fromUtf8 env (re_toUtf8 env p) = p"
  shows "decryptPassword env (encryptPassword env p) = p"
  using assms by (simp add: encryptPassword_def decryptPassword_def)

lemma reload_works:
  assumes "db_works env"
  shows "reload_devices i env st = (st\<lparr>dh_devices := the (db_getAllRemoteDevices True (re_scan env) (dh_dataCenter st))\<rparr>, True)"
  using assms by (simp add: reload_devices_def load_devices_def db_getAllRemoteDevices_def db_works_def Let_def)

lemma reload_table [simp]: "dh_dataCenter (fst (reload_devices i env st)) = dh_dataCenter st"
  by (simp add: reload_devices_def load_devices_def split: option.split)

text \<open>
  The sub-query keeps \<open>n\<close> rows, and it keeps a row that is more recent than all other rows.
\<close>

lemma kept_rows:
  assumes "table_ok db" and "mset (scan (ud_devices db)) = mset (ud_devices db)"
  shows "length (filter (\<lambda>r. \<not> rd_isFavorite r) (ud_devices (fst (db_cleanOldDevices True scan n db)))) \<le> n"
proof -
  have "filter (\<lambda>r. \<not> rd_isFavorite r) (ud_devices (fst (db_cleanOldDevices True scan n db)))
      = filter (\<lambda>r. \<not> rd_isFavorite r \<and> rd_id r \<in> set (recent_ids scan n db)) (ud_devices db)" (is "?l = ?k")
    by (simp add: db_cleanOldDevices_def) (rule filter_cong, auto)
  moreover have "length ?k = card (set (map rd_id ?k))"
    using assms(1) distinct_card[of "map rd_id ?k"] by (simp add: table_ok_def distinct_map_filter)
  moreover have "card (set (map rd_id ?k)) \<le> card (set (recent_ids scan n db))"
    by (rule card_mono) auto
  moreover have "card (set (recent_ids scan n db)) \<le> n"
    by (rule le_trans[OF card_length]) (simp add: recent_ids_def)
  ultimately show ?thesis by simp
qed

lemma newest_first:
  assumes "r \<in> set rows" and "\<And>r'. r' \<in> set rows \<Longrightarrow> r' \<noteq> r \<Longrightarrow> rd_lastConnectedTime r' < rd_lastConnectedTime r"
  shows "\<exists>rest. sort_key recency rows = r # rest"
proof (cases "sort_key recency rows")
  case Nil
  then have "rows = []" by (metis length_sort length_0_conv)
  then show ?thesis using assms(1) by simp
next
  case (Cons a rest)
  have s: "set (a # rest) = set rows" by (simp only: Cons[symmetric] set_sort)
  have "recency a \<le> recency r"
    using sorted_sort_key[of recency rows] s assms(1) unfolding Cons by auto
  moreover have "a \<in> set rows" using s by auto
  ultimately have "a = r" using assms(2)[of a] by (auto simp: recency_def)
  then show ?thesis using Cons by simp
qed

lemma find_map_same: "(\<And>x. P (f x) = P x) \<Longrightarrow> find P (map f xs) = map_option f (find P xs)"
  by (induction xs) simp_all

lemma find_kept: "find P xs = Some r \<Longrightarrow> Q r \<Longrightarrow> find P (filter Q xs) = Some r"
  by (induction xs) (auto split: if_splits)

lemma find_absent: "\<not> list_ex P xs \<Longrightarrow> find P (xs @ [x]) = (if P x then Some x else None)"
  by (induction xs) auto

lemma find_present: "list_ex P xs \<Longrightarrow> \<exists>x. find P xs = Some x \<and> x \<in> set xs \<and> P x"
  by (induction xs) auto

definition stored_as :: "rdm_env \<Rightarrow> qstring \<Rightarrow> qstring \<Rightarrow> remote_device \<Rightarrow> bool" where
  "stored_as env d p r \<longleftrightarrow> rd_deviceId r = d \<and> rd_accessPassword r = encryptPassword env p \<and> \<not> rd_isFavorite r
     \<and> rd_lastConnectedTime r = re_now env"

lemma added_row:
  fixes p n :: qstring
  assumes "\<And>r. r \<in> set (ud_devices db) \<Longrightarrow> rd_deviceId r \<noteq> d \<Longrightarrow> rd_lastConnectedTime r < re_now env"
  defines "db' \<equiv> fst (db_addOrUpdateRemoteDevice True True (saved_device env d p n) db)"
  shows "\<exists>r. find (has_id d) (ud_devices db') = Some r \<and> stored_as env d p r"
    and "r \<in> set (ud_devices db') \<Longrightarrow> rd_deviceId r \<noteq> d \<Longrightarrow> rd_lastConnectedTime r < re_now env"
proof -
  show "\<exists>r. find (has_id d) (ud_devices db') = Some r \<and> stored_as env d p r"
  proof (cases "list_ex (has_id d) (ud_devices db)")
    case True
    obtain r where "find (has_id d) (ud_devices db) = Some r" "has_id d r" using find_present[OF True] by blast
    then show ?thesis using True
      by (simp add: db'_def db_addOrUpdateRemoteDevice_def saved_device_def sql_update_def find_map_same stored_as_def)
  next
    case False
    then show ?thesis
      by (simp add: db'_def db_addOrUpdateRemoteDevice_def saved_device_def find_absent stored_as_def Let_def)
  qed
  show "r \<in> set (ud_devices db') \<Longrightarrow> rd_deviceId r \<noteq> d \<Longrightarrow> rd_lastConnectedTime r < re_now env"
    using assms(1)
    by (auto simp: db'_def db_addOrUpdateRemoteDevice_def saved_device_def sql_update_def Let_def split: if_splits)
qed

lemma clean_keeps_newest:
  assumes "table_ok db" "mset (scan (ud_devices db)) = mset (ud_devices db)" "n > 0"
    and "find (has_id d) (ud_devices db) = Some r" "\<not> rd_isFavorite r"
    and newest: "\<And>r'. r' \<in> set (ud_devices db) \<Longrightarrow> rd_deviceId r' \<noteq> d \<Longrightarrow> rd_lastConnectedTime r' < rd_lastConnectedTime r"
  shows "find (has_id d) (ud_devices (fst (db_cleanOldDevices True scan n db))) = Some r"
proof -
  let ?rows = "filter (\<lambda>r. \<not> rd_isFavorite r) (scan (ud_devices db))"
  have r: "r \<in> set (ud_devices db)" "rd_deviceId r = d" using assms(4) by (auto simp: find_Some_iff)
  have same: "set (scan (ud_devices db)) = set (ud_devices db)" using assms(2) by (metis set_mset_mset)
  have "rd_lastConnectedTime r' < rd_lastConnectedTime r" if "r' \<in> set ?rows" "r' \<noteq> r" for r'
  proof (rule newest)
    show m: "r' \<in> set (ud_devices db)" using that(1) same by simp
    show "rd_deviceId r' \<noteq> d" using assms(1) r m that(2) by (auto simp: table_ok_def distinct_map inj_on_def)
  qed
  then obtain rest where "sort_key recency ?rows = r # rest"
    using newest_first[of r ?rows] r(1) assms(5) same by auto
  then have "rd_id r \<in> set (recent_ids scan n db)" using assms(3) by (cases n) (simp_all add: recent_ids_def)
  then show ?thesis using assms(4) by (simp add: db_cleanOldDevices_def find_kept)
qed

text \<open>
  C29. A saved password comes back. If the database works and the clock is past the last connection of every
  other device, \<open>saveDevice\<close> succeeds and \<open>getDevicePassword\<close> returns the password that was
  saved, whether the device was known or not and whether or not old devices had to be removed to make room.
\<close>

theorem saved_password_comes_back:
  assumes "db_works env" "table_ok (dh_dataCenter st)" "d \<noteq> []" "p \<noteq> []"
    and "\<And>r. r \<in> set (ud_devices (dh_dataCenter st)) \<Longrightarrow> rd_deviceId r \<noteq> d \<Longrightarrow> rd_lastConnectedTime r < re_now env"
    and "re_fromBase64 env (re_toBase64 env (xor_key (re_toUtf8 env p))) = xor_key (re_toUtf8 env p)"
    and "re_fromUtf8 env (re_toUtf8 env p) = p"
  shows "snd (snd (saveDevice env d p n st)) \<and> getDevicePassword env d (fst (saveDevice env d p n st)) = p"
proof -
  define db where "db = fst (db_addOrUpdateRemoteDevice True True (saved_device env d p n) (dh_dataCenter st))"
  have add: "db_addOrUpdateRemoteDevice True True (saved_device env d p n) (dh_dataCenter st) = (db, True)"
    by (simp add: db_def db_addOrUpdateRemoteDevice_def Let_def)
  obtain r where r: "find (has_id d) (ud_devices db) = Some r" "stored_as env d p r"
    using added_row(1)[OF assms(5)] unfolding db_def by blast
  have ok: "re_ok env i" "mset (re_scan env rows) = mset rows" for i rows using assms(1) by (simp_all add: db_works_def)
  have "find (has_id d) (ud_devices (fst (db_cleanOldDevices True (re_scan env) MAX_DEVICE_COUNT db))) = Some r"
    using added_row(2)[OF assms(5), folded db_def] r
    by (intro clean_keeps_newest) (simp_all add: add_ok[OF assms(2)] db_def ok(2) MAX_DEVICE_COUNT_def stored_as_def)
  then have "find (has_id d) (ud_devices (dh_dataCenter (fst (saveDevice env d p n st)))) = Some r"
    using assms(3,4) r(1) ok(1)
    by (simp add: saveDevice_def add reload_works[OF assms(1)] rdm_cleanOldDevices_def Let_def)
  moreover have "snd (snd (saveDevice env d p n st))"
    using assms(3,4) ok(1) by (simp add: saveDevice_def add reload_works[OF assms(1)] Let_def)
  ultimately show ?thesis
    using r(2) decrypt_encrypt[OF assms(6,7)] ok(1) by (simp add: getDevicePassword_def db_getRemoteDevice_def stored_as_def)
qed


section \<open>The history is bounded and shown in order\<close>

text \<open>The list mirrors the table, newest first; nothing is ever marked as a favourite.\<close>

definition mirrors :: "user_data \<Rightarrow> remote_device list \<Rightarrow> bool" where
  "mirrors db rows \<longleftrightarrow> mset rows = mset (ud_devices db) \<and> sorted_wrt (\<lambda>a b. rd_lastConnectedTime b \<le> rd_lastConnectedTime a) rows"

definition plain_rows :: "user_data \<Rightarrow> bool" where
  "plain_rows db \<longleftrightarrow> table_ok db \<and> (\<forall>r \<in> set (ud_devices db). \<not> rd_isFavorite r)"

definition history_ok :: "device_history \<Rightarrow> bool" where
  "history_ok st \<longleftrightarrow> plain_rows (dh_dataCenter st) \<and> length (ud_devices (dh_dataCenter st)) \<le> MAX_DEVICE_COUNT
     \<and> mirrors (dh_dataCenter st) (dh_devices st)"

lemma fetched_mirrors:
  assumes "db_works env" "plain_rows db"
  shows "mirrors db (the (db_getAllRemoteDevices True (re_scan env) db))"
proof -
  let ?rows = "sort_key recency (re_scan env (ud_devices db))"
  have m: "mset ?rows = mset (ud_devices db)" using assms(1) by (simp add: db_works_def)
  then have "\<forall>r \<in> set ?rows. \<not> rd_isFavorite r" using assms(2) by (metis plain_rows_def set_mset_mset)
  then have "the (db_getAllRemoteDevices True (re_scan env) db) = ?rows"
    by (simp add: db_getAllRemoteDevices_def Let_def filter_id_conv filter_empty_conv)
  moreover have "sorted_wrt (\<lambda>a b. rd_lastConnectedTime b \<le> rd_lastConnectedTime a) ?rows"
    using sorted_sort_key[of recency "re_scan env (ud_devices db)"] by (simp add: sorted_map recency_def)
  ultimately show ?thesis using m by (simp add: mirrors_def)
qed

lemma reload_history:
  assumes "db_works env" "plain_rows (dh_dataCenter st)" "length (ud_devices (dh_dataCenter st)) \<le> MAX_DEVICE_COUNT"
  shows "history_ok (fst (reload_devices i env st))"
  using assms fetched_mirrors[OF assms(1,2)] by (simp add: history_ok_def reload_works)

lemma plain_rows_ops:
  assumes "plain_rows db"
  shows "plain_rows (fst (db_removeRemoteDevice a d db))" "plain_rows (fst (db_updateDeviceLastConnected a t d db))"
    "plain_rows (fst (db_updateDevicePassword a d p db))" "plain_rows (fst (db_cleanOldDevices a scan k db))"
    "plain_rows (fst (db_addOrUpdateRemoteDevice a b (saved_device env d p n) db))"
proof -
  have "table_ok db" and "\<forall>r \<in> set (ud_devices db). \<not> rd_isFavorite r" using assms by (simp_all add: plain_rows_def)
  then show "plain_rows (fst (db_removeRemoteDevice a d db))" "plain_rows (fst (db_updateDeviceLastConnected a t d db))"
    "plain_rows (fst (db_updateDevicePassword a d p db))" "plain_rows (fst (db_cleanOldDevices a scan k db))"
    "plain_rows (fst (db_addOrUpdateRemoteDevice a b (saved_device env d p n) db))"
    unfolding plain_rows_def
    by (auto simp: table_ops_ok) (auto simp: db_removeRemoteDevice_def db_updateDeviceLastConnected_def
        db_updateDevicePassword_def db_cleanOldDevices_def db_addOrUpdateRemoteDevice_def sql_update_def
        saved_device_def Let_def split: if_splits)
qed

lemma executed:
  "snd (db_removeRemoteDevice True d db)"
  "db_getRemoteDevice True d db \<noteq> None \<Longrightarrow> snd (db_updateDevicePassword True d p db)"
  by (auto simp: db_removeRemoteDevice_def db_getRemoteDevice_def db_updateDevicePassword_def find_None_iff list_ex_iff)

lemma row_count_ops:
  "length (ud_devices (fst (db_removeRemoteDevice a d db))) \<le> length (ud_devices db)"
  "length (ud_devices (fst (db_updateDeviceLastConnected a t d db))) = length (ud_devices db)"
  "length (ud_devices (fst (db_updateDevicePassword a d p db))) = length (ud_devices db)"
  by (simp_all add: db_removeRemoteDevice_def db_updateDeviceLastConnected_def db_updateDevicePassword_def sql_update_def)

lemma plain_count: "plain_rows db \<Longrightarrow> length (filter (\<lambda>r. \<not> rd_isFavorite r) (ud_devices db)) = length (ud_devices db)"
  by (simp add: plain_rows_def filter_id_conv)

lemma mirrors_count:
  assumes "mirrors db rows" "plain_rows db"
  shows "length (filter (\<lambda>r. \<not> rd_isFavorite r) rows) = length (ud_devices db)"
proof -
  have "mset rows = mset (ud_devices db)" using assms(1) by (simp add: mirrors_def)
  then have "mset (filter (\<lambda>r. \<not> rd_isFavorite r) rows) = mset (filter (\<lambda>r. \<not> rd_isFavorite r) (ud_devices db))"
    by (simp add: mset_filter)
  then show ?thesis using plain_count[OF assms(2)] by (metis mset_eq_length)
qed

lemma clean_history:
  assumes "db_works env" "plain_rows (dh_dataCenter st)" "mirrors (dh_dataCenter st) (dh_devices st)"
  shows "history_ok (rdm_cleanOldDevices env st)"
proof (cases "length (ud_devices (dh_dataCenter st)) > MAX_DEVICE_COUNT")
  case True
  define db where "db = fst (db_cleanOldDevices True (re_scan env) MAX_DEVICE_COUNT (dh_dataCenter st))"
  have p: "plain_rows db" unfolding db_def by (rule plain_rows_ops(4)[OF assms(2)])
  have "length (ud_devices db) \<le> MAX_DEVICE_COUNT"
    using kept_rows[of "dh_dataCenter st" "re_scan env" MAX_DEVICE_COUNT] assms(1,2) plain_count[OF p]
    by (simp add: db_def plain_rows_def db_works_def)
  then have "history_ok (fst (reload_devices 4 env (st\<lparr>dh_dataCenter := db\<rparr>)))"
    using reload_history[OF assms(1), of "st\<lparr>dh_dataCenter := db\<rparr>"] p by simp
  then show ?thesis
    using True mirrors_count[OF assms(3,2)] assms(1) by (simp add: rdm_cleanOldDevices_def db_def db_works_def)
next
  case False
  then show ?thesis
    using mirrors_count[OF assms(3,2)] assms(2,3) by (simp add: rdm_cleanOldDevices_def history_ok_def)
qed

lemma save_history:
  assumes "db_works env" "history_ok st"
  shows "history_ok (fst (saveDevice env d p n st))"
proof -
  define db where "db = fst (db_addOrUpdateRemoteDevice True True (saved_device env d p n) (dh_dataCenter st))"
  have add: "db_addOrUpdateRemoteDevice True True (saved_device env d p n) (dh_dataCenter st) = (db, True)"
    by (simp add: db_def db_addOrUpdateRemoteDevice_def Let_def)
  have "plain_rows db" unfolding db_def using assms(2) by (simp add: history_ok_def plain_rows_ops)
  then have "history_ok (rdm_cleanOldDevices env (fst (reload_devices 2 env (st\<lparr>dh_dataCenter := db\<rparr>))))"
    using fetched_mirrors[OF assms(1)] by (intro clean_history[OF assms(1)]) (simp_all add: reload_works[OF assms(1)])
  moreover have "re_ok env i" for i using assms(1) by (simp add: db_works_def)
  ultimately show ?thesis
    using assms by (simp add: saveDevice_def add reload_works[OF assms(1)] Let_def)
qed

lemma rdm_exec_history:
  assumes "db_works env" "history_ok st"
  shows "history_ok (rdm_exec env c st)"
proof -
  have h: "plain_rows (dh_dataCenter st)" "length (ud_devices (dh_dataCenter st)) \<le> MAX_DEVICE_COUNT"
    using assms(2) by (simp_all add: history_ok_def)
  have reload: "history_ok (fst (reload_devices i env (st\<lparr>dh_dataCenter := db\<rparr>)))"
    if "plain_rows db" "length (ud_devices db) \<le> length (ud_devices (dh_dataCenter st))" for i db
    using reload_history[OF assms(1), of "st\<lparr>dh_dataCenter := db\<rparr>"] that h(2) by simp
  have ok: "re_ok env i" for i using assms(1) by (simp add: db_works_def)
  show ?thesis
  proof (cases c)
    case RD_restart
    have "rdm_exec env c st = fst (reload_devices 0 env st)"
      by (simp add: RD_restart rdm_init_def reload_devices_def split_beta Let_def)
    then show ?thesis using reload_history[OF assms(1) h] by simp
  next
    case (RD_save d p n)
    then show ?thesis using save_history[OF assms] by simp
  next
    case (RD_remove d)
    then show ?thesis
      using assms(2) reload[OF plain_rows_ops(1)[OF h(1)] row_count_ops(1)]
      by (simp add: removeDevice_def split_beta Let_def ok executed)
  next
    case (RD_connected d)
    then show ?thesis
      using assms(2) reload[OF plain_rows_ops(2)[OF h(1)] eq_imp_le[OF row_count_ops(2)]]
      by (simp add: updateDeviceConnected_def split_beta Let_def)
  next
    case (RD_password d p)
    then show ?thesis
      using assms(2) reload[OF plain_rows_ops(3)[OF h(1)] eq_imp_le[OF row_count_ops(3)]]
      by (simp add: updateDevicePassword_def split_beta Let_def ok executed)
  qed
qed

interpretation history: invariant_system "\<lambda>st. st = DeviceHistory_empty" rdm_step history_ok
  by unfold_locales
    (auto simp: rdm_step_def rdm_exec_history, simp add: history_ok_def DeviceHistory_empty_def UserData_empty_def plain_rows_def
      mirrors_def table_ok_def)

text \<open>
  C30. As long as the database works, the history is bounded and its list is the table: at
  most 50 devices, each once, the ones the table holds, the most recent connection first.
\<close>

theorem history_bounded:
  assumes "reachable (\<lambda>st. st = DeviceHistory_empty) rdm_step st"
  shows "length (deviceList st) \<le> 50 \<and> distinct (map fst (deviceList st))
    \<and> set (deviceList st) = deviceToVariant ` set (ud_devices (dh_dataCenter st))
    \<and> sorted_wrt (\<ge>) (map (\<lambda>(_, _, _, _, t). t) (deviceList st))"
proof -
  let ?db = "ud_devices (dh_dataCenter st)"
  have ok: "history_ok st" using assms by (rule history.reachable_inv)
  then have m: "mset (dh_devices st) = mset ?db" and l: "length ?db \<le> 50" and d: "distinct (map rd_deviceId ?db)"
    and s: "sorted_wrt (\<lambda>a b. rd_lastConnectedTime b \<le> rd_lastConnectedTime a) (dh_devices st)"
    by (simp_all add: history_ok_def mirrors_def plain_rows_def table_ok_def MAX_DEVICE_COUNT_def)
  have "mset (map rd_deviceId (dh_devices st)) = mset (map rd_deviceId ?db)" using m by simp
  then have "distinct (map rd_deviceId (dh_devices st))" using d by (metis mset_eq_imp_distinct_iff)
  moreover have "length (dh_devices st) = length ?db" "set (dh_devices st) = set ?db"
    using m by (metis mset_eq_length, metis set_mset_mset)
  ultimately show ?thesis
    using l s by (simp add: deviceList_def deviceToVariant_def comp_def sorted_wrt_map)
qed


section \<open>Runs\<close>

definition demo_rdm_env :: "int \<Rightarrow> rdm_env" where
  "demo_rdm_env now = \<lparr>re_ok = (\<lambda>_. True), re_scan = rev, re_now = now, re_created = now, re_toUtf8 = map of_char,
     re_fromUtf8 = map (\<lambda>b. char_of (unat b)), re_toBase64 = map (\<lambda>b. char_of (unat b)), re_fromBase64 = map of_char\<rparr>"

definition demo_history :: device_history where
  "demo_history = rdm_exec (demo_rdm_env 7) (RD_save ''b'' ''y'' []) (rdm_exec (demo_rdm_env 5) (RD_save ''a'' ''x'' []) DeviceHistory_empty)"

lemma demo_db_works: "db_works (demo_rdm_env now)"
  by (simp add: db_works_def demo_rdm_env_def)

lemma demo_history_reachable: "reachable (\<lambda>st. st = DeviceHistory_empty) rdm_step demo_history"
proof -
  have "rdm_step st (rdm_exec (demo_rdm_env now) c st)" for st now c
    unfolding rdm_step_def using demo_db_works by blast
  then show ?thesis unfolding demo_history_def by (blast intro: reach_step reach_init)
qed

theorem history_bounded_witness:
  "length (deviceList demo_history) \<le> 50 \<and> map fst (deviceList demo_history) = [''b'', ''a'']"
proof -
  have "map fst (deviceList demo_history) = [''b'', ''a'']" by code_simp
  then show ?thesis using history_bounded[OF demo_history_reachable] by simp
qed

theorem saved_password_comes_back_witness:
  "getDevicePassword (demo_rdm_env 9) ''a'' (fst (saveDevice (demo_rdm_env 9) ''a'' ''secret'' [] demo_history)) = ''secret''"
proof -
  have rows: "ud_devices (dh_dataCenter demo_history) = [
      \<lparr>rd_id = 1, rd_deviceId = ''a'', rd_deviceName = ''a'', rd_accessPassword = encryptPassword (demo_rdm_env 5) ''x'',
       rd_isFavorite = False, rd_connectionCount = 1, rd_lastConnectedTime = 5, rd_createdTime = 5\<rparr>,
      \<lparr>rd_id = 2, rd_deviceId = ''b'', rd_deviceName = ''b'', rd_accessPassword = encryptPassword (demo_rdm_env 7) ''y'',
       rd_isFavorite = False, rd_connectionCount = 1, rd_lastConnectedTime = 7, rd_createdTime = 7\<rparr>]"
    by code_simp
  have codec: "re_fromBase64 (demo_rdm_env 9) (re_toBase64 (demo_rdm_env 9) (xor_key (re_toUtf8 (demo_rdm_env 9) ''secret'')))
      = xor_key (re_toUtf8 (demo_rdm_env 9) ''secret'')" "re_fromUtf8 (demo_rdm_env 9) (re_toUtf8 (demo_rdm_env 9) ''secret'') = ''secret''"
    "re_now (demo_rdm_env 9) = 9"
    by code_simp+
  have "table_ok (dh_dataCenter demo_history)"
    using history.reachable_inv[OF demo_history_reachable] by (simp add: history_ok_def plain_rows_def)
  moreover have "rd_lastConnectedTime r < re_now (demo_rdm_env 9)"
    if "r \<in> set (ud_devices (dh_dataCenter demo_history))" for r
    using that unfolding rows codec(3) by auto
  ultimately show ?thesis
    using saved_password_comes_back[OF demo_db_works[of 9], of demo_history "''a''" "''secret''" "[]"] codec(1,2) by blast
qed

end
