(* ===== verification/Settings.thy ===== *)
theory Settings
  imports Json Actions
begin

text \<open>
  Persistent settings: the key/value table of \<open>QuickDesk/src/core/db/appconfigdatabase.cpp\<close>, the accessors
  that the macros of \<open>core/localconfigcenter.cpp\<close> generate for it, and the two managers that keep a
  copy of a setting in memory, \<open>manager/ServerManager.cpp\<close> and \<open>manager/TurnServerManager.cpp\<close>.

  A boolean argument says whether an SQL statement executes.
\<close>


section \<open>The table\<close>

type_synonym config = "(qstring, qstring) qmap"

record app_config =
  ac_values :: config
  ac_old :: "config option" \<comment> \<open>the table of old versions, if it is there\<close>

text \<open>
  The rows of the old table are copied, all or none: a key that is in both tables violates the primary
  key and the statement has no effect. The old table is dropped whatever became of the copy.
\<close>

definition copy_rows :: "config \<Rightarrow> config \<Rightarrow> config" where
  "copy_rows old new =
     (if list_ex (\<lambda>(k, v). qm_contains new k) old then new else fold (\<lambda>(k, v). qm_insert k v) old new)"

definition ac_initTables :: "bool \<Rightarrow> bool \<Rightarrow> bool \<Rightarrow> app_config \<Rightarrow> app_config \<times> bool" where
  "ac_initTables okCreate okInsert okDrop ac =
     (if \<not> okCreate then (ac, False)
      else case ac_old ac of
             None \<Rightarrow> (ac, True)
           | Some [] \<Rightarrow> (ac, True)
           | Some (r # rs) \<Rightarrow>
               (ac\<lparr>ac_values := (if okInsert then copy_rows (r # rs) (ac_values ac) else ac_values ac),
                   ac_old := (if okDrop then None else ac_old ac)\<rparr>, True))"

text \<open>If a key of the old table is already in the new one, the upgrade loses all old settings.\<close>

lemma upgrade_loses_settings:
  assumes "ac_old ac = Some old" "k \<in> set (qm_keys old)" "qm_contains (ac_values ac) k"
  shows "ac_initTables True okInsert True ac = (ac\<lparr>ac_old := None\<rparr>, True)"
proof -
  have "list_ex (\<lambda>(k, v). qm_contains (ac_values ac) k) old" using assms(2,3) by (force simp: list_ex_iff)
  then show ?thesis using assms(1,2) by (cases old) (simp_all add: ac_initTables_def copy_rows_def)
qed

definition cfg_get :: "qstring \<Rightarrow> config \<Rightarrow> qstring" where
  "cfg_get key c = qm_value [] c key"

definition cfg_set :: "bool \<Rightarrow> qstring \<Rightarrow> qstring \<Rightarrow> config \<Rightarrow> config" where
  "cfg_set ok key v c = (if ok then qm_insert key v c else c)"

lemma cfg_get_set: "cfg_get key (cfg_set ok key' v c) = (if ok \<and> key = key' then v else cfg_get key c)"
  by (simp add: cfg_get_def cfg_set_def qm_value_insert)


section \<open>Typed accessors\<close>

datatype cfg_event = cfg_intChanged qstring int | cfg_boolChanged qstring bool | cfg_stringChanged qstring qstring

definition lcc_getInt :: "qstring \<Rightarrow> int \<Rightarrow> config \<Rightarrow> int" where
  "lcc_getInt key defaultValue c = (let v = cfg_get key c in if v = [] then defaultValue else string_toInt v)"

definition lcc_setInt :: "bool \<Rightarrow> qstring \<Rightarrow> int \<Rightarrow> config \<Rightarrow> config \<times> cfg_event list" where
  "lcc_setInt ok key v c =
     (if cfg_get key c \<noteq> [] \<and> lcc_getInt key 0 c = v then (c, [])
      else (cfg_set ok key (string_of_int v) c, [cfg_intChanged key v]))"

definition lcc_getBool :: "qstring \<Rightarrow> bool \<Rightarrow> config \<Rightarrow> bool" where
  "lcc_getBool key defaultValue c = (let v = cfg_get key c in if v = [] then defaultValue else string_toInt v \<noteq> 0)"

definition lcc_setBool :: "bool \<Rightarrow> qstring \<Rightarrow> bool \<Rightarrow> config \<Rightarrow> config \<times> cfg_event list" where
  "lcc_setBool ok key v c =
     (if cfg_get key c \<noteq> [] \<and> lcc_getBool key False c = v then (c, [])
      else (cfg_set ok key (string_of_int (of_bool v)) c, [cfg_boolChanged key v]))"

definition lcc_getString :: "qstring \<Rightarrow> qstring \<Rightarrow> config \<Rightarrow> qstring" where
  "lcc_getString key defaultValue c = (let v = cfg_get key c in if v = [] then defaultValue else v)"

definition lcc_setString :: "bool \<Rightarrow> qstring \<Rightarrow> qstring \<Rightarrow> config \<Rightarrow> config \<times> cfg_event list" where
  "lcc_setString ok key v c =
     (if cfg_get key c \<noteq> [] \<and> lcc_getString key [] c = v then (c, [])
      else (cfg_set ok key v c, [cfg_stringChanged key v]))"

text \<open>
  The contract of a setting: a value that can be stored is read back whatever the default is, storing it
  again changes nothing and is not announced, and no other key is touched.
\<close>

locale setting =
  fixes get :: "qstring \<Rightarrow> 'v \<Rightarrow> config \<Rightarrow> 'v"
    and put :: "qstring \<Rightarrow> 'v \<Rightarrow> config \<Rightarrow> config \<times> cfg_event list"
    and storable :: "'v \<Rightarrow> bool"
  assumes get_put: "storable v \<Longrightarrow> get key d (fst (put key v c)) = v"
    and put_again: "storable v \<Longrightarrow> put key v (fst (put key v c)) = (fst (put key v c), [])"
    and put_other: "key' \<noteq> key \<Longrightarrow> get key' d (fst (put key v c)) = get key' d c"
begin

definition write_all :: "(qstring \<times> 'v) list \<Rightarrow> config \<Rightarrow> config" where
  "write_all kvs c = foldl (\<lambda>c (k, v). fst (put k v c)) c kvs"

lemma last_write_wins:
  assumes "list_all (\<lambda>(k, v). storable v) kvs"
  shows "get key d (write_all kvs c) = (case map_of (rev kvs) key of Some v \<Rightarrow> v | None \<Rightarrow> get key d c)"
  using assms
proof (induction kvs rule: rev_induct)
  case Nil
  then show ?case by (simp add: write_all_def)
next
  case (snoc kv kvs)
  obtain k v where kv: "kv = (k, v)" by (cases kv)
  have "write_all (kvs @ [kv]) c = fst (put k v (write_all kvs c))" by (simp add: write_all_def kv)
  then show ?case using snoc by (cases "k = key") (simp_all add: kv get_put put_other)
qed

end

lemma string_of_int_nonempty [simp]: "string_of_int i \<noteq> []"
  by (simp add: string_of_int_def)

definition storable_int :: "int \<Rightarrow> bool" where
  "storable_int i \<longleftrightarrow> - (2 ^ 31) \<le> i \<and> i < 2 ^ 31"

interpretation int_setting: setting lcc_getInt "lcc_setInt True" storable_int
  by unfold_locales
    (auto simp: lcc_getInt_def lcc_setInt_def cfg_get_set string_toInt_of_int storable_int_def Let_def)

interpretation bool_setting: setting lcc_getBool "lcc_setBool True" "\<lambda>_. True"
  by unfold_locales
    (auto simp: lcc_getBool_def lcc_setBool_def cfg_get_set string_toInt_of_int Let_def)

interpretation string_setting: setting lcc_getString "lcc_setString True" "\<lambda>s. s \<noteq> []"
  by unfold_locales
    (auto simp: lcc_getString_def lcc_setString_def cfg_get_set Let_def)

end
