(* ===== verification/ServerSettings.thy ===== *)
theory ServerSettings
  imports Settings
begin

text \<open>
  \<open>QuickDesk/src/manager/ServerManager.cpp\<close>, the address of the signalling server, and
  \<open>manager/TurnServerManager.cpp\<close>, the ICE servers the user configured. Each keeps a copy of its setting
  in memory and writes every change through to the configuration.
\<close>


section \<open>The signalling server\<close>

record server_manager =
  sv_serverUrl :: qstring
  sv_status :: qstring

datatype sv_event = sv_serverUrlChanged | sv_statusChanged | sv_config cfg_event

definition kLegacyOfficialServerUrl :: qstring where
  "kLegacyOfficialServerUrl = ''ws://qdsignaling.quickcoder.cc:8060''"

definition kOfficialServerUrl :: qstring where
  "kOfficialServerUrl = ''wss://qdsignaling.quickcoder.cc''"

definition signalingServerUrl :: "config \<Rightarrow> qstring" where
  "signalingServerUrl = lcc_getString ''signalingServerUrl'' ''wss://qdsignaling.quickcoder.cc''"

definition sv_saveSettings :: "bool \<Rightarrow> server_manager \<Rightarrow> config \<Rightarrow> config \<times> sv_event list" where
  "sv_saveSettings ok sv c = (let (c', ev) = lcc_setString ok ''signalingServerUrl'' (sv_serverUrl sv) c in (c', map sv_config ev))"

definition sv_loadSettings :: "bool \<Rightarrow> config \<Rightarrow> server_manager \<times> config \<times> sv_event list" where
  "sv_loadSettings ok c =
     (let url = signalingServerUrl c
      in if url = kLegacyOfficialServerUrl
         then let sv = \<lparr>sv_serverUrl = kOfficialServerUrl, sv_status = []\<rparr>; (c', ev) = sv_saveSettings ok sv c in (sv, c', ev)
         else (\<lparr>sv_serverUrl = url, sv_status = []\<rparr>, c, []))"

definition setServerUrl :: "bool \<Rightarrow> qstring \<Rightarrow> server_manager \<times> config \<Rightarrow> (server_manager \<times> config) \<times> sv_event list" where
  "setServerUrl ok url st =
     (let (sv, c) = st
      in if sv_serverUrl sv = url then (st, [])
         else let sv' = sv\<lparr>sv_serverUrl := url\<rparr>; (c', ev) = sv_saveSettings ok sv' c
              in ((sv', c'), ev @ [sv_serverUrlChanged]))"

definition updateStatus :: "qstring \<Rightarrow> server_manager \<Rightarrow> server_manager \<times> sv_event list" where
  "updateStatus status sv = (if sv_status sv = status then (sv, []) else (sv\<lparr>sv_status := status\<rparr>, [sv_statusChanged]))"

text \<open>A new manager on the configuration an old one leaves has the same address, unless it was set to nothing or to the legacy one.\<close>

lemma server_url_survives:
  assumes "url \<noteq> []" "url \<noteq> kLegacyOfficialServerUrl" "signalingServerUrl c = sv_serverUrl sv"
  shows "sv_serverUrl (fst (sv_loadSettings ok' (snd (fst (setServerUrl True url (sv, c)))))) = url"
proof (cases "sv_serverUrl sv = url")
  case True
  then show ?thesis using assms by (simp add: setServerUrl_def sv_loadSettings_def Let_def)
next
  case False
  have "signalingServerUrl (snd (fst (setServerUrl True url (sv, c)))) = url"
    using False string_setting.get_put[OF assms(1), of "''signalingServerUrl''" _ c]
    by (simp add: setServerUrl_def sv_saveSettings_def signalingServerUrl_def split_beta Let_def)
  then show ?thesis using assms(2) by (simp add: sv_loadSettings_def Let_def)
qed


section \<open>ICE servers\<close>

record ice_env =
  ie_ok :: bool
  ie_toJson :: "json list \<Rightarrow> qstring" \<comment> \<open>compact JSON text of an array\<close>
  ie_fromJson :: "qstring \<Rightarrow> json list option" \<comment> \<open>\<open>Some\<close> if the text is a JSON array\<close>
  ie_urlValid :: "qstring \<Rightarrow> bool"

record ice_state =
  is_userServers :: "json list"
  is_config :: config

datatype ice_event = ice_serversChanged | ice_config cfg_event

definition turnServersJson :: "config \<Rightarrow> qstring" where
  "turnServersJson = lcc_getString ''turnServersJson'' []"

definition ts_loadSettings :: "ice_env \<Rightarrow> config \<Rightarrow> json list" where
  "ts_loadSettings env c =
     (let jsonStr = turnServersJson c
      in if jsonStr = [] then []
         else case ie_fromJson env jsonStr of Some servers \<Rightarrow> servers | None \<Rightarrow> [])"

definition TurnServerManager_init :: "ice_env \<Rightarrow> config \<Rightarrow> ice_state" where
  "TurnServerManager_init env c = \<lparr>is_userServers = ts_loadSettings env c, is_config = c\<rparr>"

definition ts_saveSettings :: "ice_env \<Rightarrow> (ice_state, ice_event) action" where
  "ts_saveSettings env st =
     (let (c, ev) = lcc_setString (ie_ok env) ''turnServersJson'' (ie_toJson env (is_userServers st)) (is_config st)
      in (st\<lparr>is_config := c\<rparr>, map ice_config ev))"

definition setServers :: "ice_env \<Rightarrow> json list \<Rightarrow> (ice_state, ice_event) action" where
  "setServers env servers st =
     guarded (is_userServers st \<noteq> servers)
       (seq [modify (\<lambda>st. st\<lparr>is_userServers := servers\<rparr>), ts_saveSettings env, emit [ice_serversChanged]]) st"

definition getEffectiveIceConfig :: "ice_state \<Rightarrow> jobject" where
  "getEffectiveIceConfig st =
     (if is_userServers st = [] then [] else mkobj [(''iceServers'', JArr (is_userServers st))])"

definition validateServerUrl :: "ice_env \<Rightarrow> qstring \<Rightarrow> bool" where
  "validateServerUrl env url =
     (if url = [] then False
      else if \<not> startsWith (toLower url) ''stun:'' \<and> \<not> startsWith (toLower url) ''turn:'' \<and> \<not> startsWith (toLower url) ''turns:''
      then False
      else ie_urlValid env url)"

definition addTurnServer ::
    "ice_env \<Rightarrow> qstring \<Rightarrow> qstring \<Rightarrow> qstring \<Rightarrow> int \<Rightarrow> ice_state \<Rightarrow> ice_state \<times> ice_event list \<times> bool" where
  "addTurnServer env url username credential maxRateKbps st =
     (if \<not> validateServerUrl env url then (st, [], False)
      else let server = mkobj ([(''urls'', JArr [JStr url]), (''username'', JStr username), (''credential'', JStr credential)]
                          @ (if maxRateKbps > 0 then [(''maxRateKbps'', JInt maxRateKbps)] else []));
               (st', ev) = setServers env (is_userServers st @ [JObj server]) st
           in (st', ev, True))"

definition addStunServer :: "ice_env \<Rightarrow> qstring \<Rightarrow> ice_state \<Rightarrow> ice_state \<times> ice_event list \<times> bool" where
  "addStunServer env url st =
     (if \<not> validateServerUrl env url then (st, [], False)
      else let (st', ev) = setServers env (is_userServers st @ [JObj (mkobj [(''urls'', JArr [JStr url])])]) st
           in (st', ev, True))"

definition removeServer :: "ice_env \<Rightarrow> int \<Rightarrow> (ice_state, ice_event) action" where
  "removeServer env i st =
     (if i \<ge> 0 \<and> i < int (length (is_userServers st))
      then setServers env (take (nat i) (is_userServers st) @ drop (nat i + 1) (is_userServers st)) st
      else (st, []))"

definition clearServers :: "ice_env \<Rightarrow> (ice_state, ice_event) action" where
  "clearServers env st = guarded (is_userServers st \<noteq> []) (setServers env []) st"

datatype ice_call =
    IC_set "json list"
  | IC_turn qstring qstring qstring int
  | IC_stun qstring
  | IC_remove int
  | IC_clear

fun ice_exec :: "ice_env \<Rightarrow> ice_call \<Rightarrow> ice_state \<Rightarrow> ice_state" where
  "ice_exec env (IC_set servers) st = fst (setServers env servers st)"
| "ice_exec env (IC_turn url user cred rate) st = fst (addTurnServer env url user cred rate st)"
| "ice_exec env (IC_stun url) st = fst (addStunServer env url st)"
| "ice_exec env (IC_remove i) st = fst (removeServer env i st)"
| "ice_exec env IC_clear st = fst (clearServers env st)"

lemma ice_exec_sets: "\<exists>servers. ice_exec env c st = st \<or> ice_exec env c st = fst (setServers env servers st)"
  by (cases c) (auto simp: addTurnServer_def addStunServer_def removeServer_def clearServers_def guarded_def split_beta Let_def)

definition ice_stored :: "ice_env \<Rightarrow> ice_state \<Rightarrow> bool" where
  "ice_stored env st \<longleftrightarrow> ts_loadSettings env (is_config st) = is_userServers st"

text \<open>Qt reads back the JSON it writes for an array.\<close>

definition json_reads_back :: "ice_env \<Rightarrow> json list \<Rightarrow> bool" where
  "json_reads_back env a \<longleftrightarrow> ie_toJson env a \<noteq> [] \<and> ie_fromJson env (ie_toJson env a) = Some a"

lemma setServers_servers: "is_userServers (fst (setServers env servers st)) = servers"
  by (simp add: setServers_def guarded_def seq_Cons ts_saveSettings_def split_beta Let_def del: seq.simps(2))

lemma setServers_stored:
  assumes "ie_ok env" "json_reads_back env servers" "ice_stored env st"
  shows "ice_stored env (fst (setServers env servers st))"
  using assms
  by (auto simp: ice_stored_def setServers_def guarded_def seq_Cons ts_saveSettings_def ts_loadSettings_def turnServersJson_def
      json_reads_back_def string_setting.get_put split_beta Let_def simp del: seq.simps(2))

lemma ice_exec_stored:
  assumes "ie_ok env" "json_reads_back env (is_userServers (ice_exec env c st))" "ice_stored env st"
  shows "ice_stored env (ice_exec env c st)"
  using ice_exec_sets[of env c st] setServers_stored[OF assms(1) _ assms(3)] assms(2,3) by (auto simp: setServers_servers)

text \<open>
  The configured servers survive a restart: after any sequence of calls, a new manager on the stored
  configuration has the servers the old one had, if the database works and Qt reads back the JSON
  it writes for the lists of servers on the way.
\<close>

theorem ice_servers_survive_restart:
  assumes "ie_ok env" "\<And>n. json_reads_back env (is_userServers (fold (ice_exec env) (take n cs) (TurnServerManager_init env c)))"
  shows "is_userServers (TurnServerManager_init env (is_config (fold (ice_exec env) cs (TurnServerManager_init env c))))
    = is_userServers (fold (ice_exec env) cs (TurnServerManager_init env c))"
proof -
  have "ice_stored env (fold (ice_exec env) (take n cs) (TurnServerManager_init env c))" for n
  proof (induction n)
    case 0
    then show ?case by (simp add: ice_stored_def TurnServerManager_init_def)
  next
    case (Suc n)
    then show ?case
      using ice_exec_stored[OF assms(1), of "cs ! n"] assms(2)[of "Suc n"]
      by (cases "n < length cs") (simp_all add: take_Suc_conv_app_nth)
  qed
  from this[of "length cs"] show ?thesis by (simp add: ice_stored_def TurnServerManager_init_def)
qed

text \<open>A codec that is right for the empty list and for the list of one server, and a run with them.\<close>

definition demo_stun :: "json list" where
  "demo_stun = [JObj (mkobj [(''urls'', JArr [JStr ''stun:a''])])]"

definition demo_ice_env :: ice_env where
  "demo_ice_env = \<lparr>ie_ok = True, ie_toJson = (\<lambda>a. if a = [] then ''[]'' else ''[s]''),
     ie_fromJson = (\<lambda>s. Some (if s = ''[]'' then [] else demo_stun)), ie_urlValid = (\<lambda>_. True)\<rparr>"

lemma demo_ice_states:
  "fold (ice_exec demo_ice_env) [IC_stun ''stun:a''] (TurnServerManager_init demo_ice_env [])
     = \<lparr>is_userServers = demo_stun, is_config = [(''turnServersJson'', ''[s]'')]\<rparr>"
  "is_userServers (TurnServerManager_init demo_ice_env []) = []"
  by (simp_all add: TurnServerManager_init_def ts_loadSettings_def turnServersJson_def lcc_getString_def lcc_setString_def cfg_get_def
      cfg_set_def qm_value_def addStunServer_def setServers_def guarded_def ts_saveSettings_def modify_def emit_def
      validateServerUrl_def demo_ice_env_def demo_stun_def Let_def startsWith_def toLower_def toLower_char_def)

theorem ice_servers_survive_restart_witness:
  "is_userServers (TurnServerManager_init demo_ice_env [(''turnServersJson'', ''[s]'')]) = demo_stun"
proof -
  have r: "json_reads_back demo_ice_env []" "json_reads_back demo_ice_env demo_stun"
    by (simp_all add: json_reads_back_def demo_ice_env_def demo_stun_def)
  have "json_reads_back demo_ice_env
      (is_userServers (fold (ice_exec demo_ice_env) (take n [IC_stun ''stun:a'']) (TurnServerManager_init demo_ice_env [])))" for n
    using demo_ice_states r by (cases n) simp_all
  from ice_servers_survive_restart[OF _ this] show ?thesis
    using demo_ice_states by (simp add: demo_ice_env_def)
qed

end
