(* ===== verification/ConnectionListModel.thy ===== *)
theory ConnectionListModel
  imports Actions
begin

text \<open>
  \<open>QuickDesk/src/viewmodel/connectionlistmodel.cpp\<close>: the list of open connections behind the tab bar. Views keep
  a copy of the rows and follow the signals of the model, so a signal that is missing or names the
  wrong row leaves the interface out of step; the theory models such a view too.
\<close>

record connection_entry =
  ce_deviceId :: qstring
  ce_name :: qstring
  ce_state :: qstring

datatype cl_event =
    cl_rowsInserted nat
  | cl_rowsRemoved nat
  | cl_modelReset
  | cl_dataChanged nat
  | cl_countChanged

datatype cl_role = DeviceIdRole | NameRole | StateRole | OtherRole

type_synonym cl_action = "(connection_entry list, cl_event) action"

definition cl_rowCount :: "connection_entry list \<Rightarrow> nat" where
  "cl_rowCount cs = length cs"

definition cl_data :: "int \<Rightarrow> cl_role \<Rightarrow> connection_entry list \<Rightarrow> qstring option" where
  "cl_data row role cs =
     (if row < 0 \<or> row \<ge> int (length cs) then None
      else let conn = cs ! nat row
           in case role of DeviceIdRole \<Rightarrow> Some (ce_deviceId conn) | NameRole \<Rightarrow> Some (ce_name conn)
                | StateRole \<Rightarrow> Some (ce_state conn) | OtherRole \<Rightarrow> None)"

abbreviation cl_find :: "qstring \<Rightarrow> connection_entry list \<Rightarrow> nat option" where
  "cl_find deviceId cs \<equiv> find_index (\<lambda>c. ce_deviceId c = deviceId) cs"

definition cl_addConnection :: "qstring \<Rightarrow> connection_entry list \<Rightarrow> connection_entry list \<times> cl_event list \<times> nat" where
  "cl_addConnection deviceId cs =
     (case cl_find deviceId cs of
        Some i \<Rightarrow> (cs, [], i)
      | None \<Rightarrow> (cs @ [\<lparr>ce_deviceId = deviceId, ce_name = deviceId, ce_state = ''connecting''\<rparr>],
                 [cl_rowsInserted (length cs), cl_countChanged], length cs))"

definition cl_removeConnection :: "int \<Rightarrow> cl_action" where
  "cl_removeConnection i cs =
     (if i < 0 \<or> i \<ge> int (length cs) then (cs, [])
      else (remove_at (nat i) cs, [cl_rowsRemoved (nat i), cl_countChanged]))"

definition cl_clear :: cl_action where
  "cl_clear cs = (if cs = [] then (cs, []) else ([], [cl_modelReset, cl_countChanged]))"

definition cl_updateState :: "qstring \<Rightarrow> qstring \<Rightarrow> cl_action" where
  "cl_updateState deviceId state cs =
     (case cl_find deviceId cs of
        None \<Rightarrow> (cs, [])
      | Some i \<Rightarrow> if ce_state (cs ! i) \<noteq> state
                  then (cs[i := (cs ! i)\<lparr>ce_state := state\<rparr>], [cl_dataChanged i]) else (cs, []))"

definition cl_indexOf :: "qstring \<Rightarrow> connection_entry list \<Rightarrow> int" where
  "cl_indexOf deviceId cs = (case cl_find deviceId cs of Some i \<Rightarrow> int i | None \<Rightarrow> -1)"

definition cl_deviceIdAt :: "int \<Rightarrow> connection_entry list \<Rightarrow> qstring" where
  "cl_deviceIdAt i cs = (if i < 0 \<or> i \<ge> int (length cs) then [] else ce_deviceId (cs ! nat i))"

definition cl_stateAt :: "int \<Rightarrow> connection_entry list \<Rightarrow> qstring" where
  "cl_stateAt i cs = (if i < 0 \<or> i \<ge> int (length cs) then [] else ce_state (cs ! nat i))"

datatype cl_call = CL_add qstring | CL_remove int | CL_clear | CL_update qstring qstring

fun cl_exec :: "cl_call \<Rightarrow> cl_action" where
  "cl_exec (CL_add d) cs = (let (cs', ev, i) = cl_addConnection d cs in (cs', ev))"
| "cl_exec (CL_remove i) cs = cl_removeConnection i cs"
| "cl_exec CL_clear cs = cl_clear cs"
| "cl_exec (CL_update d st) cs = cl_updateState d st cs"


section \<open>A view\<close>

text \<open>On a signal a view reads the rows it is told about from the model, and only these.\<close>

fun view_follow :: "connection_entry list \<Rightarrow> connection_entry list \<Rightarrow> cl_event \<Rightarrow> connection_entry list" where
  "view_follow model v (cl_rowsInserted i) = take i v @ [model ! i] @ drop i v"
| "view_follow model v (cl_rowsRemoved i) = remove_at i v"
| "view_follow model v cl_modelReset = model"
| "view_follow model v (cl_dataChanged i) = v[i := model ! i]"
| "view_follow model v cl_countChanged = v"

text \<open>A model and its view, fed with the same calls.\<close>

fun model_and_view :: "cl_call list \<Rightarrow> connection_entry list \<times> connection_entry list \<Rightarrow> connection_entry list \<times> connection_entry list" where
  "model_and_view [] mv = mv"
| "model_and_view (c # cs) mv =
     (let (m, ev) = cl_exec c (fst mv) in model_and_view cs (m, foldl (view_follow m) (snd mv) ev))"

lemma view_step: "foldl (view_follow (fst (cl_exec c m))) m (snd (cl_exec c m)) = fst (cl_exec c m)"
proof (cases c)
  case (CL_update d st)
  then show ?thesis
    using find_index_lengthD[of "\<lambda>c. ce_deviceId c = d" m] by (auto simp: cl_updateState_def split: option.split)
qed (auto simp: cl_addConnection_def cl_removeConnection_def cl_clear_def nth_append split: option.split)

text \<open>A view that starts with the rows of the model shows the rows of the model after any calls.\<close>

theorem view_shows_model: "snd (model_and_view cs (m, m)) = fst (model_and_view cs (m, m))"
  by (induction cs arbitrary: m) (simp_all add: view_step split_beta Let_def)


section \<open>One row for each device\<close>

definition cl_distinct :: "connection_entry list \<Rightarrow> bool" where
  "cl_distinct cs \<longleftrightarrow> distinct (map ce_deviceId cs)"

lemma cl_exec_distinct:
  assumes "cl_distinct cs"
  shows "cl_distinct (fst (cl_exec c cs))"
proof (cases c)
  case (CL_add d)
  then show ?thesis using assms by (auto simp: cl_distinct_def cl_addConnection_def find_index_None split: option.split)
next
  case (CL_remove i)
  then show ?thesis using assms by (simp add: cl_distinct_def cl_removeConnection_def map_remove_at distinct_remove_at)
next
  case CL_clear
  then show ?thesis using assms by (simp add: cl_distinct_def cl_clear_def)
next
  case (CL_update d st)
  have "map ce_deviceId (cs[i := (cs ! i)\<lparr>ce_state := st\<rparr>]) = map ce_deviceId cs" for i
    by (cases "i < length cs") (simp_all add: map_update list_update_same_conv list_update_beyond)
  then show ?thesis using assms CL_update by (simp add: cl_distinct_def cl_updateState_def split: option.split)
qed

interpretation tabs: invariant_system "\<lambda>cs. cs = []" "\<lambda>cs cs'. \<exists>c. cs' = fst (cl_exec c cs)" cl_distinct
  by unfold_locales (auto simp: cl_exec_distinct, simp add: cl_distinct_def)

text \<open>In every reachable state the index of a device and the device at an index are inverse to each other.\<close>

lemma index_device_inverse:
  assumes "reachable (\<lambda>cs. cs = []) (\<lambda>cs cs'. \<exists>c. cs' = fst (cl_exec c cs)) cs" "0 \<le> i" "i < int (length cs)"
  shows "cl_indexOf (cl_deviceIdAt i cs) cs = i"
proof -
  have d: "distinct (map ce_deviceId cs)" using tabs.reachable_inv[OF assms(1)] by (simp add: cl_distinct_def)
  obtain j where j: "cl_find (ce_deviceId (cs ! nat i)) cs = Some j"
    using assms(2,3) by (cases "cl_find (ce_deviceId (cs ! nat i)) cs") (auto simp: find_index_None)
  then have "j < length cs" "ce_deviceId (cs ! j) = ce_deviceId (cs ! nat i)" by (auto dest: find_index_lengthD find_index_nthD)
  then have "j = nat i" using nth_eq_iff_index_eq[OF d, of j "nat i"] assms(2,3) by auto
  then show ?thesis using j assms(2,3) by (simp add: cl_indexOf_def cl_deviceIdAt_def)
qed

end
