(* ===== verification/HttpClient.thy ===== *)
theory HttpClient
  imports Prelude "HOL-Library.Multiset"
begin

text \<open>
  \<open>QuickDesk/infra/http/httprequest.cpp\<close>: requests in flight. Sending stores the callback under the address of the
  reply object, which is unique among the replies that are alive; the \<open>finished\<close> signal takes the callback out and
  calls it. A callback is data here, the tag \<open>'t\<close> that its owner interprets, and the address a number that is
  counted up.
\<close>

record 't http_client =
  hc_tasks :: "(nat \<times> 't) list"
  hc_next :: nat

record http_request =
  hr_method :: qstring
  hr_url :: qstring
  hr_headers :: "(qstring \<times> qstring) list"
  hr_body :: qstring

definition HttpClient_init :: "'t http_client" where
  "HttpClient_init = \<lparr>hc_tasks = [], hc_next = 0\<rparr>"

text \<open>GET and DELETE carry no body.\<close>

definition http_get :: "qstring \<Rightarrow> (qstring \<times> qstring) list \<Rightarrow> http_request" where
  "http_get url headers = \<lparr>hr_method = ''GET'', hr_url = url, hr_headers = headers, hr_body = []\<rparr>"

definition http_delete :: "qstring \<Rightarrow> (qstring \<times> qstring) list \<Rightarrow> http_request" where
  "http_delete url headers = \<lparr>hr_method = ''DELETE'', hr_url = url, hr_headers = headers, hr_body = []\<rparr>"

definition http_post :: "qstring \<Rightarrow> (qstring \<times> qstring) list \<Rightarrow> qstring \<Rightarrow> http_request" where
  "http_post url headers body = \<lparr>hr_method = ''POST'', hr_url = url, hr_headers = headers, hr_body = body\<rparr>"

definition http_put :: "qstring \<Rightarrow> (qstring \<times> qstring) list \<Rightarrow> qstring \<Rightarrow> http_request" where
  "http_put url headers body = \<lparr>hr_method = ''PUT'', hr_url = url, hr_headers = headers, hr_body = body\<rparr>"

definition http_patch :: "qstring \<Rightarrow> (qstring \<times> qstring) list \<Rightarrow> qstring \<Rightarrow> http_request" where
  "http_patch url headers body = \<lparr>hr_method = ''PATCH'', hr_url = url, hr_headers = headers, hr_body = body\<rparr>"

definition http_start :: "'t \<Rightarrow> 't http_client \<Rightarrow> 't http_client" where
  "http_start t h = h\<lparr>hc_tasks := hc_tasks h @ [(hc_next h, t)], hc_next := hc_next h + 1\<rparr>"

text \<open>\<open>slotHttpFinished\<close>: a reply that is not in the table is ignored.\<close>

definition http_finish :: "nat \<Rightarrow> 't http_client \<Rightarrow> ('t http_client \<times> 't) option" where
  "http_finish key h = (case map_of (hc_tasks h) key of
      None \<Rightarrow> None
    | Some t \<Rightarrow> Some (h\<lparr>hc_tasks := filter (\<lambda>(k, _). k \<noteq> key) (hc_tasks h)\<rparr>, t))"

definition http_ok :: "'t http_client \<Rightarrow> bool" where
  "http_ok h \<longleftrightarrow> distinct (map fst (hc_tasks h)) \<and> (\<forall>k \<in> set (map fst (hc_tasks h)). k < hc_next h)"

definition in_flight :: "'t http_client \<Rightarrow> 't list" where
  "in_flight h = map snd (hc_tasks h)"

lemma in_flight_start [simp]: "in_flight (http_start t h) = in_flight h @ [t]"
  by (simp add: in_flight_def http_start_def)

lemma http_ok_start [simp]: "http_ok h \<Longrightarrow> http_ok (http_start t h)"
  by (auto simp: http_ok_def http_start_def less_Suc_eq)

lemma http_ok_init [simp]: "http_ok HttpClient_init" "in_flight HttpClient_init = []"
  by (simp_all add: http_ok_def HttpClient_init_def in_flight_def)

lemma taken_task:
  assumes "distinct (map fst xs)" "map_of xs key = Some t"
  shows "mset (map snd xs) = add_mset t (mset (map snd (filter (\<lambda>(k, _). k \<noteq> key) xs)))"
  using assms
proof (induction xs)
  case (Cons x xs)
  obtain k v where x: "x = (k, v)" by (cases x)
  show ?case
  proof (cases "k = key")
    case True
    then have "filter (\<lambda>(k, _). k \<noteq> key) xs = xs" using Cons.prems(1) x by (force simp: filter_id_conv)
    then show ?thesis using True Cons.prems(2) x by simp
  next
    case False
    then show ?thesis using Cons x by simp
  qed
qed simp

lemma http_finish_Some:
  assumes "http_ok h" "http_finish key h = Some (h', t)"
  shows "http_ok h'" "mset (in_flight h) = add_mset t (mset (in_flight h'))"
proof -
  have h': "h' = h\<lparr>hc_tasks := filter (\<lambda>(k, _). k \<noteq> key) (hc_tasks h)\<rparr>" and m: "map_of (hc_tasks h) key = Some t"
    using assms(2) by (auto simp: http_finish_def split: option.splits)
  show "http_ok h'" using assms(1) by (auto simp: http_ok_def h' intro: distinct_map_filter)
  show "mset (in_flight h) = add_mset t (mset (in_flight h'))"
    using taken_task[OF _ m] assms(1) by (simp add: http_ok_def in_flight_def h')
qed

end
