(* ===== verification/AuthManager.thy ===== *)
theory AuthManager
  imports HostManager ServerSettings HttpClient
begin

text \<open>
  \<open>QuickDesk/src/manager/AuthManager.cpp\<close>: the account of the user. The class keeps a short-lived access token and a
  refresh token, stores both in the configuration, refreshes the access token before it expires, and sends the
  requests of other components, repeating one that is answered with 401 once after a refresh.

  Callbacks are data. A request in flight carries a tag that says what its reply does; the callbacks that wait
  for a refresh are a list of \<open>refresh_callback\<close>. The components whose requests are sent are told apart by values of
  type \<open>'k\<close>, and the call of their callback is the event \<open>am_answer\<close>. The lambdas posted to the object's thread run as one step, when the reply arrives.
  The environment holds the clock, Qt's JSON and date texts, the server's address, the identifier of the host and,
  for each setting, whether writing it succeeds. The signals of the configuration have no listener here.
\<close>


section \<open>State\<close>

datatype 'k caller = ProfileCaller | Client 'k

datatype 'k http_tag =
    H_first qstring qstring qstring "'k caller" \<comment> \<open>method, address and body of the first attempt\<close>
  | H_retry "'k caller"
  | H_refresh
  | H_features
  | H_login
  | H_sms
  | H_register
  | H_logoutDevice
  | H_logoutSession
  | H_client 'k \<comment> \<open>a request of another component that does not go through \<open>request\<close>\<close>

datatype 'k refresh_callback =
    RC_proactive
  | RC_restore
  | RC_retry qstring qstring qstring "'k caller"

record 'k auth_manager =
  am_isLoggedIn :: bool
  am_smsEnabled :: bool
  am_username :: qstring
  am_userId :: int
  am_accessToken :: qstring
  am_refreshToken :: qstring
  am_accessExpiresAt :: "int option"
  am_refreshExpiresAt :: "int option"
  am_accessRefreshTimer :: "int option" \<comment> \<open>milliseconds the timer was started with\<close>
  am_refreshInFlight :: bool
  am_refreshQueue :: "'k refresh_callback list"
  am_http :: "'k http_tag http_client"
  am_config :: config

record auth_env =
  au_now :: int
  au_date :: "qstring \<Rightarrow> int option"
  au_fromJson :: "qstring \<Rightarrow> json_doc"
  au_toJson :: "jobject \<Rightarrow> qstring"
  au_serverUrl :: qstring
  au_hostDeviceId :: qstring
  au_compileApiKey :: qstring
  au_ok :: "qstring \<Rightarrow> bool"

datatype 'k am_event =
    am_sent http_request
  | am_answer 'k int qstring qstring
  | am_loginStateChanged
  | am_smsEnabledChanged
  | am_loginSuccess
  | am_loginFailed qstring qstring
  | am_registerSuccess
  | am_registerFailed qstring qstring
  | am_loggedOut
  | am_smsCodeSent
  | am_smsCodeFailed qstring qstring

type_synonym 'k am_action = "('k auth_manager, 'k am_event) action"

definition AuthManager_init :: "config \<Rightarrow> 'k auth_manager" where
  "AuthManager_init c = \<lparr>am_isLoggedIn = False, am_smsEnabled = False, am_username = [], am_userId = 0,
     am_accessToken = [], am_refreshToken = [], am_accessExpiresAt = None, am_refreshExpiresAt = None,
     am_accessRefreshTimer = None, am_refreshInFlight = False, am_refreshQueue = [], am_http = HttpClient_init, am_config = c\<rparr>"

definition kAccessRefreshMarginSeconds :: int where
  "kAccessRefreshMarginSeconds = 60"

definition kProactiveRefreshMarginSeconds :: int where
  "kProactiveRefreshMarginSeconds = 5 * 60"

definition kProactiveRefreshRetrySeconds :: int where
  "kProactiveRefreshRetrySeconds = 60"


section \<open>Addresses, headers, problems\<close>

text \<open>\<open>QString::replace\<close> of all occurrences.\<close>

function replace_all :: "qstring \<Rightarrow> qstring \<Rightarrow> qstring \<Rightarrow> qstring" where
  "replace_all before after s =
     (case s of [] \<Rightarrow> []
      | c # cs \<Rightarrow> if before \<noteq> [] \<and> startsWith s before then after @ replace_all before after (drop (length before) s)
                  else c # replace_all before after cs)"
  by pat_completeness auto
termination
  by (relation "measure (\<lambda>(b, a, s). length s)") (auto simp: length_greater_0_conv[symmetric] simp del: length_greater_0_conv)

definition am_httpBaseUrl :: "auth_env \<Rightarrow> qstring" where
  "am_httpBaseUrl env =
     (let httpUrl = replace_all ''wss://'' ''https://'' (replace_all ''ws://'' ''http://'' (au_serverUrl env))
      in if endsWith httpUrl ''/'' then httpUrl else httpUrl @ ''/'')"

definition effectiveApiKey :: "auth_env \<Rightarrow> 'k auth_manager \<Rightarrow> qstring" where
  "effectiveApiKey env am =
     (let runtimeApiKey = lcc_getString ''apiKey'' [] (am_config am)
      in if runtimeApiKey \<noteq> [] then runtimeApiKey
         else if au_compileApiKey env \<noteq> [] then au_compileApiKey env else [])"

definition bearerValue :: "'k auth_manager \<Rightarrow> qstring" where
  "bearerValue am = (if am_accessToken am = [] then [] else ''Bearer '' @ am_accessToken am)"

definition publicHeaders :: "auth_env \<Rightarrow> 'k auth_manager \<Rightarrow> (qstring \<times> qstring) list" where
  "publicHeaders env am = (if effectiveApiKey env am \<noteq> [] then [(''X-API-Key'', effectiveApiKey env am)] else [])"

definition userAuthHeaders :: "auth_env \<Rightarrow> bool \<Rightarrow> 'k auth_manager \<Rightarrow> (qstring \<times> qstring) list" where
  "userAuthHeaders env includeContentType am =
     publicHeaders env am
     @ (if includeContentType then [(''Content-Type'', ''application/json'')] else [])
     @ (if bearerValue am \<noteq> [] then [(''Authorization'', bearerValue am)] else [])"

fun doc_object :: "json_doc \<Rightarrow> jobject" where
  "doc_object (ObjectDoc ob) = ob"
| "doc_object _ = []"

definition parseProblem :: "auth_env \<Rightarrow> qstring \<Rightarrow> qstring \<Rightarrow> qstring \<times> qstring" where
  "parseProblem env data fallback =
     (case au_fromJson env data of
        ObjectDoc obj \<Rightarrow>
          let code = toString (oget obj ''code'');
              msg = toString (oget obj ''detail'');
              msg = (if msg = [] then toString (oget obj ''title'') else msg);
              msg = (if msg = [] then toString (oget obj ''error'') else msg);
              msg = (if msg = [] then toString (oget obj ''message'') else msg)
          in if msg \<noteq> [] \<or> code \<noteq> [] then (code, msg) else ([], fallback)
      | _ \<Rightarrow> ([], fallback))"


section \<open>Tokens\<close>

text \<open>Writing settings one after another.\<close>

definition write_settings :: "auth_env \<Rightarrow> (qstring \<times> qstring) list \<Rightarrow> config \<Rightarrow> config" where
  "write_settings env kvs c = foldl (\<lambda>c (k, v). fst (lcc_setString (au_ok env k) k v c)) c kvs"

definition send_http :: "'k http_tag \<Rightarrow> http_request \<Rightarrow> 'k am_action" where
  "send_http tag r = seq [modify (\<lambda>am. am\<lparr>am_http := http_start tag (am_http am)\<rparr>), emit [am_sent r]]"

definition clearSession :: "auth_env \<Rightarrow> 'k am_action" where
  "clearSession env am =
     (let wasLoggedIn = (am_isLoggedIn am \<or> am_accessToken am \<noteq> [] \<or> am_refreshToken am \<noteq> [])
      in (am\<lparr>am_isLoggedIn := False, am_username := [], am_userId := 0, am_accessToken := [], am_refreshToken := [],
             am_accessExpiresAt := None, am_refreshExpiresAt := None, am_accessRefreshTimer := None,
             am_config := write_settings env [(''userToken'', []), (''refreshToken'', []), (''accessTokenExpiresAt'', []),
               (''refreshTokenExpiresAt'', []), (''userId'', []), (''username'', [])] (am_config am)\<rparr>,
          if wasLoggedIn then [am_loginStateChanged, am_loggedOut] else []))"

definition scheduleAccessTokenRefresh :: "auth_env \<Rightarrow> 'k auth_manager \<Rightarrow> 'k auth_manager" where
  "scheduleAccessTokenRefresh env am =
     (if \<not> am_isLoggedIn am \<or> am_refreshToken am = [] then am\<lparr>am_accessRefreshTimer := None\<rparr>
      else case am_accessExpiresAt am of
             None \<Rightarrow> am\<lparr>am_accessRefreshTimer := Some 0\<rparr>
           | Some e \<Rightarrow>
               if e \<le> au_now env then am\<lparr>am_accessRefreshTimer := Some 0\<rparr>
               else let msecs = e - kProactiveRefreshMarginSeconds * 1000 - au_now env;
                        msecs = (if msecs < 0 then 0 else msecs);
                        msecs = (if msecs > 2 ^ 31 - 1 then 2 ^ 31 - 1 else msecs)
                    in am\<lparr>am_accessRefreshTimer := Some msecs\<rparr>)"

text \<open>The user's number is an unsigned integer of 32 bits.\<close>

definition as_uint :: "int \<Rightarrow> int" where
  "as_uint i = i mod 2 ^ 32"

definition user_settings :: "'k auth_manager \<Rightarrow> (qstring \<times> qstring) list" where
  "user_settings am = (if am_userId am \<noteq> 0 then [(''userId'', string_of_int (am_userId am))] else [])
     @ (if am_username am \<noteq> [] then [(''username'', am_username am)] else [])"

definition applyTokens :: "auth_env \<Rightarrow> qstring \<Rightarrow> 'k auth_manager \<Rightarrow> 'k auth_manager" where
  "applyTokens env responseBody am =
     (let rep = doc_object (au_fromJson env responseBody);
          accessToken = toString (oget rep ''access_token'');
          refreshToken = toString (oget rep ''refresh_token'');
          accessExp = toString (oget rep ''access_expires_at'');
          refreshExp = toString (oget rep ''refresh_expires_at'');
          am1 = am\<lparr>am_accessToken := accessToken, am_refreshToken := refreshToken,
                   am_accessExpiresAt := au_date env accessExp, am_refreshExpiresAt := au_date env refreshExp\<rparr>;
          userObj = toObject (oget rep ''user'');
          am2 = (if userObj \<noteq> []
                 then am1\<lparr>am_userId := as_uint (toInt (oget userObj ''id'')), am_username := toString (oget userObj ''username'')\<rparr>
                 else am1);
          am3 = am2\<lparr>am_isLoggedIn := (accessToken \<noteq> [])\<rparr>;
          am4 = am3\<lparr>am_config := write_settings env ([(''userToken'', accessToken), (''refreshToken'', refreshToken),
                   (''accessTokenExpiresAt'', accessExp), (''refreshTokenExpiresAt'', refreshExp)] @ user_settings am3) (am_config am3)\<rparr>
      in scheduleAccessTokenRefresh env am4)"


section \<open>Requests\<close>

text \<open>The reply to \<open>GET v1/me\<close>.\<close>

definition onUserInfo :: "auth_env \<Rightarrow> int \<Rightarrow> qstring \<Rightarrow> qstring \<Rightarrow> 'k am_action" where
  "onUserInfo env statusCode errorMsg data =
     (if statusCode \<noteq> 200 \<or> errorMsg \<noteq> [] then guarded (statusCode = 401) (clearSession env)
      else
        let obj = doc_object (au_fromJson env data);
            obj = (if ocontains obj ''user'' then toObject (oget obj ''user'') else obj)
        in seq [modify (\<lambda>am. am\<lparr>am_userId := as_uint (toInt (oget obj ''id'')), am_username := toString (oget obj ''username''),
                               am_isLoggedIn := True\<rparr>),
                modify (\<lambda>am. am\<lparr>am_config := write_settings env (user_settings am) (am_config am)\<rparr>),
                emit [am_loginStateChanged, am_loginSuccess]])"

fun respond :: "auth_env \<Rightarrow> 'k caller \<Rightarrow> int \<Rightarrow> qstring \<Rightarrow> qstring \<Rightarrow> 'k am_action" where
  "respond env ProfileCaller statusCode errorMsg data = onUserInfo env statusCode errorMsg data"
| "respond env (Client k) statusCode errorMsg data = emit [am_answer k statusCode errorMsg data]"

definition rawRequest :: "auth_env \<Rightarrow> 'k http_tag \<Rightarrow> 'k caller \<Rightarrow> qstring \<Rightarrow> qstring \<Rightarrow> (qstring \<times> qstring) list \<Rightarrow> qstring \<Rightarrow> 'k am_action" where
  "rawRequest env tag caller method url headers body =
     (if method = ''GET'' then send_http tag (http_get url headers)
      else if method = ''POST'' then send_http tag (http_post url headers body)
      else if method = ''PUT'' then send_http tag (http_put url headers body)
      else if method = ''PATCH'' then send_http tag (http_patch url headers body)
      else if method = ''DELETE'' then send_http tag (http_delete url headers)
      else respond env caller 0 ''unknown HTTP method'' [])"

definition request :: "auth_env \<Rightarrow> 'k caller \<Rightarrow> qstring \<Rightarrow> qstring \<Rightarrow> qstring \<Rightarrow> 'k am_action" where
  "request env caller method url body am =
     rawRequest env (H_first method url body caller) caller method url
       (userAuthHeaders env (body \<noteq> [] \<or> method \<in> {''POST'', ''PUT'', ''PATCH''}) am) body am"

definition fetchUserInfo :: "auth_env \<Rightarrow> 'k am_action" where
  "fetchUserInfo env am =
     (if am_accessToken am = [] then (am, [])
      else request env ProfileCaller ''GET'' (am_httpBaseUrl env @ ''v1/me'') [] am)"

fun run_callback :: "auth_env \<Rightarrow> bool \<Rightarrow> 'k refresh_callback \<Rightarrow> 'k am_action" where
  "run_callback env ok RC_proactive am =
     (if \<not> am_isLoggedIn am \<or> am_refreshToken am = [] then (am, [])
      else if ok then (scheduleAccessTokenRefresh env am, [])
      else (am\<lparr>am_accessRefreshTimer := Some (kProactiveRefreshRetrySeconds * 1000)\<rparr>, []))"
| "run_callback env ok RC_restore am = (if \<not> ok then (am, []) else fetchUserInfo env am)"
| "run_callback env ok (RC_retry method url body caller) am =
     (if \<not> ok then respond env caller 401 ''session expired'' [] am
      else rawRequest env (H_retry caller) caller method url (userAuthHeaders env True am) body am)"

definition json_headers :: "auth_env \<Rightarrow> 'k auth_manager \<Rightarrow> (qstring \<times> qstring) list" where
  "json_headers env am = publicHeaders env am @ [(''Content-Type'', ''application/json'')]"

definition refreshAccessToken :: "auth_env \<Rightarrow> 'k refresh_callback \<Rightarrow> 'k am_action" where
  "refreshAccessToken env done_cb am =
     (if am_refreshToken am = [] then seq [clearSession env, run_callback env False done_cb] am
      else if am_refreshInFlight am then (am\<lparr>am_refreshQueue := am_refreshQueue am @ [done_cb]\<rparr>, [])
      else seq [modify (\<lambda>am. am\<lparr>am_refreshInFlight := True, am_refreshQueue := am_refreshQueue am @ [done_cb]\<rparr>),
                send_http H_refresh (http_post (am_httpBaseUrl env @ ''v1/auth/tokens:refresh'') (json_headers env am)
                  (au_toJson env (mkobj [(''refresh_token'', JStr (am_refreshToken am))])))] am)"

definition onRefreshed :: "auth_env \<Rightarrow> int \<Rightarrow> qstring \<Rightarrow> qstring \<Rightarrow> 'k am_action" where
  "onRefreshed env statusCode errorMsg data am =
     (let ok = (statusCode = 200 \<and> errorMsg = []);
          (am1, ev1) = (if ok then (applyTokens env data am, []) else guarded (statusCode = 401) (clearSession env) am);
          q = am_refreshQueue am1;
          (am2, ev2) = for_each (run_callback env ok) q (am1\<lparr>am_refreshQueue := [], am_refreshInFlight := False\<rparr>)
      in (am2, ev1 @ ev2))"

definition onProactiveTimer :: "auth_env \<Rightarrow> 'k am_action" where
  "onProactiveTimer env am =
     (if \<not> am_isLoggedIn am \<or> am_refreshToken am = [] then (am, []) else refreshAccessToken env RC_proactive am)"


section \<open>Session\<close>

definition fetchFeatures :: "auth_env \<Rightarrow> 'k am_action" where
  "fetchFeatures env am = send_http H_features (http_get (am_httpBaseUrl env @ ''v1/features'') (publicHeaders env am)) am"

definition onFeatures :: "auth_env \<Rightarrow> int \<Rightarrow> qstring \<Rightarrow> qstring \<Rightarrow> 'k am_action" where
  "onFeatures env statusCode errorMsg data am =
     (if statusCode \<noteq> 200 \<or> errorMsg \<noteq> [] then (am, [])
      else let smsEnabled = toBool (oget (doc_object (au_fromJson env data)) ''sms_enabled'')
           in if am_smsEnabled am \<noteq> smsEnabled then (am\<lparr>am_smsEnabled := smsEnabled\<rparr>, [am_smsEnabledChanged]) else (am, []))"

definition load_tokens :: "auth_env \<Rightarrow> 'k auth_manager \<Rightarrow> 'k auth_manager" where
  "load_tokens env am =
     am\<lparr>am_accessToken := lcc_getString ''userToken'' [] (am_config am),
        am_refreshToken := lcc_getString ''refreshToken'' [] (am_config am),
        am_accessExpiresAt := au_date env (lcc_getString ''accessTokenExpiresAt'' [] (am_config am)),
        am_refreshExpiresAt := au_date env (lcc_getString ''refreshTokenExpiresAt'' [] (am_config am))\<rparr>"

definition access_valid :: "auth_env \<Rightarrow> 'k auth_manager \<Rightarrow> bool" where
  "access_valid env am \<longleftrightarrow> am_accessToken am \<noteq> [] \<and>
     (case am_accessExpiresAt am of None \<Rightarrow> False | Some e \<Rightarrow> au_now env + kAccessRefreshMarginSeconds * 1000 < e)"

definition restoreSession :: "auth_env \<Rightarrow> 'k am_action" where
  "restoreSession env = seq [modify (load_tokens env), fetchFeatures env,
     (\<lambda>am. if am_accessToken am = [] \<and> am_refreshToken am = [] then (am, [])
           else if am_refreshToken am = []
           then seq [modify (\<lambda>am. am\<lparr>am_isLoggedIn := (am_accessToken am \<noteq> [])\<rparr>), fetchUserInfo env] am
           else if access_valid env am then seq [modify (\<lambda>am. am\<lparr>am_isLoggedIn := True\<rparr>), fetchUserInfo env] am
           else refreshAccessToken env RC_restore am)]"

definition handleServerSessionRevoked :: "auth_env \<Rightarrow> 'k am_action" where
  "handleServerSessionRevoked env = clearSession env"

definition post_public :: "auth_env \<Rightarrow> 'k http_tag \<Rightarrow> qstring \<Rightarrow> jobject \<Rightarrow> 'k am_action" where
  "post_public env tag path body am =
     send_http tag (http_post (am_httpBaseUrl env @ path) (json_headers env am) (au_toJson env body)) am"

definition login :: "auth_env \<Rightarrow> qstring \<Rightarrow> qstring \<Rightarrow> 'k am_action" where
  "login env identifier password = post_public env H_login ''v1/auth/sessions''
     (mkobj [(''identifier'', JStr identifier), (''password'', JStr password)])"

definition loginWithSms :: "auth_env \<Rightarrow> qstring \<Rightarrow> qstring \<Rightarrow> 'k am_action" where
  "loginWithSms env phone smsCode = post_public env H_login ''v1/auth/sessions:sms''
     (mkobj [(''phone'', JStr phone), (''sms_code'', JStr smsCode)])"

definition sendSmsCode :: "auth_env \<Rightarrow> qstring \<Rightarrow> qstring \<Rightarrow> 'k am_action" where
  "sendSmsCode env phone scene = post_public env H_sms ''v1/verification-codes''
     (mkobj [(''phone'', JStr phone), (''scene'', JStr scene)])"

definition registerUser :: "auth_env \<Rightarrow> qstring \<Rightarrow> qstring \<Rightarrow> qstring \<Rightarrow> qstring \<Rightarrow> qstring \<Rightarrow> 'k am_action" where
  "registerUser env username password phone email smsCode = post_public env H_register ''v1/auth/register''
     (mkobj ([(''username'', JStr username), (''password'', JStr password)]
        @ (if phone \<noteq> [] then [(''phone'', JStr phone)] else [])
        @ (if email \<noteq> [] then [(''email'', JStr email)] else [])
        @ (if smsCode \<noteq> [] then [(''sms_code'', JStr smsCode)] else [])))"

definition onLogin :: "auth_env \<Rightarrow> int \<Rightarrow> qstring \<Rightarrow> qstring \<Rightarrow> 'k am_action" where
  "onLogin env statusCode errorMsg data am =
     (if statusCode \<noteq> 200 \<or> errorMsg \<noteq> [] then let (code, msg) = parseProblem env data errorMsg in (am, [am_loginFailed code msg])
      else (applyTokens env data am, [am_loginStateChanged, am_loginSuccess]))"

definition onRegister :: "auth_env \<Rightarrow> int \<Rightarrow> qstring \<Rightarrow> qstring \<Rightarrow> 'k am_action" where
  "onRegister env statusCode errorMsg data am =
     (if statusCode \<noteq> 200 \<or> errorMsg \<noteq> [] then let (code, msg) = parseProblem env data errorMsg in (am, [am_registerFailed code msg])
      else (applyTokens env data am, [am_registerSuccess, am_loginStateChanged, am_loginSuccess]))"

definition onSmsCode :: "auth_env \<Rightarrow> int \<Rightarrow> qstring \<Rightarrow> qstring \<Rightarrow> 'k am_action" where
  "onSmsCode env statusCode errorMsg data am =
     (if statusCode \<noteq> 200 \<or> errorMsg \<noteq> [] then let (code, msg) = parseProblem env data errorMsg in (am, [am_smsCodeFailed code msg])
      else (am, [am_smsCodeSent]))"

definition step2DeleteSession :: "auth_env \<Rightarrow> 'k am_action" where
  "step2DeleteSession env am =
     send_http H_logoutSession (http_delete (am_httpBaseUrl env @ ''v1/me/sessions/current'') (userAuthHeaders env False am)) am"

definition logout :: "auth_env \<Rightarrow> qstring \<Rightarrow> 'k am_action" where
  "logout env deviceId am =
     (if \<not> am_isLoggedIn am \<and> am_accessToken am = [] \<and> am_refreshToken am = [] then clearSession env am
      else
        let d = (if deviceId = [] then au_hostDeviceId env else deviceId);
            d = (if d = [] then lcc_getString ''lastDeviceId'' [] (am_config am) else d)
        in if d = [] then step2DeleteSession env am
           else send_http H_logoutDevice (http_delete (am_httpBaseUrl env @ ''v1/me/devices/'' @ d @ ''/session'')
                  (userAuthHeaders env False am)) am)"


section \<open>Replies and the state machine\<close>

fun onReply :: "auth_env \<Rightarrow> 'k http_tag \<Rightarrow> int \<Rightarrow> qstring \<Rightarrow> qstring \<Rightarrow> 'k am_action" where
  "onReply env (H_first method url body caller) statusCode errorMsg data am =
     (if statusCode \<noteq> 401 \<or> \<not> am_isLoggedIn am then respond env caller statusCode errorMsg data am
      else refreshAccessToken env (RC_retry method url body caller) am)"
| "onReply env (H_retry caller) statusCode errorMsg data am =
     seq [guarded (statusCode = 401) (clearSession env), respond env caller statusCode errorMsg data] am"
| "onReply env H_refresh statusCode errorMsg data am = onRefreshed env statusCode errorMsg data am"
| "onReply env H_features statusCode errorMsg data am = onFeatures env statusCode errorMsg data am"
| "onReply env H_login statusCode errorMsg data am = onLogin env statusCode errorMsg data am"
| "onReply env H_sms statusCode errorMsg data am = onSmsCode env statusCode errorMsg data am"
| "onReply env H_register statusCode errorMsg data am = onRegister env statusCode errorMsg data am"
| "onReply env H_logoutDevice statusCode errorMsg data am = step2DeleteSession env am"
| "onReply env H_logoutSession statusCode errorMsg data am = clearSession env am"
| "onReply env (H_client k) statusCode errorMsg data am = (am, [am_answer k statusCode errorMsg data])"

definition am_finished :: "auth_env \<Rightarrow> nat \<Rightarrow> int \<Rightarrow> qstring \<Rightarrow> qstring \<Rightarrow> 'k am_action" where
  "am_finished env key statusCode errorMsg data am =
     (case http_finish key (am_http am) of
        None \<Rightarrow> (am, [])
      | Some (h, tag) \<Rightarrow> onReply env tag statusCode errorMsg data (am\<lparr>am_http := h\<rparr>))"

datatype 'k am_input =
    AM_restore
  | AM_features
  | AM_login qstring qstring
  | AM_loginSms qstring qstring
  | AM_sendSms qstring qstring
  | AM_register qstring qstring qstring qstring qstring
  | AM_logout qstring
  | AM_userInfo
  | AM_revoked
  | AM_request 'k qstring qstring qstring
  | AM_http 'k http_request
  | AM_timer
  | AM_reply nat int qstring qstring

fun am_exec :: "auth_env \<Rightarrow> 'k am_input \<Rightarrow> 'k am_action" where
  "am_exec env AM_restore = restoreSession env"
| "am_exec env AM_features = fetchFeatures env"
| "am_exec env (AM_login u p) = login env u p"
| "am_exec env (AM_loginSms p c) = loginWithSms env p c"
| "am_exec env (AM_sendSms p s) = sendSmsCode env p s"
| "am_exec env (AM_register u p ph e c) = registerUser env u p ph e c"
| "am_exec env (AM_logout d) = logout env d"
| "am_exec env AM_userInfo = fetchUserInfo env"
| "am_exec env AM_revoked = handleServerSessionRevoked env"
| "am_exec env (AM_request k m u b) = request env (Client k) m u b"
| "am_exec env (AM_http k r) = send_http (H_client k) r"
| "am_exec env AM_timer = (\<lambda>am. if am_accessRefreshTimer am = None then (am, [])
     else onProactiveTimer env (am\<lparr>am_accessRefreshTimer := None\<rparr>))"
| "am_exec env (AM_reply key sc err dat) = am_finished env key sc err dat"

definition am_run :: "(auth_env \<times> 'k am_input) list \<Rightarrow> 'k am_action" where
  "am_run = for_each (\<lambda>(env, i). am_exec env i)"

end
