(* ===== verification/CloudDeviceManager.thy ===== *)
theory CloudDeviceManager
  imports AuthManager
begin

text \<open>
  \<open>QuickDesk/src/manager/CloudDeviceManager.cpp\<close>: the devices, favourites and connection logs of the user's account. Lists come from
  HTTP requests, which go through the account client, and from a WebSocket that first sends a snapshot and then
  revision-numbered events; the class orders the two sources by the revision.

  The account client is part of the state. A callback is a value of \<open>cloud_call\<close>; those of a caller outside the class are
  told apart by numbers. The account client answers while it handles a reply; the callbacks here
  either only write to the log or come last in that handler, so they run after it. A \<open>QVariantMap\<close> made from a JSON object is that object.
\<close>


section \<open>State\<close>

datatype cloud_call =
    CC_fetchMyDevices int \<comment> \<open>the revision at the time of the request\<close>
  | CC_bind qstring
  | CC_unbind qstring
  | CC_remark qstring
  | CC_accessCode qstring "nat option"
  | CC_syncCode qstring qstring
  | CC_verify nat
  | CC_record
  | CC_logs
  | CC_favorites
  | CC_addFavorite
  | CC_updateFavorite
  | CC_removeFavorite qstring
  | CC_probe

record cloud =
  cd_auth :: "cloud_call auth_manager"
  cd_syncSocket :: bool
  cd_syncAuthOk :: bool
  cd_syncBootstrapComplete :: bool
  cd_syncFamilyId :: qstring
  cd_serverRev :: int
  cd_lastAppliedRev :: int
  cd_reconnectAttempt :: int
  cd_reconnectTimers :: "int list"
  cd_myDevices :: "jobject list"
  cd_myFavorites :: "jobject list"
  cd_connectionLogs :: "jobject list"
  cd_deviceRevs :: "(qstring, int) qmap"
  cd_lastSyncedDeviceId :: qstring
  cd_lastSyncedAccessCode :: qstring

record cloud_env =
  ce_auth :: auth_env
  ce_deviceSecret :: qstring \<comment> \<open>the host manager's secret, empty if there is none\<close>
  ce_jitter :: int
  ce_number :: "real \<Rightarrow> qstring" \<comment> \<open>text of a number in a \<open>QVariant\<close>\<close>
  ce_toLongLong :: "qstring \<Rightarrow> int"

datatype cd_event =
    cd_myDevicesChanged
  | cd_myFavoritesChanged
  | cd_connectionLogsChanged
  | cd_syncMessage jobject
  | cd_syncConnected
  | cd_syncDisconnected
  | cd_socketOpen qstring
  | cd_socketClose
  | cd_socketSend jobject
  | cd_account "cloud_call am_event"
  | cd_verified nat qstring
  | cd_verifyFailed nat int qstring qstring
  | cd_codeRefreshed nat qstring
  | cd_codeFailed nat int qstring qstring

type_synonym cd_action = "(cloud, cd_event) action"

definition CloudDeviceManager_init :: "config \<Rightarrow> cloud" where
  "CloudDeviceManager_init c = \<lparr>cd_auth = AuthManager_init c, cd_syncSocket = False, cd_syncAuthOk = False,
     cd_syncBootstrapComplete = False, cd_syncFamilyId = [], cd_serverRev = 0, cd_lastAppliedRev = 0, cd_reconnectAttempt = 0,
     cd_reconnectTimers = [], cd_myDevices = [], cd_myFavorites = [], cd_connectionLogs = [], cd_deviceRevs = [],
     cd_lastSyncedDeviceId = [], cd_lastSyncedAccessCode = []\<rparr>"

definition kSyncReconnectBaseMs :: int where
  "kSyncReconnectBaseMs = 1000"

definition kSyncReconnectMaxMs :: int where
  "kSyncReconnectMaxMs = 30000"


section \<open>Values\<close>

text \<open>\<open>QVariant::toString\<close>, \<open>toBool\<close> and \<open>toLongLong\<close> of a JSON value.\<close>

fun vstring :: "cloud_env \<Rightarrow> json \<Rightarrow> qstring" where
  "vstring env (JStr s) = s"
| "vstring env (JBool b) = (if b then ''true'' else ''false'')"
| "vstring env (JNum r) = ce_number env r"
| "vstring env _ = []"

fun vbool :: "json \<Rightarrow> bool" where
  "vbool (JBool b) = b"
| "vbool (JNum r) = (r \<noteq> 0)"
| "vbool (JStr s) = (toLower s \<notin> {[], ''0'', ''false''})"
| "vbool _ = False"

fun vlong :: "cloud_env \<Rightarrow> json \<Rightarrow> int" where
  "vlong env (JNum r) = (if r \<ge> 0 then \<lfloor>r + 1/2\<rfloor> else \<lceil>r - 1/2\<rceil>)"
| "vlong env (JBool b) = of_bool b"
| "vlong env (JStr s) = ce_toLongLong env s"
| "vlong env _ = 0"

definition row_id :: "cloud_env \<Rightarrow> jobject \<Rightarrow> qstring" where
  "row_id env row = vstring env (oget row ''device_id'')"

definition find_row :: "cloud_env \<Rightarrow> qstring \<Rightarrow> jobject list \<Rightarrow> nat option" where
  "find_row env deviceId rows = find_index (\<lambda>row. row_id env row = deviceId) rows"

definition without_device :: "cloud_env \<Rightarrow> qstring \<Rightarrow> jobject list \<Rightarrow> jobject list" where
  "without_device env deviceId rows = filter (\<lambda>row. row_id env row \<noteq> deviceId) rows"

text \<open>\<open>row[it.key()] = it.value()\<close> for every entry of an object.\<close>

definition patch_row :: "jobject \<Rightarrow> jobject \<Rightarrow> jobject" where
  "patch_row data row = fold (\<lambda>(k, v). oset k v) data row"

definition items_of :: "cloud_env \<Rightarrow> qstring \<Rightarrow> jobject list" where
  "items_of env data = map toObject (toArray (oget (doc_object (au_fromJson (ce_auth env) data)) ''items''))"

definition cloud_base :: "cloud_env \<Rightarrow> qstring" where
  "cloud_base env = am_httpBaseUrl (ce_auth env)"

definition cd_loggedIn :: "cloud \<Rightarrow> bool" where
  "cd_loggedIn st = am_isLoggedIn (cd_auth st)"

definition deviceSecretHeaders :: "cloud_env \<Rightarrow> cloud \<Rightarrow> (qstring \<times> qstring) list" where
  "deviceSecretHeaders env st = publicHeaders (ce_auth env) (cd_auth st) @ [(''Content-Type'', ''application/json'')]
     @ (if ce_deviceSecret env \<noteq> [] then [(''Authorization'', ''Bearer '' @ ce_deviceSecret env)] else [])"

definition deviceRev :: "qstring \<Rightarrow> cloud \<Rightarrow> int" where
  "deviceRev deviceId st = qm_value 0 (cd_deviceRevs st) deviceId"

definition setDeviceRev :: "qstring \<Rightarrow> int \<Rightarrow> cloud \<Rightarrow> cloud" where
  "setDeviceRev deviceId rv st =
     (if deviceId \<noteq> [] \<and> rv > 0 then st\<lparr>cd_deviceRevs := qm_insert deviceId rv (cd_deviceRevs st)\<rparr> else st)"


section \<open>Requests\<close>

definition account :: "cloud_call am_action \<Rightarrow> cd_action" where
  "account a st = (let (am, ev) = a (cd_auth st) in (st\<lparr>cd_auth := am\<rparr>, map cd_account ev))"

definition cloud_request :: "cloud_env \<Rightarrow> cloud_call \<Rightarrow> qstring \<Rightarrow> qstring \<Rightarrow> qstring \<Rightarrow> cd_action" where
  "cloud_request env k method path body = account (request (ce_auth env) (Client k) method (cloud_base env @ path) body)"

definition body_text :: "cloud_env \<Rightarrow> jobject \<Rightarrow> qstring" where
  "body_text env body = au_toJson (ce_auth env) body"

definition fetchMyDevices :: "cloud_env \<Rightarrow> cd_action" where
  "fetchMyDevices env st =
     (if \<not> cd_loggedIn st then (st, []) else cloud_request env (CC_fetchMyDevices (cd_serverRev st)) ''GET'' ''v1/me/devices'' [] st)"

definition autoBindDevice :: "cloud_env \<Rightarrow> qstring \<Rightarrow> cd_action" where
  "autoBindDevice env deviceId st =
     (if \<not> cd_loggedIn st \<or> deviceId = [] then (st, [])
      else cloud_request env (CC_bind deviceId) ''POST'' ''v1/me/devices'' (body_text env (mkobj [(''device_id'', JStr deviceId)])) st)"

definition unbindDevice :: "cloud_env \<Rightarrow> qstring \<Rightarrow> cd_action" where
  "unbindDevice env deviceId st =
     (if \<not> cd_loggedIn st \<or> deviceId = [] then (st, [])
      else cloud_request env (CC_unbind deviceId) ''DELETE'' (''v1/me/devices/'' @ deviceId) [] st)"

definition setDeviceRemark :: "cloud_env \<Rightarrow> qstring \<Rightarrow> qstring \<Rightarrow> cd_action" where
  "setDeviceRemark env deviceId remark st =
     (if \<not> cd_loggedIn st \<or> deviceId = [] then (st, [])
      else cloud_request env (CC_remark deviceId) ''PATCH'' (''v1/me/devices/'' @ deviceId) (body_text env (mkobj [(''remark'', JStr remark)])) st)"

definition refreshDeviceAccessCodeNow :: "cloud_env \<Rightarrow> qstring \<Rightarrow> nat option \<Rightarrow> cd_action" where
  "refreshDeviceAccessCodeNow env deviceId tag st =
     (if \<not> cd_loggedIn st \<or> deviceId = []
      then (st, case tag of Some n \<Rightarrow> [cd_codeFailed n 0 ''NOT_LOGGED_IN'' ''User is not logged in''] | None \<Rightarrow> [])
      else cloud_request env (CC_accessCode deviceId tag) ''GET'' (''v1/me/devices/'' @ deviceId) [] st)"

definition refreshDeviceAccessCode :: "cloud_env \<Rightarrow> qstring \<Rightarrow> cd_action" where
  "refreshDeviceAccessCode env deviceId = refreshDeviceAccessCodeNow env deviceId None"

definition syncAccessCode :: "cloud_env \<Rightarrow> qstring \<Rightarrow> qstring \<Rightarrow> cd_action" where
  "syncAccessCode env deviceId accessCode st =
     (if deviceId = [] \<or> accessCode = [] then (st, [])
      else if ce_deviceSecret env = [] then (st, [])
      else if deviceId = cd_lastSyncedDeviceId st \<and> accessCode = cd_lastSyncedAccessCode st then (st, [])
      else account (send_http (H_client (CC_syncCode deviceId accessCode))
             (http_put (cloud_base env @ ''v1/devices/'' @ deviceId @ ''/access-code'') (deviceSecretHeaders env st)
               (body_text env (mkobj [(''access_code'', JStr accessCode)])))) st)"

definition verifyAccessCode :: "cloud_env \<Rightarrow> qstring \<Rightarrow> qstring \<Rightarrow> nat \<Rightarrow> cd_action" where
  "verifyAccessCode env deviceId accessCode n st =
     (if deviceId = [] \<or> accessCode = [] then (st, [cd_verifyFailed n 0 ''INVALID_ARGUMENT'' ''deviceId / accessCode empty''])
      else account (send_http (H_client (CC_verify n))
             (http_post (cloud_base env @ ''v1/devices/'' @ deviceId @ ''/access-code:verify'') (json_headers (ce_auth env) (cd_auth st))
               (body_text env (mkobj [(''code'', JStr accessCode)])))) st)"

definition getDeviceAccessCode :: "cloud_env \<Rightarrow> qstring \<Rightarrow> cloud \<Rightarrow> qstring" where
  "getDeviceAccessCode env deviceId st =
     (case find_row env deviceId (cd_myDevices st) of
        Some i \<Rightarrow> vstring env (oget (cd_myDevices st ! i) ''access_code'') | None \<Rightarrow> [])"

definition getDeviceDisplayName :: "cloud_env \<Rightarrow> qstring \<Rightarrow> cloud \<Rightarrow> qstring" where
  "getDeviceDisplayName env deviceId st =
     (let field = (\<lambda>rows key. case find_row env deviceId rows of Some i \<Rightarrow> vstring env (oget (rows ! i) key) | None \<Rightarrow> []);
          remark = field (cd_myDevices st) ''remark'';
          name = field (cd_myDevices st) ''device_name'';
          favorite = field (cd_myFavorites st) ''device_name''
      in if remark \<noteq> [] then remark @ '' ('' @ deviceId @ '')''
         else if name \<noteq> [] then name @ '' ('' @ deviceId @ '')''
         else if favorite \<noteq> [] then favorite @ '' ('' @ deviceId @ '')''
         else deviceId)"

definition recordConnection :: "cloud_env \<Rightarrow> qstring \<Rightarrow> int \<Rightarrow> qstring \<Rightarrow> qstring \<Rightarrow> cd_action" where
  "recordConnection env deviceId duration status errorMsg st =
     (if \<not> cd_loggedIn st \<or> deviceId = [] then (st, [])
      else let name = getDeviceDisplayName env deviceId st
           in cloud_request env CC_record ''POST'' ''v1/me/connections'' (body_text env (mkobj (
                [(''device_id'', JStr deviceId), (''duration'', JInt duration), (''status'', JStr status)]
                @ (if errorMsg \<noteq> [] then [(''error_msg'', JStr errorMsg)] else [])
                @ (if name \<noteq> deviceId then [(''device_name'', JStr name)] else [])))) st)"

definition fetchConnectionLogs :: "cloud_env \<Rightarrow> cd_action" where
  "fetchConnectionLogs env st =
     (if \<not> cd_loggedIn st then (st, []) else cloud_request env CC_logs ''GET'' ''v1/me/connections'' [] st)"

definition fetchFavorites :: "cloud_env \<Rightarrow> cd_action" where
  "fetchFavorites env st =
     (if \<not> cd_loggedIn st then (st, []) else cloud_request env CC_favorites ''GET'' ''v1/me/favorites'' [] st)"

definition addFavorite :: "cloud_env \<Rightarrow> qstring \<Rightarrow> qstring \<Rightarrow> qstring \<Rightarrow> cd_action" where
  "addFavorite env deviceId name password st =
     (if \<not> cd_loggedIn st \<or> deviceId = [] then (st, [])
      else let favName = (if name \<noteq> [] then name
                          else case find_row env deviceId (cd_myDevices st) of
                                 None \<Rightarrow> []
                               | Some i \<Rightarrow> let r = cd_myDevices st ! i; remark = vstring env (oget r ''remark'')
                                           in if remark \<noteq> [] then remark else vstring env (oget r ''device_name''))
           in cloud_request env CC_addFavorite ''POST'' ''v1/me/favorites'' (body_text env (mkobj (
                [(''device_id'', JStr deviceId)]
                @ (if favName \<noteq> [] then [(''device_name'', JStr favName)] else [])
                @ (if password \<noteq> [] then [(''access_password'', JStr password)] else [])))) st)"

definition updateFavorite :: "cloud_env \<Rightarrow> qstring \<Rightarrow> qstring \<Rightarrow> qstring \<Rightarrow> cd_action" where
  "updateFavorite env deviceId name password st =
     (if \<not> cd_loggedIn st \<or> deviceId = [] then (st, [])
      else cloud_request env CC_updateFavorite ''PATCH'' (''v1/me/favorites/'' @ deviceId) (body_text env (mkobj (
             (if name \<noteq> [] then [(''device_name'', JStr name)] else [])
             @ (if password \<noteq> [] then [(''access_password'', JStr password)] else [])))) st)"

definition removeFavorite :: "cloud_env \<Rightarrow> qstring \<Rightarrow> cd_action" where
  "removeFavorite env deviceId st =
     (if \<not> cd_loggedIn st \<or> deviceId = [] then (st, [])
      else cloud_request env (CC_removeFavorite deviceId) ''DELETE'' (''v1/me/favorites/'' @ deviceId) [] st)"


section \<open>Replies\<close>

text \<open>One entry of the list that \<open>fetchMyDevices\<close> receives. A row that changed after the request was sent is kept as it is.\<close>

definition take_listed :: "cloud_env \<Rightarrow> int \<Rightarrow> jobject list \<Rightarrow> jobject \<Rightarrow> jobject list \<times> cloud \<Rightarrow> jobject list \<times> cloud" where
  "take_listed env requestRev oldRows obj acc =
     (let (next, st) = acc; deviceId = toString (oget obj ''device_id'')
      in if requestRev < deviceRev deviceId st
         then (case find_row env deviceId oldRows of Some i \<Rightarrow> (next @ [oldRows ! i], st) | None \<Rightarrow> (next, st))
         else (next @ [obj], setDeviceRev deviceId requestRev st))"

definition onMyDevices :: "cloud_env \<Rightarrow> int \<Rightarrow> qstring \<Rightarrow> cd_action" where
  "onMyDevices env requestRev data st =
     (if cd_syncBootstrapComplete st \<and> requestRev < cd_lastAppliedRev st then (st, [])
      else let (next, st1) = fold (take_listed env requestRev (cd_myDevices st)) (items_of env data) ([], st)
           in (st1\<lparr>cd_myDevices := next\<rparr>, [cd_myDevicesChanged]))"

definition note_rev :: "qstring \<Rightarrow> cloud \<Rightarrow> cloud" where
  "note_rev deviceId st = (if cd_serverRev st > deviceRev deviceId st then setDeviceRev deviceId (cd_serverRev st) st else st)"

definition code_answer :: "nat option \<Rightarrow> qstring \<Rightarrow> cd_event list" where
  "code_answer tag accessCode = (case tag of Some n \<Rightarrow> [cd_codeRefreshed n accessCode] | None \<Rightarrow> [])"

definition onDeviceRow :: "cloud_env \<Rightarrow> qstring \<Rightarrow> nat option \<Rightarrow> int \<Rightarrow> qstring \<Rightarrow> cd_action" where
  "onDeviceRow env deviceId tag statusCode data st =
     (let obj = doc_object (au_fromJson (ce_auth env) data);
          accessCode = toString (oget obj ''access_code'')
      in if accessCode = []
         then (st, case tag of Some n \<Rightarrow> [cd_codeFailed n statusCode ''INVALID_RESPONSE'' ''server returned empty access_code''] | None \<Rightarrow> [])
         else case find_row env deviceId (cd_myDevices st) of
                None \<Rightarrow> ((note_rev deviceId st)\<lparr>cd_myDevices := cd_myDevices st @ [obj]\<rparr>, cd_myDevicesChanged # code_answer tag accessCode)
              | Some i \<Rightarrow>
                  let r = cd_myDevices st ! i
                  in if vstring env (oget r ''access_code'') = accessCode then (note_rev deviceId st, code_answer tag accessCode)
                     else ((note_rev deviceId st)\<lparr>cd_myDevices := (cd_myDevices st)[i := oset ''access_code'' (JStr accessCode) r]\<rparr>,
                           cd_myDevicesChanged # code_answer tag accessCode))"

definition problem_of :: "cloud_env \<Rightarrow> qstring \<Rightarrow> qstring \<Rightarrow> qstring \<times> qstring" where
  "problem_of env errorMsg data =
     (let obj = doc_object (au_fromJson (ce_auth env) data); detail = toString (oget obj ''detail'')
      in (toString (oget obj ''code''), if detail = [] then errorMsg else detail))"

definition onCodeSynced :: "cloud_env \<Rightarrow> qstring \<Rightarrow> qstring \<Rightarrow> cd_action" where
  "onCodeSynced env deviceId accessCode st =
     (let st1 = st\<lparr>cd_lastSyncedDeviceId := deviceId, cd_lastSyncedAccessCode := accessCode\<rparr>
      in case find_row env deviceId (cd_myDevices st) of
           None \<Rightarrow> (st1, [])
         | Some i \<Rightarrow> (st1\<lparr>cd_myDevices := (cd_myDevices st)[i := oset ''access_code'' (JStr accessCode) (cd_myDevices st ! i)]\<rparr>,
                       [cd_myDevicesChanged]))"

definition onVerified :: "cloud_env \<Rightarrow> nat \<Rightarrow> int \<Rightarrow> qstring \<Rightarrow> qstring \<Rightarrow> cd_event list" where
  "onVerified env n statusCode errorMsg data =
     (if statusCode = 200 \<and> errorMsg = []
      then let token = toString (oget (doc_object (au_fromJson (ce_auth env) data)) ''signal_token'')
           in if token = [] then [cd_verifyFailed n statusCode ''INVALID_RESPONSE'' ''server returned no signal_token''] else [cd_verified n token]
      else let (code, detail) = problem_of env errorMsg data in [cd_verifyFailed n statusCode code detail])"

definition failed :: "int \<Rightarrow> qstring \<Rightarrow> bool" where
  "failed statusCode errorMsg \<longleftrightarrow> statusCode \<noteq> 200 \<or> errorMsg \<noteq> []"

fun cloud_callback :: "cloud_env \<Rightarrow> cloud_call \<Rightarrow> int \<Rightarrow> qstring \<Rightarrow> qstring \<Rightarrow> cd_action" where
  "cloud_callback env (CC_fetchMyDevices rv) sc err dat st = (if failed sc err then (st, []) else onMyDevices env rv dat st)"
| "cloud_callback env (CC_unbind d) sc err dat st =
     (if failed sc err then (st, []) else (st\<lparr>cd_myDevices := without_device env d (cd_myDevices st)\<rparr>, [cd_myDevicesChanged]))"
| "cloud_callback env (CC_accessCode d tag) sc err dat st =
     (if failed sc err
      then (st, case tag of Some n \<Rightarrow> let (code, detail) = problem_of env err dat in [cd_codeFailed n sc code detail] | None \<Rightarrow> [])
      else onDeviceRow env d tag sc dat st)"
| "cloud_callback env (CC_syncCode d code) sc err dat st = (if failed sc err then (st, []) else onCodeSynced env d code st)"
| "cloud_callback env (CC_verify n) sc err dat st = (st, onVerified env n sc err dat)"
| "cloud_callback env CC_logs sc err dat st =
     (if failed sc err then (st, []) else (st\<lparr>cd_connectionLogs := items_of env dat\<rparr>, [cd_connectionLogsChanged]))"
| "cloud_callback env CC_favorites sc err dat st =
     (if failed sc err then (st, []) else (st\<lparr>cd_myFavorites := items_of env dat\<rparr>, [cd_myFavoritesChanged]))"
| "cloud_callback env CC_addFavorite sc err dat st = (if failed sc err then (st, []) else fetchFavorites env st)"
| "cloud_callback env CC_updateFavorite sc err dat st = (if failed sc err then (st, []) else fetchFavorites env st)"
| "cloud_callback env (CC_removeFavorite d) sc err dat st =
     (if failed sc err then (st, []) else (st\<lparr>cd_myFavorites := without_device env d (cd_myFavorites st)\<rparr>, [cd_myFavoritesChanged]))"
| "cloud_callback env _ sc err dat st = (st, [])"

fun account_signal :: "cloud_env \<Rightarrow> cloud_call am_event \<Rightarrow> cd_action" where
  "account_signal env (am_answer k sc err dat) = cloud_callback env k sc err dat"
| "account_signal env e = emit [cd_account e]"

definition account_input :: "cloud_env \<Rightarrow> cloud_call am_input \<Rightarrow> cd_action" where
  "account_input env i st =
     (let (am, ev) = am_exec (ce_auth env) i (cd_auth st) in for_each (account_signal env) ev (st\<lparr>cd_auth := am\<rparr>))"


section \<open>Realtime events\<close>

definition drop_socket :: "cloud \<Rightarrow> cloud" where
  "drop_socket st = st\<lparr>cd_syncSocket := False, cd_syncAuthOk := False, cd_syncBootstrapComplete := False, cd_syncFamilyId := []\<rparr>"

definition startSync :: "cloud_env \<Rightarrow> cd_action" where
  "startSync env st =
     (if \<not> cd_loggedIn st then (st, [])
      else let wsUrl = au_serverUrl (ce_auth env); wsUrl = (if endsWith wsUrl ''/'' then wsUrl else wsUrl @ ''/'')
           in ((drop_socket st)\<lparr>cd_syncSocket := True\<rparr>,
               (if cd_syncSocket st then [cd_socketClose] else []) @ [cd_socketOpen (wsUrl @ ''v1/realtime/events'')]))"

definition stopSync :: cd_action where
  "stopSync st =
     (if cd_syncSocket st
      then ((drop_socket st)\<lparr>cd_serverRev := 0, cd_lastAppliedRev := 0, cd_deviceRevs := []\<rparr>, [cd_socketClose]) else (st, []))"

definition sendAuthFrame :: cd_action where
  "sendAuthFrame st =
     (if \<not> cd_syncSocket st \<or> \<not> cd_loggedIn st then (st, [])
      else (st, [cd_socketSend (mkobj ([(''type'', JStr ''auth''), (''access_token'', JStr (am_accessToken (cd_auth st)))]
             @ (if cd_lastAppliedRev st > 0 then [(''since_rev'', JInt (cd_lastAppliedRev st))] else [])))]))"

definition onSyncConnected :: cd_action where
  "onSyncConnected = sendAuthFrame"

definition reconnect_delay :: "int \<Rightarrow> int" where
  "reconnect_delay attempt = min (kSyncReconnectBaseMs * 2 ^ nat (min (attempt - 1) 5)) kSyncReconnectMaxMs"

definition onSyncDisconnected :: "cloud_env \<Rightarrow> cd_action" where
  "onSyncDisconnected env st =
     (let attempt = cd_reconnectAttempt st + 1; delayMs = reconnect_delay attempt + ce_jitter env;
          st1 = st\<lparr>cd_syncAuthOk := False, cd_syncBootstrapComplete := False, cd_syncFamilyId := [], cd_reconnectAttempt := attempt\<rparr>
      in (if cd_loggedIn st then st1\<lparr>cd_reconnectTimers := cd_reconnectTimers st @ [delayMs]\<rparr> else st1, [cd_syncDisconnected]))"

definition shouldApplyWireFrame :: "int \<Rightarrow> cloud \<Rightarrow> cloud \<times> bool" where
  "shouldApplyWireFrame rv st =
     (if rv \<le> 0 then (st, False)
      else if rv \<le> cd_lastAppliedRev st then (st, False)
      else (st\<lparr>cd_lastAppliedRev := rv\<rparr>, True))"

definition handleSnapshotFrame :: "cloud_env \<Rightarrow> jobject \<Rightarrow> cd_action" where
  "handleSnapshotFrame env msg st =
     (let data = toObject (oget msg ''data''); rv = vlong env (oget msg ''server_rev'');
          devices = map toObject (toArray (oget data ''devices''));
          st1 = fold (\<lambda>obj st. setDeviceRev (toString (oget obj ''device_id'')) rv st) devices (st\<lparr>cd_deviceRevs := []\<rparr>)
      in (st1\<lparr>cd_myDevices := devices, cd_myFavorites := map toObject (toArray (oget data ''favorites''))\<rparr>,
          [cd_myDevicesChanged, cd_myFavoritesChanged]))"

definition copyField :: "jobject \<Rightarrow> qstring \<Rightarrow> jobject \<times> bool \<Rightarrow> jobject \<times> bool" where
  "copyField data key acc = (if ocontains data key then (oset key (oget data key) (fst acc), True) else acc)"

text \<open>The new row and whether it changed; \<open>None\<close> for the early return.\<close>

definition updated_row :: "qstring \<Rightarrow> jobject \<Rightarrow> jobject \<Rightarrow> (jobject \<times> bool) option" where
  "updated_row type data row =
     (if type = ''device.online.changed''
      then let (row1, changed1) = copyField data ''online'' (row, False)
           in Some (if ocontains data ''logged_in'' then copyField data ''logged_in'' (row1, changed1)
                    else if ocontains data ''online''
                    then (oset ''logged_in'' (JBool (toBool (oget data ''online'') \<and> vbool (oget row1 ''logged_in''))) row1, True)
                    else (row1, changed1))
      else if type = ''device.session.updated'' then Some (copyField data ''online'' (copyField data ''logged_in'' (row, False)))
      else if type = ''device.access_code.changed'' then Some (row, True)
      else if type = ''device.remark.changed'' then Some (copyField data ''remark'' (row, False))
      else if type = ''device.device_name.changed'' then Some (copyField data ''device_name'' (row, False))
      else if type = ''device.secret.rotated'' then None
      else Some (row, False))"

definition insert_stub :: "qstring \<Rightarrow> int \<Rightarrow> jobject \<Rightarrow> cd_action" where
  "insert_stub deviceId rv data st =
     ((setDeviceRev deviceId rv st)\<lparr>cd_myDevices := cd_myDevices st @ [patch_row data (mkobj [(''device_id'', JStr deviceId)])]\<rparr>,
      [cd_myDevicesChanged])"

definition applyDeviceEvent :: "cloud_env \<Rightarrow> qstring \<Rightarrow> jobject \<Rightarrow> cd_action" where
  "applyDeviceEvent env type data st =
     (let deviceId = toString (oget data ''device_id''); rv = cd_lastAppliedRev st; idx = find_row env deviceId (cd_myDevices st)
      in if deviceId = [] then (st, [])
         else if type = ''device.unbound'' \<or> type = ''device.ownership.lost''
         then (case idx of
                 Some i \<Rightarrow> (setDeviceRev deviceId rv (st\<lparr>cd_myDevices := remove_at i (cd_myDevices st)\<rparr>), [cd_myDevicesChanged])
               | None \<Rightarrow> (setDeviceRev deviceId rv st, []))
         else case idx of
                None \<Rightarrow> insert_stub deviceId rv data st
              | Some i \<Rightarrow>
                  if rv \<le> deviceRev deviceId st then (st, [])
                  else if type = ''device.bound'' \<or> type = ''device.added''
                  then ((setDeviceRev deviceId rv st)\<lparr>cd_myDevices := (cd_myDevices st)[i := patch_row data (cd_myDevices st ! i)]\<rparr>,
                        [cd_myDevicesChanged])
                  else (case updated_row type data (cd_myDevices st ! i) of
                          None \<Rightarrow> (st, [])
                        | Some (r, changed) \<Rightarrow>
                            seq [guarded (type = ''device.access_code.changed'') (refreshDeviceAccessCode env deviceId),
                                 guarded changed (seq [modify (\<lambda>st. (setDeviceRev deviceId rv st)\<lparr>cd_myDevices := (cd_myDevices st)[i := r]\<rparr>),
                                                       emit [cd_myDevicesChanged]])] st))"

definition applyFavoriteEvent :: "cloud_env \<Rightarrow> qstring \<Rightarrow> jobject \<Rightarrow> cd_action" where
  "applyFavoriteEvent env type data st =
     (let deviceId = toString (oget data ''device_id'')
      in if deviceId = [] then (st, [])
         else if type = ''favorite.removed''
         then (st\<lparr>cd_myFavorites := without_device env deviceId (cd_myFavorites st)\<rparr>, [cd_myFavoritesChanged])
         else fetchFavorites env st)"

definition handleEventFrame :: "cloud_env \<Rightarrow> jobject \<Rightarrow> cd_action" where
  "handleEventFrame env msg st =
     (let type = toString (oget msg ''type''); data = toObject (oget msg ''data'')
      in if startsWith type ''device.'' then applyDeviceEvent env type data st
         else if startsWith type ''favorite.'' then applyFavoriteEvent env type data st
         else if type = ''session.revoked''
         then let revokedFamily = toString (oget data ''family_id'')
              in if revokedFamily \<noteq> [] \<and> cd_syncFamilyId st \<noteq> [] \<and> revokedFamily \<noteq> cd_syncFamilyId st then (st, [])
                 else account (handleServerSessionRevoked (ce_auth env)) st
         else (st, []))"

definition frame_rev :: "cloud_env \<Rightarrow> jobject \<Rightarrow> int" where
  "frame_rev env msg = (if ocontains msg ''server_rev'' then vlong env (oget msg ''server_rev'') else 0)"

definition note_server_rev :: "int \<Rightarrow> cloud \<Rightarrow> cloud" where
  "note_server_rev rv st = (if rv > 0 \<and> rv > cd_serverRev st then st\<lparr>cd_serverRev := rv\<rparr> else st)"

definition dispatch_frame :: "cloud_env \<Rightarrow> jobject \<Rightarrow> cd_action" where
  "dispatch_frame env msg st =
     (let type = toString (oget msg ''type''); rv = frame_rev env msg
      in if type = ''auth_ok''
         then let familyId = toString (oget (toObject (oget msg ''data'')) ''family_id'')
              in (st\<lparr>cd_syncAuthOk := True, cd_syncBootstrapComplete := False, cd_reconnectAttempt := 0,
                     cd_syncFamilyId := (if familyId \<noteq> [] then familyId else cd_syncFamilyId st)\<rparr>, [])
         else if type = ''error''
         then let code = toString (oget (toObject (oget msg ''data'')) ''code'')
              in seq [guarded (code = ''TOKEN_INVALID'' \<or> code = ''AUTH_INVALID'') (cloud_request env CC_probe ''GET'' ''v1/me'' []),
                      emit [cd_socketClose]] st
         else if type = ''snapshot_required'' then (st, [])
         else if type = ''snapshot''
         then let (st1, apply_it) = shouldApplyWireFrame rv st in if \<not> apply_it then (st1, []) else handleSnapshotFrame env msg st1
         else if type = ''bootstrap_done''
         then (st\<lparr>cd_lastAppliedRev := (if rv > cd_lastAppliedRev st then rv else cd_lastAppliedRev st), cd_syncBootstrapComplete := True\<rparr>,
               [cd_syncConnected])
         else if type = ''session.revoked''
         then if rv \<le> cd_lastAppliedRev st then (st, []) else handleEventFrame env msg (st\<lparr>cd_lastAppliedRev := rv\<rparr>)
         else let (st1, apply_it) = shouldApplyWireFrame rv st
              in if \<not> apply_it then (st1, []) else seq [handleEventFrame env msg, emit [cd_syncMessage msg]] st1)"

definition onSyncTextMessageReceived :: "cloud_env \<Rightarrow> qstring \<Rightarrow> cd_action" where
  "onSyncTextMessageReceived env message st =
     (case au_fromJson (ce_auth env) message of
        ObjectDoc msg \<Rightarrow> dispatch_frame env msg (note_server_rev (frame_rev env msg) st)
      | _ \<Rightarrow> (st, []))"


section \<open>The manager as a state machine\<close>

datatype cd_input =
    CD_account "cloud_call am_input"
  | CD_fetchMyDevices
  | CD_bind qstring
  | CD_unbind qstring
  | CD_remark qstring qstring
  | CD_syncCode qstring qstring
  | CD_verify qstring qstring nat
  | CD_refreshCode qstring nat
  | CD_record qstring int qstring qstring
  | CD_logs
  | CD_favorites
  | CD_addFavorite qstring qstring qstring
  | CD_updateFavorite qstring qstring qstring
  | CD_removeFavorite qstring
  | CD_startSync
  | CD_stopSync
  | CD_socketConnected
  | CD_socketMessage qstring
  | CD_socketDisconnected
  | CD_reconnectTimer nat

fun cd_exec :: "cloud_env \<Rightarrow> cd_input \<Rightarrow> cd_action" where
  "cd_exec env (CD_account i) = account_input env i"
| "cd_exec env CD_fetchMyDevices = fetchMyDevices env"
| "cd_exec env (CD_bind d) = autoBindDevice env d"
| "cd_exec env (CD_unbind d) = unbindDevice env d"
| "cd_exec env (CD_remark d r) = setDeviceRemark env d r"
| "cd_exec env (CD_syncCode d c) = syncAccessCode env d c"
| "cd_exec env (CD_verify d c n) = verifyAccessCode env d c n"
| "cd_exec env (CD_refreshCode d n) = refreshDeviceAccessCodeNow env d (Some n)"
| "cd_exec env (CD_record d t s e) = recordConnection env d t s e"
| "cd_exec env CD_logs = fetchConnectionLogs env"
| "cd_exec env CD_favorites = fetchFavorites env"
| "cd_exec env (CD_addFavorite d n p) = addFavorite env d n p"
| "cd_exec env (CD_updateFavorite d n p) = updateFavorite env d n p"
| "cd_exec env (CD_removeFavorite d) = removeFavorite env d"
| "cd_exec env CD_startSync = startSync env"
| "cd_exec env CD_stopSync = stopSync"
| "cd_exec env CD_socketConnected = (\<lambda>st. if cd_syncSocket st then onSyncConnected st else (st, []))"
| "cd_exec env (CD_socketMessage m) = (\<lambda>st. if cd_syncSocket st then onSyncTextMessageReceived env m st else (st, []))"
| "cd_exec env CD_socketDisconnected = (\<lambda>st. if cd_syncSocket st then onSyncDisconnected env st else (st, []))"
| "cd_exec env (CD_reconnectTimer i) = (\<lambda>st. if i < length (cd_reconnectTimers st)
     then startSync env (st\<lparr>cd_reconnectTimers := remove_at i (cd_reconnectTimers st)\<rparr>) else (st, []))"

definition cd_run :: "(cloud_env \<times> cd_input) list \<Rightarrow> cd_action" where
  "cd_run = for_each (\<lambda>(env, i). cd_exec env i)"

definition cd_step :: "cloud \<Rightarrow> cloud \<Rightarrow> bool" where
  "cd_step st st' \<longleftrightarrow> (\<exists>env i. st' = fst (cd_exec env i st))"

abbreviation cd_reachable :: "cloud \<Rightarrow> bool" where
  "cd_reachable \<equiv> reachable (\<lambda>st. \<exists>c. st = CloudDeviceManager_init c) cd_step"

end
