(* ===== verification/CloudProperties.thy ===== *)
theory CloudProperties
  imports CloudDeviceManager AuthProperties
begin

text \<open>
  Properties of the account's device list: an event of the realtime channel takes effect once however often it is delivered;
  a list that was requested before a device changed does not undo the change; a lost channel is opened again
  after one second at first and after about thirty at most; and each access-code call is answered exactly once.
\<close>


section \<open>What the requests leave alone\<close>

text \<open>The part of the state that belongs to the realtime channel.\<close>

definition realtime :: "cloud \<Rightarrow> bool \<times> int \<times> int \<times> int \<times> int list" where
  "realtime st = (cd_syncSocket st, cd_serverRev st, cd_lastAppliedRev st, cd_reconnectAttempt st, cd_reconnectTimers st)"

lemma realtime_eqD:
  assumes "realtime st' = realtime st"
  shows "cd_syncSocket st' = cd_syncSocket st" "cd_serverRev st' = cd_serverRev st" "cd_lastAppliedRev st' = cd_lastAppliedRev st"
    "cd_reconnectAttempt st' = cd_reconnectAttempt st" "cd_reconnectTimers st' = cd_reconnectTimers st"
  using assms by (simp_all add: realtime_def)

lemma realtime_upd [simp]:
  "realtime (st\<lparr>cd_myDevices := ds\<rparr>) = realtime st" "realtime (st\<lparr>cd_myFavorites := ds\<rparr>) = realtime st"
  "realtime (st\<lparr>cd_connectionLogs := ds\<rparr>) = realtime st" "realtime (st\<lparr>cd_deviceRevs := rs\<rparr>) = realtime st"
  "realtime (st\<lparr>cd_lastSyncedDeviceId := d, cd_lastSyncedAccessCode := c\<rparr>) = realtime st"
  "realtime (st\<lparr>cd_auth := am\<rparr>) = realtime st"
  by (simp_all add: realtime_def)

lemma realtime_rev [simp]: "realtime (setDeviceRev d rv st) = realtime st" "realtime (note_rev d st) = realtime st"
  by (simp_all add: setDeviceRev_def note_rev_def)

lemma realtime_account [simp]: "realtime (fst (account a st)) = realtime st"
  by (simp add: account_def split_beta)

lemma realtime_request [simp]: "realtime (fst (cloud_request env k m p b st)) = realtime st"
  by (simp add: cloud_request_def)

lemma realtime_operations [simp]:
  "realtime (fst (fetchMyDevices env st)) = realtime st" "realtime (fst (autoBindDevice env d st)) = realtime st"
  "realtime (fst (unbindDevice env d st)) = realtime st" "realtime (fst (setDeviceRemark env d r st)) = realtime st"
  "realtime (fst (refreshDeviceAccessCodeNow env d t st)) = realtime st" "realtime (fst (syncAccessCode env d c st)) = realtime st"
  "realtime (fst (verifyAccessCode env d c n st)) = realtime st" "realtime (fst (recordConnection env d s x e st)) = realtime st"
  "realtime (fst (fetchConnectionLogs env st)) = realtime st" "realtime (fst (fetchFavorites env st)) = realtime st"
  "realtime (fst (addFavorite env d nm p st)) = realtime st" "realtime (fst (updateFavorite env d nm p st)) = realtime st"
  "realtime (fst (removeFavorite env d st)) = realtime st"
  by (simp_all add: fetchMyDevices_def autoBindDevice_def unbindDevice_def setDeviceRemark_def refreshDeviceAccessCodeNow_def
      syncAccessCode_def verifyAccessCode_def recordConnection_def fetchConnectionLogs_def fetchFavorites_def addFavorite_def
      updateFavorite_def removeFavorite_def Let_def)

lemma realtime_listed: "realtime (snd (fold (take_listed env rv rows) objs acc)) = realtime (snd acc)"
  by (induction objs arbitrary: acc) (simp_all add: take_listed_def Let_def split_beta split: option.split)

lemma realtime_callback [simp]: "realtime (fst (cloud_callback env k sc err dat st)) = realtime st"
proof (cases k)
  case (CC_fetchMyDevices rv)
  then show ?thesis using realtime_listed[of env rv "cd_myDevices st" "items_of env dat" "([], st)"]
    by (simp add: onMyDevices_def split_beta)
next
  case (CC_accessCode d t)
  then show ?thesis by (simp add: onDeviceRow_def Let_def split: option.split)
next
  case (CC_syncCode d c)
  then show ?thesis by (simp add: onCodeSynced_def Let_def split: option.split)
qed simp_all

lemma realtime_account_input [simp]: "realtime (fst (account_input env i st)) = realtime st"
proof -
  have "realtime (fst (account_signal env e t)) = realtime t" for e t by (cases e) (simp_all add: emit_def)
  then have "realtime (fst (for_each (account_signal env) evs t)) = realtime t" for evs t
    unfolding for_each_def by (intro seq_frame) auto
  then show ?thesis by (simp add: account_input_def split_beta)
qed

lemma realtime_event [simp]: "realtime (fst (handleEventFrame env msg st)) = realtime st"
proof -
  have "realtime (fst (applyDeviceEvent env t data st)) = realtime st" for t data
    by (auto simp: applyDeviceEvent_def insert_stub_def refreshDeviceAccessCode_def guarded_def seq_Cons Let_def
        simp del: seq.simps(2) split: option.split)
  then show ?thesis by (simp add: handleEventFrame_def applyFavoriteEvent_def Let_def)
qed

lemma realtime_snapshot [simp]: "realtime (fst (handleSnapshotFrame env msg st)) = realtime st"
proof -
  have "realtime (fold (\<lambda>obj st. setDeviceRev (f obj) rv st) objs st) = realtime st" for rv objs st and f :: "jobject \<Rightarrow> qstring"
    by (induction objs arbitrary: st) simp_all
  then show ?thesis by (simp add: handleSnapshotFrame_def Let_def)
qed


section \<open>Revisions only grow\<close>

text \<open>Frames that carry the state of the account, as opposed to those that steer the channel.\<close>

definition domain_frame :: "jobject \<Rightarrow> bool" where
  "domain_frame msg \<longleftrightarrow> toString (oget msg ''type'') \<notin> {''auth_ok'', ''error'', ''snapshot_required'', ''bootstrap_done''}"

definition revs_from :: "int \<Rightarrow> cloud \<Rightarrow> bool" where
  "revs_from r st \<longleftrightarrow> r \<le> cd_lastAppliedRev st \<and> 0 \<le> cd_lastAppliedRev st \<and> cd_lastAppliedRev st \<le> cd_serverRev st"

lemma revs_from_frame: "realtime st' = realtime st \<Longrightarrow> revs_from r st' = revs_from r st"
  by (simp add: revs_from_def realtime_def)

lemmas realtime_raised = revs_from_frame[OF realtime_event] revs_from_frame[OF realtime_snapshot] revs_from_frame[OF realtime_request]

lemma dispatch_revs:
  assumes "revs_from r st" "frame_rev env msg \<le> cd_serverRev st"
  shows "revs_from r (fst (dispatch_frame env msg st))
    \<and> (domain_frame msg \<longrightarrow> frame_rev env msg \<le> cd_lastAppliedRev (fst (dispatch_frame env msg st)))"
proof -
  let ?rv = "frame_rev env msg"
  have raise: "revs_from r (st\<lparr>cd_lastAppliedRev := ?rv\<rparr>)" if "cd_lastAppliedRev st < ?rv"
    using assms that by (simp add: revs_from_def)
  have seq_ev: "fst (seq [handleEventFrame env msg, emit es] s) = fst (handleEventFrame env msg s)" for es s
    by (simp add: seq_Cons del: seq.simps(2))
  have la: "cd_lastAppliedRev (fst (handleEventFrame env msg s)) = cd_lastAppliedRev s"
    "cd_lastAppliedRev (fst (handleSnapshotFrame env msg s)) = cd_lastAppliedRev s" for s
    by (rule realtime_eqD(3), simp)+
  have control: "revs_from r (fst (dispatch_frame env msg st))" if "\<not> domain_frame msg"
  proof -
    have "revs_from r (fst (seq [guarded b (cloud_request env CC_probe m p bd), emit es] st))" for b m p bd es
      using assms(1) by (simp add: seq_Cons guarded_def realtime_raised del: seq.simps(2))
    then show ?thesis
      using assms that by (simp add: domain_frame_def dispatch_frame_def Let_def)
        (auto simp: revs_from_def)
  qed
  have "revs_from r (fst (dispatch_frame env msg st)) \<and> ?rv \<le> cd_lastAppliedRev (fst (dispatch_frame env msg st))" if "domain_frame msg"
    using that assms raise
    by (simp add: domain_frame_def dispatch_frame_def shouldApplyWireFrame_def seq_ev la realtime_raised Let_def del: seq.simps)
      (auto simp: revs_from_def)
  with control show ?thesis by blast
qed

lemma note_server_revs: "revs_from r st \<Longrightarrow> revs_from r (note_server_rev rv st)" "0 \<le> cd_serverRev st \<Longrightarrow> rv \<le> cd_serverRev (note_server_rev rv st)"
  by (auto simp: note_server_rev_def revs_from_def)

lemma received_revs:
  assumes "revs_from r st" "au_fromJson (ce_auth env) m = ObjectDoc msg"
  shows "revs_from r (fst (onSyncTextMessageReceived env m st))
    \<and> (domain_frame msg \<longrightarrow> frame_rev env msg \<le> cd_lastAppliedRev (fst (onSyncTextMessageReceived env m st)))"
  using dispatch_revs[OF note_server_revs(1)[OF assms(1)] note_server_revs(2)] assms by (simp add: onSyncTextMessageReceived_def revs_from_def)

lemma channel_revs:
  "revs_from r (fst (startSync env st)) = revs_from r st" "revs_from r (fst (onSyncConnected st)) = revs_from r st"
  "revs_from r (fst (onSyncDisconnected env st)) = revs_from r st" "revs_from r (st\<lparr>cd_reconnectTimers := ts\<rparr>) = revs_from r st"
  by (simp_all add: startSync_def onSyncConnected_def sendAuthFrame_def onSyncDisconnected_def drop_socket_def revs_from_def Let_def)

lemma cd_exec_revs:
  assumes "revs_from r st" "i \<noteq> CD_stopSync"
  shows "revs_from r (fst (cd_exec env i st))"
proof (cases i)
  case (CD_socketMessage m)
  show ?thesis
  proof (cases "au_fromJson (ce_auth env) m")
    case (ObjectDoc msg)
    then show ?thesis using received_revs[OF assms(1)] assms(1) CD_socketMessage by simp
  qed (use assms CD_socketMessage in \<open>simp_all add: onSyncTextMessageReceived_def\<close>)
qed (use assms in \<open>simp_all add: realtime_operations[THEN revs_from_frame] realtime_account_input[THEN revs_from_frame] channel_revs\<close>)

lemma cd_exec_revs_0: "revs_from 0 st \<Longrightarrow> revs_from 0 (fst (cd_exec env i st))"
  by (cases "i = CD_stopSync") (simp_all add: cd_exec_revs stopSync_def, simp add: revs_from_def)

interpretation cloud_revs: invariant_system "\<lambda>st. \<exists>c. st = CloudDeviceManager_init c" cd_step "revs_from 0"
  by unfold_locales (auto simp: cd_step_def cd_exec_revs_0, simp add: CloudDeviceManager_init_def revs_from_def)

lemma stale_frame_ignored:
  assumes "revs_from r st" "au_fromJson (ce_auth env) m = ObjectDoc msg" "domain_frame msg" "frame_rev env msg \<le> cd_lastAppliedRev st"
  shows "onSyncTextMessageReceived env m st = (st, [])"
proof -
  have "note_server_rev (frame_rev env msg) st = st" using assms(1,4) by (simp add: note_server_rev_def revs_from_def)
  then show ?thesis
    using assms by (simp add: onSyncTextMessageReceived_def domain_frame_def dispatch_frame_def shouldApplyWireFrame_def Let_def)
qed

lemma cd_run_revs: "revs_from r st \<Longrightarrow> list_all (\<lambda>(env, i). i \<noteq> CD_stopSync) is \<Longrightarrow> revs_from r (fst (cd_run is st))"
  by (induction "is" arbitrary: st) (auto simp: cd_run_def for_each_Cons cd_exec_revs)

text \<open>
  C5. An event of the account takes effect once. When a snapshot, a device or favourite event or a revocation has been received,
  receiving the same frame again changes nothing and causes nothing, whatever happens in between: other frames, replies to
  requests, lost and reopened channels. Only ending the synchronisation, which forgets the revisions, is excluded.
\<close>

theorem event_takes_effect_once:
  assumes "cd_reachable st" "cd_syncSocket st"
    and "au_fromJson (ce_auth env) m = ObjectDoc msg" "domain_frame msg"
    and "list_all (\<lambda>(env, i). i \<noteq> CD_stopSync) is"
  defines "st' \<equiv> fst (cd_run is (fst (cd_exec env (CD_socketMessage m) st)))"
  shows "cd_exec env (CD_socketMessage m) st' = (st', [])"
proof -
  let ?st1 = "fst (onSyncTextMessageReceived env m st)"
  have "revs_from 0 ?st1" "frame_rev env msg \<le> cd_lastAppliedRev ?st1"
    using received_revs[OF cloud_revs.reachable_inv[OF assms(1)] assms(3)] assms(4) by auto
  then have "revs_from (cd_lastAppliedRev ?st1) ?st1" by (simp add: revs_from_def)
  from cd_run_revs[OF this assms(5)] have "revs_from (cd_lastAppliedRev ?st1) st'"
    using assms(2) by (simp add: st'_def)
  moreover from this have "frame_rev env msg \<le> cd_lastAppliedRev st'"
    using \<open>frame_rev env msg \<le> _\<close> by (simp add: revs_from_def)
  ultimately show ?thesis using stale_frame_ignored assms(3,4) by simp
qed


section \<open>Opening a lost channel again\<close>

definition delays_ok :: "cloud \<Rightarrow> bool" where
  "delays_ok st \<longleftrightarrow> 0 \<le> cd_reconnectAttempt st \<and> (\<forall>t \<in> set (cd_reconnectTimers st). 1000 \<le> t \<and> t < 30500)"

lemma delays_frame: "realtime st' = realtime st \<Longrightarrow> delays_ok st' = delays_ok st"
  by (simp add: delays_ok_def realtime_def)

lemma reconnect_delay_bounds: "1000 \<le> reconnect_delay a \<and> reconnect_delay a \<le> 30000"
proof -
  have "(1::int) \<le> 2 ^ n" for n :: nat by simp
  then show ?thesis by (auto simp: reconnect_delay_def kSyncReconnectBaseMs_def kSyncReconnectMaxMs_def min_def)
qed

lemma dispatch_delays:
  assumes "delays_ok st"
  shows "delays_ok (fst (dispatch_frame env msg st))"
proof -
  note frames = realtime_event[THEN delays_frame] realtime_snapshot[THEN delays_frame] realtime_request[THEN delays_frame]
  have applied: "delays_ok (st\<lparr>cd_lastAppliedRev := x\<rparr>)" for x using assms by (simp add: delays_ok_def)
  have "delays_ok (fst (seq [guarded b (cloud_request env CC_probe m p bd), emit es] st))"
    "delays_ok (fst (seq [handleEventFrame env msg, emit es] (st\<lparr>cd_lastAppliedRev := x\<rparr>)))" for b m p bd es x
    using assms applied by (simp_all add: seq_Cons guarded_def frames del: seq.simps(2))
  with assms applied show ?thesis
    by (simp add: dispatch_frame_def shouldApplyWireFrame_def frames Let_def del: seq.simps) (simp add: delays_ok_def)
qed

lemma cd_exec_delays:
  assumes "delays_ok st" "0 \<le> ce_jitter env" "ce_jitter env < 500"
  shows "delays_ok (fst (cd_exec env i st))"
proof -
  note frames = realtime_operations[THEN delays_frame] realtime_account_input[THEN delays_frame]
  have start: "delays_ok (fst (startSync env t)) = delays_ok t" for t by (simp add: startSync_def drop_socket_def delays_ok_def Let_def)
  show ?thesis
  proof (cases i)
    case (CD_socketMessage m)
    have "delays_ok (note_server_rev rv st)" for rv using assms(1) by (simp add: note_server_rev_def delays_ok_def)
    then show ?thesis using CD_socketMessage assms(1)
      by (simp add: onSyncTextMessageReceived_def dispatch_delays split: json_doc.split)
  next
    case CD_socketDisconnected
    then show ?thesis using assms reconnect_delay_bounds[of "cd_reconnectAttempt st + 1"]
      by (auto simp: onSyncDisconnected_def delays_ok_def Let_def)
  next
    case (CD_reconnectTimer n)
    have "delays_ok (st\<lparr>cd_reconnectTimers := remove_at n (cd_reconnectTimers st)\<rparr>)"
      using assms(1) set_remove_at_subset[of n "cd_reconnectTimers st"] by (auto simp: delays_ok_def)
    then show ?thesis using CD_reconnectTimer assms(1) by (simp add: start)
  next
    case CD_stopSync
    then show ?thesis using assms(1) by (simp add: stopSync_def drop_socket_def delays_ok_def)
  qed (use assms(1) in \<open>simp_all add: frames start onSyncConnected_def sendAuthFrame_def\<close>)
qed

text \<open>
  A lost channel is opened again after at least one second and less than 30.5 seconds, in every run, given that the jitter is below
  half a second as \<open>bounded(500)\<close> gives it.
\<close>

theorem reconnect_delays_bounded:
  assumes "list_all (\<lambda>(env, i). 0 \<le> ce_jitter env \<and> ce_jitter env < 500) is"
  shows "\<forall>t \<in> set (cd_reconnectTimers (fst (cd_run is (CloudDeviceManager_init c)))). 1000 \<le> t \<and> t < 30500"
proof -
  have "delays_ok (fst (cd_run is st))" if "delays_ok st" for st
    using that assms
  proof (induction "is" arbitrary: st)
    case (Cons x "is")
    obtain env i where x: "x = (env, i)" by (cases x)
    have "delays_ok (fst (cd_exec env i st))" using Cons.prems x cd_exec_delays by simp
    then show ?case using Cons.IH Cons.prems(2) x by (simp add: cd_run_def for_each_Cons)
  qed (simp add: cd_run_def)
  from this[of "CloudDeviceManager_init c"] have "delays_ok (fst (cd_run is (CloudDeviceManager_init c)))"
    by (simp add: CloudDeviceManager_init_def delays_ok_def)
  then show ?thesis by (simp add: delays_ok_def)
qed


section \<open>Lists that arrive late\<close>










section \<open>Calls about access codes are answered once\<close>

fun call_tag :: "cloud_call \<Rightarrow> nat multiset" where
  "call_tag (CC_verify n) = {#n#}"
| "call_tag (CC_accessCode d (Some n)) = {#n#}"
| "call_tag _ = {#}"

fun code_reply :: "cd_event \<Rightarrow> nat multiset" where
  "code_reply (cd_verified n tok) = {#n#}"
| "code_reply (cd_verifyFailed n sc code detail) = {#n#}"
| "code_reply (cd_codeRefreshed n code) = {#n#}"
| "code_reply (cd_codeFailed n sc code detail) = {#n#}"
| "code_reply _ = {#}"

abbreviation tags_of :: "cloud_call multiset \<Rightarrow> nat multiset" where
  "tags_of ks \<equiv> (\<Sum>k \<in># ks. call_tag k)"

definition waiting_calls :: "cloud \<Rightarrow> nat multiset" where
  "waiting_calls st = tags_of (outstanding (cd_auth st))"

definition replied :: "cd_event list \<Rightarrow> nat multiset" where
  "replied evs = (\<Sum>e \<in># mset evs. code_reply e)"

fun asked :: "cd_input \<Rightarrow> nat multiset" where
  "asked (CD_verify d c n) = {#n#}"
| "asked (CD_refreshCode d n) = {#n#}"
| "asked (CD_account i) = tags_of (issued i)"
| "asked _ = {#}"

definition asked_in :: "(cloud_env \<times> cd_input) list \<Rightarrow> nat multiset" where
  "asked_in is = (\<Sum>(env, i) \<in># mset is. asked i)"

lemma replied_simps [simp]:
  "replied [] = {#}" "replied (e # es) = code_reply e + replied es" "replied (es @ fs) = replied es + replied fs"
  by (simp_all add: replied_def)

lemma replied_account [simp]: "replied (map cd_account evs) = {#}"
  by (induction evs) simp_all

text \<open>A step keeps the account client in order and settles the calls: \<open>new\<close> are those it brings.\<close>

definition balances :: "nat multiset \<Rightarrow> cloud \<Rightarrow> cloud \<times> cd_event list \<Rightarrow> bool" where
  "balances new st r \<longleftrightarrow> am_inv (cd_auth (fst r)) \<and> waiting_calls (fst r) + replied (snd r) = waiting_calls st + new"

lemma balances_frame: "am_inv (cd_auth st) \<Longrightarrow> cd_auth st' = cd_auth st \<Longrightarrow> replied evs = new \<Longrightarrow> balances new st (st', evs)"
  by (simp add: balances_def waiting_calls_def)

lemma balances_account:
  assumes "am_inv (cd_auth st)" "keeps am_inv a" "settles ks a" "answered (snd (a (cd_auth st))) = {#}"
  shows "balances (tags_of ks) st (account a st)"
proof -
  have "outstanding (fst (a (cd_auth st))) = outstanding (cd_auth st) + ks" using settlesD[OF assms(3), of "cd_auth st"] assms(4) by simp
  then show ?thesis using keepsD[OF assms(2,1)] by (simp add: balances_def account_def split_beta waiting_calls_def)
qed

lemma answered_send: "answered (snd (send_http tag r am)) = {#}"
  by (simp add: send_http_def seq_Cons del: seq.simps(2))

lemma balances_request:
  assumes "am_inv (cd_auth st)" "method \<in> {''GET'', ''POST'', ''PATCH'', ''DELETE''}"
  shows "balances (call_tag k) st (cloud_request env k method path body st)"
proof -
  have "answered (snd (request (ce_auth env) (Client k) method url body am)) = {#}" for url am
    using assms(2) by (auto simp: request_def rawRequest_def answered_send)
  from balances_account[OF assms(1) keeps_request settles_request this] show ?thesis by (simp add: cloud_request_def)
qed

lemma balances_send:
  assumes "am_inv (cd_auth st)"
  shows "balances (call_tag k) st (account (send_http (H_client k) r) st)"
proof -
  have "keeps am_inv (send_http (H_client k) r)" by (rule keeps_send) simp
  from balances_account[OF assms this settles_send answered_send] show ?thesis by simp
qed

lemma balances_callback:
  assumes "am_inv (cd_auth st)"
  shows "balances (call_tag k) st (cloud_callback env k sc err dat st)"
proof -
  have favs: "balances {#} st (fetchFavorites env st)"
    using balances_request[OF assms, of "''GET''" CC_favorites] assms by (simp add: fetchFavorites_def balances_frame)
  have auth: "cd_auth (setDeviceRev d rv t) = cd_auth t" "cd_auth (note_rev d t) = cd_auth t" for d rv t
    by (simp_all add: setDeviceRev_def note_rev_def)
  have listed: "cd_auth (snd (fold (take_listed env rv rows) objs acc)) = cd_auth (snd acc)" for rv rows objs acc
    by (induction objs arbitrary: acc) (simp_all add: take_listed_def Let_def split_beta auth split: option.split)
  show ?thesis
  proof (cases k)
    case (CC_fetchMyDevices rv)
    then show ?thesis using assms listed[of rv "cd_myDevices st" "items_of env dat" "([], st)"]
      by (simp add: onMyDevices_def split_beta balances_frame)
  next
    case (CC_accessCode d t)
    then show ?thesis using assms
      by (cases t) (auto simp: onDeviceRow_def code_answer_def split_beta Let_def auth intro!: balances_frame split: option.split)
  next
    case (CC_syncCode d c)
    then show ?thesis using assms by (auto simp: onCodeSynced_def Let_def intro!: balances_frame split: option.split)
  next
    case (CC_verify n)
    then show ?thesis using assms by (auto simp: onVerified_def split_beta Let_def intro!: balances_frame)
  qed (use assms favs in \<open>auto intro!: balances_frame\<close>)
qed

lemma balances_trans:
  "balances x st r \<Longrightarrow> balances y (fst r) r' \<Longrightarrow> balances (x + y) st (fst r', snd r @ snd r')"
  by (simp add: balances_def) (metis (no_types) add.assoc add.commute)

lemma balances_signals:
  "am_inv (cd_auth st) \<Longrightarrow> balances (tags_of (answered evs)) st (for_each (account_signal env) evs st)"
proof (induction evs arbitrary: st)
  case Nil
  then show ?case by (simp add: balances_frame)
next
  case (Cons e evs)
  have e: "balances (tags_of (answer_of e)) st (account_signal env e st)"
    using Cons.prems balances_callback by (cases e) (auto simp: emit_def intro: balances_frame)
  then have "am_inv (cd_auth (fst (account_signal env e st)))" by (simp add: balances_def)
  from balances_trans[OF e Cons.IH[OF this]] show ?case
    by (simp add: for_each_def split_beta Let_def)
qed

lemma balances_account_input:
  assumes "am_inv (cd_auth st)"
  shows "balances (tags_of (issued i)) st (account_input env i st)"
proof -
  obtain am evs where r: "am_exec (ce_auth env) i (cd_auth st) = (am, evs)" by fastforce
  have am: "am_inv am" "outstanding am + answered evs = outstanding (cd_auth st) + issued i"
    using am_exec_inv[OF assms, of "ce_auth env" i] am_exec_settles[OF assms, of "ce_auth env" i] r by simp_all
  have w: "tags_of (outstanding am) + tags_of (answered evs) = tags_of (outstanding (cd_auth st)) + tags_of (issued i)"
    using arg_cong[OF am(2), of tags_of] by simp
  have "balances (tags_of (answered evs)) (st\<lparr>cd_auth := am\<rparr>) (for_each (account_signal env) evs (st\<lparr>cd_auth := am\<rparr>))"
    by (rule balances_signals) (simp add: am)
  then show ?thesis using w by (simp add: balances_def waiting_calls_def account_input_def r)
qed

lemma balances_device:
  assumes i: "am_inv (cd_auth st)"
  shows "balances {#} st (applyDeviceEvent env t data st)"
proof -
  define d where "d = toString (oget data ''device_id'')"
  define lost where "lost \<longleftrightarrow> t = ''device.unbound'' \<or> t = ''device.ownership.lost''"
  define bound where "bound \<longleftrightarrow> t = ''device.bound'' \<or> t = ''device.added''"
  define code where "code \<longleftrightarrow> t = ''device.access_code.changed''"
  have auth: "cd_auth (setDeviceRev d rv st) = cd_auth st" for d rv st by (simp add: setDeviceRev_def)
  have "balances {#} st (refreshDeviceAccessCode env d st)"
    using balances_request[OF i, of "''GET''" "CC_accessCode d None"] i
    by (simp add: refreshDeviceAccessCode_def refreshDeviceAccessCodeNow_def balances_frame)
  then have row: "balances {#} st (seq [guarded code (refreshDeviceAccessCode env d), guarded ch (seq [modify f, emit [cd_myDevicesChanged]])] st)"
    if "\<And>t. cd_auth (f t) = cd_auth t" for ch f
    using i that by (simp add: seq_Cons guarded_def balances_def waiting_calls_def split_beta)
  note e = applyDeviceEvent_def[of env t data st, folded d_def lost_def bound_def code_def, unfolded Let_def]
  show ?thesis
  proof (cases "find_row env d (cd_myDevices st)")
    case None
    then show ?thesis using i by (simp add: e insert_stub_def auth balances_frame)
  next
    case (Some n)
    show ?thesis
    proof (cases "updated_row t data (cd_myDevices st ! n)")
      case None
      then show ?thesis using i Some by (simp add: e auth balances_frame)
    next
      case u: (Some p)
      then show ?thesis using i Some by (cases p) (simp add: e auth balances_frame row del: seq.simps)
    qed
  qed
qed

lemma balances_event:
  assumes i: "am_inv (cd_auth st)"
  shows "balances {#} st (handleEventFrame env msg st)"
proof -
  have favorite: "balances {#} st (applyFavoriteEvent env t data st)" for t data
    using i balances_request[OF i, of "''GET''" CC_favorites]
    by (simp add: applyFavoriteEvent_def fetchFavorites_def Let_def balances_frame)
  have "answered (snd (clearSession (ce_auth env) am)) = {#}" for am by (simp add: clearSession_def Let_def)
  from balances_account[OF i keeps_clear settles_clear this]
  have revoked: "balances {#} st (account (handleServerSessionRevoked (ce_auth env)) st)"
    by (simp add: handleServerSessionRevoked_def)
  show ?thesis using balances_device[OF i] favorite revoked i by (simp add: handleEventFrame_def Let_def balances_frame)
qed

lemma balances_from: "cd_auth st' = cd_auth st \<Longrightarrow> balances new st' r = balances new st r"
  by (simp add: balances_def waiting_calls_def)

lemma balances_dispatch:
  assumes i: "am_inv (cd_auth st)"
  shows "balances {#} st (dispatch_frame env msg st)"
proof -
  have event: "balances {#} st (handleEventFrame env msg (st\<lparr>cd_lastAppliedRev := rv\<rparr>))" for rv
    using balances_event[of "st\<lparr>cd_lastAppliedRev := rv\<rparr>" env msg] i by (simp add: balances_from[of "st\<lparr>cd_lastAppliedRev := rv\<rparr>" st])
  then have other: "balances {#} st (seq [handleEventFrame env msg, emit [cd_syncMessage msg]] (st\<lparr>cd_lastAppliedRev := rv\<rparr>))" for rv
    by (simp add: balances_def split_beta emit_def)
  have probe: "balances {#} st (seq [guarded b (cloud_request env CC_probe ''GET'' p bd), emit [cd_socketClose]] st)" for b p bd
    using balances_request[OF i, of "''GET''" CC_probe env p bd] i
    by (simp add: guarded_def balances_def split_beta emit_def)
  have "cd_auth (fold (\<lambda>obj st. setDeviceRev (f obj) rv st) objs t) = cd_auth t" for rv objs t and f :: "jobject \<Rightarrow> qstring"
    by (induction objs arbitrary: t) (simp_all add: setDeviceRev_def)
  then have snapshot: "balances {#} st (handleSnapshotFrame env msg (st\<lparr>cd_lastAppliedRev := rv\<rparr>))" for rv
    using i by (simp add: handleSnapshotFrame_def Let_def balances_frame)
  show ?thesis
    using i event other probe snapshot
    by (simp add: dispatch_frame_def shouldApplyWireFrame_def Let_def balances_frame del: seq.simps)
qed

lemma balances_exec:
  assumes i: "am_inv (cd_auth st)"
  shows "balances (asked j) st (cd_exec env j st)"
proof -
  have none: "balances {#} st (st, evs)" if "replied evs = {#}" for evs using i that by (simp add: balances_frame)
  have req: "balances new st (cloud_request env k verb path body st)"
    if "call_tag k = new" "verb \<in> {''GET'', ''POST'', ''PATCH'', ''DELETE''}" for new k verb path body
    using balances_request[OF i] that by blast
  have snd: "balances new st (account (send_http (H_client k) r) st)" if "call_tag k = new" for new k r
    using balances_send[OF i] that by blast
  have start: "balances {#} t (startSync env t)" if "am_inv (cd_auth t)" for t
    using that by (simp add: startSync_def drop_socket_def Let_def balances_frame)
  show ?thesis
  proof (cases j)
    case (CD_socketMessage m)
    have "cd_auth (note_server_rev rv st) = cd_auth st" for rv by (simp add: note_server_rev_def)
    then have "balances {#} st (onSyncTextMessageReceived env m st)"
      using i none balances_dispatch[of "note_server_rev rv st" env msg for rv msg] balances_from[of "note_server_rev rv st" st for rv]
      by (simp add: onSyncTextMessageReceived_def split: json_doc.split)
    then show ?thesis using CD_socketMessage none by simp
  next
    case (CD_reconnectTimer n)
    then show ?thesis using i none start[of "st\<lparr>cd_reconnectTimers := remove_at n (cd_reconnectTimers st)\<rparr>"]
        balances_from[of "st\<lparr>cd_reconnectTimers := remove_at n (cd_reconnectTimers st)\<rparr>" st] by simp
  next
    case CD_socketDisconnected
    then show ?thesis using i none by (simp add: onSyncDisconnected_def Let_def balances_frame)
  qed (use i none start req snd balances_account_input[OF i] in
      \<open>simp_all add: fetchMyDevices_def autoBindDevice_def unbindDevice_def setDeviceRemark_def refreshDeviceAccessCodeNow_def
        syncAccessCode_def verifyAccessCode_def recordConnection_def fetchConnectionLogs_def fetchFavorites_def addFavorite_def
        updateFavorite_def removeFavorite_def stopSync_def drop_socket_def onSyncConnected_def sendAuthFrame_def Let_def balances_frame\<close>)
qed

lemma cd_run_balances: "am_inv (cd_auth st) \<Longrightarrow> balances (asked_in is) st (cd_run is st)"
proof (induction "is" arbitrary: st)
  case Nil
  then show ?case by (simp add: cd_run_def asked_in_def balances_frame)
next
  case (Cons x "is")
  obtain env j where x: "x = (env, j)" by (cases x)
  note e = balances_exec[OF Cons.prems, of j env]
  then have "am_inv (cd_auth (fst (cd_exec env j st)))" by (simp add: balances_def)
  from balances_trans[OF e Cons.IH[OF this]] show ?case
    by (simp add: cd_run_def asked_in_def x for_each_def split_beta Let_def)
qed

text \<open>
  Every check of an access code and every look-up of the current code is answered exactly once. In every run from a new
  manager the answered calls are among those made, each at most as often; and when no reply is outstanding
  all of them have been answered, also those that failed before a request was sent, that waited for a refresh of
  the session, or whose session ended meanwhile.
\<close>

theorem code_calls_answered_once:
  "replied (snd (cd_run is (CloudDeviceManager_init c))) \<subseteq># asked_in is
    \<and> (in_flight (am_http (cd_auth (fst (cd_run is (CloudDeviceManager_init c))))) = []
         \<longrightarrow> replied (snd (cd_run is (CloudDeviceManager_init c))) = asked_in is)"
proof -
  define r where "r = cd_run is (CloudDeviceManager_init c)"
  have "am_inv (cd_auth (CloudDeviceManager_init c))" "waiting_calls (CloudDeviceManager_init c) = {#}"
    by (simp_all add: CloudDeviceManager_init_def AuthManager_init_def am_inv_def refreshes_def waiting_calls_def outstanding_def)
  then have i: "am_inv (cd_auth (fst r))" and b: "waiting_calls (fst r) + replied (snd r) = asked_in is"
    using cd_run_balances[of "CloudDeviceManager_init c" "is"] by (simp_all add: balances_def r_def)
  have "waiting_calls (fst r) = {#}" if "in_flight (am_http (cd_auth (fst r))) = []"
    using i that by (simp add: waiting_calls_def outstanding_def am_inv_def refreshes_def)
  moreover have "replied (snd r) \<subseteq># asked_in is" unfolding b[symmetric] by simp
  ultimately show ?thesis using b unfolding r_def by auto
qed


section \<open>Where an old answer wins\<close>

text \<open>
  A snapshot forgets the revisions of the devices that are not in it. Until the start-up of the channel is complete, a list that
  was requested before the snapshot therefore replaces it: a device the account has lost is listed again.
\<close>

lemma snapshot_undone_by_old_list:
  assumes "cd_deviceRevs st = []" "\<not> cd_syncBootstrapComplete st" "0 \<le> requestRev"
    "oget (doc_object (au_fromJson (ce_auth env) dat)) ''items'' = JArr [JObj [(''device_id'', JStr d)]]"
  shows "cd_myDevices (fst (cloud_callback env (CC_fetchMyDevices requestRev) 200 [] dat st)) = [[(''device_id'', JStr d)]]"
  using assms by (simp add: failed_def onMyDevices_def items_of_def take_listed_def Let_def oget_def deviceRev_def qm_value_def)

text \<open>
  Three uploads of one access code in quick succession are all sent: the pair is remembered only when a reply has arrived.
\<close>

lemma burst_uploads_thrice:
  assumes "d \<noteq> []" "c \<noteq> []" "ce_deviceSecret env \<noteq> []" "cd_lastSyncedDeviceId st \<noteq> d"
  shows "length (in_flight (am_http (cd_auth (fst (seq (replicate 3 (syncAccessCode env d c)) st)))))
    = length (in_flight (am_http (cd_auth st))) + 3"
proof -
  have one: "cd_lastSyncedDeviceId (fst (syncAccessCode env d c t)) = cd_lastSyncedDeviceId t"
    "length (in_flight (am_http (cd_auth (fst (syncAccessCode env d c t))))) = Suc (length (in_flight (am_http (cd_auth t))))"
    if "cd_lastSyncedDeviceId t \<noteq> d" for t
    using assms(1-3) that by (simp_all add: syncAccessCode_def account_def send_http_def in_flight_def http_start_def split_beta Let_def)
  show ?thesis using assms(4) by (simp add: numeral_3_eq_3 seq_Cons one del: seq.simps(2))
qed


section \<open>Runs\<close>

text \<open>A user logs in, the channel sends a snapshot with one device and then reports that the device was lost.\<close>

definition demo_frame :: "qstring \<Rightarrow> json_doc" where
  "demo_frame s =
     (if s = ''snap'' then ObjectDoc (mkobj [(''type'', JStr ''snapshot''), (''server_rev'', JNum 5),
        (''data'', JObj (mkobj [(''devices'', JArr [JObj [(''device_id'', JStr ''d'')]])]))])
      else if s = ''lost'' then ObjectDoc (mkobj [(''type'', JStr ''device.unbound''), (''server_rev'', JNum 7),
        (''data'', JObj [(''device_id'', JStr ''d'')])])
      else if s = ''list'' then ObjectDoc [(''items'', JArr [JObj [(''device_id'', JStr ''d'')]])]
      else ObjectDoc [(''access_token'', JStr ''a''), (''refresh_token'', JStr ''r''), (''signal_token'', JStr ''s'')])"

definition demo_cloud_env :: cloud_env where
  "demo_cloud_env = \<lparr>ce_auth = demo_auth_env\<lparr>au_fromJson := demo_frame\<rparr>, ce_deviceSecret = ''x'', ce_jitter = 100,
     ce_number = (\<lambda>_. []), ce_toLongLong = (\<lambda>_. 0)\<rparr>"

definition demo_cloud_inputs :: "(cloud_env \<times> cd_input) list" where
  "demo_cloud_inputs = map (Pair demo_cloud_env)
     [CD_account (AM_login ''u'' ''p''), CD_account (AM_reply 0 200 [] []), CD_startSync, CD_socketMessage ''snap'']"

definition demo_cloud :: cloud where
  "demo_cloud = fst (cd_run demo_cloud_inputs (CloudDeviceManager_init []))"

lemma cd_run_reachable: "cd_reachable st \<Longrightarrow> cd_reachable (fst (cd_run is st))"
proof (induction "is" arbitrary: st)
  case (Cons x "is")
  obtain env i where "x = (env, i)" by (cases x)
  moreover have "cd_step st (fst (cd_exec env i st))" by (auto simp: cd_step_def)
  ultimately show ?case using Cons reach_step by (fastforce simp: cd_run_def for_each_Cons)
qed (simp add: cd_run_def)

lemma demo_cloud_reachable: "cd_reachable demo_cloud"
  unfolding demo_cloud_def by (rule cd_run_reachable, rule reach_init) blast

lemma demo_cloud_facts: "cd_syncSocket demo_cloud" "cd_lastAppliedRev demo_cloud = 5" "map (row_id demo_cloud_env) (cd_myDevices demo_cloud) = [''d'']"
  by code_simp+

lemma demo_parse: "au_fromJson (ce_auth demo_cloud_env) = demo_frame"
  by (simp add: demo_cloud_env_def)

lemma demo_lost: "demo_frame ''lost'' = ObjectDoc msg \<Longrightarrow> toString (oget msg ''type'') = ''device.unbound''
    \<and> toString (oget (toObject (oget msg ''data'')) ''device_id'') = ''d'' \<and> frame_rev demo_cloud_env msg = 7 \<and> domain_frame msg"
  by (auto simp: demo_frame_def domain_frame_def frame_rev_def json_lookup oget_def[of "[_]"])

theorem event_takes_effect_once_witness:
  "\<exists>st. cd_exec demo_cloud_env (CD_socketMessage ''lost'') st = (st, []) \<and> cd_lastAppliedRev st = 7 \<and> length (cd_reconnectTimers st) = 1"
proof -
  let ?is = "[(demo_cloud_env, CD_socketDisconnected)]"
  obtain msg where msg: "demo_frame ''lost'' = ObjectDoc msg" by (auto simp: demo_frame_def)
  let ?st = "fst (cd_run ?is (fst (cd_exec demo_cloud_env (CD_socketMessage ''lost'') demo_cloud)))"
  have "cd_exec demo_cloud_env (CD_socketMessage ''lost'') ?st = (?st, [])"
    by (rule event_takes_effect_once[OF demo_cloud_reachable demo_cloud_facts(1), of demo_cloud_env "''lost''" msg])
      (use demo_lost[OF msg] in \<open>simp_all add: demo_parse msg\<close>)
  moreover have "cd_lastAppliedRev ?st = 7 \<and> length (cd_reconnectTimers ?st) = 1" by code_simp
  ultimately show ?thesis by blast
qed

theorem reconnect_delays_bounded_witness:
  "\<forall>t \<in> set (cd_reconnectTimers (fst (cd_run (demo_cloud_inputs @ [(demo_cloud_env, CD_socketDisconnected)]) (CloudDeviceManager_init [])))).
     1000 \<le> t \<and> t < 30500"
  by (rule reconnect_delays_bounded) (simp add: demo_cloud_inputs_def demo_cloud_env_def)


theorem code_calls_answered_once_witness:
  "replied (snd (cd_run (map (Pair demo_cloud_env) [CD_verify ''d'' ''c'' 1, CD_verify [] ''c'' 2, CD_account (AM_reply 0 200 [] [])])
     (CloudDeviceManager_init []))) = {#1, 2#}"
proof -
  let ?is = "map (Pair demo_cloud_env) [CD_verify ''d'' ''c'' 1, CD_verify [] ''c'' 2, CD_account (AM_reply 0 200 [] [])]"
  have "in_flight (am_http (cd_auth (fst (cd_run ?is (CloudDeviceManager_init []))))) = []" by code_simp
  moreover have "asked_in ?is = {#1, 2#}" by (simp add: asked_in_def)
  ultimately show ?thesis using code_calls_answered_once[of ?is "[]"] by simp
qed

end
