(* ===== verification/McpService.thy ===== *)
theory McpService
  imports WebSocketServer NativeMessaging Settings
begin

text \<open>
  The MCP part of \<open>QuickDesk/src/controller/MainController.cpp\<close> (Windows build): the child process that serves the API over
  HTTP, the choice between the two transports, and the configuration files of other programs into which the
  server is entered.

  The process belongs to a \<open>QPointer\<close>, which becomes null when the object is deleted. Stopped processes are kept apart
  with the stage of their timer: 0 will terminate, 1 will kill. Files are a map from paths to texts; \<open>mcp_env\<close> holds what the
  system and Qt's JSON text format answer during a call.
\<close>


section \<open>State\<close>

record mcp_service =
  mp_transportMode :: qstring
  mp_httpPort :: int
  mp_httpProcess :: "process_state option"
  mp_stopping :: "(process_state \<times> nat) list"

record mcp_env =
  mpe_appDir :: qstring
  mpe_nativePath :: "qstring \<Rightarrow> qstring" \<comment> \<open>\<open>QDir::toNativeSeparators(QDir::cleanPath(...))\<close>\<close>
  mpe_exists :: "qstring \<Rightarrow> bool"
  mpe_addresses :: "(bool \<times> bool \<times> bool \<times> (bool \<times> bool \<times> qstring) list) list"
    \<comment> \<open>interfaces: up, running, loopback, and the addresses: IPv4, loopback, text\<close>
  mpe_appData :: qstring
  mpe_homePath :: qstring
  mpe_toJson :: "jobject \<Rightarrow> qstring"
  mpe_fromJson :: "qstring \<Rightarrow> json_doc"
  mpe_canRead :: bool
  mpe_canWrite :: bool
  mpe_ok :: bool

datatype mp_event =
    mp_serviceRunningChanged
  | mp_transportModeChanged
  | mp_httpPortChanged
  | mp_launched qstring "qstring list"
  | mp_closeWriteChannel
  | mp_terminate
  | mp_kill

type_synonym mp_action = "(mcp_service, mp_event) action"

definition McpService_init :: mcp_service where
  "McpService_init = \<lparr>mp_transportMode = ''stdio'', mp_httpPort = 18080, mp_httpProcess = None, mp_stopping = []\<rparr>"

definition kMcpHttpBindHost :: qstring where
  "kMcpHttpBindHost = ''0.0.0.0''"

definition kMcpHttpDisplayHost :: qstring where
  "kMcpHttpDisplayHost = ''127.0.0.1''"


section \<open>Status\<close>

definition mcpServiceRunning :: "ws_server \<Rightarrow> mcp_service \<Rightarrow> bool" where
  "mcpServiceRunning ws mp =
     (if \<not> isListening ws then False
      else if mp_transportMode mp = ''http'' then mp_httpProcess mp = Some PRunning
      else True)"

definition mcpConnectedClients :: "ws_server \<Rightarrow> nat" where
  "mcpConnectedClients ws = authenticatedClientCount ws"

definition mcpPort :: "ws_server \<Rightarrow> mcp_service \<Rightarrow> int" where
  "mcpPort ws mp = (if mp_transportMode mp = ''http'' then mp_httpPort mp else int (port ws))"

definition http_url :: "qstring \<Rightarrow> mcp_service \<Rightarrow> qstring" where
  "http_url host mp = ''http://'' @ host @ '':'' @ string_of_int (mp_httpPort mp) @ ''/mcp''"

definition mcpHttpUrl :: "ws_server \<Rightarrow> mcp_service \<Rightarrow> qstring" where
  "mcpHttpUrl ws mp =
     (if mp_transportMode mp = ''http'' \<and> mcpServiceRunning ws mp then http_url kMcpHttpDisplayHost mp else [])"

definition firstReachableIpv4Address :: "mcp_env \<Rightarrow> qstring" where
  "firstReachableIpv4Address env =
     (let usable = filter (\<lambda>(up, running, loopback, _). up \<and> running \<and> \<not> loopback) (mpe_addresses env);
          entries = concat (map (\<lambda>(_, _, _, es). filter (\<lambda>(ipv4, loopback, _). ipv4 \<and> \<not> loopback) es) usable)
      in case entries of [] \<Rightarrow> [] | (_, _, address) # _ \<Rightarrow> address)"

definition mcpHttpLanUrl :: "mcp_env \<Rightarrow> ws_server \<Rightarrow> mcp_service \<Rightarrow> qstring" where
  "mcpHttpLanUrl env ws mp =
     (if mp_transportMode mp \<noteq> ''http'' \<or> \<not> mcpServiceRunning ws mp then []
      else let address = firstReachableIpv4Address env in if address = [] then [] else http_url address mp)"


section \<open>The HTTP process\<close>

definition getMcpBinaryPath :: "mcp_env \<Rightarrow> qstring" where
  "getMcpBinaryPath env = mpe_nativePath env (mpe_appDir env @ ''/quickdesk-mcp.exe'')"

definition http_args :: "ws_server \<Rightarrow> mcp_service \<Rightarrow> qstring list" where
  "http_args ws mp = [''--transport'', ''http'', ''--host'', kMcpHttpBindHost, ''--port'', string_of_int (mp_httpPort mp),
     ''--ws-url'', ''ws://127.0.0.1:'' @ string_of_nat (port ws)]"

text \<open>\<open>QProcess::start\<close> on a process that is starting only prints a warning.\<close>

definition startMcpHttpProcess :: "mcp_env \<Rightarrow> ws_server \<Rightarrow> mp_action" where
  "startMcpHttpProcess env ws mp =
     (if mp_httpProcess mp = Some PRunning then (mp, [])
      else if \<not> mpe_exists env (getMcpBinaryPath env) then (mp, [])
      else if mp_httpProcess mp = Some PStarting then (mp, [])
      else (mp\<lparr>mp_httpProcess := Some PStarting\<rparr>, [mp_launched (getMcpBinaryPath env) (http_args ws mp)]))"

definition stopMcpHttpProcess :: mp_action where
  "stopMcpHttpProcess mp =
     (case mp_httpProcess mp of
        None \<Rightarrow> (mp, [])
      | Some p \<Rightarrow>
          if p = PNotRunning then (mp, [])
          else (mp\<lparr>mp_httpProcess := None, mp_stopping := mp_stopping mp @ [(p, 0)]\<rparr>, [mp_closeWriteChannel]))"

definition escalateStop :: "nat \<Rightarrow> mp_action" where
  "escalateStop i mp =
     (if i < length (mp_stopping mp)
      then let (p, stage) = mp_stopping mp ! i
           in if p = PNotRunning then (mp, [])
              else if stage = 0 then (mp\<lparr>mp_stopping := (mp_stopping mp)[i := (p, 1)]\<rparr>, [mp_terminate])
              else if stage = 1 then (mp\<lparr>mp_stopping := (mp_stopping mp)[i := (p, 2)]\<rparr>, [mp_kill])
              else (mp, [])
      else (mp, []))"

text \<open>The signals of the process: \<open>started\<close>, \<open>errorOccurred\<close> when it cannot be started, and \<open>finished\<close>, which deletes the object.\<close>

definition onHttpStarted :: mp_action where
  "onHttpStarted mp =
     (if mp_httpProcess mp = Some PStarting then (mp\<lparr>mp_httpProcess := Some PRunning\<rparr>, [mp_serviceRunningChanged]) else (mp, []))"

definition onHttpFailed :: mp_action where
  "onHttpFailed mp =
     (if mp_httpProcess mp = Some PStarting then (mp\<lparr>mp_httpProcess := Some PNotRunning\<rparr>, [mp_serviceRunningChanged]) else (mp, []))"

definition onHttpFinished :: mp_action where
  "onHttpFinished mp =
     (if mp_httpProcess mp = Some PRunning then (mp\<lparr>mp_httpProcess := None\<rparr>, [mp_serviceRunningChanged]) else (mp, []))"

definition onStoppedFinished :: "nat \<Rightarrow> mp_action" where
  "onStoppedFinished i mp =
     (if i < length (mp_stopping mp) then (mp\<lparr>mp_stopping := remove_at i (mp_stopping mp)\<rparr>, [mp_serviceRunningChanged]) else (mp, []))"

definition startMcpService :: "mcp_env \<Rightarrow> ws_server \<Rightarrow> mp_action" where
  "startMcpService env ws mp =
     seq [guarded (mp_transportMode mp = ''http'') (startMcpHttpProcess env ws), emit [mp_serviceRunningChanged]] mp"

definition stopMcpService :: mp_action where
  "stopMcpService mp =
     seq [guarded (mp_transportMode mp = ''http'') stopMcpHttpProcess, emit [mp_serviceRunningChanged]] mp"

definition setMcpHttpPort :: "int \<Rightarrow> mp_action" where
  "setMcpHttpPort p mp = (if mp_httpPort mp = p then (mp, []) else (mp\<lparr>mp_httpPort := p\<rparr>, [mp_httpPortChanged]))"

text \<open>The new mode is written to the configuration, which is the second part of the result.\<close>

definition setMcpTransportMode :: "mcp_env \<Rightarrow> ws_server \<Rightarrow> qstring \<Rightarrow> mcp_service \<times> config \<Rightarrow> (mcp_service \<times> config) \<times> mp_event list" where
  "setMcpTransportMode env ws mode st =
     (let (mp, c) = st
      in if mp_transportMode mp = mode then (st, [])
         else let (mp1, ev) = seq [guarded (mp_transportMode mp = ''http'') stopMcpHttpProcess,
                                   modify (\<lambda>mp. mp\<lparr>mp_transportMode := mode\<rparr>),
                                   guarded (mode = ''http'') (startMcpHttpProcess env ws),
                                   emit [mp_transportModeChanged, mp_serviceRunningChanged]] mp
              in ((mp1, fst (lcc_setString (mpe_ok env) ''mcpTransportMode'' mode c)), ev))"

definition restoreTransportMode :: "mcp_env \<Rightarrow> ws_server \<Rightarrow> config \<Rightarrow> mp_action" where
  "restoreTransportMode env ws c mp =
     (let savedMode = lcc_getString ''mcpTransportMode'' ''stdio'' c
      in guarded (savedMode \<noteq> mp_transportMode mp)
           (seq [modify (\<lambda>mp. mp\<lparr>mp_transportMode := savedMode\<rparr>),
                 guarded (savedMode = ''http'') (startMcpHttpProcess env ws),
                 emit [mp_transportModeChanged, mp_serviceRunningChanged]]) mp)"


section \<open>Entries in other programs' configuration\<close>

definition buildMcpServerConfig :: "mcp_env \<Rightarrow> qstring \<Rightarrow> mcp_service \<Rightarrow> jobject" where
  "buildMcpServerConfig env transport mp =
     (if transport = ''http'' then mkobj [(''url'', JStr (http_url kMcpHttpDisplayHost mp))]
      else mkobj [(''command'', JStr ''cmd''), (''args'', JArr [JStr ''/c'', JStr (getMcpBinaryPath env)])])"

definition typed_config :: "mcp_env \<Rightarrow> qstring \<Rightarrow> mcp_service \<Rightarrow> jobject" where
  "typed_config env clientType mp =
     (let serverConfig = buildMcpServerConfig env (mp_transportMode mp) mp
      in if mp_transportMode mp = ''http''
         then oset ''type'' (JStr (if clientType = ''vscode'' then ''http'' else ''sse'')) serverConfig
         else serverConfig)"

definition serversKey :: "qstring \<Rightarrow> qstring" where
  "serversKey clientType = (if clientType = ''vscode'' then ''servers'' else ''mcpServers'')"

definition generateMcpConfig :: "mcp_env \<Rightarrow> qstring \<Rightarrow> mcp_service \<Rightarrow> qstring" where
  "generateMcpConfig env clientType mp =
     mpe_toJson env (mkobj [(serversKey clientType, JObj (mkobj [(''quickdesk'', JObj (typed_config env clientType mp))]))])"

definition getMcpConfigPath :: "mcp_env \<Rightarrow> qstring \<Rightarrow> qstring" where
  "getMcpConfigPath env clientType =
     (if clientType = ''claude'' then mpe_nativePath env (mpe_appData env @ ''/Claude/claude_desktop_config.json'')
      else if clientType = ''cursor'' then mpe_nativePath env (mpe_homePath env @ ''/.cursor/mcp.json'')
      else if clientType = ''windsurf'' then mpe_nativePath env (mpe_homePath env @ ''/.codeium/windsurf/mcp_config.json'')
      else if clientType = ''vscode'' then mpe_nativePath env (mpe_appData env @ ''/Code/User/mcp.json'')
      else [])"

definition existing_root :: "mcp_env \<Rightarrow> qstring \<Rightarrow> (qstring \<rightharpoonup> qstring) \<Rightarrow> jobject" where
  "existing_root env configPath files =
     (case files configPath of
        None \<Rightarrow> []
      | Some content \<Rightarrow> if mpe_canRead env then (case mpe_fromJson env content of ObjectDoc ob \<Rightarrow> ob | _ \<Rightarrow> []) else [])"

definition entered :: "mcp_env \<Rightarrow> qstring \<Rightarrow> mcp_service \<Rightarrow> jobject \<Rightarrow> jobject" where
  "entered env clientType mp ob =
     (let servers = toObject (oget ob (serversKey clientType))
      in oset (serversKey clientType) (JObj (oset ''quickdesk'' (JObj (typed_config env clientType mp)) servers)) ob)"

definition writeMcpConfig :: "mcp_env \<Rightarrow> qstring \<Rightarrow> mcp_service \<Rightarrow> (qstring \<rightharpoonup> qstring) \<Rightarrow> (qstring \<rightharpoonup> qstring) \<times> int" where
  "writeMcpConfig env clientType mp files =
     (let configPath = getMcpConfigPath env clientType
      in if configPath = [] then (files, 2)
         else if \<not> mpe_canWrite env then (files, 2)
         else (files(configPath \<mapsto> mpe_toJson env (entered env clientType mp (existing_root env configPath files))), 0))"


section \<open>The service as a state machine\<close>

datatype mp_input =
    MP_mode qstring
  | MP_port int
  | MP_start
  | MP_stop
  | MP_restore config
  | MP_started
  | MP_failedStart
  | MP_finished
  | MP_stoppedFinished nat
  | MP_timer nat

fun mp_exec :: "mcp_env \<Rightarrow> ws_server \<Rightarrow> mp_input \<Rightarrow> mcp_service \<times> config \<Rightarrow> (mcp_service \<times> config) \<times> mp_event list" where
  "mp_exec env ws (MP_mode m) st = setMcpTransportMode env ws m st"
| "mp_exec env ws (MP_port p) (mp, c) = (let (mp', ev) = setMcpHttpPort p mp in ((mp', c), ev))"
| "mp_exec env ws MP_start (mp, c) = (let (mp', ev) = startMcpService env ws mp in ((mp', c), ev))"
| "mp_exec env ws MP_stop (mp, c) = (let (mp', ev) = stopMcpService mp in ((mp', c), ev))"
| "mp_exec env ws (MP_restore c') (mp, c) = (let (mp', ev) = restoreTransportMode env ws c' mp in ((mp', c), ev))"
| "mp_exec env ws MP_started (mp, c) = (let (mp', ev) = onHttpStarted mp in ((mp', c), ev))"
| "mp_exec env ws MP_failedStart (mp, c) = (let (mp', ev) = onHttpFailed mp in ((mp', c), ev))"
| "mp_exec env ws MP_finished (mp, c) = (let (mp', ev) = onHttpFinished mp in ((mp', c), ev))"
| "mp_exec env ws (MP_stoppedFinished i) (mp, c) = (let (mp', ev) = onStoppedFinished i mp in ((mp', c), ev))"
| "mp_exec env ws (MP_timer i) (mp, c) = (let (mp', ev) = escalateStop i mp in ((mp', c), ev))"


section \<open>Properties\<close>

text \<open>
  Entering the server into another program's configuration keeps what was there. When the file exists, can be read and holds a JSON
  object, the object written has every entry of it unchanged, apart from the list of servers, and that list has every
  server unchanged, apart from the one named quickdesk, which is the present configuration. No other file is touched.
\<close>

theorem config_entry_added:
  assumes "getMcpConfigPath env clientType = path" "path \<noteq> []" "mpe_canRead env" "mpe_canWrite env"
    and "files path = Some content" "mpe_fromJson env content = ObjectDoc old"
  shows "\<exists>ob. fst (writeMcpConfig env clientType mp files) = files(path \<mapsto> mpe_toJson env ob)
    \<and> (\<forall>key. key \<noteq> serversKey clientType \<longrightarrow> oget ob key = oget old key)
    \<and> (\<forall>name. name \<noteq> ''quickdesk'' \<longrightarrow>
         oget (toObject (oget ob (serversKey clientType))) name = oget (toObject (oget old (serversKey clientType))) name)
    \<and> oget (toObject (oget ob (serversKey clientType))) ''quickdesk'' = JObj (typed_config env clientType mp)
    \<and> snd (writeMcpConfig env clientType mp files) = 0"
  using assms
  by (intro exI[of _ "entered env clientType mp old"])
    (simp add: writeMcpConfig_def existing_root_def entered_def oget_oset Let_def)

text \<open>A file that is not a JSON object, such as one with comments, is replaced: nothing of it is left.\<close>

lemma config_with_comments_lost:
  assumes "getMcpConfigPath env clientType = path" "path \<noteq> []" "mpe_canWrite env"
    and "files path = Some content" "\<And>ob. mpe_fromJson env content \<noteq> ObjectDoc ob"
  shows "fst (writeMcpConfig env clientType mp files) path = Some (generateMcpConfig env clientType mp)"
proof -
  have "existing_root env path files = []" using assms(4,5) by (auto simp: existing_root_def split: json_doc.split)
  then show ?thesis
    using assms(1-3) by (simp add: writeMcpConfig_def generateMcpConfig_def entered_def mkobj_def Let_def)
qed

text \<open>The returned code 1, documented for a program that is not installed, is never returned.\<close>

lemma writeMcpConfig_code: "snd (writeMcpConfig env clientType mp files) \<in> {0, 2}"
  by (simp add: writeMcpConfig_def Let_def)

definition demo_mcp_env :: mcp_env where
  "demo_mcp_env = \<lparr>mpe_appDir = ''C:'', mpe_nativePath = id, mpe_exists = (\<lambda>_. True), mpe_addresses = [], mpe_appData = ''A'',
     mpe_homePath = ''H'', mpe_toJson = (\<lambda>ob. if ocontains (toObject (oget ob ''mcpServers'')) ''other'' then ''both'' else ''one''),
     mpe_fromJson = (\<lambda>_. ObjectDoc [(''mcpServers'', JObj [(''other'', JObj [])]), (''theme'', JStr ''dark'')]),
     mpe_canRead = True, mpe_canWrite = True, mpe_ok = True\<rparr>"

theorem config_entry_added_witness:
  "\<exists>ob. fst (writeMcpConfig demo_mcp_env ''cursor'' McpService_init [''H/.cursor/mcp.json'' \<mapsto> ''x'']) ''H/.cursor/mcp.json''
      = Some (mpe_toJson demo_mcp_env ob) \<and> oget ob ''theme'' = JStr ''dark''"
proof -
  let ?p = "''H/.cursor/mcp.json''" and ?old = "[(''mcpServers'', JObj [(''other'', JObj [])]), (''theme'', JStr ''dark'')]"
  have h: "getMcpConfigPath demo_mcp_env ''cursor'' = ?p" "?p \<noteq> []" "mpe_canRead demo_mcp_env" "mpe_canWrite demo_mcp_env"
    "[?p \<mapsto> ''x''] ?p = Some ''x''" "mpe_fromJson demo_mcp_env ''x'' = ObjectDoc ?old"
    by (simp_all add: demo_mcp_env_def getMcpConfigPath_def)
  obtain ob where w: "fst (writeMcpConfig demo_mcp_env ''cursor'' McpService_init [?p \<mapsto> ''x'']) = [?p \<mapsto> ''x''](?p \<mapsto> mpe_toJson demo_mcp_env ob)"
    and k: "\<forall>key. key \<noteq> serversKey ''cursor'' \<longrightarrow> oget ob key = oget ?old key"
    using config_entry_added[where files = "[?p \<mapsto> ''x'']" and mp = McpService_init, OF h] by blast
  have "oget ob ''theme'' = JStr ''dark''" using k[rule_format, of "''theme''"] by (simp add: serversKey_def oget_def[of ?old])
  moreover have "fst (writeMcpConfig demo_mcp_env ''cursor'' McpService_init [?p \<mapsto> ''x'']) ?p = Some (mpe_toJson demo_mcp_env ob)"
    unfolding w by simp
  ultimately show ?thesis by blast
qed

end
