(* ===== verification/MainController.thy ===== *)
theory MainController
  imports ProcessManager SkillHostManager ClientManager CloudDeviceManager RemoteDeviceManager TrustHandler ServerSettings McpService
begin

text \<open>
  \<open>QuickDesk/src/controller/MainController.cpp\<close> (Windows build): the object that owns the managers and connects their signals. The state holds the models of
  the managers and the controller's own fields. A call of a manager is followed by the slots connected to the signals
  it emitted, in the order of emission. Qt runs a slot at the point of emission; the managers emit after they have changed what the slots read, with two exceptions,
  \<open>ClientManager::setMessaging(nullptr)\<close> and \<open>disconnectAll\<close>, which announce every removed connection before they clear the
  table. These two are run statement by statement here, and shown to be the client manager's own definitions.

  The account client and the configuration are part of the device list's state, the host manager is part of the skill bridge's state, as in the
  theories of those components. A closure that waits for the server's answer about an access code is a value of \<open>mc_call\<close>, kept under
  a number. Single-shot timers and events posted to the event loop may fire in any order. \<open>main_env\<close> holds what the system answers during a call.
  Times are in milliseconds; intervals are unbounded integers where the code has \<open>int\<close>. The device recorder and the preset manager appear as events only.
\<close>


section \<open>State\<close>

datatype server_status = SrvDisconnected | SrvConnecting | SrvConnected | SrvFailed | SrvReconnecting

datatype mc_timer =
    T_hostHello
  | T_hostConnect
  | T_clientHello
  | T_hostReady qstring qstring
  | T_skillRestart

datatype posted = P_frame qstring | P_hash qstring qstring int

datatype mc_call =
    VerifyCall qstring qstring qstring bool \<comment> \<open>device, code, server, may refresh and retry\<close>
  | RefreshCall qstring qstring qstring int qstring qstring \<comment> \<open>device, code, server, and the error of the failed check\<close>

record screen_change =
  sc_lastBroadcastHash :: qstring
  sc_lastBroadcastMs :: int

record main_controller =
  mc_process :: process_manager
  mc_server :: server_manager
  mc_iceServers :: "json list"
  mc_skill :: skill_host
  mc_client :: client_manager
  mc_devices :: device_history
  mc_cloud :: cloud
  mc_ws :: ws_server
  mc_trust :: trust_handler
  mc_mcp :: mcp_service
  mc_isShutdown :: bool
  mc_deviceId :: qstring
  mc_accessCode :: qstring
  mc_hostServerStatus :: server_status
  mc_clientServerStatus :: server_status
  mc_primaryDeviceId :: qstring
  mc_lastSignalingConnected :: bool
  mc_cloudSyncReady :: bool
  mc_refreshTimer :: "int option"
  mc_refreshInterval :: int
  mc_nextRefreshTime :: "int option"
  mc_timers :: "mc_timer list"
  mc_helloWaiters :: "qstring list"
  mc_calls :: "(nat, mc_call) qmap"
  mc_nextCall :: nat
  mc_screenChange :: "(qstring, screen_change) qmap"
  mc_posted :: "posted list"
  mc_connectionTracks :: "(qstring, int) qmap"

record main_env =
  me_cloud :: cloud_env
  me_skill :: skill_env
  me_client :: client_env
  me_sys :: sys
  me_rdm :: rdm_env
  me_mcp :: mcp_env
  me_ws :: ws_env
  me_channel :: "which \<Rightarrow> native_messaging"
  me_now :: int
  me_date :: "qstring \<Rightarrow> int option" \<comment> \<open>\<open>QDateTime::fromString\<close> with the ISO format\<close>
  me_isoDate :: "int \<Rightarrow> qstring"
  me_shortDate :: "int \<Rightarrow> qstring"
  me_ok :: "qstring \<Rightarrow> bool" \<comment> \<open>whether a setting can be written\<close>
  me_logPath :: qstring
  me_dataPath :: qstring
  me_fileExists :: "qstring \<Rightarrow> bool"
  me_arrayFromJson :: "qstring \<Rightarrow> json list"
  me_arrayToJson :: "json list \<Rightarrow> qstring"
  me_frameHash :: "qstring \<Rightarrow> qstring option" \<comment> \<open>hash of the device's frame, if it makes an image\<close>
  me_wsListens :: bool
  me_wsPort :: nat

datatype mc_event =
    mc_initializationFailed qstring
  | mc_deviceIdChanged
  | mc_accessCodeChanged
  | mc_hostConnectionChanged
  | mc_signalingStateChanged
  | mc_hostProcessStatusChanged
  | mc_hostServerStatusChanged
  | mc_hostLaunchModeChanged
  | mc_clientProcessStatusChanged
  | mc_clientServerStatusChanged
  | mc_nextAccessCodeRefreshTimeChanged
  | mc_requestShowRemoteWindow qstring
  | mc_mcpServiceRunningChanged
  | mc_mcpConnectedClientsChanged
  | mc_skillHostEnabledChanged
  | mc_extraSkillsDirsChanged
  | mc_trustConfirmModeChanged
  | mc_clipboard qstring
  | mc_presetStart
  | mc_presetStop
  | MC_process pm_event
  | MC_skill sh_event
  | MC_client cm_event
  | MC_cloud cd_event
  | MC_devices rdm_event
  | MC_ws ws_event
  | MC_trust trust_event
  | MC_mcp mp_event
  | MC_server sv_event

type_synonym mc_action = "(main_controller, mc_event) action"

definition hostManager :: "main_controller \<Rightarrow> host_manager" where
  "hostManager mc = (case sh_hostManager (mc_skill mc) of Some hm \<Rightarrow> hm | None \<Rightarrow> HostManager_init)"

definition config_of :: "main_controller \<Rightarrow> config" where
  "config_of mc = am_config (cd_auth (mc_cloud mc))"

definition put_config :: "config \<Rightarrow> main_controller \<Rightarrow> main_controller" where
  "put_config c mc = mc\<lparr>mc_cloud := (mc_cloud mc)\<lparr>cd_auth := (cd_auth (mc_cloud mc))\<lparr>am_config := c\<rparr>\<rparr>\<rparr>"

definition put_setting :: "main_env \<Rightarrow> qstring \<Rightarrow> qstring \<Rightarrow> main_controller \<Rightarrow> main_controller" where
  "put_setting env key v mc = put_config (fst (lcc_setString (me_ok env key) key v (config_of mc))) mc"

definition MainController_init :: "config \<Rightarrow> user_data \<Rightarrow> ws_server \<Rightarrow> ice_env \<Rightarrow> main_controller" where
  "MainController_init c db ws ie =
     (let (sv, c', ev) = sv_loadSettings True c
      in \<lparr>mc_process = ProcessManager_init, mc_server = sv, mc_iceServers = ts_loadSettings ie c',
          mc_skill = setHostManager HostManager_init SkillHostManager_init, mc_client = ClientManager_init,
          mc_devices = \<lparr>dh_dataCenter = db, dh_devices = []\<rparr>, mc_cloud = CloudDeviceManager_init c', mc_ws = ws,
          mc_trust = TrustHandler_init, mc_mcp = McpService_init, mc_isShutdown = False, mc_deviceId = [], mc_accessCode = [],
          mc_hostServerStatus = SrvDisconnected, mc_clientServerStatus = SrvDisconnected, mc_primaryDeviceId = [],
          mc_lastSignalingConnected = False, mc_cloudSyncReady = False, mc_refreshTimer = None, mc_refreshInterval = - 1,
          mc_nextRefreshTime = None, mc_timers = [], mc_helloWaiters = [], mc_calls = [], mc_nextCall = 0, mc_screenChange = [],
          mc_posted = [], mc_connectionTracks = []\<rparr>)"

definition cloud_env_of :: "main_env \<Rightarrow> main_controller \<Rightarrow> cloud_env" where
  "cloud_env_of env mc = (me_cloud env)\<lparr>ce_deviceSecret := hm_deviceSecret (hostManager mc),
     ce_auth := (ce_auth (me_cloud env))\<lparr>au_serverUrl := sv_serverUrl (mc_server mc), au_hostDeviceId := hm_deviceId (hostManager mc)\<rparr>\<rparr>"

definition getDefaultServerUrl :: "main_controller \<Rightarrow> qstring" where
  "getDefaultServerUrl mc = sv_serverUrl (mc_server mc)"

definition add_timer :: "mc_timer \<Rightarrow> main_controller \<Rightarrow> main_controller" where
  "add_timer t mc = mc\<lparr>mc_timers := mc_timers mc @ [t]\<rparr>"

text \<open>The texts for the states of a signalling connection; another text leaves the status as it is.\<close>

definition status_of :: "qstring \<Rightarrow> server_status \<Rightarrow> server_status" where
  "status_of state old =
     (if state = ''connected'' then SrvConnected
      else if state = ''connecting'' then SrvConnecting
      else if state = ''disconnected'' then SrvDisconnected
      else if state = ''failed'' then SrvFailed
      else if state = ''reconnecting'' then SrvReconnecting
      else old)"

definition broadcast :: "qstring \<Rightarrow> jobject \<Rightarrow> mc_action" where
  "broadcast name data mc = (mc, map MC_ws (broadcastEvent name data (mc_ws mc)))"


section \<open>Connections to other devices\<close>

text \<open>A call of the device list whose signals have no slot here.\<close>

definition cloud_quiet :: "main_env \<Rightarrow> (cloud_env \<Rightarrow> cd_action) \<Rightarrow> mc_action" where
  "cloud_quiet env a mc = (let (cl, ev) = a (cloud_env_of env mc) (mc_cloud mc) in (mc\<lparr>mc_cloud := cl\<rparr>, map MC_cloud ev))"

definition secs_between :: "int \<Rightarrow> int \<Rightarrow> int" where
  "secs_between a b = (if b \<ge> a then (b - a) div 1000 else - ((a - b) div 1000))"

definition noteTrack :: "main_env \<Rightarrow> qstring \<Rightarrow> qstring \<Rightarrow> qstring \<Rightarrow> mc_action" where
  "noteTrack env deviceId state error mc =
     (case map_of (mc_connectionTracks mc) deviceId of
        None \<Rightarrow> (mc, [])
      | Some startTimeMs \<Rightarrow>
          let durationSec = (if state = ''disconnected'' \<and> startTimeMs > 0 then secs_between startTimeMs (me_now env) else 0);
              status = (if state = ''failed'' then ''failed'' else ''success'')
          in seq [cloud_quiet env (\<lambda>ce. recordConnection ce deviceId durationSec status error),
                  guarded (state = ''failed'' \<or> state = ''disconnected'')
                    (modify (\<lambda>mc. mc\<lparr>mc_connectionTracks := qm_remove deviceId (mc_connectionTracks mc)\<rparr>))] mc)"

definition onClientSignalingStateChanged :: "main_env \<Rightarrow> qstring \<Rightarrow> qstring \<Rightarrow> qstring \<Rightarrow> mc_action" where
  "onClientSignalingStateChanged env deviceId state error =
     seq [guarded (state = ''connected'' \<or> state = ''failed'' \<or> state = ''disconnected'') (noteTrack env deviceId state error),
          modify (\<lambda>mc. if mc_primaryDeviceId mc = [] \<and> deviceId \<noteq> [] then mc\<lparr>mc_primaryDeviceId := deviceId\<rparr> else mc),
          (\<lambda>mc. if deviceId = mc_primaryDeviceId mc
             then (mc\<lparr>mc_clientServerStatus := status_of state (mc_clientServerStatus mc)\<rparr>, [mc_clientServerStatusChanged])
             else (mc, []))]"

definition onConnectionRemoved :: "qstring \<Rightarrow> mc_action" where
  "onConnectionRemoved deviceId mc =
     (if deviceId \<noteq> mc_primaryDeviceId mc then (mc, [])
      else case connectedDeviceIds (mc_client mc) of
             newPrimary # _ \<Rightarrow>
               (mc\<lparr>mc_primaryDeviceId := newPrimary,
                   mc_clientServerStatus := status_of (getSignalingState newPrimary (mc_client mc)) (mc_clientServerStatus mc)\<rparr>,
                [mc_clientServerStatusChanged])
           | [] \<Rightarrow> (mc\<lparr>mc_primaryDeviceId := [], mc_clientServerStatus := SrvDisconnected\<rparr>, [mc_clientServerStatusChanged]))"

fun client_signal :: "main_env \<Rightarrow> cm_event \<Rightarrow> mc_action" where
  "client_signal env (cm_signalingStateChanged d s r n e) =
     seq [emit [MC_client (cm_signalingStateChanged d s r n e)], onClientSignalingStateChanged env d s e]"
| "client_signal env (cm_connectionAdded d) =
     seq [emit [MC_client (cm_connectionAdded d)], broadcast ''connectionAdded'' (mkobj [(''deviceId'', JStr d)])]"
| "client_signal env (cm_connectionRemoved d) =
     seq [emit [MC_client (cm_connectionRemoved d)], onConnectionRemoved d, broadcast ''connectionRemoved'' (mkobj [(''deviceId'', JStr d)]),
          modify (\<lambda>mc. mc\<lparr>mc_screenChange := qm_remove d (mc_screenChange mc)\<rparr>)]"
| "client_signal env (cm_connectionStateChanged d s h) =
     seq [emit [MC_client (cm_connectionStateChanged d s h)],
          broadcast ''connectionStateChanged'' (mkobj [(''deviceId'', JStr d), (''state'', JStr s), (''hostInfo'', JObj h)])]"
| "client_signal env (cm_clipboardReceived d t) =
     seq [emit [MC_client (cm_clipboardReceived d t)], broadcast ''clipboardChanged'' (mkobj [(''deviceId'', JStr d), (''text'', JStr t)])]"
| "client_signal env (cm_videoLayoutChanged d w h) =
     seq [emit [MC_client (cm_videoLayoutChanged d w h)],
          broadcast ''videoLayoutChanged'' (mkobj [(''deviceId'', JStr d), (''width'', JInt w), (''height'', JInt h)])]"
| "client_signal env (cm_videoFrameReady d i) =
     seq [emit [MC_client (cm_videoFrameReady d i)], modify (\<lambda>mc. mc\<lparr>mc_posted := mc_posted mc @ [P_frame d]\<rparr>)]"
| "client_signal env e = emit [MC_client e]"

definition client_do :: "main_env \<Rightarrow> cm_action \<Rightarrow> mc_action" where
  "client_do env a mc = (let (cm, ev) = a (mc_client mc) in for_each (client_signal env) ev (mc\<lparr>mc_client := cm\<rparr>))"

text \<open>The statements of \<open>setMessaging\<close> and \<open>disconnectAll\<close> between which the slots run.\<close>

definition setMessaging_steps :: "bool \<Rightarrow> native_messaging option \<Rightarrow> qstring list \<Rightarrow> cm_action list" where
  "setMessaging_steps same messaging deviceIds =
     [guarded (\<not> same) (endTransfers endAllSessions), modify (\<lambda>cm. cm\<lparr>cm_messaging := messaging\<rparr>)]
     @ (if messaging = None
        then map forgetDevice deviceIds
          @ [modify clearConnections,
             guarded (deviceIds \<noteq> []) (emit [cm_connectionCountChanged, cm_activeConnectionChanged, cm_connectionListChanged])]
        else [])"

definition disconnectAll_steps :: "client_env \<Rightarrow> qstring list \<Rightarrow> cm_action list" where
  "disconnectAll_steps env deviceIds =
     [send env (mkobj [(''type'', JStr ''disconnectAll'')])]
     @ map disconnectDevice deviceIds
     @ [modify clearConnections, emit [cm_connectionCountChanged, cm_activeConnectionChanged, cm_connectionListChanged]]"

definition client_setMessaging :: "main_env \<Rightarrow> bool \<Rightarrow> native_messaging option \<Rightarrow> mc_action" where
  "client_setMessaging env same messaging mc =
     for_each (client_do env) (setMessaging_steps same messaging (connectedDeviceIds (mc_client mc))) mc"

definition client_disconnectAll :: "main_env \<Rightarrow> mc_action" where
  "client_disconnectAll env mc =
     guarded (cm_ready (mc_client mc))
       (for_each (client_do env) (disconnectAll_steps (me_client env) (connectedDeviceIds (mc_client mc)))) mc"

fun client_input :: "main_env \<Rightarrow> cm_input \<Rightarrow> mc_action" where
  "client_input env (CM_setMessaging same nm) = client_setMessaging env same nm"
| "client_input env (CM_disconnectAll ce) = client_disconnectAll env"
| "client_input env i = client_do env (cm_exec i)"

definition reportVerifyAccessCodeFailure :: "qstring \<Rightarrow> int \<Rightarrow> qstring \<Rightarrow> qstring \<Rightarrow> mc_action" where
  "reportVerifyAccessCodeFailure deviceId httpStatus code detail mc =
     (mc\<lparr>mc_connectionTracks := qm_remove deviceId (mc_connectionTracks mc)\<rparr>,
      [MC_client (cm_errorOccurred deviceId (if code = [] then ''VERIFY_FAILED'' else code) detail)])"

fun call_action :: "mc_call \<Rightarrow> nat \<Rightarrow> cloud_env \<Rightarrow> cd_action" where
  "call_action (VerifyCall d code url retry) n ce = verifyAccessCode ce d code n"
| "call_action (RefreshCall d code url s c t) n ce = refreshDeviceAccessCodeNow ce d (Some n)"

definition take_call :: "nat \<Rightarrow> main_controller \<Rightarrow> main_controller" where
  "take_call n mc = mc\<lparr>mc_calls := qm_remove n (mc_calls mc)\<rparr>"

text \<open>
  An answer given before the call returns is a refusal: of an empty argument, or because nobody is logged in. The first is not the error that is retried,
  and the second reports the error of the check before.
\<close>

fun refusal :: "mc_call \<Rightarrow> cd_event \<Rightarrow> mc_action" where
  "refusal (VerifyCall d code url retry) (cd_verifyFailed n s c t) = reportVerifyAccessCodeFailure d s c t"
| "refusal (RefreshCall d code url s c t) (cd_codeFailed n s' c' t') = reportVerifyAccessCodeFailure d s c t"
| "refusal call e = emit []"

fun is_answer :: "cd_event \<Rightarrow> bool" where
  "is_answer (cd_verified n tok) = True"
| "is_answer (cd_verifyFailed n s c t) = True"
| "is_answer (cd_codeRefreshed n code) = True"
| "is_answer (cd_codeFailed n s c t) = True"
| "is_answer _ = False"

definition start_call :: "main_env \<Rightarrow> mc_call \<Rightarrow> mc_action" where
  "start_call env call mc =
     (let n = mc_nextCall mc;
          (cl, ev) = call_action call n (cloud_env_of env mc) (mc_cloud mc);
          mc1 = mc\<lparr>mc_nextCall := n + 1, mc_cloud := cl\<rparr>
      in if list_ex is_answer ev
         then seq [emit (map MC_cloud ev), for_each (refusal call) ev] mc1
         else (mc1\<lparr>mc_calls := qm_insert n call (mc_calls mc)\<rparr>, map MC_cloud ev))"

definition verifyAndConnectToRemoteHost :: "main_env \<Rightarrow> qstring \<Rightarrow> qstring \<Rightarrow> qstring \<Rightarrow> bool \<Rightarrow> mc_action" where
  "verifyAndConnectToRemoteHost env deviceId accessCode serverUrl allowRefreshRetry =
     start_call env (VerifyCall deviceId accessCode serverUrl allowRefreshRetry)"

definition connectToRemoteHost :: "main_env \<Rightarrow> qstring \<Rightarrow> qstring \<Rightarrow> qstring \<Rightarrow> mc_action" where
  "connectToRemoteHost env deviceId accessCode serverUrl mc =
     (let url = (if serverUrl = [] then getDefaultServerUrl mc else serverUrl)
      in verifyAndConnectToRemoteHost env deviceId accessCode url True
           (mc\<lparr>mc_connectionTracks := qm_insert deviceId (me_now env) (mc_connectionTracks mc)\<rparr>))"

text \<open>The four continuations of \<open>verifyAndConnectToRemoteHost\<close>.\<close>

definition onVerifySuccess :: "main_env \<Rightarrow> qstring \<Rightarrow> qstring \<Rightarrow> qstring \<Rightarrow> qstring \<Rightarrow> mc_action" where
  "onVerifySuccess env deviceId accessCode serverUrl signalToken mc =
     (let (cm, ev, result) = connectToHost (me_client env) deviceId accessCode signalToken serverUrl (mc_client mc)
      in seq [for_each (client_signal env) ev,
              guarded (result = []) (modify (\<lambda>mc. mc\<lparr>mc_connectionTracks := qm_remove deviceId (mc_connectionTracks mc)\<rparr>))]
           (mc\<lparr>mc_client := cm\<rparr>))"

fun on_answer :: "main_env \<Rightarrow> mc_call \<Rightarrow> cd_event \<Rightarrow> mc_action" where
  "on_answer env (VerifyCall d code url retry) (cd_verified n token) = onVerifySuccess env d code url token"
| "on_answer env (VerifyCall d code url retry) (cd_verifyFailed n s c t) =
     (if retry \<and> c = ''INVALID_CODE'' then start_call env (RefreshCall d code url s c t)
      else reportVerifyAccessCodeFailure d s c t)"
| "on_answer env (RefreshCall d code url s c t) (cd_codeRefreshed n latestCode) =
     (if latestCode = [] \<or> latestCode = code then reportVerifyAccessCodeFailure d s c t
      else verifyAndConnectToRemoteHost env d latestCode url False)"
| "on_answer env (RefreshCall d code url s c t) (cd_codeFailed n s' c' t') = reportVerifyAccessCodeFailure d s c t"
| "on_answer env call e = emit []"

fun answer_number :: "cd_event \<Rightarrow> nat option" where
  "answer_number (cd_verified n tok) = Some n"
| "answer_number (cd_verifyFailed n s c t) = Some n"
| "answer_number (cd_codeRefreshed n code) = Some n"
| "answer_number (cd_codeFailed n s c t) = Some n"
| "answer_number _ = None"

definition answered_call :: "main_env \<Rightarrow> cd_event \<Rightarrow> mc_action" where
  "answered_call env e mc =
     (case answer_number e of
        None \<Rightarrow> (mc, [])
      | Some n \<Rightarrow> (case map_of (mc_calls mc) n of None \<Rightarrow> (mc, []) | Some call \<Rightarrow> on_answer env call e (take_call n mc)))"

definition disconnectFromRemoteHost :: "main_env \<Rightarrow> qstring \<Rightarrow> mc_action" where
  "disconnectFromRemoteHost env deviceId = client_do env (disconnectFromHost (me_client env) deviceId)"


section \<open>The account\<close>

definition bindHostDeviceIfReady :: "main_env \<Rightarrow> mc_action" where
  "bindHostDeviceIfReady env mc =
     (if \<not> cd_loggedIn (mc_cloud mc) then (mc, [])
      else if \<not> mc_cloudSyncReady mc then (mc, [])
      else let deviceId = hm_deviceId (hostManager mc)
           in if deviceId = [] then (mc, []) else cloud_quiet env (\<lambda>ce. autoBindDevice ce deviceId) mc)"

text \<open>The access codes of the account's devices become the passwords of the connection history.\<close>

definition copyPassword :: "main_env \<Rightarrow> jobject \<Rightarrow> mc_action" where
  "copyPassword env row mc =
     (let ce = cloud_env_of env mc; deviceId = row_id ce row; accessCode = vstring ce (oget row ''access_code'')
      in if deviceId = [] \<or> accessCode = [] then (mc, [])
         else let (dh, ev, _) = updateDevicePassword (me_rdm env) deviceId accessCode (mc_devices mc)
              in (mc\<lparr>mc_devices := dh\<rparr>, map MC_devices ev))"

definition onMyDevicesChanged :: "main_env \<Rightarrow> mc_action" where
  "onMyDevicesChanged env mc = for_each (copyPassword env) (cd_myDevices (mc_cloud mc)) mc"

fun cloud_signal :: "main_env \<Rightarrow> cd_event \<Rightarrow> mc_action" where
  "cloud_signal env (cd_account am_loginSuccess) =
     seq [emit [MC_cloud (cd_account am_loginSuccess)], modify (\<lambda>mc. mc\<lparr>mc_cloudSyncReady := False\<rparr>),
          cloud_quiet env startSync, cloud_quiet env fetchConnectionLogs]"
| "cloud_signal env (cd_account am_loggedOut) =
     seq [emit [MC_cloud (cd_account am_loggedOut)], modify (\<lambda>mc. mc\<lparr>mc_cloudSyncReady := False\<rparr>), cloud_quiet env (\<lambda>ce. stopSync)]"
| "cloud_signal env cd_syncConnected =
     seq [emit [MC_cloud cd_syncConnected], modify (\<lambda>mc. mc\<lparr>mc_cloudSyncReady := True\<rparr>), bindHostDeviceIfReady env]"
| "cloud_signal env cd_syncDisconnected =
     seq [emit [MC_cloud cd_syncDisconnected], modify (\<lambda>mc. mc\<lparr>mc_cloudSyncReady := False\<rparr>)]"
| "cloud_signal env cd_myDevicesChanged = seq [emit [MC_cloud cd_myDevicesChanged], onMyDevicesChanged env]"
| "cloud_signal env e = seq [emit [MC_cloud e], answered_call env e]"

definition cloud_do :: "main_env \<Rightarrow> (cloud_env \<Rightarrow> cd_action) \<Rightarrow> mc_action" where
  "cloud_do env a mc =
     (let (cl, ev) = a (cloud_env_of env mc) (mc_cloud mc) in for_each (cloud_signal env) ev (mc\<lparr>mc_cloud := cl\<rparr>))"


section \<open>This device as a host\<close>

text \<open>The single-shot handler for a new access code, for the secret, and for the timer of \<open>onHostReady\<close>.\<close>

definition syncCode :: "main_env \<Rightarrow> qstring \<Rightarrow> qstring \<Rightarrow> mc_action" where
  "syncCode env deviceId accessCode = cloud_quiet env (\<lambda>ce. syncAccessCode ce deviceId accessCode)"

definition onAccessCodeChanged :: "main_env \<Rightarrow> mc_action" where
  "onAccessCodeChanged env mc =
     (let currentCode = hm_accessCode (hostManager mc); deviceId = hm_deviceId (hostManager mc)
      in if currentCode = [] then (mc, [])
         else seq [modify (put_setting env ''savedAccessCode'' currentCode),
                   guarded (deviceId \<noteq> [] \<and> hm_deviceSecret (hostManager mc) \<noteq> []) (syncCode env deviceId currentCode)] mc)"

definition onDeviceSecretReady :: "main_env \<Rightarrow> mc_action" where
  "onDeviceSecretReady env mc =
     (let deviceId = hm_deviceId (hostManager mc); code = hm_accessCode (hostManager mc)
      in guarded (deviceId \<noteq> [] \<and> code \<noteq> []) (syncCode env deviceId code) mc)"

definition onHostSignalingStateChanged :: mc_action where
  "onHostSignalingStateChanged mc =
     (let state = hm_signalingState (hostManager mc)
      in (mc\<lparr>mc_hostServerStatus := status_of state (mc_hostServerStatus mc), mc_lastSignalingConnected := (state = ''connected'')\<rparr>,
          [mc_hostServerStatusChanged]))"

text \<open>The closures that wait for the identifier of this device to greet the client process.\<close>

definition helloWaiters :: "main_env \<Rightarrow> mc_action" where
  "helloWaiters env mc =
     (let deviceId = hm_deviceId (hostManager mc)
      in if deviceId = [] then (mc, [])
         else for_each (\<lambda>codec. client_do env (sendHello (me_client env) deviceId codec)) (mc_helloWaiters mc) (mc\<lparr>mc_helloWaiters := []\<rparr>))"

definition updateAccessCodeRefreshTimer :: "main_env \<Rightarrow> int \<Rightarrow> mc_action" where
  "updateAccessCodeRefreshTimer env remainingSeconds mc =
     (let mc0 = mc\<lparr>mc_refreshTimer := None, mc_nextRefreshTime := None\<rparr>
      in if mc_refreshInterval mc \<le> 0
         then (put_setting env ''accessCodeNextRefreshTime'' [] mc0, [mc_nextAccessCodeRefreshTimeChanged])
         else let secs = (if remainingSeconds > 0 then remainingSeconds else mc_refreshInterval mc * 60);
                  due = me_now env + secs * 1000
              in (put_setting env ''accessCodeNextRefreshTime'' (me_isoDate env due)
                    (mc0\<lparr>mc_refreshTimer := Some (secs * 1000), mc_nextRefreshTime := Some due\<rparr>),
                  [mc_nextAccessCodeRefreshTimeChanged, mc_nextAccessCodeRefreshTimeChanged]))"

definition saved_refresh_time :: "main_env \<Rightarrow> main_controller \<Rightarrow> int option" where
  "saved_refresh_time env mc =
     (case me_date env (lcc_getString ''accessCodeNextRefreshTime'' [] (config_of mc)) of
        Some due \<Rightarrow> if due > me_now env then Some due else None
      | None \<Rightarrow> None)"

definition onHostReady :: "main_env \<Rightarrow> qstring \<Rightarrow> qstring \<Rightarrow> mc_action" where
  "onHostReady env deviceId accessCode =
     seq [modify (\<lambda>mc. mc\<lparr>mc_deviceId := deviceId, mc_accessCode := accessCode\<rparr>),
          guarded (deviceId \<noteq> []) (modify (put_setting env ''lastDeviceId'' deviceId)),
          modify (\<lambda>mc. mc\<lparr>mc_refreshInterval := lcc_getInt ''accessCodeRefreshInterval'' 120 (config_of mc)\<rparr>),
          (\<lambda>mc. if mc_refreshInterval mc = - 1 then (put_setting env ''savedAccessCode'' accessCode mc, [])
             else if mc_refreshInterval mc > 0
             then (case saved_refresh_time env mc of
                     Some due \<Rightarrow> updateAccessCodeRefreshTimer env (secs_between (me_now env) due) mc
                   | None \<Rightarrow> updateAccessCodeRefreshTimer env (- 1) mc)
             else (mc, [])),
          modify (add_timer (T_hostReady deviceId accessCode))]"

definition signaling_data :: "host_manager \<Rightarrow> jobject" where
  "signaling_data hm = mkobj [(''state'', JStr (hm_signalingState hm)), (''retryCount'', JInt (hm_signalingRetryCount hm)),
     (''nextRetryIn'', JInt (hm_signalingNextRetryIn hm)), (''error'', JStr (hm_signalingError hm))]"

fun mc_host_signal :: "main_env \<Rightarrow> hm_event \<Rightarrow> mc_action" where
  "mc_host_signal env (hm_hostReady d c) =
     seq [onHostReady env d c, broadcast ''hostReady'' (mkobj [(''deviceId'', JStr d), (''accessCode'', JStr c)])]"
| "mc_host_signal env hm_deviceIdChanged = seq [emit [mc_deviceIdChanged], helloWaiters env]"
| "mc_host_signal env hm_accessCodeChanged =
     seq [emit [mc_accessCodeChanged], onAccessCodeChanged env,
          (\<lambda>mc. broadcast ''accessCodeChanged'' (mkobj [(''accessCode'', JStr (hm_accessCode (hostManager mc)))]) mc)]"
| "mc_host_signal env hm_connectionStatusChanged = emit [mc_hostConnectionChanged]"
| "mc_host_signal env hm_signalingStateChanged =
     seq [emit [mc_signalingStateChanged], onHostSignalingStateChanged,
          (\<lambda>mc. broadcast ''hostSignalingStateChanged'' (signaling_data (hostManager mc)) mc)]"
| "mc_host_signal env (hm_deviceSecretReady secret) = onDeviceSecretReady env"
| "mc_host_signal env (hm_clientConnected connectionId info) =
     broadcast ''hostClientConnected'' (oset ''connectionId'' (JStr connectionId) info)"
| "mc_host_signal env (hm_clientDisconnected connectionId reason) =
     broadcast ''hostClientDisconnected'' (mkobj [(''connectionId'', JStr connectionId), (''reason'', JStr reason)])"
| "mc_host_signal env _ = emit []"

fun skill_signal :: "main_env \<Rightarrow> sh_event \<Rightarrow> mc_action" where
  "skill_signal env (sh_host e) = seq [emit [MC_skill (sh_host e)], mc_host_signal env e]"
| "skill_signal env e = emit [MC_skill e]"

definition skill_do :: "main_env \<Rightarrow> sh_action \<Rightarrow> mc_action" where
  "skill_do env a mc = (let (sk, ev) = a (mc_skill mc) in for_each (skill_signal env) ev (mc\<lparr>mc_skill := sk\<rparr>))"

definition host_do :: "main_env \<Rightarrow> hm_input \<Rightarrow> mc_action" where
  "host_do env i = skill_do env (host_input (me_skill env) i)"

abbreviation host_env_of :: "main_env \<Rightarrow> host_env" where
  "host_env_of env \<equiv> se_host (me_skill env)"

definition mc_refreshAccessCode :: "main_env \<Rightarrow> mc_action" where
  "mc_refreshAccessCode env =
     seq [host_do env (HM_refresh (host_env_of env)),
          (\<lambda>mc. guarded (mc_refreshInterval mc > 0) (updateAccessCodeRefreshTimer env (- 1)) mc)]"

text \<open>The timer repeats until it is stopped or started again.\<close>

definition onAccessCodeRefreshTimer :: "main_env \<Rightarrow> mc_action" where
  "onAccessCodeRefreshTimer env mc =
     (if mc_refreshTimer mc = None \<or> \<not> hm_isConnected (hostManager mc) then (mc, [])
      else seq [host_do env (HM_refresh (host_env_of env)), updateAccessCodeRefreshTimer env (- 1)] mc)"

definition onRefreshIntervalChanged :: "main_env \<Rightarrow> int \<Rightarrow> mc_action" where
  "onRefreshIntervalChanged env interval =
     seq [modify (\<lambda>mc. mc\<lparr>mc_refreshInterval := interval\<rparr>), updateAccessCodeRefreshTimer env (- 1)]"

definition setRefreshInterval :: "main_env \<Rightarrow> int \<Rightarrow> mc_action" where
  "setRefreshInterval env interval mc =
     (let (c, ev) = lcc_setInt (me_ok env ''accessCodeRefreshInterval'') ''accessCodeRefreshInterval'' interval (config_of mc)
      in guarded (ev \<noteq> []) (onRefreshIntervalChanged env interval) (put_config c mc))"

definition copyToClipboard :: "qstring \<Rightarrow> mc_action" where
  "copyToClipboard s = emit [mc_clipboard s]"

definition copyDeviceInfo :: mc_action where
  "copyDeviceInfo mc =
     (let deviceId = hm_deviceId (hostManager mc); accessCode = hm_accessCode (hostManager mc)
      in if deviceId = [] \<and> accessCode = [] then (mc, [])
         else copyToClipboard (''Device ID: '' @ deviceId @ [CHR 0x0A] @ ''Access Code: '' @ accessCode) mc)"

definition signalingStatusText :: "main_controller \<Rightarrow> qstring" where
  "signalingStatusText mc =
     (let hm = hostManager mc; state = hm_signalingState hm
      in if state = ''connected'' then ''Connected''
         else if state = ''connecting'' then ''Connecting...''
         else if state = ''disconnected'' then ''Disconnected''
         else if state = ''failed''
         then ''Connection failed'' @ (if hm_signalingError hm \<noteq> [] then '': '' @ hm_signalingError hm else [])
         else if state = ''reconnecting''
         then ''Reconnecting (attempt '' @ string_of_int (hm_signalingRetryCount hm) @ '')''
              @ (if hm_signalingNextRetryIn hm > 0 then '', retry in '' @ string_of_int (hm_signalingNextRetryIn hm) @ ''s'' else [])
         else state)"

definition nextAccessCodeRefreshTime :: "main_env \<Rightarrow> main_controller \<Rightarrow> qstring" where
  "nextAccessCodeRefreshTime env mc =
     (if mc_refreshInterval mc \<le> 0 then ''Never''
      else case mc_nextRefreshTime mc of None \<Rightarrow> ''Never'' | Some due \<Rightarrow> me_shortDate env due)"


section \<open>Skill host\<close>

definition getSkillHostBinaryPath :: "main_env \<Rightarrow> qstring" where
  "getSkillHostBinaryPath env = mpe_nativePath (me_mcp env) (mpe_appDir (me_mcp env) @ ''/quickdesk-skill-host.exe'')"

definition getBuiltinSkillsDir :: "main_env \<Rightarrow> qstring" where
  "getBuiltinSkillsDir env = mpe_nativePath (me_mcp env) (mpe_appDir (me_mcp env) @ ''/skills'')"

definition skillHostEnabled :: "main_controller \<Rightarrow> bool" where
  "skillHostEnabled mc = lcc_getBool ''skillHostEnabled'' True (config_of mc)"

definition extraSkillsDirs :: "main_env \<Rightarrow> main_controller \<Rightarrow> qstring list" where
  "extraSkillsDirs env mc =
     (let json = lcc_getString ''extraSkillsDirs'' [] (config_of mc)
      in if json = [] then [] else filter (\<lambda>d. d \<noteq> []) (map toString (me_arrayFromJson env json)))"

definition startSkillHostIfPresent :: "main_env \<Rightarrow> mc_action" where
  "startSkillHostIfPresent env mc =
     (let path = getSkillHostBinaryPath env
      in guarded (me_fileExists env path) (skill_do env (startSkillHost path (getBuiltinSkillsDir env # extraSkillsDirs env mc))) mc)"

definition setSkillHostEnabled :: "main_env \<Rightarrow> bool \<Rightarrow> mc_action" where
  "setSkillHostEnabled env enabled mc =
     (if skillHostEnabled mc = enabled then (mc, [])
      else seq [modify (\<lambda>mc. put_config (fst (lcc_setBool (me_ok env ''skillHostEnabled'') ''skillHostEnabled'' enabled (config_of mc))) mc),
                (if enabled then startSkillHostIfPresent env
                 else seq [skill_do env stopSkillHost,
                           skill_do env (bridge (me_skill env) (mkobj [(''type'', JStr ''capabilitiesChanged''), (''tools'', JArr [])]))]),
                emit [mc_skillHostEnabledChanged]] mc)"

definition setExtraSkillsDirs :: "main_env \<Rightarrow> qstring list \<Rightarrow> mc_action" where
  "setExtraSkillsDirs env dirs =
     seq [modify (put_setting env ''extraSkillsDirs'' (me_arrayToJson env (map JStr dirs))),
          (\<lambda>mc. guarded (skillHostEnabled mc \<and> sh_isRunning (mc_skill mc))
             (seq [skill_do env stopSkillHost, modify (add_timer T_skillRestart)]) mc),
          emit [mc_extraSkillsDirsChanged]]"

definition addSkillsDir :: "main_env \<Rightarrow> qstring \<Rightarrow> mc_action" where
  "addSkillsDir env dir mc =
     (let dirs = extraSkillsDirs env mc in if dir \<in> set dirs then (mc, []) else setExtraSkillsDirs env (dirs @ [dir]) mc)"

definition removeSkillsDir :: "main_env \<Rightarrow> int \<Rightarrow> mc_action" where
  "removeSkillsDir env i mc =
     (let dirs = extraSkillsDirs env mc
      in if i < 0 \<or> i \<ge> int (length dirs) then (mc, []) else setExtraSkillsDirs env (remove_at (nat i) dirs) mc)"


section \<open>The two processes\<close>

definition messaging_of :: "main_env \<Rightarrow> which \<Rightarrow> main_controller \<Rightarrow> native_messaging option" where
  "messaging_of env w mc = (if sp_messaging (get_sup w (mc_process mc)) then Some (me_channel env w) else None)"

definition iceConfig :: "main_controller \<Rightarrow> jobject" where
  "iceConfig mc = getEffectiveIceConfig \<lparr>is_userServers = mc_iceServers mc, is_config = config_of mc\<rparr>"

definition mc_onHostProcessStarted :: "main_env \<Rightarrow> mc_action" where
  "mc_onHostProcessStarted env =
     seq [modify (\<lambda>mc. mc\<lparr>mc_process := resetRetryCount Host (mc_process mc)\<rparr>),
          (\<lambda>mc. host_do env (HM_setMessaging (messaging_of env Host mc)) mc),
          (\<lambda>mc. host_do env (HM_setIceConfig (iceConfig mc)) mc),
          (\<lambda>mc. guarded (skillHostEnabled mc) (startSkillHostIfPresent env) mc),
          modify (add_timer T_hostHello)]"

definition mc_onHostProcessStopped :: "main_env \<Rightarrow> mc_action" where
  "mc_onHostProcessStopped env =
     seq [skill_do env stopSkillHost,
          modify (\<lambda>mc. mc\<lparr>mc_hostServerStatus := SrvDisconnected\<rparr>), emit [mc_hostServerStatusChanged],
          host_do env (HM_setMessaging None),
          modify (\<lambda>mc. mc\<lparr>mc_deviceId := [], mc_accessCode := []\<rparr>),
          emit [mc_deviceIdChanged, mc_accessCodeChanged]]"

definition mc_onClientProcessStarted :: "main_env \<Rightarrow> mc_action" where
  "mc_onClientProcessStarted env =
     seq [modify (\<lambda>mc. mc\<lparr>mc_process := resetRetryCount which.Client (mc_process mc)\<rparr>),
          (\<lambda>mc. client_setMessaging env False (messaging_of env which.Client mc) mc),
          modify (\<lambda>mc. mc\<lparr>mc_client := cm_setIceConfig (iceConfig mc) (mc_client mc)\<rparr>),
          modify (add_timer T_clientHello)]"

definition mc_onClientProcessStopped :: "main_env \<Rightarrow> mc_action" where
  "mc_onClientProcessStopped env =
     seq [modify (\<lambda>mc. mc\<lparr>mc_clientServerStatus := SrvDisconnected\<rparr>), emit [mc_clientServerStatusChanged],
          (\<lambda>mc. client_setMessaging env (cm_messaging (mc_client mc) = None) None mc)]"

fun status_text :: "process_status \<Rightarrow> qstring" where
  "status_text NotStarted = ''notStarted''"
| "status_text Starting = ''starting''"
| "status_text Running = ''running''"
| "status_text Failed = ''failed''"
| "status_text Restarting = ''restarting''"

definition onStatusChanged :: "which \<Rightarrow> mc_action" where
  "onStatusChanged w mc =
     seq [emit [case w of Host \<Rightarrow> mc_hostProcessStatusChanged | which.Client \<Rightarrow> mc_clientProcessStatusChanged],
          broadcast (case w of Host \<Rightarrow> ''hostProcessStatusChanged'' | which.Client \<Rightarrow> ''clientProcessStatusChanged'')
            (mkobj [(''status'', JStr (status_text (sp_status (get_sup w (mc_process mc)))))])] mc"

definition onProcessError :: "which \<Rightarrow> qstring \<Rightarrow> mc_action" where
  "onProcessError w error = emit [mc_initializationFailed ((case w of Host \<Rightarrow> ''Host error: '' | which.Client \<Rightarrow> ''Client error: '') @ error)]"

fun process_signal :: "main_env \<Rightarrow> pm_event \<Rightarrow> mc_action" where
  "process_signal env (processStarted Host) = seq [emit [MC_process (processStarted Host)], mc_onHostProcessStarted env]"
| "process_signal env (processStarted which.Client) = seq [emit [MC_process (processStarted which.Client)], mc_onClientProcessStarted env]"
| "process_signal env (processStopped Host code) = seq [emit [MC_process (processStopped Host code)], mc_onHostProcessStopped env]"
| "process_signal env (processStopped which.Client code) = seq [emit [MC_process (processStopped which.Client code)], mc_onClientProcessStopped env]"
| "process_signal env (processError w error) = seq [emit [MC_process (processError w error)], onProcessError w error]"
| "process_signal env (statusChanged w) = seq [emit [MC_process (statusChanged w)], onStatusChanged w]"
| "process_signal env launchModeChanged = emit [MC_process launchModeChanged, mc_hostLaunchModeChanged]"
| "process_signal env e = emit [MC_process e]"

definition process_do :: "main_env \<Rightarrow> pm_input \<Rightarrow> mc_action" where
  "process_do env i mc = (let (pm, ev) = pm_exec i (mc_process mc) in for_each (process_signal env) ev (mc\<lparr>mc_process := pm\<rparr>))"


section \<open>Timers and posted events\<close>

definition hello_code :: "main_env \<Rightarrow> main_controller \<Rightarrow> qstring" where
  "hello_code env mc =
     (let interval = lcc_getInt ''accessCodeRefreshInterval'' 120 (config_of mc); saved = lcc_getString ''savedAccessCode'' [] (config_of mc)
      in if interval = - 1 then saved
         else if interval > 0 \<and> saved_refresh_time env mc \<noteq> None then saved
         else [])"

fun fire :: "main_env \<Rightarrow> mc_timer \<Rightarrow> mc_action" where
  "fire env T_hostHello = seq [host_do env (HM_hello (host_env_of env)), modify (add_timer T_hostConnect)]"
| "fire env T_hostConnect =
     seq [modify (\<lambda>mc. mc\<lparr>mc_hostServerStatus := SrvConnecting\<rparr>), emit [mc_hostServerStatusChanged],
          (\<lambda>mc. host_do env (HM_connect (host_env_of env) (getDefaultServerUrl mc) (hello_code env mc)) mc)]"
| "fire env T_clientHello = (\<lambda>mc.
     let videoCodec = lcc_getString ''preferredVideoCodec'' ''AV1'' (config_of mc); localDeviceId = hm_deviceId (hostManager mc)
     in if localDeviceId = [] then (mc\<lparr>mc_helloWaiters := mc_helloWaiters mc @ [videoCodec]\<rparr>, [])
        else client_do env (sendHello (me_client env) localDeviceId videoCodec) mc)"
| "fire env (T_hostReady deviceId accessCode) =
     seq [emit [mc_deviceIdChanged, mc_accessCodeChanged], bindHostDeviceIfReady env,
          (\<lambda>mc. guarded (deviceId \<noteq> [] \<and> accessCode \<noteq> [] \<and> hm_deviceSecret (hostManager mc) \<noteq> []) (syncCode env deviceId accessCode) mc)]"
| "fire env T_skillRestart = (\<lambda>mc. if \<not> skillHostEnabled mc then (mc, []) else startSkillHostIfPresent env mc)"

definition onTimer :: "main_env \<Rightarrow> nat \<Rightarrow> mc_action" where
  "onTimer env i mc =
     (if i < length (mc_timers mc) then fire env (mc_timers mc ! i) (mc\<lparr>mc_timers := remove_at i (mc_timers mc)\<rparr>) else (mc, []))"

text \<open>Frames: the state of a device is created when it is first asked for, as \<open>QHash::operator[]\<close> does.\<close>

definition no_screen :: screen_change where
  "no_screen = \<lparr>sc_lastBroadcastHash = [], sc_lastBroadcastMs = 0\<rparr>"

definition screen_of :: "qstring \<Rightarrow> main_controller \<Rightarrow> screen_change" where
  "screen_of deviceId mc = qm_value no_screen (mc_screenChange mc) deviceId"

definition put_screen :: "qstring \<Rightarrow> screen_change \<Rightarrow> main_controller \<Rightarrow> main_controller" where
  "put_screen deviceId sc mc = mc\<lparr>mc_screenChange := qm_insert deviceId sc (mc_screenChange mc)\<rparr>"

definition onVideoFrame :: "main_env \<Rightarrow> qstring \<Rightarrow> mc_action" where
  "onVideoFrame env deviceId mc =
     (let mc1 = put_screen deviceId (screen_of deviceId mc) mc
      in if me_now env - sc_lastBroadcastMs (screen_of deviceId mc) < 200 then (mc1, [])
         else if \<not> shm_isAttached deviceId (cm_sharedMemory (mc_client mc)) then (mc1, [])
         else case me_frameHash env deviceId of
                None \<Rightarrow> (mc1, [])
              | Some h \<Rightarrow> (mc1\<lparr>mc_posted := mc_posted mc1 @ [P_hash deviceId h (me_now env)]\<rparr>, []))"

definition onFrameHash :: "qstring \<Rightarrow> qstring \<Rightarrow> int \<Rightarrow> mc_action" where
  "onFrameHash deviceId h now mc =
     (let state = screen_of deviceId mc; mc1 = put_screen deviceId state mc
      in if h = sc_lastBroadcastHash state then (mc1, [])
         else if now - sc_lastBroadcastMs state < 200 then (mc1, [])
         else broadcast ''screenChanged'' (mkobj [(''deviceId'', JStr deviceId), (''frameHash'', JStr h), (''timestamp'', JInt now)])
                (put_screen deviceId \<lparr>sc_lastBroadcastHash = h, sc_lastBroadcastMs = now\<rparr> mc))"

fun deliver :: "main_env \<Rightarrow> posted \<Rightarrow> mc_action" where
  "deliver env (P_frame d) = onVideoFrame env d"
| "deliver env (P_hash d h now) = onFrameHash d h now"

definition onPosted :: "main_env \<Rightarrow> nat \<Rightarrow> mc_action" where
  "onPosted env i mc =
     (if i < length (mc_posted mc) then deliver env (mc_posted mc ! i) (mc\<lparr>mc_posted := remove_at i (mc_posted mc)\<rparr>) else (mc, []))"


section \<open>The API server, trust and MCP\<close>

fun ws_signal :: "ws_event \<Rightarrow> mc_event list" where
  "ws_signal (WsListening b) = [MC_ws (WsListening b), mc_mcpServiceRunningChanged]"
| "ws_signal (WsAuthenticatedCount n) = [MC_ws (WsAuthenticatedCount n), mc_mcpConnectedClientsChanged]"
| "ws_signal e = [MC_ws e]"

definition ws_do :: "main_env \<Rightarrow> ws_input \<Rightarrow> mc_action" where
  "ws_do env i mc = (let (ws, ev) = ws_exec (me_ws env) i (mc_ws mc) in (mc\<lparr>mc_ws := ws\<rparr>, concat (map ws_signal ev)))"

definition mcp_do :: "main_env \<Rightarrow> mp_input \<Rightarrow> mc_action" where
  "mcp_do env i mc =
     (let ((mp, c), ev) = mp_exec (me_mcp env) (mc_ws mc) i (mc_mcp mc, config_of mc) in (put_config c (mc\<lparr>mc_mcp := mp\<rparr>), map MC_mcp ev))"

definition trustConfirmMode :: "main_controller \<Rightarrow> qstring" where
  "trustConfirmMode mc = lcc_getString ''trustConfirmMode'' ''manual'' (config_of mc)"

definition setTrustConfirmMode :: "main_env \<Rightarrow> qstring \<Rightarrow> mc_action" where
  "setTrustConfirmMode env mode mc =
     (if trustConfirmMode mc = mode then (mc, []) else (put_setting env ''trustConfirmMode'' mode mc, [mc_trustConfirmModeChanged]))"

definition mc_resolveConfirmation :: "qstring \<Rightarrow> bool \<Rightarrow> qstring \<Rightarrow> mc_action" where
  "mc_resolveConfirmation confirmationId approved reason mc =
     (mc\<lparr>mc_trust := resolveConfirmation confirmationId approved reason (mc_trust mc)\<rparr>, [])"

definition activateEmergencyStop :: "qstring \<Rightarrow> mc_action" where
  "activateEmergencyStop reason mc =
     (let (th, ev, _) = handleEmergencyStop (mkobj [(''reason'', JStr reason)]) (mc_trust mc)
      in seq [emit (map MC_trust ev), broadcast ''emergencyStopActivated'' (mkobj [(''reason'', JStr reason)])] (mc\<lparr>mc_trust := th\<rparr>))"

definition deactivateEmergencyStop :: mc_action where
  "deactivateEmergencyStop mc =
     (let (th, ev, _) = handleDeactivateEmergency [] (mc_trust mc)
      in seq [emit (map MC_trust ev), broadcast ''emergencyStopDeactivated'' []] (mc\<lparr>mc_trust := th\<rparr>))"

definition trust_do :: "main_env \<Rightarrow> trust_input \<Rightarrow> mc_action" where
  "trust_do env i mc =
     (let (th, ev) = trust_exec (ce_compact (me_client env)) i (mc_trust mc) in (mc\<lparr>mc_trust := th\<rparr>, map MC_trust ev))"


section \<open>Start and end\<close>

definition mc_setServerUrl :: "main_env \<Rightarrow> qstring \<Rightarrow> mc_action" where
  "mc_setServerUrl env url mc =
     (let ((sv, c), ev) = setServerUrl (me_ok env ''signalingServerUrl'') url (mc_server mc, config_of mc)
      in seq [emit (map MC_server ev), guarded (sv_serverUrlChanged \<in> set ev) (modify (put_setting env ''lastDeviceId'' []))]
           (put_config c (mc\<lparr>mc_server := sv\<rparr>)))"

definition initDevices :: "main_env \<Rightarrow> mc_action" where
  "initDevices env mc = (let (dh, ev, _) = rdm_init (me_rdm env) (mc_devices mc) in (mc\<lparr>mc_devices := dh\<rparr>, map MC_devices ev))"

text \<open>A start whose result is false is reported after the signals it emitted.\<close>

definition startOrReport :: "main_env \<Rightarrow> which \<Rightarrow> mc_action" where
  "startOrReport env w mc =
     (let (pm, ev, ok) = (case w of Host \<Rightarrow> startHostProcess (me_sys env) (mc_process mc) | which.Client \<Rightarrow> startClientProcess (me_sys env) (mc_process mc))
      in seq [for_each (process_signal env) ev,
              guarded (\<not> ok) (emit [mc_initializationFailed (case w of Host \<Rightarrow> ''Failed to start Host process''
                | which.Client \<Rightarrow> ''Failed to start Client process'')])] (mc\<lparr>mc_process := pm\<rparr>))"

definition initialize :: "main_env \<Rightarrow> mc_action" where
  "initialize env =
     seq [initDevices env,
          process_do env (AutoDetect (me_sys env)), process_do env (SetLogDir (me_logPath env)), process_do env (SetConfigDir (me_dataPath env)),
          emit [mc_presetStart],
          cloud_do env (\<lambda>ce. account_input ce AM_restore),
          startOrReport env Host, startOrReport env which.Client,
          ws_do env (InStart (me_wsListens env) (me_wsPort env)),
          (\<lambda>mc. mcp_do env (MP_restore (config_of mc)) mc)]"

definition shutdown :: "main_env \<Rightarrow> mc_action" where
  "shutdown env mc =
     (if mc_isShutdown mc then (mc, [])
      else seq [modify (\<lambda>mc. mc\<lparr>mc_isShutdown := True\<rparr>),
                cloud_quiet env (\<lambda>ce. stopSync),
                (\<lambda>mc. let (mp, ev) = stopMcpHttpProcess (mc_mcp mc) in (mc\<lparr>mc_mcp := mp\<rparr>, map MC_mcp ev)),
                ws_do env InStop,
                emit [mc_presetStop],
                host_do env (HM_disconnect (host_env_of env)),
                client_disconnectAll env,
                host_do env (HM_setMessaging None),
                (\<lambda>mc. client_setMessaging env (cm_messaging (mc_client mc) = None) None mc),
                process_do env StopAll] mc)"


section \<open>The program as a state machine\<close>

text \<open>
  One input is one call of the user interface or the API, or one signal the event loop delivers to a manager. The access-code calls of the device
  list are made by the controller only.
\<close>

datatype mc_input =
    MI_initialize
  | MI_shutdown
  | MI_connect qstring qstring qstring
  | MI_disconnect qstring
  | MI_refreshCode
  | MI_refreshTimer
  | MI_setInterval int
  | MI_copyDeviceInfo
  | MI_showWindow qstring
  | MI_setServerUrl qstring
  | MI_setIceServers "json list"
  | MI_setSkillHost bool
  | MI_setDirs "qstring list"
  | MI_addDir qstring
  | MI_removeDir int
  | MI_trustMode qstring
  | MI_resolve qstring bool qstring
  | MI_emergency qstring
  | MI_endEmergency
  | MI_timer nat
  | MI_posted nat
  | MI_process pm_input
  | MI_host hm_input
  | MI_skill sh_input
  | MI_client cm_input
  | MI_cloud cd_input
  | MI_ws ws_input
  | MI_mcp mp_input
  | MI_trust trust_input

fun controller_only :: "cd_input \<Rightarrow> bool" where
  "controller_only (CD_verify d c n) = True"
| "controller_only (CD_refreshCode d n) = True"
| "controller_only (CD_account (AM_request k m u b)) = True"
| "controller_only (CD_account (AM_http k r)) = True"
| "controller_only _ = False"

fun rewires :: "sh_input \<Rightarrow> bool" where
  "rewires (SH_setHostManager hm) = True"
| "rewires _ = False"

fun mc_exec :: "main_env \<Rightarrow> mc_input \<Rightarrow> mc_action" where
  "mc_exec env MI_initialize = initialize env"
| "mc_exec env MI_shutdown = shutdown env"
| "mc_exec env (MI_connect d code url) = connectToRemoteHost env d code url"
| "mc_exec env (MI_disconnect d) = disconnectFromRemoteHost env d"
| "mc_exec env MI_refreshCode = mc_refreshAccessCode env"
| "mc_exec env MI_refreshTimer = onAccessCodeRefreshTimer env"
| "mc_exec env (MI_setInterval i) = setRefreshInterval env i"
| "mc_exec env MI_copyDeviceInfo = copyDeviceInfo"
| "mc_exec env (MI_showWindow d) = emit [mc_requestShowRemoteWindow d]"
| "mc_exec env (MI_setServerUrl url) = mc_setServerUrl env url"
| "mc_exec env (MI_setIceServers servers) = modify (\<lambda>mc. mc\<lparr>mc_iceServers := servers\<rparr>)"
| "mc_exec env (MI_setSkillHost b) = setSkillHostEnabled env b"
| "mc_exec env (MI_setDirs dirs) = setExtraSkillsDirs env dirs"
| "mc_exec env (MI_addDir d) = addSkillsDir env d"
| "mc_exec env (MI_removeDir i) = removeSkillsDir env i"
| "mc_exec env (MI_trustMode m) = setTrustConfirmMode env m"
| "mc_exec env (MI_resolve c a r) = mc_resolveConfirmation c a r"
| "mc_exec env (MI_emergency r) = activateEmergencyStop r"
| "mc_exec env MI_endEmergency = deactivateEmergencyStop"
| "mc_exec env (MI_timer i) = onTimer env i"
| "mc_exec env (MI_posted i) = onPosted env i"
| "mc_exec env (MI_process i) = process_do env i"
| "mc_exec env (MI_host i) = host_do env i"
| "mc_exec env (MI_skill i) = (if rewires i then emit [] else skill_do env (sh_exec (me_skill env) i))"
| "mc_exec env (MI_client i) = client_input env i"
| "mc_exec env (MI_cloud i) = (if controller_only i then emit [] else cloud_do env (\<lambda>ce. cd_exec ce i))"
| "mc_exec env (MI_ws i) = ws_do env i"
| "mc_exec env (MI_mcp i) = mcp_do env i"
| "mc_exec env (MI_trust i) = trust_do env i"

definition mc_run :: "(main_env \<times> mc_input) list \<Rightarrow> mc_action" where
  "mc_run = for_each (\<lambda>(env, i). mc_exec env i)"

definition mc_step :: "main_controller \<Rightarrow> main_controller \<Rightarrow> bool" where
  "mc_step mc mc' \<longleftrightarrow> (\<exists>env i. mc' = fst (mc_exec env i mc))"

end
