(* ===== verification/MainProperties.thy ===== *)
theory MainProperties
  imports MainController CloudProperties ClientProperties
begin

text \<open>
  Properties of the whole program: no attempt to connect is lost between the controller, the device list and the account client;
  screen events are throttled per device; the time of the next access-code refresh survives a restart. The first two rest on
  one analysis of the controller's slots, made once in the locales \<open>controller_slots\<close> and \<open>controller_program\<close>.
\<close>


section \<open>The client manager's calls, statement by statement\<close>

lemma seq_append: "seq (as @ bs) s = (let (s1, e1) = seq as s; (s2, e2) = seq bs s1 in (s2, e1 @ e2))"
  by (induction as arbitrary: s) (simp_all add: split_beta Let_def)

lemma seq_guarded: "seq (as @ [guarded b (seq bs)]) s = (if b then seq (as @ bs) s else seq as s)"
  by (simp add: seq_append guarded_def split_beta Let_def)

lemma seq_for_each: "seq (for_each f xs # as) s = seq (map f xs @ as) s"
  by (simp add: seq_append for_each_def split_beta Let_def)

lemma setMessaging_by_steps: "seq (setMessaging_steps same messaging (connectedDeviceIds cm)) cm = cm_setMessaging same messaging cm"
proof -
  let ?pre = "[guarded (\<not> same) (endTransfers endAllSessions), modify (\<lambda>cm. cm\<lparr>cm_messaging := messaging\<rparr>)]"
  let ?post = "[modify clearConnections, guarded (connectedDeviceIds cm \<noteq> [])
      (emit [cm_connectionCountChanged, cm_activeConnectionChanged, cm_connectionListChanged])]"
  have m: "seq (?pre @ for_each forgetDevice ds # ?post) cm = seq (?pre @ map forgetDevice ds @ ?post) cm" for ds
    unfolding seq_append[of ?pre] seq_for_each ..
  have "cm_setMessaging same messaging cm
    = seq (?pre @ [guarded (messaging = None) (seq (for_each forgetDevice (connectedDeviceIds cm) # ?post))]) cm"
    by (simp add: cm_setMessaging_def connectedDeviceIds_def Let_def)
  also have "\<dots> = seq (setMessaging_steps same messaging (connectedDeviceIds cm)) cm"
    unfolding seq_guarded m by (simp add: setMessaging_steps_def del: seq.simps)
  finally show ?thesis by simp
qed

lemma disconnectAll_by_steps:
  "guarded (cm_ready cm) (seq (disconnectAll_steps env (connectedDeviceIds cm))) cm = disconnectAll env cm"
proof -
  let ?pre = "[send env (mkobj [(''type'', JStr ''disconnectAll'')])]"
  let ?post = "[modify clearConnections, emit [cm_connectionCountChanged, cm_activeConnectionChanged, cm_connectionListChanged]]"
  have "seq (?pre @ for_each disconnectDevice ds # ?post) cm = seq (?pre @ map disconnectDevice ds @ ?post) cm" for ds
    unfolding seq_append[of ?pre] seq_for_each ..
  then show ?thesis
    by (simp add: disconnectAll_def disconnectAll_steps_def guarded_def connectedDeviceIds_def del: seq.simps)
qed


section \<open>The slots of the controller\<close>

text \<open>
  What a property of the controller must allow: a relation between a state and the state and signals an action leaves. It may depend on
  the table of screens, the table of calls and the account client, and must admit what changes these.
\<close>

definition call_part :: "main_controller \<Rightarrow> (qstring, screen_change) qmap \<times> (nat, mc_call) qmap \<times> nat \<times> cloud_call auth_manager" where
  "call_part mc = (mc_screenChange mc, mc_calls mc, mc_nextCall mc, (cd_auth (mc_cloud mc))\<lparr>am_config := []\<rparr>)"

lemma call_part_upd [simp]:
  "call_part (mc\<lparr>mc_process := x0\<rparr>) = call_part mc"
  "call_part (mc\<lparr>mc_server := x1\<rparr>) = call_part mc"
  "call_part (mc\<lparr>mc_iceServers := x2\<rparr>) = call_part mc"
  "call_part (mc\<lparr>mc_skill := x3\<rparr>) = call_part mc"
  "call_part (mc\<lparr>mc_client := x4\<rparr>) = call_part mc"
  "call_part (mc\<lparr>mc_devices := x5\<rparr>) = call_part mc"
  "call_part (mc\<lparr>mc_ws := x6\<rparr>) = call_part mc"
  "call_part (mc\<lparr>mc_trust := x7\<rparr>) = call_part mc"
  "call_part (mc\<lparr>mc_mcp := x8\<rparr>) = call_part mc"
  "call_part (mc\<lparr>mc_isShutdown := x9\<rparr>) = call_part mc"
  "call_part (mc\<lparr>mc_hostServerStatus := x10\<rparr>) = call_part mc"
  "call_part (mc\<lparr>mc_clientServerStatus := x11\<rparr>) = call_part mc"
  "call_part (mc\<lparr>mc_primaryDeviceId := x12\<rparr>) = call_part mc"
  "call_part (mc\<lparr>mc_cloudSyncReady := x13\<rparr>) = call_part mc"
  "call_part (mc\<lparr>mc_refreshInterval := x14\<rparr>) = call_part mc"
  "call_part (mc\<lparr>mc_timers := x15\<rparr>) = call_part mc"
  "call_part (mc\<lparr>mc_helloWaiters := x16\<rparr>) = call_part mc"
  "call_part (mc\<lparr>mc_posted := x17\<rparr>) = call_part mc"
  "call_part (mc\<lparr>mc_connectionTracks := x18\<rparr>) = call_part mc"
  "call_part (mc\<lparr>mc_deviceId := y1, mc_accessCode := y2\<rparr>) = call_part mc"
  "call_part (mc\<lparr>mc_refreshTimer := y3, mc_nextRefreshTime := y4\<rparr>) = call_part mc"
  "call_part (mc\<lparr>mc_hostServerStatus := y5, mc_lastSignalingConnected := y6\<rparr>) = call_part mc"
  "call_part (mc\<lparr>mc_primaryDeviceId := y7, mc_clientServerStatus := y8\<rparr>) = call_part mc"
  "call_part (put_config c mc) = call_part mc" "call_part (put_setting env k v mc) = call_part mc" "call_part (add_timer t mc) = call_part mc"
  by (simp_all add: call_part_def put_setting_def put_config_def add_timer_def)

definition quiet_call :: "(cloud_env \<Rightarrow> cd_action) \<Rightarrow> bool" where
  "quiet_call a \<longleftrightarrow> (\<forall>ce st. am_inv (cd_auth st) \<longrightarrow> balances {#} st (a ce st) \<and> replied (snd (a ce st)) = {#})"

lemma replied_account_call: "replied (snd (account a st)) = {#}"
  by (simp add: account_def split_beta)

lemma quiet_calls:
  "quiet_call startSync" "quiet_call fetchConnectionLogs" "quiet_call (\<lambda>ce. stopSync)" "quiet_call (\<lambda>ce. autoBindDevice ce d)"
  "quiet_call (\<lambda>ce. recordConnection ce d t s e)" "quiet_call (\<lambda>ce. syncAccessCode ce d c)"
proof -
  have "balances (asked j) st (cd_exec ce j st)" if "am_inv (cd_auth st)" for j ce st using balances_exec[OF that] .
  from this[of _ CD_startSync] this[of _ CD_logs] this[of _ CD_stopSync] this[of _ "CD_bind d"] this[of _ "CD_record d t s e"]
    this[of _ "CD_syncCode d c"]
  show "quiet_call startSync" "quiet_call fetchConnectionLogs" "quiet_call (\<lambda>ce. stopSync)" "quiet_call (\<lambda>ce. autoBindDevice ce d)"
    "quiet_call (\<lambda>ce. recordConnection ce d t s e)" "quiet_call (\<lambda>ce. syncAccessCode ce d c)"
    by (simp_all add: quiet_call_def startSync_def fetchConnectionLogs_def stopSync_def autoBindDevice_def recordConnection_def
        syncAccessCode_def cloud_request_def replied_account_call Let_def)
qed

locale controller_slots =
  fixes R :: "main_controller \<Rightarrow> main_controller \<times> mc_event list \<Rightarrow> bool"
  assumes same: "call_part mc' = call_part mc \<Longrightarrow> R mc (mc', evs)"
    and trans: "R mc (mc1, ev1) \<Longrightarrow> R mc1 (mc2, ev2) \<Longrightarrow> R mc (mc2, ev1 @ ev2)"
    and quiet: "quiet_call a \<Longrightarrow> R mc (cloud_quiet env a mc)"
    and removed: "R mc (mc\<lparr>mc_screenChange := qm_remove d (mc_screenChange mc)\<rparr>, MC_client (cm_connectionRemoved d) # evs)"
    and started: "R mc (start_call env call mc)"
begin

definition ok :: "mc_action \<Rightarrow> bool" where
  "ok a \<longleftrightarrow> (\<forall>mc. R mc (a mc))"

lemma okD: "ok a \<Longrightarrow> R mc (a mc)"
  by (simp add: ok_def)

lemma ok_emit: "ok (emit evs)"
  by (simp add: ok_def emit_def same)

lemma ok_modify: "(\<And>mc. call_part (f mc) = call_part mc) \<Longrightarrow> ok (modify f)"
  by (simp add: ok_def modify_def same)

lemma ok_at: "(\<And>mc. ok (f mc)) \<Longrightarrow> ok (\<lambda>mc. f mc mc)"
  by (simp add: ok_def)

lemma ok_guarded: "ok a \<Longrightarrow> ok (guarded b a)"
  by (simp add: ok_def guarded_def same)

lemma ok_seq: "list_all ok as \<Longrightarrow> ok (seq as)"
proof (induction as)
  case Nil
  then show ?case by (simp add: ok_def same)
next
  case (Cons a as)
  have "R mc (seq (a # as) mc)" for mc
    using trans[of mc "fst (a mc)" "snd (a mc)" "fst (seq as (fst (a mc)))" "snd (seq as (fst (a mc)))"] Cons
    by (simp add: ok_def split_beta Let_def)
  then show ?case by (simp add: ok_def del: seq.simps)
qed

lemma ok_for_each: "(\<And>x. ok (f x)) \<Longrightarrow> ok (for_each f xs)"
  unfolding for_each_def by (rule ok_seq) (simp add: list_all_iff)

lemma ok_then: "(\<And>mc. call_part (f mc) = call_part mc) \<Longrightarrow> (\<And>mc. ok (g mc)) \<Longrightarrow> ok (\<lambda>mc. g mc (f mc))"
  unfolding ok_def
proof (intro allI)
  fix mc assume "\<And>mc. call_part (f mc) = call_part mc" "\<And>mc. \<forall>mc'. R mc' (g mc mc')"
  then show "R mc (g mc (f mc))"
    using trans[OF same[of "f mc" mc "[]"], of "fst (g mc (f mc))" "snd (g mc (f mc))"] by simp
qed

lemma ok_same: "(\<And>mc. call_part (fst (a mc)) = call_part mc) \<Longrightarrow> ok a"
  unfolding ok_def by (metis prod.collapse same)

lemma ok_if: "ok a \<Longrightarrow> ok b \<Longrightarrow> ok (\<lambda>mc. if P mc then a mc else b mc)"
  by (simp add: ok_def)

lemma ok_skip: "ok (\<lambda>mc. (mc, []))"
  by (simp add: ok_def same)

lemma ok_broadcast: "ok (broadcast name data)"
  by (simp add: ok_def broadcast_def same)

lemmas ok_rules = ok_emit ok_modify ok_guarded ok_skip ok_broadcast

lemma ok_quiet: "quiet_call a \<Longrightarrow> ok (cloud_quiet env a)"
  by (simp add: ok_def quiet)

lemma ok_noteTrack: "ok (noteTrack env d s e)"
proof -
  have "ok (seq [cloud_quiet env (\<lambda>ce. recordConnection ce d dur st e),
      guarded b (modify (\<lambda>mc. mc\<lparr>mc_connectionTracks := qm_remove d (mc_connectionTracks mc)\<rparr>))])" for dur st b
    by (rule ok_seq) (simp add: ok_rules ok_quiet quiet_calls)
  then show ?thesis
    by (auto simp: ok_def noteTrack_def same Let_def simp del: seq.simps split: option.split)
qed

lemma ok_signaling: "ok (onClientSignalingStateChanged env d s e)"
  unfolding onClientSignalingStateChanged_def
  by (rule ok_seq) (simp add: ok_rules ok_noteTrack ok_same)

lemma ok_primary: "ok (onConnectionRemoved d)"
  by (rule ok_same) (auto simp: onConnectionRemoved_def split: list.split)

lemma ok_client_signal: "ok (client_signal env e)"
proof (cases e)
  case (cm_connectionRemoved d)
  have "R mc (client_signal env e mc)" for mc
  proof -
    let ?a = "seq [onConnectionRemoved d, broadcast ''connectionRemoved'' (mkobj [(''deviceId'', JStr d)])]"
    let ?mc = "fst (?a mc)" and ?ev = "snd (?a mc)"
    have part: "call_part (fst (onConnectionRemoved d mc)) = call_part mc"
      by (auto simp: onConnectionRemoved_def split: list.split)
    then have "call_part ?mc = call_part mc" by (simp add: seq_Cons broadcast_def del: seq.simps(2))
    then have "R mc (?mc, [])" by (rule same)
    moreover have "R ?mc (?mc\<lparr>mc_screenChange := qm_remove d (mc_screenChange ?mc)\<rparr>, MC_client (cm_connectionRemoved d) # ?ev)"
      by (rule removed)
    ultimately have "R mc (?mc\<lparr>mc_screenChange := qm_remove d (mc_screenChange ?mc)\<rparr>, [] @ MC_client (cm_connectionRemoved d) # ?ev)"
      by (rule trans)
    then show ?thesis by (simp add: cm_connectionRemoved emit_def modify_def split_beta Let_def)
  qed
  then show ?thesis by (simp add: ok_def)
next
  case (cm_signalingStateChanged d s r n er)
  then show ?thesis by (simp add: ok_seq ok_rules ok_signaling del: seq.simps)
next
  case (cm_videoFrameReady d n)
  then show ?thesis by (simp add: ok_seq ok_rules del: seq.simps)
qed (simp_all add: ok_seq ok_rules del: seq.simps)

lemma ok_client_do: "ok (client_do env a)"
  unfolding client_do_def split_beta Let_def
  by (rule ok_then[where f = "\<lambda>mc. mc\<lparr>mc_client := fst (a (mc_client mc))\<rparr>"
        and g = "\<lambda>mc. for_each (client_signal env) (snd (a (mc_client mc)))"])
    (simp_all add: ok_for_each ok_client_signal)

lemma ok_client_setMessaging: "ok (client_setMessaging env sm m)"
  unfolding client_setMessaging_def by (rule ok_at) (rule ok_for_each, rule ok_client_do)

lemma ok_client_disconnectAll: "ok (client_disconnectAll env)"
  unfolding client_disconnectAll_def by (rule ok_at) (rule ok_guarded, rule ok_for_each, rule ok_client_do)

lemma ok_client_input: "ok (client_input env i)"
  by (cases i) (simp_all add: ok_client_do ok_client_setMessaging ok_client_disconnectAll)

lemma ok_report: "ok (reportVerifyAccessCodeFailure d s c t)"
  by (rule ok_same) (simp add: reportVerifyAccessCodeFailure_def)

lemma ok_verified: "ok (onVerifySuccess env d code url tok)"
proof -
  let ?r = "\<lambda>mc. connectToHost (me_client env) d code tok url (mc_client mc)"
  have "ok (\<lambda>mc. (\<lambda>mc'. seq [for_each (client_signal env) (fst (snd (?r mc'))),
      guarded (snd (snd (?r mc')) = []) (modify (\<lambda>mc. mc\<lparr>mc_connectionTracks := qm_remove d (mc_connectionTracks mc)\<rparr>))]) mc
        (mc\<lparr>mc_client := fst (?r mc)\<rparr>))"
    by (rule ok_then) (simp_all add: ok_seq ok_for_each ok_client_signal ok_rules del: seq.simps)
  then show ?thesis by (simp add: ok_def onVerifySuccess_def split_beta Let_def del: seq.simps)
qed

lemma ok_started: "ok (start_call env call)"
  by (simp add: ok_def started)

lemma ok_answer: "ok (on_answer env call e)"
  by (cases "(env, call, e)" rule: on_answer.cases)
    (simp_all add: ok_verified ok_report ok_emit verifyAndConnectToRemoteHost_def ok_started)

lemma ok_bind: "ok (bindHostDeviceIfReady env)"
  by (auto simp: ok_def bindHostDeviceIfReady_def Let_def same quiet quiet_calls)

lemma ok_myDevices: "ok (onMyDevicesChanged env)"
proof -
  have c: "ok (copyPassword env row)" for row
    by (rule ok_same) (simp add: copyPassword_def split_beta Let_def)
  show ?thesis unfolding onMyDevicesChanged_def by (rule ok_at, rule ok_for_each, rule c)
qed

lemma ok_plain_signal: "answer_number e = None \<Longrightarrow> ok (cloud_signal env e)"
proof (cases e)
  case (cd_account a)
  then show "ok (cloud_signal env e)"
    by (cases a) (auto intro!: ok_seq simp: ok_rules ok_quiet quiet_calls answered_call_def ok_same simp del: seq.simps)
qed (auto intro!: ok_seq simp: ok_rules ok_bind ok_myDevices answered_call_def ok_same simp del: seq.simps)

lemma ok_cloud_do:
  assumes "\<And>n. ok (modify (take_call n))" "\<And>f. ok (modify (\<lambda>mc. mc\<lparr>mc_cloud := f mc\<rparr>))"
  shows "ok (cloud_do env a)"
proof -
  have "ok (answered_call env e)" for e
    unfolding ok_def answered_call_def
  proof
    fix mc
    have "R mc (take_call n mc, [])" for n using okD[OF assms(1), of mc n] by (simp add: modify_def)
    from trans[OF this] have "R mc (on_answer env c e (take_call n mc))" for c n
      using okD[OF ok_answer, of "take_call n mc" env c e] by (metis append_Nil prod.collapse)
    then show "R mc (case answer_number e of None \<Rightarrow> (mc, []) | Some n \<Rightarrow> case map_of (mc_calls mc) n of None \<Rightarrow> (mc, [])
        | Some call \<Rightarrow> on_answer env call e (take_call n mc))" by (simp add: same split: option.split)
  qed
  then have sig: "ok (cloud_signal env e)" for e
    using ok_plain_signal[of e env] by (cases e) (auto intro!: ok_seq simp: ok_rules simp del: seq.simps)
  show ?thesis
    unfolding ok_def cloud_do_def split_beta Let_def
  proof
    fix mc
    let ?r = "a (cloud_env_of env mc) (mc_cloud mc)"
    have "R mc (mc\<lparr>mc_cloud := fst ?r\<rparr>, [])" using okD[OF assms(2), of mc "\<lambda>mc. fst (a (cloud_env_of env mc) (mc_cloud mc))"] by (simp add: modify_def)
    from trans[OF this] show "R mc (for_each (cloud_signal env) (snd ?r) (mc\<lparr>mc_cloud := fst ?r\<rparr>))"
      using okD[OF ok_for_each[of "cloud_signal env", OF sig]] by (metis append_Nil prod.collapse)
  qed
qed

end

text \<open>The rest of the controller, given what the relation says of the inputs of the device list and of the frame hashes.\<close>

locale controller_program = controller_slots +
  assumes cloud: "\<not> controller_only i \<Longrightarrow> R mc (cloud_do env (\<lambda>ce. cd_exec ce i) mc)"
    and hashed: "R mc (onFrameHash d h now mc)"
begin

lemma ok_syncCode: "ok (syncCode env d c)"
  unfolding syncCode_def by (rule ok_quiet) (rule quiet_calls)

lemma ok_codeChanged: "ok (onAccessCodeChanged env)"
proof -
  have "ok (seq [modify (put_setting env ''savedAccessCode'' code), guarded b (syncCode env d code)])" for code b d
    by (simp add: ok_seq ok_rules ok_syncCode del: seq.simps)
  then show ?thesis by (simp add: ok_def onAccessCodeChanged_def Let_def same del: seq.simps)
qed

lemma ok_secret: "ok (onDeviceSecretReady env)"
  unfolding onDeviceSecretReady_def Let_def by (rule ok_at) (rule ok_guarded, rule ok_syncCode)

lemma ok_waiters: "ok (helloWaiters env)"
proof -
  have "ok (\<lambda>mc. for_each (\<lambda>codec. client_do env (sendHello (me_client env) (hm_deviceId (hostManager mc)) codec)) (mc_helloWaiters mc)
      (mc\<lparr>mc_helloWaiters := []\<rparr>))"
    by (rule ok_then) (simp_all add: ok_for_each ok_client_do)
  then show ?thesis by (simp add: ok_def helloWaiters_def Let_def same)
qed

lemma ok_updateTimer: "ok (updateAccessCodeRefreshTimer env r)"
  by (rule ok_same) (simp add: updateAccessCodeRefreshTimer_def Let_def)

lemma ok_hostReady: "ok (onHostReady env d c)"
proof -
  have "ok (\<lambda>mc. if mc_refreshInterval mc = - 1 then (put_setting env ''savedAccessCode'' c mc, [])
             else if mc_refreshInterval mc > 0
             then (case saved_refresh_time env mc of
                     Some due \<Rightarrow> updateAccessCodeRefreshTimer env (secs_between (me_now env) due) mc
                   | None \<Rightarrow> updateAccessCodeRefreshTimer env (- 1) mc)
             else (mc, []))"
    by (simp add: ok_def same okD[OF ok_updateTimer] split: option.split)
  then show ?thesis unfolding onHostReady_def by (intro ok_seq) (simp add: ok_rules)
qed

lemma ok_host_signal: "ok (mc_host_signal env e)"
proof (cases e)
  case hm_signalingStateChanged
  have "ok onHostSignalingStateChanged" by (rule ok_same) (simp add: onHostSignalingStateChanged_def Let_def)
  then show ?thesis using hm_signalingStateChanged by (simp add: ok_seq ok_rules ok_at[where f = "\<lambda>mc. broadcast x (f mc)" for x f] del: seq.simps)
qed (simp_all add: ok_seq ok_rules ok_hostReady ok_waiters ok_codeChanged ok_secret ok_at[where f = "\<lambda>mc. broadcast x (f mc)" for x f] del: seq.simps)

lemma ok_skill_do: "ok (skill_do env a)"
proof -
  have "ok (skill_signal env e)" for e by (cases e) (simp_all add: ok_seq ok_rules ok_host_signal del: seq.simps)
  then show ?thesis unfolding skill_do_def split_beta Let_def
    by (intro ok_then[where f = "\<lambda>mc. mc\<lparr>mc_skill := fst (a (mc_skill mc))\<rparr>"
        and g = "\<lambda>mc. for_each (skill_signal env) (snd (a (mc_skill mc)))"]) (simp_all add: ok_for_each)
qed

lemma ok_host_do: "ok (host_do env i)"
  by (simp add: host_do_def ok_skill_do)

lemma ok_skillHost: "ok (startSkillHostIfPresent env)"
  unfolding startSkillHostIfPresent_def Let_def by (rule ok_at) (rule ok_guarded, rule ok_skill_do)

lemma ok_hostStarted: "ok (mc_onHostProcessStarted env)"
  unfolding mc_onHostProcessStarted_def
  by (rule ok_seq) (simp add: ok_rules ok_at[where f = "\<lambda>mc. host_do env (f mc)" for f]
      ok_at[where f = "\<lambda>mc. guarded (f mc) a" for f a] ok_host_do ok_skillHost)

lemma ok_hostStopped: "ok (mc_onHostProcessStopped env)"
  unfolding mc_onHostProcessStopped_def by (rule ok_seq) (simp add: ok_rules ok_skill_do ok_host_do)

lemma ok_clientStarted: "ok (mc_onClientProcessStarted env)"
  unfolding mc_onClientProcessStarted_def
  by (rule ok_seq) (simp add: ok_rules ok_at[where f = "\<lambda>mc. client_setMessaging env x (f mc)" for x f] ok_client_setMessaging)

lemma ok_clientStopped: "ok (mc_onClientProcessStopped env)"
  unfolding mc_onClientProcessStopped_def
  by (rule ok_seq) (simp add: ok_rules ok_at[where f = "\<lambda>mc. client_setMessaging env (f mc) x" for x f] ok_client_setMessaging)

lemma ok_process_signal: "ok (process_signal env e)"
proof -
  have "ok (onStatusChanged w)" for w by (rule ok_same) (simp add: onStatusChanged_def seq_Cons broadcast_def del: seq.simps(2))
  then show ?thesis
    by (cases "(env, e)" rule: process_signal.cases)
      (simp_all add: ok_seq ok_rules ok_hostStarted ok_hostStopped ok_clientStarted ok_clientStopped onProcessError_def del: seq.simps)
qed

lemma ok_process_do: "ok (process_do env i)"
  unfolding process_do_def split_beta Let_def
  by (rule ok_then[where f = "\<lambda>mc. mc\<lparr>mc_process := fst (pm_exec i (mc_process mc))\<rparr>"
        and g = "\<lambda>mc. for_each (process_signal env) (snd (pm_exec i (mc_process mc)))"]) (simp_all add: ok_for_each ok_process_signal)

lemma ok_refresh: "ok (mc_refreshAccessCode env)"
  unfolding mc_refreshAccessCode_def
  by (rule ok_seq) (simp add: ok_host_do ok_at[where f = "\<lambda>mc. guarded (f mc) a" for f a] ok_rules ok_updateTimer)

lemma ok_refreshTimer: "ok (onAccessCodeRefreshTimer env)"
proof -
  have "ok (seq [host_do env x, updateAccessCodeRefreshTimer env (- 1)])" for x by (simp add: ok_seq ok_host_do ok_updateTimer del: seq.simps)
  then show ?thesis by (simp add: ok_def onAccessCodeRefreshTimer_def same del: seq.simps)
qed

lemma ok_interval: "ok (setRefreshInterval env i)"
proof -
  have "ok (onRefreshIntervalChanged env i)" unfolding onRefreshIntervalChanged_def by (rule ok_seq) (simp add: ok_rules ok_updateTimer)
  then have "ok (\<lambda>mc. guarded (snd (lcc_setInt x k i (config_of mc)) \<noteq> []) (onRefreshIntervalChanged env i)
      (put_config (fst (lcc_setInt x k i (config_of mc))) mc))" for x k
    by (intro ok_then[where f = "\<lambda>mc. put_config (fst (lcc_setInt x k i (config_of mc))) mc"
          and g = "\<lambda>mc. guarded (snd (lcc_setInt x k i (config_of mc)) \<noteq> []) (onRefreshIntervalChanged env i)"]) (simp_all add: ok_rules)
  then show ?thesis by (simp add: ok_def setRefreshInterval_def split_beta Let_def)
qed

lemma ok_copyInfo: "ok copyDeviceInfo"
  by (rule ok_same) (simp add: copyDeviceInfo_def copyToClipboard_def Let_def)

lemma ok_dirs: "ok (setExtraSkillsDirs env dirs)"
proof -
  have "ok (\<lambda>mc. guarded (f mc) (seq [skill_do env stopSkillHost, modify (add_timer T_skillRestart)]) mc)" for f
    by (rule ok_at) (simp add: ok_rules ok_seq ok_skill_do del: seq.simps)
  then show ?thesis unfolding setExtraSkillsDirs_def by (intro ok_seq) (simp add: ok_rules)
qed

lemma ok_skillEnabled: "ok (setSkillHostEnabled env b)"
proof -
  have "ok (seq [modify (\<lambda>mc. put_config (f mc) mc),
      (if b then startSkillHostIfPresent env else seq [skill_do env stopSkillHost, skill_do env a]), emit [mc_skillHostEnabledChanged]])" for f a
    by (simp add: ok_seq ok_rules ok_skillHost ok_skill_do del: seq.simps)
  note main = okD[OF this]
  have "R mc (setSkillHostEnabled env b mc)" for mc
    unfolding setSkillHostEnabled_def by (cases "skillHostEnabled mc = b") (simp_all only: if_True if_False refl same main)
  then show ?thesis by (simp add: ok_def)
qed

lemma ok_fire: "ok (fire env t)"
proof (cases t)
  case T_clientHello
  have "R mc (fire env t mc)" for mc using okD[OF ok_client_do] by (simp add: T_clientHello Let_def same)
  then show ?thesis by (simp add: ok_def)
next
  case (T_hostReady d c)
  then show ?thesis by (simp add: ok_seq ok_rules ok_bind ok_syncCode ok_at[where f = "\<lambda>mc. guarded (f mc) a" for f a] del: seq.simps)
next
  case T_skillRestart
  have "R mc (fire env t mc)" for mc using okD[OF ok_skillHost] by (simp add: T_skillRestart same)
  then show ?thesis by (simp add: ok_def)
qed (simp_all add: ok_seq ok_rules ok_host_do ok_at[where f = "\<lambda>mc. host_do env (f mc)" for f] del: seq.simps)

lemma ok_timer: "ok (onTimer env i)"
proof -
  have "ok (\<lambda>mc. fire env (mc_timers mc ! i) (mc\<lparr>mc_timers := remove_at i (mc_timers mc)\<rparr>))"
    by (rule ok_then) (simp_all add: ok_fire)
  then show ?thesis by (simp add: ok_def onTimer_def same)
qed

lemma ok_frame: "ok (onVideoFrame env d)"
  unfolding ok_def
proof
  fix mc
  have "R mc (put_screen d (screen_of d mc) mc, [])" using hashed[of mc d "sc_lastBroadcastHash (screen_of d mc)"]
    by (simp add: onFrameHash_def Let_def)
  moreover have "R mc' (mc'\<lparr>mc_posted := x\<rparr>, [])" for mc' x by (simp add: same)
  ultimately show "R mc (onVideoFrame env d mc)"
    using trans[of mc "put_screen d (screen_of d mc) mc" "[]" _ "[]"] by (auto simp: onVideoFrame_def Let_def split: option.split)
qed

lemma ok_posted: "ok (onPosted env i)"
proof -
  have "ok (deliver env p)" for p by (cases p) (simp_all add: ok_frame, simp add: ok_def hashed)
  then have "ok (\<lambda>mc. deliver env (mc_posted mc ! i) (mc\<lparr>mc_posted := remove_at i (mc_posted mc)\<rparr>))"
    by (intro ok_then[where f = "\<lambda>mc. mc\<lparr>mc_posted := remove_at i (mc_posted mc)\<rparr>" and g = "\<lambda>mc. deliver env (mc_posted mc ! i)"]) simp_all
  then show ?thesis by (simp add: ok_def onPosted_def same)
qed

lemma ok_ws: "ok (ws_do env i)"
  by (rule ok_same) (simp add: ws_do_def split_beta)

lemma ok_mcp: "ok (mcp_do env i)"
  by (rule ok_same) (simp add: mcp_do_def split_beta)

lemma ok_trust: "ok (trust_do env i)" "ok (mc_resolveConfirmation c a r)" "ok (activateEmergencyStop r)" "ok deactivateEmergencyStop" "ok (setTrustConfirmMode env m)"
  by (rule ok_same, simp add: trust_do_def mc_resolveConfirmation_def activateEmergencyStop_def deactivateEmergencyStop_def setTrustConfirmMode_def
      broadcast_def seq_Cons split_beta Let_def del: seq.simps(2))+

lemma ok_serverUrl: "ok (mc_setServerUrl env url)"
  by (rule ok_same) (simp add: mc_setServerUrl_def seq_Cons guarded_def split_beta Let_def del: seq.simps(2))

lemma ok_start: "ok (startOrReport env w)"
proof -
  let ?r = "\<lambda>mc. (case w of Host \<Rightarrow> startHostProcess (me_sys env) (mc_process mc) | which.Client \<Rightarrow> startClientProcess (me_sys env) (mc_process mc))"
  let ?g = "\<lambda>mc. seq [for_each (process_signal env) (fst (snd (?r mc))),
      guarded (\<not> snd (snd (?r mc))) (emit [mc_initializationFailed (case w of Host \<Rightarrow> ''Failed to start Host process''
                | which.Client \<Rightarrow> ''Failed to start Client process'')])]"
  have "ok (\<lambda>mc. ?g mc (mc\<lparr>mc_process := fst (?r mc)\<rparr>))"
    by (rule ok_then) (simp_all add: ok_seq ok_rules ok_for_each ok_process_signal del: seq.simps)
  then show ?thesis by (simp add: ok_def startOrReport_def split_beta Let_def del: seq.simps)
qed

lemma ok_initialize: "ok (initialize env)"
proof -
  have "ok (initDevices env)" by (rule ok_same) (simp add: initDevices_def split_beta)
  moreover have "ok (cloud_do env (\<lambda>ce. account_input ce AM_restore))"
    using cloud[of "CD_account AM_restore" _ env] by (simp add: ok_def)
  ultimately show ?thesis
    unfolding initialize_def by (intro ok_seq) (simp add: ok_rules ok_process_do ok_start ok_ws ok_mcp ok_at[where f = "\<lambda>mc. mcp_do env (f mc)" for f])
qed

lemma ok_shutdown: "ok (shutdown env)"
proof -
  have "ok (seq [modify (\<lambda>mc. mc\<lparr>mc_isShutdown := True\<rparr>), cloud_quiet env (\<lambda>ce. stopSync),
      (\<lambda>mc. let (mp, ev) = stopMcpHttpProcess (mc_mcp mc) in (mc\<lparr>mc_mcp := mp\<rparr>, map MC_mcp ev)),
      ws_do env InStop, emit [mc_presetStop], host_do env (HM_disconnect (host_env_of env)), client_disconnectAll env,
      host_do env (HM_setMessaging None), (\<lambda>mc. client_setMessaging env (cm_messaging (mc_client mc) = None) None mc),
      process_do env StopAll])"
    by (rule ok_seq) (simp add: ok_rules ok_quiet quiet_calls ok_ws ok_host_do ok_client_disconnectAll ok_process_do
        ok_at[where f = "\<lambda>mc. client_setMessaging env (f mc) x" for x f] ok_client_setMessaging ok_same split_beta)
  then show ?thesis by (simp add: ok_def shutdown_def same del: seq.simps)
qed

theorem exec: "R mc (mc_exec env i mc)"
proof -
  have connect: "ok (connectToRemoteHost env d code url)" for d code url
  proof -
    have "R mc (start_call env c (mc\<lparr>mc_connectionTracks := t\<rparr>))" for c t mc
      using trans[OF same[of "mc\<lparr>mc_connectionTracks := t\<rparr>" mc "[]"], of "fst (start_call env c (mc\<lparr>mc_connectionTracks := t\<rparr>))"] started
      by (simp add: prod.collapse) (metis append_Nil prod.collapse)
    then show ?thesis by (simp add: ok_def connectToRemoteHost_def verifyAndConnectToRemoteHost_def Let_def)
  qed
  have cl: "ok (if controller_only j then emit [] else cloud_do env (\<lambda>ce. cd_exec ce j))" for j
    using cloud[of j _ env] by (simp add: ok_emit) (simp add: ok_def)
  have dir: "ok (addSkillsDir env d)" "ok (removeSkillsDir env n)" for d n
    by (simp_all add: ok_def addSkillsDir_def removeSkillsDir_def Let_def same okD[OF ok_dirs])
  have "ok (mc_exec env i)"
    by (cases i) (simp_all add: ok_initialize ok_shutdown connect disconnectFromRemoteHost_def ok_client_do ok_refresh ok_refreshTimer ok_interval
        ok_copyInfo ok_rules ok_serverUrl ok_skillEnabled ok_dirs dir ok_trust ok_timer ok_posted ok_process_do ok_host_do ok_skill_do
        ok_client_input cl ok_ws ok_mcp)
  then show ?thesis by (rule okD)
qed

corollary run: "R mc (mc_run is mc)"
proof -
  have "ok (\<lambda>mc. case x of (env, i) \<Rightarrow> mc_exec env i mc)" for x by (simp add: ok_def exec split_beta)
  then show ?thesis unfolding mc_run_def by (intro okD ok_for_each) (simp add: split_beta)
qed

end


section \<open>Attempts to connect\<close>

text \<open>Every pending call waits for exactly one request, apart from the answers in \<open>rest\<close> that are about to be handled.\<close>

definition calls_match :: "nat multiset \<Rightarrow> main_controller \<Rightarrow> bool" where
  "calls_match rest mc \<longleftrightarrow> am_inv (cd_auth (mc_cloud mc)) \<and> distinct (qm_keys (mc_calls mc))
     \<and> (\<forall>n \<in> set (qm_keys (mc_calls mc)). n < mc_nextCall mc)
     \<and> mset (qm_keys (mc_calls mc)) = waiting_calls (mc_cloud mc) + rest"

lemma auth_frame:
  assumes "am'\<lparr>am_config := []\<rparr> = am\<lparr>am_config := []\<rparr>"
  shows "am_inv am' = am_inv am" "outstanding am' = outstanding am"
proof -
  have "am_http am' = am_http am" "am_refreshQueue am' = am_refreshQueue am" "am_refreshInFlight am' = am_refreshInFlight am"
    using arg_cong[OF assms, of am_http] arg_cong[OF assms, of am_refreshQueue] arg_cong[OF assms, of am_refreshInFlight] by simp_all
  then show "am_inv am' = am_inv am" "outstanding am' = outstanding am"
    using am_inv_frame by (blast, simp add: outstanding_def)
qed

lemma calls_match_frame: "call_part mc' = call_part mc \<Longrightarrow> calls_match rest mc \<Longrightarrow> calls_match rest mc'"
  using auth_frame[of "cd_auth (mc_cloud mc')" "cd_auth (mc_cloud mc)"] by (simp add: call_part_def calls_match_def waiting_calls_def)

lemma qm_insert_fresh_keys:
  "k \<notin> set (qm_keys m) \<Longrightarrow> mset (qm_keys (qm_insert k v m)) = add_mset k (mset (qm_keys m)) \<and> (distinct (qm_keys m) \<longrightarrow> distinct (qm_keys (qm_insert k v m)))"
  by (induction k v m rule: qm_insert.induct) auto

lemma qm_remove_keys_mset:
  "distinct (qm_keys m) \<Longrightarrow> k \<in> set (qm_keys m) \<Longrightarrow> add_mset k (mset (qm_keys (qm_remove k m))) = mset (qm_keys m) \<and> distinct (qm_keys (qm_remove k m))"
proof (induction m)
  case (Cons kv m)
  have "k \<notin> set (qm_keys m) \<Longrightarrow> qm_remove k m = m" by (induction m) (auto simp: qm_remove_def)
  then show ?case using Cons by (cases "fst kv = k") (auto simp: qm_remove_def distinct_map_filter)
qed simp

lemma call_refused_or_sent:
  "replied (snd (call_action call n ce st)) = (if list_ex is_answer (snd (call_action call n ce st)) then {#n#} else {#})"
proof -
  have "\<not> list_ex is_answer (snd (account a st))" for a by (simp add: account_def split_beta list_ex_iff)
  then show ?thesis
    by (cases call) (simp_all add: verifyAccessCode_def refreshDeviceAccessCodeNow_def cloud_request_def replied_account_call)
qed

lemma call_balances: "am_inv (cd_auth st) \<Longrightarrow> balances {#n#} st (call_action call n ce st)"
  using balances_exec[of st "CD_verify d c n" ce for d c] balances_exec[of st "CD_refreshCode d n" ce for d] by (cases call) simp_all

lemma calls_match_started:
  assumes "calls_match rest mc"
  shows "calls_match rest (fst (start_call env call mc))"
proof -
  define n where "n = mc_nextCall mc"
  define r where "r = call_action call n (cloud_env_of env mc) (mc_cloud mc)"
  define mc1 where "mc1 = mc\<lparr>mc_nextCall := n + 1, mc_cloud := fst r\<rparr>"
  have b: "am_inv (cd_auth (fst r))" "waiting_calls (fst r) + replied (snd r) = waiting_calls (mc_cloud mc) + {#n#}"
    using call_balances[of "mc_cloud mc" n call] assms by (simp_all add: r_def balances_def calls_match_def)
  have n: "n \<notin> set (qm_keys (mc_calls mc))" using assms by (auto simp: calls_match_def n_def)
  show ?thesis
  proof (cases "list_ex is_answer (snd r)")
    case True
    then have "waiting_calls (fst r) = waiting_calls (mc_cloud mc)" using b call_refused_or_sent[of call n] by (simp add: r_def)
    then have m: "calls_match rest mc1" using assms b(1) by (auto simp: calls_match_def mc1_def n_def less_Suc_eq)
    have "call_part (fst (refusal call e t)) = call_part t" for e t
      by (cases "(call, e)" rule: refusal.cases) (simp_all add: reportVerifyAccessCodeFailure_def)
    then have "call_part (fst (for_each (refusal call) evs t)) = call_part t" for evs t
      unfolding for_each_def by (intro seq_frame) auto
    then have "calls_match rest (fst (for_each (refusal call) (snd r) mc1))" using calls_match_frame m by blast
    then show ?thesis using True unfolding mc1_def by (simp add: start_call_def Let_def n_def[symmetric] r_def[symmetric] split_beta)
  next
    case False
    then have "waiting_calls (fst r) = waiting_calls (mc_cloud mc) + {#n#}" using b call_refused_or_sent[of call n] by (simp add: r_def)
    then have "calls_match rest (mc1\<lparr>mc_calls := qm_insert n call (mc_calls mc)\<rparr>)"
      using assms b(1) qm_insert_fresh_keys[OF n, of call] by (auto simp: calls_match_def mc1_def n_def less_Suc_eq)
    then show ?thesis using False unfolding mc1_def by (simp add: start_call_def Let_def n_def[symmetric] r_def[symmetric] split_beta)
  qed
qed

interpretation calls: controller_slots "\<lambda>mc r. calls_match rest mc \<longrightarrow> calls_match rest (fst r)" for rest
proof
  show "calls_match rest mc \<longrightarrow> calls_match rest (fst (mc', evs))" if "call_part mc' = call_part mc" for mc' mc and evs :: "mc_event list"
    using calls_match_frame[OF that] by simp
  show "calls_match rest mc \<longrightarrow> calls_match rest (fst (cloud_quiet env a mc))" if "quiet_call a" for a mc env
  proof
    assume m: "calls_match rest mc"
    let ?r = "a (cloud_env_of env mc) (mc_cloud mc)"
    from that m have "balances {#} (mc_cloud mc) ?r" "replied (snd ?r) = {#}" by (simp_all add: quiet_call_def calls_match_def)
    then have "am_inv (cd_auth (fst ?r))" "waiting_calls (fst ?r) = waiting_calls (mc_cloud mc)"
      using m by (simp_all add: balances_def calls_match_def)
    then show "calls_match rest (fst (cloud_quiet env a mc))" using m by (simp add: calls_match_def cloud_quiet_def split_beta)
  qed
  show "calls_match rest mc \<longrightarrow> calls_match rest (fst (start_call env call mc))" for mc env call
    using calls_match_started by blast
qed (simp_all add: calls_match_def)

lemma code_reply_number: "code_reply e = (case answer_number e of None \<Rightarrow> {#} | Some n \<Rightarrow> {#n#})"
  by (cases e) simp_all

text \<open>Handling an answer takes its call out of the table, and the continuation keeps the balance.\<close>

lemma calls_match_signal:
  assumes "calls_match (code_reply e + rest) mc"
  shows "calls_match rest (fst (cloud_signal env e mc))"
proof (cases "answer_number e")
  case None
  then show ?thesis using assms calls.okD[OF calls.ok_plain_signal[OF None], of rest mc env] by (simp add: code_reply_number)
next
  case (Some n)
  then have keys: "mset (qm_keys (mc_calls mc)) = add_mset n (waiting_calls (mc_cloud mc) + rest)"
    using assms by (simp add: calls_match_def code_reply_number)
  then have n: "n \<in> set (qm_keys (mc_calls mc))" by (metis set_mset_mset union_single_eq_member)
  then obtain call where call: "map_of (mc_calls mc) n = Some call"
    by (cases "map_of (mc_calls mc) n") (auto simp: map_of_eq_None_iff)
  have "distinct (qm_keys (mc_calls mc))" using assms by (simp add: calls_match_def)
  note removed = qm_remove_keys_mset[OF this n]
  then have "mset (qm_keys (qm_remove n (mc_calls mc))) = waiting_calls (mc_cloud mc) + rest" using keys by simp
  moreover have "set (qm_keys (qm_remove n (mc_calls mc))) \<subseteq> set (qm_keys (mc_calls mc))" by (auto simp: qm_remove_def)
  ultimately have "calls_match rest (take_call n mc)" using assms removed by (auto simp: calls_match_def take_call_def)
  then have "calls_match rest (fst (on_answer env call e (take_call n mc)))" using calls.okD[OF calls.ok_answer] by blast
  moreover have "fst (cloud_signal env e mc) = fst (answered_call env e mc)"
    using Some by (cases e) (simp_all add: emit_def split_beta)
  ultimately show ?thesis by (simp add: answered_call_def Some call)
qed

lemma calls_match_signals: "calls_match (replied evs + rest) mc \<Longrightarrow> calls_match rest (fst (for_each (cloud_signal env) evs mc))"
proof (induction evs arbitrary: mc)
  case (Cons e evs)
  then have "calls_match (replied evs + rest) (fst (cloud_signal env e mc))"
    by (intro calls_match_signal) (simp add: add.assoc)
  from Cons.IH[OF this] show ?case by (simp add: for_each_Cons split_beta)
qed simp

lemma calls_match_cloud:
  assumes "\<not> controller_only i" "calls_match rest mc"
  shows "calls_match rest (fst (cloud_do env (\<lambda>ce. cd_exec ce i) mc))"
proof -
  let ?r = "cd_exec (cloud_env_of env mc) i (mc_cloud mc)"
  have "asked i = {#}" using assms(1) by (cases i rule: controller_only.cases) simp_all
  then have b: "balances {#} (mc_cloud mc) ?r" using balances_exec[of "mc_cloud mc" i "cloud_env_of env mc"] assms(2) by (simp add: calls_match_def)
  then have "waiting_calls (mc_cloud mc) + rest = waiting_calls (fst ?r) + (replied (snd ?r) + rest)"
    by (simp add: balances_def add.assoc[symmetric])
  then have "calls_match (replied (snd ?r) + rest) (mc\<lparr>mc_cloud := fst ?r\<rparr>)" using assms(2) b by (simp add: calls_match_def balances_def)
  from calls_match_signals[OF this] show ?thesis by (simp add: cloud_do_def split_beta)
qed

interpretation calls: controller_program "\<lambda>mc r. calls_match rest mc \<longrightarrow> calls_match rest (fst r)" for rest
  by unfold_locales (simp_all add: calls_match_cloud, simp add: calls_match_def onFrameHash_def put_screen_def broadcast_def Let_def)

abbreviation mc_reachable :: "main_controller \<Rightarrow> bool" where
  "mc_reachable \<equiv> reachable (\<lambda>mc. \<exists>c db ws ie. mc = MainController_init c db ws ie) mc_step"

interpretation attempts: invariant_system "\<lambda>mc. \<exists>c db ws ie. mc = MainController_init c db ws ie" mc_step "calls_match {#}"
proof
  fix mc assume "\<exists>c db ws ie. mc = MainController_init c db ws ie"
  then show "calls_match {#} mc"
    by (auto simp: MainController_init_def CloudDeviceManager_init_def AuthManager_init_def am_inv_def refreshes_def waiting_calls_def
        outstanding_def calls_match_def split_beta)
next
  fix mc mc' assume "calls_match {#} mc" "mc_step mc mc'"
  then show "calls_match {#} mc'" using calls.exec by (auto simp: mc_step_def)
qed

text \<open>
  C2. No attempt to connect is lost. In every state of the program, the attempts that wait for the check of an access code, or for the
  current code of the device, are exactly those for which a request is with the server or waits for the session to be refreshed: every
  answer finds its attempt, and no attempt is left without a request. When no reply is outstanding, no attempt is pending.
\<close>

theorem no_attempt_lost:
  assumes "mc_reachable mc"
  shows "distinct (qm_keys (mc_calls mc)) \<and> mset (qm_keys (mc_calls mc)) = waiting_calls (mc_cloud mc)
    \<and> (in_flight (am_http (cd_auth (mc_cloud mc))) = [] \<longrightarrow> mc_calls mc = [])"
proof -
  from attempts.reachable_inv[OF assms] have m: "calls_match {#} mc" .
  then have "waiting_calls (mc_cloud mc) = {#}" if "in_flight (am_http (cd_auth (mc_cloud mc))) = []"
    using that by (simp add: calls_match_def waiting_calls_def outstanding_def am_inv_def refreshes_def)
  then show ?thesis using m by (auto simp: calls_match_def)
qed


section \<open>Screen events\<close>

definition lastMs :: "qstring \<Rightarrow> main_controller \<Rightarrow> int" where
  "lastMs d mc = sc_lastBroadcastMs (screen_of d mc)"

definition screen_message :: "qstring \<Rightarrow> qstring \<Rightarrow> int \<Rightarrow> jobject" where
  "screen_message d h t = mkobj [(''event'', JStr ''screenChanged''),
     (''data'', JObj (mkobj [(''deviceId'', JStr d), (''frameHash'', JStr h), (''timestamp'', JInt t)]))]"

definition announces :: "qstring \<Rightarrow> int \<Rightarrow> mc_event list \<Rightarrow> bool" where
  "announces d t evs \<longleftrightarrow> (\<exists>c h. MC_ws (WsSend c (screen_message d h t)) \<in> set evs)"

lemma screen_message_inj: "screen_message d h t = screen_message d' h' t' \<longleftrightarrow> d = d' \<and> h = h' \<and> t = t'"
  by (auto simp: screen_message_def mkobj_def)

lemma lastMs_frame: "mc_screenChange mc' = mc_screenChange mc \<Longrightarrow> lastMs d mc' = lastMs d mc"
  by (simp add: lastMs_def screen_of_def)

lemma lastMs_put: "lastMs d (put_screen d' sc mc) = (if d' = d then sc_lastBroadcastMs sc else lastMs d mc)"
  by (simp add: lastMs_def screen_of_def put_screen_def qm_value_insert)

lemma screens_started: "mc_screenChange (fst (start_call env call mc)) = mc_screenChange mc"
proof -
  have "mc_screenChange (fst (refusal call e t)) = mc_screenChange t" for e t
    by (cases "(call, e)" rule: refusal.cases) (simp_all add: reportVerifyAccessCodeFailure_def)
  then have "mc_screenChange (fst (for_each (refusal call) evs t)) = mc_screenChange t" for evs t
    unfolding for_each_def by (intro seq_frame) auto
  then show ?thesis by (simp add: start_call_def Let_def split_beta)
qed

interpretation screens: controller_slots
  "\<lambda>mc r. MC_client (cm_connectionRemoved d) \<in> set (snd r) \<or> lastMs d mc \<le> lastMs d (fst r)" for d
proof
  show "MC_client (cm_connectionRemoved d) \<in> set (snd (mc\<lparr>mc_screenChange := qm_remove d' (mc_screenChange mc)\<rparr>, MC_client (cm_connectionRemoved d') # evs))
      \<or> lastMs d mc \<le> lastMs d (fst (mc\<lparr>mc_screenChange := qm_remove d' (mc_screenChange mc)\<rparr>, MC_client (cm_connectionRemoved d') # evs))"
    for mc d' evs
    by (simp add: lastMs_def screen_of_def qm_value_def)
next
  show "MC_client (cm_connectionRemoved d) \<in> set (snd (mc', evs)) \<or> lastMs d mc \<le> lastMs d (fst (mc', evs))"
    if "call_part mc' = call_part mc" for mc' mc evs using that lastMs_frame[of mc' mc d] by (simp add: call_part_def)
  show "MC_client (cm_connectionRemoved d) \<in> set (snd (cloud_quiet env a mc)) \<or> lastMs d mc \<le> lastMs d (fst (cloud_quiet env a mc))" for env a mc
    using lastMs_frame[of "fst (cloud_quiet env a mc)" mc d] by (simp add: cloud_quiet_def split_beta)
  show "MC_client (cm_connectionRemoved d) \<in> set (snd (start_call env call mc)) \<or> lastMs d mc \<le> lastMs d (fst (start_call env call mc))" for env call mc
    using lastMs_frame[OF screens_started, of d env call mc] by simp
qed auto

interpretation screens: controller_program
  "\<lambda>mc r. MC_client (cm_connectionRemoved d) \<in> set (snd r) \<or> lastMs d mc \<le> lastMs d (fst r)" for d
proof
  fix env i mc
  have "screens.ok d (cloud_do env (\<lambda>ce. cd_exec ce i))"
    by (rule screens.ok_cloud_do; unfold screens.ok_def) (simp_all add: modify_def take_call_def lastMs_def screen_of_def)
  then show "MC_client (cm_connectionRemoved d) \<in> set (snd (cloud_do env (\<lambda>ce. cd_exec ce i) mc)) \<or>
      lastMs d mc \<le> lastMs d (fst (cloud_do env (\<lambda>ce. cd_exec ce i) mc))" by (rule screens.okD)
next
  fix d' h now mc
  have "lastMs d mc \<le> lastMs d (fst (onFrameHash d' h now mc))"
    by (auto simp: onFrameHash_def Let_def lastMs_put broadcast_def) (auto simp: lastMs_def)
  then show "MC_client (cm_connectionRemoved d) \<in> set (snd (onFrameHash d' h now mc)) \<or> lastMs d mc \<le> lastMs d (fst (onFrameHash d' h now mc))" by simp
qed

lemma announced:
  assumes "announces d t (snd (onPosted env i mc))"
  shows "lastMs d mc + 200 \<le> t \<and> lastMs d (fst (onPosted env i mc)) = t"
proof -
  let ?mc = "mc\<lparr>mc_posted := remove_at i (mc_posted mc)\<rparr>"
  have p: "announces d t (snd (deliver env (mc_posted mc ! i) ?mc))" "onPosted env i mc = deliver env (mc_posted mc ! i) ?mc"
    using assms by (auto simp: onPosted_def announces_def split: if_splits)
  obtain d' h now where h: "mc_posted mc ! i = P_hash d' h now"
    using p(1) by (cases "mc_posted mc ! i") (auto simp: announces_def onVideoFrame_def Let_def split: option.splits if_splits)
  have "lastMs d ?mc = lastMs d mc" by (rule lastMs_frame) simp
  moreover have "d' = d \<and> now = t \<and> \<not> now - lastMs d' ?mc < 200 \<and> lastMs d' (fst (onFrameHash d' h now ?mc)) = now"
    using p(1) unfolding h by (auto simp: announces_def onFrameHash_def Let_def broadcast_def broadcastEvent_def lastMs_put
        screen_message_def[symmetric] screen_message_inj lastMs_def[symmetric] split: if_splits)
  ultimately show ?thesis unfolding p(2) h by auto
qed

text \<open>
  C31. Screen events are throttled. Between two announcements that the screen of a device has changed, whatever else the program does meanwhile, at least 200
  milliseconds pass by their time stamps, unless the connection to the device was removed in between.
\<close>

theorem screen_events_throttled:
  assumes "announces d t1 (snd (mc_exec env1 (MI_posted i) mc))"
    "MC_client (cm_connectionRemoved d) \<notin> set (snd (mc_run is (fst (mc_exec env1 (MI_posted i) mc))))"
    "announces d t2 (snd (mc_exec env2 (MI_posted j) (fst (mc_run is (fst (mc_exec env1 (MI_posted i) mc))))))"
  shows "t1 + 200 \<le> t2"
  using announced[of d t1 env1 i mc] announced[OF assms(3)[simplified]] assms(1,2)
    screens.run[of d "is" "fst (mc_exec env1 (MI_posted i) mc)"] by auto


section \<open>The time of the next access code\<close>

lemma cfg_get_setString: "cfg_get k (fst (lcc_setString ok k' v c)) = (if ok \<and> k = k' then v else cfg_get k c)"
  by (auto simp: lcc_setString_def lcc_getString_def cfg_get_set Let_def)

lemma config_of_put [simp]: "config_of (put_config c mc) = c"
  by (simp add: config_of_def put_config_def)

lemma put_config_fields [simp]:
  "mc_nextRefreshTime (put_config c mc) = mc_nextRefreshTime mc" "mc_refreshTimer (put_config c mc) = mc_refreshTimer mc"
  "mc_refreshInterval (put_config c mc) = mc_refreshInterval mc"
  by (simp_all add: put_config_def)

lemma cfg_get_restart: "k \<noteq> ''signalingServerUrl'' \<Longrightarrow> cfg_get k (config_of (MainController_init c db ws ie)) = cfg_get k c"
  by (simp add: MainController_init_def sv_loadSettings_def sv_saveSettings_def config_of_def CloudDeviceManager_init_def AuthManager_init_def
      split_beta Let_def cfg_get_setString)

lemma cfg_get_setting: "cfg_get k (config_of (put_setting env k' v mc)) = (if me_ok env k' \<and> k = k' then v else cfg_get k (config_of mc))"
  by (simp add: put_setting_def cfg_get_setString)

lemma config_of_frame [simp]:
  "config_of (mc\<lparr>mc_deviceId := a, mc_accessCode := b\<rparr>) = config_of mc" "config_of (mc\<lparr>mc_refreshInterval := i\<rparr>) = config_of mc"
  "config_of (mc\<lparr>mc_refreshTimer := t, mc_nextRefreshTime := n\<rparr>) = config_of mc"
  "config_of (mc\<lparr>mc_refreshTimer := t, mc_nextRefreshTime := n, mc_refreshInterval := i\<rparr>) = config_of mc"
  by (simp_all add: config_of_def)

text \<open>When the host becomes ready with a refresh time on record that is still to come, the timer is set for what remains.\<close>

lemma ready_resumes:
  assumes "lcc_getInt ''accessCodeRefreshInterval'' 120 (config_of mc) > 0"
    "me_date env (lcc_getString ''accessCodeNextRefreshTime'' [] (config_of mc)) = Some due" "me_now env + 1000 \<le> due"
  defines "secs \<equiv> (due - me_now env) div 1000"
  shows "mc_nextRefreshTime (fst (onHostReady env d c mc)) = Some (me_now env + secs * 1000)
    \<and> mc_refreshTimer (fst (onHostReady env d c mc)) = Some (secs * 1000)"
proof -
  define m where "m = fst (guarded (d \<noteq> []) (modify (put_setting env ''lastDeviceId'' d)) (mc\<lparr>mc_deviceId := d, mc_accessCode := c\<rparr>)
    :: main_controller \<times> mc_event list)"
  have get: "cfg_get k (config_of m) = cfg_get k (config_of mc)" if "k \<noteq> ''lastDeviceId''" for k
    using that by (simp add: m_def guarded_def modify_def cfg_get_setting)
  define m' where "m' = m\<lparr>mc_refreshInterval := lcc_getInt ''accessCodeRefreshInterval'' 120 (config_of m)\<rparr>"
  have i: "mc_refreshInterval m' > 0" using assms(1) by (simp add: m'_def lcc_getInt_def get)
  have "saved_refresh_time env m' = Some due"
    using assms(2,3) by (simp add: saved_refresh_time_def lcc_getString_def m'_def get)
  moreover have "fst (onHostReady env d c mc) = add_timer (T_hostReady d c)
     (fst (if mc_refreshInterval m' = - 1 then (put_setting env ''savedAccessCode'' c m', [])
             else if mc_refreshInterval m' > 0
             then (case saved_refresh_time env m' of
                     Some due \<Rightarrow> updateAccessCodeRefreshTimer env (secs_between (me_now env) due) m'
                   | None \<Rightarrow> updateAccessCodeRefreshTimer env (- 1) m')
             else (m', [])))"
    unfolding onHostReady_def seq_Cons m'_def m_def by (simp only: modify_def seq.simps(1) fst_conv)
  ultimately have r: "fst (onHostReady env d c mc) = add_timer (T_hostReady d c) (fst (updateAccessCodeRefreshTimer env (secs_between (me_now env) due) m'))"
    using i by simp
  have "secs > 0" "secs_between (me_now env) due = secs" using assms(3) by (simp_all add: secs_def secs_between_def)
  then show ?thesis
    unfolding r using i by (simp add: updateAccessCodeRefreshTimer_def add_timer_def put_setting_def Let_def)
qed

text \<open>
  The time of the next access-code refresh survives a restart. The time that setting the timer stores is read back by a new controller on the
  same configuration; if it is at least two seconds away when the host becomes ready, the new timer runs out at most
  two seconds before it and never after it, however long the program was down. The dates are those of \<open>QDateTime\<close> in ISO format, which drop milliseconds.
\<close>

theorem refresh_time_resumes:
  assumes "me_ok env ''accessCodeNextRefreshTime''" "mc_refreshInterval mc > 0"
    and iso: "\<And>t. me_date env' (me_isoDate env t) = Some (t - t mod 1000)" "\<And>t. me_isoDate env t \<noteq> []"
    and set: "mc1 = fst (updateAccessCodeRefreshTimer env remainingSeconds mc)" "mc_nextRefreshTime mc1 = Some due"
    and ready: "mc2 = fst (onHostReady env' d c (MainController_init (config_of mc1) db ws ie))"
    and "lcc_getInt ''accessCodeRefreshInterval'' 120 (config_of mc1) > 0" "me_now env' + 2000 \<le> due"
  shows "\<exists>due'. mc_nextRefreshTime mc2 = Some due' \<and> due - 2000 < due' \<and> due' \<le> due \<and> mc_refreshTimer mc2 = Some (due' - me_now env')"
proof -
  let ?new = "MainController_init (config_of mc1) db ws ie"
  let ?due = "due - due mod 1000" and ?secs = "(due - due mod 1000 - me_now env') div 1000"
  have m: "0 \<le> due mod 1000" "due mod 1000 < 1000" by simp_all
  have "cfg_get ''accessCodeNextRefreshTime'' (config_of mc1) = me_isoDate env due"
    using assms(1,2) set by (auto simp: updateAccessCodeRefreshTimer_def Let_def cfg_get_setting put_setting_def cfg_get_setString)
  then have "me_date env' (lcc_getString ''accessCodeNextRefreshTime'' [] (config_of ?new)) = Some ?due"
    by (simp add: lcc_getString_def cfg_get_restart iso)
  moreover have "lcc_getInt ''accessCodeRefreshInterval'' 120 (config_of ?new) > 0" using assms(8) by (simp add: lcc_getInt_def cfg_get_restart)
  moreover have "me_now env' + 1000 \<le> ?due" using assms(9) m by linarith
  ultimately have r: "mc_nextRefreshTime mc2 = Some (me_now env' + ?secs * 1000)" "mc_refreshTimer mc2 = Some (?secs * 1000)"
    using ready_resumes[of ?new env' ?due d c] by (simp_all add: ready)
  have "?secs * 1000 + (?due - me_now env') mod 1000 = ?due - me_now env'" by (rule div_mult_mod_eq)
  moreover have "0 \<le> (?due - me_now env') mod 1000" "(?due - me_now env') mod 1000 < 1000" by simp_all
  ultimately have "due - 2000 < me_now env' + ?secs * 1000" "me_now env' + ?secs * 1000 \<le> due" using m by linarith+
  then show ?thesis using r by simp
qed


section \<open>Runs\<close>

text \<open>Dates written to the second, as the sign and that many strokes.\<close>

definition demo_isoDate :: "int \<Rightarrow> qstring" where
  "demo_isoDate t = (let s = t - t mod 1000 in (if s \<ge> 0 then CHR ''+'' else CHR ''-'') # replicate (nat \<bar>s\<bar>) CHR ''1'')"

definition demo_date :: "qstring \<Rightarrow> int option" where
  "demo_date s = (case s of [] \<Rightarrow> None | c # r \<Rightarrow> Some (if c = CHR ''+'' then int (length r) else - int (length r)))"

lemma demo_dates: "demo_date (demo_isoDate t) = Some (t - t mod 1000)" "demo_isoDate t \<noteq> []"
  by (simp_all add: demo_date_def demo_isoDate_def Let_def)

definition demo_main_env :: "int \<Rightarrow> main_env" where
  "demo_main_env now = \<lparr>me_cloud = demo_cloud_env, me_skill = demo_skill_env, me_client = demo_env,
     me_sys = \<lparr>sy_executable = (\<lambda>_. True), sy_absolutePath = id, sy_absoluteFilePath = id, sy_serviceRunning = False, sy_sessionId = 0, sy_appDir = ''/app''\<rparr>,
     me_rdm = demo_rdm_env now,
     me_mcp = \<lparr>mpe_appDir = ''/app'', mpe_nativePath = id, mpe_exists = (\<lambda>_. False), mpe_addresses = [], mpe_appData = ''/a'', mpe_homePath = ''/h'',
       mpe_toJson = (\<lambda>_. []), mpe_fromJson = (\<lambda>_. OtherDoc), mpe_canRead = True, mpe_canWrite = True, mpe_ok = True\<rparr>,
     me_ws = \<lparr>we_fromJson = (\<lambda>_. None), we_toJson = (\<lambda>_. []), we_handleRequest = id, we_peerAddress = (\<lambda>_. []), we_auditOpened = False\<rparr>,
     me_channel = (\<lambda>_. demo_channel), me_now = now, me_date = demo_date, me_isoDate = demo_isoDate, me_shortDate = (\<lambda>_. []), me_ok = (\<lambda>_. True),
     me_logPath = ''/l'', me_dataPath = ''/d'', me_fileExists = (\<lambda>_. False), me_arrayFromJson = (\<lambda>_. []), me_arrayToJson = (\<lambda>_. []),
     me_frameHash = (\<lambda>_. Some ''h''), me_wsListens = True, me_wsPort = 9800\<rparr>"

definition demo_main :: main_controller where
  "demo_main = MainController_init [] UserData_empty (WebSocketApiServer_init (me_ws (demo_main_env 0)))
     \<lparr>ie_ok = True, ie_toJson = (\<lambda>_. []), ie_fromJson = (\<lambda>_. None), ie_urlValid = (\<lambda>_. True)\<rparr>"

lemma mc_run_reachable: "mc_reachable mc \<Longrightarrow> mc_reachable (fst (mc_run is mc))"
proof (induction "is" arbitrary: mc)
  case (Cons x xs)
  obtain env i where "x = (env, i)" by (cases x)
  moreover have "mc_step mc (fst (mc_exec env i mc))" by (auto simp: mc_step_def)
  ultimately show ?case using Cons reach_step by (fastforce simp: mc_run_def for_each_Cons)
qed (simp add: mc_run_def)

lemma demo_main_reachable: "mc_reachable demo_main"
  unfolding demo_main_def by (rule reach_init) blast

theorem no_attempt_lost_witness:
  "waiting_calls (mc_cloud (fst (mc_run [(demo_main_env 0, MI_connect ''d'' ''c'' [])] demo_main))) = {#0#}"
proof -
  let ?mc = "fst (mc_run [(demo_main_env 0, MI_connect ''d'' ''c'' [])] demo_main)"
  have "mc_calls demo_main = []" "mc_nextCall demo_main = 0" by (simp_all add: demo_main_def MainController_init_def split_beta)
  then have "qm_keys (mc_calls ?mc) = [0]"
    by (simp add: mc_run_def for_each_def connectToRemoteHost_def verifyAndConnectToRemoteHost_def start_call_def verifyAccessCode_def account_def send_http_def
        split_beta Let_def)
  then show ?thesis using no_attempt_lost[OF mc_run_reachable[OF demo_main_reachable], of "[(demo_main_env 0, MI_connect ''d'' ''c'' [])]"] by simp
qed

theorem screen_events_throttled_witness:
  "\<exists>mc mc'. announces ''d'' 1000 (snd (mc_exec (demo_main_env 0) (MI_posted 0) mc)) \<and> mc' = fst (mc_exec (demo_main_env 0) (MI_posted 0) mc)
     \<and> announces ''d'' 1300 (snd (mc_exec (demo_main_env 0) (MI_posted 0) mc')) \<and> 1000 + 200 \<le> (1300 :: int)"
proof -
  let ?mc = "demo_main\<lparr>mc_ws := (mc_ws demo_main)\<lparr>w_clients := [7], w_authToken := []\<rparr>,
     mc_posted := [P_hash ''d'' ''h1'' 1000, P_hash ''d'' ''h2'' 1300], mc_screenChange := []\<rparr>"
  let ?mc' = "fst (mc_exec (demo_main_env 0) (MI_posted 0) ?mc)"
  have sent: "announces d t (map MC_ws (broadcastEvent ''screenChanged''
      (mkobj [(''deviceId'', JStr d), (''frameHash'', JStr h), (''timestamp'', JInt t)]) ws))" if "w_clients ws = [7]" "w_authToken ws = []" for d t h ws
    using that by (auto simp: announces_def broadcastEvent_def screen_message_def)
  note unfold = onPosted_def onFrameHash_def screen_of_def no_screen_def put_screen_def broadcast_def qm_value_def remove_at_def Let_def
    sent[of _ "''d''" 1000, simplified] sent[of _ "''d''" 1300, simplified]
  have a: "announces ''d'' 1000 (snd (mc_exec (demo_main_env 0) (MI_posted 0) ?mc))" by (simp add: unfold)
  have b: "announces ''d'' 1300 (snd (mc_exec (demo_main_env 0) (MI_posted 0) ?mc'))" by (simp add: unfold)
  have "(1000 :: int) + 200 \<le> 1300"
    by (rule screen_events_throttled[OF a, of "[]" _ "demo_main_env 0" 0]) (use b in \<open>simp_all add: mc_run_def del: mc_exec.simps\<close>)
  then show ?thesis using a b by blast
qed

theorem refresh_time_resumes_witness:
  "\<exists>mc1 due'. mc_nextRefreshTime mc1 = Some 120000 \<and> 120000 - 2000 < due' \<and> due' \<le> 120000
     \<and> mc_nextRefreshTime (fst (onHostReady (demo_main_env 70000) ''d'' ''c'' (MainController_init (config_of mc1) UserData_empty (mc_ws demo_main)
          \<lparr>ie_ok = True, ie_toJson = (\<lambda>_. []), ie_fromJson = (\<lambda>_. None), ie_urlValid = (\<lambda>_. True)\<rparr>))) = Some due'"
proof -
  let ?mc1 = "fst (updateAccessCodeRefreshTimer (demo_main_env 0) (- 1) (demo_main\<lparr>mc_refreshInterval := 2\<rparr>))"
  have due: "mc_nextRefreshTime ?mc1 = Some 120000"
    by (simp add: updateAccessCodeRefreshTimer_def put_setting_def put_config_def demo_main_env_def)
  have "cfg_get ''accessCodeRefreshInterval'' (config_of ?mc1) = cfg_get ''accessCodeRefreshInterval'' (config_of demo_main)"
    by (simp add: updateAccessCodeRefreshTimer_def put_setting_def cfg_get_setString Let_def)
  also have "\<dots> = []" by (simp add: demo_main_def cfg_get_restart) (simp add: cfg_get_def qm_value_def)
  finally have i: "lcc_getInt ''accessCodeRefreshInterval'' 120 (config_of ?mc1) > 0" by (simp add: lcc_getInt_def)
  have env: "me_ok (demo_main_env t) k" "me_date (demo_main_env t) = demo_date" "me_isoDate (demo_main_env t) = demo_isoDate" "me_now (demo_main_env t) = t" for t k
    by (simp_all add: demo_main_env_def)
  obtain due' where "mc_nextRefreshTime (fst (onHostReady (demo_main_env 70000) ''d'' ''c'' (MainController_init (config_of ?mc1) UserData_empty (mc_ws demo_main)
          \<lparr>ie_ok = True, ie_toJson = (\<lambda>_. []), ie_fromJson = (\<lambda>_. None), ie_urlValid = (\<lambda>_. True)\<rparr>))) = Some due'" "120000 - 2000 < due'" "due' \<le> 120000"
    using refresh_time_resumes[OF env(1) _ _ _ refl due refl i, where env' = "demo_main_env 70000" and d = "''d''" and c = "''c''" and db = UserData_empty
        and ws = "mc_ws demo_main" and ie = "\<lparr>ie_ok = True, ie_toJson = (\<lambda>_. []), ie_fromJson = (\<lambda>_. None), ie_urlValid = (\<lambda>_. True)\<rparr>"]
    by (auto simp: env demo_dates)
  then show ?thesis using due by blast
qed


section \<open>Where the controller loses track\<close>

definition plain_event :: "cm_event \<Rightarrow> bool" where
  "plain_event e \<longleftrightarrow> (\<forall>d s r n er. e \<noteq> cm_signalingStateChanged d s r n er) \<and> (\<forall>d. e \<noteq> cm_connectionRemoved d)"

definition status_part :: "main_controller \<Rightarrow> client_manager \<times> server_status \<times> qstring" where
  "status_part mc = (mc_client mc, mc_clientServerStatus mc, mc_primaryDeviceId mc)"

lemma plain_signals: "list_all plain_event evs \<Longrightarrow> status_part (fst (for_each (client_signal env) evs mc)) = status_part mc"
proof (induction evs arbitrary: mc)
  case (Cons e evs)
  then have "plain_event e" by simp
  then have "status_part (fst (client_signal env e mc)) = status_part mc"
    by (cases e) (simp_all add: plain_event_def status_part_def emit_def modify_def broadcast_def)
  then show ?case using Cons by (simp add: for_each_Cons)
qed simp

lemma plain_do:
  "list_all plain_event (snd (a (mc_client mc))) \<Longrightarrow> status_part (fst (client_do env a mc)) = (fst (a (mc_client mc)), mc_clientServerStatus mc, mc_primaryDeviceId mc)"
  using plain_signals[of "snd (a (mc_client mc))" env "mc\<lparr>mc_client := fst (a (mc_client mc))\<rparr>"]
  by (simp add: client_do_def split_beta) (simp add: status_part_def)

lemma plain_transfers: "list_all plain_event (snd (endTransfers f cm))"
proof -
  have "list_all plain_event (plain_signal e)" for e by (cases e) (auto simp: plain_event_def)
  then show ?thesis by (simp add: endTransfers_def split_beta list_all_iff)
qed

text \<open>
  The client process ends while its only device is connected. The removal of the device is announced while it is still in the table, so it is
  made the primary device again: the status that was set to disconnected becomes connected, and a device that is gone stays the primary one.
\<close>

lemma stopped_client_still_connected:
  assumes "connectedDeviceIds (mc_client mc) = [d]" "mc_primaryDeviceId mc = d" "getSignalingState d (mc_client mc) = ''connected''"
    "mc' = fst (mc_onClientProcessStopped env mc)"
  shows "mc_clientServerStatus mc' = SrvConnected \<and> mc_primaryDeviceId mc' = d \<and> connectedDeviceIds (mc_client mc') = []"
proof -
  define at_table where "at_table C st t \<longleftrightarrow> cm_connections (mc_client t) = C \<and> mc_clientServerStatus t = st \<and> mc_primaryDeviceId t = d" for C st and t :: main_controller
  let ?C = "cm_connections (mc_client mc)"
  have plain: "at_table (cm_connections (fst (a (mc_client t)))) st (fst (client_do env a t))"
    if "at_table C st t" "list_all plain_event (snd (a (mc_client t)))" for a C st t
    using that(1) plain_do[of a t, OF that(2)] by (simp add: at_table_def status_part_def)
  have end_kept: "cm_connections (fst (endTransfers f cm)) = cm_connections cm" for f cm by (simp add: endTransfers_def split_beta)
  have start: "at_table ?C st (fst (client_do env (guarded b (endTransfers endAllSessions)) t))" if "at_table ?C st t" for st t b
    using plain[OF that, of "guarded b (endTransfers endAllSessions)"] that plain_transfers end_kept
    by (cases b) (simp_all add: guarded_def at_table_def)
  have forget: "at_table ?C SrvConnected (fst (client_do env (forgetDevice d) t))" if t: "at_table ?C st t" for st t
  proof -
    let ?pre = "seq [connectionState d ''disconnected'' [], detachMemory d]"
    have pre: "list_all plain_event (snd (?pre cm))" "cm_connections (fst (?pre cm)) = cm_connections cm" for cm
      using plain_transfers end_kept
      by (simp_all add: connectionState_def detachMemory_def emit_def shm_detach_def plain_event_def split_beta Let_def list_all_iff)
    let ?t = "fst (client_do env ?pre t)"
    have "at_table ?C st ?t" using plain[OF t, of ?pre] pre t by (simp add: at_table_def)
    then have "at_table ?C SrvConnected (fst (client_signal env (cm_connectionRemoved d) ?t))"
      using assms(1,3) by (simp add: at_table_def onConnectionRemoved_def connectedDeviceIds_def getSignalingState_def conn_field_def status_of_def emit_def modify_def
          broadcast_def split_beta)
    moreover have "fst (client_do env (forgetDevice d) t) = fst (client_signal env (cm_connectionRemoved d) ?t)"
      by (simp add: forgetDevice_def client_do_def for_each_def seq_append emit_def split_beta Let_def)
    ultimately show ?thesis by simp
  qed
  have clear: "at_table [] st (fst (client_do env (modify clearConnections) t))" if "at_table C st t" for C st t
    using plain[OF that, of "modify clearConnections"] by (simp add: modify_def clearConnections_def)
  have quiet: "at_table C st (fst (client_do env a t))" if "at_table C st t" "\<And>cm. list_all plain_event (snd (a cm)) \<and> cm_connections (fst (a cm)) = cm_connections cm" for a C st t
    using plain[OF that(1), of a] that by (simp add: at_table_def)
  let ?mc = "mc\<lparr>mc_clientServerStatus := SrvDisconnected\<rparr>"
  have "at_table ?C SrvDisconnected ?mc" using assms(2) by (simp add: at_table_def)
  note last = quiet[OF clear[OF forget[OF quiet[OF start[OF this, of "cm_messaging (mc_client mc) \<noteq> None"], of "modify (\<lambda>cm. cm\<lparr>cm_messaging := None\<rparr>)"]]],
      of "guarded True (emit [cm_connectionCountChanged, cm_activeConnectionChanged, cm_connectionListChanged])"]
  then have "at_table [] SrvConnected mc'"
    using assms(1,4) by (simp add: mc_onClientProcessStopped_def client_setMessaging_def setMessaging_steps_def for_each_def seq_Cons modify_def emit_def guarded_def plain_event_def
        del: seq.simps(2))
  then show ?thesis by (simp add: at_table_def connectedDeviceIds_def)
qed

text \<open>
  A reconnect timer that is still pending when the channel is up again replaces the working channel. No signal says so: the controller
  goes on treating the list as settled although the new channel has delivered nothing yet.
\<close>

lemma stale_timer_leaves_ready:
  fixes env :: main_env
  assumes "cd_loggedIn (mc_cloud mc)" "cd_reconnectTimers (mc_cloud mc) = [t]" "mc_cloudSyncReady mc"
  defines "mc' \<equiv> fst (mc_exec env (MI_cloud (CD_reconnectTimer 0)) mc)"
  shows "mc_cloudSyncReady mc' \<and> \<not> cd_syncBootstrapComplete (mc_cloud mc') \<and> \<not> cd_syncAuthOk (mc_cloud mc')"
  using assms(1-3) by (simp add: mc'_def cloud_do_def startSync_def cd_loggedIn_def answered_call_def drop_socket_def emit_def for_each_def split_beta Let_def)

end
