(* ===== verification/DeviceRecorder.thy ===== *)
theory DeviceRecorder
  imports AuthManager SharedMemoryManager
begin

text \<open>
  The session recorder of \<open>manager/DeviceRecorder.cpp\<close>: frames of a device go to the encoder of Qt, the finished file is entered in the
  server's index and then uploaded with up to four attempts, its poster after it. The encoder, the file system and the network are not part of
  the program: what they answer is an input or a field of the environment, what the program asks of them is a signal. A request, an upload or a
  retry timer that is under way is an entry of a list of the state; its continuation is part of the entry.
\<close>


section \<open>State\<close>

text \<open>The continuation of an upload: for the recording itself, with the file and its number in the index, and for its poster.\<close>

datatype upload_done = ArtifactDone qstring qstring | ThumbnailDone qstring

record file_upload =
  up_url :: qstring
  up_filePath :: qstring
  up_mimeType :: qstring
  up_fileName :: qstring
  up_label :: qstring
  up_done :: upload_done
  up_attempt :: nat

record device_recorder =
  dr_sharedMemory :: shm_manager
  dr_deviceId :: qstring
  dr_outputPath :: qstring
  dr_posterPath :: qstring
  dr_lastError :: qstring
  dr_lastRecordingId :: qstring
  dr_recording :: bool
  dr_posterCaptured :: bool
  dr_startedAtMs :: int
  dr_frameTimer :: bool
  dr_indexing :: "qstring list" \<comment> \<open>files whose index request is with the server\<close>
  dr_posts :: "file_upload list" \<comment> \<open>uploads under way\<close>
  dr_retries :: "(int \<times> file_upload) list" \<comment> \<open>timers, with their delay\<close>

record 'k recorder_env =
  rce_auth :: auth_env
  rce_session :: "'k auth_manager"
  rce_now :: int
  rce_isoDate :: "int \<Rightarrow> qstring"
  rce_tempFile :: "qstring \<Rightarrow> qstring" \<comment> \<open>path of a name in the directory for temporary files\<close>
  rce_size :: "qstring \<Rightarrow> int option" \<comment> \<open>size of a file that exists\<close>
  rce_canOpen :: "qstring \<Rightarrow> bool"
  rce_memory :: "byte list option"
  rce_image :: "(int \<times> int) option" \<comment> \<open>size of the image of the frame, unless it is null\<close>
  rce_saved :: bool

text \<open>What the callback of a request keeps: the file to upload, or the number that is reported in the log.\<close>

datatype rec_call = IndexCall qstring | MarkCall qstring

datatype dr_event =
    dr_recordingChanged
  | dr_lastErrorChanged
  | dr_uploadFinished qstring
  | dr_removeFile qstring
  | dr_record qstring
  | dr_recorderStop
  | dr_savePoster qstring bool \<comment> \<open>scaled down\<close>
  | dr_sendFrame int int
  | dr_outOfBounds
  | dr_request qstring qstring qstring rec_call
  | dr_post qstring "(qstring \<times> qstring) list" qstring qstring qstring

type_synonym dr_action = "(device_recorder, dr_event) action"

definition DeviceRecorder_init :: "shm_manager \<Rightarrow> device_recorder" where
  "DeviceRecorder_init m = \<lparr>dr_sharedMemory = m, dr_deviceId = [], dr_outputPath = [], dr_posterPath = [], dr_lastError = [],
     dr_lastRecordingId = [], dr_recording = False, dr_posterCaptured = False, dr_startedAtMs = 0, dr_frameTimer = False,
     dr_indexing = [], dr_posts = [], dr_retries = []\<rparr>"

definition kFrameDurationUs :: int where
  "kFrameDurationUs = 1000000 div 15"

definition kMaxUploadAttempts :: nat where
  "kMaxUploadAttempts = 4"

definition kRetryBackoffMs :: "int list" where
  "kRetryBackoffMs = [0, 800, 2000, 5000]"

definition kPosterMaxEdgePx :: int where
  "kPosterMaxEdgePx = 640"


section \<open>Recording\<close>

definition rec_fail :: "qstring \<Rightarrow> dr_action" where
  "rec_fail message dr = (dr\<lparr>dr_lastError := message\<rparr>, [dr_lastErrorChanged])"

definition startRecording :: "'k recorder_env \<Rightarrow> qstring \<Rightarrow> device_recorder \<Rightarrow> device_recorder \<times> dr_event list \<times> bool" where
  "startRecording env deviceId dr =
     (if dr_recording dr then (dr, [], True)
      else if deviceId = [] then let (dr', ev) = rec_fail ''no active device to record'' dr in (dr', ev, False)
      else let outputPath = rce_tempFile env (''quickdesk-rec-'' @ string_of_int (rce_now env) @ ''.mp4'');
               posterPath = outputPath @ ''.thumb.jpg''
           in (dr\<lparr>dr_outputPath := outputPath, dr_posterPath := posterPath, dr_posterCaptured := False, dr_deviceId := deviceId,
                  dr_startedAtMs := rce_now env, dr_lastError := [], dr_recording := True, dr_frameTimer := True\<rparr>,
               [dr_removeFile outputPath, dr_removeFile posterPath, dr_lastErrorChanged, dr_record outputPath, dr_recordingChanged], True))"

definition stopRecording :: dr_action where
  "stopRecording dr =
     (if \<not> dr_recording dr then (dr, [])
      else (dr\<lparr>dr_frameTimer := False, dr_recording := False\<rparr>, [dr_recordingChanged, dr_recorderStop]))"

definition DeviceRecorder_destroy :: dr_action where
  "DeviceRecorder_destroy dr = (if dr_recording dr then (dr\<lparr>dr_frameTimer := False\<rparr>, [dr_recorderStop]) else (dr, []))"

definition capturePoster :: "'k recorder_env \<Rightarrow> dr_action" where
  "capturePoster env dr =
     (if dr_posterCaptured dr \<or> dr_posterPath dr = [] then (dr, [])
      else case rce_image env of
             None \<Rightarrow> (dr, [])
           | Some (width, height) \<Rightarrow>
               (if rce_saved env then dr\<lparr>dr_posterCaptured := True\<rparr> else dr,
                [dr_savePoster (dr_posterPath dr) (width > kPosterMaxEdgePx \<or> height > kPosterMaxEdgePx)]))"

definition onFrameTick :: "'k recorder_env \<Rightarrow> dr_action" where
  "onFrameTick env dr =
     (if \<not> dr_recording dr \<or> dr_deviceId dr = [] then (dr, [])
      else let (m, r) = readVideoFrame (rce_memory env) (dr_deviceId dr) (dr_sharedMemory dr); dr1 = dr\<lparr>dr_sharedMemory := m\<rparr>
           in case r of
                NoFrame \<Rightarrow> (dr1, [])
              | OutOfBounds \<Rightarrow> (dr1, [dr_outOfBounds])
              | _ \<Rightarrow> let elapsedUs = rce_now env * 1000 - dr_startedAtMs dr * 1000
                     in seq [capturePoster env, emit [dr_sendFrame elapsedUs (elapsedUs + kFrameDurationUs)]] dr1)"


section \<open>Upload\<close>

definition rec_httpBaseUrl :: "'k recorder_env \<Rightarrow> qstring" where
  "rec_httpBaseUrl env =
     (let url = replace_all ''wss://'' ''https://'' (replace_all ''ws://'' ''http://'' (au_serverUrl (rce_auth env)))
      in if endsWith url ''/'' then url else url @ ''/'')"

definition recording_url :: "'k recorder_env \<Rightarrow> qstring \<Rightarrow> qstring \<Rightarrow> qstring" where
  "recording_url env recordingId part = rec_httpBaseUrl env @ ''v1/me/recordings/'' @ recordingId @ part"

definition markFailed :: "'k recorder_env \<Rightarrow> qstring \<Rightarrow> qstring \<Rightarrow> dr_action" where
  "markFailed env recordingId filePath =
     seq [emit [dr_removeFile filePath],
          (\<lambda>dr. if dr_posterPath dr \<noteq> [] then (dr\<lparr>dr_posterPath := []\<rparr>, [dr_removeFile (dr_posterPath dr)]) else (dr, [])),
          guarded (recordingId \<noteq> [])
            (emit [dr_request ''PATCH'' (recording_url env recordingId []) (au_toJson (rce_auth env) (mkobj [(''status'', JStr ''failed'')]))
               (MarkCall recordingId)])]"

definition http_detail :: "qstring \<Rightarrow> int \<Rightarrow> qstring \<Rightarrow> qstring" where
  "http_detail what status detail = what @ '': HTTP '' @ string_of_int status @ '' '' @ detail"

text \<open>
  \<open>postFileWithRetry\<close>. A file that cannot be opened ends the upload at once; its continuation runs before the call returns. For the poster of a
  recording that continuation only removes the file, so \<open>uploadThumbnail\<close> does not nest further.
\<close>

definition send_post :: "'k recorder_env \<Rightarrow> file_upload \<Rightarrow> dr_action" where
  "send_post env u dr =
     (dr\<lparr>dr_posts := dr_posts dr @ [u]\<rparr>,
      [dr_post (up_url u) (userAuthHeaders (rce_auth env) False (rce_session env)) (up_filePath u) (up_mimeType u) (up_fileName u)])"

definition thumbnail_done :: "qstring \<Rightarrow> dr_action" where
  "thumbnail_done poster = emit [dr_removeFile poster]"

definition thumbnail_of :: "'k recorder_env \<Rightarrow> qstring \<Rightarrow> qstring \<Rightarrow> file_upload" where
  "thumbnail_of env recordingId poster =
     \<lparr>up_url = recording_url env recordingId ''/thumbnail'', up_filePath = poster, up_mimeType = ''image/jpeg'', up_fileName = ''thumb.jpg'',
      up_label = ''thumbnail'', up_done = ThumbnailDone poster, up_attempt = 0\<rparr>"

definition uploadThumbnail :: "'k recorder_env \<Rightarrow> qstring \<Rightarrow> dr_action" where
  "uploadThumbnail env recordingId dr =
     (let poster = dr_posterPath dr; dr1 = dr\<lparr>dr_posterPath := []\<rparr>
      in if poster = [] \<or> rce_size env poster = None then (dr1, [])
         else if \<not> rce_canOpen env poster then thumbnail_done poster dr1
         else send_post env (thumbnail_of env recordingId poster) dr1)"

definition artifact_done :: "'k recorder_env \<Rightarrow> qstring \<Rightarrow> qstring \<Rightarrow> bool \<Rightarrow> int \<Rightarrow> qstring \<Rightarrow> dr_action" where
  "artifact_done env filePath recordingId ok status detail =
     (if \<not> ok then seq [rec_fail (http_detail ''recording upload failed'' status detail), markFailed env recordingId filePath]
      else seq [modify (\<lambda>dr. dr\<lparr>dr_lastRecordingId := recordingId\<rparr>), emit [dr_uploadFinished recordingId, dr_removeFile filePath],
                uploadThumbnail env recordingId])"

fun run_done :: "'k recorder_env \<Rightarrow> upload_done \<Rightarrow> bool \<Rightarrow> int \<Rightarrow> qstring \<Rightarrow> dr_action" where
  "run_done env (ArtifactDone filePath recordingId) ok status detail = artifact_done env filePath recordingId ok status detail"
| "run_done env (ThumbnailDone poster) ok status detail = thumbnail_done poster"

definition postFileWithRetry :: "'k recorder_env \<Rightarrow> file_upload \<Rightarrow> dr_action" where
  "postFileWithRetry env u =
     (if \<not> rce_canOpen env (up_filePath u) then run_done env (up_done u) False 0 (''cannot reopen '' @ up_filePath u)
      else send_post env u)"

definition transient :: "bool \<Rightarrow> int \<Rightarrow> bool" where
  "transient networkError status \<longleftrightarrow> networkError \<or> status \<ge> 500 \<or> status = 429 \<or> status = 0"

definition onPostFinished :: "'k recorder_env \<Rightarrow> file_upload \<Rightarrow> bool \<Rightarrow> int \<Rightarrow> qstring \<Rightarrow> dr_action" where
  "onPostFinished env u networkError status body =
     (if \<not> networkError \<and> (status = 200 \<or> status = 201) then run_done env (up_done u) True status []
      else if transient networkError status \<and> up_attempt u + 1 < kMaxUploadAttempts
      then modify (\<lambda>dr. dr\<lparr>dr_retries := dr_retries dr @ [(kRetryBackoffMs ! (up_attempt u + 1), u\<lparr>up_attempt := up_attempt u + 1\<rparr>)]\<rparr>)
      else run_done env (up_done u) False status (take 200 body))"

definition artifact_of :: "'k recorder_env \<Rightarrow> qstring \<Rightarrow> qstring \<Rightarrow> file_upload" where
  "artifact_of env filePath recordingId =
     \<lparr>up_url = recording_url env recordingId ''/artifact'', up_filePath = filePath, up_mimeType = ''video/mp4'', up_fileName = ''recording.mp4'',
      up_label = ''artifact'', up_done = ArtifactDone filePath recordingId, up_attempt = 0\<rparr>"

definition uploadBytes :: "'k recorder_env \<Rightarrow> qstring \<Rightarrow> qstring \<Rightarrow> dr_action" where
  "uploadBytes env filePath recordingId = postFileWithRetry env (artifact_of env filePath recordingId)"

definition index_payload :: "'k recorder_env \<Rightarrow> device_recorder \<Rightarrow> jobject" where
  "index_payload env dr = mkobj
     [(''device_id'', JStr (dr_deviceId dr)), (''device_name'', JStr []), (''session_id'', JStr (''qt-'' @ string_of_int (rce_now env))),
      (''status'', JStr ''recording''), (''format'', JStr ''mp4''),
      (''duration_seconds'', JInt (max 1 ((rce_now env - dr_startedAtMs dr) div 1000))),
      (''started_at'', JStr (rce_isoDate env (dr_startedAtMs dr))), (''ended_at'', JStr (rce_isoDate env (rce_now env)))]"

definition createIndexRowThenUpload :: "'k recorder_env \<Rightarrow> qstring \<Rightarrow> dr_action" where
  "createIndexRowThenUpload env filePath dr =
     (dr\<lparr>dr_indexing := dr_indexing dr @ [filePath]\<rparr>,
      [dr_request ''POST'' (rec_httpBaseUrl env @ ''v1/me/recordings'') (au_toJson (rce_auth env) (index_payload env dr)) (IndexCall filePath)])"

text \<open>The number in the answer of the index, if the answer is accepted.\<close>

definition indexed_row :: "'k recorder_env \<Rightarrow> int \<Rightarrow> qstring \<Rightarrow> qstring option" where
  "indexed_row env status data =
     (if status \<noteq> 200 \<and> status \<noteq> 201 then None
      else let idValue = oget (doc_object (au_fromJson (rce_auth env) data)) ''id''
           in if idValue = JUndefined \<or> idValue = JNull then None else Some (string_of_int (toInt idValue)))"

definition onIndexReply :: "'k recorder_env \<Rightarrow> qstring \<Rightarrow> int \<Rightarrow> qstring \<Rightarrow> qstring \<Rightarrow> dr_action" where
  "onIndexReply env filePath status err data =
     (case indexed_row env status data of
        None \<Rightarrow> rec_fail (if status \<noteq> 200 \<and> status \<noteq> 201 then http_detail ''could not index recording'' status err
                       else ''index response carried no recording id'')
      | Some recordingId \<Rightarrow> uploadBytes env filePath recordingId)"

definition uploadRecording :: "'k recorder_env \<Rightarrow> qstring \<Rightarrow> dr_action" where
  "uploadRecording env filePath =
     (if (case rce_size env filePath of None \<Rightarrow> True | Some n \<Rightarrow> n \<le> 0)
      then seq [rec_fail ''recording produced no data'',
                (\<lambda>dr. (dr\<lparr>dr_posterPath := []\<rparr>, [dr_removeFile filePath, dr_removeFile (dr_posterPath dr)]))]
      else createIndexRowThenUpload env filePath)"

text \<open>The encoder has stopped.\<close>

definition onRecorderStopped :: "'k recorder_env \<Rightarrow> dr_action" where
  "onRecorderStopped env dr =
     (if dr_outputPath dr = [] then (dr, []) else uploadRecording env (dr_outputPath dr) (dr\<lparr>dr_outputPath := []\<rparr>))"

definition onRecorderError :: "qstring \<Rightarrow> dr_action" where
  "onRecorderError errorString = rec_fail (if errorString = [] then ''recorder error'' else errorString)"


section \<open>Inputs\<close>

datatype dr_input =
    DR_start qstring
  | DR_stop
  | DR_tick
  | DR_stopped
  | DR_error qstring
  | DR_indexReply nat int qstring qstring
  | DR_postFinished nat bool int qstring
  | DR_retryTimer nat

fun dr_exec :: "'k recorder_env \<Rightarrow> dr_input \<Rightarrow> dr_action" where
  "dr_exec env (DR_start d) = (\<lambda>dr. let (dr', ev, ok) = startRecording env d dr in (dr', ev))"
| "dr_exec env DR_stop = stopRecording"
| "dr_exec env DR_tick = (\<lambda>dr. if dr_frameTimer dr then onFrameTick env dr else (dr, []))"
| "dr_exec env DR_stopped = onRecorderStopped env"
| "dr_exec env (DR_error e) = onRecorderError e"
| "dr_exec env (DR_indexReply i status err data) = (\<lambda>dr. if i < length (dr_indexing dr)
     then onIndexReply env (dr_indexing dr ! i) status err data (dr\<lparr>dr_indexing := remove_at i (dr_indexing dr)\<rparr>) else (dr, []))"
| "dr_exec env (DR_postFinished i networkError status body) = (\<lambda>dr. if i < length (dr_posts dr)
     then onPostFinished env (dr_posts dr ! i) networkError status body (dr\<lparr>dr_posts := remove_at i (dr_posts dr)\<rparr>) else (dr, []))"
| "dr_exec env (DR_retryTimer i) = (\<lambda>dr. if i < length (dr_retries dr)
     then postFileWithRetry env (snd (dr_retries dr ! i)) (dr\<lparr>dr_retries := remove_at i (dr_retries dr)\<rparr>) else (dr, []))"

definition dr_run :: "('k recorder_env \<times> dr_input) list \<Rightarrow> dr_action" where
  "dr_run = for_each (\<lambda>(env, i). dr_exec env i)"

end
