(* ===== verification/Language.thy ===== *)
theory Language
  imports Settings Actions "HOL-Library.Word"
begin

text \<open>
  \<open>language/languagemanage.cpp\<close>: the language of the interface, from the configuration or the system, and the translators of Qt, which are
  loaded when first used and installed one above the other. \<open>component/KeycodeMapper.cpp\<close>: the key code and the lock keys of the last key event.
  Texts that are not ASCII are written in UTF-8.
\<close>


section \<open>Language\<close>

datatype locale_language = Chinese | English | OtherLanguage nat

datatype translator = zhCnTranslator | enUsTranslator

record language_manage =
  lm_config :: config
  lm_loaded :: "translator set"
  lm_translators :: "translator list" \<comment> \<open>installed, the one that is asked first in front\<close>

datatype lm_event = lm_load qstring | lm_languageChanged qstring

text \<open>What the system reports: the language of the locale and, on Windows, the language of the user interface.\<close>

record language_env =
  le_locale :: locale_language
  le_onWindows :: bool
  le_uiLanguageId :: "16 word"
  le_tr :: "qstring \<Rightarrow> qstring"
  le_ok :: bool \<comment> \<open>the configuration can be written\<close>
  le_load :: "translator \<Rightarrow> bool" \<comment> \<open>the file of the translator can be read\<close>

definition getSupportLanguages :: "qstring list" where
  "getSupportLanguages = [''Auto'', ''zh_CN'', ''en_US'']"

definition getCurrentLanguage :: "language_manage \<Rightarrow> qstring" where
  "getCurrentLanguage lm = lcc_getString ''language'' ''Auto'' (lm_config lm)"

unbundle bit_operations_syntax

definition LANG_CHINESE_SIMPLIFIED :: "16 word" where
  "LANG_CHINESE_SIMPLIFIED = 0x04"

definition LANG_CHINESE_TRADITIONAL :: "16 word" where
  "LANG_CHINESE_TRADITIONAL = 0x7C04"

definition getSystemLanguage :: "language_env \<Rightarrow> locale_language" where
  "getSystemLanguage env = 
     (let languageId = le_uiLanguageId env AND 0x03FF
      in if le_onWindows env \<and> (LANG_CHINESE_SIMPLIFIED = languageId \<or> LANG_CHINESE_TRADITIONAL = languageId) then Chinese else le_locale env)"

definition getCurrentRealLanguage :: "language_env \<Rightarrow> language_manage \<Rightarrow> qstring" where
  "getCurrentRealLanguage env lm =
     (let language = getCurrentLanguage lm
      in if language = ''Auto'' then case getSystemLanguage env of Chinese \<Rightarrow> ''zh_CN'' | English \<Rightarrow> ''en_US'' | _ \<Rightarrow> language else language)"

definition getLanguageName :: "language_env \<Rightarrow> qstring \<Rightarrow> qstring" where
  "getLanguageName env language =
     (if language = ''zh_CN'' then map char_of [0xE7, 0xAE, 0x80, 0xE4, 0xBD, 0x93, 0xE4, 0xB8, 0xAD, 0xE6, 0x96, 0x87 :: nat]
      else if language = ''en_US'' then ''English'' else le_tr env ''Auto'')"

fun translator_file :: "translator \<Rightarrow> qstring" where
  "translator_file zhCnTranslator = '':/i18n/zh_CN.qm''"
| "translator_file enUsTranslator = '':/i18n/en_US.qm''"

definition installTranslator :: "language_env \<Rightarrow> locale_language \<Rightarrow> (language_manage, lm_event) action" where
  "installTranslator env language lm =
     (let t = (if language = Chinese then zhCnTranslator else enUsTranslator); fresh = t \<notin> lm_loaded lm
      in (lm\<lparr>lm_loaded := (if le_load env t then insert t (lm_loaded lm) else lm_loaded lm), lm_translators := t # lm_translators lm\<rparr>,
          if fresh then [lm_load (translator_file t)] else []))"

definition installLanguage :: "language_env \<Rightarrow> (language_manage, lm_event) action" where
  "installLanguage env lm =
     (let configLanguage = getCurrentLanguage lm;
          language = (if configLanguage = ''zh_CN'' then Chinese else getSystemLanguage env);
          language = (if configLanguage = ''en_US'' then English else language)
      in installTranslator env language lm)"

definition setCurrentLanguage :: "language_env \<Rightarrow> qstring \<Rightarrow> (language_manage, lm_event) action" where
  "setCurrentLanguage env language lm =
     (let (c, ev) = lcc_setString (le_ok env) ''language'' language (lm_config lm); (lm1, ev1) = installLanguage env (lm\<lparr>lm_config := c\<rparr>)
      in (lm1, map (\<lambda>_. lm_languageChanged language) ev @ ev1))"

text \<open>
  The translation that is shown agrees with the language the program reports, unless the system speaks neither of the two languages: then the
  translation is the English one and the reported language is still the word \<open>Auto\<close>, although it should be a real language.
\<close>

lemma shown_language:
  assumes "getCurrentLanguage lm \<in> set getSupportLanguages"
  shows "lm_translators (fst (installLanguage env lm))
    = (if getCurrentRealLanguage env lm = ''zh_CN'' then zhCnTranslator else enUsTranslator) # lm_translators lm"
  using assms
  by (auto simp: getSupportLanguages_def installLanguage_def installTranslator_def getCurrentRealLanguage_def Let_def split: locale_language.split)

lemma auto_is_not_resolved:
  assumes "getCurrentLanguage lm = ''Auto''" "getSystemLanguage env = OtherLanguage n"
  shows "getCurrentRealLanguage env lm = ''Auto''"
  using assms by (simp add: getCurrentRealLanguage_def)


section \<open>Keyboard state\<close>

datatype key_platform = PlatformWin | PlatformMac | PlatformOther

record keyboard_state =
  ks_cachedNativeModifiers :: "32 word"
  ks_cachedNativeKeycode :: "32 word"

record key_event =
  ke_nativeModifiers :: "32 word"
  ke_nativeVirtualKey :: "32 word"
  ke_nativeScanCode :: "32 word"

datatype qevent = KeyPress key_event | KeyRelease key_event | OtherEvent

definition KeyboardStateTracker_init :: keyboard_state where
  "KeyboardStateTracker_init = \<lparr>ks_cachedNativeModifiers = 0, ks_cachedNativeKeycode = 0\<rparr>"

fun kNativeCapsLock :: "key_platform \<Rightarrow> 32 word" where
  "kNativeCapsLock PlatformWin = 0x100"
| "kNativeCapsLock PlatformMac = 0x10000"
| "kNativeCapsLock PlatformOther = 0"

fun kNativeNumLock :: "key_platform \<Rightarrow> 32 word" where
  "kNativeNumLock PlatformWin = 0x200"
| "kNativeNumLock _ = 0"

fun kNativeScrollLock :: "key_platform \<Rightarrow> 32 word" where
  "kNativeScrollLock PlatformWin = 0x400"
| "kNativeScrollLock _ = 0"

definition cache_key :: "key_platform \<Rightarrow> key_event \<Rightarrow> keyboard_state \<Rightarrow> keyboard_state" where
  "cache_key p ke ks = ks\<lparr>ks_cachedNativeModifiers := ke_nativeModifiers ke,
     ks_cachedNativeKeycode := (if p = PlatformMac then ke_nativeVirtualKey ke else ke_nativeScanCode ke)\<rparr>"

text \<open>The result of \<open>QObject::eventFilter\<close> is always false: no event is withheld.\<close>

fun eventFilter :: "key_platform \<Rightarrow> qevent \<Rightarrow> keyboard_state \<Rightarrow> keyboard_state \<times> bool" where
  "eventFilter p (KeyPress ke) ks = (cache_key p ke ks, False)"
| "eventFilter p (KeyRelease ke) ks = (cache_key p ke ks, False)"
| "eventFilter p OtherEvent ks = (ks, False)"

definition getLastNativeKeycode :: "keyboard_state \<Rightarrow> int" where
  "getLastNativeKeycode ks = sint (ks_cachedNativeKeycode ks)"

definition getLockStates :: "key_platform \<Rightarrow> keyboard_state \<Rightarrow> 32 word" where
  "getLockStates p ks =
     (let m = ks_cachedNativeModifiers ks;
          states = (0 :: 32 word);
          states = (if kNativeCapsLock p \<noteq> 0 \<and> m AND kNativeCapsLock p \<noteq> 0 then states OR 1 else states);
          states = (if kNativeNumLock p \<noteq> 0 \<and> m AND kNativeNumLock p \<noteq> 0 then states OR 2 else states)
      in if kNativeScrollLock p \<noteq> 0 \<and> m AND kNativeScrollLock p \<noteq> 0 then states OR 4 else states)"

text \<open>On Windows the mask of the lock keys is the part of the modifiers from bit 8, three bits wide.\<close>

lemma lock_states_windows: "getLockStates PlatformWin ks = drop_bit 8 (ks_cachedNativeModifiers ks) AND 7"
proof (rule bit_word_eqI)
  fix n :: nat
  assume n: "n < LENGTH(32)"
  let ?m = "ks_cachedNativeModifiers ks"
  have b: "(?m AND 0x100 \<noteq> 0) = bit ?m 8" "(?m AND 0x200 \<noteq> 0) = bit ?m 9" "(?m AND 0x400 \<noteq> 0) = bit ?m 10"
    using and_exp_eq_0_iff_not_bit[of ?m 8] and_exp_eq_0_iff_not_bit[of ?m 9] and_exp_eq_0_iff_not_bit[of ?m 10] by simp_all
  have seven: "(7 :: 32 word) = mask 3" by (simp add: mask_eq_exp_minus_1)
  have bits: "bit (1 :: 32 word) n = (n = 0)" "bit (2 :: 32 word) n = (n = 1)" "bit (4 :: 32 word) n = (n = 2)"
    using n bit_exp_iff[of 1 n, where 'a = "32 word"] bit_exp_iff[of 2 n, where 'a = "32 word"] by (auto simp: bit_1_iff)
  have z: "(0x100 :: 32 word) \<noteq> 0" "(0x200 :: 32 word) \<noteq> 0" "(0x400 :: 32 word) \<noteq> 0" by simp_all
  have l: "bit (getLockStates PlatformWin ks) n = (n = 0 \<and> bit ?m 8 \<or> n = 1 \<and> bit ?m 9 \<or> n = 2 \<and> bit ?m 10)"
    unfolding getLockStates_def Let_def kNativeCapsLock.simps kNativeNumLock.simps kNativeScrollLock.simps b
    by (cases "bit ?m 8"; cases "bit ?m 9"; cases "bit ?m 10"; simp only: z bit_or_iff bits bit_0_eq bot_apply bot_bool_def if_True if_False simp_thms; blast)
  have "bit (drop_bit 8 ?m AND 7) n = (bit ?m (8 + n) \<and> n < 3)"
    unfolding seven by (auto simp: bit_and_iff bit_drop_bit_eq bit_mask_iff)
  moreover have "n < 3 \<longleftrightarrow> n = 0 \<or> n = 1 \<or> n = 2" by arith
  ultimately show "bit (getLockStates PlatformWin ks) n = bit (drop_bit 8 ?m AND 7) n" using l by auto
qed

lemma lock_states_elsewhere:
  "getLockStates PlatformMac ks = (if bit (ks_cachedNativeModifiers ks) 16 then 1 else 0)" "getLockStates PlatformOther ks = 0"
  using and_exp_eq_0_iff_not_bit[of "ks_cachedNativeModifiers ks" 16] by (simp_all add: getLockStates_def)

end
