(* ===== verification/PresetManager.thy ===== *)
theory PresetManager
  imports AuthManager ServerSettings Language
begin

text \<open>
  \<open>manager/PresetManager.cpp\<close>: announcement, links and minimum version are fetched from the server once a minute. The manager gives up ten
  minutes after the first request when nothing has been loaded, and stops asking when the program is too old. Two timers, the requests in flight
  and the cached values are the state; a reply is an input.
\<close>


section \<open>State\<close>

record preset_link =
  pl_icon :: qstring
  pl_text :: qstring
  pl_url :: qstring

record preset_manager =
  ps_pollTimer :: bool
  ps_initialTimer :: bool
  ps_firstRequestTime :: "int option" \<comment> \<open>milliseconds\<close>
  ps_presetLoaded :: bool
  ps_started :: bool
  ps_announcement :: qstring
  ps_links :: "preset_link list"
  ps_webclientUrl :: qstring
  ps_lastMinVersion :: qstring
  ps_requests :: nat \<comment> \<open>requests in flight\<close>

record preset_env =
  pe_now :: int
  pe_serverUrl :: qstring
  pe_apiKey :: qstring \<comment> \<open>of the configuration\<close>
  pe_compileApiKey :: qstring
  pe_fromJson :: "qstring \<Rightarrow> json_doc"
  pe_language :: language_env
  pe_languages :: language_manage
  pe_tr :: "qstring \<Rightarrow> qstring"
  pe_version :: qstring \<comment> \<open>\<open>APP_VERSION_STR\<close>\<close>

datatype ps_event =
    ps_announcementChanged
  | ps_linksChanged
  | ps_presetLoadedChanged
  | ps_webclientUrlChanged
  | ps_presetLoadFailed qstring
  | ps_forceUpgradeRequired qstring
  | ps_get http_request

type_synonym ps_action = "(preset_manager, ps_event) action"

definition PresetManager_init :: preset_manager where
  "PresetManager_init = \<lparr>ps_pollTimer = False, ps_initialTimer = False, ps_firstRequestTime = None, ps_presetLoaded = False, ps_started = False,
     ps_announcement = [], ps_links = [], ps_webclientUrl = [], ps_lastMinVersion = [], ps_requests = 0\<rparr>"

definition kLoadDeadlineMinutes :: int where
  "kLoadDeadlineMinutes = 10"


section \<open>Versions\<close>

text \<open>The loop of \<open>isVersionLower\<close> from index \<open>i\<close>.\<close>

definition part_number :: "qstring list \<Rightarrow> nat \<Rightarrow> int" where
  "part_number parts i = (if i < length parts then string_toInt (parts ! i) else 0)"

function version_loop :: "qstring list \<Rightarrow> qstring list \<Rightarrow> nat \<Rightarrow> bool" where
  "version_loop curParts reqParts i =
     (if \<not> i < max (length curParts) (length reqParts) then False
      else if part_number curParts i < part_number reqParts i then True
      else if part_number curParts i > part_number reqParts i then False
      else version_loop curParts reqParts (i + 1))"
  by pat_completeness auto
termination
  by (relation "measure (\<lambda>(c, r, i). max (length c) (length r) - i)") auto

declare version_loop.simps [simp del]

definition isVersionLower :: "qstring \<Rightarrow> qstring \<Rightarrow> bool" where
  "isVersionLower current required = version_loop (split_char (CHR ''.'') current) (split_char (CHR ''.'') required) 0"


section \<open>Operations\<close>

definition ps_currentLanguage :: "preset_env \<Rightarrow> qstring" where
  "ps_currentLanguage env =
     (let lang = getCurrentRealLanguage (pe_language env) (pe_languages env)
      in if lang \<noteq> ''zh_CN'' \<and> lang \<noteq> ''en_US'' then ''en_US'' else lang)"

definition preset_url :: "preset_env \<Rightarrow> qstring" where
  "preset_url env =
     (let httpUrl = replace_all ''wss://'' ''https://'' (replace_all ''ws://'' ''http://'' (pe_serverUrl env))
      in (if endsWith httpUrl ''/'' then httpUrl else httpUrl @ ''/'') @ ''v1/preset'')"

definition fetchPreset :: "preset_env \<Rightarrow> ps_action" where
  "fetchPreset env ps =
     (let headers = (if pe_apiKey env \<noteq> [] then [(''X-API-Key'', pe_apiKey env)]
                     else if pe_compileApiKey env \<noteq> [] then [(''X-API-Key'', pe_compileApiKey env)] else [])
      in (ps\<lparr>ps_requests := ps_requests ps + 1\<rparr>, [ps_get (http_get (preset_url env) headers)]))"

definition ps_start :: ps_action where
  "ps_start ps = (if ps_started ps then (ps, []) else (ps\<lparr>ps_started := True, ps_initialTimer := True\<rparr>, []))"

definition ps_stop :: ps_action where
  "ps_stop ps = (ps\<lparr>ps_started := False, ps_initialTimer := False, ps_pollTimer := False\<rparr>, [])"

definition onInitialTimer :: "preset_env \<Rightarrow> ps_action" where
  "onInitialTimer env =
     seq [modify (\<lambda>ps. ps\<lparr>ps_initialTimer := False, ps_firstRequestTime := Some (pe_now env)\<rparr>), fetchPreset env, modify (\<lambda>ps. ps\<lparr>ps_pollTimer := True\<rparr>)]"

text \<open>The entry of the language, or the English one.\<close>

definition localized :: "(json \<Rightarrow> 'a) \<Rightarrow> ('a \<Rightarrow> bool) \<Rightarrow> jobject \<Rightarrow> qstring \<Rightarrow> 'a" where
  "localized conv missing ob lang =
     (let v = conv (oget ob lang) in if missing v \<and> lang \<noteq> ''en_US'' then conv (oget ob ''en_US'') else v)"

definition preset_link_of :: "json \<Rightarrow> preset_link" where
  "preset_link_of val =
     (let linkObj = toObject val
      in \<lparr>pl_icon = toString (oget linkObj ''icon''), pl_text = toString (oget linkObj ''text''), pl_url = toString (oget linkObj ''url'')\<rparr>)"

definition preset_announcement :: "preset_env \<Rightarrow> jobject \<Rightarrow> qstring" where
  "preset_announcement env ob = localized toString (\<lambda>s. s = []) (toObject (oget ob ''announcement'')) (ps_currentLanguage env)"

definition preset_links :: "preset_env \<Rightarrow> jobject \<Rightarrow> preset_link list" where
  "preset_links env ob = map preset_link_of (localized toArray (\<lambda>a. a = []) (toObject (oget ob ''links'')) (ps_currentLanguage env))"

definition checkMinVersion :: "preset_env \<Rightarrow> qstring \<Rightarrow> ps_action" where
  "checkMinVersion env minVersion ps =
     (if minVersion \<noteq> [] \<and> minVersion \<noteq> ps_lastMinVersion ps
      then seq [modify (\<lambda>ps. ps\<lparr>ps_lastMinVersion := minVersion\<rparr>),
                guarded (isVersionLower (pe_version env) minVersion)
                  (seq [modify (\<lambda>ps. ps\<lparr>ps_pollTimer := False\<rparr>), emit [ps_forceUpgradeRequired minVersion]])] ps
      else (ps, []))"

definition takePreset :: "preset_env \<Rightarrow> jobject \<Rightarrow> ps_action" where
  "takePreset env ob =
     seq [(\<lambda>ps. let v = preset_announcement env ob
               in if ps_announcement ps \<noteq> v then (ps\<lparr>ps_announcement := v\<rparr>, [ps_announcementChanged]) else (ps, [])),
          (\<lambda>ps. let v = preset_links env ob in if ps_links ps \<noteq> v then (ps\<lparr>ps_links := v\<rparr>, [ps_linksChanged]) else (ps, [])),
          (\<lambda>ps. let v = toString (oget ob ''webclient_url'')
               in if ps_webclientUrl ps \<noteq> v then (ps\<lparr>ps_webclientUrl := v\<rparr>, [ps_webclientUrlChanged]) else (ps, [])),
          (\<lambda>ps. if \<not> ps_presetLoaded ps then (ps\<lparr>ps_presetLoaded := True\<rparr>, [ps_presetLoadedChanged]) else (ps, [])),
          checkMinVersion env (toString (oget ob ''min_version''))]"

definition parsePresetData :: "preset_env \<Rightarrow> qstring \<Rightarrow> ps_action" where
  "parsePresetData env data = (case pe_fromJson env data of ObjectDoc ob \<Rightarrow> takePreset env ob | _ \<Rightarrow> seq [])"

text \<open>\<open>QDateTime::secsTo\<close> drops the milliseconds of the difference.\<close>

definition secsTo :: "int \<Rightarrow> int \<Rightarrow> int" where
  "secsTo from_ms to_ms = (if from_ms \<le> to_ms then (to_ms - from_ms) div 1000 else - ((from_ms - to_ms) div 1000))"

definition onPresetResponse :: "preset_env \<Rightarrow> int \<Rightarrow> qstring \<Rightarrow> qstring \<Rightarrow> ps_action" where
  "onPresetResponse env statusCode errorMsg data ps =
     (if statusCode \<noteq> 200 \<or> errorMsg \<noteq> []
      then case ps_firstRequestTime ps of
             Some t \<Rightarrow> if \<not> ps_presetLoaded ps \<and> secsTo t (pe_now env) \<ge> kLoadDeadlineMinutes * 60
                       then (ps\<lparr>ps_pollTimer := False\<rparr>,
                             [ps_presetLoadFailed (qarg (pe_tr env ''Unable to connect to server for %1 minutes'') (string_of_int kLoadDeadlineMinutes))])
                       else (ps, [])
           | None \<Rightarrow> (ps, [])
      else parsePresetData env data ps)"


section \<open>Inputs\<close>

datatype ps_input = PS_start | PS_stop | PS_initialTimer | PS_pollTimer | PS_reply int qstring qstring

fun ps_exec :: "preset_env \<Rightarrow> ps_input \<Rightarrow> ps_action" where
  "ps_exec env PS_start = ps_start"
| "ps_exec env PS_stop = ps_stop"
| "ps_exec env PS_initialTimer = (\<lambda>ps. if ps_initialTimer ps then onInitialTimer env ps else (ps, []))"
| "ps_exec env PS_pollTimer = (\<lambda>ps. if ps_pollTimer ps then fetchPreset env ps else (ps, []))"
| "ps_exec env (PS_reply status err data) = (\<lambda>ps. if ps_requests ps > 0
     then onPresetResponse env status err data (ps\<lparr>ps_requests := ps_requests ps - 1\<rparr>) else (ps, []))"

definition ps_run :: "(preset_env \<times> ps_input) list \<Rightarrow> ps_action" where
  "ps_run = for_each (\<lambda>(env, i). ps_exec env i)"


section \<open>The order of versions\<close>

lemma version_loop_first_difference:
  "version_loop c r i \<longleftrightarrow> (\<exists>k \<ge> i. part_number c k < part_number r k \<and> (\<forall>j. i \<le> j \<and> j < k \<longrightarrow> part_number c j = part_number r j))"
proof (induction c r i rule: version_loop.induct)
  case (1 c r i)
  let ?P = "\<lambda>i k. part_number c k < part_number r k \<and> (\<forall>j. i \<le> j \<and> j < k \<longrightarrow> part_number c j = part_number r j)"
  have split: "(\<exists>k \<ge> i. ?P i k) \<longleftrightarrow> ?P i i \<or> part_number c i = part_number r i \<and> (\<exists>k \<ge> i + 1. ?P (i + 1) k)"
  proof -
    have e: "i \<le> k \<longleftrightarrow> k = i \<or> i + 1 \<le> k" for k by auto
    have "?P i k \<longleftrightarrow> part_number c i = part_number r i \<and> ?P (i + 1) k" if "i + 1 \<le> k" for k
      using that unfolding e by auto
    then show ?thesis unfolding e[of k for k] by auto
  qed
  show ?case
  proof (cases "i < max (length c) (length r)")
    case True
    then show ?thesis unfolding split
      by (subst version_loop.simps) (use 1 in \<open>auto simp: not_less\<close>)
  next
    case False
    then have "part_number c k = part_number r k" if "k \<ge> i" for k using that by (auto simp: part_number_def)
    with False show ?thesis by (subst version_loop.simps) auto
  qed
qed

lemma split_char_no_sep: "c \<notin> set s \<Longrightarrow> split_char c s = [s]"
  by (induction s) auto

lemma split_char_append: "c \<notin> set s \<Longrightarrow> split_char c (s @ c # t) = s # split_char c t"
  by (induction s) auto

lemma split_char_join: "xs \<noteq> [] \<Longrightarrow> \<forall>x \<in> set xs. c \<notin> set x \<Longrightarrow> split_char c (join xs [c]) = xs"
  by (induction xs "[c]" rule: join.induct) (simp_all add: split_char_no_sep split_char_append)

lemma no_dot_in_number: "0 \<le> i \<Longrightarrow> CHR ''.'' \<notin> set (string_of_int i)"
  using digits_of_nat[of "CHR ''.''" "nat i"] by (auto simp: string_of_int_def digit_value_def)

definition version_text :: "int list \<Rightarrow> qstring" where
  "version_text xs = join (map string_of_int xs) ''.''"

definition component :: "int list \<Rightarrow> nat \<Rightarrow> int" where
  "component xs i = (if i < length xs then xs ! i else 0)"

lemma part_number_of_text:
  assumes "xs \<noteq> []" "\<forall>x \<in> set xs. 0 \<le> x \<and> x < 2 ^ 31"
  shows "part_number (split_char (CHR ''.'') (version_text xs)) = component xs"
proof -
  have "split_char (CHR ''.'') (version_text xs) = map string_of_int xs"
    unfolding version_text_def by (rule split_char_join) (use assms no_dot_in_number in auto)
  moreover have "string_toInt (string_of_int (xs ! i)) = xs ! i" if "i < length xs" for i
    using assms(2) nth_mem[OF that] by (intro string_toInt_of_int) force+
  ultimately show ?thesis by (auto simp: part_number_def component_def)
qed

text \<open>
  Versions are compared by their numbers, not as text. For any two lists of 32-bit numbers written with dots, the first is lower exactly if it is smaller at
  the first place where they differ, a missing number counting as zero.
\<close>

theorem version_order_numeric:
  assumes "xs \<noteq> []" "ys \<noteq> []" "\<forall>x \<in> set xs. 0 \<le> x \<and> x < 2 ^ 31" "\<forall>y \<in> set ys. 0 \<le> y \<and> y < 2 ^ 31"
  shows "isVersionLower (version_text xs) (version_text ys)
    \<longleftrightarrow> (\<exists>k. component xs k < component ys k \<and> (\<forall>j < k. component xs j = component ys j))"
  unfolding isVersionLower_def version_loop_first_difference
    part_number_of_text[OF assms(1,3)] part_number_of_text[OF assms(2,4)] by auto

theorem version_order_numeric_witness:
  "isVersionLower ''1.9.2'' ''1.10'' \<and> \<not> isVersionLower ''1.10.0'' ''1.10''"
proof -
  have t: "version_text [1, 9, 2] = ''1.9.2''" "version_text [1, 10] = ''1.10''" "version_text [1, 10, 0] = ''1.10.0''" by code_simp+
  have "component [1, 9, 2] 1 < component [1, 10] 1 \<and> (\<forall>j < 1. component [1, 9, 2] j = component [1, 10] j)" by (simp add: component_def)
  then have "isVersionLower ''1.9.2'' ''1.10''" using version_order_numeric[of "[1, 9, 2]" "[1, 10]"] unfolding t by auto
  moreover have "component [1, 10, 0] = component [1, 10]" by (auto simp: component_def fun_eq_iff nth_Cons less_Suc_eq split: nat.split)
  then have "\<not> isVersionLower ''1.10.0'' ''1.10''" using version_order_numeric[of "[1, 10, 0]" "[1, 10]"] unfolding t by auto
  ultimately show ?thesis ..
qed


section \<open>What the user sees\<close>

text \<open>An answer that is accepted replaces everything that is shown; each part that changes is announced, and no other.\<close>

lemma accepted_preset_shown:
  fixes ps :: preset_manager and env :: preset_env and ob :: jobject
  defines "r \<equiv> takePreset env ob ps"
  shows "ps_announcement (fst r) = preset_announcement env ob" "ps_links (fst r) = preset_links env ob"
    "ps_webclientUrl (fst r) = toString (oget ob ''webclient_url'')" "ps_presetLoaded (fst r)"
    "ps_announcementChanged \<in> set (snd r) \<longleftrightarrow> ps_announcement (fst r) \<noteq> ps_announcement ps"
    "ps_linksChanged \<in> set (snd r) \<longleftrightarrow> ps_links (fst r) \<noteq> ps_links ps"
    "ps_webclientUrlChanged \<in> set (snd r) \<longleftrightarrow> ps_webclientUrl (fst r) \<noteq> ps_webclientUrl ps"
    "ps_presetLoadedChanged \<in> set (snd r) \<longleftrightarrow> ps_presetLoaded (fst r) \<noteq> ps_presetLoaded ps"
  unfolding r_def by (auto simp: takePreset_def checkMinVersion_def modify_def guarded_def emit_def Let_def)

text \<open>
  Once the program has asked for an upgrade or has given up, the polling stops, and \<open>start\<close> does not bring it back: the manager still counts as
  started.
\<close>

lemma given_up_for_good:
  assumes "ps_started ps" "\<not> ps_pollTimer ps" "\<not> ps_initialTimer ps" "i \<noteq> PS_stop"
  shows "ps_started (fst (ps_exec env i ps)) \<and> \<not> ps_pollTimer (fst (ps_exec env i ps)) \<and> \<not> ps_initialTimer (fst (ps_exec env i ps))"
  using assms
  by (cases i) (auto simp: ps_start_def onPresetResponse_def parsePresetData_def takePreset_def checkMinVersion_def modify_def guarded_def emit_def Let_def
      split: option.split json_doc.split)

end
