(* ===== verification/DisplayDriver.thy ===== *)
theory DisplayDriver
  imports NativeMessaging Actions
begin

text \<open>
  The virtual display driver of \<open>quickdesk-virtual-display/driver/Driver.cpp\<close>: a table of ten monitors that is changed by control requests, the modes
  the driver reports, and the thread that takes the buffers of a swap chain. Windows (WDF, IddCx, Direct3D) is not part of the program: what a
  call returns is a field of the environment, what the driver asks for is an event. A handle is a number, a null pointer is \<open>None\<close>; reading outside an input
  buffer and following a null pointer are events of their own.
\<close>

unbundle bit_operations_syntax


section \<open>Status codes and control codes\<close>

type_synonym ntstatus = "32 word"
type_synonym hresult = "32 word"
type_synonym dword = "32 word"

definition NT_SUCCESS :: "ntstatus \<Rightarrow> bool" where
  "NT_SUCCESS s \<longleftrightarrow> 0 \<le> sint s"

definition SUCCEEDED :: "hresult \<Rightarrow> bool" where
  "SUCCEEDED h \<longleftrightarrow> 0 \<le> sint h"

definition STATUS_SUCCESS :: ntstatus where "STATUS_SUCCESS = 0"

definition STATUS_NOT_IMPLEMENTED :: ntstatus where "STATUS_NOT_IMPLEMENTED = 0xC0000002"

definition STATUS_INVALID_PARAMETER :: ntstatus where "STATUS_INVALID_PARAMETER = 0xC000000D"

definition STATUS_BUFFER_TOO_SMALL :: ntstatus where "STATUS_BUFFER_TOO_SMALL = 0xC0000023"

definition STATUS_ERROR_ADAPTER_NOT_INIT :: ntstatus where "STATUS_ERROR_ADAPTER_NOT_INIT = push_bit 30 3 + 11"

definition STATUS_ERROR_MONITOR_EXISTS :: ntstatus where "STATUS_ERROR_MONITOR_EXISTS = push_bit 30 3 + 51"

definition STATUS_ERROR_MONITOR_NOT_EXISTS :: ntstatus where "STATUS_ERROR_MONITOR_NOT_EXISTS = push_bit 30 3 + 52"

definition STATUS_ERROR_MONITOR_INVALID_PARAM :: ntstatus where "STATUS_ERROR_MONITOR_INVALID_PARAM = push_bit 30 3 + 53"

definition STATUS_ERROR_MONITOR_OOM :: ntstatus where "STATUS_ERROR_MONITOR_OOM = push_bit 30 3 + 54"

definition STATUS_ERROR_INDEX_OOR :: ntstatus where "STATUS_ERROR_INDEX_OOR = push_bit 30 3 + 55"

definition CTL_CODE :: "dword \<Rightarrow> dword \<Rightarrow> dword \<Rightarrow> dword \<Rightarrow> dword" where
  "CTL_CODE deviceType function transfer access =
     push_bit 16 deviceType OR push_bit 14 access OR push_bit 2 function OR transfer"

definition FILE_DEVICE_UNKNOWN :: dword where "FILE_DEVICE_UNKNOWN = 0x22"

definition METHOD_BUFFERED :: dword where "METHOD_BUFFERED = 0"

definition FILE_ANY_ACCESS :: dword where "FILE_ANY_ACCESS = 0"

definition IOCTL_QUICKDESK_VD_PLUG_IN :: dword where
  "IOCTL_QUICKDESK_VD_PLUG_IN = CTL_CODE FILE_DEVICE_UNKNOWN 0x0901 METHOD_BUFFERED FILE_ANY_ACCESS"

definition IOCTL_QUICKDESK_VD_PLUG_OUT :: dword where
  "IOCTL_QUICKDESK_VD_PLUG_OUT = CTL_CODE FILE_DEVICE_UNKNOWN 0x0902 METHOD_BUFFERED FILE_ANY_ACCESS"

definition IOCTL_QUICKDESK_VD_UPDATE_MODE :: dword where
  "IOCTL_QUICKDESK_VD_UPDATE_MODE = CTL_CODE FILE_DEVICE_UNKNOWN 0x0903 METHOD_BUFFERED FILE_ANY_ACCESS"

definition IOCTL_QUICKDESK_VD_QUERY :: dword where
  "IOCTL_QUICKDESK_VD_QUERY = CTL_CODE FILE_DEVICE_UNKNOWN 0x0904 METHOD_BUFFERED FILE_ANY_ACCESS"

definition QUICKDESK_VD_MAX_MONITORS :: nat where "QUICKDESK_VD_MAX_MONITORS = 4"

definition m_sMaxMonitorCount :: nat where "m_sMaxMonitorCount = 10"


section \<open>Known monitors\<close>

record sample_mode =
  sm_Width :: dword
  sm_Height :: dword
  sm_VSync :: dword

record sample_monitor =
  sm_pEdidBlock :: "byte list"
  sm_pModeList :: "sample_mode list"
  sm_ulPreferredModeIdx :: dword

definition szEdidBlock :: nat where "szEdidBlock = 128"

definition szModeList :: nat where "szModeList = 3"

definition sample :: "dword \<Rightarrow> dword \<Rightarrow> dword \<Rightarrow> sample_mode" where
  "sample w h v = \<lparr>sm_Width = w, sm_Height = h, sm_VSync = v\<rparr>"

definition s_SampleDefaultModes :: "sample_mode list" where
  "s_SampleDefaultModes = [sample 1920 1080 60, sample 1600 900 60, sample 1024 768 75]"

definition edid_dell :: "byte list" where
  "edid_dell =
     [0x00, 0xFF, 0xFF, 0xFF, 0xFF, 0xFF, 0xFF, 0x00, 0x10, 0xAC, 0xE6, 0xD0, 0x55, 0x5A, 0x4A, 0x30, 0x24, 0x1D, 0x01,
      0x04, 0xA5, 0x3C, 0x22, 0x78, 0xFB, 0x6C, 0xE5, 0xA5, 0x55, 0x50, 0xA0, 0x23, 0x0B, 0x50, 0x54, 0x00, 0x02, 0x00,
      0xD1, 0xC0, 0x01, 0x01, 0x01, 0x01, 0x01, 0x01, 0x01, 0x01, 0x01, 0x01, 0x01, 0x01, 0x01, 0x01, 0x58, 0xE3, 0x00,
      0xA0, 0xA0, 0xA0, 0x29, 0x50, 0x30, 0x20, 0x35, 0x00, 0x55, 0x50, 0x21, 0x00, 0x00, 0x1A, 0x00, 0x00, 0x00, 0xFF,
      0x00, 0x37, 0x4A, 0x51, 0x58, 0x42, 0x59, 0x32, 0x0A, 0x20, 0x20, 0x20, 0x20, 0x20, 0x00, 0x00, 0x00, 0xFC, 0x00,
      0x53, 0x32, 0x37, 0x31, 0x39, 0x44, 0x47, 0x46, 0x0A, 0x20, 0x20, 0x20, 0x20, 0x00, 0x00, 0x00, 0xFD, 0x00, 0x28,
      0x9B, 0xFA, 0xFA, 0x40, 0x01, 0x0A, 0x20, 0x20, 0x20, 0x20, 0x20, 0x20, 0x00, 0x2C]"

definition edid_lenovo :: "byte list" where
  "edid_lenovo =
     [0x00, 0xFF, 0xFF, 0xFF, 0xFF, 0xFF, 0xFF, 0x00, 0x30, 0xAE, 0xBF, 0x65, 0x01, 0x01, 0x01, 0x01, 0x20, 0x1A, 0x01,
      0x04, 0xA5, 0x3C, 0x22, 0x78, 0x3B, 0xEE, 0xD1, 0xA5, 0x55, 0x48, 0x9B, 0x26, 0x12, 0x50, 0x54, 0x00, 0x08, 0x00,
      0xA9, 0xC0, 0x01, 0x01, 0x01, 0x01, 0x01, 0x01, 0x01, 0x01, 0x01, 0x01, 0x01, 0x01, 0x01, 0x01, 0x68, 0xD8, 0x00,
      0x18, 0xF1, 0x70, 0x2D, 0x80, 0x58, 0x2C, 0x45, 0x00, 0x53, 0x50, 0x21, 0x00, 0x00, 0x1E, 0x00, 0x00, 0x00, 0x10,
      0x00, 0x00, 0x00, 0x00, 0x00, 0x00, 0x00, 0x00, 0x00, 0x00, 0x00, 0x00, 0x00, 0x00, 0x00, 0x00, 0x00, 0xFD, 0x00,
      0x30, 0x92, 0xB4, 0xB4, 0x22, 0x01, 0x0A, 0x20, 0x20, 0x20, 0x20, 0x20, 0x20, 0x00, 0x00, 0x00, 0xFC, 0x00, 0x4C,
      0x45, 0x4E, 0x20, 0x59, 0x32, 0x37, 0x66, 0x41, 0x0A, 0x20, 0x20, 0x20, 0x00, 0x11]"

definition s_SampleMonitors :: "sample_monitor list" where
  "s_SampleMonitors =
     [\<lparr>sm_pEdidBlock = edid_dell, sm_pModeList = [sample 2560 1440 144, sample 1920 1080 60, sample 1024 768 60], sm_ulPreferredModeIdx = 0\<rparr>,
      \<lparr>sm_pEdidBlock = edid_lenovo, sm_pModeList = [sample 3840 2160 60, sample 1600 900 60, sample 1024 768 60], sm_ulPreferredModeIdx = 0\<rparr>]"


section \<open>Modes\<close>

record signal_info =
  si_totalSize :: "dword \<times> dword"
  si_activeSize :: "dword \<times> dword"
  si_vSyncFreqDivider :: dword
  si_videoStandard :: dword
  si_vSyncFreq :: "dword \<times> dword"
  si_hSyncFreq :: "dword \<times> dword"
  si_progressive :: bool
  si_pixelRate :: "64 word"

datatype mode_origin = OriginMonitorDescriptor | OriginDriver

record monitor_mode =
  mm_Origin :: mode_origin
  mm_MonitorVideoSignalInfo :: signal_info

record target_mode =
  tm_targetVideoSignalInfo :: signal_info

text \<open>The horizontal frequency is a product of 32-bit numbers, the pixel rate one of 64-bit numbers.\<close>

definition FillSignalInfo :: "dword \<Rightarrow> dword \<Rightarrow> dword \<Rightarrow> bool \<Rightarrow> signal_info" where
  "FillSignalInfo Width Height VSync bMonitorMode =
     \<lparr>si_totalSize = (Width, Height), si_activeSize = (Width, Height), si_vSyncFreqDivider = (if bMonitorMode then 0 else 1), si_videoStandard = 255,
      si_vSyncFreq = (VSync, 1), si_hSyncFreq = (VSync * Height, 1), si_progressive = True,
      si_pixelRate = ucast VSync * ucast Width * ucast Height\<rparr>"

definition CreateIddCxMonitorMode :: "dword \<Rightarrow> dword \<Rightarrow> dword \<Rightarrow> mode_origin \<Rightarrow> monitor_mode" where
  "CreateIddCxMonitorMode Width Height VSync Origin =
     \<lparr>mm_Origin = Origin, mm_MonitorVideoSignalInfo = FillSignalInfo Width Height VSync True\<rparr>"

definition CreateIddCxTargetMode :: "dword \<Rightarrow> dword \<Rightarrow> dword \<Rightarrow> target_mode" where
  "CreateIddCxTargetMode Width Height VSync = \<lparr>tm_targetVideoSignalInfo = FillSignalInfo Width Height VSync False\<rparr>"

text \<open>What a callback that lists modes leaves: its status, the count it reports, the modes it has written to the buffer of the caller, the preferred one.\<close>

record 'm mode_list =
  ml_status :: ntstatus
  ml_count :: nat
  ml_written :: "'m list"
  ml_preferred :: "dword option"

definition monitor_modes :: "mode_origin \<Rightarrow> sample_mode list \<Rightarrow> monitor_mode list" where
  "monitor_modes origin modes = map (\<lambda>m. CreateIddCxMonitorMode (sm_Width m) (sm_Height m) (sm_VSync m) origin) modes"

definition IddRustDeskParseMonitorDescription :: "dword \<Rightarrow> byte list \<Rightarrow> monitor_mode mode_list" where
  "IddRustDeskParseMonitorDescription inputCount description =
     (let answer = (\<lambda>status modes preferred. \<lparr>ml_status = status, ml_count = szModeList, ml_written = modes, ml_preferred = preferred\<rparr>)
      in if unat inputCount < szModeList
         then answer (if inputCount > 0 then STATUS_BUFFER_TOO_SMALL else STATUS_SUCCESS) [] None
         else if length description \<noteq> szEdidBlock then answer STATUS_INVALID_PARAMETER [] None
         else case find (\<lambda>m. description = sm_pEdidBlock m) s_SampleMonitors of
                Some m \<Rightarrow> answer STATUS_SUCCESS (monitor_modes OriginMonitorDescriptor (sm_pModeList m)) (Some (sm_ulPreferredModeIdx m))
              | None \<Rightarrow> answer STATUS_INVALID_PARAMETER [] None)"

definition IddRustDeskMonitorGetDefaultModes :: "dword \<Rightarrow> monitor_mode mode_list" where
  "IddRustDeskMonitorGetDefaultModes inputCount =
     (if inputCount = 0 then \<lparr>ml_status = STATUS_SUCCESS, ml_count = length s_SampleDefaultModes, ml_written = [], ml_preferred = None\<rparr>
      else \<lparr>ml_status = STATUS_SUCCESS, ml_count = length s_SampleDefaultModes, ml_written = monitor_modes OriginDriver s_SampleDefaultModes,
            ml_preferred = Some 0\<rparr>)"

definition TargetModes :: "target_mode list" where
  "TargetModes =
     [CreateIddCxTargetMode 3840 2160 60, CreateIddCxTargetMode 2560 1440 144, CreateIddCxTargetMode 2560 1440 90, CreateIddCxTargetMode 2560 1440 60,
      CreateIddCxTargetMode 1920 1080 144, CreateIddCxTargetMode 1920 1080 90, CreateIddCxTargetMode 1920 1080 60, CreateIddCxTargetMode 1600 900 60,
      CreateIddCxTargetMode 1024 768 75, CreateIddCxTargetMode 1024 768 60]"

definition IddRustDeskMonitorQueryModes :: "dword \<Rightarrow> target_mode mode_list" where
  "IddRustDeskMonitorQueryModes inputCount =
     \<lparr>ml_status = STATUS_SUCCESS, ml_count = length TargetModes,
      ml_written = (if unat inputCount \<ge> length TargetModes then TargetModes else []), ml_preferred = None\<rparr>"


section \<open>State\<close>

record monitor_info =
  mi_ConnectorIndex :: dword
  mi_edid :: "byte list"
  mi_ContainerId :: "byte list"

record adapter_caps =
  ac_MaxMonitorsSupported :: nat
  ac_FriendlyName :: qstring
  ac_ManufacturerName :: qstring
  ac_ModelName :: qstring
  ac_MajorVer :: nat

record device_context =
  dc_Monitors :: "nat option list"
  dc_AdapterInitStatus :: ntstatus
  dc_Adapter :: "nat option"

text \<open>The context of a monitor holds the swap chain its thread works on.\<close>

record monitor_context =
  mx_ProcessingThread :: "nat option"

record driver =
  dv_device :: "device_context option" \<comment> \<open>the context of the device object\<close>
  dv_adapterContext :: bool \<comment> \<open>the context of the adapter object points to the device\<close>
  dv_contexts :: "(nat \<times> monitor_context) list" \<comment> \<open>contexts of the monitor objects\<close>

record driver_env =
  de_create :: "monitor_info \<Rightarrow> ntstatus \<times> nat"
  de_arrival :: "nat \<Rightarrow> ntstatus"
  de_departure :: "nat \<Rightarrow> ntstatus"
  de_update :: "nat \<Rightarrow> target_mode list \<Rightarrow> ntstatus"
  de_malloc :: "nat \<Rightarrow> bool"
  de_guid :: "byte list"
  de_adapterInit :: "ntstatus \<times> nat"
  de_input :: "byte list \<Rightarrow> nat \<Rightarrow> ntstatus" \<comment> \<open>the input buffer, the length asked for\<close>
  de_output :: "nat \<Rightarrow> nat \<Rightarrow> ntstatus"
  de_d3d :: "hresult \<times> hresult \<times> hresult"

datatype dv_event =
    dv_adapterInit adapter_caps ntstatus
  | dv_create monitor_info ntstatus nat
  | dv_arrival nat ntstatus
  | dv_departure nat ntstatus
  | dv_updateModes nat "target_mode list" ntstatus
  | dv_outOfBounds
  | dv_nullPointer
  | dv_complete ntstatus "byte list"
  | dv_startThread nat
  | dv_stopThread nat
  | dv_deleteSwapChain nat

type_synonym dv_action = "(driver, dv_event) action"

text \<open>A method of the device context: the new state, the events, the status it returns. \<open>None\<close> is an access outside memory.\<close>

type_synonym dv_call = "driver \<Rightarrow> driver \<times> dv_event list \<times> ntstatus option"


section \<open>Device context\<close>

definition IndirectDeviceContext_init :: device_context where
  "IndirectDeviceContext_init =
     \<lparr>dc_Monitors = replicate m_sMaxMonitorCount None, dc_AdapterInitStatus = STATUS_ERROR_ADAPTER_NOT_INIT, dc_Adapter = None\<rparr>"

definition IndirectDeviceContext_destroy :: "device_context \<Rightarrow> device_context" where
  "IndirectDeviceContext_destroy dc = dc\<lparr>dc_Monitors := map (\<lambda>_. None) (dc_Monitors dc)\<rparr>"

definition adapterCaps :: adapter_caps where
  "adapterCaps = \<lparr>ac_MaxMonitorsSupported = m_sMaxMonitorCount, ac_FriendlyName = ''QuickDesk Virtual Display'',
     ac_ManufacturerName = ''QuickCoder'', ac_ModelName = ''QuickDesk Virtual Display'', ac_MajorVer = 1\<rparr>"

definition InitAdapter :: "driver_env \<Rightarrow> device_context \<Rightarrow> dv_action" where
  "InitAdapter env dc dv =
     (let (status, adapter) = de_adapterInit env; ev = [dv_adapterInit adapterCaps status]
      in if NT_SUCCESS status then (dv\<lparr>dv_device := Some (dc\<lparr>dc_Adapter := Some adapter\<rparr>), dv_adapterContext := True\<rparr>, ev) else (dv, ev))"

definition put_context :: "nat \<Rightarrow> monitor_context \<Rightarrow> driver \<Rightarrow> driver" where
  "put_context h mx dv = dv\<lparr>dv_contexts := (h, mx) # filter (\<lambda>(k, _). k \<noteq> h) (dv_contexts dv)\<rparr>"

definition IndirectMonitorContext_init :: monitor_context where
  "IndirectMonitorContext_init = \<lparr>mx_ProcessingThread = None\<rparr>"

text \<open>\<open>FinishInit\<close> is a member that no code calls: a monitor it makes is not entered in the table.\<close>

definition FinishInit :: "driver_env \<Rightarrow> dword \<Rightarrow> dv_action" where
  "FinishInit env ConnectorIndex dv =
     (let info = \<lparr>mi_ConnectorIndex = ConnectorIndex,
                  mi_edid = (if unat ConnectorIndex \<ge> m_sMaxMonitorCount then [] else sm_pEdidBlock (s_SampleMonitors ! 0)), mi_ContainerId = de_guid env\<rparr>;
          (status, h) = de_create env info; ev = [dv_create info status h]
      in if NT_SUCCESS status then (put_context h IndirectMonitorContext_init dv, ev @ [dv_arrival h (de_arrival env h)]) else (dv, ev))"

definition CheckIndex :: "dword \<Rightarrow> ntstatus" where
  "CheckIndex index = (if unat index \<ge> m_sMaxMonitorCount then STATUS_ERROR_INDEX_OOR else STATUS_SUCCESS)"

definition plug_info :: "dword \<Rightarrow> dword \<Rightarrow> byte list \<Rightarrow> monitor_info" where
  "plug_info ConnectorIndex MonitorEDID ContainerID =
     \<lparr>mi_ConnectorIndex = ConnectorIndex,
      mi_edid = (if unat MonitorEDID \<ge> length s_SampleMonitors then [] else sm_pEdidBlock (s_SampleMonitors ! unat MonitorEDID)),
      mi_ContainerId = ContainerID\<rparr>"

definition PlugInMonitor :: "driver_env \<Rightarrow> dword \<Rightarrow> dword \<Rightarrow> byte list \<Rightarrow> device_context \<Rightarrow> dv_call" where
  "PlugInMonitor env ConnectorIndex MonitorEDID ContainerID dc dv =
     (if \<not> NT_SUCCESS (CheckIndex ConnectorIndex) then (dv, [], Some (CheckIndex ConnectorIndex))
      else if \<not> NT_SUCCESS (dc_AdapterInitStatus dc) then (dv, [], Some (dc_AdapterInitStatus dc))
      else if dc_Monitors dc ! unat ConnectorIndex \<noteq> None then (dv, [], Some STATUS_ERROR_MONITOR_EXISTS)
      else let info = plug_info ConnectorIndex MonitorEDID ContainerID; (status, h) = de_create env info; ev = [dv_create info status h]
           in if \<not> NT_SUCCESS status then (dv, ev, Some status)
              else let status = de_arrival env h; ev = ev @ [dv_arrival h status]
                   in if NT_SUCCESS status
                      then (put_context h IndirectMonitorContext_init
                              (dv\<lparr>dv_device := Some (dc\<lparr>dc_Monitors := (dc_Monitors dc)[unat ConnectorIndex := Some h]\<rparr>)\<rparr>), ev, Some status)
                      else (dv, ev @ [dv_departure h (de_departure env h)], Some status))"

definition PlugOutMonitor :: "driver_env \<Rightarrow> dword \<Rightarrow> device_context \<Rightarrow> dv_call" where
  "PlugOutMonitor env ConnectorIndex dc dv =
     (if \<not> NT_SUCCESS (CheckIndex ConnectorIndex) then (dv, [], Some (CheckIndex ConnectorIndex))
      else if unat ConnectorIndex \<ge> m_sMaxMonitorCount then (dv, [], Some STATUS_ERROR_INDEX_OOR)
      else case dc_Monitors dc ! unat ConnectorIndex of
             None \<Rightarrow> (dv, [], Some STATUS_ERROR_MONITOR_NOT_EXISTS)
           | Some h \<Rightarrow>
               let status = de_departure env h; ev = [dv_departure h status]
               in if NT_SUCCESS status
                  then (dv\<lparr>dv_device := Some (dc\<lparr>dc_Monitors := (dc_Monitors dc)[unat ConnectorIndex := None]\<rparr>)\<rparr>, ev, Some status)
                  else (dv, ev, Some status))"

text \<open>Fields of the input buffer, little-endian; outside the buffer there is no value.\<close>

definition dword_at :: "nat \<Rightarrow> byte list \<Rightarrow> dword option" where
  "dword_at off buf = (if off + 4 \<le> length buf then Some (frame_length (drop off buf)) else None)"

definition mode_at :: "byte list \<Rightarrow> nat \<Rightarrow> target_mode option" where
  "mode_at buf i = (case (dword_at (8 + 12 * i) buf, dword_at (8 + 12 * i + 4) buf, dword_at (8 + 12 * i + 8) buf) of
      (Some width, Some height, Some sync) \<Rightarrow> Some (CreateIddCxTargetMode width height sync)
    | _ \<Rightarrow> None)"

definition read_modes :: "byte list \<Rightarrow> nat \<Rightarrow> target_mode list option" where
  "read_modes buf n = those (map (mode_at buf) [0..<n])"

definition UpdateMonitorModes :: "driver_env \<Rightarrow> byte list \<Rightarrow> device_context \<Rightarrow> dv_call" where
  "UpdateMonitorModes env buf dc dv =
     (case (dword_at 0 buf, dword_at 4 buf) of
        (Some ConnectorIndex, Some ModeCount) \<Rightarrow>
          if \<not> NT_SUCCESS (CheckIndex ConnectorIndex) then (dv, [], Some (CheckIndex ConnectorIndex))
          else if unat ConnectorIndex \<ge> m_sMaxMonitorCount then (dv, [], Some STATUS_ERROR_INDEX_OOR)
          else (case dc_Monitors dc ! unat ConnectorIndex of
                  None \<Rightarrow> (dv, [], Some STATUS_ERROR_MONITOR_NOT_EXISTS)
                | Some h \<Rightarrow>
                    if ModeCount = 0 then (dv, [], Some STATUS_ERROR_MONITOR_INVALID_PARAM)
                    else if \<not> de_malloc env (unat ModeCount) then (dv, [], Some STATUS_ERROR_MONITOR_OOM)
                    else (case read_modes buf (unat ModeCount) of
                            None \<Rightarrow> (dv, [], None)
                          | Some modes \<Rightarrow> let status = de_update env h modes in (dv, [dv_updateModes h modes status], Some status)))
      | _ \<Rightarrow> (dv, [], None))"


section \<open>Swap chains\<close>

definition Direct3DDevice_Init :: "driver_env \<Rightarrow> hresult" where
  "Direct3DDevice_Init env =
     (let (factory, adapter, device) = de_d3d env
      in if \<not> SUCCEEDED factory then factory else if \<not> SUCCEEDED adapter then adapter else if \<not> SUCCEEDED device then device else 0)"

definition stop_thread :: "monitor_context \<Rightarrow> monitor_context \<times> dv_event list" where
  "stop_thread mx = (mx\<lparr>mx_ProcessingThread := None\<rparr>, case mx_ProcessingThread mx of None \<Rightarrow> [] | Some sc \<Rightarrow> [dv_stopThread sc])"

definition AssignSwapChain :: "driver_env \<Rightarrow> nat \<Rightarrow> monitor_context \<Rightarrow> monitor_context \<times> dv_event list" where
  "AssignSwapChain env sc mx =
     (let (mx1, ev) = stop_thread mx
      in if \<not> SUCCEEDED (Direct3DDevice_Init env) then (mx1, ev @ [dv_deleteSwapChain sc])
         else (mx1\<lparr>mx_ProcessingThread := Some sc\<rparr>, ev @ [dv_startThread sc]))"

definition UnassignSwapChain :: "monitor_context \<Rightarrow> monitor_context \<times> dv_event list" where
  "UnassignSwapChain mx = stop_thread mx"

definition with_context :: "nat \<Rightarrow> (monitor_context \<Rightarrow> monitor_context \<times> dv_event list) \<Rightarrow> dv_action" where
  "with_context h f dv = (case map_of (dv_contexts dv) h of
      None \<Rightarrow> (dv, [dv_nullPointer])
    | Some mx \<Rightarrow> let (mx', ev) = f mx in (put_context h mx' dv, ev))"

definition IddRustDeskMonitorAssignSwapChain :: "driver_env \<Rightarrow> nat \<Rightarrow> nat \<Rightarrow> dv_action" where
  "IddRustDeskMonitorAssignSwapChain env h sc = with_context h (AssignSwapChain env sc)"

definition IddRustDeskMonitorUnassignSwapChain :: "nat \<Rightarrow> dv_action" where
  "IddRustDeskMonitorUnassignSwapChain h = with_context h UnassignSwapChain"

text \<open>
  The thread of a swap chain. The answers of the \<open>n\<close>-th turn of the loop are arguments; the loop need not end, so it is a partial function.
\<close>

datatype acquire_result = AcquirePending | Acquired | AcquireFailed hresult

datatype wait_result = WaitBuffer | WaitTerminate | WaitTimeout | WaitOther

record chain_env =
  ch_asDxgi :: hresult
  ch_setDevice :: hresult
  ch_acquire :: "nat \<Rightarrow> acquire_result"
  ch_wait :: "nat \<Rightarrow> wait_result"
  ch_finished :: "nat \<Rightarrow> hresult"

datatype chain_event = ch_frame nat | ch_delete

partial_function (option) acquire_loop :: "chain_env \<Rightarrow> nat \<Rightarrow> chain_event list \<Rightarrow> chain_event list option" where
  "acquire_loop env n out =
     (case ch_acquire env n of
        AcquirePending \<Rightarrow>
          (case ch_wait env n of
             WaitBuffer \<Rightarrow> acquire_loop env (n + 1) out
           | WaitTimeout \<Rightarrow> acquire_loop env (n + 1) out
           | WaitTerminate \<Rightarrow> Some out
           | WaitOther \<Rightarrow> Some out)
      | Acquired \<Rightarrow>
          if \<not> SUCCEEDED (ch_finished env n) then Some (out @ [ch_frame n]) else acquire_loop env (n + 1) (out @ [ch_frame n])
      | AcquireFailed hr \<Rightarrow> Some out)"

definition RunCore :: "chain_env \<Rightarrow> chain_event list option" where
  "RunCore env =
     (if \<not> SUCCEEDED (ch_asDxgi env) then Some [] else if \<not> SUCCEEDED (ch_setDevice env) then Some [] else acquire_loop env 0 [])"

definition Run :: "chain_env \<Rightarrow> chain_event list option" where
  "Run env = (case RunCore env of None \<Rightarrow> None | Some out \<Rightarrow> Some (out @ [ch_delete]))"


section \<open>Callbacks\<close>

record io_request =
  rq_code :: dword
  rq_input :: "byte list"
  rq_outputLength :: nat

definition dword_bytes :: "dword \<Rightarrow> byte list" where
  "dword_bytes w = [ucast (w AND 0xFF), ucast (drop_bit 8 w AND 0xFF), ucast (drop_bit 16 w AND 0xFF), ucast (drop_bit 24 w AND 0xFF)]"

definition query_result :: "byte list" where
  "query_result = dword_bytes 0 @ concat (map (\<lambda>i. dword_bytes (of_nat i) @ dword_bytes 0)
     [0..<min QUICKDESK_VD_MAX_MONITORS m_sMaxMonitorCount])"

text \<open>Completing the request with the status of the call.\<close>

definition complete :: "driver \<times> dv_event list \<times> ntstatus option \<Rightarrow> driver \<times> dv_event list" where
  "complete r = (case r of (dv, ev, st) \<Rightarrow> (dv, ev @ [case st of None \<Rightarrow> dv_outOfBounds | Some status \<Rightarrow> dv_complete status []]))"

definition with_input :: "driver_env \<Rightarrow> io_request \<Rightarrow> nat \<Rightarrow> (byte list \<Rightarrow> dv_call) \<Rightarrow> dv_action" where
  "with_input env rq n f dv =
     (let status = de_input env (rq_input rq) n
      in complete (if NT_SUCCESS status then f (rq_input rq) dv else (dv, [], Some status)))"

definition ioctl_plugIn :: "driver_env \<Rightarrow> device_context \<Rightarrow> byte list \<Rightarrow> dv_call" where
  "ioctl_plugIn env dc buf dv = (case (dword_at 0 buf, dword_at 4 buf) of
      (Some ConnectorIndex, Some MonitorEDID) \<Rightarrow>
        if length buf < 24 then (dv, [], None) else PlugInMonitor env ConnectorIndex MonitorEDID (take 16 (drop 8 buf)) dc dv
    | _ \<Rightarrow> (dv, [], None))"

definition ioctl_plugOut :: "driver_env \<Rightarrow> device_context \<Rightarrow> byte list \<Rightarrow> dv_call" where
  "ioctl_plugOut env dc buf dv = (case dword_at 0 buf of Some ConnectorIndex \<Rightarrow> PlugOutMonitor env ConnectorIndex dc dv | None \<Rightarrow> (dv, [], None))"

definition IddRustDeskIoDeviceControl :: "driver_env \<Rightarrow> io_request \<Rightarrow> device_context \<Rightarrow> dv_action" where
  "IddRustDeskIoDeviceControl env rq dc =
     (if rq_code rq = IOCTL_QUICKDESK_VD_PLUG_IN then with_input env rq 24 (ioctl_plugIn env dc)
      else if rq_code rq = IOCTL_QUICKDESK_VD_PLUG_OUT then with_input env rq 4 (ioctl_plugOut env dc)
      else if rq_code rq = IOCTL_QUICKDESK_VD_UPDATE_MODE then with_input env rq (length (rq_input rq)) (\<lambda>buf. UpdateMonitorModes env buf dc)
      else if rq_code rq = IOCTL_QUICKDESK_VD_QUERY
      then (let status = de_output env (rq_outputLength rq) (length query_result)
            in emit [dv_complete status (if NT_SUCCESS status then query_result else [])])
      else emit [dv_complete STATUS_NOT_IMPLEMENTED []])"

definition IddRustDeskAdapterInitFinished :: "ntstatus \<Rightarrow> device_context \<Rightarrow> dv_action" where
  "IddRustDeskAdapterInitFinished status dc dv =
     (if dv_adapterContext dv then (dv\<lparr>dv_device := Some (dc\<lparr>dc_AdapterInitStatus := status\<rparr>)\<rparr>, []) else (dv, [dv_nullPointer]))"

definition IddRustDeskAdapterCommitModes :: dv_action where
  "IddRustDeskAdapterCommitModes = emit []"

text \<open>\<open>IddRustDeskDeviceAdd\<close>: four calls of the framework, then the context; the first that fails ends it.\<close>

definition IddRustDeskDeviceAdd :: "ntstatus \<times> ntstatus \<times> ntstatus \<times> ntstatus \<Rightarrow> driver \<times> ntstatus" where
  "IddRustDeskDeviceAdd r =
     (let (config, device, interface, init) = r; none = \<lparr>dv_device = None, dv_adapterContext = False, dv_contexts = []\<rparr>
      in if \<not> NT_SUCCESS config then (none, config) else if \<not> NT_SUCCESS device then (none, device)
         else if \<not> NT_SUCCESS interface then (none, interface) else if \<not> NT_SUCCESS init then (none, init)
         else (none\<lparr>dv_device := Some IndirectDeviceContext_init\<rparr>, init))"

definition with_device :: "(device_context \<Rightarrow> dv_action) \<Rightarrow> dv_action" where
  "with_device f dv = (case dv_device dv of None \<Rightarrow> (dv, [dv_nullPointer]) | Some dc \<Rightarrow> f dc dv)"

definition IddRustDeskDeviceD0Entry :: "driver_env \<Rightarrow> dv_action" where
  "IddRustDeskDeviceD0Entry env = with_device (InitAdapter env)"

definition device_cleanup :: dv_action where
  "device_cleanup dv = (dv\<lparr>dv_device := None\<rparr>, [])"

datatype dv_input =
    DV_d0Entry
  | DV_adapterInitFinished ntstatus
  | DV_ioctl io_request
  | DV_commitModes
  | DV_assignSwapChain nat nat
  | DV_unassignSwapChain nat

fun dv_exec :: "driver_env \<Rightarrow> dv_input \<Rightarrow> dv_action" where
  "dv_exec env DV_d0Entry = IddRustDeskDeviceD0Entry env"
| "dv_exec env (DV_adapterInitFinished status) = with_device (IddRustDeskAdapterInitFinished status)"
| "dv_exec env (DV_ioctl rq) = with_device (IddRustDeskIoDeviceControl env rq)"
| "dv_exec env DV_commitModes = IddRustDeskAdapterCommitModes"
| "dv_exec env (DV_assignSwapChain h sc) = IddRustDeskMonitorAssignSwapChain env h sc"
| "dv_exec env (DV_unassignSwapChain h) = IddRustDeskMonitorUnassignSwapChain h"

definition dv_run :: "(driver_env \<times> dv_input) list \<Rightarrow> dv_action" where
  "dv_run = for_each (\<lambda>(env, i). dv_exec env i)"

end
