(* ===== verification/IddController.thy ===== *)
theory IddController
  imports DisplayDriver
begin

text \<open>
  The control library of the virtual display, \<open>quickdesk-virtual-display/control/IddController.c\<close>: it installs the driver, creates the software device and
  sends the control requests. Its state is the last message and whether messages are printed. What Windows answers is the environment, a failing call
  with the code \<open>GetLastError\<close> gives; every handle and block of memory that is taken or given back is an event. The control codes come from a header that is not part of
  the repository and are fields of the environment too.
\<close>

unbundle bit_operations_syntax


section \<open>State and messages\<close>

record idd_state =
  ic_printMsg :: bool
  ic_lastMsg :: qstring

datatype resource = ErrorString | DeviceInfoList | HeapBlock | Memory | EventHandle | DeviceHandle | SoftwareDevice

datatype idd_event =
    ct_acquire resource
  | ct_release resource
  | ct_printFormat qstring \<comment> \<open>the message as the format of \<open>printf\<close>\<close>
  | ct_print qstring
  | ct_sleep nat
  | ct_ioctl dword "byte list"
  | ct_setLifetime dword
  | ct_setEvent
  | ct_outOfBounds

type_synonym idd_action = "(idd_state, idd_event) action"
type_synonym 'r idd_call = "idd_state \<Rightarrow> idd_state \<times> idd_event list \<times> 'r"

definition idd_init :: idd_state where
  "idd_init = \<lparr>ic_printMsg = False, ic_lastMsg = []\<rparr>"

definition g_msgHeader :: qstring where
  "g_msgHeader = ''RustDeskIdd: ''"

definition SetLastMsg :: "qstring \<Rightarrow> idd_action" where
  "SetLastMsg s = modify (\<lambda>st. st\<lparr>ic_lastMsg := take 1023 (g_msgHeader @ s)\<rparr>)"

definition GetLastMsg :: "idd_state \<Rightarrow> qstring" where
  "GetLastMsg st = ic_lastMsg st"

definition SetPrintErrMsg :: "int \<Rightarrow> idd_action" where
  "SetPrintErrMsg b = modify (\<lambda>st. st\<lparr>ic_printMsg := (b = 1)\<rparr>)"

definition printMsg :: idd_action where
  "printMsg st = (st, if ic_printMsg st then [ct_printFormat (ic_lastMsg st)] else [])"

text \<open>\<open>%x\<close>.\<close>

definition hex_digit :: "nat \<Rightarrow> char" where
  "hex_digit d = char_of (if d < 10 then 48 + d else 87 + d)"

fun hex_of_nat :: "nat \<Rightarrow> qstring" where
  "hex_of_nat n = (if n < 16 then [hex_digit n] else hex_of_nat (n div 16) @ [hex_digit (n mod 16)])"

declare hex_of_nat.simps [simp del]

definition hex :: "dword \<Rightarrow> qstring" where
  "hex w = ''0x'' @ hex_of_nat (unat w)"

text \<open>\<open>formatErrorString\<close> gives a string that has to be freed, or the null pointer.\<close>

type_synonym format_error = "dword \<Rightarrow> qstring option"

definition error_text :: "qstring option \<Rightarrow> qstring" where
  "error_text e = (case e of None \<Rightarrow> ''(NULL)'' @ [CHR 0x0A] | Some s \<Rightarrow> s)"

definition quiet_report :: "format_error \<Rightarrow> dword \<Rightarrow> (qstring \<Rightarrow> qstring) \<Rightarrow> idd_action" where
  "quiet_report formatErrorString error message =
     (let errorString = formatErrorString error
      in seq [guarded (errorString \<noteq> None) (emit [ct_acquire ErrorString]), SetLastMsg (message (error_text errorString)),
              guarded (errorString \<noteq> None) (emit [ct_release ErrorString])])"

definition report :: "format_error \<Rightarrow> dword \<Rightarrow> (qstring \<Rightarrow> qstring) \<Rightarrow> idd_action" where
  "report formatErrorString error message = seq [quiet_report formatErrorString error message, printMsg]"

definition failed_error :: "qstring \<Rightarrow> dword \<Rightarrow> qstring \<Rightarrow> qstring" where
  "failed_error what error s = ''Failed '' @ what @ '', error: '' @ hex error @ '', '' @ s"

definition failed_hresult :: "qstring \<Rightarrow> qstring \<Rightarrow> dword \<Rightarrow> qstring \<Rightarrow> qstring" where
  "failed_hresult what name hr s = ''Failed '' @ what @ '', '' @ name @ '' '' @ hex hr @ '', '' @ s"

definition returning :: "'r \<Rightarrow> idd_action \<Rightarrow> 'r idd_call" where
  "returning r a st = (let (st', ev) = a st in (st', ev, r))"

text \<open>\<open>after a f\<close>: the statements \<open>a\<close>, then the rest of the function.\<close>

definition after :: "idd_action \<Rightarrow> 'r idd_call \<Rightarrow> 'r idd_call" where
  "after a f st = (let (st1, ev1) = a st; (st2, ev2, r) = f st1 in (st2, ev1 @ ev2, r))"


section \<open>Installation\<close>

record idd_env =
  ie_format :: format_error
  ie_codePlugIn :: dword
  ie_codePlugOut :: dword
  ie_codeUpdate :: dword

definition newline :: qstring where "newline = [CHR 0x0A]"

definition install_hint :: "dword \<Rightarrow> qstring" where
  "install_hint error =
     (if error = 0x109 then ''  Please try: Install the cert.'' @ newline
      else if error = 0xE0000247
      then ''  Please try: '' @ newline @ ''1. Check the device manager and event viewer.'' @ newline
        @ ''2. Uninstall the driver, install the cert, then try again.'' @ newline
      else ''  Please try: Check the device manager and event viewer.'' @ newline)"

text \<open>The argument is what the installation returned: \<open>None\<close> for success, or the error that \<open>GetLastError\<close> gives then.\<close>

definition InstallUpdate :: "idd_env \<Rightarrow> dword option \<Rightarrow> bool idd_call" where
  "InstallUpdate env failed = after (SetLastMsg ''Success'')
     (case failed of
        None \<Rightarrow> returning True (seq [])
      | Some error \<Rightarrow>
          if error \<noteq> 0
          then returning False (report (ie_format env) error
                 (\<lambda>s. failed_error ''InstallUpdate UpdateDriverForPlugAndPlayDevicesW'' error s @ install_hint error))
          else returning True (seq []))"

definition Uninstall :: "idd_env \<Rightarrow> dword option \<Rightarrow> bool idd_call" where
  "Uninstall env failed = after (SetLastMsg ''Success'')
     (case failed of
        None \<Rightarrow> returning True (seq [])
      | Some error \<Rightarrow>
          if error \<noteq> 0 then returning False (report (ie_format env) error (failed_error ''Uninstall DiUninstallDriverW'' error))
          else returning True (seq []))"

definition ERROR_NO_MORE_ITEMS :: dword where "ERROR_NO_MORE_ITEMS = 259"

definition ERROR_INSUFFICIENT_BUFFER :: dword where "ERROR_INSUFFICIENT_BUFFER = 122"

text \<open>
  \<open>IsDeviceCreated\<close>: the list of devices, then its first entry. The result is \<open>None\<close> for a failure, or what is stored in \<open>created\<close>.
\<close>

definition IsDeviceCreated :: "idd_env \<Rightarrow> dword option \<Rightarrow> dword option \<Rightarrow> bool option idd_call" where
  "IsDeviceCreated env classDevs enum = after (SetLastMsg ''Success'')
     (case classDevs of
        Some error \<Rightarrow> returning None (report (ie_format env) error
          (\<lambda>s. ''Idd device: Failed IsDeviceCreated SetupDiGetClassDevs, error '' @ hex error @ '' ('' @ s @ '')'' @ newline))
      | None \<Rightarrow> after (emit [ct_acquire DeviceInfoList])
          (case enum of
             None \<Rightarrow> returning (Some True) (emit [ct_release DeviceInfoList])
           | Some error \<Rightarrow>
               if error = ERROR_NO_MORE_ITEMS then returning (Some False) (emit [ct_release DeviceInfoList])
               else returning None (seq [report (ie_format env) error
                      (\<lambda>s. ''Idd device: Failed IsDeviceCreated SetupDiEnumDeviceInterfaces, error: '' @ hex error @ '', '' @ s),
                    emit [ct_release DeviceInfoList]])))"


section \<open>The software device\<close>

record create_env =
  cr_event :: "dword option" \<comment> \<open>failure of \<open>CreateEvent\<close>\<close>
  cr_create :: hresult
  cr_handle :: "nat option" \<comment> \<open>what \<open>SwDeviceCreate\<close> stores in \<open>hSwDevice\<close>\<close>
  cr_callback :: "hresult option" \<comment> \<open>the callback that runs before the wait ends, with its result\<close>
  cr_wait :: dword
  cr_waitError :: dword

definition WAIT_OBJECT_0 :: dword where "WAIT_OBJECT_0 = 0"

definition WAIT_ABANDONED :: dword where "WAIT_ABANDONED = 0x80"

definition WAIT_TIMEOUT :: dword where "WAIT_TIMEOUT = 0x102"

definition E_FAIL :: hresult where "E_FAIL = 0x80004005"

definition SWDeviceLifetimeHandle :: dword where "SWDeviceLifetimeHandle = 0"

text \<open>The callback: the result it leaves in the context and its calls.\<close>

definition CreationCallback :: "dword option \<Rightarrow> hresult \<Rightarrow> hresult \<times> idd_event list" where
  "CreationCallback lifetime hrCreateResult =
     (hrCreateResult,
      (case lifetime of Some l \<Rightarrow> if SUCCEEDED hrCreateResult then [ct_setLifetime l] else [] | None \<Rightarrow> []) @ [ct_setEvent])"

definition wait_failed :: "idd_env \<Rightarrow> create_env \<Rightarrow> idd_action" where
  "wait_failed env cr =
     (if cr_wait cr = WAIT_ABANDONED
      then SetLastMsg (''Failed DeviceCreate wait for device creation 0x'' @ string_of_int (sint (cr_wait cr)) @ '', WAIT_ABANDONED'' @ newline)
      else if cr_wait cr = WAIT_TIMEOUT
      then SetLastMsg (''Failed DeviceCreate wait for device creation 0x'' @ string_of_int (sint (cr_wait cr)) @ '', WAIT_TIMEOUT'' @ newline)
      else guarded (cr_waitError cr \<noteq> 0)
             (quiet_report (ie_format env) (cr_waitError cr) (failed_error ''DeviceCreate wait for device creation'' (cr_waitError cr))))"

text \<open>The result is the value returned and the handle in \<open>hSwDevice\<close> afterwards.\<close>

definition DeviceCreateWithLifetime :: "idd_env \<Rightarrow> create_env \<Rightarrow> dword option \<Rightarrow> nat option \<Rightarrow> (bool \<times> nat option) idd_call" where
  "DeviceCreateWithLifetime env cr lifetime hSwDevice = after (SetLastMsg ''Success'')
     (if hSwDevice \<noteq> None then returning (False, hSwDevice) (SetLastMsg (''Device handle is not NULL'' @ newline))
      else case cr_event cr of
        Some error \<Rightarrow> returning (False, None) (report (ie_format env) error (failed_error ''DeviceCreate CreateEvent'' error))
      | None \<Rightarrow> after (emit [ct_acquire EventHandle])
          (if \<not> SUCCEEDED (cr_create cr)
           then returning (False, None) (report (ie_format env) (cr_create cr) (failed_hresult ''DeviceCreate SwDeviceCreate'' ''hresult'' (cr_create cr)))
           else let (hrCreateResult, calls) = (case cr_callback cr of None \<Rightarrow> (E_FAIL, []) | Some hr \<Rightarrow> CreationCallback lifetime hr)
                in after (emit (ct_acquire SoftwareDevice # calls @ [ct_print (''Waiting for device to be created....'' @ newline), ct_release EventHandle]))
                     (if cr_wait cr \<noteq> WAIT_OBJECT_0 then returning (False, cr_handle cr) (seq [wait_failed env cr, printMsg])
                      else if SUCCEEDED hrCreateResult then returning (True, cr_handle cr) (seq [])
                      else returning (False, cr_handle cr) (quiet_report (ie_format env) hrCreateResult
                             (failed_hresult ''DeviceCreate SwDeviceCreate'' ''hrCreateResult'' hrCreateResult)))))"

definition DeviceCreate :: "idd_env \<Rightarrow> create_env \<Rightarrow> nat option \<Rightarrow> (bool \<times> nat option) idd_call" where
  "DeviceCreate env cr hSwDevice = DeviceCreateWithLifetime env cr (Some SWDeviceLifetimeHandle) hSwDevice"

definition close_device :: idd_action where
  "close_device = emit [ct_setLifetime SWDeviceLifetimeHandle, ct_release SoftwareDevice]"

text \<open>A null handle: the device is looked for, taken over by creating it again, and closed.\<close>

definition DeviceClose :: "idd_env \<Rightarrow> create_env \<Rightarrow> dword option \<Rightarrow> dword option \<Rightarrow> nat option \<Rightarrow> unit idd_call" where
  "DeviceClose env cr classDevs enum hSwDevice = after (SetLastMsg ''Success'')
     (if hSwDevice \<noteq> None then returning () close_device
      else (\<lambda>st. let (st1, ev1, created) = IsDeviceCreated env classDevs enum st
                 in if created = Some False then (st1, ev1, ())
                    else let (st2, ev2, ok, h) = DeviceCreateWithLifetime env cr None None st1;
                             (st3, ev3) = (if ok \<and> h \<noteq> None then close_device st2 else (st2, []))
                         in (st3, ev1 @ ev2 @ ev3, ())))"


section \<open>Opening the device\<close>

record path_env =
  dp_classDevs :: "dword option"
  dp_enum :: "dword option"
  dp_probe :: dword \<comment> \<open>the error the first call for the details leaves\<close>
  dp_alloc :: "dword option"
  dp_detail :: "dword + qstring"
  dp_copy :: hresult
  dp_createFile :: "dword option"

definition GetDevicePath2 :: "idd_env \<Rightarrow> path_env \<Rightarrow> qstring option idd_call" where
  "GetDevicePath2 env dp =
     (case dp_classDevs dp of
        Some error \<Rightarrow> returning None (report (ie_format env) error (failed_error ''GetDevicePath2 SetupDiGetClassDevs'' error))
      | None \<Rightarrow> after (emit [ct_acquire DeviceInfoList])
          (let clean0 = emit [ct_release DeviceInfoList]; clean1 = emit [ct_release HeapBlock, ct_release DeviceInfoList]
           in case dp_enum dp of
                Some error \<Rightarrow> returning None (seq [report (ie_format env) error (failed_error ''GetDevicePath2 SetupDiEnumDeviceInterfaces'' error), clean0])
              | None \<Rightarrow>
                  if dp_probe dp \<noteq> ERROR_INSUFFICIENT_BUFFER
                  then returning None (seq [report (ie_format env) (dp_probe dp)
                         (\<lambda>s. ''GetDevicePath2 SetupDiGetDeviceInterfaceDetail failed, error: '' @ hex (dp_probe dp) @ '', '' @ s), clean0])
                  else (case dp_alloc dp of
                          Some error \<Rightarrow> returning None (seq [report (ie_format env) error (failed_error ''GetDevicePath2 HeapAlloc'' error), clean0])
                        | None \<Rightarrow> after (emit [ct_acquire HeapBlock])
                            (case dp_detail dp of
                               Inl error \<Rightarrow> returning None (seq [report (ie_format env) error
                                 (failed_error ''GetDevicePath2 SetupDiGetDeviceInterfaceDetail'' error), clean1])
                             | Inr path \<Rightarrow>
                                 if \<not> SUCCEEDED (dp_copy dp)
                                 then returning None (seq [report (ie_format env) (dp_copy dp)
                                        (failed_hresult ''GetDevicePath2 StringCchCopy'' ''hresult'' (dp_copy dp)), clean1])
                                 else returning (Some path) clean1))))"

text \<open>
  \<open>GetDevicePath\<close>, an earlier way that no code uses any more: the list of all interfaces, asked for up to three times, of which the first is taken.
\<close>

record list_env =
  li_size :: dword
  li_length :: dword
  li_alloc :: bool
  li_list :: "nat \<Rightarrow> dword + qstring"
  li_second :: bool
  li_copy :: hresult

fun list_loop :: "list_env \<Rightarrow> nat \<Rightarrow> qstring \<Rightarrow> qstring option idd_call" where
  "list_loop li 0 found st = (st, [], Some found)"
| "list_loop li (Suc n) found st =
     (if found \<noteq> [] then (st, [], Some found)
      else case li_list li n of
             Inl cr \<Rightarrow> returning None (seq [SetLastMsg (''Error GetDevicePath '' @ hex cr @ '' retrieving device interface list.'' @ newline), printMsg]) st
           | Inr found' \<Rightarrow> after (emit [ct_print (''get deviceInterfaceList '' @ found' @ newline), ct_sleep 1000]) (list_loop li n found') st)"

definition copy_path :: "idd_env \<Rightarrow> list_env \<Rightarrow> qstring \<Rightarrow> qstring option idd_call" where
  "copy_path env li path = after
     (emit ((if li_second li then [ct_print (''Warning: More than one device interface instance found. '' @ newline
               @ ''Selecting first matching device.'' @ newline @ newline)] else []) @ [ct_print (''begin copy device path'' @ newline)]))
     (if \<not> SUCCEEDED (li_copy li)
      then returning None (report (ie_format env) (li_copy li) (failed_hresult ''GetDevicePath StringCchCopy'' ''hresult'' (li_copy li)))
      else returning (Some path) (seq []))"

definition GetDevicePath :: "idd_env \<Rightarrow> list_env \<Rightarrow> qstring option idd_call" where
  "GetDevicePath env li =
     (if li_size li \<noteq> 0
      then returning None (seq [SetLastMsg (''Failed GetDevicePath '' @ hex (li_size li) @ '', retrieving device interface list size.'' @ newline), printMsg])
      else if li_length li \<le> 1
      then returning None (seq [SetLastMsg (''Error: GetDevicePath No active device interfaces found. Is the sample driver loaded?'' @ newline), printMsg])
      else if \<not> li_alloc li
      then returning None (seq [SetLastMsg (''Error GetDevicePath allocating memory for device interface list.'' @ newline), printMsg])
      else (\<lambda>st. let (st1, ev1, r) = list_loop li 3 [] st;
                     (st2, ev2, path) = (case r of None \<Rightarrow> (st1, [], None) | Some found \<Rightarrow> copy_path env li found st1)
                 in (st2, ct_acquire Memory # ev1 @ ev2 @ [ct_release Memory], path)))"

text \<open>\<open>DeviceOpenHandle\<close>; the result tells whether there is a handle.\<close>

definition DeviceOpenHandle :: "idd_env \<Rightarrow> path_env \<Rightarrow> bool idd_call" where
  "DeviceOpenHandle env dp = after (SetLastMsg ''Success'')
     (\<lambda>st. case GetDevicePath2 env dp st of
        (st1, ev1, None) \<Rightarrow> (st1, ev1, False)
      | (st1, ev1, Some path) \<Rightarrow>
          let (st2, ev2, ok) =
            (if path = [] then returning False (seq [SetLastMsg (''DeviceOpenHandle GetDevicePath got empty device path'' @ newline), printMsg])
             else after (emit [ct_print (''Idd device: try open '' @ path @ newline)])
               (case dp_createFile dp of
                  Some error \<Rightarrow> returning False (report (ie_format env) error (failed_error ''DeviceOpenHandle CreateFile'' error))
                | None \<Rightarrow> returning True (emit [ct_acquire DeviceHandle]))) st1
          in (st2, ev1 @ ev2, ok))"

definition DeviceCloseHandle :: "bool \<Rightarrow> idd_action" where
  "DeviceCloseHandle h = guarded h (emit [ct_release DeviceHandle])"


section \<open>Control requests\<close>

text \<open>\<open>open_loop\<close> has \<open>n\<close> attempts; it returns how many are left when the device has been opened, the successful one included, or \<open>None\<close>.\<close>

fun open_loop :: "idd_env \<Rightarrow> (nat \<Rightarrow> path_env) \<Rightarrow> nat \<Rightarrow> nat option idd_call" where
  "open_loop env dp 0 st = (st, [], None)"
| "open_loop env dp (Suc n) st =
     (case DeviceOpenHandle env (dp n) st of
        (st1, ev1, True) \<Rightarrow> (st1, ev1, Some (Suc n))
      | (st1, ev1, False) \<Rightarrow> (case open_loop env dp n st1 of (st2, ev2, r) \<Rightarrow> (st2, ev1 @ ct_sleep 1000 # ev2, r)))"

text \<open>The requests with \<open>n\<close> attempts: those made, and the error of the last one if all have failed.\<close>

fun ioctl_loop :: "(nat \<Rightarrow> dword option) \<Rightarrow> idd_event \<Rightarrow> nat \<Rightarrow> idd_event list \<times> bool" where
  "ioctl_loop ioctl request 0 = ([], False)"
| "ioctl_loop ioctl request (Suc n) =
     (if ioctl n = None then ([request], True) else let (ev, ok) = ioctl_loop ioctl request n in (request # ev, ok))"

definition plugIn_buffer :: "dword \<Rightarrow> dword \<Rightarrow> byte list \<Rightarrow> byte list" where
  "plugIn_buffer index edid containerId = dword_bytes index @ dword_bytes edid @ containerId"

definition MonitorPlugIn ::
    "idd_env \<Rightarrow> (nat \<Rightarrow> path_env) \<Rightarrow> hresult \<Rightarrow> byte list \<Rightarrow> (nat \<Rightarrow> dword option) \<Rightarrow> dword \<Rightarrow> dword \<Rightarrow> dword \<Rightarrow> 32 word \<Rightarrow> bool idd_call" where
  "MonitorPlugIn env dp guidResult guid ioctl lastError index edid retries = after (SetLastMsg ''Success'')
     (if sint retries < 0
      then returning False (seq [SetLastMsg (''Failed MonitorPlugIn invalid tries '' @ string_of_int (sint retries) @ newline), printMsg])
      else (\<lambda>st. case open_loop env dp (nat (sint retries) + 1) st of
              (st1, ev1, None) \<Rightarrow> (st1, ev1, False)
            | (st1, ev1, Some left) \<Rightarrow>
                let (st2, ev2, ret) =
                  (if \<not> SUCCEEDED guidResult
                   then returning False (report (ie_format env) guidResult (failed_hresult ''MonitorPlugIn CoCreateGuid'' ''hresult'' guidResult))
                   else let (ev, ok) = ioctl_loop ioctl (ct_ioctl (ie_codePlugIn env) (plugIn_buffer index edid guid)) left
                        in after (emit ev) (if ok then returning True (seq [])
                             else returning False (report (ie_format env) lastError (failed_error ''MonitorPlugIn DeviceIoControl'' lastError)))) st1;
                    (st3, ev3) = DeviceCloseHandle True st2
                in (st3, ev1 @ ev2 @ ev3, ret)))"

definition send_ioctl :: "idd_env \<Rightarrow> qstring \<Rightarrow> dword \<Rightarrow> byte list \<Rightarrow> dword option \<Rightarrow> bool idd_call" where
  "send_ioctl env what code buf failed = after (emit [ct_ioctl code buf])
     (case failed of
        None \<Rightarrow> returning True (seq [])
      | Some error \<Rightarrow> returning False (report (ie_format env) error (failed_error (what @ '' DeviceIoControl'') error)))"

definition MonitorPlugOut :: "idd_env \<Rightarrow> path_env \<Rightarrow> dword option \<Rightarrow> dword \<Rightarrow> bool idd_call" where
  "MonitorPlugOut env dp ioctl index = after (SetLastMsg ''Success'')
     (\<lambda>st. case DeviceOpenHandle env dp st of
        (st1, ev1, False) \<Rightarrow> (st1, ev1, False)
      | (st1, ev1, True) \<Rightarrow>
          let (st2, ev2, ret) = send_ioctl env ''MonitorPlugOut'' (ie_codePlugOut env) (dword_bytes index) ioctl st1; (st3, ev3) = DeviceCloseHandle True st2
          in (st3, ev1 @ ev2 @ ev3, ret))"

type_synonym idd_mode = "dword \<times> dword \<times> dword"

definition mode_bytes :: "idd_mode \<Rightarrow> byte list" where
  "mode_bytes m = (case m of (width, height, sync) \<Rightarrow> dword_bytes width @ dword_bytes height @ dword_bytes sync)"

definition modes_buffer :: "dword \<Rightarrow> dword \<Rightarrow> idd_mode list \<Rightarrow> byte list" where
  "modes_buffer index modeCount modes = dword_bytes index @ dword_bytes modeCount @ concat (map mode_bytes (take (unat modeCount) modes))"

text \<open>The length passed to \<open>DeviceIoControl\<close> is a 32-bit number. \<open>alloc\<close> tells whether \<open>malloc\<close> succeeds.\<close>

definition MonitorModesUpdate :: "idd_env \<Rightarrow> path_env \<Rightarrow> bool \<Rightarrow> dword option \<Rightarrow> dword \<Rightarrow> dword \<Rightarrow> idd_mode list \<Rightarrow> bool idd_call" where
  "MonitorModesUpdate env dp alloc ioctl index modeCount modes = after (SetLastMsg ''Success'')
     (\<lambda>st. case DeviceOpenHandle env dp st of
        (st1, ev1, False) \<Rightarrow> (st1, ev1, False)
      | (st1, ev1, True) \<Rightarrow>
          let (st2, ev2, ret) =
            (if \<not> alloc then returning False (seq [SetLastMsg (''Failed MonitorModesUpdate CtlMonitorModes malloc'' @ newline), printMsg])
             else if length modes < unat modeCount then returning False (emit [ct_acquire Memory, ct_outOfBounds])
             else let buf = modes_buffer index modeCount modes; buflen = 8 + 12 * unat modeCount
                  in (\<lambda>st. let (st', ev, ret) = send_ioctl env ''MonitorModesUpdate'' (ie_codeUpdate env) (take (buflen mod 2 ^ 32) buf) ioctl st;
                               (st'', ev') = DeviceCloseHandle True st'
                           in (st'', ct_acquire Memory # ev @ ct_release Memory # ev', ret))) st1
          in (st2, ev1 @ ev2, ret))"

end
