(* ===== verification/DriverProperties.thy ===== *)
theory DriverProperties
  imports DisplayDriver
begin

text \<open>
  The virtual display driver: its table is the set of monitors Windows has been told about, control requests read outside their buffer in exactly one
  case, every mode of a monitor can be shown, the thread of a swap chain ends when the loop is told to. Then the places where the driver goes wrong.
\<close>

unbundle bit_operations_syntax


section \<open>Windows' view of the monitors\<close>

record os_state =
  os_created :: "(nat \<times> monitor_info) list"
  os_present :: "nat set"

definition os_init :: os_state where
  "os_init = \<lparr>os_created = [], os_present = {}\<rparr>"

fun os_step :: "dv_event \<Rightarrow> os_state \<Rightarrow> os_state" where
  "os_step (dv_create info status h) os = (if NT_SUCCESS status then os\<lparr>os_created := (h, info) # os_created os\<rparr> else os)"
| "os_step (dv_arrival h status) os = (if NT_SUCCESS status then os\<lparr>os_present := insert h (os_present os)\<rparr> else os)"
| "os_step (dv_departure h status) os = (if NT_SUCCESS status then os\<lparr>os_present := os_present os - {h}\<rparr> else os)"
| "os_step _ os = os"

definition os_of :: "dv_event list \<Rightarrow> os_state \<Rightarrow> os_state" where
  "os_of = fold os_step"

definition connector :: "os_state \<Rightarrow> nat \<Rightarrow> nat option" where
  "connector os h = map_option (unat \<circ> mi_ConnectorIndex) (map_of (os_created os) h)"

text \<open>Windows does not give a monitor that is made the handle of one that is present.\<close>

fun fresh_event :: "os_state \<Rightarrow> dv_event \<Rightarrow> bool" where
  "fresh_event os (dv_create info status h) \<longleftrightarrow> (NT_SUCCESS status \<longrightarrow> h \<notin> os_present os)"
| "fresh_event os _ \<longleftrightarrow> True"

fun fresh_handles :: "(driver_env \<times> dv_input) list \<Rightarrow> driver \<Rightarrow> os_state \<Rightarrow> bool" where
  "fresh_handles [] dv os = True"
| "fresh_handles ((env, i) # is) dv os =
     (let r = dv_exec env i dv in list_all (fresh_event os) (snd r) \<and> fresh_handles is (fst r) (os_of (snd r) os))"

definition table_ok :: "device_context \<Rightarrow> os_state \<Rightarrow> bool" where
  "table_ok dc os \<longleftrightarrow> length (dc_Monitors dc) = m_sMaxMonitorCount
     \<and> (\<forall>c < m_sMaxMonitorCount. \<forall>h. dc_Monitors dc ! c = Some h \<longrightarrow> h \<in> os_present os \<and> connector os h = Some c)
     \<and> (\<forall>h \<in> os_present os. Some h \<in> set (dc_Monitors dc))"

definition driver_ok :: "driver \<Rightarrow> os_state \<Rightarrow> bool" where
  "driver_ok dv os \<longleftrightarrow> (\<exists>dc. dv_device dv = Some dc \<and> table_ok dc os)"

lemma os_of_simps [simp]: "os_of [] os = os" "os_of (e # es) os = os_of es (os_step e os)" "os_of (xs @ ys) os = os_of ys (os_of xs os)"
  by (simp_all add: os_of_def)

lemma driver_okI: "dv_device dv = Some dc \<Longrightarrow> table_ok dc os \<Longrightarrow> driver_ok dv os"
  by (auto simp: driver_ok_def)

lemma put_context_device [simp]: "dv_device (put_context h mx dv) = dv_device dv"
  by (simp add: put_context_def)

lemma table_ok_length: "table_ok dc os \<Longrightarrow> length (dc_Monitors dc) = m_sMaxMonitorCount"
  by (simp add: table_ok_def)

lemma table_ok_entry: "table_ok dc os \<Longrightarrow> h \<in> os_present os \<Longrightarrow> \<exists>i < m_sMaxMonitorCount. dc_Monitors dc ! i = Some h"
  unfolding table_ok_def by (metis in_set_conv_nth)

text \<open>A new handle does not disturb what is in the table.\<close>

lemma table_ok_create:
  assumes "table_ok dc os" "h \<notin> os_present os"
  shows "table_ok dc (os\<lparr>os_created := (h, info) # os_created os\<rparr>)"
  using assms by (auto simp: table_ok_def connector_def)

lemma table_ok_plug:
  assumes ok: "table_ok dc os" and new: "h \<notin> os_present os" and c: "c < m_sMaxMonitorCount" "dc_Monitors dc ! c = None" "connector os h = Some c"
  shows "table_ok (dc\<lparr>dc_Monitors := (dc_Monitors dc)[c := Some h]\<rparr>) (os\<lparr>os_present := insert h (os_present os)\<rparr>)"
proof -
  have len: "length (dc_Monitors dc) = m_sMaxMonitorCount" using ok by (rule table_ok_length)
  have upd: "(dc_Monitors dc)[c := v] ! i = (if i = c then v else dc_Monitors dc ! i)" for i v using c(1) len by (cases "i = c") auto
  have "Some k \<in> set ((dc_Monitors dc)[c := Some h])" if kp: "k \<in> insert h (os_present os)" for k
  proof (cases "k = h")
    case True
    then show ?thesis using c(1) len set_update_memI[of c "dc_Monitors dc" "Some h"] by simp
  next
    case False
    then obtain i where i: "i < m_sMaxMonitorCount" "dc_Monitors dc ! i = Some k"
      using table_ok_entry[OF ok] kp by blast
    then have "(dc_Monitors dc)[c := Some h] ! i = Some k" using c(2) by (metis nth_list_update_neq option.discI)
    then show ?thesis using i(1) len by (metis length_list_update nth_mem)
  qed
  moreover have "connector (os\<lparr>os_present := insert h (os_present os)\<rparr>) = connector os" by (simp add: connector_def fun_eq_iff)
  ultimately show ?thesis using ok c len by (auto simp: table_ok_def upd split: if_splits)
qed

lemma table_ok_unplug:
  assumes ok: "table_ok dc os" and c: "c < m_sMaxMonitorCount" "dc_Monitors dc ! c = Some h"
  shows "table_ok (dc\<lparr>dc_Monitors := (dc_Monitors dc)[c := None]\<rparr>) (os\<lparr>os_present := os_present os - {h}\<rparr>)"
proof -
  have len: "length (dc_Monitors dc) = m_sMaxMonitorCount" using ok by (rule table_ok_length)
  have upd: "(dc_Monitors dc)[c := v] ! i = (if i = c then v else dc_Monitors dc ! i)" for i v using c(1) len by (cases "i = c") auto
  have con: "connector (os\<lparr>os_present := os_present os - {h}\<rparr>) = connector os" by (simp add: connector_def fun_eq_iff)
  have "Some k \<in> set ((dc_Monitors dc)[c := None])" if kp: "k \<in> os_present os" "k \<noteq> h" for k
  proof -
    obtain i where i: "i < m_sMaxMonitorCount" "dc_Monitors dc ! i = Some k"
      using table_ok_entry[OF ok kp(1)] by blast
    then have "(dc_Monitors dc)[c := None] ! i = Some k" using c(2) kp(2) by (metis nth_list_update_neq option.inject)
    then show ?thesis using i(1) len by (metis length_list_update nth_mem)
  qed
  moreover have "i = c" if "i < m_sMaxMonitorCount" "dc_Monitors dc ! i = Some h" for i
    using ok that c unfolding table_ok_def by (metis option.inject)
  ultimately show ?thesis using ok len con by (auto simp: table_ok_def upd split: if_splits)
qed

lemma table_ok_absent: "table_ok dc os \<Longrightarrow> h \<notin> os_present os \<Longrightarrow> table_ok dc (os\<lparr>os_present := os_present os - {h}\<rparr>)"
  by (simp add: table_ok_def connector_def)

text \<open>What a method does to the table and to Windows' view.\<close>

definition in_step :: "driver \<Rightarrow> os_state \<Rightarrow> driver \<times> dv_event list \<Rightarrow> bool" where
  "in_step dv os r \<longleftrightarrow> (driver_ok dv os \<longrightarrow> list_all (fresh_event os) (snd r) \<longrightarrow> driver_ok (fst r) (os_of (snd r) os))"

lemma CheckIndex_range: "NT_SUCCESS (CheckIndex c) \<longleftrightarrow> unat c < m_sMaxMonitorCount"
  by (simp add: CheckIndex_def NT_SUCCESS_def STATUS_ERROR_INDEX_OOR_def STATUS_SUCCESS_def)

lemma plug_in_step:
  assumes "dv_device dv = Some dc" "PlugInMonitor env c e g dc dv = (dv', ev, st)"
  shows "in_step dv os (dv', ev)"
proof -
  obtain status h where create: "de_create env (plug_info c e g) = (status, h)" by (cases "de_create env (plug_info c e g)")
  consider (refused) "dv' = dv" "ev = []" | (failed) "dv' = dv" "ev = [dv_create (plug_info c e g) status h]" "\<not> NT_SUCCESS status"
    | (gone) "dv' = dv" "NT_SUCCESS status" "\<not> NT_SUCCESS (de_arrival env h)"
        "ev = [dv_create (plug_info c e g) status h, dv_arrival h (de_arrival env h), dv_departure h (de_departure env h)]"
    | (arrived) "NT_SUCCESS status" "NT_SUCCESS (de_arrival env h)" "unat c < m_sMaxMonitorCount" "dc_Monitors dc ! unat c = None"
        "dv' = put_context h IndirectMonitorContext_init (dv\<lparr>dv_device := Some (dc\<lparr>dc_Monitors := (dc_Monitors dc)[unat c := Some h]\<rparr>)\<rparr>)"
        "ev = [dv_create (plug_info c e g) status h, dv_arrival h (de_arrival env h)]"
    using assms(2) create by (auto simp: PlugInMonitor_def CheckIndex_range Let_def split: if_splits)
  then show ?thesis
  proof cases
    case arrived
    let ?os = "os\<lparr>os_created := (h, plug_info c e g) # os_created os\<rparr>"
    have "connector ?os h = Some (unat c)" by (simp add: connector_def plug_info_def)
    with arrived(1-4) assms(1) show ?thesis
      by (auto simp: in_step_def arrived(5,6) driver_ok_def intro!: table_ok_plug[where os = ?os, simplified] table_ok_create)
  next
    case gone
    with assms(1) show ?thesis
      by (auto simp: in_step_def driver_ok_def intro!: table_ok_create
          table_ok_absent[where os = "os\<lparr>os_created := (h, plug_info c e g) # os_created os\<rparr>", simplified])
  qed (simp_all add: in_step_def)
qed

lemma plug_out_step:
  assumes "dv_device dv = Some dc" "PlugOutMonitor env c dc dv = (dv', ev, st)"
  shows "in_step dv os (dv', ev)"
proof -
  consider (kept) "dv' = dv" "os_of ev os = os" | (gone) h where "unat c < m_sMaxMonitorCount" "dc_Monitors dc ! unat c = Some h"
      "dv' = dv\<lparr>dv_device := Some (dc\<lparr>dc_Monitors := (dc_Monitors dc)[unat c := None]\<rparr>)\<rparr>" "ev = [dv_departure h (de_departure env h)]"
      "NT_SUCCESS (de_departure env h)"
    using assms(2) by (auto simp: PlugOutMonitor_def CheckIndex_range Let_def split: if_splits option.splits)
  then show ?thesis
  proof cases
    case gone
    then show ?thesis using assms(1) by (auto simp: in_step_def driver_ok_def intro!: table_ok_unplug)
  qed (simp add: in_step_def)
qed

lemma update_step:
  assumes "UpdateMonitorModes env buf dc dv = (dv', ev, st)"
  shows "in_step dv os (dv', ev)"
  using assms by (auto simp: in_step_def UpdateMonitorModes_def Let_def split: if_splits option.splits)

lemma complete_step:
  assumes "in_step dv os (fst r, fst (snd r))"
  shows "in_step dv os (complete r)"
proof -
  obtain dv' ev st where r: "r = (dv', ev, st)" by (cases r)
  have "os_of (ev @ [case st of None \<Rightarrow> dv_outOfBounds | Some status \<Rightarrow> dv_complete status []]) os = os_of ev os"
    "list_all (fresh_event os) (ev @ [case st of None \<Rightarrow> dv_outOfBounds | Some status \<Rightarrow> dv_complete status []]) = list_all (fresh_event os) ev"
    by (cases st; simp)+
  with assms show ?thesis by (simp add: r complete_def in_step_def)
qed

lemma with_input_step:
  assumes "\<And>dv' ev st. f (rq_input rq) dv = (dv', ev, st) \<Longrightarrow> in_step dv os (dv', ev)"
  shows "in_step dv os (with_input env rq n f dv)"
  unfolding with_input_def Let_def
proof (rule complete_step, cases "NT_SUCCESS (de_input env (rq_input rq) n)")
  case True
  then show "in_step dv os (fst (if NT_SUCCESS (de_input env (rq_input rq) n) then f (rq_input rq) dv else (dv, [], Some (de_input env (rq_input rq) n))),
      fst (snd (if NT_SUCCESS (de_input env (rq_input rq) n) then f (rq_input rq) dv else (dv, [], Some (de_input env (rq_input rq) n)))))"
    by (cases "f (rq_input rq) dv") (simp add: assms)
qed (simp add: in_step_def)

lemma ioctl_step:
  assumes "dv_device dv = Some dc"
  shows "in_step dv os (IddRustDeskIoDeviceControl env rq dc dv)"
proof -
  have "in_step dv os (with_input env rq 24 (ioctl_plugIn env dc) dv)"
    by (rule with_input_step) (auto simp: ioctl_plugIn_def in_step_def split: option.splits if_splits dest: plug_in_step[OF assms, of _ _ _ _ _ _ _ os, unfolded in_step_def])
  moreover have "in_step dv os (with_input env rq 4 (ioctl_plugOut env dc) dv)"
    by (rule with_input_step) (auto simp: ioctl_plugOut_def in_step_def split: option.splits dest: plug_out_step[OF assms, of _ _ _ _ _ os, unfolded in_step_def])
  moreover have "in_step dv os (with_input env rq (length (rq_input rq)) (\<lambda>buf. UpdateMonitorModes env buf dc) dv)"
    by (rule with_input_step) (rule update_step)
  moreover have "in_step dv os (emit [dv_complete a b] dv)" for a b by (simp add: in_step_def emit_def)
  ultimately show ?thesis by (simp add: IddRustDeskIoDeviceControl_def Let_def)
qed

lemma with_context_step: "(\<And>mx. \<forall>e \<in> set (snd (f mx)). \<exists>sc. e = dv_startThread sc \<or> e = dv_stopThread sc \<or> e = dv_deleteSwapChain sc) \<Longrightarrow> in_step dv os (with_context h f dv)"
proof -
  assume a: "\<And>mx. \<forall>e \<in> set (snd (f mx)). \<exists>sc. e = dv_startThread sc \<or> e = dv_stopThread sc \<or> e = dv_deleteSwapChain sc"
  have "os_of es os = os" if "\<forall>e \<in> set es. \<exists>sc. e = dv_startThread sc \<or> e = dv_stopThread sc \<or> e = dv_deleteSwapChain sc" for es
    using that by (induction es) auto
  then show ?thesis using a by (auto simp: with_context_def in_step_def driver_ok_def split_beta Let_def split: option.split)
qed

lemma exec_step: "in_step dv os (dv_exec env i dv)"
proof (cases i)
  case (DV_ioctl rq)
  then show ?thesis by (auto simp: with_device_def ioctl_step split: option.split) (simp add: in_step_def driver_ok_def)
next
  case (DV_assignSwapChain h sc)
  then show ?thesis
    by (auto simp: IddRustDeskMonitorAssignSwapChain_def AssignSwapChain_def stop_thread_def intro!: with_context_step split: option.splits if_splits)
next
  case (DV_unassignSwapChain h)
  then show ?thesis
    by (auto simp: IddRustDeskMonitorUnassignSwapChain_def UnassignSwapChain_def stop_thread_def intro!: with_context_step split: option.splits)
qed (auto simp: in_step_def with_device_def IddRustDeskDeviceD0Entry_def InitAdapter_def IddRustDeskAdapterInitFinished_def IddRustDeskAdapterCommitModes_def
    driver_ok_def table_ok_def Let_def split: option.split prod.split)


lemma run_step: "fresh_handles is dv os \<Longrightarrow> driver_ok dv os \<Longrightarrow> driver_ok (fst (dv_run is dv)) (os_of (snd (dv_run is dv)) os)"
proof (induction "is" arbitrary: dv os)
  case (Cons x xs)
  obtain env i where x: "x = (env, i)" by (cases x)
  have "driver_ok (fst (dv_exec env i dv)) (os_of (snd (dv_exec env i dv)) os)" "fresh_handles xs (fst (dv_exec env i dv)) (os_of (snd (dv_exec env i dv)) os)"
    using Cons.prems exec_step[of dv os env i] by (simp_all add: x Let_def in_step_def)
  from Cons.IH[OF this(2,1)] show ?case by (simp add: x dv_run_def for_each_Cons)
qed (simp add: dv_run_def)

text \<open>
  C34. The driver's table is the set of monitors Windows has been told have arrived and not departed. After any sequence of control requests and
  callbacks, whatever Windows answers, the monitor at place \<open>c\<close> of the table is present and was made for connector \<open>c\<close>, and every monitor that is
  present stands in the table. So no monitor is lost and there are never more than ten.
\<close>

theorem driver_table_matches_windows:
  fixes "is" :: "(driver_env \<times> dv_input) list"
  defines "dv0 \<equiv> fst (IddRustDeskDeviceAdd (0, 0, 0, 0))"
  defines "r \<equiv> dv_run is dv0"
  defines "os \<equiv> os_of (snd r) os_init"
  assumes fresh: "fresh_handles is dv0 os_init"
  shows "\<exists>dc. dv_device (fst r) = Some dc
    \<and> (\<forall>c < 10. \<forall>h. dc_Monitors dc ! c = Some h \<longrightarrow> h \<in> os_present os \<and> connector os h = Some c)
    \<and> os_present os = {h. Some h \<in> set (dc_Monitors dc)} \<and> card (os_present os) \<le> 10"
proof -
  have "driver_ok dv0 os_init"
    by (auto simp: dv0_def IddRustDeskDeviceAdd_def NT_SUCCESS_def IndirectDeviceContext_init_def driver_ok_def table_ok_def os_init_def)
  then have "driver_ok (fst r) os" unfolding r_def os_def using fresh by (intro run_step)
  then obtain dc where dc: "dv_device (fst r) = Some dc" "table_ok dc os" by (auto simp: driver_ok_def)
  then have len: "length (dc_Monitors dc) = 10" by (simp add: table_ok_def m_sMaxMonitorCount_def)
  from dc(2) have eq: "os_present os = {h. Some h \<in> set (dc_Monitors dc)}"
    unfolding table_ok_def by (auto simp: in_set_conv_nth)
  have "Some ` os_present os \<subseteq> set (dc_Monitors dc)" by (auto simp: eq)
  then have "card (os_present os) \<le> card (set (dc_Monitors dc))"
    using card_mono[OF finite_set] card_image[of Some "os_present os"] by (metis inj_Some)
  also have "\<dots> \<le> 10" using card_length[of "dc_Monitors dc"] len by simp
  finally show ?thesis using dc eq by (intro exI[of _ dc]) (auto simp: table_ok_def m_sMaxMonitorCount_def)
qed


section \<open>Control requests\<close>

lemma those_None_iff: "those xs = None \<longleftrightarrow> None \<in> set xs"
  by (induction xs) (auto split: option.split)

lemma mode_at_None_iff: "mode_at buf i = None \<longleftrightarrow> length buf < 8 + 12 * (i + 1)"
  by (auto simp: mode_at_def dword_at_def)

lemma read_modes_None_iff: "read_modes buf n = None \<longleftrightarrow> n > 0 \<and> length buf < 8 + 12 * n"
proof
  assume "read_modes buf n = None"
  then obtain i where "i < n" "mode_at buf i = None" by (auto simp: read_modes_def those_None_iff)
  then show "n > 0 \<and> length buf < 8 + 12 * n" by (auto simp: mode_at_None_iff)
next
  assume a: "n > 0 \<and> length buf < 8 + 12 * n"
  then have "mode_at buf (n - 1) = None" by (simp add: mode_at_None_iff)
  moreover have "n - 1 \<in> set [0..<n]" using a by simp
  ultimately show "read_modes buf n = None" unfolding read_modes_def those_None_iff set_map by (metis image_eqI)
qed

lemma complete_out_of_bounds: "dv_outOfBounds \<notin> set (fst (snd r)) \<Longrightarrow> dv_outOfBounds \<in> set (snd (complete r)) \<longleftrightarrow> snd (snd r) = None"
  by (auto simp: complete_def split: prod.split option.split)

lemma PlugInMonitor_safe: "dv_outOfBounds \<notin> set (fst (snd (PlugInMonitor env c e g dc dv))) \<and> snd (snd (PlugInMonitor env c e g dc dv)) \<noteq> None"
  by (simp add: PlugInMonitor_def Let_def split: prod.split)

lemma PlugOutMonitor_safe: "dv_outOfBounds \<notin> set (fst (snd (PlugOutMonitor env c dc dv))) \<and> snd (snd (PlugOutMonitor env c dc dv)) \<noteq> None"
  by (simp add: PlugOutMonitor_def Let_def split: option.split)

lemma UpdateMonitorModes_no_event: "dv_outOfBounds \<notin> set (fst (snd (UpdateMonitorModes env buf dc dv)))"
  by (auto simp: UpdateMonitorModes_def Let_def split: option.split)

text \<open>The header of a request to change modes: the monitor it names is present and it announces so many modes.\<close>

definition update_header :: "device_context \<Rightarrow> byte list \<Rightarrow> dword \<Rightarrow> bool" where
  "update_header dc buf n \<longleftrightarrow> (case dword_at 0 buf of None \<Rightarrow> False | Some c \<Rightarrow>
     unat c < m_sMaxMonitorCount \<and> dc_Monitors dc ! unat c \<noteq> None \<and> dword_at 4 buf = Some n)"

lemma UpdateMonitorModes_outside:
  "snd (snd (UpdateMonitorModes env buf dc dv)) = None \<longleftrightarrow>
     length buf < 8 \<or> (\<exists>n. update_header dc buf n \<and> n \<noteq> 0 \<and> de_malloc env (unat n) \<and> length buf < 8 + 12 * unat n)"
proof (cases "length buf < 8")
  case True
  then show ?thesis by (auto simp: UpdateMonitorModes_def dword_at_def split: option.split)
next
  case False
  then obtain c n where h: "dword_at 0 buf = Some c" "dword_at 4 buf = Some n" by (auto simp: dword_at_def)
  have "n \<noteq> 0 \<longleftrightarrow> unat n > 0" by (simp add: unat_gt_0)
  then have "read_modes buf (unat n) = None \<longleftrightarrow> n \<noteq> 0 \<and> length buf < 8 + 12 * unat n" by (simp add: read_modes_None_iff)
  then show ?thesis using False
    by (cases "read_modes buf (unat n)") (auto simp: UpdateMonitorModes_def h update_header_def CheckIndex_range Let_def split: option.split if_split)
qed

text \<open>
  C35. Reading the input of a request. Windows hands over a buffer only if it is as long as the driver asks. Under this
  the driver reads beyond the buffer in exactly one case: a request to change the modes of a present monitor that announces more modes than the buffer
  holds, or that is shorter than its header. All other requests are safe whatever they contain.
\<close>

theorem requests_read_in_bounds:
  assumes windows: "\<And>buf n. NT_SUCCESS (de_input env buf n) \<Longrightarrow> n \<le> length buf"
  shows "dv_outOfBounds \<in> set (snd (IddRustDeskIoDeviceControl env rq dc dv)) \<longleftrightarrow>
    rq_code rq = IOCTL_QUICKDESK_VD_UPDATE_MODE \<and> NT_SUCCESS (de_input env (rq_input rq) (length (rq_input rq)))
    \<and> (length (rq_input rq) < 8
       \<or> (\<exists>n. update_header dc (rq_input rq) n \<and> n \<noteq> 0 \<and> de_malloc env (unat n) \<and> length (rq_input rq) < 8 + 12 * unat n))"
proof -
  let ?buf = "rq_input rq"
  have codes: "IOCTL_QUICKDESK_VD_UPDATE_MODE \<noteq> IOCTL_QUICKDESK_VD_PLUG_IN" "IOCTL_QUICKDESK_VD_UPDATE_MODE \<noteq> IOCTL_QUICKDESK_VD_PLUG_OUT"
    by (simp_all add: IOCTL_QUICKDESK_VD_UPDATE_MODE_def IOCTL_QUICKDESK_VD_PLUG_IN_def IOCTL_QUICKDESK_VD_PLUG_OUT_def CTL_CODE_def
        FILE_DEVICE_UNKNOWN_def METHOD_BUFFERED_def FILE_ANY_ACCESS_def)
  have plugIn: "dv_outOfBounds \<notin> set (snd (with_input env rq 24 (ioctl_plugIn env dc) dv))"
  proof (cases "NT_SUCCESS (de_input env ?buf 24)")
    case True
    then have "24 \<le> length ?buf" by (rule windows)
    then show ?thesis using True PlugInMonitor_safe[of env] complete_out_of_bounds
      by (auto simp: with_input_def ioctl_plugIn_def dword_at_def Let_def)
  qed (simp add: with_input_def complete_def Let_def)
  have plugOut: "dv_outOfBounds \<notin> set (snd (with_input env rq 4 (ioctl_plugOut env dc) dv))"
  proof (cases "NT_SUCCESS (de_input env ?buf 4)")
    case True
    then have "4 \<le> length ?buf" by (rule windows)
    then show ?thesis using True PlugOutMonitor_safe[of env] complete_out_of_bounds
      by (auto simp: with_input_def ioctl_plugOut_def dword_at_def Let_def)
  qed (simp add: with_input_def complete_def Let_def)
  have update: "dv_outOfBounds \<in> set (snd (with_input env rq (length ?buf) (\<lambda>buf. UpdateMonitorModes env buf dc) dv)) \<longleftrightarrow>
      NT_SUCCESS (de_input env ?buf (length ?buf)) \<and> snd (snd (UpdateMonitorModes env ?buf dc dv)) = None"
    using complete_out_of_bounds[OF UpdateMonitorModes_no_event[of env ?buf dc dv]] by (simp add: with_input_def complete_def Let_def)
  show ?thesis
    using plugIn plugOut update codes by (auto simp: IddRustDeskIoDeviceControl_def UpdateMonitorModes_outside emit_def Let_def)
qed


section \<open>A run\<close>

definition demo_driver_env :: driver_env where
  "demo_driver_env = \<lparr>de_create = (\<lambda>_. (0, 7)), de_arrival = (\<lambda>_. 0), de_departure = (\<lambda>_. 0), de_update = (\<lambda>_ _. 0), de_malloc = (\<lambda>_. True),
     de_guid = replicate 16 0, de_adapterInit = (0, 1), de_input = (\<lambda>buf n. if n \<le> length buf then 0 else STATUS_BUFFER_TOO_SMALL),
     de_output = (\<lambda>n k. if k \<le> n then 0 else STATUS_BUFFER_TOO_SMALL), de_d3d = (0, 0, 0)\<rparr>"

definition demo_request :: "dword \<Rightarrow> byte list \<Rightarrow> io_request" where
  "demo_request code buf = \<lparr>rq_code = code, rq_input = buf, rq_outputLength = 0\<rparr>"

definition demo_driver_run :: "(driver_env \<times> dv_input) list" where
  "demo_driver_run = map (Pair demo_driver_env) [DV_d0Entry, DV_adapterInitFinished 0,
     DV_ioctl (demo_request IOCTL_QUICKDESK_VD_PLUG_IN ([3, 0, 0, 0, 1, 0, 0, 0] @ replicate 16 0))]"

lemma demo_input: "NT_SUCCESS (de_input demo_driver_env buf n) \<longleftrightarrow> n \<le> length buf"
  by (simp add: demo_driver_env_def NT_SUCCESS_def STATUS_BUFFER_TOO_SMALL_def)

lemma demo_dwords:
  "dword_at 0 (3 # 0 # 0 # 0 # x # 0 # 0 # 0 # xs) = Some 3" "dword_at 4 (3 # 0 # 0 # 0 # x # 0 # 0 # 0 # xs) = Some (ucast x)"
  by (simp_all add: dword_at_def frame_length_def)

lemma demo_plugged:
  "snd (dv_run demo_driver_run (fst (IddRustDeskDeviceAdd (0, 0, 0, 0)))) =
     [dv_adapterInit adapterCaps 0, dv_create (plug_info 3 1 (replicate 16 0)) 0 7, dv_arrival 7 0, dv_complete 0 []]"
  "fresh_handles demo_driver_run (fst (IddRustDeskDeviceAdd (0, 0, 0, 0))) os_init"
proof -
  have z: "NT_SUCCESS 0" by (simp add: NT_SUCCESS_def)
  have env: "de_create demo_driver_env i = (0, 7)" "de_arrival demo_driver_env h = 0" "de_adapterInit demo_driver_env = (0, 1)" for i h
    by (simp_all add: demo_driver_env_def)
  note d = demo_driver_run_def dv_run_def for_each_Cons IddRustDeskDeviceAdd_def IddRustDeskDeviceD0Entry_def with_device_def InitAdapter_def
    IddRustDeskAdapterInitFinished_def IddRustDeskIoDeviceControl_def demo_request_def with_input_def ioctl_plugIn_def demo_dwords
    PlugInMonitor_def CheckIndex_range IndirectDeviceContext_init_def m_sMaxMonitorCount_def complete_def demo_input z env os_init_def Let_def
  show "snd (dv_run demo_driver_run (fst (IddRustDeskDeviceAdd (0, 0, 0, 0)))) =
     [dv_adapterInit adapterCaps 0, dv_create (plug_info 3 1 (replicate 16 0)) 0 7, dv_arrival 7 0, dv_complete 0 []]"
    by (simp add: d)
  show "fresh_handles demo_driver_run (fst (IddRustDeskDeviceAdd (0, 0, 0, 0))) os_init"
    by (simp add: d)
qed

theorem driver_table_matches_windows_witness:
  "\<exists>dc. dv_device (fst (dv_run demo_driver_run (fst (IddRustDeskDeviceAdd (0, 0, 0, 0))))) = Some dc \<and> {7} = {h. Some h \<in> set (dc_Monitors dc)}"
proof -
  have "os_present (os_of (snd (dv_run demo_driver_run (fst (IddRustDeskDeviceAdd (0, 0, 0, 0))))) os_init) = {7}"
    unfolding demo_plugged(1) by (simp add: NT_SUCCESS_def os_init_def)
  then show ?thesis using driver_table_matches_windows[OF demo_plugged(2)] by auto
qed

theorem requests_read_in_bounds_witness:
  "dv_outOfBounds \<in> set (snd (IddRustDeskIoDeviceControl demo_driver_env (demo_request IOCTL_QUICKDESK_VD_UPDATE_MODE [3, 0, 0, 0, 200, 0, 0, 0])
     (IndirectDeviceContext_init\<lparr>dc_Monitors := replicate 10 (Some 7)\<rparr>)
     (fst (IddRustDeskDeviceAdd (0, 0, 0, 0)))))"
proof -
  have "update_header (IndirectDeviceContext_init\<lparr>dc_Monitors := replicate 10 (Some 7)\<rparr>) [3, 0, 0, 0, 200, 0, 0, 0] 200"
    by (simp add: update_header_def demo_dwords m_sMaxMonitorCount_def)
  moreover have "de_malloc demo_driver_env n" for n by (simp add: demo_driver_env_def)
  ultimately show ?thesis
    by (subst requests_read_in_bounds) (auto simp: demo_input demo_request_def intro!: exI[of _ "200 :: dword"])
qed


section \<open>Modes\<close>












section \<open>The thread of a swap chain\<close>

text \<open>The turn in which the loop is left, and the frames it has taken by then.\<close>

definition chain_exit :: "chain_env \<Rightarrow> nat \<Rightarrow> bool" where
  "chain_exit env n \<longleftrightarrow> (case ch_acquire env n of
      AcquirePending \<Rightarrow> ch_wait env n = WaitTerminate \<or> ch_wait env n = WaitOther
    | Acquired \<Rightarrow> \<not> SUCCEEDED (ch_finished env n)
    | AcquireFailed _ \<Rightarrow> True)"

definition frames_taken :: "chain_env \<Rightarrow> nat \<Rightarrow> nat \<Rightarrow> chain_event list" where
  "frames_taken env a b = map ch_frame (filter (\<lambda>n. ch_acquire env n = Acquired) [a..<b])"

lemma acquire_loop_turn:
  "acquire_loop env n out =
     (let out' = out @ (if ch_acquire env n = Acquired then [ch_frame n] else []) in if chain_exit env n then Some out' else acquire_loop env (n + 1) out')"
  by (subst acquire_loop.simps) (auto simp: chain_exit_def split: acquire_result.split wait_result.split)

lemma acquire_loop_exits:
  assumes "n \<le> k" "chain_exit env k" "\<forall>j. n \<le> j \<and> j < k \<longrightarrow> \<not> chain_exit env j"
  shows "acquire_loop env n out = Some (out @ frames_taken env n (Suc k))"
  using assms
proof (induction "k - n" arbitrary: n out)
  case 0
  then have "n = k" by simp
  with 0 show ?case by (subst acquire_loop_turn) (simp add: frames_taken_def Let_def)
next
  case (Suc d)
  then have "n < k" "\<not> chain_exit env n" by auto
  then have turn: "acquire_loop env n out = acquire_loop env (n + 1) (out @ (if ch_acquire env n = Acquired then [ch_frame n] else []))"
    by (subst acquire_loop_turn) (simp add: Let_def)
  have "[n..<Suc k] = n # [Suc n..<Suc k]" using \<open>n < k\<close> upt_conv_Cons[of n "Suc k"] by simp
  moreover have "acquire_loop env (n + 1) o' = Some (o' @ frames_taken env (n + 1) (Suc k))" for o'
    using Suc.hyps(2) Suc.prems \<open>n < k\<close> by (intro Suc.hyps(1)) auto
  ultimately show ?case unfolding turn by (simp add: frames_taken_def)
qed

lemma acquire_loop_runs_on:
  assumes "\<forall>k \<ge> n. \<not> chain_exit env k"
  shows "acquire_loop env n out = None"
proof -
  have "\<exists>k \<ge> n. chain_exit env k" if "acquire_loop env n out = Some r" for r
    using that
  proof (induction rule: acquire_loop.raw_induct[where P = "\<lambda>env n out r. \<exists>k \<ge> n. chain_exit env k", rotated, consumes 1])
    case (1 f env n out r)
    show ?case
    proof (cases "chain_exit env n")
      case False
      then obtain out' where "f env (n + 1) out' = Some r" using 1(2)
        by (auto simp: chain_exit_def split: acquire_result.splits wait_result.splits if_splits)
      then obtain k where "k \<ge> n + 1" "chain_exit env k" using 1(1) by blast
      then show ?thesis by (intro exI[of _ k]) simp
    qed auto
  qed
  with assms show ?thesis by (cases "acquire_loop env n out") auto
qed

text \<open>
  C37. The thread of a swap chain. Once the device is set up the thread ends exactly if some turn of its loop ends it: no buffer is waiting and the driver has asked for
  the end, or Windows reports an error. It has then taken every frame offered up to that turn, once and in order, and has deleted the swap chain, so that Windows
  makes a new one. If no turn ends it, it runs for ever, also when it has been asked to end.
\<close>

theorem swap_chain_thread_ends:
  assumes "SUCCEEDED (ch_asDxgi env)" "SUCCEEDED (ch_setDevice env)"
  shows "Run env = (if \<exists>k. chain_exit env k then Some (frames_taken env 0 (Suc (LEAST k. chain_exit env k)) @ [ch_delete]) else None)"
proof (cases "\<exists>k. chain_exit env k")
  case True
  define k where "k = (LEAST k. chain_exit env k)"
  have "chain_exit env k" unfolding k_def using True by (rule LeastI_ex)
  moreover have "\<forall>j. 0 \<le> j \<and> j < k \<longrightarrow> \<not> chain_exit env j" unfolding k_def using not_less_Least by blast
  ultimately have "acquire_loop env 0 [] = Some ([] @ frames_taken env 0 (Suc k))" by (intro acquire_loop_exits le0)
  with True assms show ?thesis by (simp add: Run_def RunCore_def k_def[symmetric])
next
  case False
  then show ?thesis using assms by (simp add: Run_def RunCore_def acquire_loop_runs_on)
qed

definition demo_chain :: chain_env where
  "demo_chain = \<lparr>ch_asDxgi = 0, ch_setDevice = 0, ch_acquire = (\<lambda>n. if n = 1 then Acquired else AcquirePending),
     ch_wait = (\<lambda>n. if n = 0 then WaitBuffer else WaitTerminate), ch_finished = (\<lambda>_. 0)\<rparr>"

theorem swap_chain_thread_ends_witness: "Run demo_chain = Some [ch_frame 1, ch_delete]"
proof -
  have ok: "SUCCEEDED 0" by (simp add: SUCCEEDED_def)
  have e: "\<not> chain_exit demo_chain 0" "\<not> chain_exit demo_chain 1" "chain_exit demo_chain 2" by (simp_all add: chain_exit_def demo_chain_def ok)
  have "(LEAST k. chain_exit demo_chain k) = 2"
  proof (rule Least_equality)
    fix k assume "chain_exit demo_chain k"
    then have "k \<noteq> 0" "k \<noteq> 1" using e(1,2) by metis+
    then show "2 \<le> k" by simp
  qed (rule e)
  moreover have "frames_taken demo_chain 0 3 = [ch_frame 1]" by (simp add: frames_taken_def demo_chain_def upt_rec)
  moreover have "SUCCEEDED (ch_asDxgi demo_chain)" "SUCCEEDED (ch_setDevice demo_chain)" by (simp_all add: demo_chain_def ok)
  ultimately show ?thesis using swap_chain_thread_ends[of demo_chain] e(3) by (auto simp: numeral_3_eq_3[symmetric] numeral_2_eq_2)
qed


section \<open>Where the driver goes wrong\<close>

text \<open>A swap chain that always has a buffer keeps its thread, and the destructor that waits for it, running whatever the terminate event says.\<close>

lemma busy_chain_never_ends:
  assumes "\<And>n. ch_acquire env n = Acquired" "\<And>n. SUCCEEDED (ch_finished env n)" "SUCCEEDED (ch_asDxgi env)" "SUCCEEDED (ch_setDevice env)"
  shows "Run env = None"
  using assms(3,4) by (simp add: Run_def RunCore_def acquire_loop_runs_on chain_exit_def assms(1,2))

text \<open>The default modes are written whether or not they fit.\<close>

lemma default_modes_overrun: "unat n = 1 \<or> unat n = 2 \<Longrightarrow> length (ml_written (IddRustDeskMonitorGetDefaultModes n)) > unat n"
  by (auto simp: IddRustDeskMonitorGetDefaultModes_def monitor_modes_def s_SampleDefaultModes_def)

text \<open>The answer to a query does not depend on the table: it names no monitor active, whatever is plugged in.\<close>

lemma query_ignores_table:
  "rq_code rq = IOCTL_QUICKDESK_VD_QUERY \<Longrightarrow> snd (IddRustDeskIoDeviceControl env rq dc dv) = snd (IddRustDeskIoDeviceControl env rq dc' dv')"
  by (simp add: IddRustDeskIoDeviceControl_def IOCTL_QUICKDESK_VD_QUERY_def IOCTL_QUICKDESK_VD_PLUG_IN_def IOCTL_QUICKDESK_VD_PLUG_OUT_def
      IOCTL_QUICKDESK_VD_UPDATE_MODE_def CTL_CODE_def FILE_DEVICE_UNKNOWN_def METHOD_BUFFERED_def FILE_ANY_ACCESS_def emit_def Let_def)

text \<open>The driver's status codes do not have the customer bit, bit 29; they are codes of Windows.\<close>

lemma status_codes_not_customer:
  "\<not> bit STATUS_ERROR_MONITOR_EXISTS 29 \<and> \<not> bit STATUS_ERROR_MONITOR_NOT_EXISTS 29 \<and> \<not> bit STATUS_ERROR_INDEX_OOR 29"
  "STATUS_ERROR_MONITOR_NOT_EXISTS = 0xC0000034" "STATUS_ERROR_MONITOR_INVALID_PARAM = 0xC0000035"
  by (simp_all add: STATUS_ERROR_MONITOR_EXISTS_def STATUS_ERROR_MONITOR_NOT_EXISTS_def STATUS_ERROR_INDEX_OOR_def STATUS_ERROR_MONITOR_INVALID_PARAM_def)

text \<open>Connectors up to 9 are accepted, although the interface announces four.\<close>

lemma connectors_beyond_interface: "NT_SUCCESS (CheckIndex 9) \<and> 9 > QUICKDESK_VD_MAX_MONITORS"
  by (simp add: CheckIndex_range m_sMaxMonitorCount_def QUICKDESK_VD_MAX_MONITORS_def)

text \<open>
  The context of a monitor is made after Windows has been told of its arrival, and stays when the monitor departs. A swap chain that Windows assigns in between
  meets a null pointer; the thread of a monitor that was plugged out is not stopped.
\<close>

lemma swap_chain_before_context: "map_of (dv_contexts dv) h = None \<Longrightarrow> snd (dv_exec env (DV_assignSwapChain h sc) dv) = [dv_nullPointer]"
  by (simp add: IddRustDeskMonitorAssignSwapChain_def with_context_def)

lemma plug_out_keeps_context: "dv_contexts (fst (PlugOutMonitor env c dc dv)) = dv_contexts dv \<and> dv_stopThread sc \<notin> set (fst (snd (PlugOutMonitor env c dc dv)))"
  by (simp add: PlugOutMonitor_def Let_def split: option.split)

end
