(* ===== verification/IddProperties.thy ===== *)
theory IddProperties
  imports IddController DriverProperties
begin

text \<open>
  The control library: what it takes it gives back, its message tells whether a request was sent, and the driver reads from a request what the library was
  asked to send. Then its leaks.
\<close>

unbundle bit_operations_syntax

section \<open>Resources\<close>

fun held1 :: "resource \<Rightarrow> idd_event \<Rightarrow> int" where
  "held1 r (ct_acquire r') = (if r = r' then 1 else 0)"
| "held1 r (ct_release r') = (if r = r' then - 1 else 0)"
| "held1 r _ = 0"

text \<open>What a sequence of calls takes and does not give back.\<close>

definition held :: "idd_event list \<Rightarrow> resource \<Rightarrow> int" where
  "held evs r = sum_list (map (held1 r) evs)"

lemma held_simps [simp]: "held [] r = 0" "held (e # es) r = held1 r e + held es r" "held (xs @ ys) r = held xs r + held ys r"
  by (simp_all add: held_def)

abbreviation events_of :: "idd_state \<times> idd_event list \<times> 'r \<Rightarrow> idd_event list" where
  "events_of r \<equiv> fst (snd r)"

abbreviation result_of :: "idd_state \<times> idd_event list \<times> 'r \<Rightarrow> 'r" where
  "result_of r \<equiv> snd (snd r)"

lemma after_simps [simp]:
  "fst (after a f st) = fst (f (fst (a st)))" "events_of (after a f st) = snd (a st) @ events_of (f (fst (a st)))" "result_of (after a f st) = result_of (f (fst (a st)))"
  by (simp_all add: after_def split_beta Let_def)

lemma returning_simps [simp]: "fst (returning r a st) = fst (a st)" "events_of (returning r a st) = snd (a st)" "result_of (returning r a st) = r"
  by (simp_all add: returning_def split_beta Let_def)

lemma SetLastMsg_simps [simp]: "snd (SetLastMsg s st) = []" "ic_lastMsg (fst (SetLastMsg s st)) = take 1023 (g_msgHeader @ s)"
  by (simp_all add: SetLastMsg_def)

lemma printMsg_simps [simp]: "fst (printMsg st) = st" "held (snd (printMsg st)) r = 0"
  by (simp_all add: printMsg_def)

lemma held_quiet [simp]: "held (snd (quiet_report f error m st)) r = 0"
  by (cases "f error") (auto simp: quiet_report_def guarded_def Let_def split_beta)

lemma held_report [simp]: "held (snd (report f error m st)) r = 0"
  by (simp add: report_def split_beta Let_def)

lemma held_path [simp]: "held (events_of (GetDevicePath2 env dp st)) r = 0"
  by (auto simp: GetDevicePath2_def emit_def split_beta Let_def split: option.split sum.split)

lemma held_open [simp]: "held (events_of (DeviceOpenHandle env dp st)) r = (if r = DeviceHandle \<and> result_of (DeviceOpenHandle env dp st) then 1 else 0)"
proof -
  let ?st = "fst (SetLastMsg ''Success'' st)"
  obtain st1 ev1 r1 where p: "GetDevicePath2 env dp ?st = (st1, ev1, r1)" by (cases "GetDevicePath2 env dp ?st")
  have h: "held ev1 r = 0" using held_path[of env dp ?st r] p by simp
  show ?thesis using h by (auto simp: DeviceOpenHandle_def p emit_def split_beta Let_def split: option.split)
qed

lemma held_open_loop: "held (events_of (open_loop env dp n st)) r = (if r = DeviceHandle \<and> result_of (open_loop env dp n st) \<noteq> None then 1 else 0)"
proof (induction n arbitrary: st)
  case (Suc n)
  obtain st1 ev1 ok where o: "DeviceOpenHandle env (dp n) st = (st1, ev1, ok)" by (cases "DeviceOpenHandle env (dp n) st")
  show ?case using held_open[of env "dp n" st r] Suc[of st1] by (cases ok) (auto simp: o split: prod.split)
qed simp

lemma held_ioctl_loop [simp]: "held (fst (ioctl_loop ioctl (ct_ioctl c b) n)) r = 0"
  by (induction n) (auto simp: split_beta Let_def)

lemma held_send [simp]: "held (events_of (send_ioctl env what code buf failed st)) r = 0"
  by (cases failed) (simp_all add: send_ioctl_def emit_def)

text \<open>
  C39. Every request gives back what it has taken: the device handle, error texts, device lists, memory, whatever fails on the way, with one exception. A change of
  modes for which there is no memory keeps the device open.
\<close>

theorem requests_return_resources:
  assumes "unat modeCount \<le> length modes"
  shows "held (events_of (MonitorPlugIn env dps guidResult guid ioctls lastError index edid retries st)) r = 0
    \<and> held (events_of (MonitorPlugOut env dp ioctl index st)) r = 0
    \<and> held (events_of (MonitorModesUpdate env dp alloc ioctl index modeCount modes st)) r =
        (if r = DeviceHandle \<and> \<not> alloc \<and> result_of (DeviceOpenHandle env dp (fst (SetLastMsg ''Success'' st))) then 1 else 0)"
proof (intro conjI)
  let ?st = "fst (SetLastMsg ''Success'' st)"
  obtain st1 ev1 left where l: "open_loop env dps (Suc (nat (sint retries))) ?st = (st1, ev1, left)" by (cases "open_loop env dps (Suc (nat (sint retries))) ?st")
  then have "held ev1 r = (if r = DeviceHandle \<and> left \<noteq> None then 1 else 0)" using held_open_loop[of env dps "Suc (nat (sint retries))" ?st r] by simp
  then show "held (events_of (MonitorPlugIn env dps guidResult guid ioctls lastError index edid retries st)) r = 0"
    by (cases left) (simp_all add: MonitorPlugIn_def l DeviceCloseHandle_def emit_def split_beta Let_def del: open_loop.simps)
  obtain st1 ev1 ok where o: "DeviceOpenHandle env dp ?st = (st1, ev1, ok)" by (cases "DeviceOpenHandle env dp ?st")
  then have h: "held ev1 r = (if r = DeviceHandle \<and> ok then 1 else 0)" using held_open[of env dp ?st r] by simp
  show "held (events_of (MonitorPlugOut env dp ioctl index st)) r = 0"
    using h by (cases ok) (simp_all add: MonitorPlugOut_def o DeviceCloseHandle_def emit_def split_beta Let_def)
  show "held (events_of (MonitorModesUpdate env dp alloc ioctl index modeCount modes st)) r =
     (if r = DeviceHandle \<and> \<not> alloc \<and> result_of (DeviceOpenHandle env dp ?st) then 1 else 0)"
    using h assms by (cases ok) (auto simp: MonitorModesUpdate_def o DeviceCloseHandle_def emit_def split_beta Let_def)
qed

section \<open>Messages\<close>

definition says_success :: "idd_state \<Rightarrow> bool" where
  "says_success st \<longleftrightarrow> ic_lastMsg st = g_msgHeader @ ''Success''"

text \<open>No message of a failure starts like the one of success.\<close>

definition of_failure :: "qstring \<Rightarrow> bool" where
  "of_failure m \<longleftrightarrow> m \<noteq> [] \<and> m ! 0 \<noteq> CHR ''S''"

lemma of_failure_Cons [simp]: "of_failure (c # s) \<longleftrightarrow> c \<noteq> CHR ''S''"
  by (simp add: of_failure_def)

lemma says_success_simps:
  "says_success (fst (SetLastMsg ''Success'' st))" "of_failure m \<Longrightarrow> \<not> says_success (fst (SetLastMsg m st))"
  "says_success (fst (printMsg st)) = says_success st"
proof -
  show "says_success (fst (SetLastMsg ''Success'' st))" by (simp add: says_success_def g_msgHeader_def)
  show "\<not> says_success (fst (SetLastMsg m st))" if "of_failure m"
  proof
    assume "says_success (fst (SetLastMsg m st))"
    then have "take 1023 (g_msgHeader @ m) ! 13 = (g_msgHeader @ ''Success'') ! 13" by (simp add: says_success_def)
    moreover have "take 1023 (g_msgHeader @ m) ! 13 = m ! 0" using that by (simp add: of_failure_def g_msgHeader_def)
    ultimately show False using that by (simp add: of_failure_def g_msgHeader_def)
  qed
qed simp

lemma failure_messages [simp]:
  "of_failure (failed_error what e t)" "of_failure (failed_hresult what n e t)" "of_failure (failed_error what e t @ u)"
  by (simp_all add: failed_error_def failed_hresult_def of_failure_def)

lemma says_success_report: "(\<And>t. of_failure (m t)) \<Longrightarrow> \<not> says_success (fst (report f e m st))"
proof -
  assume m: "\<And>t. of_failure (m t)"
  have "\<not> says_success (fst (quiet_report f e m st))" for st
    using says_success_simps(2)[OF m] by (cases "f e") (auto simp: quiet_report_def guarded_def emit_def split_beta Let_def)
  then show ?thesis by (simp add: report_def split_beta Let_def)
qed

lemma path_message:
  "if result_of (GetDevicePath2 env dp st) = None then \<not> says_success (fst (GetDevicePath2 env dp st)) else fst (GetDevicePath2 env dp st) = st"
proof -
  have m: "of_failure (''GetDevicePath2 SetupDiGetDeviceInterfaceDetail failed, error: '' @ u)" for u by (simp add: of_failure_def)
  show ?thesis
    by (auto simp: GetDevicePath2_def emit_def split_beta says_success_report m Let_def split: option.split sum.split)
qed

lemma open_message: "says_success (fst (DeviceOpenHandle env dp st)) \<longleftrightarrow> result_of (DeviceOpenHandle env dp st)"
proof -
  let ?st = "fst (SetLastMsg ''Success'' st)"
  have m: "of_failure (''DeviceOpenHandle GetDevicePath got empty device path'' @ newline)" by (simp add: of_failure_def)
  obtain st1 ev1 r where p: "GetDevicePath2 env dp ?st = (st1, ev1, r)" by (cases "GetDevicePath2 env dp ?st")
  then have "if r = None then \<not> says_success st1 else st1 = ?st" using path_message[of env dp ?st] by (auto split: if_splits)
  then show ?thesis
    by (cases r) (auto simp: DeviceOpenHandle_def p emit_def split_beta says_success_report says_success_simps m Let_def split: option.split)
qed

lemma open_loop_message: "n > 0 \<Longrightarrow> says_success (fst (open_loop env dp n st)) \<longleftrightarrow> result_of (open_loop env dp n st) \<noteq> None"
proof (induction n arbitrary: st)
  case (Suc n)
  obtain st1 ev1 ok where o: "DeviceOpenHandle env (dp n) st = (st1, ev1, ok)" by (cases "DeviceOpenHandle env (dp n) st")
  have s: "says_success st1 \<longleftrightarrow> ok" using open_message[of env "dp n" st] o by simp
  show ?case
  proof (cases ok)
    case False
    then show ?thesis using Suc.IH[of st1] s o by (cases "n = 0") (auto split: prod.split)
  qed (simp add: o s)
qed simp

lemma send_message: "says_success st \<Longrightarrow> says_success (fst (send_ioctl env what code buf failed st)) \<longleftrightarrow> result_of (send_ioctl env what code buf failed st)"
  by (cases failed) (simp_all add: send_ioctl_def emit_def says_success_report)

lemma close_simps [simp]: "fst (DeviceCloseHandle h st) = st" by (simp add: DeviceCloseHandle_def guarded_def)

text \<open>
  C40. A caller can rely on \<open>GetLastMsg\<close>: after a request the message is that of success exactly if the request returned true. Every failure, of whatever
  call, leaves a message of its own.
\<close>

theorem message_tells_result:
  assumes "unat modeCount \<le> length modes"
  shows "let plugIn = MonitorPlugIn env dps guidResult guid ioctls lastError index edid retries st; plugOut = MonitorPlugOut env dp ioctl index st;
             update = MonitorModesUpdate env dp alloc ioctl index modeCount modes st
    in (GetLastMsg (fst plugIn) = ''RustDeskIdd: Success'' \<longleftrightarrow> result_of plugIn) \<and> (GetLastMsg (fst plugOut) = ''RustDeskIdd: Success'' \<longleftrightarrow> result_of plugOut)
     \<and> (GetLastMsg (fst update) = ''RustDeskIdd: Success'' \<longleftrightarrow> result_of update)"
proof -
  have success: "GetLastMsg st = ''RustDeskIdd: Success'' \<longleftrightarrow> says_success st" for st by (simp add: GetLastMsg_def says_success_def g_msgHeader_def)
  let ?st = "fst (SetLastMsg ''Success'' st)"
  have retry: "of_failure (''Failed MonitorPlugIn invalid tries '' @ u)" and malloc: "of_failure (''Failed MonitorModesUpdate CtlMonitorModes malloc'' @ u)" for u
    by (simp_all add: of_failure_def)
  obtain st1 ev1 left where l: "open_loop env dps (Suc (nat (sint retries))) ?st = (st1, ev1, left)"
    by (cases "open_loop env dps (Suc (nat (sint retries))) ?st")
  then have "says_success st1 \<longleftrightarrow> left \<noteq> None" using open_loop_message[of "Suc (nat (sint retries))" env dps ?st] by (simp del: open_loop.simps)
  then have 1: "says_success (fst (MonitorPlugIn env dps guidResult guid ioctls lastError index edid retries st))
      \<longleftrightarrow> result_of (MonitorPlugIn env dps guidResult guid ioctls lastError index edid retries st)"
    by (cases left) (auto simp: MonitorPlugIn_def l emit_def split_beta says_success_report says_success_simps retry Let_def simp del: open_loop.simps)
  obtain st1 ev1 ok where o: "DeviceOpenHandle env dp ?st = (st1, ev1, ok)" by (cases "DeviceOpenHandle env dp ?st")
  then have s: "says_success st1 \<longleftrightarrow> ok" using open_message[of env dp ?st] by simp
  have 2: "says_success (fst (MonitorPlugOut env dp ioctl index st)) \<longleftrightarrow> result_of (MonitorPlugOut env dp ioctl index st)"
    using s by (cases ok) (auto simp: MonitorPlugOut_def o split_beta send_message Let_def)
  have 3: "says_success (fst (MonitorModesUpdate env dp alloc ioctl index modeCount modes st)) \<longleftrightarrow> result_of (MonitorModesUpdate env dp alloc ioctl index modeCount modes st)"
    using s assms by (cases ok) (auto simp: MonitorModesUpdate_def o split_beta send_message says_success_simps malloc Let_def)
  show ?thesis using 1 2 3 by (simp add: success Let_def)
qed

section \<open>From the library to the driver\<close>

lemma length_dword_bytes [simp]: "length (dword_bytes w) = 4" by (simp add: dword_bytes_def)


lemma length_mode_bytes [simp]: "length (mode_bytes m) = 12" by (simp add: mode_bytes_def split: prod.split)

lemma length_modes [simp]: "length (concat (map mode_bytes ms)) = 12 * length ms" by (induction ms) simp_all





text \<open>The control requests among the calls of the library, and what the driver is to do with a change of modes.\<close>

fun requests :: "idd_event list \<Rightarrow> io_request list" where
  "requests [] = []"
| "requests (ct_ioctl code buf # es) = \<lparr>rq_code = code, rq_input = buf, rq_outputLength = 0\<rparr> # requests es"
| "requests (_ # es) = requests es"


lemma requests_append [simp]: "requests (xs @ ys) = requests xs @ requests ys"
  by (induction xs rule: requests.induct) simp_all

lemma requests_quiet [simp]: "requests (snd (quiet_report f e m st)) = []"
  by (cases "f e") (auto simp: quiet_report_def guarded_def emit_def SetLastMsg_def modify_def Let_def)

lemma requests_report [simp]: "requests (snd (report f e m st)) = []"
  by (simp add: report_def printMsg_def split_beta Let_def)

lemma requests_printMsg [simp]: "requests (snd (printMsg st)) = []"
  by (simp add: printMsg_def)

lemma requests_path [simp]: "requests (events_of (GetDevicePath2 env dp st)) = []"
  by (auto simp: GetDevicePath2_def emit_def split_beta Let_def split: option.split sum.split)

lemma requests_open [simp]: "requests (events_of (DeviceOpenHandle env dp st)) = []"
proof -
  obtain st1 ev1 r where p: "GetDevicePath2 env dp (fst (SetLastMsg ''Success'' st)) = (st1, ev1, r)" by (cases "GetDevicePath2 env dp (fst (SetLastMsg ''Success'' st))")
  have "requests ev1 = []" using requests_path[of env dp "fst (SetLastMsg ''Success'' st)"] p by simp
  then show ?thesis by (auto simp: DeviceOpenHandle_def p emit_def split_beta Let_def split: option.split)
qed



lemma requests_send [simp]: "requests (events_of (send_ioctl env what c b failed st)) = [\<lparr>rq_code = c, rq_input = b, rq_outputLength = 0\<rparr>]"
  by (cases failed) (simp_all add: send_ioctl_def emit_def)








section \<open>Runs\<close>

text \<open>The device is found at the second attempt; the first request is refused, the second one is carried out.\<close>

definition demo_idd_env :: idd_env where
  "demo_idd_env = \<lparr>ie_format = (\<lambda>_. None), ie_codePlugIn = IOCTL_QUICKDESK_VD_PLUG_IN, ie_codePlugOut = IOCTL_QUICKDESK_VD_PLUG_OUT,
     ie_codeUpdate = IOCTL_QUICKDESK_VD_UPDATE_MODE\<rparr>"

definition demo_path :: "bool \<Rightarrow> path_env" where
  "demo_path ok = \<lparr>dp_classDevs = (if ok then None else Some 5), dp_enum = None, dp_probe = ERROR_INSUFFICIENT_BUFFER, dp_alloc = None,
     dp_detail = Inr ''p'', dp_copy = 0, dp_createFile = None\<rparr>"

definition demo_plug_in :: "idd_state \<times> idd_event list \<times> bool" where
  "demo_plug_in = MonitorPlugIn demo_idd_env (\<lambda>n. demo_path (n < 2)) 0 (replicate 16 0) (\<lambda>n. if n = 1 then Some 5 else None) 5 3 1 2 idd_init"

lemma demo_opens: "DeviceOpenHandle demo_idd_env (demo_path True) st =
    (fst (SetLastMsg ''Success'' st), [ct_acquire DeviceInfoList, ct_acquire HeapBlock, ct_release HeapBlock, ct_release DeviceInfoList,
        ct_print (''Idd device: try open p'' @ newline), ct_acquire DeviceHandle], True)"
  by (simp add: DeviceOpenHandle_def GetDevicePath2_def demo_path_def SUCCEEDED_def after_def returning_def emit_def SetLastMsg_def modify_def Let_def)

lemma demo_fails: "result_of (DeviceOpenHandle demo_idd_env (demo_path False) st) = False"
  by (simp add: DeviceOpenHandle_def GetDevicePath2_def demo_path_def split_beta after_def returning_def Let_def)

lemma demo_plug_in_result: "result_of demo_plug_in" "length (requests (events_of demo_plug_in)) = 2"
proof -
  obtain st1 ev1 where f: "DeviceOpenHandle demo_idd_env (demo_path False) (fst (SetLastMsg ''Success'' idd_init)) = (st1, ev1, False)"
    using demo_fails by (metis prod.collapse)
  then have r: "requests ev1 = []"
    using requests_open[of demo_idd_env "demo_path False" "fst (SetLastMsg ''Success'' idd_init)"] by simp
  have three: "Suc (nat (sint (2 :: 32 word))) = Suc (Suc (Suc 0))" by simp
  have l: "open_loop demo_idd_env (\<lambda>n. demo_path (n < 2)) (Suc (nat (sint (2 :: 32 word)))) (fst (SetLastMsg ''Success'' idd_init)) =
      (fst (SetLastMsg ''Success'' st1), ev1 @ ct_sleep 1000 # events_of (DeviceOpenHandle demo_idd_env (demo_path True) st1), Some 2)"
    unfolding three by (simp add: f demo_opens)
  show "result_of demo_plug_in" "length (requests (events_of demo_plug_in)) = 2"
    using l r by (simp_all add: demo_plug_in_def MonitorPlugIn_def SUCCEEDED_def DeviceCloseHandle_def emit_def demo_opens split_beta Let_def eval_nat_numeral
        del: open_loop.simps)
qed

theorem requests_return_resources_witness: "held (events_of demo_plug_in) DeviceHandle = 0"
  unfolding demo_plug_in_def
  using requests_return_resources[of 0 "[]" demo_idd_env "\<lambda>n. demo_path (n < 2)" 0 "replicate 16 0" "\<lambda>n. if n = 1 then Some 5 else None" 5 3 1 2 idd_init DeviceHandle
      "demo_path True" None True] by simp

theorem message_tells_result_witness: "GetLastMsg (fst demo_plug_in) = ''RustDeskIdd: Success''"
proof -
  have "unat (0 :: dword) \<le> length ([] :: idd_mode list)" by simp
  from message_tells_result[OF this, unfolded Let_def, THEN conjunct1, of demo_idd_env "\<lambda>n. demo_path (n < 2)" 0 "replicate 16 0"
      "\<lambda>n. if n = 1 then Some 5 else None" 5 3 1 2 idd_init]
  show ?thesis using demo_plug_in_result(1) unfolding demo_plug_in_def by (rule iffD2)
qed



section \<open>Where the library goes wrong\<close>

text \<open>The event is not closed when the software device cannot be created.\<close>

lemma refused_creation_keeps_event:
  assumes "cr_event cr = None" "\<not> SUCCEEDED (cr_create cr)"
  shows "held (events_of (DeviceCreateWithLifetime env cr lifetime None st)) EventHandle = 1"
  using assms by (simp add: DeviceCreateWithLifetime_def emit_def)

text \<open>When the wait for the callback ends early the call fails, and yet the device it has made stays open; \<open>DeviceClose\<close> without a handle then leaves it.\<close>

lemma early_wait_keeps_device:
  assumes "cr_event cr = None" "SUCCEEDED (cr_create cr)" "cr_wait cr = WAIT_TIMEOUT" "cr_callback cr = None"
  shows "\<not> fst (result_of (DeviceCreateWithLifetime env cr lifetime None st))
    \<and> held (events_of (DeviceCreateWithLifetime env cr lifetime None st)) SoftwareDevice = 1"
  using assms
  by (simp add: DeviceCreateWithLifetime_def wait_failed_def emit_def WAIT_TIMEOUT_def WAIT_OBJECT_0_def WAIT_ABANDONED_def split_beta Let_def)

text \<open>A wait that fails without an error code is reported as a success.\<close>

lemma failed_wait_says_success:
  assumes "cr_event cr = None" "SUCCEEDED (cr_create cr)" "cr_wait cr = 0xFFFFFFFF" "cr_waitError cr = 0"
  shows "\<not> fst (result_of (DeviceCreateWithLifetime env cr lifetime None st)) \<and> says_success (fst (DeviceCreateWithLifetime env cr lifetime None st))"
proof -
  have s: "says_success (fst (SetLastMsg ''Success'' st))" by (rule says_success_simps)
  show ?thesis using assms s
    by (auto simp: DeviceCreateWithLifetime_def wait_failed_def emit_def WAIT_TIMEOUT_def WAIT_OBJECT_0_def WAIT_ABANDONED_def split_beta Let_def split: option.split)
qed

text \<open>A request that is refused is repeated at once; only the attempts to open the device wait for a second.\<close>

lemma requests_repeated_at_once: "ct_sleep t \<notin> set (fst (ioctl_loop ioctl (ct_ioctl c b) n))"
  by (induction n) (auto simp: split_beta Let_def)

end
