(* ===== verification/Aes.thy ===== *)
theory Aes
  imports NativeMessaging
begin

text \<open>
  The cipher of \<open>base/qaesencryption.cpp\<close>: key expansion, the rounds on a state of sixteen bytes, the four modes and the three paddings. The variant for
  the instructions of Intel processors is not compiled in and is not modelled. Reading outside an array is \<open>None\<close>.
\<close>

unbundle bit_operations_syntax


section \<open>Parameters and tables\<close>

datatype aes_level = AES_128 | AES_192 | AES_256

datatype aes_mode = ECB | CBC | CFB | OFB

datatype aes_padding = ZERO | PKCS7 | ISO

record qaes =
  qa_level :: aes_level
  qa_mode :: aes_mode
  qa_padding :: aes_padding

fun m_nk :: "aes_level \<Rightarrow> nat" where
  "m_nk AES_128 = 4"
| "m_nk AES_192 = 6"
| "m_nk AES_256 = 8"

fun m_keyLen :: "aes_level \<Rightarrow> nat" where
  "m_keyLen AES_128 = 16"
| "m_keyLen AES_192 = 24"
| "m_keyLen AES_256 = 32"

fun m_nr :: "aes_level \<Rightarrow> nat" where
  "m_nr AES_128 = 10"
| "m_nr AES_192 = 12"
| "m_nr AES_256 = 14"

definition m_nb :: nat where "m_nb = 4"

definition m_blocklen :: nat where "m_blocklen = 16"

definition sbox :: "byte list" where
  "sbox =
     [0x63, 0x7c, 0x77, 0x7b, 0xf2, 0x6b, 0x6f, 0xc5, 0x30, 0x01, 0x67, 0x2b, 0xfe, 0xd7, 0xab, 0x76,
      0xca, 0x82, 0xc9, 0x7d, 0xfa, 0x59, 0x47, 0xf0, 0xad, 0xd4, 0xa2, 0xaf, 0x9c, 0xa4, 0x72, 0xc0,
      0xb7, 0xfd, 0x93, 0x26, 0x36, 0x3f, 0xf7, 0xcc, 0x34, 0xa5, 0xe5, 0xf1, 0x71, 0xd8, 0x31, 0x15,
      0x04, 0xc7, 0x23, 0xc3, 0x18, 0x96, 0x05, 0x9a, 0x07, 0x12, 0x80, 0xe2, 0xeb, 0x27, 0xb2, 0x75,
      0x09, 0x83, 0x2c, 0x1a, 0x1b, 0x6e, 0x5a, 0xa0, 0x52, 0x3b, 0xd6, 0xb3, 0x29, 0xe3, 0x2f, 0x84,
      0x53, 0xd1, 0x00, 0xed, 0x20, 0xfc, 0xb1, 0x5b, 0x6a, 0xcb, 0xbe, 0x39, 0x4a, 0x4c, 0x58, 0xcf,
      0xd0, 0xef, 0xaa, 0xfb, 0x43, 0x4d, 0x33, 0x85, 0x45, 0xf9, 0x02, 0x7f, 0x50, 0x3c, 0x9f, 0xa8,
      0x51, 0xa3, 0x40, 0x8f, 0x92, 0x9d, 0x38, 0xf5, 0xbc, 0xb6, 0xda, 0x21, 0x10, 0xff, 0xf3, 0xd2,
      0xcd, 0x0c, 0x13, 0xec, 0x5f, 0x97, 0x44, 0x17, 0xc4, 0xa7, 0x7e, 0x3d, 0x64, 0x5d, 0x19, 0x73,
      0x60, 0x81, 0x4f, 0xdc, 0x22, 0x2a, 0x90, 0x88, 0x46, 0xee, 0xb8, 0x14, 0xde, 0x5e, 0x0b, 0xdb,
      0xe0, 0x32, 0x3a, 0x0a, 0x49, 0x06, 0x24, 0x5c, 0xc2, 0xd3, 0xac, 0x62, 0x91, 0x95, 0xe4, 0x79,
      0xe7, 0xc8, 0x37, 0x6d, 0x8d, 0xd5, 0x4e, 0xa9, 0x6c, 0x56, 0xf4, 0xea, 0x65, 0x7a, 0xae, 0x08,
      0xba, 0x78, 0x25, 0x2e, 0x1c, 0xa6, 0xb4, 0xc6, 0xe8, 0xdd, 0x74, 0x1f, 0x4b, 0xbd, 0x8b, 0x8a,
      0x70, 0x3e, 0xb5, 0x66, 0x48, 0x03, 0xf6, 0x0e, 0x61, 0x35, 0x57, 0xb9, 0x86, 0xc1, 0x1d, 0x9e,
      0xe1, 0xf8, 0x98, 0x11, 0x69, 0xd9, 0x8e, 0x94, 0x9b, 0x1e, 0x87, 0xe9, 0xce, 0x55, 0x28, 0xdf,
      0x8c, 0xa1, 0x89, 0x0d, 0xbf, 0xe6, 0x42, 0x68, 0x41, 0x99, 0x2d, 0x0f, 0xb0, 0x54, 0xbb, 0x16]"

definition rsbox :: "byte list" where
  "rsbox =
     [0x52, 0x09, 0x6a, 0xd5, 0x30, 0x36, 0xa5, 0x38, 0xbf, 0x40, 0xa3, 0x9e, 0x81, 0xf3, 0xd7, 0xfb,
      0x7c, 0xe3, 0x39, 0x82, 0x9b, 0x2f, 0xff, 0x87, 0x34, 0x8e, 0x43, 0x44, 0xc4, 0xde, 0xe9, 0xcb,
      0x54, 0x7b, 0x94, 0x32, 0xa6, 0xc2, 0x23, 0x3d, 0xee, 0x4c, 0x95, 0x0b, 0x42, 0xfa, 0xc3, 0x4e,
      0x08, 0x2e, 0xa1, 0x66, 0x28, 0xd9, 0x24, 0xb2, 0x76, 0x5b, 0xa2, 0x49, 0x6d, 0x8b, 0xd1, 0x25,
      0x72, 0xf8, 0xf6, 0x64, 0x86, 0x68, 0x98, 0x16, 0xd4, 0xa4, 0x5c, 0xcc, 0x5d, 0x65, 0xb6, 0x92,
      0x6c, 0x70, 0x48, 0x50, 0xfd, 0xed, 0xb9, 0xda, 0x5e, 0x15, 0x46, 0x57, 0xa7, 0x8d, 0x9d, 0x84,
      0x90, 0xd8, 0xab, 0x00, 0x8c, 0xbc, 0xd3, 0x0a, 0xf7, 0xe4, 0x58, 0x05, 0xb8, 0xb3, 0x45, 0x06,
      0xd0, 0x2c, 0x1e, 0x8f, 0xca, 0x3f, 0x0f, 0x02, 0xc1, 0xaf, 0xbd, 0x03, 0x01, 0x13, 0x8a, 0x6b,
      0x3a, 0x91, 0x11, 0x41, 0x4f, 0x67, 0xdc, 0xea, 0x97, 0xf2, 0xcf, 0xce, 0xf0, 0xb4, 0xe6, 0x73,
      0x96, 0xac, 0x74, 0x22, 0xe7, 0xad, 0x35, 0x85, 0xe2, 0xf9, 0x37, 0xe8, 0x1c, 0x75, 0xdf, 0x6e,
      0x47, 0xf1, 0x1a, 0x71, 0x1d, 0x29, 0xc5, 0x89, 0x6f, 0xb7, 0x62, 0x0e, 0xaa, 0x18, 0xbe, 0x1b,
      0xfc, 0x56, 0x3e, 0x4b, 0xc6, 0xd2, 0x79, 0x20, 0x9a, 0xdb, 0xc0, 0xfe, 0x78, 0xcd, 0x5a, 0xf4,
      0x1f, 0xdd, 0xa8, 0x33, 0x88, 0x07, 0xc7, 0x31, 0xb1, 0x12, 0x10, 0x59, 0x27, 0x80, 0xec, 0x5f,
      0x60, 0x51, 0x7f, 0xa9, 0x19, 0xb5, 0x4a, 0x0d, 0x2d, 0xe5, 0x7a, 0x9f, 0x93, 0xc9, 0x9c, 0xef,
      0xa0, 0xe0, 0x3b, 0x4d, 0xae, 0x2a, 0xf5, 0xb0, 0xc8, 0xeb, 0xbb, 0x3c, 0x83, 0x53, 0x99, 0x61,
      0x17, 0x2b, 0x04, 0x7e, 0xba, 0x77, 0xd6, 0x26, 0xe1, 0x69, 0x14, 0x63, 0x55, 0x21, 0x0c, 0x7d]"

definition Rcon :: "byte list" where
  "Rcon = [0x8d, 0x01, 0x02, 0x04, 0x08, 0x10, 0x20, 0x40, 0x80, 0x1b, 0x36, 0x6c, 0xd8, 0xab]"

definition getSBoxValue :: "byte \<Rightarrow> byte" where
  "getSBoxValue num = sbox ! unat num"

definition getSBoxInvert :: "byte \<Rightarrow> byte" where
  "getSBoxInvert num = rsbox ! unat num"


section \<open>Arithmetic on bytes\<close>

definition xTime :: "byte \<Rightarrow> byte" where
  "xTime x = push_bit 1 x XOR ((drop_bit 7 x AND 1) * 0x1b)"

definition multiply :: "byte \<Rightarrow> byte \<Rightarrow> byte" where
  "multiply x y =
     ((y AND 1) * x) XOR ((drop_bit 1 y AND 1) * xTime x) XOR ((drop_bit 2 y AND 1) * xTime (xTime x))
       XOR ((drop_bit 3 y AND 1) * xTime (xTime (xTime x))) XOR ((drop_bit 4 y AND 1) * xTime (xTime (xTime (xTime x))))"


section \<open>Key expansion\<close>

definition insert_byte :: "nat \<Rightarrow> byte \<Rightarrow> byte list \<Rightarrow> byte list" where
  "insert_byte i b xs = take i xs @ [b] @ drop i xs"

definition sub_word :: "byte \<times> byte \<times> byte \<times> byte \<Rightarrow> byte \<times> byte \<times> byte \<times> byte" where
  "sub_word t = (case t of (a, b, c, d) \<Rightarrow> (getSBoxValue a, getSBoxValue b, getSBoxValue c, getSBoxValue d))"

definition key_word :: "aes_level \<Rightarrow> nat \<Rightarrow> byte list \<Rightarrow> byte \<times> byte \<times> byte \<times> byte" where
  "key_word level i roundKey =
     (let tempa = (roundKey ! ((i - 1) * 4), roundKey ! ((i - 1) * 4 + 1), roundKey ! ((i - 1) * 4 + 2), roundKey ! ((i - 1) * 4 + 3));
          tempa = (if i mod m_nk level = 0
                   then case tempa of (t0, t1, t2, t3) \<Rightarrow> case sub_word (t1, t2, t3, t0) of (t0, t1, t2, t3) \<Rightarrow> (t0 XOR Rcon ! (i div m_nk level), t1, t2, t3)
                   else tempa)
      in if level = AES_256 \<and> i mod m_nk level = 4 then sub_word tempa else tempa)"

definition expand_step :: "aes_level \<Rightarrow> nat \<Rightarrow> byte list \<Rightarrow> byte list option" where
  "expand_step level i roundKey =
     (if length roundKey \<le> (i - 1) * 4 + 3 then None
      else case key_word level i roundKey of (t0, t1, t2, t3) \<Rightarrow>
        let r0 = insert_byte (i * 4) (roundKey ! ((i - m_nk level) * 4) XOR t0) roundKey;
            r1 = insert_byte (i * 4 + 1) (r0 ! ((i - m_nk level) * 4 + 1) XOR t1) r0;
            r2 = insert_byte (i * 4 + 2) (r1 ! ((i - m_nk level) * 4 + 2) XOR t2) r1
        in Some (insert_byte (i * 4 + 3) (r2 ! ((i - m_nk level) * 4 + 3) XOR t3) r2))"

fun expand_loop :: "aes_level \<Rightarrow> nat list \<Rightarrow> byte list \<Rightarrow> byte list option" where
  "expand_loop level [] roundKey = Some roundKey"
| "expand_loop level (i # is) roundKey = (case expand_step level i roundKey of None \<Rightarrow> None | Some r \<Rightarrow> expand_loop level is r)"

definition expandKey :: "aes_level \<Rightarrow> byte list \<Rightarrow> byte list option" where
  "expandKey level key = expand_loop level [m_nk level..<m_nb * (m_nr level + 1)] key"


section \<open>Rounds\<close>

definition addRoundKey :: "nat \<Rightarrow> byte list \<Rightarrow> byte list \<Rightarrow> byte list" where
  "addRoundKey rnd expKey st = map (\<lambda>i. st ! i XOR expKey ! (rnd * m_nb * 4 + (i div 4) * m_nb + i mod 4)) [0..<16]"

definition subBytes :: "byte list \<Rightarrow> byte list" where
  "subBytes st = map (\<lambda>i. getSBoxValue (st ! i)) [0..<16]"

definition invSubBytes :: "byte list \<Rightarrow> byte list" where
  "invSubBytes st = map (\<lambda>i. getSBoxInvert (st ! i)) [0..<16]"

definition shiftRows :: "byte list \<Rightarrow> byte list" where
  "shiftRows it =
     (let temp = it ! 1; it = it[1 := it ! 5]; it = it[5 := it ! 9]; it = it[9 := it ! 13]; it = it[13 := temp];
          temp = it ! 2; it = it[2 := it ! 10]; it = it[10 := temp];
          temp = it ! 6; it = it[6 := it ! 14]; it = it[14 := temp];
          temp = it ! 3; it = it[3 := it ! 15]; it = it[15 := it ! 11]; it = it[11 := it ! 7]
      in it[7 := temp])"

definition invShiftRows :: "byte list \<Rightarrow> byte list" where
  "invShiftRows it =
     (let temp = it ! 13; it = it[13 := it ! 9]; it = it[9 := it ! 5]; it = it[5 := it ! 1]; it = it[1 := temp];
          temp = it ! 10; it = it[10 := it ! 2]; it = it[2 := temp];
          temp = it ! 14; it = it[14 := it ! 6]; it = it[6 := temp];
          temp = it ! 7; it = it[7 := it ! 11]; it = it[11 := it ! 15]; it = it[15 := it ! 3]
      in it[3 := temp])"

definition mix_column :: "nat \<Rightarrow> byte list \<Rightarrow> byte list" where
  "mix_column i it =
     (let t = it ! i; tmp = it ! i XOR it ! (i + 1) XOR it ! (i + 2) XOR it ! (i + 3);
          tm = xTime (it ! i XOR it ! (i + 1)); it = it[i := it ! i XOR tm XOR tmp];
          tm = xTime (it ! (i + 1) XOR it ! (i + 2)); it = it[i + 1 := it ! (i + 1) XOR tm XOR tmp];
          tm = xTime (it ! (i + 2) XOR it ! (i + 3)); it = it[i + 2 := it ! (i + 2) XOR tm XOR tmp];
          tm = xTime (it ! (i + 3) XOR t)
      in it[i + 3 := it ! (i + 3) XOR tm XOR tmp])"

definition mixColumns :: "byte list \<Rightarrow> byte list" where
  "mixColumns it = fold mix_column [0, 4, 8, 12] it"

definition inv_mix_column :: "nat \<Rightarrow> byte list \<Rightarrow> byte list" where
  "inv_mix_column i it =
     (let a = it ! i; b = it ! (i + 1); c = it ! (i + 2); d = it ! (i + 3);
          it = it[i := multiply a 0x0e XOR multiply b 0x0b XOR multiply c 0x0d XOR multiply d 0x09];
          it = it[i + 1 := multiply a 0x09 XOR multiply b 0x0e XOR multiply c 0x0b XOR multiply d 0x0d];
          it = it[i + 2 := multiply a 0x0d XOR multiply b 0x09 XOR multiply c 0x0e XOR multiply d 0x0b]
      in it[i + 3 := multiply a 0x0b XOR multiply b 0x0d XOR multiply c 0x09 XOR multiply d 0x0e])"

definition invMixColumns :: "byte list \<Rightarrow> byte list" where
  "invMixColumns it = fold inv_mix_column [0, 4, 8, 12] it"

definition cipher_round :: "byte list \<Rightarrow> nat \<Rightarrow> byte list \<Rightarrow> byte list" where
  "cipher_round expKey rnd st = addRoundKey rnd expKey (mixColumns (shiftRows (subBytes st)))"

definition cipher :: "aes_level \<Rightarrow> byte list \<Rightarrow> byte list \<Rightarrow> byte list" where
  "cipher level expKey block =
     (let output = addRoundKey 0 expKey block; output = fold (cipher_round expKey) [1..<m_nr level] output
      in addRoundKey (m_nr level) expKey (shiftRows (subBytes output)))"

definition inv_cipher_round :: "byte list \<Rightarrow> nat \<Rightarrow> byte list \<Rightarrow> byte list" where
  "inv_cipher_round expKey rnd st = invMixColumns (addRoundKey rnd expKey (invSubBytes (invShiftRows st)))"

definition invCipher :: "aes_level \<Rightarrow> byte list \<Rightarrow> byte list \<Rightarrow> byte list" where
  "invCipher level expKey block =
     (let output = addRoundKey (m_nr level) expKey block; output = fold (inv_cipher_round expKey) (rev [1..<m_nr level]) output
      in addRoundKey 0 expKey (invSubBytes (invShiftRows output)))"


section \<open>Paddings\<close>

definition getPadding :: "aes_padding \<Rightarrow> nat \<Rightarrow> nat \<Rightarrow> byte list" where
  "getPadding padding currSize alignment =
     (let n = (alignment - currSize mod alignment) mod alignment
      in case padding of
           ZERO \<Rightarrow> replicate n 0
         | PKCS7 \<Rightarrow> let n = (if n = 0 then alignment else n) in replicate n (of_nat n)
         | ISO \<Rightarrow> if n > 0 then 0x80 # replicate (n - 1) 0 else [])"

text \<open>Removing zeros from the end; a text of zeros is read before its start.\<close>

fun strip_zeros :: "byte list \<Rightarrow> byte list option" where
  "strip_zeros [] = None"
| "strip_zeros (b # bs) = (if b = 0 then strip_zeros bs else Some (b # bs))"

definition RemovePadding :: "aes_padding \<Rightarrow> byte list \<Rightarrow> byte list option" where
  "RemovePadding padding rawText =
     (if rawText = [] then Some rawText
      else case padding of
             ZERO \<Rightarrow> map_option rev (strip_zeros (rev rawText))
           | PKCS7 \<Rightarrow> let n = sint (last rawText)
                in Some (if n \<le> 0 \<or> int (length rawText) < n then rawText else take (length rawText - nat n) rawText)
           | ISO \<Rightarrow> (case strip_zeros (rev rawText) of
                None \<Rightarrow> None
              | Some [] \<Rightarrow> None
              | Some (marker # before) \<Rightarrow> Some (if marker = 0x80 then rev before else rawText)))"


section \<open>Modes\<close>

definition byteXor :: "byte list \<Rightarrow> byte list \<Rightarrow> byte list" where
  "byteXor a b = map (\<lambda>(x, y). x XOR y) (zip a b)"

function blocks :: "byte list \<Rightarrow> byte list list" where
  "blocks xs = (if xs = [] then [] else take m_blocklen xs # blocks (drop m_blocklen xs))"
  by pat_completeness auto
termination
  by (relation "measure length") (auto simp: m_blocklen_def)

declare blocks.simps [simp del]

fun cbc_encode :: "(byte list \<Rightarrow> byte list) \<Rightarrow> byte list \<Rightarrow> byte list list \<Rightarrow> byte list" where
  "cbc_encode ciph ivTemp [] = []"
| "cbc_encode ciph ivTemp (b # bs) = (let c = ciph (byteXor b ivTemp) in c @ cbc_encode ciph c bs)"

fun cbc_decode :: "(byte list \<Rightarrow> byte list) \<Rightarrow> byte list \<Rightarrow> byte list list \<Rightarrow> byte list" where
  "cbc_decode inv_ciph ivTemp [] = []"
| "cbc_decode inv_ciph ivTemp (b # bs) = byteXor (inv_ciph b) ivTemp @ cbc_decode inv_ciph b bs"

fun cfb_encode :: "(byte list \<Rightarrow> byte list) \<Rightarrow> byte list \<Rightarrow> byte list list \<Rightarrow> byte list" where
  "cfb_encode ciph previous [] = []"
| "cfb_encode ciph previous (b # bs) = (let c = byteXor b (ciph previous) in c @ cfb_encode ciph c bs)"

fun cfb_decode :: "(byte list \<Rightarrow> byte list) \<Rightarrow> byte list \<Rightarrow> byte list list \<Rightarrow> byte list" where
  "cfb_decode ciph previous [] = []"
| "cfb_decode ciph previous (b # bs) = byteXor b (ciph previous) @ cfb_decode ciph b bs"

fun ofb_stream :: "(byte list \<Rightarrow> byte list) \<Rightarrow> byte list \<Rightarrow> byte list list \<Rightarrow> byte list" where
  "ofb_stream ciph previous [] = []"
| "ofb_stream ciph previous (b # bs) = (let c = ciph previous in c @ ofb_stream ciph c bs)"

definition bad_parameters :: "qaes \<Rightarrow> byte list \<Rightarrow> byte list \<Rightarrow> bool" where
  "bad_parameters q key iv \<longleftrightarrow> qa_mode q \<noteq> ECB \<and> (iv = [] \<or> length iv \<noteq> m_blocklen) \<or> length key \<noteq> m_keyLen (qa_level q)"

definition aes_encode :: "qaes \<Rightarrow> byte list \<Rightarrow> byte list \<Rightarrow> byte list \<Rightarrow> byte list option" where
  "aes_encode q rawText key iv =
     (if bad_parameters q key iv then Some []
      else case expandKey (qa_level q) key of
             None \<Rightarrow> None
           | Some expandedKey \<Rightarrow>
               let alignedText = rawText @ getPadding (qa_padding q) (length rawText) m_blocklen; ciph = cipher (qa_level q) expandedKey
               in Some (case qa_mode q of
                    ECB \<Rightarrow> concat (map ciph (blocks alignedText))
                  | CBC \<Rightarrow> cbc_encode ciph iv (blocks alignedText)
                  | CFB \<Rightarrow> cfb_encode ciph iv (blocks alignedText)
                  | OFB \<Rightarrow> byteXor alignedText (ofb_stream ciph iv (blocks alignedText))))"

definition aes_decode :: "qaes \<Rightarrow> byte list \<Rightarrow> byte list \<Rightarrow> byte list \<Rightarrow> byte list option" where
  "aes_decode q rawText key iv =
     (if bad_parameters q key iv \<or> length rawText mod m_blocklen \<noteq> 0 then Some []
      else case expandKey (qa_level q) key of
             None \<Rightarrow> None
           | Some expandedKey \<Rightarrow>
               let ciph = cipher (qa_level q) expandedKey; inv_ciph = invCipher (qa_level q) expandedKey
               in Some (case qa_mode q of
                    ECB \<Rightarrow> concat (map inv_ciph (blocks rawText))
                  | CBC \<Rightarrow> cbc_decode inv_ciph iv (blocks rawText)
                  | CFB \<Rightarrow> cfb_decode ciph iv (blocks rawText)
                  | OFB \<Rightarrow> byteXor rawText (ofb_stream ciph iv (blocks rawText))))"

text \<open>The static functions.\<close>

definition Crypt :: "aes_level \<Rightarrow> aes_mode \<Rightarrow> byte list \<Rightarrow> byte list \<Rightarrow> byte list \<Rightarrow> aes_padding \<Rightarrow> byte list option" where
  "Crypt level mode rawText key iv padding = aes_encode \<lparr>qa_level = level, qa_mode = mode, qa_padding = padding\<rparr> rawText key iv"

definition Decrypt :: "aes_level \<Rightarrow> aes_mode \<Rightarrow> byte list \<Rightarrow> byte list \<Rightarrow> byte list \<Rightarrow> aes_padding \<Rightarrow> byte list option" where
  "Decrypt level mode rawText key iv padding = aes_decode \<lparr>qa_level = level, qa_mode = mode, qa_padding = padding\<rparr> rawText key iv"

definition removePadding :: "qaes \<Rightarrow> byte list \<Rightarrow> byte list option" where
  "removePadding q rawText = RemovePadding (qa_padding q) rawText"

text \<open>\<open>printArray\<close>: the bytes as hexadecimal digits.\<close>

definition hex_char :: "nat \<Rightarrow> char" where
  "hex_char d = char_of (if d < 10 then 48 + d else 87 + d)"

definition printArray :: "byte list \<Rightarrow> qstring" where
  "printArray arr = concat (map (\<lambda>b. [hex_char (unat b div 16), hex_char (unat b mod 16)]) arr)"

end
