(* ===== verification/AesProperties.thy ===== *)
theory AesProperties
  imports Aes
begin

text \<open>
  The cipher can be undone: every step of a round has its inverse, so decoding gives back the padded text in every mode, and removing the padding gives back the
  text. Then the paddings that lose or misread a text.
\<close>

unbundle bit_operations_syntax


section \<open>Tables\<close>

lemma length_tables [simp]: "length sbox = 256" "length rsbox = 256"
  by (simp_all add: sbox_def rsbox_def)

lemma rsbox_sbox: "map (\<lambda>b. rsbox ! unat b) sbox = map of_nat [0..<256]"
  by code_simp

lemma getSBoxInvert_Value [simp]: "getSBoxInvert (getSBoxValue x) = x"
proof -
  have n: "unat x < 256" using unsigned_less[of x, where 'a = nat] by simp
  have "map (\<lambda>b. rsbox ! unat b) sbox ! unat x = map of_nat [0..<256] ! unat x" by (simp only: rsbox_sbox)
  then show ?thesis using n by (simp add: getSBoxInvert_def getSBoxValue_def)
qed

section \<open>Steps of a round\<close>

text \<open>The field: doubling is linear, and the products by the constants of \<open>invMixColumns\<close> are sums of repeated doublings.\<close>

lemma xor_cancel [simp]: "(a :: byte) XOR (a XOR b) = b"
  by (simp flip: xor.assoc)

lemma xTime_alt: "xTime x = push_bit 1 x XOR (if bit x 7 then 0x1b else 0)"
proof -
  have "drop_bit 7 x AND 1 = of_bool (bit x 7)" by (rule bit_word_eqI) (auto simp: bit_and_iff bit_drop_bit_eq bit_1_iff intro!: gr0I)
  then show ?thesis by (simp add: xTime_def)
qed

lemma push_bit_xor_byte: "push_bit n (a XOR b) = push_bit n a XOR push_bit n (b :: byte)"
  by (rule bit_word_eqI) (auto simp: bit_push_bit_iff bit_xor_iff)

lemma xTime_xor: "xTime (a XOR b) = xTime a XOR xTime b"
  unfolding xTime_alt push_bit_xor_byte bit_xor_iff by (cases "bit a 7"; cases "bit b 7") (simp_all add: ac_simps)

lemma multiply_constants:
  "multiply x 0x09 = x XOR xTime (xTime (xTime x))"
  "multiply x 0x0b = x XOR xTime x XOR xTime (xTime (xTime x))"
  "multiply x 0x0d = x XOR xTime (xTime x) XOR xTime (xTime (xTime x))"
  "multiply x 0x0e = xTime x XOR xTime (xTime x) XOR xTime (xTime (xTime x))"
  by (simp_all add: multiply_def)

lemma mix_inverse:
  fixes a b c d :: byte
  defines "s \<equiv> a XOR b XOR c XOR d"
  defines "a' \<equiv> a XOR xTime (a XOR b) XOR s" and "b' \<equiv> b XOR xTime (b XOR c) XOR s" and "c' \<equiv> c XOR xTime (c XOR d) XOR s" and "d' \<equiv> d XOR xTime (d XOR a) XOR s"
  shows "multiply a' 0x0e XOR multiply b' 0x0b XOR multiply c' 0x0d XOR multiply d' 0x09 = a"
    "multiply a' 0x09 XOR multiply b' 0x0e XOR multiply c' 0x0b XOR multiply d' 0x0d = b"
    "multiply a' 0x0d XOR multiply b' 0x09 XOR multiply c' 0x0e XOR multiply d' 0x0b = c"
    "multiply a' 0x0b XOR multiply b' 0x0d XOR multiply c' 0x09 XOR multiply d' 0x0e = d"
  unfolding multiply_constants a'_def b'_def c'_def d'_def s_def by (simp_all add: xTime_xor ac_simps)

text \<open>A state is a list of sixteen bytes.\<close>

lemma state_cases:
  assumes "length st = 16"
  obtains a b c d e f g h i j k l m n p q where "st = [a, b, c, d, e, f, g, h, i, j, k, l, m, n, p, q]"
  using assms by (auto simp: numeral_eq_Suc length_Suc_conv)

lemma shiftRows_inverse: "length st = 16 \<Longrightarrow> invShiftRows (shiftRows st) = st"
  by (erule state_cases) (simp add: shiftRows_def invShiftRows_def Let_def)

lemma mixColumns_inverse: "length st = 16 \<Longrightarrow> invMixColumns (mixColumns st) = st"
proof (erule state_cases)
  fix a b c d e f g h i j k l m n p q
  assume "st = [a, b, c, d, e, f, g, h, i, j, k, l, m, n, p, q]"
  then show ?thesis
    by (simp add: mixColumns_def invMixColumns_def mix_column_def inv_mix_column_def mix_inverse Let_def)
qed

lemma length_steps [simp]:
  "length (addRoundKey r key st) = 16" "length (subBytes st) = 16" "length (invSubBytes st) = 16" "length (shiftRows st) = length st"
  "length (invShiftRows st) = length st" "length (mixColumns st) = length st" "length (invMixColumns st) = length st"
  by (simp_all add: addRoundKey_def subBytes_def invSubBytes_def shiftRows_def invShiftRows_def mixColumns_def invMixColumns_def mix_column_def
      inv_mix_column_def Let_def)

lemma addRoundKey_twice: "length st = 16 \<Longrightarrow> addRoundKey r key (addRoundKey r key st) = st"
  by (rule nth_equalityI) (simp_all add: addRoundKey_def ac_simps)

lemma subBytes_inverse: "length st = 16 \<Longrightarrow> invSubBytes (subBytes st) = st"
  by (rule nth_equalityI) (simp_all add: subBytes_def invSubBytes_def)


section \<open>Blocks\<close>

lemma expand_step_defined:
  assumes "length roundKey = 4 * i" "0 < i"
  shows "\<exists>r. expand_step level i roundKey = Some r \<and> length r = 4 * (i + 1)"
  using assms by (cases i) (auto simp: expand_step_def insert_byte_def Let_def split: prod.split)

lemma expand_loop_defined:
  assumes "length roundKey = 4 * a" "0 < a" "a \<le> b"
  shows "\<exists>r. expand_loop level [a..<b] roundKey = Some r \<and> length r = 4 * b"
  using assms
proof (induction "b - a" arbitrary: a roundKey)
  case (Suc d)
  then have upt: "[a..<b] = a # [Suc a..<b]" by (simp add: upt_conv_Cons)
  obtain r where "expand_step level a roundKey = Some r" "length r = 4 * (a + 1)" using expand_step_defined[OF Suc.prems(1,2)] by blast
  with Suc.hyps(1)[of "Suc a" r] Suc.hyps(2) show ?case by (simp add: upt)
qed simp

lemma expandKey_defined: "length key = m_keyLen level \<Longrightarrow> \<exists>r. expandKey level key = Some r"
  unfolding expandKey_def using expand_loop_defined[of key "m_nk level" "m_nb * (m_nr level + 1)" level] by (cases level) (auto simp: m_nb_def)

lemma length_fold_rounds [simp]: "length st = 16 \<Longrightarrow> length (fold (cipher_round key) rs st) = 16"
  by (induction rs arbitrary: st) (simp_all add: cipher_round_def)

lemma length_cipher [simp]: "length (cipher level key b) = 16"
  by (simp add: cipher_def Let_def)

lemma round_inverse:
  assumes "length st = 16"
  shows "inv_cipher_round key r (shiftRows (subBytes (cipher_round key r st))) = shiftRows (subBytes st)"
proof -
  have "length (cipher_round key r st) = 16" by (simp add: cipher_round_def)
  then show ?thesis
    by (simp add: inv_cipher_round_def shiftRows_inverse subBytes_inverse) (simp add: cipher_round_def addRoundKey_twice mixColumns_inverse)
qed

lemma rounds_inverse:
  "length st = 16 \<Longrightarrow> fold (inv_cipher_round key) (rev rs) (shiftRows (subBytes (fold (cipher_round key) rs st))) = shiftRows (subBytes st)"
  by (induction rs arbitrary: st rule: rev_induct) (simp_all add: round_inverse)

lemma invCipher_cipher: "length b = 16 \<Longrightarrow> invCipher level key (cipher level key b) = b"
  by (simp add: invCipher_def cipher_def Let_def addRoundKey_twice rounds_inverse shiftRows_inverse subBytes_inverse)


section \<open>Modes\<close>

lemma blocks_Nil [simp]: "blocks [] = []"
  by (simp add: blocks.simps)

lemma blocks_append: "length c = 16 \<Longrightarrow> blocks (c @ rest) = c # blocks rest"
  by (subst blocks.simps) (auto simp: m_blocklen_def)

lemma blocks_induct [consumes 1, case_names Nil append]:
  fixes xs :: "byte list"
  assumes "length xs mod 16 = 0" "P []" "\<And>c rest. length c = 16 \<Longrightarrow> length rest mod 16 = 0 \<Longrightarrow> P rest \<Longrightarrow> P (c @ rest)"
  shows "P xs"
  using assms(1)
proof (induction xs rule: blocks.induct)
  case (1 xs)
  show ?case
  proof (cases "xs = []")
    case False
    then have "16 \<le> length xs" using 1(2) by (cases "length xs < 16") auto
    then have "length (take 16 xs) = 16" "length (drop 16 xs) mod 16 = 0" using 1(2) by (simp_all add: mod_if)
    then show ?thesis using assms(3)[of "take 16 xs" "drop 16 xs"] 1(1)[OF False] by (simp add: m_blocklen_def)
  qed (simp add: assms(2))
qed

lemma blocks_16: "length xs mod 16 = 0 \<Longrightarrow> concat (blocks xs) = xs \<and> (\<forall>b \<in> set (blocks xs). length b = 16) \<and> length xs = 16 * length (blocks xs)"
  by (induction xs rule: blocks_induct) (simp_all add: blocks_append)

lemma length_byteXor [simp]: "length (byteXor a b) = min (length a) (length b)"
  by (simp add: byteXor_def)

lemma byteXor_twice: "length a \<le> length k \<Longrightarrow> byteXor (byteXor a k) k = a"
  by (rule nth_equalityI) (simp_all add: byteXor_def ac_simps)

lemma ecb_inverse:
  assumes "\<forall>b \<in> set bs. length b = 16"
  shows "map (invCipher level key) (blocks (concat (map (cipher level key) bs))) = bs"
  using assms by (induction bs) (simp_all add: blocks_append invCipher_cipher)

lemma cbc_inverse:
  assumes "\<forall>b \<in> set bs. length b = 16" "length iv = 16"
  shows "cbc_decode (invCipher level key) iv (blocks (cbc_encode (cipher level key) iv bs)) = concat bs"
  using assms by (induction bs arbitrary: iv) (simp_all add: blocks_append invCipher_cipher byteXor_twice Let_def)

lemma cfb_inverse:
  assumes "\<forall>b \<in> set bs. length b = 16"
  shows "cfb_decode (cipher level key) iv (blocks (cfb_encode (cipher level key) iv bs)) = concat bs"
  using assms by (induction bs arbitrary: iv) (simp_all add: blocks_append byteXor_twice Let_def)

lemma length_cipher_modes:
  "\<forall>b \<in> set bs. length b = 16 \<Longrightarrow> length (concat (map (cipher level key) bs)) = 16 * length bs"
  "\<forall>b \<in> set bs. length b = 16 \<Longrightarrow> length (cbc_encode (cipher level key) iv bs) = 16 * length bs"
  "\<forall>b \<in> set bs. length b = 16 \<Longrightarrow> length (cfb_encode (cipher level key) iv bs) = 16 * length bs"
  "length (ofb_stream (cipher level key) iv bs) = 16 * length bs"
  by (induction bs arbitrary: iv) (simp_all add: Let_def)

lemma ofb_stream_length: "length bs = length cs \<Longrightarrow> ofb_stream ciph iv bs = ofb_stream ciph iv cs"
  by (induction bs cs arbitrary: iv rule: list_induct2) (simp_all add: Let_def)


section \<open>Paddings\<close>

lemma no_padding_iff: "(16 - n mod 16) mod 16 = 0 \<longleftrightarrow> n mod 16 = 0" for n :: nat
proof (cases "n mod 16 = 0")
  case False
  have "n mod 16 < 16" by simp
  with False have "0 < 16 - n mod 16" "16 - n mod 16 < 16" by linarith+
  moreover from this(2) have "(16 - n mod 16) mod 16 = 16 - n mod 16" by (rule mod_less)
  ultimately show ?thesis using False by linarith
qed simp

lemma padded_length: "length (m @ getPadding padding (length m) 16) mod 16 = 0"
proof -
  have a: "(n + (16 - n mod 16) mod 16) mod 16 = 0" for n :: nat
  proof (cases "n mod 16 = 0")
    case False
    define k where "k = n mod 16"
    define q where "q = n div 16"
    have "n = 16 * q + k" "k < 16" by (simp_all add: k_def q_def)
    then have "n + (16 - k) = 16 * (q + 1)" by simp
    then have "(n + (16 - k)) mod 16 = 0" by simp
    moreover have "(16 - k) mod 16 = 16 - k" using False k_def by (intro mod_less) linarith
    ultimately show ?thesis by (simp add: k_def)
  qed simp
  have "length (getPadding padding n 16) = (16 - n mod 16) mod 16 \<or> length (getPadding padding n 16) = 16 \<and> (16 - n mod 16) mod 16 = 0" for n
    by (cases padding) (simp_all add: getPadding_def Let_def)
  then consider "length (getPadding padding (length m) 16) = (16 - length m mod 16) mod 16" | "length (getPadding padding (length m) 16) = 16" "length m mod 16 = 0"
    using no_padding_iff[of "length m"] by metis
  then show ?thesis
  proof cases
    case 1
    then show ?thesis using a[of "length m"] by (simp only: length_append)
  qed simp
qed

text \<open>The texts that come back when their padding is removed.\<close>

definition last_nonzero :: "byte list \<Rightarrow> byte option" where
  "last_nonzero m = (case strip_zeros (rev m) of Some (b # _) \<Rightarrow> Some b | _ \<Rightarrow> None)"

definition padding_safe :: "aes_padding \<Rightarrow> byte list \<Rightarrow> bool" where
  "padding_safe padding m \<longleftrightarrow> m = [] \<or>
     (case padding of PKCS7 \<Rightarrow> True | ZERO \<Rightarrow> last m \<noteq> 0
      | ISO \<Rightarrow> length m mod 16 \<noteq> 0 \<or> (last_nonzero m \<noteq> None \<and> last_nonzero m \<noteq> Some 0x80))"

lemma strip_zeros_replicate [simp]: "strip_zeros (replicate n 0 @ xs) = strip_zeros xs"
  by (induction n) simp_all

lemma strip_zeros_shorter: "strip_zeros xs = Some ys \<Longrightarrow> length ys \<le> length xs \<and> ys \<noteq> [] \<and> ys ! 0 \<noteq> 0"
  by (induction xs) (auto split: if_splits)

lemma zero_padding:
  assumes "m \<noteq> []"
  shows "RemovePadding ZERO (m @ replicate n 0) = Some m \<longleftrightarrow> last m \<noteq> 0"
proof -
  obtain pre b where m: "m = pre @ [b]" using assms by (metis rev_exhaust)
  show ?thesis
    using strip_zeros_shorter[of "rev pre"] by (cases "strip_zeros (rev pre)") (auto simp: RemovePadding_def m dest!: arg_cong[where f = length])
qed

lemma pkcs7_padding:
  assumes "0 < n" "n \<le> 16"
  shows "RemovePadding PKCS7 (m @ replicate n (of_nat n)) = Some m"
proof -
  have "sint (of_nat n :: byte) = int n"
    using assms by (simp add: signed_of_nat signed_take_bit_int_eq_self)
  then show ?thesis using assms by (simp add: RemovePadding_def Let_def)
qed

lemma iso_padding:
  "n > 0 \<Longrightarrow> RemovePadding ISO (m @ 0x80 # replicate (n - 1) 0) = Some m"
  by (simp add: RemovePadding_def)

lemma iso_no_padding: "m \<noteq> [] \<Longrightarrow> RemovePadding ISO m = Some m \<longleftrightarrow> last_nonzero m \<noteq> None \<and> last_nonzero m \<noteq> Some 0x80"
  using strip_zeros_shorter[of "rev m"]
  by (auto simp: RemovePadding_def last_nonzero_def split: option.split list.split dest!: arg_cong[where f = length])

lemma removal_safe: "RemovePadding padding (m @ getPadding padding (length m) 16) = Some m \<longleftrightarrow> padding_safe padding m"
proof (cases padding)
  case ZERO
  then show ?thesis by (cases "m = []") (simp_all add: getPadding_def padding_safe_def zero_padding Let_def, simp add: RemovePadding_def)
next
  case PKCS7
  then show ?thesis using pkcs7_padding[of 16 m] pkcs7_padding[of "(16 - length m mod 16) mod 16" m]
    by (auto simp: getPadding_def padding_safe_def Let_def)
next
  case ISO
  have n: "(16 - length m mod 16) mod 16 > 0 \<longleftrightarrow> length m mod 16 \<noteq> 0" using no_padding_iff[of "length m"] by linarith
  consider "m = []" | "m \<noteq> []" "length m mod 16 = 0" | "m \<noteq> []" "length m mod 16 \<noteq> 0" by blast
  then show ?thesis
  proof cases
    case 1
    then show ?thesis using ISO by (simp add: getPadding_def padding_safe_def RemovePadding_def Let_def)
  next
    case 2
    then have "m @ getPadding padding (length m) 16 = m" using ISO by (simp add: getPadding_def Let_def)
    then show ?thesis using ISO 2 iso_no_padding[of m] by (simp add: padding_safe_def)
  next
    case 3
    then have "m @ getPadding padding (length m) 16 = m @ 0x80 # replicate ((16 - length m mod 16) mod 16 - 1) 0" using ISO n by (simp add: getPadding_def Let_def)
    then show ?thesis using ISO 3 n iso_padding[of "(16 - length m mod 16) mod 16" m] by (simp add: padding_safe_def)
  qed
qed


section \<open>Encoding and decoding\<close>

text \<open>
  C25. What is encoded can be decoded. For every key length, mode and padding, and parameters of the right size, encoding succeeds with as many bytes as the padded
  text has; decoding with the same parameters gives the padded text; and removing the padding gives the text itself exactly if the padding can tell
  where the text ends.
\<close>

theorem aes_roundtrip:
  assumes "\<not> bad_parameters q key iv"
  shows "\<exists>c p. aes_encode q m key iv = Some c \<and> aes_decode q c key iv = Some p \<and> p = m @ getPadding (qa_padding q) (length m) 16 \<and> length c = length p
    \<and> (removePadding q p = Some m \<longleftrightarrow> padding_safe (qa_padding q) m)"
proof -
  obtain ek where ek: "expandKey (qa_level q) key = Some ek" using assms expandKey_defined by (auto simp: bad_parameters_def)
  define p where "p = m @ getPadding (qa_padding q) (length m) 16"
  have p: "concat (blocks p) = p" "\<forall>b \<in> set (blocks p). length b = 16" "length p = 16 * length (blocks p)"
    using blocks_16[OF padded_length[of m "qa_padding q", folded p_def]] by blast+
  let ?ciph = "cipher (qa_level q) ek"
  define c where "c = (case qa_mode q of ECB \<Rightarrow> concat (map ?ciph (blocks p)) | CBC \<Rightarrow> cbc_encode ?ciph iv (blocks p)
      | CFB \<Rightarrow> cfb_encode ?ciph iv (blocks p) | OFB \<Rightarrow> byteXor p (ofb_stream ?ciph iv (blocks p)))"
  have enc: "aes_encode q m key iv = Some c"
    using assms unfolding c_def aes_encode_def m_blocklen_def Let_def p_def[symmetric] by (simp add: ek)
  have len: "length c = 16 * length (blocks p)"
    using length_cipher_modes(1)[OF p(2), of "qa_level q" ek] length_cipher_modes(2,3)[OF p(2), of "qa_level q" ek iv] length_cipher_modes(4)[of "qa_level q" ek iv "blocks p"] p(3)
    by (cases "qa_mode q") (simp_all only: c_def aes_mode.case length_byteXor min.idem)
  have nb: "length (blocks c) = length (blocks p)" using blocks_16[of c] len by simp
  have iv: "length iv = 16" if "qa_mode q \<noteq> ECB" using assms that by (simp add: bad_parameters_def m_blocklen_def)
  have "aes_decode q c key iv = Some p"
  proof (cases "qa_mode q")
    case ECB
    then show ?thesis using assms len p by (simp add: aes_decode_def ek m_blocklen_def Let_def) (simp add: c_def ecb_inverse)
  next
    case CBC
    then show ?thesis using assms len p iv by (simp add: aes_decode_def ek m_blocklen_def Let_def) (simp add: c_def cbc_inverse)
  next
    case CFB
    then show ?thesis using assms len p by (simp add: aes_decode_def ek m_blocklen_def Let_def) (simp add: c_def cfb_inverse)
  next
    case OFB
    have "byteXor c (ofb_stream ?ciph iv (blocks c)) = p"
      unfolding ofb_stream_length[OF nb] using OFB byteXor_twice[of p] length_cipher_modes(4)[of "qa_level q" ek iv "blocks p"] p(3) by (simp add: c_def)
    then show ?thesis using OFB assms len by (simp add: aes_decode_def ek m_blocklen_def Let_def)
  qed
  with enc len p(3) show ?thesis using removal_safe[of "qa_padding q" m] by (auto simp: removePadding_def p_def)
qed

theorem aes_roundtrip_witness:
  "\<exists>c. aes_encode \<lparr>qa_level = AES_256, qa_mode = CBC, qa_padding = PKCS7\<rparr> [1, 2, 3] (replicate 32 5) (replicate 16 9) = Some c
    \<and> aes_decode \<lparr>qa_level = AES_256, qa_mode = CBC, qa_padding = PKCS7\<rparr> c (replicate 32 5) (replicate 16 9) = Some ([1, 2, 3] @ replicate 13 13)"
proof -
  have "\<not> bad_parameters \<lparr>qa_level = AES_256, qa_mode = CBC, qa_padding = PKCS7\<rparr> (replicate 32 5) (replicate 16 9)"
    by (simp add: bad_parameters_def m_blocklen_def)
  from aes_roundtrip[OF this, of "[1, 2, 3]"] show ?thesis by (auto simp: getPadding_def Let_def)
qed

text \<open>The shortened \<open>mixColumns\<close> is the product with the matrix of the standard.\<close>

lemma mixColumns_matrix:
  assumes "length st = 16" "i < 4" "j < 4"
  shows "mixColumns st ! (4 * i + j) = multiply (st ! (4 * i + j)) 2 XOR multiply (st ! (4 * i + (j + 1) mod 4)) 3
    XOR st ! (4 * i + (j + 2) mod 4) XOR st ! (4 * i + (j + 3) mod 4)"
proof -
  have m: "multiply x 2 = xTime x" "multiply x 3 = x XOR xTime x" for x by (simp_all add: multiply_def)
  have "i = 0 \<or> i = 1 \<or> i = 2 \<or> i = 3" "j = 0 \<or> j = 1 \<or> j = 2 \<or> j = 3" using assms(2,3) by linarith+
  with assms(1) show ?thesis
    by (elim state_cases disjE) (simp_all add: m mixColumns_def mix_column_def xTime_xor ac_simps Let_def)
qed


section \<open>Paddings that lose a text\<close>

text \<open>
  The padding by ISO 7816-4 is always added in the standard; here a text that fills its blocks gets none. If it ends with the marker, which may be
  followed by zeros, removing the padding cuts it off; if it consists of zeros, the code reads before its start. So does the padding by zeros.
\<close>

lemma iso_text_cut_off:
  assumes "length m mod 16 = 15"
  shows "getPadding ISO (length (m @ [0x80])) 16 = []" "RemovePadding ISO (m @ [0x80]) = Some m"
proof -
  have "Suc (length m) mod 16 = 0" using assms by (simp add: mod_Suc)
  then show "getPadding ISO (length (m @ [0x80])) 16 = []" by (simp add: getPadding_def Let_def)
qed (simp add: RemovePadding_def)

lemma zeros_read_outside: "n > 0 \<Longrightarrow> RemovePadding ISO (replicate n 0) = None \<and> RemovePadding ZERO (replicate n 0) = None"
  using strip_zeros_replicate[of n "[]"] by (simp add: RemovePadding_def)

end
