(* ===== verification/VideoProvider.thy ===== *)
theory VideoProvider
  imports ClientManager SharedMemoryManager "HOL-Library.Signed_Division"
begin

text \<open>
  What a remote desktop window shows: \<open>QuickDesk/src/component/VideoFrameProvider.cpp\<close> takes frames out of
  shared memory into a video sink and counts them, and turns the cursor shapes a device sends into images
  that \<open>component/CursorImageProvider.cpp\<close> hands to the interface. At the end \<open>saveFrameToFile\<close> and the
  calls on downloaded files of \<open>manager/ClientManager.cpp\<close>.

  An \<open>int\<close> the code computes with is an integer reduced to 32 bits by \<open>wrap32\<close>; the wall clock is unbounded.
  Objects behind pointers are numbers, and there is one shared memory manager. Whether Qt makes an image of a
  width, height and line length is the argument \<open>fits\<close>. A step that reads outside of a buffer is \<open>None\<close>.
\<close>


section \<open>Data\<close>

definition wrap32 :: "int \<Rightarrow> int" where
  "wrap32 i = (i + 2 ^ 31) mod 2 ^ 32 - 2 ^ 31"

lemma wrap32_small [simp]: "- (2 ^ 31) \<le> i \<Longrightarrow> i < 2 ^ 31 \<Longrightarrow> wrap32 i = i"
  by (simp add: wrap32_def)

record qimage =
  qi_width :: int
  qi_height :: int
  qi_bits :: "byte list"

record cursor_data =
  cd_image :: "qimage option" \<comment> \<open>\<open>None\<close> is the null image\<close>
  cd_hotspot :: "int \<times> int"

type_synonym cursor_store = "(qstring, cursor_data) qmap"

record video_provider =
  vp_videoSink :: "nat option"
  vp_deviceId :: qstring
  vp_sharedMemoryManager :: "nat option"
  vp_active :: bool
  vp_frameSize :: "int \<times> int"
  vp_frameRate :: int
  vp_lastFrameTime :: int
  vp_frameCount :: int
  vp_frameRateStartTime :: int
  vp_cursorImage :: "qimage option"
  vp_cursorHotspot :: "int \<times> int"

datatype video_event =
    vp_videoSinkChanged
  | vp_deviceIdChanged
  | vp_sharedMemoryManagerChanged
  | vp_activeChanged
  | vp_frameSizeChanged
  | vp_frameRateChanged
  | vp_frameReceived
  | vp_cursorChanged
  | vp_setVideoFrame nat "32 word" "32 word" "plane list" \<comment> \<open>given to the sink\<close>

text \<open>A size that was never set is \<open>QSize()\<close>, the pair of minus ones.\<close>

definition VideoFrameProvider_init :: video_provider where
  "VideoFrameProvider_init = \<lparr>vp_videoSink = None, vp_deviceId = [], vp_sharedMemoryManager = None, vp_active = True,
     vp_frameSize = (-1, -1), vp_frameRate = 0, vp_lastFrameTime = 0, vp_frameCount = 0, vp_frameRateStartTime = 0,
     vp_cursorImage = None, vp_cursorHotspot = (0, 0)\<rparr>"


section \<open>The images of the cursors\<close>

definition setCursor :: "qstring \<Rightarrow> qimage option \<Rightarrow> int \<times> int \<Rightarrow> cursor_store \<Rightarrow> cursor_store" where
  "setCursor deviceId img hotspot cs = qm_insert deviceId \<lparr>cd_image = img, cd_hotspot = hotspot\<rparr> cs"

definition clearCursor :: "qstring \<Rightarrow> cursor_store \<Rightarrow> cursor_store" where
  "clearCursor deviceId cs = qm_remove deviceId cs"

text \<open>
  The identifier is \<open>deviceId/version\<close>; \<open>split\<close> never gives an empty list. The second result is what is written to
  \<open>*size\<close>, if the caller asks for it and an entry is found; the null image has size 0 by 0.
\<close>

definition image_size :: "qimage option \<Rightarrow> int \<times> int" where
  "image_size img = (case img of None \<Rightarrow> (0, 0) | Some i \<Rightarrow> (qi_width i, qi_height i))"

definition requestImage :: "qstring \<Rightarrow> bool \<Rightarrow> cursor_store \<Rightarrow> qimage option \<times> (int \<times> int) option" where
  "requestImage imageId wantsSize cs =
     (let deviceId = takeWhile (\<lambda>c. c \<noteq> CHR ''/'') imageId
      in case map_of cs deviceId of
           None \<Rightarrow> (None, None)
         | Some d \<Rightarrow> (cd_image d, if wantsSize then Some (image_size (cd_image d)) else None))"


section \<open>The frame provider\<close>

definition setVideoSink :: "nat option \<Rightarrow> video_provider \<Rightarrow> video_provider \<times> video_event list" where
  "setVideoSink sink vp =
     (if vp_videoSink vp = sink then (vp, []) else (vp\<lparr>vp_videoSink := sink\<rparr>, [vp_videoSinkChanged]))"

definition vp_setDeviceId :: "qstring \<Rightarrow> video_provider \<Rightarrow> video_provider \<times> video_event list" where
  "vp_setDeviceId deviceId vp =
     (if vp_deviceId vp = deviceId then (vp, []) else (vp\<lparr>vp_deviceId := deviceId\<rparr>, [vp_deviceIdChanged]))"

definition setSharedMemoryManager :: "nat option \<Rightarrow> video_provider \<Rightarrow> video_provider \<times> video_event list" where
  "setSharedMemoryManager manager vp =
     (if vp_sharedMemoryManager vp = manager then (vp, [])
      else (vp\<lparr>vp_sharedMemoryManager := manager\<rparr>, [vp_sharedMemoryManagerChanged]))"

definition setActive :: "bool \<Rightarrow> video_provider \<Rightarrow> video_provider \<times> video_event list" where
  "setActive active vp =
     (if vp_active vp = active then (vp, []) else (vp\<lparr>vp_active := active\<rparr>, [vp_activeChanged]))"

text \<open>The product is of type \<open>int\<close>, the quotient by \<open>elapsed\<close> is taken in 64 bits and rounds towards zero.\<close>

definition updateFrameRate :: "int \<Rightarrow> video_provider \<Rightarrow> video_provider \<times> video_event list" where
  "updateFrameRate now vp =
     (let vp1 = (if vp_frameRateStartTime vp = 0 then vp\<lparr>vp_frameRateStartTime := now, vp_frameCount := 0\<rparr> else vp);
          vp2 = vp1\<lparr>vp_frameCount := wrap32 (vp_frameCount vp1 + 1)\<rparr>;
          elapsed = now - vp_frameRateStartTime vp2;
          (vp3, ev) =
            (if elapsed \<ge> 1000
             then (let newFps = wrap32 (wrap32 (vp_frameCount vp2 * 1000) sdiv elapsed);
                       (vp4, ev4) = (if vp_frameRate vp2 \<noteq> newFps then (vp2\<lparr>vp_frameRate := newFps\<rparr>, [vp_frameRateChanged])
                                     else (vp2, []))
                   in (vp4\<lparr>vp_frameRateStartTime := now, vp_frameCount := 0\<rparr>, ev4))
             else (vp2, []))
      in (vp3\<lparr>vp_lastFrameTime := now\<rparr>, ev))"

text \<open>\<open>mem\<close> is the region of the device as \<open>readVideoFrame\<close> finds it.\<close>

definition pushFrame :: "byte list option \<Rightarrow> int \<Rightarrow> shm_manager \<Rightarrow> video_provider
    \<Rightarrow> (shm_manager \<times> video_provider \<times> video_event list) option" where
  "pushFrame mem now shm vp =
     (case vp_videoSink vp of
        None \<Rightarrow> Some (shm, vp, [])
      | Some sink \<Rightarrow>
          if \<not> vp_active vp \<or> vp_sharedMemoryManager vp = None \<or> vp_deviceId vp = [] then Some (shm, vp, [])
          else if \<not> shm_isAttached (vp_deviceId vp) shm then Some (shm, vp, [])
          else case readVideoFrame mem (vp_deviceId vp) shm of
            (shm1, OutOfBounds) \<Rightarrow> None
          | (shm1, NoFrame) \<Rightarrow> Some (shm1, vp, [])
          | (shm1, Frame w h ps) \<Rightarrow>
              let newSize = (sint w, sint h);
                  (vp1, ev1) = (if vp_frameSize vp \<noteq> newSize then (vp\<lparr>vp_frameSize := newSize\<rparr>, [vp_frameSizeChanged])
                                else (vp, []));
                  (vp2, ev2) = updateFrameRate now vp1
              in Some (shm1, vp2, ev1 @ [vp_setVideoFrame sink w h ps, vp_frameReceived] @ ev2))"

definition onVideoFrameReady :: "byte list option \<Rightarrow> int \<Rightarrow> shm_manager \<Rightarrow> video_provider
    \<Rightarrow> (shm_manager \<times> video_provider \<times> video_event list) option" where
  "onVideoFrameReady mem now shm vp = (if \<not> vp_active vp then Some (shm, vp, []) else pushFrame mem now shm vp)"

text \<open>
  The image is first made over the bytes of the message and then copied, which reads \<open>height\<close> lines of
  \<open>4 * width\<close> bytes. The store of the cursors is \<open>None\<close> before it has been created.
\<close>

definition onCursorShapeChanged :: "(int \<Rightarrow> int \<Rightarrow> int \<Rightarrow> bool) \<Rightarrow> int \<Rightarrow> int \<Rightarrow> int \<Rightarrow> int \<Rightarrow> byte list
    \<Rightarrow> cursor_store option \<Rightarrow> video_provider \<Rightarrow> (cursor_store option \<times> video_provider \<times> video_event list) option" where
  "onCursorShapeChanged fits width height hotspotX hotspotY data cs vp =
     (if width \<le> 0 \<or> height \<le> 0
      then Some (cs, vp\<lparr>vp_cursorImage := None, vp_cursorHotspot := (0, 0)\<rparr>, [vp_cursorChanged])
      else
        let expectedSize = wrap32 (wrap32 (width * height) * 4)
        in if int (length data) < expectedSize then Some (cs, vp, [])
           else if fits width height (wrap32 (width * 4)) \<and> int (length data) < width * height * 4 then None
           else
             let img = (if fits width height (wrap32 (width * 4))
                        then Some \<lparr>qi_width = width, qi_height = height, qi_bits = take (nat (width * height * 4)) data\<rparr>
                        else None);
                 cs1 = map_option (setCursor (vp_deviceId vp) img (hotspotX, hotspotY)) cs
             in Some (cs1, vp\<lparr>vp_cursorImage := img, vp_cursorHotspot := (hotspotX, hotspotY)\<rparr>, [vp_cursorChanged]))"

definition hasCursor :: "video_provider \<Rightarrow> bool" where
  "hasCursor vp \<longleftrightarrow> vp_cursorImage vp \<noteq> None"


section \<open>A window\<close>

text \<open>
  The state a window works with: the regions, the images of the cursors and its frame provider. The client
  manager attaches and detaches regions meanwhile. Nothing in the program calls \<open>clearCursor\<close>.
\<close>

record video_state =
  vs_shm :: shm_manager
  vs_cursors :: "cursor_store option"
  vs_provider :: video_provider

datatype video_input =
    VSink "nat option"
  | VDevice qstring
  | VManager "nat option"
  | VActive bool
  | VReady "32 word" "byte list option" int \<comment> \<open>index, region and time\<close>
  | VPush "byte list option" int
  | VCursor int int int int "byte list"
  | VStoreCreated
  | VRegions shm_manager

definition on_provider :: "(video_provider \<Rightarrow> video_provider \<times> video_event list) \<Rightarrow> video_state
    \<Rightarrow> (video_state \<times> video_event list) option" where
  "on_provider f vs = (let (vp, ev) = f (vs_provider vs) in Some (vs\<lparr>vs_provider := vp\<rparr>, ev))"

definition on_frames :: "(shm_manager \<Rightarrow> video_provider \<Rightarrow> (shm_manager \<times> video_provider \<times> video_event list) option)
    \<Rightarrow> video_state \<Rightarrow> (video_state \<times> video_event list) option" where
  "on_frames f vs = map_option (\<lambda>(shm, vp, ev). (vs\<lparr>vs_shm := shm, vs_provider := vp\<rparr>, ev)) (f (vs_shm vs) (vs_provider vs))"

fun video_exec :: "(int \<Rightarrow> int \<Rightarrow> int \<Rightarrow> bool) \<Rightarrow> video_input \<Rightarrow> video_state \<Rightarrow> (video_state \<times> video_event list) option" where
  "video_exec fits (VSink sink) vs = on_provider (setVideoSink sink) vs"
| "video_exec fits (VDevice d) vs = on_provider (vp_setDeviceId d) vs"
| "video_exec fits (VManager mgr) vs = on_provider (setSharedMemoryManager mgr) vs"
| "video_exec fits (VActive b) vs = on_provider (setActive b) vs"
| "video_exec fits (VReady i mem now) vs = on_frames (onVideoFrameReady mem now) vs"
| "video_exec fits (VPush mem now) vs = on_frames (pushFrame mem now) vs"
| "video_exec fits (VCursor w h x y data) vs =
     map_option (\<lambda>(cs, vp, ev). (vs\<lparr>vs_cursors := cs, vs_provider := vp\<rparr>, ev))
       (onCursorShapeChanged fits w h x y data (vs_cursors vs) (vs_provider vs))"
| "video_exec fits VStoreCreated vs = Some (vs\<lparr>vs_cursors := Some []\<rparr>, [])"
| "video_exec fits (VRegions shm) vs = Some (vs\<lparr>vs_shm := shm\<rparr>, [])"

definition video_init :: video_state where
  "video_init = \<lparr>vs_shm = [], vs_cursors = None, vs_provider = VideoFrameProvider_init\<rparr>"

definition video_step :: "(int \<Rightarrow> int \<Rightarrow> int \<Rightarrow> bool) \<Rightarrow> video_state \<Rightarrow> video_state \<Rightarrow> bool" where
  "video_step fits vs vs' \<longleftrightarrow> (\<exists>i ev. video_exec fits i vs = Some (vs', ev))"

text \<open>The handlers of the client manager's signals in \<open>RemoteDesktopView.qml\<close>, which look at the device first.\<close>

definition view_input :: "byte list option \<Rightarrow> int \<Rightarrow> qstring \<Rightarrow> cm_event \<Rightarrow> video_input list" where
  "view_input mem now deviceId e =
     (case e of
        cm_videoFrameReady d i \<Rightarrow> if d = deviceId then [VReady (word_of_int i) mem now] else []
      | cm_cursorShapeChanged d w h x y data \<Rightarrow> if d = deviceId then [VCursor w h x y data] else []
      | _ \<Rightarrow> [])"


section \<open>Frames and files\<close>

text \<open>
  \<open>saveFrameToFile\<close>: \<open>converts\<close> and \<open>saved\<close> are the answers of Qt, \<open>dirOf\<close> and \<open>dirExists\<close> those of the file
  system. \<open>None\<close> is a frame that leaves its region.
\<close>

datatype desktop_call = dc_mkpath qstring | dc_save qstring | dc_openUrl qstring | dc_removeFile qstring

definition saveFrameToFile :: "byte list option \<Rightarrow> bool \<Rightarrow> (qstring \<Rightarrow> qstring) \<Rightarrow> (qstring \<Rightarrow> bool) \<Rightarrow> bool
    \<Rightarrow> qstring \<Rightarrow> qstring \<Rightarrow> client_manager \<Rightarrow> (client_manager \<times> desktop_call list \<times> bool) option" where
  "saveFrameToFile mem converts dirOf dirExists saved deviceId filePath cm =
     (if \<not> shm_isAttached deviceId (cm_sharedMemory cm) then Some (cm, [], False)
      else case readVideoFrame mem deviceId (cm_sharedMemory cm) of
        (shm, OutOfBounds) \<Rightarrow> None
      | (shm, NoFrame) \<Rightarrow> Some (cm\<lparr>cm_sharedMemory := shm\<rparr>, [], False)
      | (shm, Frame w h ps) \<Rightarrow>
          let cm1 = cm\<lparr>cm_sharedMemory := shm\<rparr>
          in if \<not> converts then Some (cm1, [], False)
             else Some (cm1, (if dirExists (dirOf filePath) then [] else [dc_mkpath (dirOf filePath)]) @ [dc_save filePath], saved))"

definition openDownloadedFile :: "(qstring \<Rightarrow> qstring) \<Rightarrow> qstring \<Rightarrow> desktop_call list" where
  "openDownloadedFile fileUrl filePath = [dc_openUrl (fileUrl filePath)]"

definition openContainingFolder :: "(qstring \<Rightarrow> qstring) \<Rightarrow> (qstring \<Rightarrow> qstring) \<Rightarrow> qstring \<Rightarrow> desktop_call list" where
  "openContainingFolder fileUrl absolutePath filePath = [dc_openUrl (fileUrl (absolutePath filePath))]"

definition deleteDownloadedFile :: "bool \<Rightarrow> qstring \<Rightarrow> desktop_call list \<times> bool" where
  "deleteDownloadedFile removed filePath = ([dc_removeFile filePath], removed)"

end
