(* ===== verification/VideoProperties.thy ===== *)
theory VideoProperties
  imports VideoProvider
begin

text \<open>
  Properties of the frame provider and the cursor images: what a window shows of a frame, the frame rate as the
  frames of a window of time, images that hold exactly their pixels, and when a cursor shape is read outside
  of its bytes.
\<close>


section \<open>Cursors\<close>

definition whole_image :: "qimage option \<Rightarrow> bool" where
  "whole_image img \<longleftrightarrow> (case img of None \<Rightarrow> True
     | Some i \<Rightarrow> 0 < qi_width i \<and> 0 < qi_height i \<and> int (length (qi_bits i)) = qi_width i * qi_height i * 4)"

lemma whole_image_simps [simp]:
  "whole_image None"
  "whole_image (Some i) \<longleftrightarrow> 0 < qi_width i \<and> 0 < qi_height i \<and> int (length (qi_bits i)) = qi_width i * qi_height i * 4"
  by (simp_all add: whole_image_def)

definition images_whole :: "video_state \<Rightarrow> bool" where
  "images_whole vs \<longleftrightarrow> whole_image (vp_cursorImage (vs_provider vs))
     \<and> (case vs_cursors vs of None \<Rightarrow> True | Some cs \<Rightarrow> \<forall>d c. map_of cs d = Some c \<longrightarrow> whole_image (cd_image c))"

definition size_shown :: "video_provider \<Rightarrow> bool" where
  "size_shown vp \<longleftrightarrow> vp_frameSize vp = (-1, -1)
     \<or> (1 \<le> fst (vp_frameSize vp) \<and> fst (vp_frameSize vp) \<le> 8192 \<and> 1 \<le> snd (vp_frameSize vp) \<and> snd (vp_frameSize vp) \<le> 8192)"

lemma cursor_result:
  assumes "onCursorShapeChanged fits w h x y data cs vp = Some (cs', vp', ev)"
  obtains (hidden) "cs' = cs" "vp' = vp\<lparr>vp_cursorImage := None, vp_cursorHotspot := (0, 0)\<rparr>"
  | (refused) "cs' = cs" "vp' = vp"
  | (shown) img where "whole_image img" "cs' = map_option (setCursor (vp_deviceId vp) img (x, y)) cs"
      "vp' = vp\<lparr>vp_cursorImage := img, vp_cursorHotspot := (x, y)\<rparr>"
proof (cases "w \<le> 0 \<or> h \<le> 0")
  case True
  then show ?thesis using assms hidden by (simp add: onCursorShapeChanged_def)
next
  case False
  then have pos: "0 < w" "0 < h" "0 < w * h * 4" by simp_all
  show ?thesis
  proof (cases "int (length data) < wrap32 (wrap32 (w * h) * 4)")
    case True
    then show ?thesis using assms pos refused by (simp add: onCursorShapeChanged_def)
  next
    case long: False
    show ?thesis
    proof (cases "fits w h (wrap32 (w * 4))")
      case True
      then have "w * h * 4 \<le> int (length data)" using assms pos long
        by (simp add: onCursorShapeChanged_def Let_def split: if_splits)
      then have "whole_image (Some \<lparr>qi_width = w, qi_height = h, qi_bits = take (nat (w * h * 4)) data\<rparr>)"
        using pos by simp
      then show ?thesis using assms pos long True shown[OF \<open>whole_image _\<close>]
        by (simp add: onCursorShapeChanged_def Let_def split: if_splits)
    next
      case no: False
      show ?thesis using assms pos long no shown[of None] by (simp add: onCursorShapeChanged_def Let_def)
    qed
  qed
qed


lemma frame_rate_keeps [simp]:
  "vp_frameSize (fst (updateFrameRate now vp)) = vp_frameSize vp" "vp_cursorImage (fst (updateFrameRate now vp)) = vp_cursorImage vp"
  "vp_lastFrameTime (fst (updateFrameRate now vp)) = now"
  by (simp_all add: updateFrameRate_def Let_def split_beta)

lemma setters_keep [simp]:
  "vp_frameSize (fst (setVideoSink s vp)) = vp_frameSize vp" "vp_cursorImage (fst (setVideoSink s vp)) = vp_cursorImage vp"
  "vp_frameSize (fst (vp_setDeviceId d vp)) = vp_frameSize vp" "vp_cursorImage (fst (vp_setDeviceId d vp)) = vp_cursorImage vp"
  "vp_frameSize (fst (setSharedMemoryManager m vp)) = vp_frameSize vp"
  "vp_cursorImage (fst (setSharedMemoryManager m vp)) = vp_cursorImage vp"
  "vp_frameSize (fst (setActive b vp)) = vp_frameSize vp" "vp_cursorImage (fst (setActive b vp)) = vp_cursorImage vp"
  by (simp_all add: setVideoSink_def vp_setDeviceId_def setSharedMemoryManager_def setActive_def)

lemma size_range: "0 < n \<Longrightarrow> n \<le> 8192 \<Longrightarrow> 1 \<le> int n \<and> int n \<le> 8192"
  by simp

lemma size_in_range:
  assumes "size_ok fh"
  shows "sint (fh_width fh) = int (unat (fh_width fh))" "sint (fh_height fh) = int (unat (fh_height fh))"
proof -
  have "unat (fh_width fh) \<le> 8192" "unat (fh_height fh) \<le> 8192" using assms by (simp_all add: size_ok_def word_le_nat_alt)
  from sint_small[OF le_less_trans[OF this(1)]] sint_small[OF le_less_trans[OF this(2)]]
  show "sint (fh_width fh) = int (unat (fh_width fh))" "sint (fh_height fh) = int (unat (fh_height fh))" by simp_all
qed

lemma frame_size_of_read:
  assumes "readVideoFrame mem d shm = (shm', Frame w h ps)"
  shows "1 \<le> sint w \<and> sint w \<le> 8192 \<and> 1 \<le> sint h \<and> sint h \<le> 8192"
proof -
  from assms have "0 < w" "0 < h" "w \<le> 8192" "h \<le> 8192"
    by (auto simp: readVideoFrame_def copy_planes_def size_ok_def Let_def split: option.splits if_splits)
  then have u: "0 < unat w" "0 < unat h" "unat w \<le> 8192" "unat h \<le> 8192"
    by (simp_all add: word_less_nat_alt word_le_nat_alt)
  have s: "sint w = int (unat w)" "sint h = int (unat h)" using sint_small[OF le_less_trans[OF u(3)]] sint_small[OF le_less_trans[OF u(4)]] by simp_all
  show ?thesis unfolding s using size_range[OF u(1,3)] size_range[OF u(2,4)] by (intro conjI) simp_all
qed

lemma pushFrame_cases:
  assumes "pushFrame mem now shm vp = Some (shm', vp', ev)"
  obtains (idle) "vp' = vp" "ev = []"
  | (pushed) sink w h ps where "vp_videoSink vp = Some sink" "vp_active vp" "readVideoFrame mem (vp_deviceId vp) shm = (shm', Frame w h ps)"
      "vp' = fst (updateFrameRate now (vp\<lparr>vp_frameSize := (sint w, sint h)\<rparr>))"
      "ev = (if vp_frameSize vp \<noteq> (sint w, sint h) then [vp_frameSizeChanged] else []) @ [vp_setVideoFrame sink w h ps, vp_frameReceived]
        @ snd (updateFrameRate now (vp\<lparr>vp_frameSize := (sint w, sint h)\<rparr>))"
proof (cases "vp_videoSink vp")
  case None
  then have "vp' = vp \<and> ev = []" using assms by (auto simp: pushFrame_def)
  then show ?thesis by (intro idle) simp_all
next
  case (Some sink)
  show ?thesis
  proof (cases "\<not> vp_active vp \<or> vp_sharedMemoryManager vp = None \<or> vp_deviceId vp = [] \<or> \<not> shm_isAttached (vp_deviceId vp) shm")
    case True
    then have "pushFrame mem now shm vp = Some (shm, vp, [])" using Some True by (elim disjE) (simp_all add: pushFrame_def)
    then have "vp' = vp \<and> ev = []" using assms by simp
    then show ?thesis by (intro idle) simp_all
  next
    case False
    then have go: "vp_active vp" "vp_sharedMemoryManager vp \<noteq> None" "vp_deviceId vp \<noteq> []" "shm_isAttached (vp_deviceId vp) shm" by simp_all
    obtain shm1 r where r: "readVideoFrame mem (vp_deviceId vp) shm = (shm1, r)" by fastforce
    show ?thesis
    proof (cases r)
      case NoFrame
      then have "vp' = vp \<and> ev = []" using assms Some go r by (auto simp: pushFrame_def)
      then show ?thesis by (intro idle) simp_all
    next
      case (Frame w h ps)
      have same: "vp_frameSize vp = (sint w, sint h) \<Longrightarrow> vp\<lparr>vp_frameSize := (sint w, sint h)\<rparr> = vp" by simp
      show ?thesis
        using assms go r
        by (intro pushed[OF Some go(1), of w h ps]; cases "vp_frameSize vp = (sint w, sint h)")
          (auto simp: pushFrame_def Some Frame split_beta Let_def same)
    next
      case OutOfBounds
      then show ?thesis using assms Some go r by (simp add: pushFrame_def)
    qed
  qed
qed

lemma pushFrame_keeps:
  assumes "pushFrame mem now shm vp = Some (shm', vp', ev)"
  shows "vp_cursorImage vp' = vp_cursorImage vp" "size_shown vp \<Longrightarrow> size_shown vp'"
  using assms by (cases rule: pushFrame_cases; auto simp: size_shown_def dest: frame_size_of_read)+

lemma onVideoFrameReady_push:
  "onVideoFrameReady mem now shm vp = Some (shm', vp', ev) \<Longrightarrow> (vp' = vp \<and> ev = []) \<or> pushFrame mem now shm vp = Some (shm', vp', ev)"
  by (simp add: onVideoFrameReady_def split: if_splits)

lemma onVideoFrameReady_keeps:
  assumes "onVideoFrameReady mem now shm vp = Some (shm', vp', ev)"
  shows "vp_cursorImage vp' = vp_cursorImage vp" "size_shown vp \<Longrightarrow> size_shown vp'"
  using onVideoFrameReady_push[OF assms] pushFrame_keeps by blast+

lemma cursor_keeps_size: "onCursorShapeChanged fits w h x y data cs vp = Some (cs', vp', ev) \<Longrightarrow> vp_frameSize vp' = vp_frameSize vp"
  by (erule cursor_result) simp_all

definition window_ok :: "video_state \<Rightarrow> bool" where
  "window_ok vs \<longleftrightarrow> images_whole vs \<and> size_shown (vs_provider vs)"

lemma window_ok_provider:
  assumes "window_ok vs" "vp_cursorImage vp' = vp_cursorImage (vs_provider vs)" "size_shown (vs_provider vs) \<Longrightarrow> size_shown vp'"
  shows "window_ok (vs\<lparr>vs_provider := vp'\<rparr>)" "window_ok (vs\<lparr>vs_shm := shm, vs_provider := vp'\<rparr>)"
  using assms by (simp_all add: window_ok_def images_whole_def)

lemma size_shown_cong: "vp_frameSize vp' = vp_frameSize vp \<Longrightarrow> size_shown vp' = size_shown vp"
  by (simp add: size_shown_def)

lemma images_whole_cursor:
  assumes "images_whole vs" "onCursorShapeChanged fits w h x y data (vs_cursors vs) (vs_provider vs) = Some (cs', vp', ev)"
  shows "images_whole (vs\<lparr>vs_cursors := cs', vs_provider := vp'\<rparr>)"
  using assms(2)
proof (cases rule: cursor_result)
  case (shown img)
  then show ?thesis using assms(1) by (auto simp: images_whole_def setCursor_def split: option.splits if_splits)
qed (use assms(1) in \<open>simp_all add: images_whole_def\<close>)

lemma window_ok_setter:
  assumes "window_ok vs" "on_provider f vs = Some (vs', ev)"
    and "vp_frameSize (fst (f (vs_provider vs))) = vp_frameSize (vs_provider vs)"
    and "vp_cursorImage (fst (f (vs_provider vs))) = vp_cursorImage (vs_provider vs)"
  shows "window_ok vs'"
proof -
  have "vs' = vs\<lparr>vs_provider := fst (f (vs_provider vs))\<rparr>" using assms(2) by (simp add: on_provider_def split_beta)
  then show ?thesis using window_ok_provider(1)[OF assms(1,4)] size_shown_cong[OF assms(3)] by simp
qed

lemma window_ok_frames:
  assumes "window_ok vs" "on_frames f vs = Some (vs', ev)"
    and "\<And>shm' vp' ev. f (vs_shm vs) (vs_provider vs) = Some (shm', vp', ev) \<Longrightarrow>
      vp_cursorImage vp' = vp_cursorImage (vs_provider vs) \<and> (size_shown (vs_provider vs) \<longrightarrow> size_shown vp')"
  shows "window_ok vs'"
proof -
  obtain shm' vp' ev' where r: "f (vs_shm vs) (vs_provider vs) = Some (shm', vp', ev')" "vs' = vs\<lparr>vs_shm := shm', vs_provider := vp'\<rparr>"
    using assms(2) by (auto simp: on_frames_def)
  show ?thesis unfolding r(2) using window_ok_provider(2)[OF assms(1)] assms(3)[OF r(1)] by blast
qed

lemma window_ok_exec:
  assumes "window_ok vs" "video_exec fits i vs = Some (vs', ev)"
  shows "window_ok vs'"
proof (cases i)
  case (VReady n mem now)
  then have "on_frames (onVideoFrameReady mem now) vs = Some (vs', ev)" using assms(2) by simp
  then show ?thesis by (rule window_ok_frames[OF assms(1)]) (blast intro: onVideoFrameReady_keeps)
next
  case (VPush mem now)
  then have "on_frames (pushFrame mem now) vs = Some (vs', ev)" using assms(2) by simp
  then show ?thesis by (rule window_ok_frames[OF assms(1)]) (blast intro: pushFrame_keeps)
next
  case (VCursor w h x y data)
  then obtain cs' vp' where r: "onCursorShapeChanged fits w h x y data (vs_cursors vs) (vs_provider vs) = Some (cs', vp', ev)"
    "vs' = vs\<lparr>vs_cursors := cs', vs_provider := vp'\<rparr>" using assms(2) by auto
  show ?thesis
    using images_whole_cursor[OF _ r(1)] assms(1) size_shown_cong[OF cursor_keeps_size[OF r(1)]] by (simp add: r(2) window_ok_def)
next
  case (VSink x)
  then have "on_provider (setVideoSink x) vs = Some (vs', ev)" using assms(2) by simp
  then show ?thesis by (rule window_ok_setter[OF assms(1)]) (rule setters_keep)+
next
  case (VDevice x)
  then have "on_provider (vp_setDeviceId x) vs = Some (vs', ev)" using assms(2) by simp
  then show ?thesis by (rule window_ok_setter[OF assms(1)]) (rule setters_keep)+
next
  case (VManager x)
  then have "on_provider (setSharedMemoryManager x) vs = Some (vs', ev)" using assms(2) by simp
  then show ?thesis by (rule window_ok_setter[OF assms(1)]) (rule setters_keep)+
next
  case (VActive x)
  then have "on_provider (setActive x) vs = Some (vs', ev)" using assms(2) by simp
  then show ?thesis by (rule window_ok_setter[OF assms(1)]) (rule setters_keep)+
next
  case VStoreCreated
  then have "vs' = vs\<lparr>vs_cursors := Some []\<rparr>" using assms(2) by simp
  then show ?thesis using assms(1) by (simp add: window_ok_def images_whole_def)
next
  case (VRegions shm)
  then have "vs' = vs\<lparr>vs_shm := shm\<rparr>" using assms(2) by simp
  then show ?thesis using assms(1) by (simp add: window_ok_def images_whole_def)
qed

lemma window_ok_init: "window_ok video_init"
  by (simp add: window_ok_def images_whole_def size_shown_def video_init_def VideoFrameProvider_init_def)

interpretation windows: invariant_system "\<lambda>vs. vs = video_init" "video_step fits" window_ok for fits
proof
  show "window_ok vs" if "vs = video_init" for vs using that window_ok_init by simp
  show "window_ok t" if "window_ok s" "video_step fits s t" for s t using that window_ok_exec by (auto simp only: video_step_def)
qed


text \<open>Whatever image the interface asks for, it gets one with exactly the bytes of its pixels, or none.\<close>

lemma requested_image_whole:
  assumes "reachable (\<lambda>vs. vs = video_init) (video_step fits) vs" "vs_cursors vs = Some cs"
  shows "whole_image (fst (requestImage imageId wantsSize cs))"
proof -
  have "\<forall>d c. map_of cs d = Some c \<longrightarrow> whole_image (cd_image c)"
    using windows.reachable_inv[OF assms(1)] assms(2) by (simp add: window_ok_def images_whole_def)
  then show ?thesis by (auto simp: requestImage_def Let_def split: option.splits)
qed

lemma requestImage_setCursor:
  assumes "CHR ''/'' \<notin> set d"
  shows "requestImage (d @ ''/'' @ version) True (setCursor d img p cs) = (img, Some (image_size img))"
proof -
  have "takeWhile (\<lambda>c. c \<noteq> CHR ''/'') (d @ ''/'' @ version) = d" using assms by (subst takeWhile_append2) auto
  then show ?thesis by (simp add: requestImage_def setCursor_def)
qed


section \<open>When a cursor shape is read outside of its bytes\<close>

lemma cursor_outside_iff:
  "onCursorShapeChanged fits w h x y data cs vp = None \<longleftrightarrow>
     0 < w \<and> 0 < h \<and> fits w h (wrap32 (w * 4)) \<and> wrap32 (wrap32 (w * h) * 4) \<le> int (length data) \<and> int (length data) < w * h * 4"
  by (auto simp: onCursorShapeChanged_def Let_def not_le not_less)

text \<open>A shape whose bytes can be counted in an \<open>int\<close> is shown whole or refused.\<close>

lemma cursor_shape_inside:
  assumes "0 < w" "0 < h" "w * h * 4 < 2 ^ 31" and fits: "fits w h (wrap32 (w * 4))"
  shows "onCursorShapeChanged fits w h x y data cs vp =
    (if int (length data) < w * h * 4 then Some (cs, vp, [])
     else let img = Some \<lparr>qi_width = w, qi_height = h, qi_bits = take (nat (w * h * 4)) data\<rparr>
          in Some (map_option (setCursor (vp_deviceId vp) img (x, y)) cs,
               vp\<lparr>vp_cursorImage := img, vp_cursorHotspot := (x, y)\<rparr>, [vp_cursorChanged]))"
proof -
  have small: "0 < n \<Longrightarrow> n * 4 < 2 ^ 31 \<Longrightarrow> wrap32 n = n \<and> wrap32 (n * 4) = n * 4" for n by simp
  have "0 < w * h" using assms(1,2) by simp
  note small[OF this assms(3)]
  then show ?thesis using assms(1,2) fits by (simp add: onCursorShapeChanged_def Let_def)
qed

text \<open>
  A device that announces a cursor of 32768 by 32768 pixels and sends no pixels: the expected size wraps to 0, and
  the copy of the image reads four gigabytes behind the message.
\<close>

lemma remote_cursor_reads_outside:
  assumes d: "findDeviceId conn cm = d" "d \<noteq> []" and fits: "fits 32768 32768 131072"
    and msg: "oget message ''connectionId'' = JStr conn" "toInt (oget message ''width'') = 32768" "toInt (oget message ''height'') = 32768"
    and few: "length (ce_fromBase64 env (toString (oget message ''data''))) < 2 ^ 32"
  shows "\<exists>e i. snd (handleCursorShapeChanged env message cm) = [e] \<and> view_input mem now d e = [i] \<and> video_exec fits i vs = None"
proof -
  have "wrap32 (wrap32 (32768 * 32768) * 4) = 0" by (simp add: wrap32_def)
  moreover have "wrap32 (32768 * 4) = 131072" by simp
  ultimately have "onCursorShapeChanged fits 32768 32768 x y data cs vp = None" if "length data < 2 ^ 32" for x y data cs vp
    using that fits by (simp add: cursor_outside_iff)
  then show ?thesis using d msg few
    by (auto simp: handleCursorShapeChanged_def forDevice_def emit_def view_input_def)
qed

text \<open>Hiding the cursor does not reach the store: the interface still gets the old image under the device's name.\<close>

lemma hidden_cursor_stays_in_store:
  "onCursorShapeChanged fits 0 0 x y data (Some cs) vp = Some (Some cs, vp\<lparr>vp_cursorImage := None, vp_cursorHotspot := (0, 0)\<rparr>, [vp_cursorChanged])"
  by (simp add: onCursorShapeChanged_def)


section \<open>The frame rate\<close>

definition count_frames :: "int list \<Rightarrow> video_provider \<Rightarrow> video_provider" where
  "count_frames ts vp = foldl (\<lambda>vp now. fst (updateFrameRate now vp)) vp ts"

lemma frame_in_window:
  assumes "vp_frameRateStartTime vp = s" "s \<noteq> 0" "now < s + 1000" "0 \<le> vp_frameCount vp" "vp_frameCount vp + 1 < 2 ^ 31"
  shows "updateFrameRate now vp = (vp\<lparr>vp_frameCount := vp_frameCount vp + 1, vp_lastFrameTime := now\<rparr>, [])"
  using assms by (simp add: updateFrameRate_def Let_def)

lemma frames_in_window:
  assumes "vp_frameRateStartTime vp = s" "s \<noteq> 0" "\<forall>t\<in>set ts. t < s + 1000" "0 \<le> vp_frameCount vp"
    "vp_frameCount vp + int (length ts) < 2 ^ 31"
  shows "vp_frameRateStartTime (count_frames ts vp) = s \<and> vp_frameCount (count_frames ts vp) = vp_frameCount vp + int (length ts)
    \<and> vp_frameRate (count_frames ts vp) = vp_frameRate vp"
  using assms
proof (induction ts arbitrary: vp)
  case (Cons t ts)
  then show ?case using frame_in_window[of vp s t] by (simp add: count_frames_def)
qed (simp add: count_frames_def)

text \<open>
  A clock that is set back stops the frame rate: it keeps its value until the clock has caught up with the start of
  the window.
\<close>

lemma clock_back_freezes_rate:
  assumes "vp_frameRateStartTime vp = s" "s \<noteq> 0" "\<forall>t\<in>set ts. t < s + 1000" "0 \<le> vp_frameCount vp"
    "vp_frameCount vp + int (length ts) < 2 ^ 31"
  shows "vp_frameRate (count_frames ts vp) = vp_frameRate vp"
  using frames_in_window[OF assms] by blast

lemma rate_in_range:
  assumes "0 < n" "n * 1000 < 2 ^ 31" "1000 \<le> e"
  shows "wrap32 (wrap32 (n * 1000) sdiv e) = n * 1000 div e"
proof -
  have "n * 1000 div e \<le> n * 1000 div 1" using assms by (intro zdiv_mono2) simp_all
  moreover have "0 \<le> n * 1000 div e" using assms by (simp add: pos_imp_zdiv_nonneg_iff)
  moreover have "n * 1000 sdiv e = n * 1000 div e" using assms by (simp add: signed_divide_int_def sgn_mult)
  ultimately show ?thesis using assms by simp
qed

text \<open>
  The frame rate is the number of frames of the window that has just ended, divided by its length and rounded down,
  and a new window begins with the frame that ended it.
\<close>

lemma rate_of_window:
  assumes "vp_frameRateStartTime vp = s" "s \<noteq> 0" "vp_frameCount vp = 0" "\<forall>t\<in>set ts. t < s + 1000" "s + 1000 \<le> t'"
    and few: "(int (length ts) + 1) * 1000 < 2 ^ 31"
  shows "vp_frameRate (count_frames (ts @ [t']) vp) = (int (length ts) + 1) * 1000 div (t' - s)
    \<and> vp_frameRateStartTime (count_frames (ts @ [t']) vp) = t' \<and> vp_frameCount (count_frames (ts @ [t']) vp) = 0"
proof -
  have w: "vp_frameRateStartTime (count_frames ts vp) = s" "vp_frameCount (count_frames ts vp) = int (length ts)"
    using frames_in_window[OF assms(1,2,4)] assms(3) few by simp_all
  have "wrap32 (wrap32 ((int (length ts) + 1) * 1000) sdiv (t' - s)) = (int (length ts) + 1) * 1000 div (t' - s)"
    using assms(5) few by (intro rate_in_range) simp_all
  moreover have "wrap32 (int (length ts) + 1) = int (length ts) + 1" using few by simp
  moreover have "count_frames (ts @ [t']) vp = fst (updateFrameRate t' (count_frames ts vp))" by (simp add: count_frames_def)
  ultimately show ?thesis using assms(2,5) w by (simp add: updateFrameRate_def split_beta Let_def)
qed


section \<open>Frames\<close>

definition pictures :: "video_event list \<Rightarrow> (nat \<times> 32 word \<times> 32 word \<times> plane list) list" where
  "pictures ev = concat (map (\<lambda>e. case e of vp_setVideoFrame k w h ps \<Rightarrow> [(k, w, h, ps)] | _ \<Rightarrow> []) ev)"

lemma pictures_simps [simp]:
  "pictures [] = []" "pictures (ev @ ev') = pictures ev @ pictures ev'"
  "pictures (e # ev) = (case e of vp_setVideoFrame k w h ps \<Rightarrow> [(k, w, h, ps)] | _ \<Rightarrow> []) @ pictures ev"
  by (simp_all add: pictures_def)

lemma pictures_frame_rate [simp]: "pictures (snd (updateFrameRate now vp)) = []"
  by (simp add: updateFrameRate_def Let_def split_beta)

text \<open>A picture given to a sink is a frame read at that moment from the region of the window's device, and the window is active.\<close>

lemma picture_was_read:
  assumes "onVideoFrameReady mem now shm vp = Some (shm', vp', ev)" "(k, w, h, ps) \<in> set (pictures ev)"
  shows "vp_active vp \<and> vp_videoSink vp = Some k \<and> readVideoFrame mem (vp_deviceId vp) shm = (shm', Frame w h ps)"
  using onVideoFrameReady_push[OF assms(1)]
proof
  assume "pushFrame mem now shm vp = Some (shm', vp', ev)"
  then show ?thesis using assms(2) by (cases rule: pushFrame_cases) (auto split: if_splits)
qed (use assms(2) in simp)

lemma window_shows_read:
  assumes "vp_active vp" "vp_videoSink vp = Some sink" "vp_sharedMemoryManager vp \<noteq> None" "vp_deviceId vp \<noteq> []"
    and "shm_isAttached (vp_deviceId vp) shm" "readVideoFrame mem (vp_deviceId vp) shm = (shm', Frame w h ps)"
  shows "onVideoFrameReady mem now shm vp = Some (shm', fst (updateFrameRate now (vp\<lparr>vp_frameSize := (sint w, sint h)\<rparr>)),
    (if vp_frameSize vp \<noteq> (sint w, sint h) then [vp_frameSizeChanged] else []) @ [vp_setVideoFrame sink w h ps, vp_frameReceived]
      @ snd (updateFrameRate now (vp\<lparr>vp_frameSize := (sint w, sint h)\<rparr>)))"
proof -
  have same: "vp_frameSize vp = (sint w, sint h) \<Longrightarrow> vp\<lparr>vp_frameSize := (sint w, sint h)\<rparr> = vp" by simp
  show ?thesis
    using assms by (cases "vp_frameSize vp = (sint w, sint h)")
      (auto simp: onVideoFrameReady_def pushFrame_def split_beta Let_def same)
qed

lemma frame_rate_no_size [simp]: "vp_frameSizeChanged \<notin> set (snd (updateFrameRate now vp))"
  by (simp add: updateFrameRate_def Let_def split_beta)

lemma last_index_read:
  assumes "readVideoFrame (Some bytes) d shm = (shm', Frame w h ps)"
  shows "lastFrameIndex d shm' = fh_frame_index (header_of bytes)"
  using assms by (auto simp: readVideoFrame_def lastFrameIndex_def Let_def split: option.splits if_splits)

text \<open>
  C22. A window shows frames exactly. When the device of an active window with a sink announces a frame, its header is
  valid, its sizes agree with its data size without overflow and the region holds that much data, the
  window gives its sink one picture, of the size in the header, whose three planes are the data bytes in order, none
  missing and none read twice, and each has as many bytes as its lines need. The frame counter follows, and the
  window announces a new size exactly if the size is another one.
\<close>

theorem window_shows_frame_exactly:
  assumes window: "vp_active vp" "vp_videoSink vp = Some sink" "vp_sharedMemoryManager vp \<noteq> None" "vp_deviceId vp \<noteq> []"
    and region: "map_of shm (vp_deviceId vp) = Some handle" "sh_attached handle"
    and header: "header_ok (header_of bytes)" "size_ok (header_of bytes)"
      "unat (fh_data_size (header_of bytes)) = frame_bytes (header_of bytes)"
    and memory: "frame_bytes (header_of bytes) < 2 ^ 31" "header_size + frame_bytes (header_of bytes) \<le> length bytes"
  shows "\<exists>shm' vp' ev py pu pv. onVideoFrameReady (Some bytes) now shm vp = Some (shm', vp', ev)
    \<and> pictures ev = [(sink, fh_width (header_of bytes), fh_height (header_of bytes), [py, pu, pv])]
    \<and> pl_data py @ pl_data pu @ pl_data pv = take (frame_bytes (header_of bytes)) (drop header_size bytes)
    \<and> length (pl_data py) = unat (pl_bytesPerLine py) * unat (fh_height (header_of bytes))
    \<and> length (pl_data pu) = unat (pl_bytesPerLine pu) * (unat (fh_height (header_of bytes)) div 2)
    \<and> length (pl_data pv) = unat (pl_bytesPerLine pv) * (unat (fh_height (header_of bytes)) div 2)
    \<and> lastFrameIndex (vp_deviceId vp) shm' = fh_frame_index (header_of bytes)
    \<and> vp_frameSize vp' = (int (unat (fh_width (header_of bytes))), int (unat (fh_height (header_of bytes))))
    \<and> (vp_frameSizeChanged \<in> set ev \<longleftrightarrow> vp_frameSize vp \<noteq> vp_frameSize vp')"
proof -
  let ?w = "fh_width (header_of bytes)" and ?h = "fh_height (header_of bytes)"
  obtain py pu pv where read: "snd (readVideoFrame (Some bytes) (vp_deviceId vp) shm) = Frame ?w ?h [py, pu, pv]"
    and planes: "pl_data py @ pl_data pu @ pl_data pv = take (frame_bytes (header_of bytes)) (drop header_size bytes)"
      "length (pl_data py) = unat (pl_bytesPerLine py) * unat ?h" "length (pl_data pu) = unat (pl_bytesPerLine pu) * (unat ?h div 2)"
      "length (pl_data pv) = unat (pl_bytesPerLine pv) * (unat ?h div 2)"
    using frame_copied_exactly[OF region header memory] by blast
  then obtain shm' where r: "readVideoFrame (Some bytes) (vp_deviceId vp) shm = (shm', Frame ?w ?h [py, pu, pv])"
    by (metis prod.collapse)
  have attached: "shm_isAttached (vp_deviceId vp) shm" using region by (simp add: shm_isAttached_def)
  have size: "sint ?w = int (unat ?w)" "sint ?h = int (unat ?h)" using header(2) by (simp_all add: size_in_range)
  note shown = window_shows_read[OF window attached r, of now, unfolded size]
  show ?thesis
    by (rule exI, rule exI, rule exI, rule exI[of _ py], rule exI[of _ pu], rule exI[of _ pv], intro conjI, rule shown) (simp_all add: planes last_index_read[OF r] del: of_nat_unat)
qed


definition demo_window :: video_provider where
  "demo_window = VideoFrameProvider_init\<lparr>vp_videoSink := Some 1, vp_deviceId := ''dev'', vp_sharedMemoryManager := Some 2\<rparr>"

lemma demo_window_fields:
  "vp_active demo_window" "vp_videoSink demo_window = Some 1" "vp_sharedMemoryManager demo_window \<noteq> None" "vp_deviceId demo_window = ''dev''"
  by (simp_all add: demo_window_def VideoFrameProvider_init_def)

theorem window_shows_frame_exactly_witness:
  "\<exists>shm' vp' ev py pu pv. onVideoFrameReady (Some (demo_frame [1, 2, 3, 4, 5, 6])) 5000 demo_shm demo_window = Some (shm', vp', ev)
    \<and> pictures ev = [(1, 2, 2, [py, pu, pv])] \<and> pl_data py @ pl_data pu @ pl_data pv = [1, 2, 3, 4, 5, 6]
    \<and> vp_frameSize vp' = (2, 2)"
proof -
  have "vp_deviceId demo_window \<noteq> []" by (simp add: demo_window_fields)
  note w = window_shows_frame_exactly[OF demo_window_fields(1-3) this, unfolded demo_window_fields(4), OF demo_shm_handle,
    of "demo_frame [1, 2, 3, 4, 5, 6]" 5000]
  show ?thesis using w by (auto simp: demo_frame_eval)
qed

end
