(* ===== verification/Desktop.thy ===== *)
theory Desktop
  imports Settings
begin

text \<open>
  The parts of the program next to its windows: the geometry of screens and frames
  (\<open>QuickDesk/src/component/ScreenGeometryProvider.cpp\<close>), the icon in the tray (\<open>component/SystemTrayManager.cpp\<close>), the start
  with the session of the user (\<open>QuickDesk/infra/autostart\<close>, Windows build), and the settings as the interface sees them
  (\<open>viewmodel/configviewmodel.cpp\<close>) over the typed settings of \<open>Settings\<close>.

  What Windows answers is an argument. A file system is the list of the paths that exist.
\<close>


section \<open>Screens and frames\<close>

text \<open>\<open>QRect\<close>: valid if it has a positive width and height. Coordinates of screens are far from the limits of an \<open>int\<close>.\<close>

record geometry =
  ge_x :: int
  ge_y :: int
  ge_width :: int
  ge_height :: int

definition ge_isValid :: "geometry \<Rightarrow> bool" where
  "ge_isValid g \<longleftrightarrow> 0 < ge_width g \<and> 0 < ge_height g"

record qscreen =
  sc_available :: geometry
  sc_geometry :: geometry
  sc_name :: qstring
  sc_pixelRatio :: real

text \<open>The screen of the window, if the object is a window with a screen, and the primary screen, if there is one.\<close>

definition availableGeometryForWindow :: "qscreen option \<Rightarrow> qscreen option \<Rightarrow> jobject" where
  "availableGeometryForWindow windowScreen primaryScreen =
     (case (case windowScreen of Some s \<Rightarrow> Some s | None \<Rightarrow> primaryScreen) of
        None \<Rightarrow> mkobj [(''valid'', JBool False), (''x'', JInt 0), (''y'', JInt 0), (''width'', JInt 0), (''height'', JInt 0),
                  (''screenName'', JStr [])]
      | Some screen \<Rightarrow>
          let available = sc_available screen; geometry = sc_geometry screen
          in mkobj [(''valid'', JBool True), (''x'', JInt (ge_x available)), (''y'', JInt (ge_y available)),
               (''width'', JInt (ge_width available)), (''height'', JInt (ge_height available)), (''screenName'', JStr (sc_name screen)),
               (''screenX'', JInt (ge_x geometry)), (''screenY'', JInt (ge_y geometry)), (''screenWidth'', JInt (ge_width geometry)),
               (''screenHeight'', JInt (ge_height geometry)), (''devicePixelRatio'', JNum (sc_pixelRatio screen))])"

definition geometry_text :: "geometry \<Rightarrow> qstring" where
  "geometry_text g = string_of_int (ge_x g) @ '','' @ string_of_int (ge_y g) @ '' '' @ string_of_int (ge_width g) @ ''x'' @ string_of_int (ge_height g)"

definition no_margins :: "(qstring \<times> json) list" where
  "no_margins = [(''valid'', JBool False), (''left'', JInt 0), (''top'', JInt 0), (''right'', JInt 0), (''bottom'', JInt 0),
     (''totalWidth'', JInt 0), (''totalHeight'', JInt 0)]"

text \<open>The geometries of the window and of its frame; \<open>None\<close> if the object is not a window.\<close>

definition frameMarginsForWindow :: "(geometry \<times> geometry) option \<Rightarrow> jobject" where
  "frameMarginsForWindow window =
     (case window of
        None \<Rightarrow> mkobj no_margins
      | Some (g, f) \<Rightarrow>
          if \<not> ge_isValid g \<or> \<not> ge_isValid f then mkobj no_margins
          else
            let left = ge_x g - ge_x f; top = ge_y g - ge_y f;
                right = (ge_x f + ge_width f) - (ge_x g + ge_width g);
                bottom = (ge_y f + ge_height f) - (ge_y g + ge_height g)
            in mkobj [(''valid'', JBool True), (''left'', JInt left), (''top'', JInt top), (''right'', JInt right), (''bottom'', JInt bottom),
                 (''totalWidth'', JInt (left + right)), (''totalHeight'', JInt (top + bottom)),
                 (''geometry'', JStr (geometry_text g)), (''frameGeometry'', JStr (geometry_text f))])"

text \<open>The margins account for the whole difference between a frame and its window, and are not negative when the window lies in its frame.\<close>

lemma margins_total:
  assumes "ge_isValid g" "ge_isValid f"
  shows "oget (frameMarginsForWindow (Some (g, f))) ''totalWidth'' = JInt (ge_width f - ge_width g)"
    "oget (frameMarginsForWindow (Some (g, f))) ''totalHeight'' = JInt (ge_height f - ge_height g)"
  using assms by (simp_all add: frameMarginsForWindow_def oget_mkobj Let_def)

lemma margins_not_negative:
  assumes "ge_isValid g" "ge_isValid f" "ge_x f \<le> ge_x g" "ge_x g + ge_width g \<le> ge_x f + ge_width f"
  shows "0 \<le> toDouble (oget (frameMarginsForWindow (Some (g, f))) ''left'')" "0 \<le> toDouble (oget (frameMarginsForWindow (Some (g, f))) ''right'')"
proof -
  have "0 \<le> real_of_int (ge_x g - ge_x f)" "0 \<le> real_of_int ((ge_x f + ge_width f) - (ge_x g + ge_width g))"
    using assms(3,4) by (simp_all only: of_int_0_le_iff)
  then show "0 \<le> toDouble (oget (frameMarginsForWindow (Some (g, f))) ''left'')" "0 \<le> toDouble (oget (frameMarginsForWindow (Some (g, f))) ''right'')"
    using assms(1,2) by (simp_all add: frameMarginsForWindow_def oget_mkobj Let_def)
qed


section \<open>The tray\<close>

datatype tray_reason = TrayTrigger | TrayDoubleClick | TrayOther

datatype tray_event =
    ty_showWindowRequested
  | ty_showMessage qstring qstring nat \<comment> \<open>title, text and time shown\<close>
  | ty_show
  | ty_hide
  | ty_quitAfter nat
  | ty_setting cfg_event

record system_tray =
  ty_config :: config
  ty_visible :: bool

definition initTrayIcon :: "config \<Rightarrow> system_tray \<times> tray_event list" where
  "initTrayIcon c = (\<lparr>ty_config = c, ty_visible = True\<rparr>, [ty_show])"

definition tray_hide :: "system_tray \<Rightarrow> system_tray \<times> tray_event list" where
  "tray_hide ty = (ty\<lparr>ty_visible := False\<rparr>, [ty_hide])"

definition tray_quit :: "system_tray \<Rightarrow> system_tray \<times> tray_event list" where
  "tray_quit ty = (let (ty1, ev) = tray_hide ty in (ty1, ev @ [ty_quitAfter 200]))"

definition onTrayActivated :: "tray_reason \<Rightarrow> system_tray \<Rightarrow> system_tray \<times> tray_event list" where
  "onTrayActivated reason ty = (ty, if reason = TrayTrigger \<or> reason = TrayDoubleClick then [ty_showWindowRequested] else [])"

text \<open>\<open>tr\<close> translates; \<open>ok\<close> says whether the configuration can be written.\<close>

definition minimizeToTray :: "(qstring \<Rightarrow> qstring) \<Rightarrow> bool \<Rightarrow> system_tray \<Rightarrow> system_tray \<times> tray_event list" where
  "minimizeToTray tr ok ty =
     (if \<not> lcc_getBool ''trayMessageShown'' False (ty_config ty)
      then (let (c, ev) = lcc_setBool ok ''trayMessageShown'' True (ty_config ty)
            in (ty\<lparr>ty_config := c\<rparr>,
                map ty_setting ev @ [ty_showMessage (tr ''QuickDesk'') (tr ''QuickDesk is still running in the background.'') 3000]))
      else (ty, []))"

datatype tray_input = TyMinimize | TyShow | TyQuit | TyActivated tray_reason

fun tray_exec :: "(qstring \<Rightarrow> qstring) \<Rightarrow> bool \<Rightarrow> tray_input \<Rightarrow> system_tray \<Rightarrow> system_tray \<times> tray_event list" where
  "tray_exec tr ok TyMinimize ty = minimizeToTray tr ok ty"
| "tray_exec tr ok TyShow ty = (ty, [ty_showWindowRequested])"
| "tray_exec tr ok TyQuit ty = tray_quit ty"
| "tray_exec tr ok (TyActivated r) ty = onTrayActivated r ty"

fun tray_run :: "(qstring \<Rightarrow> qstring) \<Rightarrow> bool \<Rightarrow> tray_input list \<Rightarrow> system_tray \<Rightarrow> tray_event list" where
  "tray_run tr ok [] ty = []"
| "tray_run tr ok (i # is) ty = (let (ty', ev) = tray_exec tr ok i ty in ev @ tray_run tr ok is ty')"

definition hints :: "tray_event list \<Rightarrow> nat" where
  "hints ev = length (filter (\<lambda>e. case e of ty_showMessage t m n \<Rightarrow> True | _ \<Rightarrow> False) ev)"

lemma hints_simps [simp]: "hints [] = 0" "hints (ev @ ev') = hints ev + hints ev'" "hints (map ty_setting cs) = 0"
  by (induction cs) (simp_all add: hints_def)

lemma no_hint_once_shown:
  assumes "lcc_getBool ''trayMessageShown'' False (ty_config ty)"
  shows "hints (tray_run tr ok is ty) = 0"
  using assms
proof (induction "is" arbitrary: ty)
  case (Cons i "is")
  then show ?case
    by (cases i) (simp_all add: minimizeToTray_def tray_quit_def tray_hide_def onTrayActivated_def hints_def split: if_splits)
qed simp

text \<open>The hint that the program keeps running is shown at most once, if the configuration can be written.\<close>

lemma hint_at_most_once: "hints (tray_run tr True is ty) \<le> 1"
proof (induction "is" arbitrary: ty)
  case (Cons i "is")
  show ?case
  proof (cases "i = TyMinimize \<and> \<not> lcc_getBool ''trayMessageShown'' False (ty_config ty)")
    case True
    obtain c ev where s: "lcc_setBool True ''trayMessageShown'' True (ty_config ty) = (c, ev)" by fastforce
    have "lcc_getBool ''trayMessageShown'' False c"
      using bool_setting.get_put[where key = "''trayMessageShown''" and v = True and d = False and c = "ty_config ty"] s by simp
    then have "hints (tray_run tr True is (ty\<lparr>ty_config := c\<rparr>)) = 0" by (intro no_hint_once_shown) simp
    moreover have "hints [ty_showMessage a b n] = 1" for a b n by (simp add: hints_def)
    ultimately show ?thesis using True s hints_simps(2)[of "[ty_showMessage (tr ''QuickDesk'') (tr ''QuickDesk is still running in the background.'') 3000]"]
      by (simp add: minimizeToTray_def)
  next
    case False
    then have "hints (snd (tray_exec tr True i ty)) = 0"
      by (cases i) (auto simp: minimizeToTray_def tray_quit_def tray_hide_def onTrayActivated_def hints_def)
    then show ?thesis using Cons.IH by (simp add: split_beta)
  qed
qed simp


section \<open>Start with the session\<close>

text \<open>
  The folder of links that Windows opens with a session, and the objects of COM used to write a link. A failed
  \<open>HRESULT\<close> is \<open>False\<close>; \<open>as_comInitialized\<close> holds if \<open>CoInitializeEx\<close> gives \<open>S_OK\<close> or \<open>S_FALSE\<close>,
  and only then has COM been entered.
\<close>

record autostart_env =
  as_startupFolder :: "qstring option"
  as_applicationName :: qstring
  as_applicationFile :: qstring
  as_applicationDir :: qstring
  as_comInitialized :: bool
  as_createInstance :: bool
  as_queryInterface :: bool
  as_save :: bool
  as_remove :: bool

datatype com_event =
    co_initialize
  | co_uninitialize
  | co_createLink
  | co_setLink qstring qstring qstring \<comment> \<open>path, arguments, working directory\<close>
  | co_queryFile
  | co_save qstring
  | co_releaseFile
  | co_releaseLink

type_synonym files = "qstring list"

definition getStartupFolderPath :: "autostart_env \<Rightarrow> qstring" where
  "getStartupFolderPath env = (case as_startupFolder env of Some p \<Rightarrow> p | None \<Rightarrow> [])"

definition getStartupLinkPath :: "autostart_env \<Rightarrow> qstring" where
  "getStartupLinkPath env =
     (let startupFolder = getStartupFolderPath env
      in if startupFolder = [] then [] else startupFolder @ [CHR 0x5C] @ as_applicationName env @ ''.lnk'')"

definition createShortcut :: "autostart_env \<Rightarrow> qstring \<Rightarrow> qstring \<Rightarrow> qstring \<Rightarrow> qstring \<Rightarrow> files \<Rightarrow> files \<times> com_event list \<times> bool" where
  "createShortcut env linkPath targetPath args workingDir fs =
     (let opened = (if as_comInitialized env then [co_initialize] else []);
          closed = (if as_comInitialized env then [co_uninitialize] else [])
      in if \<not> as_createInstance env then (fs, opened @ closed, False)
         else
           let link = opened @ [co_createLink, co_setLink targetPath args workingDir]
           in if \<not> as_queryInterface env then (fs, link @ [co_releaseLink] @ closed, False)
              else (if as_save env then List.insert linkPath fs else fs,
                    link @ [co_queryFile, co_save linkPath, co_releaseFile, co_releaseLink] @ closed, as_save env))"

definition isAutoStartEnabled :: "autostart_env \<Rightarrow> files \<Rightarrow> bool" where
  "isAutoStartEnabled env fs = (let linkPath = getStartupLinkPath env in if linkPath = [] then False else linkPath \<in> set fs)"

definition enableAutoStart :: "autostart_env \<Rightarrow> qstring \<Rightarrow> files \<Rightarrow> files \<times> com_event list \<times> bool" where
  "enableAutoStart env args fs =
     (let linkPath = getStartupLinkPath env
      in if linkPath = [] then (fs, [], False)
         else createShortcut env linkPath (as_applicationFile env) args (as_applicationDir env) fs)"

definition disableAutoStart :: "autostart_env \<Rightarrow> files \<Rightarrow> files \<times> com_event list \<times> bool" where
  "disableAutoStart env fs =
     (let linkPath = getStartupLinkPath env
      in if linkPath = [] then (fs, [], False)
         else if linkPath \<notin> set fs then (fs, [], True)
         else if as_remove env then (removeAll linkPath fs, [], True) else (fs, [], False))"

definition setAutoStartEnabled :: "autostart_env \<Rightarrow> bool \<Rightarrow> qstring \<Rightarrow> files \<Rightarrow> files \<times> com_event list \<times> bool" where
  "setAutoStartEnabled env enable args fs = (if enable then enableAutoStart env args fs else disableAutoStart env fs)"

text \<open>On every path COM is left as often as it was entered and both interfaces are released once.\<close>

lemma com_balanced:
  assumes "createShortcut env l t a w fs = (fs', ev, ok)"
  shows "count_list ev co_initialize = count_list ev co_uninitialize" "count_list ev co_createLink = count_list ev co_releaseLink"
    "count_list ev co_queryFile = count_list ev co_releaseFile"
  using assms by (auto simp: createShortcut_def Let_def split: if_splits)

text \<open>What \<open>setAutoStartEnabled\<close> reports is whether the setting now has the value asked for.\<close>

lemma autostart_reports:
  assumes "setAutoStartEnabled env enable args fs = (fs', ev, ok)"
  shows "ok \<longleftrightarrow> getStartupLinkPath env \<noteq> [] \<and> (if enable then as_createInstance env \<and> as_queryInterface env \<and> as_save env
      else isAutoStartEnabled env fs \<longrightarrow> as_remove env)"
    "ok \<Longrightarrow> isAutoStartEnabled env fs' = enable" "\<not> ok \<Longrightarrow> fs' = fs"
  using assms
  by (auto simp: setAutoStartEnabled_def enableAutoStart_def disableAutoStart_def createShortcut_def isAutoStartEnabled_def Let_def split: if_splits)


section \<open>The settings as the interface sees them\<close>

datatype cvm_event =
    darkThemeChanged int
  | languageChanged qstring
  | accessCodeRefreshIntervalChanged int
  | preferredVideoCodecChanged qstring
  | autoStartChanged bool
  | autoPrivacyScreenOnConnectChanged bool
  | remoteTabBarPinnedChanged bool
  | remoteDesktopMiniMapVisibleChanged bool
  | apiKeyChanged qstring

text \<open>The connections made by the constructor; the other settings have no counterpart.\<close>

fun cvm_forward :: "cfg_event \<Rightarrow> cvm_event list" where
  "cvm_forward (cfg_intChanged key v) =
     (if key = ''darkTheme'' then [darkThemeChanged v]
      else if key = ''accessCodeRefreshInterval'' then [accessCodeRefreshIntervalChanged v] else [])"
| "cvm_forward (cfg_stringChanged key v) =
     (if key = ''language'' then [languageChanged v]
      else if key = ''preferredVideoCodec'' then [preferredVideoCodecChanged v]
      else if key = ''apiKey'' then [apiKeyChanged v] else [])"
| "cvm_forward (cfg_boolChanged key v) =
     (if key = ''autoPrivacyScreenOnConnect'' then [autoPrivacyScreenOnConnectChanged v]
      else if key = ''remoteTabBarPinned'' then [remoteTabBarPinnedChanged v]
      else if key = ''remoteDesktopMiniMapVisible'' then [remoteDesktopMiniMapVisibleChanged v] else [])"

definition forwarded :: "config \<times> cfg_event list \<Rightarrow> config \<times> cvm_event list" where
  "forwarded r = (fst r, concat (map cvm_forward (snd r)))"

definition cvm_darkTheme :: "config \<Rightarrow> int" where
  "cvm_darkTheme c = lcc_getInt ''darkTheme'' 1 c"

definition cvm_setDarkTheme :: "bool \<Rightarrow> int \<Rightarrow> config \<Rightarrow> config \<times> cvm_event list" where
  "cvm_setDarkTheme ok v c = forwarded (lcc_setInt ok ''darkTheme'' v c)"

definition cvm_language :: "config \<Rightarrow> qstring" where
  "cvm_language c = lcc_getString ''language'' ''Auto'' c"

definition cvm_setLanguage :: "bool \<Rightarrow> qstring \<Rightarrow> config \<Rightarrow> config \<times> cvm_event list" where
  "cvm_setLanguage ok v c = forwarded (lcc_setString ok ''language'' v c)"

definition cvm_accessCodeRefreshInterval :: "config \<Rightarrow> int" where
  "cvm_accessCodeRefreshInterval c = lcc_getInt ''accessCodeRefreshInterval'' 120 c"

definition cvm_setAccessCodeRefreshInterval :: "bool \<Rightarrow> int \<Rightarrow> config \<Rightarrow> config \<times> cvm_event list" where
  "cvm_setAccessCodeRefreshInterval ok v c = forwarded (lcc_setInt ok ''accessCodeRefreshInterval'' v c)"

definition cvm_preferredVideoCodec :: "config \<Rightarrow> qstring" where
  "cvm_preferredVideoCodec c = lcc_getString ''preferredVideoCodec'' ''AV1'' c"

definition cvm_setPreferredVideoCodec :: "bool \<Rightarrow> qstring \<Rightarrow> config \<Rightarrow> config \<times> cvm_event list" where
  "cvm_setPreferredVideoCodec ok v c = forwarded (lcc_setString ok ''preferredVideoCodec'' v c)"

definition cvm_autoStart :: "autostart_env \<Rightarrow> files \<Rightarrow> bool" where
  "cvm_autoStart env fs = isAutoStartEnabled env fs"

text \<open>The result of \<open>setAutoStartEnabled\<close> is not looked at. The arguments are those \<open>autostartmanager.h\<close> gives by default.\<close>

definition cvm_setAutoStart :: "autostart_env \<Rightarrow> qstring \<Rightarrow> bool \<Rightarrow> files \<Rightarrow> files \<times> com_event list \<times> cvm_event list" where
  "cvm_setAutoStart env defaultArgs v fs =
     (if cvm_autoStart env fs = v then (fs, [], [])
      else (let (fs', ev, ok) = setAutoStartEnabled env v defaultArgs fs in (fs', ev, [autoStartChanged v])))"

definition cvm_autoPrivacyScreenOnConnect :: "config \<Rightarrow> bool" where
  "cvm_autoPrivacyScreenOnConnect c = lcc_getBool ''autoPrivacyScreenOnConnect'' False c"

definition cvm_setAutoPrivacyScreenOnConnect :: "bool \<Rightarrow> bool \<Rightarrow> config \<Rightarrow> config \<times> cvm_event list" where
  "cvm_setAutoPrivacyScreenOnConnect ok v c = forwarded (lcc_setBool ok ''autoPrivacyScreenOnConnect'' v c)"

definition cvm_remoteTabBarPinned :: "config \<Rightarrow> bool" where
  "cvm_remoteTabBarPinned c = lcc_getBool ''remoteTabBarPinned'' False c"

definition cvm_setRemoteTabBarPinned :: "bool \<Rightarrow> bool \<Rightarrow> config \<Rightarrow> config \<times> cvm_event list" where
  "cvm_setRemoteTabBarPinned ok v c = forwarded (lcc_setBool ok ''remoteTabBarPinned'' v c)"

definition cvm_remoteDesktopMiniMapVisible :: "config \<Rightarrow> bool" where
  "cvm_remoteDesktopMiniMapVisible c = lcc_getBool ''remoteDesktopMiniMapVisible'' True c"

definition cvm_setRemoteDesktopMiniMapVisible :: "bool \<Rightarrow> bool \<Rightarrow> config \<Rightarrow> config \<times> cvm_event list" where
  "cvm_setRemoteDesktopMiniMapVisible ok v c = forwarded (lcc_setBool ok ''remoteDesktopMiniMapVisible'' v c)"

definition cvm_apiKey :: "config \<Rightarrow> qstring" where
  "cvm_apiKey c = lcc_getString ''apiKey'' [] c"

definition cvm_setApiKey :: "bool \<Rightarrow> qstring \<Rightarrow> config \<Rightarrow> config \<times> cvm_event list" where
  "cvm_setApiKey ok v c = forwarded (lcc_setString ok ''apiKey'' v c)"

text \<open>The interface reads back what it has set.\<close>

lemma interface_reads_back:
  "storable_int i \<Longrightarrow> cvm_darkTheme (fst (cvm_setDarkTheme True i c)) = i"
  "storable_int i \<Longrightarrow> cvm_accessCodeRefreshInterval (fst (cvm_setAccessCodeRefreshInterval True i c)) = i"
  "s \<noteq> [] \<Longrightarrow> cvm_language (fst (cvm_setLanguage True s c)) = s"
  "s \<noteq> [] \<Longrightarrow> cvm_preferredVideoCodec (fst (cvm_setPreferredVideoCodec True s c)) = s"
  "s \<noteq> [] \<Longrightarrow> cvm_apiKey (fst (cvm_setApiKey True s c)) = s"
  "cvm_autoPrivacyScreenOnConnect (fst (cvm_setAutoPrivacyScreenOnConnect True b c)) = b"
  "cvm_remoteTabBarPinned (fst (cvm_setRemoteTabBarPinned True b c)) = b"
  "cvm_remoteDesktopMiniMapVisible (fst (cvm_setRemoteDesktopMiniMapVisible True b c)) = b"
  by (simp_all add: forwarded_def cvm_darkTheme_def cvm_setDarkTheme_def cvm_accessCodeRefreshInterval_def cvm_setAccessCodeRefreshInterval_def
      cvm_language_def cvm_setLanguage_def cvm_preferredVideoCodec_def cvm_setPreferredVideoCodec_def cvm_apiKey_def cvm_setApiKey_def
      cvm_autoPrivacyScreenOnConnect_def cvm_setAutoPrivacyScreenOnConnect_def cvm_remoteTabBarPinned_def cvm_setRemoteTabBarPinned_def
      cvm_remoteDesktopMiniMapVisible_def cvm_setRemoteDesktopMiniMapVisible_def int_setting.get_put string_setting.get_put bool_setting.get_put)

text \<open>Taking the API key away is announced each time it is asked for: the empty text counts as not set, and storing it again is announced again.\<close>

lemma empty_key_announced_again:
  "snd (cvm_setApiKey True [] (fst (cvm_setApiKey True [] c))) = [apiKeyChanged []]"
  by (simp add: cvm_setApiKey_def forwarded_def lcc_setString_def lcc_getString_def cfg_get_set Let_def)

text \<open>A change of the autostart that Windows refuses is announced as if it had happened.\<close>

lemma refused_autostart_announced:
  assumes "getStartupLinkPath env \<noteq> []" "\<not> as_save env" "\<not> isAutoStartEnabled env fs"
  shows "\<exists>ev. cvm_setAutoStart env args True fs = (fs, ev, [autoStartChanged True])"
    "\<not> cvm_autoStart env (fst (cvm_setAutoStart env args True fs))"
  using assms
  by (simp_all add: cvm_setAutoStart_def cvm_autoStart_def setAutoStartEnabled_def enableAutoStart_def createShortcut_def Let_def)

end
