(* ===== verification/Spec2Isabelle.thy ===== *)
theory Spec2Isabelle
  imports NativeMessaging FileTransferProperties WebSocketSafety TrustHandler SkillHandler VerificationService ProcessSupervision ApiProperties
    SkillHostManager RemoteDeviceManager ServerSettings ConnectionListModel AuthProperties CloudProperties MainProperties RecorderProperties PresetManager IddProperties AesProperties
    VideoProperties Desktop
begin

text \<open>
  QuickDesk: verification of the desktop application's C++ core.

  \<^bold>\<open>The program.\<close> QuickDesk is a remote desktop. The Qt application under \<open>QuickDesk/src\<close> supervises two child
  processes, the host (this device as seen by others) and the client (connections to other devices), and
  talks to each over a framed JSON channel. On top of that it keeps the tables of connections, sessions
  and file transfers, reads video frames from shared memory, stores its settings and the history
  of devices, and offers all of this to programs through a WebSocket API with tokens, permissions and
  confirmations. The parts interact as follows.

  \<^item> \<open>ProcessManager\<close> starts, stops and restarts the processes and creates their \<open>NativeMessaging\<close> channels.
  \<^item> \<open>HostManager\<close> and \<open>ClientManager\<close> send requests over these channels and handle the messages that come back;
    \<open>ClientManager\<close> owns a \<open>FileTransferQueue\<close> and a \<open>SharedMemoryManager\<close>, \<open>SkillHostManager\<close> uses \<open>HostManager\<close>.
  \<^item> \<open>WebSocketServer\<close> passes a request through \<open>SecurityManager\<close> and hands it to \<open>ApiHandler\<close>, which calls the two managers,
    the text recognition (\<open>OcrEngine\<close>, \<open>OcrCache\<close>, \<open>UiStateService\<close>, \<open>VerificationService\<close>), \<open>TrustHandler\<close> and \<open>SkillHandler\<close>.
  \<^item> \<open>AuthManager\<close> keeps the user's session with the account server over HTTP; \<open>CloudDeviceManager\<close> keeps the account's device list with requests
    through \<open>AuthManager\<close> and a realtime channel of its own.
  \<^item> \<open>MainController\<close> owns all of them, connects their signals, and checks an access code with the server before it connects to a device.
  \<^item> \<open>DeviceRecorder\<close> writes the video of a session to a file while it runs.
  \<^item> The configuration, the presets of a server and the user database hold what outlives the program; \<open>qaesencryption\<close> is the cipher of the code base.
  \<^item> The directory \<open>quickdesk-virtual-display\<close> holds a display driver for Windows (\<open>driver/\<close>) and the C library programs use to plug and
    unplug its monitors (\<open>control/\<close>). The two exchange fixed binary structures.

  \<^bold>\<open>How code becomes definitions.\<close> A class is a \<open>record\<close> with a field for each member, an enumeration a \<open>datatype\<close>, a
  method a definition with the name of the method (with a short prefix where two classes share a name).
  A method that changes state returns the new state and the list of what it emits, sends or calls, in
  order; a failure is a value (\<open>option\<close>, a sum, an error event, or a Boolean as in the code). A component is
  driven by a datatype of inputs, one for each public method, slot and timer, with a function \<open>..._exec\<close>; any
  interleaving of calls and events is a list of inputs, and the reachable states are those of the
  resulting step relation. \<open>QMap\<close> is an association list in key order. A call that waits in a nested event
  loop is split at the point where it waits. Qt itself, the file system, the clock, the recognition
  library and the SQL engine are not part of the program: what they answer is an argument, usually a
  field of an environment record, and what is assumed of them is a named hypothesis.

  \<^bold>\<open>Theories and sources\<close> (under \<open>QuickDesk/src\<close>).

  \<^item> \<open>Prelude\<close>, \<open>Json\<close>, \<open>Actions\<close>: strings, ordered maps, decimal numbers, reachability and the locale
    \<open>invariant_system\<close>; JSON values; sequencing of statements.
  \<^item> \<open>NativeMessaging\<close> (\<open>manager/NativeMessaging\<close>): framing with a 32-bit length. Any sequence of messages survives any cutting of
    the byte stream; the parse loop ends except on the lengths whose sum with 4 wraps, on
    one of which it provably runs for ever. The loop is a \<open>partial_function\<close>, so that not returning is \<open>None\<close>.
  \<^item> \<open>FileTransferQueue\<close>, \<open>FileTransferSafety\<close>, \<open>FileTransferProperties\<close> (\<open>manager/FileTransferQueue\<close>): one upload in flight and at most
    256 waiting for each connection, sessions and transfers that end stay ended, late messages are
    ignored, the next upload starts, a finished download lies in its directory.
  \<^item> \<open>SecurityManager\<close>, \<open>WebSocketServer\<close>, \<open>WebSocketSafety\<close> (\<open>api/\<close>): the sliding window of the rate limiter (locale
    \<open>sliding_window\<close>), the gate every request passes, the client tables, session timeouts.
  \<^item> \<open>Rendezvous\<close>, \<open>TrustHandler\<close>, \<open>SkillHandler\<close> (\<open>api/\<close>): calls that wait for an answer, as a state machine of suspended frames
    with the locale \<open>rendezvous_client\<close>; an emergency stop denies what waits, an approval needs an approving
    answer, a reply belongs to its request.
  \<^item> \<open>OcrCache\<close>, \<open>OcrEngine\<close>, \<open>UiStateService\<close>, \<open>VerificationService\<close> (\<open>api/\<close>): the cache (locale \<open>result_cache\<close>) does not change results, polling
    loops find a text exactly if it is visible at a poll. The screen at the \<open>n\<close>-th poll is an argument; the number of polls
    is the timeout divided by the interval, as in the code.
  \<^item> \<open>ProcessManager\<close>, \<open>ProcessSupervision\<close> (\<open>manager/ProcessManager\<close>): the two supervisors (locale \<open>restart_supervisor\<close>), the phases of a stop, back-off.
  \<^item> \<open>SharedMemoryManager\<close> (\<open>manager/\<close>): frame headers and the copy of the planes in 32-bit arithmetic; reading outside the region is a result of its own.
  \<^item> \<open>ClientManager\<close>, \<open>ClientRouting\<close>, \<open>ClientTables\<close>, \<open>ClientProperties\<close> (\<open>manager/ClientManager\<close>): every message and command. The manager refines the transfer
    queue (locale \<open>queue_client\<close>), its two tables are inverse, live transfers belong to connections, commands stay in range.
  \<^item> \<open>HostManager\<close>, \<open>HostProperties\<close> (\<open>manager/HostManager\<close>): simulation of an abstract session map, every change announced, nothing left after the channel is gone.
  \<^item> \<open>ApiHandler\<close>, \<open>ApiProperties\<close> (\<open>api/ApiHandler\<close>): the 39 methods and their dispatch over the models of the managers; read-only methods change nothing,
    a hotkey is sent completely or not at all, a click lands on the text that was found.
  \<^item> \<open>SkillHostManager\<close> (\<open>manager/\<close>): JSON lines of the skill host, forwarded through the host manager.
  \<^item> \<open>UserData\<close>, \<open>RemoteDeviceManager\<close> (\<open>core/db/userdatadatabase\<close>, \<open>manager/RemoteDeviceManager\<close>): the history of devices over its SQL table.
  \<^item> \<open>Settings\<close>, \<open>ServerSettings\<close> (\<open>core/localconfigcenter\<close>, \<open>core/db/appconfigdatabase\<close>, \<open>manager/ServerManager\<close>, \<open>manager/TurnServerManager\<close>): typed settings
    (locale \<open>setting\<close>) and the managers that cache one.
  \<^item> \<open>ConnectionListModel\<close> (\<open>viewmodel/connectionlistmodel\<close>): the list behind the tab bar and a view that follows its signals.
  \<^item> \<open>HttpClient\<close>, \<open>AuthManager\<close>, \<open>AuthProperties\<close> (\<open>../infra/http/httprequest\<close>, \<open>manager/AuthManager\<close>): requests in flight and the callbacks that wait for them. At
    most one refresh of the token is in flight, every request is answered once, the tokens on disk are those in memory (locale \<open>token_property\<close>).
  \<^item> \<open>CloudDeviceManager\<close>, \<open>CloudProperties\<close> (\<open>manager/CloudDeviceManager\<close>): the device list under requests, events and snapshots, ordered by revisions. An event takes
    effect once, old replies do not undo a loss, reconnect delays are bounded, each check of an access code is answered once.
  \<^item> \<open>McpService\<close>, \<open>MainController\<close>, \<open>MainProperties\<close> (\<open>controller/MainController\<close>): the composition of all managers, signal by signal. One analysis of its slots (locales
    \<open>controller_slots\<close> and \<open>controller_program\<close>) carries two theorems on all runs of the program: no attempt to connect is lost, and screen events are throttled.
    The continuation of a request is an entry of a table under the number of the request.
  \<^item> \<open>DeviceRecorder\<close>, \<open>RecorderProperties\<close> (\<open>manager/DeviceRecorder\<close>): the recorder and its encoder process. A recording that was announced ends as
    finished or failed and leaves no open row behind.
  \<^item> \<open>Language\<close> (\<open>language/languagemanage\<close>, \<open>component/KeycodeMapper\<close>): the choice of a translation; the key code and the lock keys of the last key event.
  \<^item> \<open>PresetManager\<close> (\<open>manager/PresetManager\<close>): the presets a server offers and the comparison of versions.
  \<^item> \<open>DisplayDriver\<close>, \<open>DriverProperties\<close> (\<open>../../quickdesk-virtual-display/driver\<close>): the driver's table of monitors, its EDID blocks and modes, the
    control requests with their bounds, the thread of a swap chain.
  \<^item> \<open>IddController\<close>, \<open>IddProperties\<close> (\<open>../../quickdesk-virtual-display/control\<close>): the library. Its buffers are the ones the driver reads (a round trip
    through both models), every request returns what it opened, the message tells the result.
  \<^item> \<open>VideoProvider\<close>, \<open>VideoProperties\<close> (\<open>component/VideoFrameProvider\<close>, \<open>component/CursorImageProvider\<close>): what a window shows. A picture is exactly the frame
    in the region, the rate is that of the last window of time, a cursor image has exactly the bytes of its pixels, and the shape
    whose size wraps is read outside of its message.
  \<^item> \<open>Desktop\<close> (\<open>component/ScreenGeometryProvider\<close>, \<open>component/SystemTrayManager\<close>, \<open>viewmodel/configviewmodel\<close>, \<open>../infra/autostart\<close>): margins of a
    frame, the hint in the tray, the start with the session, the settings as the interface reads and writes them.
  \<^item> \<open>Aes\<close>, \<open>AesProperties\<close> (\<open>../base/qaesencryption\<close>): the cipher in its portable form, all levels, modes and paddings; decryption undoes encryption.

  \<^bold>\<open>Bounds.\<close> Machine integers are kept at their width where the code computes with them (frame lengths, plane sizes, scan codes
  and button codes sent as JSON numbers, the structures of the display driver, the bytes of the cipher); times in milliseconds and counters the
  code only increments are unbounded. No definition uses fuel: the loops are structural, have a measure, or are \<open>partial_function\<close>s
  (the parse loop of a channel, the loop of a swap chain's thread) whose result \<open>None\<close> is a loop that does not end.

  \<^bold>\<open>Not modelled.\<close> The QML interface, the Go server, the web, mobile and Rust programs are other languages. Logging and
  the start of the application with its crash handler are calls of the platform one after the other, with no state of their
  own. The branch of the cipher that uses the processor's AES instructions (\<open>USE_INTEL_AES_IF_AVAILABLE\<close>) is inline code for one processor and not
  built by default. The driver's registration with the framework and the library's use of the Windows setup functions are parameters.
\<close>

end
